(* ===== verification/RosZ_Prelude.thy ===== *)
theory RosZ_Prelude
  imports Main "HOL-Library.Word"
begin

text \<open>
  Shared vocabulary of the development: the outcome type of Rust code (a value, an error value or
  a panic), the state-and-outcome type of a method that takes \<^verbatim>\<open>&mut self\<close>, the few
  combinators by which the translated methods are composed, the machine integers, UTF-8 validation
  as the Rust standard library performs it, and the generic lemmas that the component theories
  use.  Nothing here models a file of the repository.
\<close>

section \<open>Collections of facts\<close>

named_theorems exec_simps \<open>equations of the state-and-outcome combinators\<close>
named_theorems refines_intros \<open>a writer action refines a pure encoder\<close>
named_theorems parses_intros \<open>a reader action inverts a pure encoder\<close>
named_theorems safe_intros \<open>a reader action stays inside its input and does not panic\<close>

section \<open>Machine integers and bytes\<close>

type_synonym u8 = "8 word"
type_synonym u16 = "16 word"
type_synonym u32 = "32 word"
type_synonym u64 = "64 word"
type_synonym u128 = "128 word"

text \<open>
  A signed integer or an IEEE float is its two's complement, respectively IEEE, bit pattern.  Sums
  of signed integers are sums of their bit patterns; no code that is modelled calculates with a
  float.
\<close>

type_synonym i8 = "8 word"
type_synonym i16 = "16 word"
type_synonym i32 = "32 word"
type_synonym i64 = "64 word"
type_synonym f32 = "32 word"
type_synonym f64 = "64 word"

type_synonym bytes = "u8 list"

section \<open>Outcomes and stateful methods\<close>

datatype ('a, 'e) result = Ok 'a | Err 'e | Panic

text \<open>
  A method \<^verbatim>\<open>fn m(&mut self, ..) -> Result<T, E>\<close> is a function from the state to
  the outcome and the state left behind, also when the outcome is an error.
\<close>

type_synonym ('s, 'a, 'e) exec = "'s \<Rightarrow> ('a, 'e) result \<times> 's"

definition ret :: "'a \<Rightarrow> ('s, 'a, 'e) exec" where
  "ret x = (\<lambda>s. (Ok x, s))"

definition throw :: "'e \<Rightarrow> ('s, 'a, 'e) exec" where
  "throw e = (\<lambda>s. (Err e, s))"

definition panic :: "('s, 'a, 'e) exec" where
  "panic = (\<lambda>s. (Panic, s))"

definition andthen :: "('s, 'a, 'e) exec \<Rightarrow> ('a \<Rightarrow> ('s, 'b, 'e) exec) \<Rightarrow> ('s, 'b, 'e) exec" where
  "andthen m f = (\<lambda>s. case m s of
     (Ok x, s') \<Rightarrow> f x s'
   | (Err e, s') \<Rightarrow> (Err e, s')
   | (Panic, s') \<Rightarrow> (Panic, s'))"

definition map_err :: "('e \<Rightarrow> 'f) \<Rightarrow> ('s, 'a, 'e) exec \<Rightarrow> ('s, 'a, 'f) exec" where
  "map_err g m = (\<lambda>s. case m s of
     (Ok x, s') \<Rightarrow> (Ok x, s')
   | (Err e, s') \<Rightarrow> (Err (g e), s')
   | (Panic, s') \<Rightarrow> (Panic, s'))"

text \<open>A loop whose body is run once per element, collecting the results.\<close>

fun collect :: "('s, 'a, 'e) exec list \<Rightarrow> ('s, 'a list, 'e) exec" where
  "collect [] = ret []"
| "collect (m # ms) = andthen m (\<lambda>x. andthen (collect ms) (\<lambda>xs. ret (x # xs)))"

text \<open>A loop whose body is run once per element for its effect.\<close>

fun run_all :: "('s, unit, 'e) exec list \<Rightarrow> ('s, unit, 'e) exec" where
  "run_all [] = ret ()"
| "run_all (m # ms) = andthen m (\<lambda>_. run_all ms)"

text \<open>The \<^verbatim>\<open>?\<close> operator on pure results.\<close>

fun bind_result :: "('a, 'e) result \<Rightarrow> ('a \<Rightarrow> ('b, 'e) result) \<Rightarrow> ('b, 'e) result" where
  "bind_result (Ok x) f = f x"
| "bind_result (Err e) f = Err e"
| "bind_result Panic f = Panic"

fun ok_or :: "'e \<Rightarrow> 'a option \<Rightarrow> ('a, 'e) result" where
  "ok_or e None = Err e"
| "ok_or e (Some x) = Ok x"

fun map_ok :: "('a \<Rightarrow> 'b) \<Rightarrow> ('a, 'e) result \<Rightarrow> ('b, 'e) result" where
  "map_ok f (Ok x) = Ok (f x)"
| "map_ok f (Err e) = Err e"
| "map_ok f Panic = Panic"

text \<open>Collecting an iterator of results: the first failure wins.\<close>

fun traverse :: "('a, 'e) result list \<Rightarrow> ('a list, 'e) result" where
  "traverse [] = Ok []"
| "traverse (r # rs) = bind_result r (\<lambda>x. map_ok ((#) x) (traverse rs))"

fun unwrap_or :: "'a option \<Rightarrow> 'a \<Rightarrow> 'a" where
  "unwrap_or None y = y"
| "unwrap_or (Some x) y = x"

lemma ret_run [exec_simps]: "ret x s = (Ok x, s)"
  by (simp add: ret_def)

lemma throw_run [exec_simps]: "throw e s = (Err e, s)"
  by (simp add: throw_def)

lemma panic_run [exec_simps]: "panic s = (Panic, s)"
  by (simp add: panic_def)

lemma andthen_Ok [exec_simps]: "m s = (Ok x, s') \<Longrightarrow> andthen m f s = f x s'"
  by (simp add: andthen_def)

lemma andthen_Err [exec_simps]: "m s = (Err e, s') \<Longrightarrow> andthen m f s = (Err e, s')"
  by (simp add: andthen_def)

lemma andthen_Panic [exec_simps]: "m s = (Panic, s') \<Longrightarrow> andthen m f s = (Panic, s')"
  by (simp add: andthen_def)

lemma andthen_ret_left [exec_simps, simp]: "andthen (ret x) f = f x"
  by (rule ext) (simp add: andthen_def ret_def)

lemma andthen_ret_right [exec_simps, simp]: "andthen m ret = m"
  by (rule ext) (simp add: andthen_def ret_def split: prod.splits result.splits)

lemma andthen_throw [exec_simps]: "andthen (throw e) f = throw e"
  by (rule ext) (simp add: andthen_def throw_def)

lemma andthen_assoc [exec_simps]: "andthen (andthen m f) g = andthen m (\<lambda>x. andthen (f x) g)"
  by (rule ext) (simp add: andthen_def split: prod.splits result.splits)

lemma andthen_cong [fundef_cong]:
  assumes "m s = m' s'" and "\<And>x t. m' s' = (Ok x, t) \<Longrightarrow> f x t = f' x t"
  shows "andthen m f s = andthen m' f' s'"
  using assms by (auto simp: andthen_def split: prod.splits result.splits)

lemma map_ok_eq_Ok: "map_ok f r = Ok y \<longleftrightarrow> (\<exists>x. r = Ok x \<and> y = f x)"
  by (cases r) auto

lemma map_ok_eq_Err: "map_ok f r = Err e \<longleftrightarrow> r = Err e"
  by (cases r) auto

lemma map_ok_eq_Panic: "map_ok f r = Panic \<longleftrightarrow> r = Panic"
  by (cases r) auto

lemma traverse_Ok: "traverse rs = Ok xs \<longleftrightarrow> rs = map Ok xs"
proof (induction rs arbitrary: xs)
  case (Cons r rs)
  then show ?case by (cases r) (auto simp: map_ok_eq_Ok)
qed auto

lemma traverse_Err: "traverse rs = Err e \<Longrightarrow> Err e \<in> set rs"
proof (induction rs)
  case (Cons r rs)
  then show ?case by (cases r) (auto simp: map_ok_eq_Err)
qed simp

lemma traverse_Panic: "traverse rs = Panic \<Longrightarrow> Panic \<in> set rs"
proof (induction rs)
  case (Cons r rs)
  then show ?case by (cases r) (auto simp: map_ok_eq_Panic)
qed simp

lemma bind_result_eq_Ok:
  "bind_result m f = Ok y \<longleftrightarrow> (\<exists>x. m = Ok x \<and> f x = Ok y)"
  by (cases m) auto

lemma bind_result_cong [fundef_cong]:
  assumes "m = m'" and "\<And>x. m' = Ok x \<Longrightarrow> f x = f' x"
  shows "bind_result m f = bind_result m' f'"
  using assms by (cases m') auto

lemma andthen_eq_Ok:
  "andthen m f s = (Ok y, s'') \<longleftrightarrow> (\<exists>x s'. m s = (Ok x, s') \<and> f x s' = (Ok y, s''))"
  by (auto simp: andthen_def split: prod.splits result.splits)

lemma map_err_eq_Ok [simp]: "map_err g m s = (Ok x, s') \<longleftrightarrow> m s = (Ok x, s')"
  by (auto simp: map_err_def split: prod.splits result.splits)

lemma map_err_Panic [simp]: "fst (map_err g m s) = Panic \<longleftrightarrow> fst (m s) = Panic"
  by (auto simp: map_err_def split: prod.splits result.splits)

lemma snd_map_err [simp]: "snd (map_err g m s) = snd (m s)"
  by (auto simp: map_err_def split: prod.splits result.splits)

section \<open>UTF-8 validation\<close>

text \<open>
  \<open>utf8_error\<close> and \<open>utf8_scan\<close> follow \<^verbatim>\<open>core::str\<close>'s validation loop, which
  \<^verbatim>\<open>String::from_utf8\<close> and \<^verbatim>\<open>str::from_utf8\<close> call: the error carries the length
  of the valid prefix and, unless the input ends inside a character, the number of bytes of the
  ill-formed sequence.
\<close>

datatype utf8_error = Utf8Error (valid_up_to: nat) (error_len: "nat option")

definition is_cont :: "u8 \<Rightarrow> bool" where
  "is_cont b \<longleftrightarrow> 0x80 \<le> b \<and> b \<le> 0xBF"

definition second_of_3 :: "u8 \<Rightarrow> u8 \<Rightarrow> bool" where
  "second_of_3 a b \<longleftrightarrow>
     (a = 0xE0 \<and> 0xA0 \<le> b \<and> b \<le> 0xBF) \<or> (0xE1 \<le> a \<and> a \<le> 0xEC \<and> is_cont b) \<or>
     (a = 0xED \<and> 0x80 \<le> b \<and> b \<le> 0x9F) \<or> (0xEE \<le> a \<and> a \<le> 0xEF \<and> is_cont b)"

definition second_of_4 :: "u8 \<Rightarrow> u8 \<Rightarrow> bool" where
  "second_of_4 a b \<longleftrightarrow>
     (a = 0xF0 \<and> 0x90 \<le> b \<and> b \<le> 0xBF) \<or> (0xF1 \<le> a \<and> a \<le> 0xF3 \<and> is_cont b) \<or>
     (a = 0xF4 \<and> 0x80 \<le> b \<and> b \<le> 0x8F)"

fun utf8_scan :: "nat \<Rightarrow> bytes \<Rightarrow> utf8_error option" where
  "utf8_scan i [] = None"
| "utf8_scan i (a # bs) =
     (if a < 0x80 then utf8_scan (i + 1) bs
      else if 0xC2 \<le> a \<and> a \<le> 0xDF then
        (case bs of
           [] \<Rightarrow> Some (Utf8Error i None)
         | b # bs' \<Rightarrow> if \<not> is_cont b then Some (Utf8Error i (Some 1)) else utf8_scan (i + 2) bs')
      else if 0xE0 \<le> a \<and> a \<le> 0xEF then
        (case bs of
           [] \<Rightarrow> Some (Utf8Error i None)
         | b # bs' \<Rightarrow> if \<not> second_of_3 a b then Some (Utf8Error i (Some 1)) else
             (case bs' of
                [] \<Rightarrow> Some (Utf8Error i None)
              | c # bs'' \<Rightarrow> if \<not> is_cont c then Some (Utf8Error i (Some 2))
                            else utf8_scan (i + 3) bs''))
      else if 0xF0 \<le> a \<and> a \<le> 0xF4 then
        (case bs of
           [] \<Rightarrow> Some (Utf8Error i None)
         | b # bs' \<Rightarrow> if \<not> second_of_4 a b then Some (Utf8Error i (Some 1)) else
             (case bs' of
                [] \<Rightarrow> Some (Utf8Error i None)
              | c # bs'' \<Rightarrow> if \<not> is_cont c then Some (Utf8Error i (Some 2)) else
                  (case bs'' of
                     [] \<Rightarrow> Some (Utf8Error i None)
                   | d # bs''' \<Rightarrow> if \<not> is_cont d then Some (Utf8Error i (Some 3))
                                  else utf8_scan (i + 4) bs''')))
      else Some (Utf8Error i (Some 1)))"

definition from_utf8 :: "bytes \<Rightarrow> (bytes, utf8_error) result" where
  "from_utf8 bs = (case utf8_scan 0 bs of None \<Rightarrow> Ok bs | Some e \<Rightarrow> Err e)"

text \<open>A Rust \<^verbatim>\<open>str\<close> is the list of its bytes; being valid UTF-8 is its type invariant.\<close>

definition is_str :: "bytes \<Rightarrow> bool" where
  "is_str bs \<longleftrightarrow> utf8_scan 0 bs = None"

lemma from_utf8_str [simp]: "is_str bs \<Longrightarrow> from_utf8 bs = Ok bs"
  by (simp add: from_utf8_def is_str_def)

lemma from_utf8_not_Panic [simp]: "from_utf8 bs \<noteq> Panic"
  by (simp add: from_utf8_def split: option.splits)

lemma from_utf8_Ok: "from_utf8 bs = Ok s \<longleftrightarrow> s = bs \<and> is_str bs"
  by (auto simp: from_utf8_def is_str_def split: option.splits)

section \<open>Decimal numbers\<close>

text \<open>
  \<open>show_nat\<close> is \<^verbatim>\<open>Display\<close> of an unsigned integer, \<open>parse_uint w\<close> the standard
  library's \<^verbatim>\<open>FromStr\<close> of an unsigned integer of \<open>w\<close> bits: an optional plus sign, at least
  one digit, no other character, and a value in range.
\<close>

definition digit_char :: "nat \<Rightarrow> char" where
  "digit_char d = char_of (48 + d)"

definition digit_value :: "char \<Rightarrow> nat option" where
  "digit_value c = (if 48 \<le> (of_char c :: nat) \<and> (of_char c :: nat) \<le> 57 then Some (of_char c - 48) else None)"

fun show_nat :: "nat \<Rightarrow> string" where
  "show_nat n = (if n < 10 then [digit_char n] else show_nat (n div 10) @ [digit_char (n mod 10)])"

declare show_nat.simps [simp del]

fun parse_digits :: "nat \<Rightarrow> string \<Rightarrow> nat option" where
  "parse_digits acc [] = Some acc"
| "parse_digits acc (c # cs) =
     (case digit_value c of None \<Rightarrow> None | Some d \<Rightarrow> parse_digits (10 * acc + d) cs)"

definition parse_uint :: "nat \<Rightarrow> string \<Rightarrow> nat option" where
  "parse_uint w s =
     (let ds = (case s of c # cs \<Rightarrow> if c = CHR ''+'' then cs else s | [] \<Rightarrow> s) in
      if ds = [] then None
      else case parse_digits 0 ds of
        None \<Rightarrow> None
      | Some n \<Rightarrow> if n < 2 ^ w then Some n else None)"

lemma digit_value_char [simp]: "d < 10 \<Longrightarrow> digit_value (digit_char d) = Some d"
  by (simp add: digit_value_def digit_char_def)

lemma parse_digits_append:
  "parse_digits acc (xs @ ys) =
     (case parse_digits acc xs of None \<Rightarrow> None | Some n \<Rightarrow> parse_digits n ys)"
  by (induction xs arbitrary: acc) (auto split: option.splits)

lemma parse_digits_show: "parse_digits 0 (show_nat n) = Some n"
proof (induction n rule: show_nat.induct)
  case (1 n)
  then show ?case
    by (subst show_nat.simps) (simp add: parse_digits_append)
qed

lemma show_nat_digits: "c \<in> set (show_nat n) \<Longrightarrow> \<exists>d<10. c = digit_char d"
proof (induction n rule: show_nat.induct)
  case (1 n)
  show ?case
  proof (cases "n < 10")
    case True
    with "1.prems" show ?thesis by (subst (asm) show_nat.simps) auto
  next
    case False
    with "1.prems" have "c \<in> set (show_nat (n div 10)) \<or> c = digit_char (n mod 10)"
      by (subst (asm) show_nat.simps) auto
    with "1.IH" False show ?thesis
      by (metis mod_less_divisor zero_less_numeral)
  qed
qed

lemma show_nat_not_Nil [simp]: "show_nat n \<noteq> []"
  by (subst show_nat.simps) simp

lemma digit_char_neq:
  "d < 10 \<Longrightarrow> (of_char c :: nat) < 48 \<or> 57 < (of_char c :: nat) \<Longrightarrow> digit_char d \<noteq> c"
  by (auto simp: digit_char_def)

lemma show_nat_not_in:
  "(of_char c :: nat) < 48 \<or> 57 < (of_char c :: nat) \<Longrightarrow> c \<notin> set (show_nat n)"
  using show_nat_digits digit_char_neq by blast

lemma parse_uint_show [simp]: "n < 2 ^ w \<Longrightarrow> parse_uint w (show_nat n) = Some n"
proof -
  have "(case show_nat n of c # cs \<Rightarrow> if c = CHR ''+'' then cs else show_nat n
      | [] \<Rightarrow> show_nat n) = show_nat n"
    using show_nat_not_in [of "CHR ''+''" n] by (cases "show_nat n") auto
  then show "n < 2 ^ w \<Longrightarrow> parse_uint w (show_nat n) = Some n"
    by (simp add: parse_uint_def parse_digits_show)
qed

section \<open>Lists\<close>

lemma drop_append_length [simp]: "drop (length xs) (xs @ ys) = ys"
  by simp

lemma take_drop_middle:
  "length pre = p \<Longrightarrow> n = length xs \<Longrightarrow> take n (drop p (pre @ xs @ post)) = xs"
  by simp

lemma list_all2_map_replicate:
  "list_all (P y) xs \<Longrightarrow> list_all2 (\<lambda>y x. P y x) (replicate (length xs) y) xs"
  by (induction xs) auto

section \<open>Splitting and joining strings\<close>

text \<open>
  \<open>split_on c s\<close> is \<^verbatim>\<open>str::split\<close> with a character pattern (there is always at least one
  part), \<open>join_with c parts\<close> the inverse \<^verbatim>\<open>join\<close>.
\<close>

fun split_on :: "char \<Rightarrow> string \<Rightarrow> string list" where
  "split_on c [] = [[]]"
| "split_on c (x # xs) =
     (if x = c then [] # split_on c xs
      else case split_on c xs of [] \<Rightarrow> [[x]] | p # ps \<Rightarrow> (x # p) # ps)"

fun join_with :: "char \<Rightarrow> string list \<Rightarrow> string" where
  "join_with c [] = []"
| "join_with c [p] = p"
| "join_with c (p # q # ps) = p @ c # join_with c (q # ps)"

lemma split_on_not_Nil [simp]: "split_on c s \<noteq> []"
  by (induction s) (auto split: list.splits)

lemma split_on_part: "c \<notin> set p \<Longrightarrow> split_on c p = [p]"
  by (induction p) auto

lemma split_on_append: "c \<notin> set p \<Longrightarrow> split_on c (p @ c # s) = p # split_on c s"
  by (induction p) auto

lemma split_join:
  "ps \<noteq> [] \<Longrightarrow> list_all (\<lambda>p. c \<notin> set p) ps \<Longrightarrow> split_on c (join_with c ps) = ps"
  by (induction c ps rule: join_with.induct) (simp_all add: split_on_part split_on_append)

lemma join_split: "join_with c (split_on c s) = s"
proof (induction s)
  case (Cons x xs)
  obtain p ps where "split_on c xs = p # ps" by (cases "split_on c xs") auto
  with Cons show ?case by (cases ps) auto
qed simp

lemma split_on_no_sep: "p \<in> set (split_on c s) \<Longrightarrow> c \<notin> set p"
  by (induction s arbitrary: p) (auto split: list.splits if_splits)

text \<open>The index of the first element that satisfies a predicate, \<^verbatim>\<open>Iterator::position\<close>.\<close>

fun position :: "('a \<Rightarrow> bool) \<Rightarrow> 'a list \<Rightarrow> nat option" where
  "position P [] = None"
| "position P (x # xs) = (if P x then Some 0 else map_option Suc (position P xs))"

lemma position_Some:
  "position P xs = Some i \<longleftrightarrow> i < length xs \<and> P (xs ! i) \<and> (\<forall>j<i. \<not> P (xs ! j))"
proof (induction xs arbitrary: i)
  case (Cons x xs)
  show ?case
    by (cases i) (auto simp: Cons.IH less_Suc_eq_0_disj)
qed simp

lemma position_None: "position P xs = None \<longleftrightarrow> (\<forall>x\<in>set xs. \<not> P x)"
  by (induction xs) auto

lemma position_less: "position P xs = Some i \<Longrightarrow> i < length xs"
  by (simp add: position_Some)

section \<open>Rounding with bit masks\<close>

unbundle bit_operations_syntax

lemma unat_and_not_mask: "unat (x AND NOT (mask k)) = unat x div 2 ^ k * 2 ^ k"
  for x :: "'a::len word"
proof -
  have "x - take_bit k x = x AND NOT (take_bit k x)"
    by (rule disjunctive_diff) (simp add: bit_take_bit_iff)
  then have diff: "x AND NOT (mask k) = x - take_bit k x"
    by (simp add: take_bit_eq_mask bit_eq_iff bit_simps) blast
  have low: "unat (take_bit k x) = unat x mod 2 ^ k"
    unfolding unsigned_take_bit_eq by (simp add: take_bit_eq_mod)
  moreover have "take_bit k x \<le> x"
    unfolding word_le_nat_alt low by simp
  ultimately show ?thesis
    unfolding diff by (simp only: unat_sub minus_mod_eq_div_mult)
qed

end
