(* ===== verification/Cdr_Buffer.thy ===== *)
theory Cdr_Buffer
  imports RosZ_Prelude
begin

text \<open>
  The output buffers of \<^verbatim>\<open>ros-z-cdr\<close> (\<^verbatim>\<open>buffer.rs\<close>, \<^verbatim>\<open>zbuf_writer.rs\<close>).
  The trait \<^verbatim>\<open>CdrBuffer\<close> is a record of operations, the way a trait's vtable is; its two
  implementations are two values of that record.  The locale \<open>cdr_buffer\<close> states what a buffer
  promises to the CDR writer (an append-only byte string), and is interpreted on both
  implementations.  \<^verbatim>\<open>zenoh_buffers::ZBuf\<close> is foreign code and therefore a parameter, again a
  record of operations, with its documented behaviour as the locale \<open>zbuf_laws\<close>.
\<close>

unbundle bit_operations_syntax

section \<open>The foreign scatter buffer\<close>

text \<open>
  A \<^verbatim>\<open>ZSlice\<close> is seen through its bytes.  \<open>zb_zslices\<close> lists the slices, \<open>zb_contiguous\<close>
  is \<^verbatim>\<open>SplitBuffer::contiguous\<close>.
\<close>

type_synonym zslice = bytes

record 'z zbuf_ops =
  zb_empty :: 'z
  zb_push_zslice :: "'z \<Rightarrow> zslice \<Rightarrow> 'z"
  zb_clear :: "'z \<Rightarrow> 'z"
  zb_zslices :: "'z \<Rightarrow> zslice list"
  zb_contiguous :: "'z \<Rightarrow> bytes"

locale zbuf_laws =
  fixes Z :: "'z zbuf_ops"
  assumes zslices_empty: "concat (zb_zslices Z (zb_empty Z)) = []"
    and zslices_push:
      "concat (zb_zslices Z (zb_push_zslice Z z s)) = concat (zb_zslices Z z) @ s"
    and zslices_clear: "concat (zb_zslices Z (zb_clear Z z)) = []"
    and contiguous: "zb_contiguous Z z = concat (zb_zslices Z z)"

section \<open>The trait CdrBuffer\<close>

record ('b, 'z) CdrBuffer =
  cb_extend_from_slice :: "'b \<Rightarrow> bytes \<Rightarrow> 'b"
  cb_push :: "'b \<Rightarrow> u8 \<Rightarrow> 'b"
  cb_len :: "'b \<Rightarrow> nat"
  cb_reserve :: "'b \<Rightarrow> nat \<Rightarrow> 'b"
  cb_reserve_4k :: "'b \<Rightarrow> nat \<Rightarrow> 'b"
  cb_clear :: "'b \<Rightarrow> 'b"
  cb_append_zbuf :: "'b \<Rightarrow> 'z \<Rightarrow> 'b"

definition cb_is_empty :: "('b, 'z) CdrBuffer \<Rightarrow> 'b \<Rightarrow> bool" where
  "cb_is_empty B b \<longleftrightarrow> cb_len B b = 0"

text \<open>The provided methods of the trait, over the required ones.\<close>

definition default_reserve_4k ::
    "('b \<Rightarrow> nat \<Rightarrow> 'b) \<Rightarrow> ('b \<Rightarrow> nat) \<Rightarrow> 'b \<Rightarrow> nat \<Rightarrow> 'b" where
  "default_reserve_4k reserve len b needed_total =
     (let current = len b
      in if needed_total > current then reserve b (needed_total - current) else b)"

definition default_append_zbuf ::
    "'z zbuf_ops \<Rightarrow> ('b \<Rightarrow> bytes \<Rightarrow> 'b) \<Rightarrow> 'b \<Rightarrow> 'z \<Rightarrow> 'b" where
  "default_append_zbuf Z extend_from_slice b zbuf = extend_from_slice b (zb_contiguous Z zbuf)"

section \<open>The implementation for Vec\<close>

text \<open>
  A \<^verbatim>\<open>Vec<u8>\<close> is its elements and its capacity.  Growth follows the standard library: when
  fewer than \<^verbatim>\<open>additional\<close> free slots are left, the capacity becomes the maximum of the
  required one, twice the old one, and 8.
\<close>

record vec_u8 =
  vec_data :: bytes
  vec_capacity :: nat

definition vec_new :: vec_u8 where
  "vec_new = \<lparr>vec_data = [], vec_capacity = 0\<rparr>"

definition vec_with_capacity :: "nat \<Rightarrow> vec_u8" where
  "vec_with_capacity n = \<lparr>vec_data = [], vec_capacity = n\<rparr>"

definition vec_reserve :: "vec_u8 \<Rightarrow> nat \<Rightarrow> vec_u8" where
  "vec_reserve v additional =
     (if vec_capacity v - length (vec_data v) \<ge> additional then v
      else v\<lparr>vec_capacity :=
               max (max (length (vec_data v) + additional) (2 * vec_capacity v)) 8\<rparr>)"

definition vec_extend_from_slice :: "vec_u8 \<Rightarrow> bytes \<Rightarrow> vec_u8" where
  "vec_extend_from_slice v data =
     (vec_reserve v (length data))\<lparr>vec_data := vec_data v @ data\<rparr>"

definition vec_push :: "vec_u8 \<Rightarrow> u8 \<Rightarrow> vec_u8" where
  "vec_push v byte = (vec_reserve v 1)\<lparr>vec_data := vec_data v @ [byte]\<rparr>"

definition vec_len :: "vec_u8 \<Rightarrow> nat" where
  "vec_len v = length (vec_data v)"

definition vec_clear :: "vec_u8 \<Rightarrow> vec_u8" where
  "vec_clear v = v\<lparr>vec_data := []\<rparr>"

definition ALIGN_4K :: u64 where
  "ALIGN_4K = 0xfff"

text \<open>\<^verbatim>\<open>(needed_total + ALIGN_4K) & !ALIGN_4K\<close> at the width of \<^verbatim>\<open>usize\<close>.\<close>

definition round_up_4k :: "nat \<Rightarrow> nat" where
  "round_up_4k needed_total = unat ((of_nat needed_total + ALIGN_4K) AND NOT ALIGN_4K)"

definition vec_reserve_4k :: "vec_u8 \<Rightarrow> nat \<Rightarrow> vec_u8" where
  "vec_reserve_4k v needed_total =
     (let current_cap = vec_capacity v
      in if needed_total > current_cap
         then let new_cap = round_up_4k needed_total
              in vec_reserve v (new_cap - vec_len v)
         else v)"

definition vec_CdrBuffer :: "'z zbuf_ops \<Rightarrow> (vec_u8, 'z) CdrBuffer" where
  "vec_CdrBuffer Z =
     \<lparr>cb_extend_from_slice = vec_extend_from_slice, cb_push = vec_push, cb_len = vec_len,
      cb_reserve = vec_reserve, cb_reserve_4k = vec_reserve_4k, cb_clear = vec_clear,
      cb_append_zbuf = default_append_zbuf Z vec_extend_from_slice\<rparr>"

section \<open>The implementation for ZBufWriter\<close>

record 'z ZBufWriter =
  zw_zbuf :: 'z
  zw_current :: vec_u8
  zw_total_len :: nat

definition zw_new :: "'z zbuf_ops \<Rightarrow> 'z ZBufWriter" where
  "zw_new Z = \<lparr>zw_zbuf = zb_empty Z, zw_current = vec_new, zw_total_len = 0\<rparr>"

definition zw_with_capacity :: "'z zbuf_ops \<Rightarrow> nat \<Rightarrow> 'z ZBufWriter" where
  "zw_with_capacity Z capacity =
     \<lparr>zw_zbuf = zb_empty Z, zw_current = vec_with_capacity capacity, zw_total_len = 0\<rparr>"

definition zw_flush_current :: "'z zbuf_ops \<Rightarrow> 'z ZBufWriter \<Rightarrow> 'z ZBufWriter" where
  "zw_flush_current Z w =
     (if vec_data (zw_current w) \<noteq> []
      then w\<lparr>zw_zbuf := zb_push_zslice Z (zw_zbuf w) (vec_data (zw_current w)),
             zw_current := vec_new\<rparr>
      else w)"

definition zw_append_zslice :: "'z zbuf_ops \<Rightarrow> 'z ZBufWriter \<Rightarrow> zslice \<Rightarrow> 'z ZBufWriter" where
  "zw_append_zslice Z w zslice =
     (let l = length zslice;
          w1 = zw_flush_current Z w;
          w2 = w1\<lparr>zw_zbuf := zb_push_zslice Z (zw_zbuf w1) zslice\<rparr>
      in w2\<lparr>zw_total_len := zw_total_len w2 + l\<rparr>)"

definition zw_into_zbuf :: "'z zbuf_ops \<Rightarrow> 'z ZBufWriter \<Rightarrow> 'z" where
  "zw_into_zbuf Z w = zw_zbuf (zw_flush_current Z w)"

definition zw_capacity :: "'z ZBufWriter \<Rightarrow> nat" where
  "zw_capacity w = vec_capacity (zw_current w)"

definition zw_extend_from_slice :: "'z ZBufWriter \<Rightarrow> bytes \<Rightarrow> 'z ZBufWriter" where
  "zw_extend_from_slice w data =
     w\<lparr>zw_current := vec_extend_from_slice (zw_current w) data,
       zw_total_len := zw_total_len w + length data\<rparr>"

definition zw_push :: "'z ZBufWriter \<Rightarrow> u8 \<Rightarrow> 'z ZBufWriter" where
  "zw_push w byte =
     w\<lparr>zw_current := vec_push (zw_current w) byte, zw_total_len := zw_total_len w + 1\<rparr>"

definition zw_len :: "'z ZBufWriter \<Rightarrow> nat" where
  "zw_len w = zw_total_len w"

definition zw_reserve :: "'z ZBufWriter \<Rightarrow> nat \<Rightarrow> 'z ZBufWriter" where
  "zw_reserve w additional = w\<lparr>zw_current := vec_reserve (zw_current w) additional\<rparr>"

definition zw_clear :: "'z zbuf_ops \<Rightarrow> 'z ZBufWriter \<Rightarrow> 'z ZBufWriter" where
  "zw_clear Z w =
     w\<lparr>zw_zbuf := zb_clear Z (zw_zbuf w), zw_current := vec_clear (zw_current w),
       zw_total_len := 0\<rparr>"

definition zw_append_zbuf :: "'z zbuf_ops \<Rightarrow> 'z ZBufWriter \<Rightarrow> 'z \<Rightarrow> 'z ZBufWriter" where
  "zw_append_zbuf Z w zbuf = foldl (zw_append_zslice Z) w (zb_zslices Z zbuf)"

definition ZBufWriter_CdrBuffer :: "'z zbuf_ops \<Rightarrow> ('z ZBufWriter, 'z) CdrBuffer" where
  "ZBufWriter_CdrBuffer Z =
     \<lparr>cb_extend_from_slice = zw_extend_from_slice, cb_push = zw_push, cb_len = zw_len,
      cb_reserve = zw_reserve, cb_reserve_4k = default_reserve_4k zw_reserve zw_len,
      cb_clear = zw_clear Z, cb_append_zbuf = zw_append_zbuf Z\<rparr>"

section \<open>What a buffer promises\<close>

text \<open>
  \<open>content\<close> is the byte string a buffer stands for.  Every operation keeps the invariant, the
  three appending operations append, clearing empties and reserving changes nothing that can be
  observed.
\<close>

locale cdr_buffer = zbuf_laws Z for Z :: "'z zbuf_ops" +
  fixes B :: "('b, 'z) CdrBuffer"
    and content :: "'b \<Rightarrow> bytes"
    and inv_buf :: "'b \<Rightarrow> bool"
  assumes inv_extend [simp]: "inv_buf b \<Longrightarrow> inv_buf (cb_extend_from_slice B b d)"
    and inv_push [simp]: "inv_buf b \<Longrightarrow> inv_buf (cb_push B b x)"
    and inv_reserve [simp]: "inv_buf b \<Longrightarrow> inv_buf (cb_reserve B b n)"
    and inv_reserve_4k [simp]: "inv_buf b \<Longrightarrow> inv_buf (cb_reserve_4k B b n)"
    and inv_clear [simp]: "inv_buf b \<Longrightarrow> inv_buf (cb_clear B b)"
    and inv_append_zbuf [simp]: "inv_buf b \<Longrightarrow> inv_buf (cb_append_zbuf B b z)"
    and content_extend [simp]:
      "inv_buf b \<Longrightarrow> content (cb_extend_from_slice B b d) = content b @ d"
    and content_push [simp]: "inv_buf b \<Longrightarrow> content (cb_push B b x) = content b @ [x]"
    and content_reserve [simp]: "inv_buf b \<Longrightarrow> content (cb_reserve B b n) = content b"
    and content_reserve_4k [simp]: "inv_buf b \<Longrightarrow> content (cb_reserve_4k B b n) = content b"
    and content_clear [simp]: "inv_buf b \<Longrightarrow> content (cb_clear B b) = []"
    and content_append_zbuf [simp]:
      "inv_buf b \<Longrightarrow> content (cb_append_zbuf B b z) = content b @ concat (zb_zslices Z z)"
    and len_content [simp]: "inv_buf b \<Longrightarrow> cb_len B b = length (content b)"
begin

lemma is_empty_content: "inv_buf b \<Longrightarrow> cb_is_empty B b \<longleftrightarrow> content b = []"
  by (simp add: cb_is_empty_def)

end

section \<open>Vec keeps the promise\<close>

definition vec_inv :: "vec_u8 \<Rightarrow> bool" where
  "vec_inv v \<longleftrightarrow> length (vec_data v) \<le> vec_capacity v"

lemma vec_reserve_data [simp]: "vec_data (vec_reserve v n) = vec_data v"
  by (simp add: vec_reserve_def)

lemma vec_reserve_capacity: "vec_inv v \<Longrightarrow> length (vec_data v) + n \<le> vec_capacity (vec_reserve v n)"
  by (auto simp: vec_reserve_def vec_inv_def)

lemma vec_reserve_4k_data [simp]: "vec_data (vec_reserve_4k v n) = vec_data v"
  by (simp add: vec_reserve_4k_def Let_def)

lemma vec_inv_reserve [simp]: "vec_inv v \<Longrightarrow> vec_inv (vec_reserve v n)"
  by (auto simp: vec_inv_def vec_reserve_def)

lemma vec_inv_extend [simp]: "vec_inv v \<Longrightarrow> vec_inv (vec_extend_from_slice v d)"
  using vec_reserve_capacity [of v "length d"]
  by (simp add: vec_inv_def vec_extend_from_slice_def)

lemma vec_inv_push [simp]: "vec_inv v \<Longrightarrow> vec_inv (vec_push v x)"
  using vec_reserve_capacity [of v 1] by (simp add: vec_inv_def vec_push_def)

lemma vec_inv_reserve_4k [simp]: "vec_inv v \<Longrightarrow> vec_inv (vec_reserve_4k v n)"
  by (simp add: vec_reserve_4k_def Let_def)

lemma vec_data_ops [simp]:
  "vec_data (vec_extend_from_slice v d) = vec_data v @ d"
  "vec_data (vec_push v x) = vec_data v @ [x]"
  "vec_data (vec_clear v) = []"
  "vec_data vec_new = []"
  by (simp_all add: vec_extend_from_slice_def vec_push_def vec_clear_def vec_new_def)

lemma vec_inv_new [simp]: "vec_inv vec_new" "vec_inv (vec_with_capacity n)" "vec_inv (vec_clear v)"
  by (simp_all add: vec_inv_def vec_new_def vec_with_capacity_def vec_clear_def)

section \<open>ZBufWriter keeps the promise\<close>

definition zw_content :: "'z zbuf_ops \<Rightarrow> 'z ZBufWriter \<Rightarrow> bytes" where
  "zw_content Z w = concat (zb_zslices Z (zw_zbuf w)) @ vec_data (zw_current w)"

definition zw_inv :: "'z zbuf_ops \<Rightarrow> 'z ZBufWriter \<Rightarrow> bool" where
  "zw_inv Z w \<longleftrightarrow> zw_total_len w = length (zw_content Z w) \<and> vec_inv (zw_current w)"

context zbuf_laws
begin

lemma vec_cdr_buffer: "cdr_buffer Z (vec_CdrBuffer Z) vec_data vec_inv"
  by unfold_locales
    (simp_all add: vec_CdrBuffer_def default_append_zbuf_def contiguous vec_len_def)

lemma zw_flush_current_content: "zw_content Z (zw_flush_current Z w) = zw_content Z w"
  by (simp add: zw_content_def zw_flush_current_def zslices_push)

lemma zw_flush_current_inv: "zw_inv Z w \<Longrightarrow> zw_inv Z (zw_flush_current Z w)"
  by (auto simp: zw_inv_def zw_flush_current_content)
    (auto simp: zw_flush_current_def)

lemma zw_flush_current_empty: "vec_data (zw_current (zw_flush_current Z w)) = []"
  by (simp add: zw_flush_current_def)

lemma zw_append_zslice_content:
  "zw_content Z (zw_append_zslice Z w s) = zw_content Z w @ s"
proof -
  have "concat (zb_zslices Z (zw_zbuf (zw_flush_current Z w))) = zw_content Z w"
    using zw_flush_current_content [of w] by (simp add: zw_content_def zw_flush_current_empty)
  then show ?thesis
    by (simp add: zw_append_zslice_def Let_def zw_content_def [of Z "_ \<lparr> zw_total_len := _ \<rparr>"]
        zslices_push zw_flush_current_empty)
qed

lemma zw_append_zslice_inv: "zw_inv Z w \<Longrightarrow> zw_inv Z (zw_append_zslice Z w s)"
  using zw_append_zslice_content [of w s] zw_flush_current_inv [of w]
  by (simp add: zw_inv_def)
    (simp add: zw_append_zslice_def zw_inv_def Let_def zw_flush_current_content)

lemma zw_append_all:
  "zw_inv Z w \<Longrightarrow> zw_inv Z (foldl (zw_append_zslice Z) w ss) \<and>
     zw_content Z (foldl (zw_append_zslice Z) w ss) = zw_content Z w @ concat ss"
  by (induction ss arbitrary: w) (simp_all add: zw_append_zslice_inv zw_append_zslice_content)

lemma zw_byte_ops:
  assumes "zw_inv Z w"
  shows "zw_inv Z (zw_extend_from_slice w d)" "zw_inv Z (zw_push w x)" "zw_inv Z (zw_reserve w n)"
    "zw_inv Z (zw_clear Z w)" "zw_content Z (zw_extend_from_slice w d) = zw_content Z w @ d"
    "zw_content Z (zw_push w x) = zw_content Z w @ [x]"
    "zw_content Z (zw_reserve w n) = zw_content Z w" "zw_content Z (zw_clear Z w) = []"
    "zw_len w = length (zw_content Z w)"
  using assms by (simp_all add: zw_inv_def zw_content_def zw_extend_from_slice_def zw_push_def
      zw_reserve_def zw_clear_def zw_len_def zslices_clear)

lemma zw_cdr_buffer: "cdr_buffer Z (ZBufWriter_CdrBuffer Z) (zw_content Z) (zw_inv Z)"
  by unfold_locales
    (simp_all add: ZBufWriter_CdrBuffer_def zw_byte_ops zw_append_all zw_append_zbuf_def
      default_reserve_4k_def Let_def)

lemma zw_into_zbuf_content: "concat (zb_zslices Z (zw_into_zbuf Z w)) = zw_content Z w"
  using zw_flush_current_content [of w]
  by (simp add: zw_into_zbuf_def zw_content_def zw_flush_current_empty)

lemma zw_new_inv: "zw_inv Z (zw_new Z)" "zw_content Z (zw_new Z) = []"
  by (simp_all add: zw_inv_def zw_content_def zw_new_def zslices_empty)

end

section \<open>Instances\<close>

text \<open>
  A \<^verbatim>\<open>ZBuf\<close> as the list of its slices has the documented behaviour, so both buffers are
  instances of the interface over it.
\<close>

definition list_zbuf :: "zslice list zbuf_ops" where
  "list_zbuf = \<lparr>zb_empty = [], zb_push_zslice = (\<lambda>z s. z @ [s]), zb_clear = (\<lambda>_. []),
     zb_zslices = (\<lambda>z. z), zb_contiguous = concat\<rparr>"

interpretation zl: zbuf_laws list_zbuf
  by unfold_locales (simp_all add: list_zbuf_def)

interpretation vecb: cdr_buffer list_zbuf "vec_CdrBuffer list_zbuf" vec_data vec_inv
  by (rule zl.vec_cdr_buffer)

interpretation zwb: cdr_buffer list_zbuf "ZBufWriter_CdrBuffer list_zbuf"
    "zw_content list_zbuf" "zw_inv list_zbuf"
  by (rule zl.zw_cdr_buffer)

section \<open>Growth in steps of 4 KiB\<close>

lemma unat_of_nat_u64 [simp]: "n < 2 ^ 64 \<Longrightarrow> unat (of_nat n :: u64) = n"
  by (simp add: unat_of_nat take_bit_nat_eq_self)

lemma round_up_4k_eq:
  assumes "n + 4095 < 2 ^ 64"
  shows "round_up_4k n = (n + 4095) div 4096 * 4096"
proof -
  have mask: "ALIGN_4K = mask 12"
    by (simp add: ALIGN_4K_def mask_eq_exp_minus_1)
  have "unat (of_nat n + mask 12 :: u64) = n + 4095"
    using assms by (simp add: mask_eq_exp_minus_1 unat_word_ariths)
  then show ?thesis
    by (simp add: round_up_4k_def mask unat_and_not_mask)
qed

end
