(* ===== verification/Cdr_Codec.thy ===== *)
theory Cdr_Codec
  imports Cdr_Buffer "HOL-Library.Sublist"
begin

text \<open>
  The abstract side of the CDR crate.  A byte order (\<^verbatim>\<open>byteorder::ByteOrder\<close>, foreign code)
  is a record of functions with its documented laws as the locale \<open>byte_order_laws\<close>, interpreted
  on little and big endian.  A pure encoder maps the stream position to the bytes to be appended
  there; \<open>refines\<close> says that a writer method appends what an encoder says, \<open>decodes\<close> that a reader
  method inverts an encoder and rejects every truncated encoding, \<open>safe\<close> that a reader method
  stays inside its input.  The composition rules proved here carry the proofs of the CDR and
  dynamic-message theories.
\<close>

section \<open>Byte orders\<close>

record byte_order =
  bo_write_u16 :: "u16 \<Rightarrow> bytes"
  bo_write_u32 :: "u32 \<Rightarrow> bytes"
  bo_write_u64 :: "u64 \<Rightarrow> bytes"
  bo_write_u128 :: "u128 \<Rightarrow> bytes"
  bo_read_u16 :: "bytes \<Rightarrow> u16"
  bo_read_u32 :: "bytes \<Rightarrow> u32"
  bo_read_u64 :: "bytes \<Rightarrow> u64"

locale byte_order_laws =
  fixes BO :: byte_order
  assumes length_write [simp]:
      "length (bo_write_u16 BO a) = 2" "length (bo_write_u32 BO b) = 4"
      "length (bo_write_u64 BO c) = 8" "length (bo_write_u128 BO d) = 16"
    and read_write [simp]:
      "bo_read_u16 BO (bo_write_u16 BO a) = a" "bo_read_u32 BO (bo_write_u32 BO b) = b"
      "bo_read_u64 BO (bo_write_u64 BO c) = c"

definition le_bytes :: "nat \<Rightarrow> 'a::len word \<Rightarrow> bytes" where
  "le_bytes n w = map (\<lambda>i. ucast (drop_bit (8 * i) w)) [0..<n]"

fun of_le_bytes :: "bytes \<Rightarrow> 'a::len word" where
  "of_le_bytes [] = 0"
| "of_le_bytes (b # bs) = ucast b OR push_bit 8 (of_le_bytes bs)"

definition LittleEndian :: byte_order where
  "LittleEndian = \<lparr>bo_write_u16 = le_bytes 2, bo_write_u32 = le_bytes 4, bo_write_u64 = le_bytes 8,
     bo_write_u128 = le_bytes 16, bo_read_u16 = of_le_bytes, bo_read_u32 = of_le_bytes,
     bo_read_u64 = of_le_bytes\<rparr>"

definition BigEndian :: byte_order where
  "BigEndian = \<lparr>bo_write_u16 = rev \<circ> le_bytes 2, bo_write_u32 = rev \<circ> le_bytes 4,
     bo_write_u64 = rev \<circ> le_bytes 8, bo_write_u128 = rev \<circ> le_bytes 16,
     bo_read_u16 = of_le_bytes \<circ> rev, bo_read_u32 = of_le_bytes \<circ> rev,
     bo_read_u64 = of_le_bytes \<circ> rev\<rparr>"

lemma length_le_bytes [simp]: "length (le_bytes n w) = n"
  by (simp add: le_bytes_def)

lemma bit_of_le_bytes:
  "bit (of_le_bytes bs :: 'a::len word) k \<longleftrightarrow>
     k < LENGTH('a) \<and> k div 8 < length bs \<and> bit (bs ! (k div 8)) (k mod 8)"
proof (induction bs arbitrary: k)
  case Nil
  then show ?case by simp
next
  case (Cons b bs)
  show ?case
  proof (cases "k < 8")
    case True
    then show ?thesis by (auto simp: bit_simps)
  next
    case False
    then have k: "k div 8 = Suc ((k - 8) div 8)" "(k - 8) mod 8 = k mod 8"
      by (simp_all add: le_div_geq le_mod_geq)
    have "\<not> bit (ucast b :: 'a word) k"
      using False by (auto simp: bit_simps dest: bit_imp_le_length)
    with False Cons.IH [of "k - 8"] show ?thesis
      by (auto simp: bit_simps k)
  qed
qed

lemma of_le_bytes_le_bytes:
  assumes "LENGTH('a::len) \<le> 8 * n"
  shows "of_le_bytes (le_bytes n (w :: 'a word)) = w"
proof (rule bit_word_eqI)
  fix k assume k: "k < LENGTH('a)"
  with assms have "k div 8 < n"
    by linarith
  with k show "bit (of_le_bytes (le_bytes n w) :: 'a word) k \<longleftrightarrow> bit w k"
    by (auto simp: bit_of_le_bytes le_bytes_def bit_simps)
qed

interpretation le: byte_order_laws LittleEndian
  by unfold_locales (simp_all add: LittleEndian_def of_le_bytes_le_bytes)

interpretation be: byte_order_laws BigEndian
  by unfold_locales (simp_all add: BigEndian_def of_le_bytes_le_bytes)

section \<open>Pure encoders\<close>

type_synonym 'e enc = "nat \<Rightarrow> (bytes, 'e) result"

definition enc_bytes :: "bytes \<Rightarrow> 'e enc" where
  "enc_bytes xs = (\<lambda>p. Ok xs)"

definition enc_fail :: "'e \<Rightarrow> 'e enc" where
  "enc_fail e = (\<lambda>p. Err e)"

text \<open>Padding to a multiple of the alignment; at most eight padding bytes can be produced.\<close>

definition enc_align :: "nat \<Rightarrow> 'e enc" where
  "enc_align k = (\<lambda>p. if p mod k = 0 then Ok []
     else if k - p mod k \<le> 8 then Ok (replicate (k - p mod k) 0) else Panic)"

definition enc_then :: "'e enc \<Rightarrow> 'e enc \<Rightarrow> 'e enc" where
  "enc_then a b = (\<lambda>p. case a p of
     Ok xs \<Rightarrow> (case b (p + length xs) of
        Ok ys \<Rightarrow> Ok (xs @ ys) | Err e \<Rightarrow> Err e | Panic \<Rightarrow> Panic)
   | Err e \<Rightarrow> Err e
   | Panic \<Rightarrow> Panic)"

fun enc_all :: "'e enc list \<Rightarrow> 'e enc" where
  "enc_all [] = enc_bytes []"
| "enc_all (e # es) = enc_then e (enc_all es)"

lemma enc_then_Ok:
  "enc_then a b p = Ok zs \<longleftrightarrow>
     (\<exists>xs ys. a p = Ok xs \<and> b (p + length xs) = Ok ys \<and> zs = xs @ ys)"
  by (auto simp: enc_then_def split: result.splits)

lemma enc_then_assoc: "enc_then (enc_then a b) c = enc_then a (enc_then b c)"
  by (rule ext) (simp add: enc_then_def add.assoc split: result.splits)

lemma enc_then_Nil [simp]: "enc_then (enc_bytes []) a = a" "enc_then a (enc_bytes []) = a"
  by (rule ext, simp add: enc_then_def enc_bytes_def split: result.splits)+

lemma enc_bytes_append: "enc_then (enc_bytes xs) (enc_bytes ys) = enc_bytes (xs @ ys)"
  by (rule ext) (simp add: enc_then_def enc_bytes_def)

section \<open>The writer and the reader\<close>

record 'b cdr_writer =
  wr_buffer :: 'b
  wr_start_offset :: nat

record cdr_reader =
  rd_input :: bytes
  rd_position :: nat

section \<open>A writer method refines an encoder\<close>

definition refines ::
    "('b \<Rightarrow> bytes) \<Rightarrow> ('b \<Rightarrow> bool) \<Rightarrow> ('b cdr_writer, unit, 'e) exec \<Rightarrow> 'e enc \<Rightarrow> bool" where
  "refines content inv_buf m e \<longleftrightarrow>
     (\<forall>w. inv_buf (wr_buffer w) \<longrightarrow> wr_start_offset w \<le> length (content (wr_buffer w)) \<longrightarrow>
       (case e (length (content (wr_buffer w)) - wr_start_offset w) of
          Ok xs \<Rightarrow> \<exists>w'. m w = (Ok (), w') \<and> inv_buf (wr_buffer w') \<and>
             content (wr_buffer w') = content (wr_buffer w) @ xs \<and>
             wr_start_offset w' = wr_start_offset w
        | Err x \<Rightarrow> fst (m w) = Err x
        | Panic \<Rightarrow> fst (m w) = Panic))"

lemma refines_ret [refines_intros]: "refines c i (ret ()) (enc_bytes [])"
  by (simp add: refines_def enc_bytes_def ret_def)

lemma refines_throw [refines_intros]: "refines c i (throw e) (enc_fail e)"
  by (simp add: refines_def enc_fail_def throw_def)

lemma refines_andthen:
  assumes m: "refines c i m a" and n: "refines c i n b"
  shows "refines c i (andthen m (\<lambda>_. n)) (enc_then a b)"
  unfolding refines_def
proof (intro allI impI)
  fix w :: "'a cdr_writer"
  let ?p = "\<lambda>w. length (c (wr_buffer w)) - wr_start_offset w"
  assume w: "i (wr_buffer w)" "wr_start_offset w \<le> length (c (wr_buffer w))"
  show "case enc_then a b (?p w) of
      Ok xs \<Rightarrow> \<exists>w'. andthen m (\<lambda>_. n) w = (Ok (), w') \<and> i (wr_buffer w') \<and>
        c (wr_buffer w') = c (wr_buffer w) @ xs \<and> wr_start_offset w' = wr_start_offset w
    | Err x \<Rightarrow> fst (andthen m (\<lambda>_. n) w) = Err x
    | Panic \<Rightarrow> fst (andthen m (\<lambda>_. n) w) = Panic"
  proof (cases "a (?p w)")
    case (Ok xs)
    with m w obtain w1 where w1: "m w = (Ok (), w1)" "i (wr_buffer w1)"
      "c (wr_buffer w1) = c (wr_buffer w) @ xs" "wr_start_offset w1 = wr_start_offset w"
      using m [unfolded refines_def, rule_format, OF w] by auto
    with w have p1: "?p w1 = ?p w + length xs"
      and le1: "wr_start_offset w1 \<le> length (c (wr_buffer w1))"
      by simp_all
    note step = n [unfolded refines_def, rule_format, OF w1(2) le1, unfolded p1]
    have run: "andthen m (\<lambda>_. n) w = n w1"
      by (simp add: andthen_def w1(1))
    show ?thesis
    proof (cases "b (?p w + length xs)")
      case (Ok ys)
      then obtain w2 where "n w1 = (Ok (), w2)" "i (wr_buffer w2)"
        "c (wr_buffer w2) = c (wr_buffer w1) @ ys" "wr_start_offset w2 = wr_start_offset w1"
        using step by auto
      with w1(3,4) show ?thesis
        unfolding run by (simp add: enc_then_def \<open>a (?p w) = Ok xs\<close> Ok)
    next
      case (Err x)
      with step show ?thesis
        unfolding run by (simp add: enc_then_def \<open>a (?p w) = Ok xs\<close>)
    next
      case Panic
      with step show ?thesis
        unfolding run by (simp add: enc_then_def \<open>a (?p w) = Ok xs\<close>)
    qed
  next
    case (Err x)
    with m w have "fst (m w) = Err x" by (auto simp: refines_def dest!: spec [of _ w])
    with Err show ?thesis by (auto simp: enc_then_def andthen_def split: prod.splits)
  next
    case Panic
    with m w have "fst (m w) = Panic" by (auto simp: refines_def dest!: spec [of _ w])
    with Panic show ?thesis by (auto simp: enc_then_def andthen_def split: prod.splits)
  qed
qed

lemma refines_run_all:
  assumes "list_all2 (refines c i) ms es"
  shows "refines c i (run_all ms) (enc_all es)"
  using assms by (induction rule: list_all2_induct) (simp_all add: refines_ret refines_andthen)

section \<open>A reader method inverts an encoder\<close>

text \<open>
  \<open>decodes eof d e x\<close>: wherever the bytes that \<open>e\<close> produces at a position stand in the input at
  that position, \<open>d\<close> returns \<open>x\<close> and stops right behind them; and if the input ends before the
  last of these bytes, \<open>d\<close> fails with \<open>eof\<close>.
\<close>

definition decodes :: "'e \<Rightarrow> (cdr_reader, 'a, 'e) exec \<Rightarrow> 'f enc \<Rightarrow> 'a \<Rightarrow> bool" where
  "decodes eof d e x \<longleftrightarrow>
     (\<forall>pre xs. e (length pre) = Ok xs \<longrightarrow>
        (\<forall>post. d \<lparr>rd_input = pre @ xs @ post, rd_position = length pre\<rparr> =
           (Ok x, \<lparr>rd_input = pre @ xs @ post, rd_position = length pre + length xs\<rparr>)) \<and>
        (\<forall>ys. strict_prefix ys xs \<longrightarrow>
           fst (d \<lparr>rd_input = pre @ ys, rd_position = length pre\<rparr>) = Err eof))"

lemma decodesI:
  assumes "\<And>pre xs post. e (length pre) = Ok xs \<Longrightarrow>
      d \<lparr>rd_input = pre @ xs @ post, rd_position = length pre\<rparr> =
        (Ok x, \<lparr>rd_input = pre @ xs @ post, rd_position = length pre + length xs\<rparr>)"
    and "\<And>pre xs ys. e (length pre) = Ok xs \<Longrightarrow> strict_prefix ys xs \<Longrightarrow>
      fst (d \<lparr>rd_input = pre @ ys, rd_position = length pre\<rparr>) = Err eof"
  shows "decodes eof d e x"
  using assms unfolding decodes_def by blast

lemma decodes_Ok:
  assumes "decodes eof d e x" "e (length pre) = Ok xs"
  shows "d \<lparr>rd_input = pre @ xs @ post, rd_position = length pre\<rparr> =
    (Ok x, \<lparr>rd_input = pre @ xs @ post, rd_position = length pre + length xs\<rparr>)"
  using assms unfolding decodes_def by blast

lemma decodes_short:
  assumes "decodes eof d e x" "e (length pre) = Ok xs" "strict_prefix ys xs"
  shows "fst (d \<lparr>rd_input = pre @ ys, rd_position = length pre\<rparr>) = Err eof"
  using assms unfolding decodes_def by blast

lemma decodes_ret [parses_intros]: "decodes eof (ret x) (enc_bytes []) x"
  by (simp add: decodes_def enc_bytes_def ret_def)

lemma strict_prefix_append_cases:
  assumes "strict_prefix zs (xs @ ys)"
  obtains (left) "strict_prefix zs xs" | (right) us where "zs = xs @ us" "strict_prefix us ys"
proof (cases "strict_prefix zs xs")
  case True
  then show thesis by (rule left)
next
  case False
  with assms obtain us where "zs = xs @ us" "prefix us ys"
    by (auto simp: strict_prefix_def prefix_append)
  with assms show thesis
    by (intro right [of us]) (auto simp: strict_prefix_def)
qed

lemma decodes_andthen:
  assumes d: "decodes eof d a x" and f: "decodes eof (f x) b y"
  shows "decodes eof (andthen d f) (enc_then a b) y"
proof (rule decodesI)
  fix pre :: bytes and zs post
  assume "enc_then a b (length pre) = Ok zs"
  then obtain xs ys where e: "a (length pre) = Ok xs" "b (length (pre @ xs)) = Ok ys"
    "zs = xs @ ys"
    by (auto simp: enc_then_Ok)
  from decodes_Ok [OF d e(1), of "ys @ post"] decodes_Ok [OF f e(2), of post]
  show "andthen d f \<lparr>rd_input = pre @ zs @ post, rd_position = length pre\<rparr> =
    (Ok y, \<lparr>rd_input = pre @ zs @ post, rd_position = length pre + length zs\<rparr>)"
    by (simp add: andthen_def e add.assoc)
next
  fix pre :: bytes and zs us
  assume "enc_then a b (length pre) = Ok zs" and us: "strict_prefix us zs"
  then obtain xs ys where e: "a (length pre) = Ok xs" "b (length (pre @ xs)) = Ok ys"
    "zs = xs @ ys"
    by (auto simp: enc_then_Ok)
  from us e(3) have "strict_prefix us (xs @ ys)" by simp
  then show "fst (andthen d f \<lparr>rd_input = pre @ us, rd_position = length pre\<rparr>) = Err eof"
  proof (cases rule: strict_prefix_append_cases)
    case left
    from decodes_short [OF d e(1) left] show ?thesis
      by (auto simp: andthen_def split: prod.splits result.splits)
  next
    case (right vs)
    with decodes_Ok [OF d e(1), of vs] decodes_short [OF f e(2), of vs] show ?thesis
      by (simp add: andthen_def)
  qed
qed

lemma decodes_map:
  assumes "decodes eof d e x" shows "decodes eof (andthen d (\<lambda>x. ret (g x))) e (g x)"
  using decodes_andthen [OF assms, of "\<lambda>x. ret (g x)" "enc_bytes []" "g x"]
  by (simp add: decodes_ret)

lemma decodes_map_err:
  assumes "decodes eof d e x" shows "decodes (g eof) (map_err g d) e x"
proof (rule decodesI)
  fix pre xs post assume "e (length (pre :: bytes)) = Ok xs"
  from decodes_Ok [OF assms this, of post]
  show "map_err g d \<lparr>rd_input = pre @ xs @ post, rd_position = length pre\<rparr> =
    (Ok x, \<lparr>rd_input = pre @ xs @ post, rd_position = length pre + length xs\<rparr>)"
    by simp
next
  fix pre xs ys assume "e (length (pre :: bytes)) = Ok xs" "strict_prefix ys xs"
  from decodes_short [OF assms this]
  show "fst (map_err g d \<lparr>rd_input = pre @ ys, rd_position = length pre\<rparr>) = Err (g eof)"
    by (auto simp: map_err_def split: prod.splits)
qed

lemma decodes_collect:
  assumes "length ds = length es" "length es = length xs"
    and "\<And>k. k < length xs \<Longrightarrow> decodes eof (ds ! k) (es ! k) (xs ! k)"
  shows "decodes eof (collect ds) (enc_all es) xs"
  using assms
proof (induction ds es xs rule: list_induct3)
  case Nil
  then show ?case by (simp add: decodes_ret)
next
  case (Cons d ds e es x xs)
  have "decodes eof (collect ds) (enc_all es) xs"
  proof (rule Cons.IH)
    fix k assume "k < length xs"
    then show "decodes eof (ds ! k) (es ! k) (xs ! k)"
      using Cons.prems [of "Suc k"] by simp
  qed
  moreover have "decodes eof d e x"
    using Cons.prems [of 0] by simp
  ultimately show ?case
    by (auto intro!: decodes_andthen decodes_map)
qed

section \<open>A reader method stays inside its input\<close>

definition rd_ok :: "cdr_reader \<Rightarrow> bool" where
  "rd_ok r \<longleftrightarrow> rd_position r \<le> length (rd_input r)"

definition safe :: "(cdr_reader, 'a, 'e) exec \<Rightarrow> bool" where
  "safe d \<longleftrightarrow> (\<forall>r. rd_ok r \<longrightarrow> fst (d r) \<noteq> Panic \<and> rd_ok (snd (d r)) \<and>
     rd_input (snd (d r)) = rd_input r \<and> rd_position r \<le> rd_position (snd (d r)))"

lemma safe_ret [safe_intros]: "safe (ret x)"
  by (simp add: safe_def ret_def)

lemma safe_throw [safe_intros]: "safe (throw e)"
  by (simp add: safe_def throw_def)

lemma safe_andthen [safe_intros]:
  assumes "safe d" and "\<And>x. safe (f x)"
  shows "safe (andthen d f)"
  unfolding safe_def
proof (intro allI impI)
  fix r assume r: "rd_ok r"
  obtain o' r' where d: "d r = (o', r')" by fastforce
  with assms(1) r have r': "o' \<noteq> Panic" "rd_ok r'" "rd_input r' = rd_input r"
    "rd_position r \<le> rd_position r'"
    unfolding safe_def by force+
  with assms(2) d show "fst (andthen d f r) \<noteq> Panic \<and> rd_ok (snd (andthen d f r)) \<and>
     rd_input (snd (andthen d f r)) = rd_input r \<and>
     rd_position r \<le> rd_position (snd (andthen d f r))"
    by (cases o') (auto simp: andthen_def safe_def intro: order_trans)
qed

lemma safe_map_err [safe_intros]: "safe d \<Longrightarrow> safe (map_err g d)"
  by (simp add: safe_def)

lemma safe_collect [safe_intros]: "(\<And>d. d \<in> set ds \<Longrightarrow> safe d) \<Longrightarrow> safe (collect ds)"
  by (induction ds) (simp_all add: safe_ret safe_andthen)

end
