(* ===== verification/Cdr_Primitives.thy ===== *)
theory Cdr_Primitives
  imports Cdr_Codec
begin

text \<open>
  \<^verbatim>\<open>ros-z-cdr/src/primitives.rs\<close> and \<^verbatim>\<open>error.rs\<close>: the aligned writer \<^verbatim>\<open>CdrWriter\<close>
  over any buffer and byte order, and the bounds-checked reader \<^verbatim>\<open>CdrReader\<close>.  Every writer
  method is shown to append exactly what its pure encoder says (locale \<open>cdr_writing\<close>), every
  reader method to invert that encoder, to reject truncated input and to stay inside the input
  (locale \<open>cdr_reading\<close>).
\<close>

section \<open>Errors\<close>

datatype cdr_error =
    Custom string
  | UnsupportedAny
  | UnknownLength
  | UnexpectedEof
  | InvalidBool u8
  | InvalidChar u32
  | InvalidOptionTag u32
  | Utf8 utf8_error

section \<open>CdrWriter\<close>

definition writer_new :: "('b, 'z) CdrBuffer \<Rightarrow> 'b \<Rightarrow> 'b cdr_writer" where
  "writer_new B buffer = \<lparr>wr_buffer = buffer, wr_start_offset = cb_len B buffer\<rparr>"

definition writer_position :: "('b, 'z) CdrBuffer \<Rightarrow> 'b cdr_writer \<Rightarrow> nat" where
  "writer_position B w = cb_len B (wr_buffer w) - wr_start_offset w"

text \<open>Appending to the buffer behind the writer.\<close>

definition buffer_extend :: "('b, 'z) CdrBuffer \<Rightarrow> bytes \<Rightarrow> ('b cdr_writer, unit, 'e) exec" where
  "buffer_extend B data =
     (\<lambda>w. (Ok (), w\<lparr>wr_buffer := cb_extend_from_slice B (wr_buffer w) data\<rparr>))"

definition buffer_push :: "('b, 'z) CdrBuffer \<Rightarrow> u8 \<Rightarrow> ('b cdr_writer, unit, 'e) exec" where
  "buffer_push B byte = (\<lambda>w. (Ok (), w\<lparr>wr_buffer := cb_push B (wr_buffer w) byte\<rparr>))"

definition ZEROS :: bytes where
  "ZEROS = [0, 0, 0, 0, 0, 0, 0, 0]"

text \<open>
  The remainder by zero and the slice \<^verbatim>\<open>&ZEROS[..padding]\<close> beyond the eight zeros panic.
\<close>

definition writer_align :: "('b, 'z) CdrBuffer \<Rightarrow> nat \<Rightarrow> ('b cdr_writer, unit, 'e) exec" where
  "writer_align B alignment = (\<lambda>w.
     if alignment = 0 then (Panic, w)
     else let modulo = writer_position B w mod alignment in
       if modulo \<noteq> 0
       then let padding = alignment - modulo in
         if padding \<le> length ZEROS then buffer_extend B (take padding ZEROS) w else (Panic, w)
       else (Ok (), w))"

definition write_bool :: "('b, 'z) CdrBuffer \<Rightarrow> bool \<Rightarrow> ('b cdr_writer, unit, 'e) exec" where
  "write_bool B v = buffer_push B (if v then 1 else 0)"

definition write_i8 :: "('b, 'z) CdrBuffer \<Rightarrow> i8 \<Rightarrow> ('b cdr_writer, unit, 'e) exec" where
  "write_i8 B v = buffer_push B v"

definition write_u8 :: "('b, 'z) CdrBuffer \<Rightarrow> u8 \<Rightarrow> ('b cdr_writer, unit, 'e) exec" where
  "write_u8 B v = buffer_push B v"

definition write_i16 ::
    "('b, 'z) CdrBuffer \<Rightarrow> byte_order \<Rightarrow> i16 \<Rightarrow> ('b cdr_writer, unit, 'e) exec" where
  "write_i16 B BO v = andthen (writer_align B 2) (\<lambda>_. buffer_extend B (bo_write_u16 BO v))"

definition write_u16 ::
    "('b, 'z) CdrBuffer \<Rightarrow> byte_order \<Rightarrow> u16 \<Rightarrow> ('b cdr_writer, unit, 'e) exec" where
  "write_u16 B BO v = andthen (writer_align B 2) (\<lambda>_. buffer_extend B (bo_write_u16 BO v))"

definition write_i32 ::
    "('b, 'z) CdrBuffer \<Rightarrow> byte_order \<Rightarrow> i32 \<Rightarrow> ('b cdr_writer, unit, 'e) exec" where
  "write_i32 B BO v = andthen (writer_align B 4) (\<lambda>_. buffer_extend B (bo_write_u32 BO v))"

definition write_u32 ::
    "('b, 'z) CdrBuffer \<Rightarrow> byte_order \<Rightarrow> u32 \<Rightarrow> ('b cdr_writer, unit, 'e) exec" where
  "write_u32 B BO v = andthen (writer_align B 4) (\<lambda>_. buffer_extend B (bo_write_u32 BO v))"

definition write_i64 ::
    "('b, 'z) CdrBuffer \<Rightarrow> byte_order \<Rightarrow> i64 \<Rightarrow> ('b cdr_writer, unit, 'e) exec" where
  "write_i64 B BO v = andthen (writer_align B 8) (\<lambda>_. buffer_extend B (bo_write_u64 BO v))"

definition write_u64 ::
    "('b, 'z) CdrBuffer \<Rightarrow> byte_order \<Rightarrow> u64 \<Rightarrow> ('b cdr_writer, unit, 'e) exec" where
  "write_u64 B BO v = andthen (writer_align B 8) (\<lambda>_. buffer_extend B (bo_write_u64 BO v))"

definition write_f32 ::
    "('b, 'z) CdrBuffer \<Rightarrow> byte_order \<Rightarrow> f32 \<Rightarrow> ('b cdr_writer, unit, 'e) exec" where
  "write_f32 B BO v = andthen (writer_align B 4) (\<lambda>_. buffer_extend B (bo_write_u32 BO v))"

definition write_f64 ::
    "('b, 'z) CdrBuffer \<Rightarrow> byte_order \<Rightarrow> f64 \<Rightarrow> ('b cdr_writer, unit, 'e) exec" where
  "write_f64 B BO v = andthen (writer_align B 8) (\<lambda>_. buffer_extend B (bo_write_u64 BO v))"

text \<open>\<^verbatim>\<open>s.len() as u32 + 1\<close>: the cast truncates and, without overflow checks, the sum wraps.\<close>

definition write_string ::
    "('b, 'z) CdrBuffer \<Rightarrow> byte_order \<Rightarrow> bytes \<Rightarrow> ('b cdr_writer, unit, 'e) exec" where
  "write_string B BO s =
     andthen (write_u32 B BO (of_nat (length s) + 1)) (\<lambda>_.
     andthen (buffer_extend B s) (\<lambda>_. buffer_push B 0))"

definition write_bytes ::
    "('b, 'z) CdrBuffer \<Rightarrow> byte_order \<Rightarrow> bytes \<Rightarrow> ('b cdr_writer, unit, 'e) exec" where
  "write_bytes B BO bs =
     andthen (write_u32 B BO (of_nat (length bs))) (\<lambda>_. buffer_extend B bs)"

definition write_sequence_length ::
    "('b, 'z) CdrBuffer \<Rightarrow> byte_order \<Rightarrow> nat \<Rightarrow> ('b cdr_writer, unit, 'e) exec" where
  "write_sequence_length B BO n = write_u32 B BO (of_nat n)"

section \<open>CdrReader\<close>

definition reader_new :: "bytes \<Rightarrow> cdr_reader" where
  "reader_new inp = \<lparr>rd_input = inp, rd_position = 0\<rparr>"

definition reader_remaining :: "cdr_reader \<Rightarrow> nat" where
  "reader_remaining r = length (rd_input r) - rd_position r"

definition reader_align :: "nat \<Rightarrow> (cdr_reader, unit, cdr_error) exec" where
  "reader_align alignment = (\<lambda>r.
     if alignment = 0 then (Panic, r)
     else let modulo = rd_position r mod alignment in
       if modulo \<noteq> 0
       then let padding = alignment - modulo in
         if reader_remaining r < padding then (Err UnexpectedEof, r)
         else (Ok (), r\<lparr>rd_position := rd_position r + padding\<rparr>)
       else (Ok (), r))"

definition read_bytes :: "nat \<Rightarrow> (cdr_reader, bytes, cdr_error) exec" where
  "read_bytes count = (\<lambda>r.
     if reader_remaining r < count then (Err UnexpectedEof, r)
     else (Ok (take count (drop (rd_position r) (rd_input r))),
           r\<lparr>rd_position := rd_position r + count\<rparr>))"

text \<open>\<^verbatim>\<open>bytes[0]\<close> panics on an empty slice, \<^verbatim>\<open>unwrap\<close> on a slice that is too short.\<close>

definition index_0 :: "bytes \<Rightarrow> (cdr_reader, u8, cdr_error) exec" where
  "index_0 bs = (case bs of [] \<Rightarrow> panic | b # _ \<Rightarrow> ret b)"

definition unwrap_read :: "nat \<Rightarrow> (bytes \<Rightarrow> 'a) \<Rightarrow> bytes \<Rightarrow> (cdr_reader, 'a, cdr_error) exec" where
  "unwrap_read n rd bs = (if length bs < n then panic else ret (rd (take n bs)))"

definition read_bool :: "(cdr_reader, bool, cdr_error) exec" where
  "read_bool =
     andthen (read_bytes 1) (\<lambda>bs. andthen (index_0 bs) (\<lambda>byte.
       if byte = 0 then ret False else if byte = 1 then ret True
       else throw (InvalidBool byte)))"

definition read_i8 :: "(cdr_reader, i8, cdr_error) exec" where
  "read_i8 = andthen (read_bytes 1) index_0"

definition read_u8 :: "(cdr_reader, u8, cdr_error) exec" where
  "read_u8 = andthen (read_bytes 1) index_0"

definition read_i16 :: "byte_order \<Rightarrow> (cdr_reader, i16, cdr_error) exec" where
  "read_i16 BO = andthen (reader_align 2) (\<lambda>_.
     andthen (read_bytes 2) (unwrap_read 2 (bo_read_u16 BO)))"

definition read_u16 :: "byte_order \<Rightarrow> (cdr_reader, u16, cdr_error) exec" where
  "read_u16 BO = andthen (reader_align 2) (\<lambda>_.
     andthen (read_bytes 2) (unwrap_read 2 (bo_read_u16 BO)))"

definition read_i32 :: "byte_order \<Rightarrow> (cdr_reader, i32, cdr_error) exec" where
  "read_i32 BO = andthen (reader_align 4) (\<lambda>_.
     andthen (read_bytes 4) (unwrap_read 4 (bo_read_u32 BO)))"

definition read_u32 :: "byte_order \<Rightarrow> (cdr_reader, u32, cdr_error) exec" where
  "read_u32 BO = andthen (reader_align 4) (\<lambda>_.
     andthen (read_bytes 4) (unwrap_read 4 (bo_read_u32 BO)))"

definition read_i64 :: "byte_order \<Rightarrow> (cdr_reader, i64, cdr_error) exec" where
  "read_i64 BO = andthen (reader_align 8) (\<lambda>_.
     andthen (read_bytes 8) (unwrap_read 8 (bo_read_u64 BO)))"

definition read_u64 :: "byte_order \<Rightarrow> (cdr_reader, u64, cdr_error) exec" where
  "read_u64 BO = andthen (reader_align 8) (\<lambda>_.
     andthen (read_bytes 8) (unwrap_read 8 (bo_read_u64 BO)))"

definition read_f32 :: "byte_order \<Rightarrow> (cdr_reader, f32, cdr_error) exec" where
  "read_f32 BO = andthen (reader_align 4) (\<lambda>_.
     andthen (read_bytes 4) (unwrap_read 4 (bo_read_u32 BO)))"

definition read_f64 :: "byte_order \<Rightarrow> (cdr_reader, f64, cdr_error) exec" where
  "read_f64 BO = andthen (reader_align 8) (\<lambda>_.
     andthen (read_bytes 8) (unwrap_read 8 (bo_read_u64 BO)))"

text \<open>Removes the null terminator if there is one, then checks UTF-8.\<close>

definition string_of_bytes :: "bytes \<Rightarrow> (cdr_reader, bytes, cdr_error) exec" where
  "string_of_bytes bs =
     (let str_bytes = if bs \<noteq> [] \<and> last bs = 0 then take (length bs - 1) bs else bs
      in case from_utf8 str_bytes of
           Ok s \<Rightarrow> ret s | Err e \<Rightarrow> throw (Utf8 e) | Panic \<Rightarrow> panic)"

definition read_string :: "byte_order \<Rightarrow> (cdr_reader, bytes, cdr_error) exec" where
  "read_string BO = andthen (read_u32 BO) (\<lambda>n.
     if unat n = 0 then ret [] else andthen (read_bytes (unat n)) string_of_bytes)"

definition read_str :: "byte_order \<Rightarrow> (cdr_reader, bytes, cdr_error) exec" where
  "read_str BO = andthen (read_u32 BO) (\<lambda>n.
     if unat n = 0 then ret [] else andthen (read_bytes (unat n)) string_of_bytes)"

definition MAX_SEQUENCE_LENGTH :: u32 where
  "MAX_SEQUENCE_LENGTH = 100000000"

definition sequence_length_message :: "u32 \<Rightarrow> string" where
  "sequence_length_message n =
     ''Sequence length '' @ show_nat (unat n) @ '' exceeds maximum allowed ('' @
     show_nat (unat MAX_SEQUENCE_LENGTH) @
     ''). Possible schema mismatch or corrupted data.''"

definition read_sequence_length :: "byte_order \<Rightarrow> (cdr_reader, nat, cdr_error) exec" where
  "read_sequence_length BO = andthen (read_u32 BO) (\<lambda>n.
     if n > MAX_SEQUENCE_LENGTH then throw (Custom (sequence_length_message n)) else ret (unat n))"

definition read_byte_sequence :: "byte_order \<Rightarrow> (cdr_reader, bytes, cdr_error) exec" where
  "read_byte_sequence BO = andthen (read_u32 BO) (\<lambda>n. read_bytes (unat n))"

section \<open>The encoders of the primitives\<close>

definition enc_u16 :: "byte_order \<Rightarrow> u16 \<Rightarrow> 'e enc" where
  "enc_u16 BO v = enc_then (enc_align 2) (enc_bytes (bo_write_u16 BO v))"

definition enc_u32 :: "byte_order \<Rightarrow> u32 \<Rightarrow> 'e enc" where
  "enc_u32 BO v = enc_then (enc_align 4) (enc_bytes (bo_write_u32 BO v))"

definition enc_u64 :: "byte_order \<Rightarrow> u64 \<Rightarrow> 'e enc" where
  "enc_u64 BO v = enc_then (enc_align 8) (enc_bytes (bo_write_u64 BO v))"

definition enc_string :: "byte_order \<Rightarrow> bytes \<Rightarrow> 'e enc" where
  "enc_string BO s = enc_then (enc_u32 BO (of_nat (length s) + 1)) (enc_bytes (s @ [0]))"

definition enc_byte_seq :: "byte_order \<Rightarrow> bytes \<Rightarrow> 'e enc" where
  "enc_byte_seq BO bs = enc_then (enc_u32 BO (of_nat (length bs))) (enc_bytes bs)"

lemmas write_defs =
  write_bool_def write_i8_def write_u8_def write_i16_def write_u16_def write_i32_def write_u32_def
  write_i64_def write_u64_def write_f32_def write_f64_def write_string_def write_bytes_def
  write_sequence_length_def

lemmas enc_defs = enc_u16_def enc_u32_def enc_u64_def enc_string_def enc_byte_seq_def

section \<open>The writer appends what the encoders say\<close>

locale cdr_writing = cdr_buffer Z B content inv_buf
  for Z :: "'z zbuf_ops" and B :: "('b, 'z) CdrBuffer" and content inv_buf
begin

lemma refines_extend [refines_intros]:
  "refines content inv_buf (buffer_extend B xs) (enc_bytes xs)"
  by (simp add: refines_def buffer_extend_def enc_bytes_def)

lemma refines_push [refines_intros]:
  "refines content inv_buf (buffer_push B x) (enc_bytes [x])"
  by (simp add: refines_def buffer_push_def enc_bytes_def)

lemma refines_align [refines_intros]:
  assumes "0 < k" shows "refines content inv_buf (writer_align B k) (enc_align k)"
proof -
  have "take n ZEROS = replicate n 0" if "n \<le> 8" for n
    using that by (simp add: ZEROS_def take_Cons' numeral_eq_Suc less_Suc_eq le_Suc_eq)
      (auto simp: numeral_eq_Suc)
  with assms show ?thesis
    by (auto simp: refines_def enc_align_def writer_align_def Let_def buffer_extend_def
        writer_position_def ZEROS_def)
qed

lemma refines_writes [refines_intros]:
  "refines content inv_buf (write_bool B v) (enc_bytes [if v then 1 else 0])"
  "refines content inv_buf (write_i8 B a) (enc_bytes [a])"
  "refines content inv_buf (write_u8 B a) (enc_bytes [a])"
  "refines content inv_buf (write_i16 B BO b) (enc_u16 BO b)"
  "refines content inv_buf (write_u16 B BO b) (enc_u16 BO b)"
  "refines content inv_buf (write_i32 B BO c) (enc_u32 BO c)"
  "refines content inv_buf (write_u32 B BO c) (enc_u32 BO c)"
  "refines content inv_buf (write_f32 B BO c) (enc_u32 BO c)"
  "refines content inv_buf (write_i64 B BO d) (enc_u64 BO d)"
  "refines content inv_buf (write_u64 B BO d) (enc_u64 BO d)"
  "refines content inv_buf (write_f64 B BO d) (enc_u64 BO d)"
  "refines content inv_buf (write_sequence_length B BO n) (enc_u32 BO (of_nat n))"
  by (simp_all add: write_defs enc_defs refines_intros refines_andthen)

lemma refines_write_string [refines_intros]:
  "refines content inv_buf (write_string B BO s) (enc_string BO s)"
  unfolding write_string_def enc_string_def enc_bytes_append [symmetric]
  by (intro refines_andthen refines_intros)

lemma refines_write_bytes [refines_intros]:
  "refines content inv_buf (write_bytes B BO bs) (enc_byte_seq BO bs)"
  unfolding write_bytes_def enc_byte_seq_def by (intro refines_andthen refines_intros)

end

interpretation vecw: cdr_writing list_zbuf "vec_CdrBuffer list_zbuf" vec_data vec_inv
  by unfold_locales

interpretation zww: cdr_writing list_zbuf "ZBufWriter_CdrBuffer list_zbuf"
    "zw_content list_zbuf" "zw_inv list_zbuf"
  by unfold_locales

section \<open>The reader inverts the encoders\<close>

lemma reader_align_run:
  assumes "0 < k"
  shows "reader_align k \<lparr>rd_input = inp, rd_position = p\<rparr> =
    (if p mod k = 0 then (Ok (), \<lparr>rd_input = inp, rd_position = p\<rparr>)
     else if length inp - p < k - p mod k
       then (Err UnexpectedEof, \<lparr>rd_input = inp, rd_position = p\<rparr>)
     else (Ok (), \<lparr>rd_input = inp, rd_position = p + (k - p mod k)\<rparr>))"
  using assms by (simp add: reader_align_def reader_remaining_def Let_def)

lemma read_bytes_run:
  "read_bytes n \<lparr>rd_input = inp, rd_position = p\<rparr> =
    (if length inp - p < n then (Err UnexpectedEof, \<lparr>rd_input = inp, rd_position = p\<rparr>)
     else (Ok (take n (drop p inp)), \<lparr>rd_input = inp, rd_position = p + n\<rparr>))"
  by (simp add: read_bytes_def reader_remaining_def)

lemma decodes_align [parses_intros]:
  "0 < k \<Longrightarrow> decodes UnexpectedEof (reader_align k) (enc_align k) ()"
  by (rule decodesI)
    (auto simp: reader_align_run enc_align_def dest!: prefix_length_less split: if_splits)

lemma decodes_read_bytes [parses_intros]:
  "length xs = n \<Longrightarrow> decodes UnexpectedEof (read_bytes n) (enc_bytes xs) xs"
  by (rule decodesI) (auto simp: read_bytes_run enc_bytes_def dest!: prefix_length_less)

text \<open>Turning the bytes read into a value cannot fail at the end of the input.\<close>

lemma decodes_then_pure:
  assumes "decodes eof d e x" and "\<And>r. f x r = (Ok y, r)"
  shows "decodes eof (andthen d f) e y"
proof -
  from assms(2) have "decodes eof (f x) (enc_bytes []) y"
    by (simp add: decodes_def enc_bytes_def)
  from decodes_andthen [where f = f, OF assms(1) this] show ?thesis by simp
qed

lemma decodes_one_byte:
  "decodes UnexpectedEof (andthen (read_bytes 1) index_0) (enc_bytes [b]) b"
  by (rule decodes_then_pure [OF decodes_read_bytes]) (simp_all add: index_0_def ret_run)

lemma decodes_unwrap:
  assumes "0 < k" and "length xs = n" and "rd xs = v"
  shows "decodes UnexpectedEof
    (andthen (reader_align k) (\<lambda>_. andthen (read_bytes n) (unwrap_read n rd)))
    (enc_then (enc_align k) (enc_bytes xs)) v"
  using assms
  by (intro decodes_andthen [OF decodes_align] decodes_then_pure [OF decodes_read_bytes])
    (simp_all add: unwrap_read_def ret_run)

locale cdr_reading = byte_order_laws BO for BO
begin

lemma decodes_reads [parses_intros]:
  "decodes UnexpectedEof read_i8 (enc_bytes [a]) a"
  "decodes UnexpectedEof read_u8 (enc_bytes [a]) a"
  "decodes UnexpectedEof (read_i16 BO) (enc_u16 BO b) b"
  "decodes UnexpectedEof (read_u16 BO) (enc_u16 BO b) b"
  "decodes UnexpectedEof (read_i32 BO) (enc_u32 BO c) c"
  "decodes UnexpectedEof (read_u32 BO) (enc_u32 BO c) c"
  "decodes UnexpectedEof (read_f32 BO) (enc_u32 BO c) c"
  "decodes UnexpectedEof (read_i64 BO) (enc_u64 BO d) d"
  "decodes UnexpectedEof (read_u64 BO) (enc_u64 BO d) d"
  "decodes UnexpectedEof (read_f64 BO) (enc_u64 BO d) d"
  by (simp_all add: read_i8_def read_u8_def read_i16_def read_u16_def read_i32_def read_u32_def
      read_f32_def read_i64_def read_u64_def read_f64_def enc_defs decodes_one_byte decodes_unwrap
      del: One_nat_def)

lemma decodes_read_bool [parses_intros]:
  "decodes UnexpectedEof read_bool (enc_bytes [if v then 1 else 0]) v"
proof -
  have "decodes UnexpectedEof (read_bytes 1) (enc_bytes [if v then 1 else 0 :: u8])
    [if v then 1 else 0]"
    by (rule decodes_read_bytes) simp
  then show ?thesis
    unfolding read_bool_def
    by (rule decodes_then_pure) (simp add: index_0_def andthen_def ret_def)
qed

lemma string_of_bytes_terminated:
  "is_str s \<Longrightarrow> string_of_bytes (s @ [0]) r = (Ok s, r)"
  by (simp add: string_of_bytes_def ret_run)

lemma decodes_string_body:
  assumes "is_str s" "length s + 1 < 2 ^ 32"
  shows "decodes UnexpectedEof
    (andthen (read_u32 BO) (\<lambda>n.
       if unat n = 0 then ret [] else andthen (read_bytes (unat n)) string_of_bytes))
    (enc_string BO s) s"
proof -
  have n: "unat (of_nat (length s) + 1 :: u32) = length s + 1"
  proof -
    have "of_nat (length s) + 1 = (of_nat (length s + 1) :: u32)"
      by simp
    then show ?thesis
      using assms(2) by (simp only: unat_of_nat take_bit_nat_eq_self len_num1 len_bit0) simp
  qed
  show ?thesis
    unfolding enc_string_def
    by (rule decodes_andthen [OF decodes_reads(6)])
      (simp add: n decodes_then_pure [OF decodes_read_bytes] string_of_bytes_terminated assms(1))
qed

lemma decodes_read_string [parses_intros]:
  assumes "is_str s" "length s + 1 < 2 ^ 32"
  shows "decodes UnexpectedEof (read_string BO) (enc_string BO s) s"
    "decodes UnexpectedEof (read_str BO) (enc_string BO s) s"
  unfolding read_string_def read_str_def by (rule decodes_string_body [OF assms])+

lemma decodes_read_sequence_length [parses_intros]:
  assumes "n \<le> 100000000"
  shows "decodes UnexpectedEof (read_sequence_length BO) (enc_u32 BO (of_nat n)) n"
proof -
  have n: "unat (of_nat n :: u32) = n"
    using assms by (simp add: unat_of_nat take_bit_nat_eq_self)
  then have "\<not> MAX_SEQUENCE_LENGTH < of_nat n"
    using assms by (simp add: MAX_SEQUENCE_LENGTH_def word_less_nat_alt)
  then show ?thesis
    unfolding read_sequence_length_def
    by (intro decodes_then_pure [OF decodes_reads(6)]) (simp add: n ret_run)
qed

lemma decodes_read_byte_sequence [parses_intros]:
  assumes "length bs < 2 ^ 32"
  shows "decodes UnexpectedEof (read_byte_sequence BO) (enc_byte_seq BO bs) bs"
  using assms unfolding read_byte_sequence_def enc_byte_seq_def
  by (intro decodes_andthen [OF decodes_reads(6)] decodes_read_bytes)
    (simp add: unat_of_nat take_bit_nat_eq_self)

end

interpretation le_reading: cdr_reading LittleEndian
  by unfold_locales

interpretation be_reading: cdr_reading BigEndian
  by unfold_locales

section \<open>The reader stays inside its input\<close>

lemma safe_reader_align [safe_intros]: "0 < k \<Longrightarrow> safe (reader_align k)"
  unfolding safe_def
proof (intro allI impI)
  fix r assume "0 < k" "rd_ok r"
  moreover from \<open>0 < k\<close> have "rd_position r mod k < k" by simp
  ultimately show "fst (reader_align k r) \<noteq> Panic \<and> rd_ok (snd (reader_align k r)) \<and>
    rd_input (snd (reader_align k r)) = rd_input r \<and>
    rd_position r \<le> rd_position (snd (reader_align k r))"
    by (auto simp: reader_align_def rd_ok_def reader_remaining_def Let_def)
qed

lemma safe_read_bytes [safe_intros]: "safe (read_bytes n)"
  by (auto simp: safe_def read_bytes_def rd_ok_def reader_remaining_def)

text \<open>A slice of the requested length is never empty or too short, so nothing is out of range.\<close>

lemma safe_read_bytes_then:
  assumes "\<And>bs. length bs = n \<Longrightarrow> safe (f bs)"
  shows "safe (andthen (read_bytes n) f)"
  unfolding safe_def
proof (intro allI impI)
  fix r assume r: "rd_ok r"
  let ?m = "andthen (read_bytes n) f"
  let ?bs = "take n (drop (rd_position r) (rd_input r))"
  let ?r = "r\<lparr>rd_position := rd_position r + n\<rparr>"
  show "fst (?m r) \<noteq> Panic \<and> rd_ok (snd (?m r)) \<and> rd_input (snd (?m r)) = rd_input r \<and>
    rd_position r \<le> rd_position (snd (?m r))"
  proof (cases "reader_remaining r < n")
    case True
    with r show ?thesis by (simp add: andthen_def read_bytes_def)
  next
    case False
    with r have "rd_ok ?r" "length ?bs = n"
      by (auto simp: rd_ok_def reader_remaining_def)
    with assms [of ?bs] False show ?thesis
      by (auto simp: andthen_def read_bytes_def safe_def)
  qed
qed

lemma safe_reads [safe_intros]:
  "safe read_bool" "safe read_i8" "safe read_u8" "safe (read_i16 BO)" "safe (read_u16 BO)"
  "safe (read_i32 BO)" "safe (read_u32 BO)" "safe (read_f32 BO)" "safe (read_i64 BO)"
  "safe (read_u64 BO)" "safe (read_f64 BO)"
  unfolding read_bool_def read_i8_def read_u8_def read_i16_def read_u16_def read_i32_def
    read_u32_def read_f32_def read_i64_def read_u64_def read_f64_def
  by (intro safe_andthen safe_reader_align safe_read_bytes_then;
      auto simp: index_0_def unwrap_read_def length_Suc_conv intro!: safe_intros)+

lemma safe_string_of_bytes [safe_intros]: "safe (string_of_bytes bs)"
  by (auto simp: string_of_bytes_def Let_def intro: safe_intros split: result.splits)

lemma safe_read_sequences [safe_intros]:
  "safe (read_string BO)" "safe (read_str BO)" "safe (read_sequence_length BO)"
  "safe (read_byte_sequence BO)"
  unfolding read_string_def read_str_def read_sequence_length_def read_byte_sequence_def
  by (intro safe_andthen safe_reads; simp add: safe_intros)+

end
