(* ===== verification/Cdr_Serde.thy ===== *)
theory Cdr_Serde
  imports Cdr_Primitives
begin

text \<open>
  \<^verbatim>\<open>ros-z-cdr/src/serializer.rs\<close> and \<^verbatim>\<open>deserializer.rs\<close>.  \<^verbatim>\<open>serde\<close> is foreign:
  what a type's \<^verbatim>\<open>Serialize\<close> implementation does is the tree of serializer calls it makes
  (\<open>sval\<close>, one constructor per method of \<^verbatim>\<open>serde::Serializer\<close>), and what its
  \<^verbatim>\<open>Deserialize\<close> implementation does is the tree of deserializer calls it asks for
  (\<open>dshape\<close>, one constructor per method of \<^verbatim>\<open>serde::Deserializer\<close>).  Type, field and variant
  names are left out: every method of the two files ignores them.
  \<open>cdr_encode\<close> is the abstract encoding; the serializer refines it over every buffer and the
  deserializer inverts it on every value of the right shape.
\<close>

section \<open>The serde data model\<close>

datatype sval =
    SBool bool | SI8 i8 | SI16 i16 | SI32 i32 | SI64 i64
  | SU8 u8 | SU16 u16 | SU32 u32 | SU64 u64 | SU128 u128 | SF32 f32 | SF64 f64
  | SChar u32 | SStr bytes | SBytes bytes
  | SNone | SSome sval
  | SUnit | SUnitStruct | SUnitVariant u32
  | SNewtypeStruct sval | SNewtypeVariant u32 sval
  | SSeq "nat option" "sval list"
  | STuple "sval list" | STupleStruct "sval list" | STupleVariant u32 "sval list"
  | SMap "nat option" "(sval \<times> sval) list"
  | SStruct "sval list" | SStructVariant u32 "sval list"

datatype dshape =
    DAny | DBool | DI8 | DI16 | DI32 | DI64 | DU8 | DU16 | DU32 | DU64 | DF32 | DF64
  | DChar | DStr | DString | DBytes | DByteBuf
  | DOption dshape | DUnit | DUnitStruct | DNewtypeStruct dshape
  | DSeq dshape | DTuple "dshape list" | DTupleStruct "dshape list"
  | DMap dshape dshape | DStruct "dshape list"
  | DEnum string "dvariant list"
  | DIdentifier | DIgnoredAny
and dvariant = VUnit | VNewtype dshape | VTuple "dshape list" | VStruct "dshape list"

text \<open>
  The string of \<open>DEnum\<close> is the message of the error that the variant index's own
  \<^verbatim>\<open>Deserialize\<close> implementation raises when the tag names no variant.
\<close>

section \<open>CdrSerializer\<close>

type_synonym 'b ser = "('b cdr_writer, unit, cdr_error) exec"

definition serializer_new :: "('b, 'z) CdrBuffer \<Rightarrow> 'b \<Rightarrow> 'b cdr_writer" where
  "serializer_new B buffer = writer_new B buffer"

definition serializer_position :: "('b, 'z) CdrBuffer \<Rightarrow> 'b cdr_writer \<Rightarrow> nat" where
  "serializer_position B w = writer_position B w"

definition serialize_zbuf ::
    "'z zbuf_ops \<Rightarrow> byte_order \<Rightarrow> 'z \<Rightarrow> ('z ZBufWriter) ser" where
  "serialize_zbuf Z BO zbuf =
     (let B = ZBufWriter_CdrBuffer Z; n = sum_list (map length (zb_zslices Z zbuf)) in
      andthen (write_u32 B BO (of_nat n)) (\<lambda>_ w.
        (Ok (), w\<lparr>wr_buffer := cb_append_zbuf B (wr_buffer w) zbuf\<rparr>)))"

definition serialize_bool :: "('b, 'z) CdrBuffer \<Rightarrow> bool \<Rightarrow> 'b ser" where
  "serialize_bool B v = write_bool B v"

definition serialize_u8 :: "('b, 'z) CdrBuffer \<Rightarrow> u8 \<Rightarrow> 'b ser" where
  "serialize_u8 B v = write_u8 B v"

definition serialize_u16 :: "('b, 'z) CdrBuffer \<Rightarrow> byte_order \<Rightarrow> u16 \<Rightarrow> 'b ser" where
  "serialize_u16 B BO v = write_u16 B BO v"

definition serialize_u32 :: "('b, 'z) CdrBuffer \<Rightarrow> byte_order \<Rightarrow> u32 \<Rightarrow> 'b ser" where
  "serialize_u32 B BO v = write_u32 B BO v"

definition serialize_u64 :: "('b, 'z) CdrBuffer \<Rightarrow> byte_order \<Rightarrow> u64 \<Rightarrow> 'b ser" where
  "serialize_u64 B BO v = write_u64 B BO v"

definition serialize_u128 :: "('b, 'z) CdrBuffer \<Rightarrow> byte_order \<Rightarrow> u128 \<Rightarrow> 'b ser" where
  "serialize_u128 B BO v =
     andthen (writer_align B 16) (\<lambda>_. buffer_extend B (bo_write_u128 BO v))"

definition serialize_i8 :: "('b, 'z) CdrBuffer \<Rightarrow> i8 \<Rightarrow> 'b ser" where
  "serialize_i8 B v = write_i8 B v"

definition serialize_i16 :: "('b, 'z) CdrBuffer \<Rightarrow> byte_order \<Rightarrow> i16 \<Rightarrow> 'b ser" where
  "serialize_i16 B BO v = write_i16 B BO v"

definition serialize_i32 :: "('b, 'z) CdrBuffer \<Rightarrow> byte_order \<Rightarrow> i32 \<Rightarrow> 'b ser" where
  "serialize_i32 B BO v = write_i32 B BO v"

definition serialize_i64 :: "('b, 'z) CdrBuffer \<Rightarrow> byte_order \<Rightarrow> i64 \<Rightarrow> 'b ser" where
  "serialize_i64 B BO v = write_i64 B BO v"

definition serialize_f32 :: "('b, 'z) CdrBuffer \<Rightarrow> byte_order \<Rightarrow> f32 \<Rightarrow> 'b ser" where
  "serialize_f32 B BO v = write_f32 B BO v"

definition serialize_f64 :: "('b, 'z) CdrBuffer \<Rightarrow> byte_order \<Rightarrow> f64 \<Rightarrow> 'b ser" where
  "serialize_f64 B BO v = write_f64 B BO v"

definition serialize_char :: "('b, 'z) CdrBuffer \<Rightarrow> byte_order \<Rightarrow> u32 \<Rightarrow> 'b ser" where
  "serialize_char B BO v = serialize_u32 B BO v"

definition serialize_str :: "('b, 'z) CdrBuffer \<Rightarrow> byte_order \<Rightarrow> bytes \<Rightarrow> 'b ser" where
  "serialize_str B BO v = write_string B BO v"

definition serialize_bytes :: "('b, 'z) CdrBuffer \<Rightarrow> byte_order \<Rightarrow> bytes \<Rightarrow> 'b ser" where
  "serialize_bytes B BO v = write_bytes B BO v"

definition serialize_none :: "('b, 'z) CdrBuffer \<Rightarrow> byte_order \<Rightarrow> 'b ser" where
  "serialize_none B BO = serialize_u32 B BO 0"

definition serialize_some :: "('b, 'z) CdrBuffer \<Rightarrow> byte_order \<Rightarrow> 'b ser \<Rightarrow> 'b ser" where
  "serialize_some B BO value = andthen (serialize_u32 B BO 1) (\<lambda>_. value)"

definition serialize_unit :: "'b ser" where
  "serialize_unit = ret ()"

definition serialize_unit_struct :: "'b ser" where
  "serialize_unit_struct = serialize_unit"

definition serialize_unit_variant :: "('b, 'z) CdrBuffer \<Rightarrow> byte_order \<Rightarrow> u32 \<Rightarrow> 'b ser" where
  "serialize_unit_variant B BO variant_index = serialize_u32 B BO variant_index"

definition serialize_newtype_struct :: "'b ser \<Rightarrow> 'b ser" where
  "serialize_newtype_struct value = value"

definition serialize_newtype_variant ::
    "('b, 'z) CdrBuffer \<Rightarrow> byte_order \<Rightarrow> u32 \<Rightarrow> 'b ser \<Rightarrow> 'b ser" where
  "serialize_newtype_variant B BO variant_index value =
     andthen (serialize_u32 B BO variant_index) (\<lambda>_. value)"

definition serialize_seq :: "('b, 'z) CdrBuffer \<Rightarrow> byte_order \<Rightarrow> nat option \<Rightarrow> 'b ser" where
  "serialize_seq B BO n = (case n of
     None \<Rightarrow> throw UnknownLength
   | Some elem_count \<Rightarrow> write_sequence_length B BO elem_count)"

definition serialize_tuple :: "nat \<Rightarrow> 'b ser" where
  "serialize_tuple n = ret ()"

definition serialize_tuple_struct :: "nat \<Rightarrow> 'b ser" where
  "serialize_tuple_struct n = ret ()"

definition serialize_tuple_variant ::
    "('b, 'z) CdrBuffer \<Rightarrow> byte_order \<Rightarrow> u32 \<Rightarrow> nat \<Rightarrow> 'b ser" where
  "serialize_tuple_variant B BO variant_index n = serialize_u32 B BO variant_index"

definition serialize_map :: "('b, 'z) CdrBuffer \<Rightarrow> byte_order \<Rightarrow> nat option \<Rightarrow> 'b ser" where
  "serialize_map B BO n = (case n of
     None \<Rightarrow> throw UnknownLength
   | Some elem_count \<Rightarrow> write_sequence_length B BO elem_count)"

definition serialize_struct :: "nat \<Rightarrow> 'b ser" where
  "serialize_struct n = ret ()"

definition serialize_struct_variant ::
    "('b, 'z) CdrBuffer \<Rightarrow> byte_order \<Rightarrow> u32 \<Rightarrow> nat \<Rightarrow> 'b ser" where
  "serialize_struct_variant B BO variant_index n = serialize_u32 B BO variant_index"

text \<open>
  The compound serializers: each element, field, key or value is serialized into the same writer
  when it is handed over, and \<^verbatim>\<open>end\<close> does nothing.
\<close>

definition seq_elements :: "'b ser list \<Rightarrow> 'b ser" where
  "seq_elements elems = andthen (run_all elems) (\<lambda>_. ret ())"

definition tuple_elements :: "'b ser list \<Rightarrow> 'b ser" where
  "tuple_elements elems = andthen (run_all elems) (\<lambda>_. ret ())"

definition tuple_struct_fields :: "'b ser list \<Rightarrow> 'b ser" where
  "tuple_struct_fields flds = andthen (run_all flds) (\<lambda>_. ret ())"

definition tuple_variant_fields :: "'b ser list \<Rightarrow> 'b ser" where
  "tuple_variant_fields flds = andthen (run_all flds) (\<lambda>_. ret ())"

definition map_entries :: "('b ser \<times> 'b ser) list \<Rightarrow> 'b ser" where
  "map_entries entries =
     andthen (run_all (map (\<lambda>(k, v). andthen k (\<lambda>_. v)) entries)) (\<lambda>_. ret ())"

definition struct_fields :: "'b ser list \<Rightarrow> 'b ser" where
  "struct_fields flds = andthen (run_all flds) (\<lambda>_. ret ())"

definition struct_variant_fields :: "'b ser list \<Rightarrow> 'b ser" where
  "struct_variant_fields flds = andthen (run_all flds) (\<lambda>_. ret ())"

primrec serialize :: "('b, 'z) CdrBuffer \<Rightarrow> byte_order \<Rightarrow> sval \<Rightarrow> 'b ser" where
  "serialize B BO (SBool v) = serialize_bool B v"
| "serialize B BO (SI8 v) = serialize_i8 B v"
| "serialize B BO (SI16 v) = serialize_i16 B BO v"
| "serialize B BO (SI32 v) = serialize_i32 B BO v"
| "serialize B BO (SI64 v) = serialize_i64 B BO v"
| "serialize B BO (SU8 v) = serialize_u8 B v"
| "serialize B BO (SU16 v) = serialize_u16 B BO v"
| "serialize B BO (SU32 v) = serialize_u32 B BO v"
| "serialize B BO (SU64 v) = serialize_u64 B BO v"
| "serialize B BO (SU128 v) = serialize_u128 B BO v"
| "serialize B BO (SF32 v) = serialize_f32 B BO v"
| "serialize B BO (SF64 v) = serialize_f64 B BO v"
| "serialize B BO (SChar v) = serialize_char B BO v"
| "serialize B BO (SStr v) = serialize_str B BO v"
| "serialize B BO (SBytes v) = serialize_bytes B BO v"
| "serialize B BO SNone = serialize_none B BO"
| "serialize B BO (SSome v) = serialize_some B BO (serialize B BO v)"
| "serialize B BO SUnit = serialize_unit"
| "serialize B BO SUnitStruct = serialize_unit_struct"
| "serialize B BO (SUnitVariant i) = serialize_unit_variant B BO i"
| "serialize B BO (SNewtypeStruct v) = serialize_newtype_struct (serialize B BO v)"
| "serialize B BO (SNewtypeVariant i v) = serialize_newtype_variant B BO i (serialize B BO v)"
| "serialize B BO (SSeq n vs) =
     andthen (serialize_seq B BO n) (\<lambda>_. seq_elements (map (serialize B BO) vs))"
| "serialize B BO (STuple vs) =
     andthen (serialize_tuple (length vs)) (\<lambda>_. tuple_elements (map (serialize B BO) vs))"
| "serialize B BO (STupleStruct vs) =
     andthen (serialize_tuple_struct (length vs))
       (\<lambda>_. tuple_struct_fields (map (serialize B BO) vs))"
| "serialize B BO (STupleVariant i vs) =
     andthen (serialize_tuple_variant B BO i (length vs))
       (\<lambda>_. tuple_variant_fields (map (serialize B BO) vs))"
| "serialize B BO (SMap n kvs) =
     andthen (serialize_map B BO n)
       (\<lambda>_. map_entries (map (map_prod (serialize B BO) (serialize B BO)) kvs))"
| "serialize B BO (SStruct vs) =
     andthen (serialize_struct (length vs)) (\<lambda>_. struct_fields (map (serialize B BO) vs))"
| "serialize B BO (SStructVariant i vs) =
     andthen (serialize_struct_variant B BO i (length vs))
       (\<lambda>_. struct_variant_fields (map (serialize B BO) vs))"

text \<open>The entry points.  \<open>size_of_val\<close> stands for \<^verbatim>\<open>std::mem::size_of_val(value)\<close>.\<close>

definition to_vec :: "'z zbuf_ops \<Rightarrow> byte_order \<Rightarrow> sval \<Rightarrow> nat \<Rightarrow> (vec_u8, cdr_error) result" where
  "to_vec Z BO value capacity_hint =
     (let B = vec_CdrBuffer Z;
          buffer = vec_with_capacity capacity_hint;
          (res, w) = serialize B BO value (serializer_new B buffer)
      in bind_result res (\<lambda>_. Ok (wr_buffer w)))"

definition to_vec_reuse ::
    "'z zbuf_ops \<Rightarrow> byte_order \<Rightarrow> sval \<Rightarrow> nat \<Rightarrow> (vec_u8, unit, cdr_error) exec" where
  "to_vec_reuse Z BO value size_of_val = (\<lambda>buffer.
     let B = vec_CdrBuffer Z;
         buffer1 = cb_clear B buffer;
         estimated_size = size_of_val * 2;
         buffer2 = cb_reserve_4k B buffer1 estimated_size;
         (res, w) = serialize B BO value (serializer_new B buffer2)
     in (res, wr_buffer w))"

definition to_buffer ::
    "('b, 'z) CdrBuffer \<Rightarrow> byte_order \<Rightarrow> sval \<Rightarrow> ('b, unit, cdr_error) exec" where
  "to_buffer B BO value = (\<lambda>buffer.
     let buffer1 = cb_clear B buffer;
         (res, w) = serialize B BO value (serializer_new B buffer1)
     in (res, wr_buffer w))"

section \<open>CdrDeserializer\<close>

type_synonym 'a de = "(cdr_reader, 'a, cdr_error) exec"

definition deserializer_new :: "bytes \<Rightarrow> cdr_reader" where
  "deserializer_new inp = reader_new inp"

definition bytes_consumed :: "cdr_reader \<Rightarrow> nat" where
  "bytes_consumed r = rd_position r"

text \<open>The helper that serves the elements of sequences, tuples, structs and maps.\<close>

record sequence_helper =
  element_counter :: nat
  expected_count :: nat

definition sequence_helper_new :: "nat \<Rightarrow> sequence_helper" where
  "sequence_helper_new n = \<lparr>element_counter = 0, expected_count = n\<rparr>"

definition next_element_seed ::
    "'a de \<Rightarrow> sequence_helper \<Rightarrow> ('a option \<times> sequence_helper) de" where
  "next_element_seed seed h =
     (if element_counter h = expected_count h then ret (None, h)
      else let h' = h\<lparr>element_counter := element_counter h + 1\<rparr>
           in andthen seed (\<lambda>x. ret (Some x, h')))"

definition next_key_seed ::
    "'k de \<Rightarrow> sequence_helper \<Rightarrow> ('k option \<times> sequence_helper) de" where
  "next_key_seed seed h =
     (if element_counter h = expected_count h then ret (None, h)
      else let h' = h\<lparr>element_counter := element_counter h + 1\<rparr>
           in andthen seed (\<lambda>x. ret (Some x, h')))"

definition next_value_seed :: "'v de \<Rightarrow> 'v de" where
  "next_value_seed seed = seed"

text \<open>
  What the visitors of \<^verbatim>\<open>Vec\<close>, of maps and of tuples and structs do with the helper: the
  first two ask for elements until there is none (the first argument bounds the number of
  rounds, one more than the elements still to come), the last asks once per field.
\<close>

fun visit_elements :: "nat \<Rightarrow> 'a de \<Rightarrow> sequence_helper \<Rightarrow> 'a list de" where
  "visit_elements 0 seed h = ret []"
| "visit_elements (Suc n) seed h =
     andthen (next_element_seed seed h) (\<lambda>(x, h'). case x of
       None \<Rightarrow> ret []
     | Some v \<Rightarrow> andthen (visit_elements n seed h') (\<lambda>vs. ret (v # vs)))"

fun visit_entries ::
    "nat \<Rightarrow> 'k de \<Rightarrow> 'v de \<Rightarrow> sequence_helper \<Rightarrow> ('k \<times> 'v) list de" where
  "visit_entries 0 ks vs h = ret []"
| "visit_entries (Suc n) ks vs h =
     andthen (next_key_seed ks h) (\<lambda>(x, h'). case x of
       None \<Rightarrow> ret []
     | Some k \<Rightarrow> andthen (next_value_seed vs) (\<lambda>v.
         andthen (visit_entries n ks vs h') (\<lambda>kvs. ret ((k, v) # kvs))))"

definition invalid_length_message :: "nat \<Rightarrow> string" where
  "invalid_length_message i = ''invalid length '' @ show_nat i"

fun visit_fields :: "'a de list \<Rightarrow> sequence_helper \<Rightarrow> 'a list de" where
  "visit_fields [] h = ret []"
| "visit_fields (seed # seeds) h =
     andthen (next_element_seed seed h) (\<lambda>(x, h'). case x of
       None \<Rightarrow> throw (Custom (invalid_length_message (element_counter h)))
     | Some v \<Rightarrow> andthen (visit_fields seeds h') (\<lambda>vs. ret (v # vs)))"

definition deserialize_any :: "'a de" where
  "deserialize_any = throw UnsupportedAny"

definition deserialize_bool :: "sval de" where
  "deserialize_bool = andthen read_bool (\<lambda>v. ret (SBool v))"

definition deserialize_i8 :: "sval de" where
  "deserialize_i8 = andthen read_i8 (\<lambda>v. ret (SI8 v))"

definition deserialize_u8 :: "sval de" where
  "deserialize_u8 = andthen read_u8 (\<lambda>v. ret (SU8 v))"

definition deserialize_i16 :: "byte_order \<Rightarrow> sval de" where
  "deserialize_i16 BO = andthen (read_i16 BO) (\<lambda>v. ret (SI16 v))"

definition deserialize_u16 :: "byte_order \<Rightarrow> sval de" where
  "deserialize_u16 BO = andthen (read_u16 BO) (\<lambda>v. ret (SU16 v))"

definition deserialize_i32 :: "byte_order \<Rightarrow> sval de" where
  "deserialize_i32 BO = andthen (read_i32 BO) (\<lambda>v. ret (SI32 v))"

definition deserialize_u32 :: "byte_order \<Rightarrow> sval de" where
  "deserialize_u32 BO = andthen (read_u32 BO) (\<lambda>v. ret (SU32 v))"

definition deserialize_i64 :: "byte_order \<Rightarrow> sval de" where
  "deserialize_i64 BO = andthen (read_i64 BO) (\<lambda>v. ret (SI64 v))"

definition deserialize_u64 :: "byte_order \<Rightarrow> sval de" where
  "deserialize_u64 BO = andthen (read_u64 BO) (\<lambda>v. ret (SU64 v))"

definition deserialize_f32 :: "byte_order \<Rightarrow> sval de" where
  "deserialize_f32 BO = andthen (read_f32 BO) (\<lambda>v. ret (SF32 v))"

definition deserialize_f64 :: "byte_order \<Rightarrow> sval de" where
  "deserialize_f64 BO = andthen (read_f64 BO) (\<lambda>v. ret (SF64 v))"

text \<open>\<^verbatim>\<open>char::from_u32\<close>: a scalar value is below 0x110000 and no surrogate.\<close>

definition is_scalar :: "u32 \<Rightarrow> bool" where
  "is_scalar c \<longleftrightarrow> c < 0xD800 \<or> (0xDFFF < c \<and> c < 0x110000)"

definition deserialize_char :: "byte_order \<Rightarrow> sval de" where
  "deserialize_char BO = andthen (read_u32 BO) (\<lambda>codepoint.
     if is_scalar codepoint then ret (SChar codepoint) else throw (InvalidChar codepoint))"

definition deserialize_str :: "byte_order \<Rightarrow> sval de" where
  "deserialize_str BO = andthen (read_str BO) (\<lambda>s. ret (SStr s))"

definition deserialize_string :: "byte_order \<Rightarrow> sval de" where
  "deserialize_string BO = deserialize_str BO"

definition deserialize_bytes :: "byte_order \<Rightarrow> sval de" where
  "deserialize_bytes BO = andthen (read_byte_sequence BO) (\<lambda>bs. ret (SBytes bs))"

definition deserialize_byte_buf :: "byte_order \<Rightarrow> sval de" where
  "deserialize_byte_buf BO = andthen (read_byte_sequence BO) (\<lambda>bs. ret (SBytes bs))"

definition deserialize_option :: "byte_order \<Rightarrow> sval de \<Rightarrow> sval de" where
  "deserialize_option BO some = andthen (read_u32 BO) (\<lambda>enum_tag.
     if enum_tag = 0 then ret SNone
     else if enum_tag = 1 then andthen some (\<lambda>v. ret (SSome v))
     else throw (InvalidOptionTag enum_tag))"

definition deserialize_unit :: "sval \<Rightarrow> sval de" where
  "deserialize_unit unit_value = ret unit_value"

definition deserialize_unit_struct :: "sval de" where
  "deserialize_unit_struct = deserialize_unit SUnitStruct"

definition deserialize_newtype_struct :: "sval de \<Rightarrow> sval de" where
  "deserialize_newtype_struct inner = andthen inner (\<lambda>v. ret (SNewtypeStruct v))"

definition deserialize_seq :: "byte_order \<Rightarrow> sval de \<Rightarrow> sval de" where
  "deserialize_seq BO elem = andthen (read_sequence_length BO) (\<lambda>element_count.
     andthen (visit_elements (Suc element_count) elem (sequence_helper_new element_count))
       (\<lambda>vs. ret (SSeq (Some (length vs)) vs)))"

definition deserialize_tuple :: "sval de list \<Rightarrow> nat \<Rightarrow> sval list de" where
  "deserialize_tuple flds n = visit_fields flds (sequence_helper_new n)"

definition deserialize_tuple_struct :: "sval de list \<Rightarrow> nat \<Rightarrow> sval list de" where
  "deserialize_tuple_struct flds n = visit_fields flds (sequence_helper_new n)"

definition deserialize_map :: "byte_order \<Rightarrow> sval de \<Rightarrow> sval de \<Rightarrow> sval de" where
  "deserialize_map BO key val = andthen (read_sequence_length BO) (\<lambda>element_count.
     andthen (visit_entries (Suc element_count) key val (sequence_helper_new element_count))
       (\<lambda>kvs. ret (SMap (Some (length kvs)) kvs)))"

definition deserialize_struct :: "sval de list \<Rightarrow> nat \<Rightarrow> sval list de" where
  "deserialize_struct flds n = visit_fields flds (sequence_helper_new n)"

definition deserialize_identifier :: "byte_order \<Rightarrow> sval de" where
  "deserialize_identifier BO = deserialize_u32 BO"

definition deserialize_ignored_any :: "'a de" where
  "deserialize_ignored_any = deserialize_any"

text \<open>
  Enums: the tag is read by \<open>variant_seed\<close>, which hands it to the variant index's own
  deserialization; the content follows through one of the \<^verbatim>\<open>VariantAccess\<close> methods.
\<close>

definition variant_seed :: "byte_order \<Rightarrow> string \<Rightarrow> nat \<Rightarrow> u32 de" where
  "variant_seed BO msg n = andthen (read_u32 BO) (\<lambda>enum_tag.
     if unat enum_tag < n then ret enum_tag else throw (Custom msg))"

definition unit_variant :: "u32 \<Rightarrow> sval de" where
  "unit_variant tag = ret (SUnitVariant tag)"

definition newtype_variant_seed :: "u32 \<Rightarrow> sval de \<Rightarrow> sval de" where
  "newtype_variant_seed tag seed = andthen seed (\<lambda>v. ret (SNewtypeVariant tag v))"

definition tuple_variant :: "u32 \<Rightarrow> sval de list \<Rightarrow> nat \<Rightarrow> sval de" where
  "tuple_variant tag flds n =
     andthen (deserialize_tuple flds n) (\<lambda>vs. ret (STupleVariant tag vs))"

definition struct_variant :: "u32 \<Rightarrow> sval de list \<Rightarrow> nat \<Rightarrow> sval de" where
  "struct_variant tag flds n =
     andthen (deserialize_tuple flds n) (\<lambda>vs. ret (SStructVariant tag vs))"

definition deserialize_enum :: "byte_order \<Rightarrow> string \<Rightarrow> (u32 \<Rightarrow> sval de) list \<Rightarrow> sval de" where
  "deserialize_enum BO msg variants = andthen (reader_align 4) (\<lambda>_.
     andthen (variant_seed BO msg (length variants)) (\<lambda>tag. (variants ! unat tag) tag))"

primrec deserialize :: "byte_order \<Rightarrow> dshape \<Rightarrow> sval de"
  and deserialize_variant :: "byte_order \<Rightarrow> dvariant \<Rightarrow> u32 \<Rightarrow> sval de" where
  "deserialize BO DAny = deserialize_any"
| "deserialize BO DBool = deserialize_bool"
| "deserialize BO DI8 = deserialize_i8"
| "deserialize BO DI16 = deserialize_i16 BO"
| "deserialize BO DI32 = deserialize_i32 BO"
| "deserialize BO DI64 = deserialize_i64 BO"
| "deserialize BO DU8 = deserialize_u8"
| "deserialize BO DU16 = deserialize_u16 BO"
| "deserialize BO DU32 = deserialize_u32 BO"
| "deserialize BO DU64 = deserialize_u64 BO"
| "deserialize BO DF32 = deserialize_f32 BO"
| "deserialize BO DF64 = deserialize_f64 BO"
| "deserialize BO DChar = deserialize_char BO"
| "deserialize BO DStr = deserialize_str BO"
| "deserialize BO DString = deserialize_string BO"
| "deserialize BO DBytes = deserialize_bytes BO"
| "deserialize BO DByteBuf = deserialize_byte_buf BO"
| "deserialize BO (DOption s) = deserialize_option BO (deserialize BO s)"
| "deserialize BO DUnit = deserialize_unit SUnit"
| "deserialize BO DUnitStruct = deserialize_unit_struct"
| "deserialize BO (DNewtypeStruct s) = deserialize_newtype_struct (deserialize BO s)"
| "deserialize BO (DSeq s) = deserialize_seq BO (deserialize BO s)"
| "deserialize BO (DTuple ss) =
     andthen (deserialize_tuple (map (deserialize BO) ss) (length ss)) (\<lambda>vs. ret (STuple vs))"
| "deserialize BO (DTupleStruct ss) =
     andthen (deserialize_tuple_struct (map (deserialize BO) ss) (length ss))
       (\<lambda>vs. ret (STupleStruct vs))"
| "deserialize BO (DMap k v) = deserialize_map BO (deserialize BO k) (deserialize BO v)"
| "deserialize BO (DStruct ss) =
     andthen (deserialize_struct (map (deserialize BO) ss) (length ss)) (\<lambda>vs. ret (SStruct vs))"
| "deserialize BO (DEnum msg vars) =
     deserialize_enum BO msg (map (deserialize_variant BO) vars)"
| "deserialize BO DIdentifier = deserialize_identifier BO"
| "deserialize BO DIgnoredAny = deserialize_ignored_any"
| "deserialize_variant BO VUnit = unit_variant"
| "deserialize_variant BO (VNewtype s) = (\<lambda>tag. newtype_variant_seed tag (deserialize BO s))"
| "deserialize_variant BO (VTuple ss) =
     (\<lambda>tag. tuple_variant tag (map (deserialize BO) ss) (length ss))"
| "deserialize_variant BO (VStruct ss) =
     (\<lambda>tag. struct_variant tag (map (deserialize BO) ss) (length ss))"

definition from_bytes_with ::
    "byte_order \<Rightarrow> bytes \<Rightarrow> dshape \<Rightarrow> (sval \<times> nat, cdr_error) result" where
  "from_bytes_with BO input_bytes decoder =
     (let (res, de) = deserialize BO decoder (deserializer_new input_bytes)
      in bind_result res (\<lambda>t. Ok (t, bytes_consumed de)))"

definition from_bytes ::
    "byte_order \<Rightarrow> dshape \<Rightarrow> bytes \<Rightarrow> (sval \<times> nat, cdr_error) result" where
  "from_bytes BO shape input_bytes = from_bytes_with BO input_bytes shape"

end
