(* ===== verification/Cdr_Roundtrip.thy ===== *)
theory Cdr_Roundtrip
  imports Cdr_Serde
begin

text \<open>
  The specification of the CDR crate and the proof that the serializer and the deserializer
  implement it: the abstract encoding of a serde value, the values that a shape describes, the
  refinement over any buffer, the inversion, and memory safety of the deserializer.
\<close>

section \<open>The abstract encoding\<close>

definition enc_len :: "byte_order \<Rightarrow> nat option \<Rightarrow> cdr_error enc" where
  "enc_len BO n = (case n of None \<Rightarrow> enc_fail UnknownLength | Some k \<Rightarrow> enc_u32 BO (of_nat k))"

primrec cdr_encode :: "byte_order \<Rightarrow> sval \<Rightarrow> cdr_error enc" where
  "cdr_encode BO (SBool v) = enc_bytes [if v then 1 else 0]"
| "cdr_encode BO (SI8 v) = enc_bytes [v]"
| "cdr_encode BO (SI16 v) = enc_u16 BO v"
| "cdr_encode BO (SI32 v) = enc_u32 BO v"
| "cdr_encode BO (SI64 v) = enc_u64 BO v"
| "cdr_encode BO (SU8 v) = enc_bytes [v]"
| "cdr_encode BO (SU16 v) = enc_u16 BO v"
| "cdr_encode BO (SU32 v) = enc_u32 BO v"
| "cdr_encode BO (SU64 v) = enc_u64 BO v"
| "cdr_encode BO (SU128 v) = enc_then (enc_align 16) (enc_bytes (bo_write_u128 BO v))"
| "cdr_encode BO (SF32 v) = enc_u32 BO v"
| "cdr_encode BO (SF64 v) = enc_u64 BO v"
| "cdr_encode BO (SChar v) = enc_u32 BO v"
| "cdr_encode BO (SStr v) = enc_string BO v"
| "cdr_encode BO (SBytes v) = enc_byte_seq BO v"
| "cdr_encode BO SNone = enc_u32 BO 0"
| "cdr_encode BO (SSome v) = enc_then (enc_u32 BO 1) (cdr_encode BO v)"
| "cdr_encode BO SUnit = enc_bytes []"
| "cdr_encode BO SUnitStruct = enc_bytes []"
| "cdr_encode BO (SUnitVariant i) = enc_u32 BO i"
| "cdr_encode BO (SNewtypeStruct v) = cdr_encode BO v"
| "cdr_encode BO (SNewtypeVariant i v) = enc_then (enc_u32 BO i) (cdr_encode BO v)"
| "cdr_encode BO (SSeq n vs) = enc_then (enc_len BO n) (enc_all (map (cdr_encode BO) vs))"
| "cdr_encode BO (STuple vs) = enc_all (map (cdr_encode BO) vs)"
| "cdr_encode BO (STupleStruct vs) = enc_all (map (cdr_encode BO) vs)"
| "cdr_encode BO (STupleVariant i vs) =
     enc_then (enc_u32 BO i) (enc_all (map (cdr_encode BO) vs))"
| "cdr_encode BO (SMap n kvs) =
     enc_then (enc_len BO n)
       (enc_all (map (\<lambda>(a, b). enc_then a b)
          (map (map_prod (cdr_encode BO) (cdr_encode BO)) kvs)))"
| "cdr_encode BO (SStruct vs) = enc_all (map (cdr_encode BO) vs)"
| "cdr_encode BO (SStructVariant i vs) =
     enc_then (enc_u32 BO i) (enc_all (map (cdr_encode BO) vs))"

section \<open>The values of a shape\<close>

text \<open>
  Strings and byte strings fit their 32-bit length field, sequences the reader's limit, and a
  sequence announces the number of its elements.
\<close>

primrec has_shape :: "dshape \<Rightarrow> sval \<Rightarrow> bool" and variant_shape :: "dvariant \<Rightarrow> u32 \<Rightarrow> sval \<Rightarrow> bool"
where
  "has_shape DAny = (\<lambda>v. False)"
| "has_shape DBool = (\<lambda>v. case v of SBool _ \<Rightarrow> True | _ \<Rightarrow> False)"
| "has_shape DI8 = (\<lambda>v. case v of SI8 _ \<Rightarrow> True | _ \<Rightarrow> False)"
| "has_shape DI16 = (\<lambda>v. case v of SI16 _ \<Rightarrow> True | _ \<Rightarrow> False)"
| "has_shape DI32 = (\<lambda>v. case v of SI32 _ \<Rightarrow> True | _ \<Rightarrow> False)"
| "has_shape DI64 = (\<lambda>v. case v of SI64 _ \<Rightarrow> True | _ \<Rightarrow> False)"
| "has_shape DU8 = (\<lambda>v. case v of SU8 _ \<Rightarrow> True | _ \<Rightarrow> False)"
| "has_shape DU16 = (\<lambda>v. case v of SU16 _ \<Rightarrow> True | _ \<Rightarrow> False)"
| "has_shape DU32 = (\<lambda>v. case v of SU32 _ \<Rightarrow> True | _ \<Rightarrow> False)"
| "has_shape DU64 = (\<lambda>v. case v of SU64 _ \<Rightarrow> True | _ \<Rightarrow> False)"
| "has_shape DF32 = (\<lambda>v. case v of SF32 _ \<Rightarrow> True | _ \<Rightarrow> False)"
| "has_shape DF64 = (\<lambda>v. case v of SF64 _ \<Rightarrow> True | _ \<Rightarrow> False)"
| "has_shape DChar = (\<lambda>v. case v of SChar c \<Rightarrow> is_scalar c | _ \<Rightarrow> False)"
| "has_shape DStr = (\<lambda>v. case v of SStr s \<Rightarrow> is_str s \<and> length s + 1 < 2 ^ 32 | _ \<Rightarrow> False)"
| "has_shape DString = (\<lambda>v. case v of SStr s \<Rightarrow> is_str s \<and> length s + 1 < 2 ^ 32 | _ \<Rightarrow> False)"
| "has_shape DBytes = (\<lambda>v. case v of SBytes b \<Rightarrow> length b < 2 ^ 32 | _ \<Rightarrow> False)"
| "has_shape DByteBuf = (\<lambda>v. case v of SBytes b \<Rightarrow> length b < 2 ^ 32 | _ \<Rightarrow> False)"
| "has_shape (DOption s) = (\<lambda>v. case v of SNone \<Rightarrow> True | SSome x \<Rightarrow> has_shape s x | _ \<Rightarrow> False)"
| "has_shape DUnit = (\<lambda>v. v = SUnit)"
| "has_shape DUnitStruct = (\<lambda>v. v = SUnitStruct)"
| "has_shape (DNewtypeStruct s) = (\<lambda>v. case v of SNewtypeStruct x \<Rightarrow> has_shape s x | _ \<Rightarrow> False)"
| "has_shape (DSeq s) = (\<lambda>v. case v of
     SSeq n xs \<Rightarrow> n = Some (length xs) \<and> length xs \<le> 100000000 \<and> list_all (has_shape s) xs
   | _ \<Rightarrow> False)"
| "has_shape (DTuple ss) = (\<lambda>v. case v of
     STuple xs \<Rightarrow> list_all2 id (map has_shape ss) xs | _ \<Rightarrow> False)"
| "has_shape (DTupleStruct ss) = (\<lambda>v. case v of
     STupleStruct xs \<Rightarrow> list_all2 id (map has_shape ss) xs | _ \<Rightarrow> False)"
| "has_shape (DMap k e) = (\<lambda>v. case v of
     SMap n xs \<Rightarrow> n = Some (length xs) \<and> length xs \<le> 100000000 \<and>
       list_all (\<lambda>(a, b). has_shape k a \<and> has_shape e b) xs
   | _ \<Rightarrow> False)"
| "has_shape (DStruct ss) = (\<lambda>v. case v of
     SStruct xs \<Rightarrow> list_all2 id (map has_shape ss) xs | _ \<Rightarrow> False)"
| "has_shape (DEnum msg vars) = (\<lambda>v.
     \<exists>i < length vars. i < 2 ^ 32 \<and> (map variant_shape vars ! i) (of_nat i) v)"
| "has_shape DIdentifier = (\<lambda>v. case v of SU32 _ \<Rightarrow> True | _ \<Rightarrow> False)"
| "has_shape DIgnoredAny = (\<lambda>v. False)"
| "variant_shape VUnit = (\<lambda>t v. v = SUnitVariant t)"
| "variant_shape (VNewtype s) = (\<lambda>t v. case v of
     SNewtypeVariant u x \<Rightarrow> u = t \<and> has_shape s x | _ \<Rightarrow> False)"
| "variant_shape (VTuple ss) = (\<lambda>t v. case v of
     STupleVariant u xs \<Rightarrow> u = t \<and> list_all2 id (map has_shape ss) xs | _ \<Rightarrow> False)"
| "variant_shape (VStruct ss) = (\<lambda>t v. case v of
     SStructVariant u xs \<Rightarrow> u = t \<and> list_all2 id (map has_shape ss) xs | _ \<Rightarrow> False)"

section \<open>The serializer refines the encoding\<close>

lemmas serialize_defs =
  serialize_bool_def serialize_u8_def serialize_u16_def serialize_u32_def serialize_u64_def
  serialize_u128_def serialize_i8_def serialize_i16_def serialize_i32_def serialize_i64_def
  serialize_f32_def serialize_f64_def serialize_char_def serialize_str_def serialize_bytes_def
  serialize_none_def serialize_some_def serialize_unit_def serialize_unit_struct_def
  serialize_unit_variant_def serialize_newtype_struct_def serialize_newtype_variant_def
  serialize_seq_def serialize_tuple_def serialize_tuple_struct_def serialize_tuple_variant_def
  serialize_map_def serialize_struct_def serialize_struct_variant_def seq_elements_def
  tuple_elements_def tuple_struct_fields_def tuple_variant_fields_def map_entries_def
  struct_fields_def struct_variant_fields_def

context cdr_writing
begin

lemma refines_enc_len:
  "refines content inv_buf
     (case n of None \<Rightarrow> throw UnknownLength | Some k \<Rightarrow> write_sequence_length B BO k) (enc_len BO n)"
  by (cases n) (simp_all add: enc_len_def refines_intros)

lemma refines_elements:
  assumes "\<And>v. v \<in> set vs \<Longrightarrow> refines content inv_buf (serialize B BO v) (cdr_encode BO v)"
  shows "refines content inv_buf (run_all (map (serialize B BO) vs))
    (enc_all (map (cdr_encode BO) vs))"
  using assms by (intro refines_run_all) (simp add: list_all2_conv_all_nth)

lemma refines_entries:
  assumes "\<And>kv. kv \<in> set kvs \<Longrightarrow>
      refines content inv_buf (serialize B BO (fst kv)) (cdr_encode BO (fst kv)) \<and>
      refines content inv_buf (serialize B BO (snd kv)) (cdr_encode BO (snd kv))"
  shows "refines content inv_buf
    (run_all (map (\<lambda>(k, v). andthen k (\<lambda>_. v))
       (map (map_prod (serialize B BO) (serialize B BO)) kvs)))
    (enc_all (map (\<lambda>(a, b). enc_then a b)
       (map (map_prod (cdr_encode BO) (cdr_encode BO)) kvs)))"
  using assms
  by (intro refines_run_all)
    (simp add: list_all2_conv_all_nth split_beta refines_andthen)

theorem serialize_refines: "refines content inv_buf (serialize B BO v) (cdr_encode BO v)"
proof (induction v)
  case (SBool v)
  show ?case
    by (simp only: serialize.simps cdr_encode.simps serialize_bool_def refines_writes)
next
  case (SSeq n vs)
  then show ?case
    by (simp add: serialize_defs refines_andthen refines_enc_len refines_elements)
next
  case (SMap n kvs)
  have "refines content inv_buf (serialize B BO (fst kv)) (cdr_encode BO (fst kv)) \<and>
    refines content inv_buf (serialize B BO (snd kv)) (cdr_encode BO (snd kv))"
    if "kv \<in> set kvs" for kv
    using SMap [of kv "fst kv"] SMap [of kv "snd kv"] that
    by (cases kv) (auto intro: fsts.intros snds.intros)
  then show ?case
    by (simp add: serialize_defs refines_andthen refines_enc_len refines_entries del: map_map)
qed (auto simp: serialize_defs andthen_ret_left intro!: refines_andthen refines_intros
    refines_elements)

end

section \<open>The deserializer inverts the encoding\<close>

lemma visit_elements_eq:
  "visit_elements (Suc n) seed \<lparr>element_counter = c, expected_count = c + n\<rparr> =
     collect (replicate n seed)"
proof (induction n arbitrary: c)
  case 0
  then show ?case by (simp add: next_element_seed_def)
next
  case (Suc n)
  have "visit_elements (Suc (Suc n)) seed \<lparr>element_counter = c, expected_count = c + Suc n\<rparr> =
    andthen seed (\<lambda>v. andthen
      (visit_elements (Suc n) seed \<lparr>element_counter = Suc c, expected_count = Suc c + n\<rparr>)
      (\<lambda>vs. ret (v # vs)))"
    by (subst visit_elements.simps(2))
      (simp add: next_element_seed_def andthen_assoc del: visit_elements.simps)
  then show ?case by (simp only: Suc.IH replicate_Suc collect.simps)
qed

lemma visit_entries_eq:
  "visit_entries (Suc n) ks vs \<lparr>element_counter = c, expected_count = c + n\<rparr> =
     collect (replicate n (andthen ks (\<lambda>k. andthen vs (\<lambda>v. ret (k, v)))))"
proof (induction n arbitrary: c)
  case 0
  then show ?case by (simp add: next_key_seed_def)
next
  case (Suc n)
  have "visit_entries (Suc (Suc n)) ks vs \<lparr>element_counter = c, expected_count = c + Suc n\<rparr> =
    andthen ks (\<lambda>k. andthen vs (\<lambda>v. andthen
      (visit_entries (Suc n) ks vs \<lparr>element_counter = Suc c, expected_count = Suc c + n\<rparr>)
      (\<lambda>kvs. ret ((k, v) # kvs))))"
    by (subst visit_entries.simps(2))
      (simp add: next_key_seed_def next_value_seed_def andthen_assoc del: visit_entries.simps)
  then show ?case
    by (simp only: Suc.IH replicate_Suc collect.simps andthen_assoc andthen_ret_left)
qed

lemma visit_fields_eq:
  "visit_fields seeds \<lparr>element_counter = c, expected_count = c + length seeds\<rparr> = collect seeds"
proof (induction seeds arbitrary: c)
  case (Cons seed seeds)
  from Cons.IH [of "Suc c"] show ?case
    by (simp add: next_element_seed_def andthen_assoc)
qed simp

lemma visits_new:
  "visit_elements (Suc n) seed (sequence_helper_new n) = collect (replicate n seed)"
  "visit_entries (Suc n) ks vs (sequence_helper_new n) =
     collect (replicate n (andthen ks (\<lambda>k. andthen vs (\<lambda>v. ret (k, v)))))"
  "length seeds = n \<Longrightarrow> visit_fields seeds (sequence_helper_new n) = collect seeds"
  using visit_elements_eq [of n seed 0] visit_entries_eq [of n ks vs 0] visit_fields_eq [of seeds 0]
  by (simp_all add: sequence_helper_new_def)

lemmas deserialize_defs =
  deserialize_any_def deserialize_bool_def deserialize_i8_def deserialize_u8_def
  deserialize_i16_def deserialize_u16_def deserialize_i32_def deserialize_u32_def
  deserialize_i64_def deserialize_u64_def deserialize_f32_def deserialize_f64_def
  deserialize_char_def deserialize_str_def deserialize_string_def deserialize_bytes_def
  deserialize_byte_buf_def deserialize_option_def deserialize_unit_def deserialize_unit_struct_def
  deserialize_newtype_struct_def deserialize_seq_def deserialize_tuple_def
  deserialize_tuple_struct_def deserialize_map_def deserialize_struct_def
  deserialize_identifier_def deserialize_ignored_any_def variant_seed_def unit_variant_def
  newtype_variant_seed_def tuple_variant_def struct_variant_def deserialize_enum_def

lemma enc_align_twice: "0 < k \<Longrightarrow> enc_then (enc_align k) (enc_align k) = enc_align k"
proof (rule ext)
  fix p assume "0 < k"
  then have "(p + (k - p mod k)) mod k = 0"
    by (metis add.commute add_diff_inverse_nat mod_add_left_eq mod_less_divisor mod_self
        not_less_iff_gr_or_eq order_less_asym)
  then show "enc_then (enc_align k) (enc_align k) p = enc_align k p"
    by (auto simp: enc_then_def enc_align_def)
qed

lemma enc_align_u32: "enc_then (enc_align 4) (enc_u32 BO v) = enc_u32 BO v"
  by (simp add: enc_u32_def enc_then_assoc [symmetric] enc_align_twice)

context cdr_reading
begin

lemma decodes_len:
  "n \<le> 100000000 \<Longrightarrow> decodes UnexpectedEof (read_sequence_length BO) (enc_len BO (Some n)) n"
  by (simp add: enc_len_def decodes_read_sequence_length)

lemma decodes_all:
  assumes "list_all2 id (map has_shape ss) vs"
    and "\<And>s v. s \<in> set ss \<Longrightarrow> has_shape s v \<Longrightarrow>
      decodes UnexpectedEof (deserialize BO s) (cdr_encode BO v) v"
  shows "decodes UnexpectedEof (collect (map (deserialize BO) ss)) (enc_all (map (cdr_encode BO) vs)) vs"
  using assms by (intro decodes_collect) (auto simp: list_all2_conv_all_nth)

lemma decodes_replicate:
  assumes "list_all P vs" and "\<And>v. P v \<Longrightarrow> decodes eof d (e v) v"
  shows "decodes eof (collect (replicate (length vs) d)) (enc_all (map e vs)) vs"
  using assms by (intro decodes_collect) (auto simp: list_all_length)

lemma decodes_entry:
  assumes "decodes eof dk ek k" "decodes eof dv ev v"
  shows "decodes eof (andthen dk (\<lambda>k. andthen dv (\<lambda>v. ret (k, v)))) (enc_then ek ev) (k, v)"
  by (rule decodes_andthen [OF assms(1)]) (rule decodes_map [OF assms(2)])

lemma decodes_entries:
  assumes "list_all (\<lambda>(a, b). P a \<and> Q b) kvs"
    and "\<And>v. P v \<Longrightarrow> decodes eof dk (e v) v" and "\<And>v. Q v \<Longrightarrow> decodes eof dv (e v) v"
  shows "decodes eof
    (collect (replicate (length kvs) (andthen dk (\<lambda>k. andthen dv (\<lambda>v. ret (k, v))))))
    (enc_all (map (\<lambda>(a, b). enc_then a b) (map (map_prod e e) kvs))) kvs"
proof -
  have "decodes eof (andthen dk (\<lambda>k. andthen dv (\<lambda>v. ret (k, v))))
    (case kv of (a, b) \<Rightarrow> enc_then (e a) (e b)) kv" if "case kv of (a, b) \<Rightarrow> P a \<and> Q b" for kv
    using that assms(2,3) by (auto intro: decodes_entry)
  from decodes_replicate [OF assms(1) this] show ?thesis
    by (simp add: comp_def split_beta)
qed

lemma decodes_fields:
  assumes "list_all2 id (map has_shape ss) vs"
    and "\<And>s v. s \<in> set ss \<Longrightarrow> has_shape s v \<Longrightarrow>
      decodes UnexpectedEof (deserialize BO s) (cdr_encode BO v) v"
  shows "decodes UnexpectedEof
    (andthen (visit_fields (map (deserialize BO) ss) (sequence_helper_new (length ss)))
       (\<lambda>vs. ret (f vs)))
    (enc_all (map (cdr_encode BO) vs)) (f vs)"
  by (rule decodes_map) (simp add: visits_new decodes_all [OF assms])

lemma decodes_none:
  "decodes UnexpectedEof (deserialize_option BO d) (cdr_encode BO SNone) SNone"
  by (simp add: deserialize_defs decodes_then_pure [OF decodes_reads(6)] ret_run)

lemma decodes_some:
  assumes "decodes UnexpectedEof d (cdr_encode BO x) x"
  shows "decodes UnexpectedEof (deserialize_option BO d) (cdr_encode BO (SSome x)) (SSome x)"
  using decodes_map [OF assms, of SSome]
  by (simp add: deserialize_defs decodes_andthen [OF decodes_reads(6)])

lemma decodes_seq:
  assumes "list_all P xs" "length xs \<le> 100000000"
    and "\<And>v. P v \<Longrightarrow> decodes UnexpectedEof d (cdr_encode BO v) v"
  shows "decodes UnexpectedEof (deserialize_seq BO d)
    (cdr_encode BO (SSeq (Some (length xs)) xs)) (SSeq (Some (length xs)) xs)"
  using decodes_map [OF decodes_replicate [OF assms(1,3)], of "\<lambda>vs. SSeq (Some (length vs)) vs"]
    assms(2)
  by (simp add: deserialize_defs visits_new decodes_andthen [OF decodes_len]
      del: visit_elements.simps)

lemma decodes_map_value:
  assumes "list_all (\<lambda>(a, b). P a \<and> Q b) xs" "length xs \<le> 100000000"
    and "\<And>v. P v \<Longrightarrow> decodes UnexpectedEof dk (cdr_encode BO v) v"
    and "\<And>v. Q v \<Longrightarrow> decodes UnexpectedEof dv (cdr_encode BO v) v"
  shows "decodes UnexpectedEof (deserialize_map BO dk dv)
    (cdr_encode BO (SMap (Some (length xs)) xs)) (SMap (Some (length xs)) xs)"
  using decodes_map [OF decodes_entries [OF assms(1,3,4)],
      of "\<lambda>kvs. SMap (Some (length kvs)) kvs"] assms(2)
  by (simp add: deserialize_defs visits_new decodes_andthen [OF decodes_len]
      del: map_map visit_entries.simps)

lemma decodes_enum:
  assumes "i < length variants" "i < 2 ^ 32" "decodes UnexpectedEof ((variants ! i) (of_nat i)) e v"
  shows "decodes UnexpectedEof (deserialize_enum BO msg variants)
    (enc_then (enc_u32 BO (of_nat i)) e) v"
proof -
  have tag: "unat (of_nat i :: u32) = i"
    using assms(2) by (simp add: unat_of_nat take_bit_nat_eq_self)
  have "decodes UnexpectedEof (variant_seed BO msg (length variants))
    (enc_u32 BO (of_nat i)) (of_nat i)"
    unfolding variant_seed_def
    by (rule decodes_then_pure [OF decodes_reads(6)]) (simp add: tag assms(1) ret_run)
  from decodes_andthen [where f = "\<lambda>tag. (variants ! unat tag) tag", OF this] assms(3)
  have "decodes UnexpectedEof (andthen (variant_seed BO msg (length variants))
    (\<lambda>tag. (variants ! unat tag) tag)) (enc_then (enc_u32 BO (of_nat i)) e) v"
    by (simp add: tag)
  from decodes_andthen [OF decodes_align, of 4 "\<lambda>_. andthen (variant_seed BO msg (length variants))
      (\<lambda>tag. (variants ! unat tag) tag)", OF _ this]
  show ?thesis
    by (simp add: deserialize_enum_def enc_then_assoc [symmetric] enc_align_u32)
qed

theorem deserialize_decodes:
  "has_shape s v \<Longrightarrow> decodes UnexpectedEof (deserialize BO s) (cdr_encode BO v) v"
  "variant_shape vr t v \<Longrightarrow> \<exists>e. cdr_encode BO v = enc_then (enc_u32 BO t) e \<and>
     decodes UnexpectedEof (deserialize_variant BO vr t) e v"
proof (induction s and vr arbitrary: v and t v)
  case (DOption s)
  then consider "v = SNone" | x where "v = SSome x" "has_shape s x"
    by (auto split: sval.splits)
  then show ?case
    by cases (simp_all add: decodes_none decodes_some DOption.IH del: cdr_encode.simps)
next
  case (DSeq s)
  then obtain xs where "v = SSeq (Some (length xs)) xs" "length xs \<le> 100000000"
    "list_all (has_shape s) xs"
    by (auto split: sval.splits)
  with decodes_seq [of "has_shape s"] DSeq.IH show ?case
    by (simp del: cdr_encode.simps)
next
  case (DMap k e)
  then obtain xs where "v = SMap (Some (length xs)) xs" "length xs \<le> 100000000"
    "list_all (\<lambda>(a, b). has_shape k a \<and> has_shape e b) xs"
    by (auto split: sval.splits)
  with decodes_map_value [of "has_shape k" "has_shape e"] DMap.IH show ?case
    by (simp del: cdr_encode.simps)
next
  case (DEnum msg vars)
  then obtain i where i: "i < length vars" "i < 2 ^ 32" "variant_shape (vars ! i) (of_nat i) v"
    by auto
  from DEnum.IH [OF nth_mem [OF i(1)] i(3)] i(1,2) show ?case
    using decodes_enum [of i "map (deserialize_variant BO) vars"] by auto
next
  case VUnit
  then show ?case
    by (intro exI [of _ "enc_bytes []"]) (simp add: unit_variant_def decodes_ret)
next
  case (VNewtype s)
  then obtain x where "v = SNewtypeVariant t x" "has_shape s x"
    by (auto split: sval.splits)
  with VNewtype.IH show ?case
    by (intro exI [of _ "cdr_encode BO x"]) (simp add: newtype_variant_seed_def decodes_map)
next
  case (VTuple ss)
  then obtain xs where "v = STupleVariant t xs" "list_all2 id (map has_shape ss) xs"
    by (auto split: sval.splits)
  with VTuple.IH show ?case
    by (intro exI [of _ "enc_all (map (cdr_encode BO) xs)"])
      (simp add: tuple_variant_def deserialize_tuple_def decodes_fields)
next
  case (VStruct ss)
  then obtain xs where "v = SStructVariant t xs" "list_all2 id (map has_shape ss) xs"
    by (auto split: sval.splits)
  with VStruct.IH show ?case
    by (intro exI [of _ "enc_all (map (cdr_encode BO) xs)"])
      (simp add: struct_variant_def deserialize_tuple_def decodes_fields)
next
  case DBool
  then obtain b where "v = SBool b" by (auto split: sval.splits)
  then show ?case
    by (simp only: deserialize.simps cdr_encode.simps deserialize_bool_def decodes_map
        decodes_read_bool)
next
  case DChar
  then show ?case
    by (auto split: sval.splits simp: deserialize_char_def ret_run
        intro!: decodes_then_pure [OF decodes_reads(6)])
qed (auto split: sval.splits simp: deserialize_defs decodes_ret visits_new
    intro!: decodes_map decodes_all parses_intros)

end

section \<open>The deserializer stays inside its input\<close>

lemma safe_visit_elements: "safe seed \<Longrightarrow> safe (visit_elements n seed h)"
  by (induction n arbitrary: h)
    (auto simp: next_element_seed_def Let_def andthen_assoc intro!: safe_intros)

lemma safe_visit_entries: "safe ks \<Longrightarrow> safe vs \<Longrightarrow> safe (visit_entries n ks vs h)"
  by (induction n arbitrary: h)
    (auto simp: next_key_seed_def next_value_seed_def Let_def andthen_assoc intro!: safe_intros)

lemma safe_visit_fields: "(\<And>s. s \<in> set seeds \<Longrightarrow> safe s) \<Longrightarrow> safe (visit_fields seeds h)"
  by (induction seeds arbitrary: h)
    (auto simp: next_element_seed_def Let_def andthen_assoc intro!: safe_intros)

theorem deserialize_safe: "safe (deserialize BO s)" "safe (deserialize_variant BO vr t)"
proof (induction s and vr arbitrary: and t)
  case (DEnum msg vars)
  have "safe (andthen (variant_seed BO msg (length vars))
    (\<lambda>tag. (map (deserialize_variant BO) vars ! unat tag) tag))"
    unfolding variant_seed_def andthen_assoc
    by (rule safe_andthen [OF safe_reads(7)]) (auto simp: andthen_throw intro: safe_throw DEnum.IH)
  then show ?case
    by (simp add: deserialize_enum_def safe_andthen safe_reader_align)
qed (auto simp: deserialize_defs intro!: safe_intros safe_visit_elements safe_visit_entries
    safe_visit_fields simp del: visit_elements.simps visit_entries.simps)

section \<open>Values of a shape can be encoded\<close>

definition enc_total :: "'e enc \<Rightarrow> bool" where
  "enc_total e \<longleftrightarrow> (\<forall>p. \<exists>xs. e p = Ok xs)"

lemma enc_total_bytes [simp]: "enc_total (enc_bytes xs)"
  by (simp add: enc_total_def enc_bytes_def)

lemma enc_total_align [simp]: "0 < k \<Longrightarrow> k \<le> 8 \<Longrightarrow> enc_total (enc_align k)"
  by (simp add: enc_total_def enc_align_def)

lemma enc_total_then [simp]: "enc_total a \<Longrightarrow> enc_total b \<Longrightarrow> enc_total (enc_then a b)"
  unfolding enc_total_def enc_then_def
proof
  fix p assume "\<forall>p. \<exists>xs. a p = Ok xs" "\<forall>p. \<exists>xs. b p = Ok xs"
  then obtain xs ys where "a p = Ok xs" "b (p + length xs) = Ok ys" by meson
  then show "\<exists>zs. (case a p of
       Ok xs \<Rightarrow> (case b (p + length xs) of
          Ok ys \<Rightarrow> Ok (xs @ ys) | Err e \<Rightarrow> Err e | Panic \<Rightarrow> Panic)
     | Err e \<Rightarrow> Err e | Panic \<Rightarrow> Panic) = Ok zs" by simp
qed

lemma enc_total_all: "(\<And>e. e \<in> set es \<Longrightarrow> enc_total e) \<Longrightarrow> enc_total (enc_all es)"
  by (induction es) simp_all

lemma enc_total_prims [simp]:
  "enc_total (enc_u16 BO a)" "enc_total (enc_u32 BO b)" "enc_total (enc_u64 BO c)"
  "enc_total (enc_string BO s)" "enc_total (enc_byte_seq BO s)"
  by (simp_all add: enc_defs)

lemma enc_total_field:
  assumes "list_all2 id (map has_shape ss) vs" "v \<in> set vs"
    and "\<And>s v. s \<in> set ss \<Longrightarrow> has_shape s v \<Longrightarrow> enc_total (cdr_encode BO v)"
  shows "enc_total (cdr_encode BO v)"
proof -
  from assms(2) obtain i where i: "i < length vs" "v = vs ! i"
    by (auto simp: in_set_conv_nth)
  with assms(1) have "i < length ss" "has_shape (ss ! i) (vs ! i)"
    by (auto simp: list_all2_conv_all_nth)
  with assms(3) [of "ss ! i" "vs ! i"] i(2) show ?thesis by simp
qed

lemma has_shape_total:
  "has_shape s v \<Longrightarrow> enc_total (cdr_encode BO v)"
  "variant_shape vr t v \<Longrightarrow> enc_total (cdr_encode BO v)"
proof (induction s and vr arbitrary: v and t v)
  case (DEnum msg vars)
  then obtain i where "i < length vars" "variant_shape (vars ! i) (of_nat i) v" by auto
  with DEnum.IH [of "vars ! i"] show ?case by auto
next
  case (DMap k e)
  then obtain xs where v: "v = SMap (Some (length xs)) xs"
    "\<And>a b. (a, b) \<in> set xs \<Longrightarrow> has_shape k a \<and> has_shape e b"
    by (fastforce split: sval.splits simp: list_all_iff)
  with DMap.IH show ?case
    by (force simp: enc_len_def intro!: enc_total_then enc_total_all)
qed (auto split: sval.splits simp: enc_len_def list_all_iff intro!: enc_total_then enc_total_all
    elim!: enc_total_field)

section \<open>The entry points\<close>

context cdr_writing
begin

lemma serialize_from_empty:
  assumes "inv_buf b" "content b = []"
  shows "case cdr_encode BO v 0 of
      Ok xs \<Rightarrow> \<exists>w. serialize B BO v (serializer_new B b) = (Ok (), w) \<and> inv_buf (wr_buffer w) \<and>
        content (wr_buffer w) = xs
    | Err x \<Rightarrow> fst (serialize B BO v (serializer_new B b)) = Err x
    | Panic \<Rightarrow> fst (serialize B BO v (serializer_new B b)) = Panic"
  using serialize_refines [of BO v, unfolded refines_def, rule_format, of "serializer_new B b"] assms
  by (auto simp: serializer_new_def writer_new_def split: result.splits)

lemma to_buffer_spec:
  assumes "inv_buf b"
  shows "case cdr_encode BO v 0 of
      Ok xs \<Rightarrow> \<exists>b'. to_buffer B BO v b = (Ok (), b') \<and> inv_buf b' \<and> content b' = xs
    | Err x \<Rightarrow> fst (to_buffer B BO v b) = Err x
    | Panic \<Rightarrow> fst (to_buffer B BO v b) = Panic"
  using serialize_from_empty [of "cb_clear B b" BO v] assms
  by (auto simp: to_buffer_def split: result.splits prod.splits)

end

context cdr_writing
begin

lemma refines_append_zbuf:
  "refines content inv_buf
     (\<lambda>w. (Ok (), w\<lparr>wr_buffer := cb_append_zbuf B (wr_buffer w) z\<rparr>)) (enc_bytes (zb_contiguous Z z))"
  by (simp add: refines_def enc_bytes_def contiguous)

lemma refines_zbuf_field:
  "refines content inv_buf (andthen (write_u32 B BO (of_nat (sum_list (map length (zb_zslices Z z)))))
     (\<lambda>_ w. (Ok (), w\<lparr>wr_buffer := cb_append_zbuf B (wr_buffer w) z\<rparr>)))
     (enc_byte_seq BO (zb_contiguous Z z))"
  unfolding enc_byte_seq_def contiguous length_concat
  by (rule refines_andthen [OF refines_writes(7)]) (use refines_append_zbuf in \<open>simp add: contiguous\<close>)

end

context zbuf_laws
begin

lemma vec_writing: "cdr_writing Z (vec_CdrBuffer Z) vec_data vec_inv"
  using vec_cdr_buffer by (simp add: cdr_writing_def)

lemma zw_writing: "cdr_writing Z (ZBufWriter_CdrBuffer Z) (zw_content Z) (zw_inv Z)"
  using zw_cdr_buffer by (simp add: cdr_writing_def)

lemma serialize_zbuf_refines:
  "refines (zw_content Z) (zw_inv Z) (serialize_zbuf Z BO z) (enc_byte_seq BO (zb_contiguous Z z))"
  using cdr_writing.refines_zbuf_field [OF zw_writing, of BO z]
  by (simp add: serialize_zbuf_def Let_def)

lemma to_vec_spec:
  "case cdr_encode BO v 0 of
     Ok xs \<Rightarrow> \<exists>buf. to_vec Z BO v hint = Ok buf \<and> vec_data buf = xs
   | Err x \<Rightarrow> to_vec Z BO v hint = Err x
   | Panic \<Rightarrow> to_vec Z BO v hint = Panic"
  using cdr_writing.serialize_from_empty [OF vec_writing, of "vec_with_capacity hint" BO v]
  by (auto simp: to_vec_def Let_def split_beta vec_with_capacity_def vec_inv_def
      split: result.splits)

lemma to_vec_reuse_spec:
  "vec_inv buf \<Longrightarrow> case cdr_encode BO v 0 of
     Ok xs \<Rightarrow> \<exists>buf'. to_vec_reuse Z BO v n buf = (Ok (), buf') \<and> vec_data buf' = xs
   | Err x \<Rightarrow> fst (to_vec_reuse Z BO v n buf) = Err x
   | Panic \<Rightarrow> fst (to_vec_reuse Z BO v n buf) = Panic"
  using cdr_writing.serialize_from_empty
    [OF vec_writing, of "vec_reserve_4k (vec_clear buf) (n * 2)" BO v]
  by (auto simp: to_vec_reuse_def vec_CdrBuffer_def Let_def split: result.splits prod.splits)

end

lemma from_bytes_decodes:
  assumes "decodes eof (deserialize BO s) (cdr_encode BO v) v" "cdr_encode BO v 0 = Ok xs"
  shows "from_bytes BO s (xs @ rest) = Ok (v, length xs)"
  using decodes_Ok [OF assms(1), of "[]" xs rest] assms(2)
  by (simp add: from_bytes_def from_bytes_with_def deserializer_new_def reader_new_def
      bytes_consumed_def)

lemma from_bytes_short:
  assumes "decodes eof (deserialize BO s) (cdr_encode BO v) v" "cdr_encode BO v 0 = Ok xs"
    and "strict_prefix ys xs"
  shows "from_bytes BO s ys = Err eof"
  using decodes_short [OF assms(1), of "[]" xs ys] assms(2,3)
  by (auto simp: from_bytes_def from_bytes_with_def deserializer_new_def reader_new_def
      split: prod.splits)

lemma has_shape_encoding:
  assumes "byte_order_laws BO" "has_shape s v"
  obtains xs where "cdr_encode BO v 0 = Ok xs"
    "decodes UnexpectedEof (deserialize BO s) (cdr_encode BO v) v"
proof -
  from assms(1) have "cdr_reading BO" by (simp add: cdr_reading_def)
  then have "decodes UnexpectedEof (deserialize BO s) (cdr_encode BO v) v"
    using assms(2) by (rule cdr_reading.deserialize_decodes)
  moreover from has_shape_total(1) [OF assms(2)] obtain xs where "cdr_encode BO v 0 = Ok xs"
    unfolding enc_total_def by blast
  ultimately show thesis by (rule that [rotated])
qed

lemma to_vec_Ok_iff:
  assumes "zbuf_laws Z"
  shows "(\<exists>buf. to_vec Z BO v hint = Ok buf \<and> vec_data buf = xs) \<longleftrightarrow> cdr_encode BO v 0 = Ok xs"
  using zbuf_laws.to_vec_spec [OF assms, of BO v hint] by (auto split: result.splits)

lemma from_bytes_safe_spec: "from_bytes BO s inp \<noteq> Panic"
  "from_bytes BO s inp = Ok (v, n) \<Longrightarrow> n \<le> length inp"
  using deserialize_safe(1) [of BO s] unfolding safe_def
  by (auto simp: from_bytes_def from_bytes_with_def deserializer_new_def reader_new_def
      bytes_consumed_def rd_ok_def bind_result_eq_Ok split_beta Let_def
      dest!: spec [of _ "\<lparr>rd_input = inp, rd_position = 0\<rparr>"]
      elim!: bind_result.elims)

lemma from_bytes_fails:
  assumes "decodes eof d (enc_u32 BO n :: cdr_error enc) x" "deserialize BO s = andthen d f" "\<And>r. fst (f x r) = Err e"
    and "enc_then (enc_u32 BO n) g 0 = (Ok xs :: (bytes, cdr_error) result)"
  shows "from_bytes BO s xs = Err e"
proof -
  from assms(4) obtain as bs where xs: "enc_u32 BO n (length ([] :: bytes)) = (Ok as :: (bytes, cdr_error) result)"
    "xs = as @ bs"
    unfolding enc_then_Ok by auto
  from decodes_Ok [OF assms(1) xs(1), of bs] assms(3) show ?thesis
    by (simp add: from_bytes_def from_bytes_with_def deserializer_new_def reader_new_def assms(2)
        andthen_def xs(2) split_beta Let_def)
qed

lemma enc_all_bytes: "enc_all (map (\<lambda>b. enc_bytes [b]) bs) = enc_bytes bs"
  by (induction bs) (simp_all add: enc_bytes_append)

lemma enc_all_append: "enc_all (es @ fs) = enc_then (enc_all es) (enc_all fs)"
  by (induction es) (simp_all add: enc_then_assoc)

lemma enc_after_bytes:
  "enc_then (enc_bytes bs) e p =
     (case e (p + length bs) of Ok ys \<Rightarrow> Ok (bs @ ys) | Err x \<Rightarrow> Err x | Panic \<Rightarrow> Panic)"
  by (simp add: enc_then_def enc_bytes_def)

section \<open>Properties\<close>

text \<open>
  C1.  Serializing any value of a shape into a fresh vector succeeds, whatever the byte order and
  the capacity hint, and deserializing the bytes with that shape returns the value and the exact
  number of bytes, no matter what follows them in the input.
\<close>

theorem cdr_roundtrip:
  assumes "zbuf_laws Z" and "byte_order_laws BO" and "has_shape s v"
  shows "\<exists>buf. to_vec Z BO v hint = Ok buf \<and>
    from_bytes BO s (vec_data buf @ rest) = Ok (v, length (vec_data buf))"
proof -
  from assms(2,3) obtain xs where xs: "cdr_encode BO v 0 = Ok xs"
    and dec: "decodes UnexpectedEof (deserialize BO s) (cdr_encode BO v) v"
    by (rule has_shape_encoding)
  with zbuf_laws.to_vec_spec [OF assms(1), of BO v hint] from_bytes_decodes [OF dec xs]
  show ?thesis by auto
qed

theorem cdr_roundtrip_witness:
  "\<exists>buf. to_vec list_zbuf BigEndian (SStruct [SU8 7, SSeq (Some 2) [SU16 1, SU16 2]]) 0 = Ok buf \<and>
     from_bytes BigEndian (DStruct [DU8, DSeq DU16]) (vec_data buf @ [9]) =
       Ok (SStruct [SU8 7, SSeq (Some 2) [SU16 1, SU16 2]], length (vec_data buf))"
  by (rule cdr_roundtrip [OF zl.zbuf_laws_axioms be.byte_order_laws_axioms]) simp

text \<open>
  C33.  Deserializing a serialized value that has been cut off anywhere before its last byte fails
  with the end-of-input error; a shorter input is never mistaken for a value.
\<close>

theorem cdr_truncated:
  assumes "zbuf_laws Z" and "byte_order_laws BO" and "has_shape s v"
    and "to_vec Z BO v hint = Ok buf" and "n < length (vec_data buf)"
  shows "from_bytes BO s (take n (vec_data buf)) = Err UnexpectedEof"
proof -
  from assms(2,3) obtain xs where xs: "cdr_encode BO v 0 = Ok xs"
    and dec: "decodes UnexpectedEof (deserialize BO s) (cdr_encode BO v) v"
    by (rule has_shape_encoding)
  moreover from xs zbuf_laws.to_vec_spec [OF assms(1), of BO v hint] assms(4)
  have "vec_data buf = xs" by simp
  moreover have "strict_prefix (take n xs) xs" if "n < length xs"
    using that by (auto simp: strict_prefix_def take_is_prefix)
  ultimately show ?thesis
    using from_bytes_short [OF dec xs] assms(5) by simp
qed

theorem cdr_truncated_witness:
  "from_bytes LittleEndian (DTuple [DU8, DU32]) (take 5 [1, 0, 0, 0, 2, 0, 0, 0]) =
     Err UnexpectedEof"
proof -
  have "cdr_encode LittleEndian (STuple [SU8 1, SU32 2]) 0 = Ok [1, 0, 0, 0, 2, 0, 0, 0]"
    by code_simp
  then obtain buf where buf: "to_vec list_zbuf LittleEndian (STuple [SU8 1, SU32 2]) 0 = Ok buf"
    "vec_data buf = [1, 0, 0, 0, 2, 0, 0, 0]"
    using to_vec_Ok_iff [OF zl.zbuf_laws_axioms] by blast
  have "from_bytes LittleEndian (DTuple [DU8, DU32]) (take 5 (vec_data buf)) = Err UnexpectedEof"
    by (rule cdr_truncated [OF zl.zbuf_laws_axioms le.byte_order_laws_axioms _ buf(1)])
      (simp_all add: buf(2))
  then show ?thesis by (simp only: buf(2))
qed

text \<open>
  C34.  Serializing into the fragmented \<^verbatim>\<open>ZBufWriter\<close>, in whatever state an earlier use left it,
  and turning it into a \<^verbatim>\<open>ZBuf\<close> gives the bytes that \<^verbatim>\<open>to_vec\<close> gives; the two also agree
  on every error and on every panic.
\<close>

theorem zbuf_writer_equals_vec:
  assumes "zbuf_laws Z" and "zw_inv Z w"
  shows "(case to_buffer (ZBufWriter_CdrBuffer Z) BO v w of
       (Ok _, w') \<Rightarrow> Ok (zb_contiguous Z (zw_into_zbuf Z w'))
     | (Err e, _) \<Rightarrow> Err e
     | (Panic, _) \<Rightarrow> Panic) =
     (case to_vec Z BO v hint of Ok buf \<Rightarrow> Ok (vec_data buf) | Err e \<Rightarrow> Err e | Panic \<Rightarrow> Panic)"
  using cdr_writing.to_buffer_spec [OF zbuf_laws.zw_writing [OF assms(1)] assms(2), of BO v]
    zbuf_laws.to_vec_spec [OF assms(1), of BO v hint]
  by (auto simp: zbuf_laws.contiguous [OF assms(1)] zbuf_laws.zw_into_zbuf_content [OF assms(1)]
      split: result.splits prod.splits)

theorem zbuf_writer_equals_vec_witness:
  "(case to_buffer (ZBufWriter_CdrBuffer list_zbuf) BigEndian (SSeq None []) (zw_new list_zbuf) of
       (Ok _, w') \<Rightarrow> Ok (zb_contiguous list_zbuf (zw_into_zbuf list_zbuf w'))
     | (Err e, _) \<Rightarrow> Err e
     | (Panic, _) \<Rightarrow> Panic) =
     (case to_vec list_zbuf BigEndian (SSeq None []) 8 of
       Ok buf \<Rightarrow> Ok (vec_data buf) | Err e \<Rightarrow> Err e | Panic \<Rightarrow> Panic)"
  by (rule zbuf_writer_equals_vec [OF zl.zbuf_laws_axioms zl.zw_new_inv(1)])

text \<open>
  Serializing into a reused vector gives the same bytes, errors and panics as serializing into
  a fresh one: nothing of the previous content survives.
\<close>

theorem to_vec_reuse_equals_to_vec:
  assumes "zbuf_laws Z" and "vec_inv buffer"
  shows "(case to_vec_reuse Z BO v sz buffer of
       (Ok _, buffer') \<Rightarrow> Ok (vec_data buffer') | (Err e, _) \<Rightarrow> Err e | (Panic, _) \<Rightarrow> Panic) =
     (case to_vec Z BO v hint of Ok buf \<Rightarrow> Ok (vec_data buf) | Err e \<Rightarrow> Err e | Panic \<Rightarrow> Panic)"
  using zbuf_laws.to_vec_reuse_spec [OF assms, of BO v sz]
    zbuf_laws.to_vec_spec [OF assms(1), of BO v hint]
  by (auto split: result.splits prod.splits)

theorem to_vec_reuse_equals_to_vec_witness:
  "(case to_vec_reuse list_zbuf LittleEndian (SU32 5) 4 (vec_push vec_new 9) of
       (Ok _, buffer') \<Rightarrow> Ok (vec_data buffer') | (Err e, _) \<Rightarrow> Err e | (Panic, _) \<Rightarrow> Panic) =
     (case to_vec list_zbuf LittleEndian (SU32 5) 0 of
       Ok buf \<Rightarrow> Ok (vec_data buf) | Err e \<Rightarrow> Err e | Panic \<Rightarrow> Panic)"
  by (rule to_vec_reuse_equals_to_vec [OF zl.zbuf_laws_axioms]) simp

text \<open>
  The deserializer does not panic on any input and never claims to have consumed more bytes
  than there are.
\<close>

theorem from_bytes_safe:
  "from_bytes BO s inp \<noteq> Panic \<and> (\<nexists>v n. from_bytes BO s inp = Ok (v, n) \<and> length inp < n)"
  using from_bytes_safe_spec [of BO s inp] by force

text \<open>
  A \<^verbatim>\<open>ZBuf\<close> field that is appended without copying its slices produces the bytes that the
  copying \<^verbatim>\<open>serialize_bytes\<close> produces for its contiguous content, at every stream position.
\<close>

theorem serialize_zbuf_equals_bytes:
  assumes "zbuf_laws Z" and "zw_inv Z (wr_buffer w)"
    and "wr_start_offset w \<le> length (zw_content Z (wr_buffer w))"
  shows "\<exists>w1 w2. serialize_zbuf Z BO zbuf w = (Ok (), w1) \<and>
    serialize (ZBufWriter_CdrBuffer Z) BO (SBytes (zb_contiguous Z zbuf)) w = (Ok (), w2) \<and>
    zw_inv Z (wr_buffer w1) \<and> zw_content Z (wr_buffer w1) = zw_content Z (wr_buffer w2)"
proof -
  note copy = cdr_writing.serialize_refines [OF zbuf_laws.zw_writing [OF assms(1)],
      of BO "SBytes (zb_contiguous Z zbuf)", unfolded cdr_encode.simps]
  from enc_total_prims(5) obtain xs where "enc_byte_seq BO (zb_contiguous Z zbuf)
    (length (zw_content Z (wr_buffer w)) - wr_start_offset w) = (Ok xs :: (bytes, cdr_error) result)"
    unfolding enc_total_def by blast
  with zbuf_laws.serialize_zbuf_refines [OF assms(1), of BO zbuf,
      unfolded refines_def, rule_format, OF assms(2,3)]
    copy [unfolded refines_def, rule_format, OF assms(2,3)]
  show ?thesis by auto
qed

theorem serialize_zbuf_equals_bytes_witness:
  "\<exists>w1 w2. serialize_zbuf list_zbuf BigEndian [[1, 2], [3]]
      (serializer_new (ZBufWriter_CdrBuffer list_zbuf) (zw_new list_zbuf)) = (Ok (), w1) \<and>
    serialize (ZBufWriter_CdrBuffer list_zbuf) BigEndian
      (SBytes (zb_contiguous list_zbuf [[1, 2], [3]]))
      (serializer_new (ZBufWriter_CdrBuffer list_zbuf) (zw_new list_zbuf)) = (Ok (), w2) \<and>
    zw_inv list_zbuf (wr_buffer w1) \<and>
    zw_content list_zbuf (wr_buffer w1) = zw_content list_zbuf (wr_buffer w2)"
  by (rule serialize_zbuf_equals_bytes [OF zl.zbuf_laws_axioms])
    (simp_all add: serializer_new_def writer_new_def zl.zw_new_inv zwb.len_content)

text \<open>
  A 128-bit integer cannot be serialized at every position: after \<open>k\<close> bytes the alignment to
  sixteen needs more padding than the writer's eight zero bytes, and the serializer panics, exactly
  when \<open>k mod 16\<close> is between 1 and 7.
\<close>

theorem u128_panics_iff:
  assumes "zbuf_laws Z"
  shows "to_vec Z BO (STuple (map SU8 bs @ [SU128 v])) hint = Panic \<longleftrightarrow>
    1 \<le> length bs mod 16 \<and> length bs mod 16 \<le> 7"
proof -
  have "cdr_encode BO (STuple (map SU8 bs @ [SU128 v])) =
    enc_then (enc_bytes bs) (enc_then (enc_align 16) (enc_bytes (bo_write_u128 BO v)))"
    by (simp add: enc_all_append comp_def enc_all_bytes)
  then have "cdr_encode BO (STuple (map SU8 bs @ [SU128 v])) 0 = Panic \<longleftrightarrow>
    1 \<le> length bs mod 16 \<and> length bs mod 16 \<le> 7"
    by (auto simp: enc_after_bytes enc_then_def enc_align_def enc_bytes_def split: result.splits)
  then show ?thesis
    using zbuf_laws.to_vec_spec [OF assms, of BO "STuple (map SU8 bs @ [SU128 v])" hint]
    by (auto split: result.splits)
qed

theorem u128_panics_iff_witness:
  "to_vec list_zbuf LittleEndian (STuple (map SU8 [1] @ [SU128 5])) 0 = Panic"
  using u128_panics_iff [OF zl.zbuf_laws_axioms, of LittleEndian "[1]" 5 0] by simp

text \<open>
  The serializer writes sequences of any length, the deserializer refuses to read more than a
  hundred million elements: a longer sequence is written without an error and its bytes are
  rejected with the length message.
\<close>

theorem long_sequence_unreadable:
  assumes "zbuf_laws Z" and "byte_order_laws BO" and "\<forall>v\<in>set vs. has_shape s v"
    and "100000000 < length vs" and "length vs < 2 ^ 32"
  shows "\<exists>buf. to_vec Z BO (SSeq (Some (length vs)) vs) hint = Ok buf \<and>
    from_bytes BO (DSeq s) (vec_data buf) =
      Err (Custom (sequence_length_message (of_nat (length vs))))"
proof -
  let ?n = "of_nat (length vs) :: u32" and ?es = "enc_all (map (cdr_encode BO) vs)"
  from assms(2) have rd: "cdr_reading BO" by (simp add: cdr_reading_def)
  have "enc_total (cdr_encode BO v)" if "v \<in> set vs" for v
    using assms(3) that has_shape_total(1) [of s v] by blast
  then have "enc_total (enc_then (enc_u32 BO ?n) ?es)"
    by (auto intro!: enc_total_then enc_total_all)
  then obtain xs where xs: "enc_then (enc_u32 BO ?n) ?es 0 = Ok xs"
    unfolding enc_total_def by blast
  have "MAX_SEQUENCE_LENGTH < ?n"
    using assms(4,5) by (simp add: MAX_SEQUENCE_LENGTH_def word_less_nat_alt unat_of_nat
        take_bit_nat_eq_self)
  then have "from_bytes BO (DSeq s) xs = Err (Custom (sequence_length_message ?n))"
    by (intro from_bytes_fails [OF cdr_reading.decodes_reads(6) [OF rd] _ _ xs])
      (simp_all add: deserialize_seq_def read_sequence_length_def andthen_assoc,
        simp add: andthen_throw throw_run)
  with xs to_vec_Ok_iff [OF assms(1), of BO "SSeq (Some (length vs)) vs" hint xs] show ?thesis
    by (auto simp: enc_len_def)
qed

theorem long_sequence_unreadable_witness:
  "\<exists>buf. to_vec list_zbuf LittleEndian
      (SSeq (Some (length (replicate 100000001 SUnit))) (replicate 100000001 SUnit)) 0 = Ok buf \<and>
    from_bytes LittleEndian (DSeq DUnit) (vec_data buf) =
      Err (Custom (sequence_length_message (of_nat (length (replicate 100000001 SUnit)))))"
  by (rule long_sequence_unreadable [OF zl.zbuf_laws_axioms le.byte_order_laws_axioms])
    (simp_all add: set_replicate_conv_if)

end
