(* ===== verification/Dyn_Schema.thy ===== *)
theory Dyn_Schema
  imports Cdr_Roundtrip
begin

text \<open>
  \<^verbatim>\<open>ros-z/src/dynamic\<close>: the runtime schemas (\<^verbatim>\<open>schema.rs\<close>), values (\<^verbatim>\<open>value.rs\<close>) and errors
  (\<^verbatim>\<open>error.rs\<close>).  The five types refer to each other, so they are one mutually recursive
  datatype; a struct is a constructor with named selectors.  \<^verbatim>\<open>Arc\<close> and \<^verbatim>\<open>Box\<close> are the value
  they point to.  Names and paths are strings of characters, string values the bytes of their
  UTF-8 encoding.
\<close>

section \<open>Types\<close>

datatype FieldType =
    FT_Bool | FT_Int8 | FT_Int16 | FT_Int32 | FT_Int64
  | FT_Uint8 | FT_Uint16 | FT_Uint32 | FT_Uint64 | FT_Float32 | FT_Float64
  | FT_String | FT_BoundedString nat
  | FT_Message MessageSchema
  | FT_Array FieldType nat | FT_Sequence FieldType | FT_BoundedSequence FieldType nat
and FieldSchema =
    FieldSchema (fs_name: string) (fs_field_type: FieldType) (fs_default_value: "DynamicValue option")
and MessageSchema =
    MessageSchema (ms_type_name: string) (ms_package: string) (ms_name: string)
      (ms_fields: "FieldSchema list") (ms_type_hash: "string option")
and DynamicValue =
    DV_Bool bool | DV_Int8 i8 | DV_Int16 i16 | DV_Int32 i32 | DV_Int64 i64
  | DV_Uint8 u8 | DV_Uint16 u16 | DV_Uint32 u32 | DV_Uint64 u64 | DV_Float32 f32 | DV_Float64 f64
  | DV_String bytes | DV_Bytes bytes
  | DV_Message DynamicMessage | DV_Array "DynamicValue list"
and DynamicMessage =
    DynamicMessage (dm_schema: MessageSchema) (dm_values: "DynamicValue list")

text \<open>
  A message text built by \<^verbatim>\<open>format!\<close> or \<^verbatim>\<open>to_string\<close> is kept as its arguments.
\<close>

datatype message =
    Text string
  | CannotSerialize DynamicValue FieldType
  | ExpectedCdrLe bytes
  | CdrError cdr_error

datatype DynamicError =
    InvalidTypeName string
  | FieldNotFound string
  | EmptyPath
  | NotAMessage string
  | TypeMismatch string string
  | IndexOutOfBounds nat
  | SerializationError message
  | DeserializationError message
  | SchemaLoadError string string
  | RegistryLockPoisoned
  | SchemaNotFound string
  | InvalidDefaultValue string string
  | BoundExceeded nat nat

definition dynamic_error_from :: "cdr_error \<Rightarrow> DynamicError" where
  "dynamic_error_from e = DeserializationError (CdrError e)"

section \<open>FieldType\<close>

primrec ft_alignment :: "FieldType \<Rightarrow> nat" and fs_alignment :: "FieldSchema \<Rightarrow> nat"
  and ms_alignment :: "MessageSchema \<Rightarrow> nat" where
  "ft_alignment FT_Bool = 1"
| "ft_alignment FT_Int8 = 1"
| "ft_alignment FT_Uint8 = 1"
| "ft_alignment FT_Int16 = 2"
| "ft_alignment FT_Uint16 = 2"
| "ft_alignment FT_Int32 = 4"
| "ft_alignment FT_Uint32 = 4"
| "ft_alignment FT_Float32 = 4"
| "ft_alignment FT_Int64 = 8"
| "ft_alignment FT_Uint64 = 8"
| "ft_alignment FT_Float64 = 8"
| "ft_alignment FT_String = 4"
| "ft_alignment (FT_BoundedString n) = 4"
| "ft_alignment (FT_Array inner n) = ft_alignment inner"
| "ft_alignment (FT_Sequence inner) = 4"
| "ft_alignment (FT_BoundedSequence inner n) = 4"
| "ft_alignment (FT_Message schema) = ms_alignment schema"
| "fs_alignment (FieldSchema n t d) = ft_alignment t"
| "ms_alignment (MessageSchema tn p n flds h) =
     (case map fs_alignment flds of [] \<Rightarrow> 1 | a # as \<Rightarrow> fold max as a)"

text \<open>\<^verbatim>\<open>(size + align - 1) & !(align - 1)\<close> at the width of \<^verbatim>\<open>usize\<close>.\<close>

definition align_up :: "nat \<Rightarrow> nat \<Rightarrow> nat" where
  "align_up sz align =
     unat ((of_nat sz + of_nat align - 1 :: u64) AND NOT (of_nat align - 1))"

text \<open>The loop of \<^verbatim>\<open>fixed_cdr_size\<close> over the sizes and alignments of the fields.\<close>

fun add_field_sizes :: "nat \<Rightarrow> (nat option \<times> nat) list \<Rightarrow> nat option" where
  "add_field_sizes sz [] = Some sz"
| "add_field_sizes sz ((field_size, align) # rest) =
     (case field_size of
        None \<Rightarrow> None
      | Some n \<Rightarrow> add_field_sizes (align_up sz align + n) rest)"

primrec fixed_size :: "FieldType \<Rightarrow> nat option" and fs_fixed_size :: "FieldSchema \<Rightarrow> nat option"
  and fixed_cdr_size :: "MessageSchema \<Rightarrow> nat option" where
  "fixed_size FT_Bool = Some 1"
| "fixed_size FT_Int8 = Some 1"
| "fixed_size FT_Uint8 = Some 1"
| "fixed_size FT_Int16 = Some 2"
| "fixed_size FT_Uint16 = Some 2"
| "fixed_size FT_Int32 = Some 4"
| "fixed_size FT_Uint32 = Some 4"
| "fixed_size FT_Float32 = Some 4"
| "fixed_size FT_Int64 = Some 8"
| "fixed_size FT_Uint64 = Some 8"
| "fixed_size FT_Float64 = Some 8"
| "fixed_size (FT_Array inner n) = map_option (\<lambda>s. s * n) (fixed_size inner)"
| "fixed_size (FT_Message schema) = fixed_cdr_size schema"
| "fixed_size FT_String = None"
| "fixed_size (FT_BoundedString n) = None"
| "fixed_size (FT_Sequence inner) = None"
| "fixed_size (FT_BoundedSequence inner n) = None"
| "fs_fixed_size (FieldSchema n t d) = fixed_size t"
| "fixed_cdr_size (MessageSchema tn p n flds h) =
     add_field_sizes 0 (zip (map fs_fixed_size flds) (map fs_alignment flds))"

definition is_numeric :: "FieldType \<Rightarrow> bool" where
  "is_numeric t \<longleftrightarrow> (case t of
     FT_Int8 \<Rightarrow> True | FT_Int16 \<Rightarrow> True | FT_Int32 \<Rightarrow> True | FT_Int64 \<Rightarrow> True
   | FT_Uint8 \<Rightarrow> True | FT_Uint16 \<Rightarrow> True | FT_Uint32 \<Rightarrow> True | FT_Uint64 \<Rightarrow> True
   | FT_Float32 \<Rightarrow> True | FT_Float64 \<Rightarrow> True | _ \<Rightarrow> False)"

definition is_primitive :: "FieldType \<Rightarrow> bool" where
  "is_primitive t \<longleftrightarrow> (case t of
     FT_Bool \<Rightarrow> True | FT_Int8 \<Rightarrow> True | FT_Int16 \<Rightarrow> True | FT_Int32 \<Rightarrow> True | FT_Int64 \<Rightarrow> True
   | FT_Uint8 \<Rightarrow> True | FT_Uint16 \<Rightarrow> True | FT_Uint32 \<Rightarrow> True | FT_Uint64 \<Rightarrow> True
   | FT_Float32 \<Rightarrow> True | FT_Float64 \<Rightarrow> True | FT_String \<Rightarrow> True | FT_BoundedString _ \<Rightarrow> True
   | _ \<Rightarrow> False)"

definition element_type :: "FieldType \<Rightarrow> FieldType option" where
  "element_type t = (case t of
     FT_Array inner _ \<Rightarrow> Some inner | FT_Sequence inner \<Rightarrow> Some inner
   | FT_BoundedSequence inner _ \<Rightarrow> Some inner | _ \<Rightarrow> None)"

section \<open>FieldSchema and MessageSchema\<close>

definition field_schema_new :: "string \<Rightarrow> FieldType \<Rightarrow> FieldSchema" where
  "field_schema_new n t = FieldSchema n t None"

definition with_default :: "FieldSchema \<Rightarrow> DynamicValue \<Rightarrow> FieldSchema" where
  "with_default f v = FieldSchema (fs_name f) (fs_field_type f) (Some v)"

definition ms_field :: "MessageSchema \<Rightarrow> string \<Rightarrow> FieldSchema option" where
  "ms_field s n = List.find (\<lambda>f. fs_name f = n) (ms_fields s)"

definition field_index :: "MessageSchema \<Rightarrow> string \<Rightarrow> nat option" where
  "field_index s n = position (\<lambda>f. fs_name f = n) (ms_fields s)"

text \<open>The loop over the parts of a dotted path; a field that is no message keeps the schema.\<close>

fun path_indices :: "MessageSchema \<Rightarrow> string list \<Rightarrow> (nat list, DynamicError) result" where
  "path_indices current_schema [] = Ok []"
| "path_indices current_schema (part # parts) =
     (case field_index current_schema part of
        None \<Rightarrow> Err (FieldNotFound part)
      | Some idx \<Rightarrow>
          let next_schema = (case fs_field_type (ms_fields current_schema ! idx) of
                FT_Message nested \<Rightarrow> nested | _ \<Rightarrow> current_schema)
          in bind_result (path_indices next_schema parts) (\<lambda>indices. Ok (idx # indices)))"

definition field_path_indices :: "MessageSchema \<Rightarrow> string \<Rightarrow> (nat list, DynamicError) result" where
  "field_path_indices s path = path_indices s (split_on CHR ''.'' path)"

definition ms_field_count :: "MessageSchema \<Rightarrow> nat" where
  "ms_field_count s = length (ms_fields s)"

definition field_names :: "MessageSchema \<Rightarrow> string list" where
  "field_names s = map fs_name (ms_fields s)"

definition schema_eq :: "MessageSchema \<Rightarrow> MessageSchema \<Rightarrow> bool" where
  "schema_eq a b \<longleftrightarrow> ms_type_name a = ms_type_name b"

section \<open>MessageSchemaBuilder\<close>

record MessageSchemaBuilder =
  msb_type_name :: string
  msb_fields :: "FieldSchema list"
  msb_type_hash :: "string option"

definition msb_new :: "string \<Rightarrow> MessageSchemaBuilder" where
  "msb_new tn = \<lparr>msb_type_name = tn, msb_fields = [], msb_type_hash = None\<rparr>"

definition msb_field :: "MessageSchemaBuilder \<Rightarrow> string \<Rightarrow> FieldType \<Rightarrow> MessageSchemaBuilder" where
  "msb_field b n t = b\<lparr>msb_fields := msb_fields b @ [field_schema_new n t]\<rparr>"

definition msb_field_with_default ::
    "MessageSchemaBuilder \<Rightarrow> string \<Rightarrow> FieldType \<Rightarrow> DynamicValue \<Rightarrow> MessageSchemaBuilder" where
  "msb_field_with_default b n t dflt =
     b\<lparr>msb_fields := msb_fields b @ [with_default (field_schema_new n t) dflt]\<rparr>"

definition msb_set_type_hash :: "MessageSchemaBuilder \<Rightarrow> string \<Rightarrow> MessageSchemaBuilder" where
  "msb_set_type_hash b hash = b\<lparr>msb_type_hash := Some hash\<rparr>"

definition msb_build :: "MessageSchemaBuilder \<Rightarrow> (MessageSchema, DynamicError) result" where
  "msb_build b =
     (let parts = split_on CHR ''/'' (msb_type_name b)
      in if length parts \<noteq> 3 \<or> parts ! 1 \<noteq> ''msg''
         then Err (InvalidTypeName (msb_type_name b))
         else Ok (MessageSchema (msb_type_name b) (parts ! 0) (parts ! 2) (msb_fields b)
                    (msb_type_hash b)))"

section \<open>DynamicValue\<close>

definition as_bool :: "DynamicValue \<Rightarrow> bool option" where
  "as_bool v = (case v of DV_Bool x \<Rightarrow> Some x | _ \<Rightarrow> None)"
definition as_i8 :: "DynamicValue \<Rightarrow> i8 option" where
  "as_i8 v = (case v of DV_Int8 x \<Rightarrow> Some x | _ \<Rightarrow> None)"
definition as_i16 :: "DynamicValue \<Rightarrow> i16 option" where
  "as_i16 v = (case v of DV_Int16 x \<Rightarrow> Some x | _ \<Rightarrow> None)"
definition as_i32 :: "DynamicValue \<Rightarrow> i32 option" where
  "as_i32 v = (case v of DV_Int32 x \<Rightarrow> Some x | _ \<Rightarrow> None)"
definition as_i64 :: "DynamicValue \<Rightarrow> i64 option" where
  "as_i64 v = (case v of DV_Int64 x \<Rightarrow> Some x | _ \<Rightarrow> None)"
definition as_u8 :: "DynamicValue \<Rightarrow> u8 option" where
  "as_u8 v = (case v of DV_Uint8 x \<Rightarrow> Some x | _ \<Rightarrow> None)"
definition as_u16 :: "DynamicValue \<Rightarrow> u16 option" where
  "as_u16 v = (case v of DV_Uint16 x \<Rightarrow> Some x | _ \<Rightarrow> None)"
definition as_u32 :: "DynamicValue \<Rightarrow> u32 option" where
  "as_u32 v = (case v of DV_Uint32 x \<Rightarrow> Some x | _ \<Rightarrow> None)"
definition as_u64 :: "DynamicValue \<Rightarrow> u64 option" where
  "as_u64 v = (case v of DV_Uint64 x \<Rightarrow> Some x | _ \<Rightarrow> None)"
definition as_f32 :: "DynamicValue \<Rightarrow> f32 option" where
  "as_f32 v = (case v of DV_Float32 x \<Rightarrow> Some x | _ \<Rightarrow> None)"
definition as_f64 :: "DynamicValue \<Rightarrow> f64 option" where
  "as_f64 v = (case v of DV_Float64 x \<Rightarrow> Some x | _ \<Rightarrow> None)"
definition as_str :: "DynamicValue \<Rightarrow> bytes option" where
  "as_str v = (case v of DV_String x \<Rightarrow> Some x | _ \<Rightarrow> None)"
definition as_bytes :: "DynamicValue \<Rightarrow> bytes option" where
  "as_bytes v = (case v of DV_Bytes x \<Rightarrow> Some x | _ \<Rightarrow> None)"
definition as_message :: "DynamicValue \<Rightarrow> DynamicMessage option" where
  "as_message v = (case v of DV_Message x \<Rightarrow> Some x | _ \<Rightarrow> None)"
definition as_array :: "DynamicValue \<Rightarrow> DynamicValue list option" where
  "as_array v = (case v of DV_Array x \<Rightarrow> Some x | _ \<Rightarrow> None)"

definition dv_is_primitive :: "DynamicValue \<Rightarrow> bool" where
  "dv_is_primitive v \<longleftrightarrow>
     (case v of DV_Bytes _ \<Rightarrow> False | DV_Message _ \<Rightarrow> False | DV_Array _ \<Rightarrow> False | _ \<Rightarrow> True)"

text \<open>
  \<^verbatim>\<open>IntoDynamic\<close> and \<^verbatim>\<open>FromDynamic\<close> are the pair of functions that their implementation for a
  type consists of.
\<close>

record 'a dynamic =
  into_dynamic :: "'a \<Rightarrow> DynamicValue"
  from_dynamic :: "DynamicValue \<Rightarrow> 'a option"
  type_name_of :: string

definition dynamic_bool :: "bool dynamic" where
  "dynamic_bool = \<lparr>into_dynamic = DV_Bool, from_dynamic = as_bool, type_name_of = ''bool''\<rparr>"
definition dynamic_i8 :: "i8 dynamic" where
  "dynamic_i8 = \<lparr>into_dynamic = DV_Int8, from_dynamic = as_i8, type_name_of = ''i8''\<rparr>"
definition dynamic_i16 :: "i16 dynamic" where
  "dynamic_i16 = \<lparr>into_dynamic = DV_Int16, from_dynamic = as_i16, type_name_of = ''i16''\<rparr>"
definition dynamic_i32 :: "i32 dynamic" where
  "dynamic_i32 = \<lparr>into_dynamic = DV_Int32, from_dynamic = as_i32, type_name_of = ''i32''\<rparr>"
definition dynamic_i64 :: "i64 dynamic" where
  "dynamic_i64 = \<lparr>into_dynamic = DV_Int64, from_dynamic = as_i64, type_name_of = ''i64''\<rparr>"
definition dynamic_u8 :: "u8 dynamic" where
  "dynamic_u8 = \<lparr>into_dynamic = DV_Uint8, from_dynamic = as_u8, type_name_of = ''u8''\<rparr>"
definition dynamic_u16 :: "u16 dynamic" where
  "dynamic_u16 = \<lparr>into_dynamic = DV_Uint16, from_dynamic = as_u16, type_name_of = ''u16''\<rparr>"
definition dynamic_u32 :: "u32 dynamic" where
  "dynamic_u32 = \<lparr>into_dynamic = DV_Uint32, from_dynamic = as_u32, type_name_of = ''u32''\<rparr>"
definition dynamic_u64 :: "u64 dynamic" where
  "dynamic_u64 = \<lparr>into_dynamic = DV_Uint64, from_dynamic = as_u64, type_name_of = ''u64''\<rparr>"
definition dynamic_f32 :: "f32 dynamic" where
  "dynamic_f32 = \<lparr>into_dynamic = DV_Float32, from_dynamic = as_f32, type_name_of = ''f32''\<rparr>"
definition dynamic_f64 :: "f64 dynamic" where
  "dynamic_f64 = \<lparr>into_dynamic = DV_Float64, from_dynamic = as_f64, type_name_of = ''f64''\<rparr>"
definition dynamic_string :: "bytes dynamic" where
  "dynamic_string =
     \<lparr>into_dynamic = DV_String, from_dynamic = as_str, type_name_of = ''alloc::string::String''\<rparr>"

definition vec_into_dynamic :: "('a \<Rightarrow> DynamicValue) \<Rightarrow> 'a list \<Rightarrow> DynamicValue" where
  "vec_into_dynamic f xs = DV_Array (map f xs)"

text \<open>Default values; \<open>message_new\<close> is \<^verbatim>\<open>DynamicMessage::new\<close>.\<close>

primrec default_for_type :: "FieldType \<Rightarrow> DynamicValue"
  and field_default :: "FieldSchema \<Rightarrow> DynamicValue"
  and message_new :: "MessageSchema \<Rightarrow> DynamicMessage" where
  "default_for_type FT_Bool = DV_Bool False"
| "default_for_type FT_Int8 = DV_Int8 0"
| "default_for_type FT_Int16 = DV_Int16 0"
| "default_for_type FT_Int32 = DV_Int32 0"
| "default_for_type FT_Int64 = DV_Int64 0"
| "default_for_type FT_Uint8 = DV_Uint8 0"
| "default_for_type FT_Uint16 = DV_Uint16 0"
| "default_for_type FT_Uint32 = DV_Uint32 0"
| "default_for_type FT_Uint64 = DV_Uint64 0"
| "default_for_type FT_Float32 = DV_Float32 0"
| "default_for_type FT_Float64 = DV_Float64 0"
| "default_for_type FT_String = DV_String []"
| "default_for_type (FT_BoundedString n) = DV_String []"
| "default_for_type (FT_Message schema) = DV_Message (message_new schema)"
| "default_for_type (FT_Array inner n) = DV_Array (replicate n (default_for_type inner))"
| "default_for_type (FT_Sequence inner) = DV_Array []"
| "default_for_type (FT_BoundedSequence inner n) = DV_Array []"
| "field_default (FieldSchema n t d) = unwrap_or d (default_for_type t)"
| "message_new (MessageSchema tn p n flds h) =
     DynamicMessage (MessageSchema tn p n flds h) (map field_default flds)"

text \<open>Induction over schemas, respectively over values, alone.\<close>

lemmas schema_induct =
  FieldType.induct [where ?P4.0 = "\<lambda>_. True" and ?P5.0 = "\<lambda>_. True"]
  FieldSchema.induct [where ?P4.0 = "\<lambda>_. True" and ?P5.0 = "\<lambda>_. True"]
  MessageSchema.induct [where ?P4.0 = "\<lambda>_. True" and ?P5.0 = "\<lambda>_. True"]

lemmas value_induct =
  DynamicValue.induct
    [where ?P1.0 = "\<lambda>_. True" and ?P2.0 = "\<lambda>_. True" and ?P3.0 = "\<lambda>_. True"]
  DynamicMessage.induct
    [where ?P1.0 = "\<lambda>_. True" and ?P2.0 = "\<lambda>_. True" and ?P3.0 = "\<lambda>_. True"]

section \<open>Conversions\<close>

text \<open>What the typed accessors rely on: extraction inverts injection and accepts nothing else.\<close>

locale dynamic_conversion =
  fixes D :: "'a dynamic"
  assumes from_into [simp]: "from_dynamic D (into_dynamic D x) = Some x"
    and from_only: "from_dynamic D v = Some x \<Longrightarrow> v = into_dynamic D x"
begin

lemma from_iff: "from_dynamic D v = Some x \<longleftrightarrow> v = into_dynamic D x"
  using from_only by auto

lemma into_inject: "into_dynamic D x = into_dynamic D y \<longleftrightarrow> x = y"
  by (metis from_into option.inject)

end

lemmas dynamic_defs =
  dynamic_bool_def dynamic_i8_def dynamic_i16_def dynamic_i32_def dynamic_i64_def dynamic_u8_def
  dynamic_u16_def dynamic_u32_def dynamic_u64_def dynamic_f32_def dynamic_f64_def dynamic_string_def
  as_bool_def as_i8_def as_i16_def as_i32_def as_i64_def as_u8_def as_u16_def as_u32_def as_u64_def
  as_f32_def as_f64_def as_str_def

interpretation conv_bool: dynamic_conversion dynamic_bool
  by unfold_locales (auto simp: dynamic_defs split: DynamicValue.splits)
interpretation conv_i8: dynamic_conversion dynamic_i8
  by unfold_locales (auto simp: dynamic_defs split: DynamicValue.splits)
interpretation conv_i16: dynamic_conversion dynamic_i16
  by unfold_locales (auto simp: dynamic_defs split: DynamicValue.splits)
interpretation conv_i32: dynamic_conversion dynamic_i32
  by unfold_locales (auto simp: dynamic_defs split: DynamicValue.splits)
interpretation conv_i64: dynamic_conversion dynamic_i64
  by unfold_locales (auto simp: dynamic_defs split: DynamicValue.splits)
interpretation conv_u8: dynamic_conversion dynamic_u8
  by unfold_locales (auto simp: dynamic_defs split: DynamicValue.splits)
interpretation conv_u16: dynamic_conversion dynamic_u16
  by unfold_locales (auto simp: dynamic_defs split: DynamicValue.splits)
interpretation conv_u32: dynamic_conversion dynamic_u32
  by unfold_locales (auto simp: dynamic_defs split: DynamicValue.splits)
interpretation conv_u64: dynamic_conversion dynamic_u64
  by unfold_locales (auto simp: dynamic_defs split: DynamicValue.splits)
interpretation conv_f32: dynamic_conversion dynamic_f32
  by unfold_locales (auto simp: dynamic_defs split: DynamicValue.splits)
interpretation conv_f64: dynamic_conversion dynamic_f64
  by unfold_locales (auto simp: dynamic_defs split: DynamicValue.splits)
interpretation conv_string: dynamic_conversion dynamic_string
  by unfold_locales (auto simp: dynamic_defs split: DynamicValue.splits)

section \<open>Alignment arithmetic\<close>

text \<open>The alignments of the code are powers of two.\<close>

lemma align_up_eq:
  assumes "a = 2 ^ k" "k < 32" "sz + a < 2 ^ 64"
  shows "align_up sz a = (sz + a - 1) div a * a"
proof -
  define x :: u64 where "x = of_nat sz + of_nat a - 1"
  have a: "1 \<le> a" using assms(1) by simp
  have "x = of_nat (sz + a - 1)"
    using a by (simp add: x_def of_nat_diff)
  then have x: "unat x = sz + a - 1"
    using assms(3) by (simp add: unat_of_nat take_bit_nat_eq_self)
  have mask: "of_nat a - 1 = (mask k :: u64)"
    by (simp add: assms(1) mask_eq_exp_minus_1)
  have "unat (x AND NOT (mask k)) = (sz + a - 1) div a * a"
    by (simp only: unat_and_not_mask x assms(1))
  then show ?thesis
    by (simp only: align_up_def x_def mask)
qed

end
