(* ===== verification/Dyn_Message.thy ===== *)
theory Dyn_Message
  imports Dyn_Schema
begin

text \<open>
  \<^verbatim>\<open>ros-z/src/dynamic/message.rs\<close>: access to the fields of a \<^verbatim>\<open>DynamicMessage\<close> by dotted path
  and by index, and the message builder.  The invariant \<open>message_wf\<close> says that a message has one
  value per field of its schema, at every depth; indexing \<^verbatim>\<open>self.values[field_idx]\<close> panics
  without it.  The lemmas are the laws of a record with nested fields: a successful write is read
  back, leaves every other path alone, fails exactly when the read fails, and a failed write
  changes nothing.
\<close>

section \<open>DynamicMessage\<close>

definition from_values :: "MessageSchema \<Rightarrow> DynamicValue list \<Rightarrow> DynamicMessage" where
  "from_values schema vals = DynamicMessage schema vals"

fun get_nested :: "DynamicMessage \<Rightarrow> string list \<Rightarrow> (DynamicValue, DynamicError) result" where
  "get_nested msg [] = Err EmptyPath"
| "get_nested msg (field_name # rest) =
     (case position (\<lambda>f. fs_name f = field_name) (ms_fields (dm_schema msg)) of
        None \<Rightarrow> Err (FieldNotFound field_name)
      | Some field_idx \<Rightarrow>
          if field_idx < length (dm_values msg)
          then let value = dm_values msg ! field_idx in
            if rest = [] then Ok value
            else (case value of
                    DV_Message nested \<Rightarrow> get_nested nested rest
                  | _ \<Rightarrow> Err (NotAMessage field_name))
          else Panic)"

definition get_dynamic :: "DynamicMessage \<Rightarrow> string \<Rightarrow> (DynamicValue, DynamicError) result" where
  "get_dynamic msg path = get_nested msg (split_on CHR ''.'' path)"

definition msg_get :: "'a dynamic \<Rightarrow> DynamicMessage \<Rightarrow> string \<Rightarrow> ('a, DynamicError) result" where
  "msg_get D msg path =
     bind_result (get_dynamic msg path)
       (\<lambda>value. ok_or (TypeMismatch path (type_name_of D)) (from_dynamic D value))"

definition get_dynamic_by_index :: "DynamicMessage \<Rightarrow> nat \<Rightarrow> (DynamicValue, DynamicError) result" where
  "get_dynamic_by_index msg index =
     ok_or (IndexOutOfBounds index)
       (if index < length (dm_values msg) then Some (dm_values msg ! index) else None)"

definition get_by_index :: "'a dynamic \<Rightarrow> DynamicMessage \<Rightarrow> nat \<Rightarrow> ('a, DynamicError) result" where
  "get_by_index D msg index =
     bind_result
       (ok_or (IndexOutOfBounds index)
          (if index < length (dm_values msg) then Some (dm_values msg ! index) else None))
       (\<lambda>value. ok_or (TypeMismatch (''['' @ show_nat index @ '']'') (type_name_of D))
                  (from_dynamic D value))"

fun set_nested :: "string list \<Rightarrow> DynamicValue \<Rightarrow> (DynamicMessage, unit, DynamicError) exec" where
  "set_nested [] value msg = (Err EmptyPath, msg)"
| "set_nested (field_name # rest) value msg =
     (case position (\<lambda>f. fs_name f = field_name) (ms_fields (dm_schema msg)) of
        None \<Rightarrow> (Err (FieldNotFound field_name), msg)
      | Some field_idx \<Rightarrow>
          if field_idx < length (dm_values msg)
          then if rest = []
            then (Ok (), DynamicMessage (dm_schema msg) ((dm_values msg)[field_idx := value]))
            else (case dm_values msg ! field_idx of
                    DV_Message nested \<Rightarrow>
                      let (res, nested') = set_nested rest value nested
                      in (res, DynamicMessage (dm_schema msg)
                                 ((dm_values msg)[field_idx := DV_Message nested']))
                  | _ \<Rightarrow> (Err (NotAMessage field_name), msg))
          else (Panic, msg))"

definition set_dynamic :: "string \<Rightarrow> DynamicValue \<Rightarrow> (DynamicMessage, unit, DynamicError) exec" where
  "set_dynamic path value = set_nested (split_on CHR ''.'' path) value"

definition msg_set :: "'a dynamic \<Rightarrow> string \<Rightarrow> 'a \<Rightarrow> (DynamicMessage, unit, DynamicError) exec" where
  "msg_set D path value = set_dynamic path (into_dynamic D value)"

definition set_by_index :: "'a dynamic \<Rightarrow> nat \<Rightarrow> 'a \<Rightarrow> (DynamicMessage, unit, DynamicError) exec" where
  "set_by_index D index value = (\<lambda>msg.
     if index \<ge> length (dm_values msg) then (Err (IndexOutOfBounds index), msg)
     else (Ok (), DynamicMessage (dm_schema msg) ((dm_values msg)[index := into_dynamic D value])))"

definition msg_iter :: "DynamicMessage \<Rightarrow> (string \<times> DynamicValue) list" where
  "msg_iter msg = map (\<lambda>(field, value). (fs_name field, value))
     (zip (ms_fields (dm_schema msg)) (dm_values msg))"

definition msg_field_count :: "DynamicMessage \<Rightarrow> nat" where
  "msg_field_count msg = length (dm_values msg)"

section \<open>DynamicMessageBuilder\<close>

record DynamicMessageBuilder =
  dmb_schema :: MessageSchema
  dmb_values :: "DynamicValue option list"

definition dmb_new :: "MessageSchema \<Rightarrow> DynamicMessageBuilder" where
  "dmb_new schema =
     \<lparr>dmb_schema = schema, dmb_values = replicate (length (ms_fields schema)) None\<rparr>"

definition dmb_set ::
    "'a dynamic \<Rightarrow> DynamicMessageBuilder \<Rightarrow> string \<Rightarrow> 'a \<Rightarrow> (DynamicMessageBuilder, DynamicError) result"
where
  "dmb_set D b n value =
     bind_result (ok_or (FieldNotFound n) (position (\<lambda>f. fs_name f = n) (ms_fields (dmb_schema b))))
       (\<lambda>idx. if idx < length (dmb_values b)
              then Ok (b\<lparr>dmb_values := (dmb_values b)[idx := Some (into_dynamic D value)]\<rparr>)
              else Panic)"

definition dmb_set_by_index ::
    "'a dynamic \<Rightarrow> DynamicMessageBuilder \<Rightarrow> nat \<Rightarrow> 'a \<Rightarrow> (DynamicMessageBuilder, DynamicError) result"
where
  "dmb_set_by_index D b index value =
     (if index \<ge> length (dmb_values b) then Err (IndexOutOfBounds index)
      else Ok (b\<lparr>dmb_values := (dmb_values b)[index := Some (into_dynamic D value)]\<rparr>))"

definition dmb_build :: "DynamicMessageBuilder \<Rightarrow> DynamicMessage" where
  "dmb_build b =
     DynamicMessage (dmb_schema b)
       (map (\<lambda>(v, f). unwrap_or v (unwrap_or (fs_default_value f) (default_for_type (fs_field_type f))))
          (zip (dmb_values b) (ms_fields (dmb_schema b))))"

section \<open>The invariant\<close>

primrec value_wf :: "DynamicValue \<Rightarrow> bool" and message_wf :: "DynamicMessage \<Rightarrow> bool" where
  "value_wf (DV_Bool x) = True"
| "value_wf (DV_Int8 a) = True"
| "value_wf (DV_Int16 b) = True"
| "value_wf (DV_Int32 c) = True"
| "value_wf (DV_Int64 d) = True"
| "value_wf (DV_Uint8 a) = True"
| "value_wf (DV_Uint16 b) = True"
| "value_wf (DV_Uint32 c) = True"
| "value_wf (DV_Uint64 d) = True"
| "value_wf (DV_Float32 c) = True"
| "value_wf (DV_Float64 d) = True"
| "value_wf (DV_String s) = True"
| "value_wf (DV_Bytes s) = True"
| "value_wf (DV_Message m) = message_wf m"
| "value_wf (DV_Array vs) = list_all id (map value_wf vs)"
| "message_wf (DynamicMessage s vs) =
     (length vs = length (ms_fields s) \<and> list_all id (map value_wf vs))"

text \<open>Schemas whose default values are well formed, at every depth.\<close>

primrec type_defaults_wf :: "FieldType \<Rightarrow> bool" and field_defaults_wf :: "FieldSchema \<Rightarrow> bool"
  and schema_defaults_wf :: "MessageSchema \<Rightarrow> bool" where
  "type_defaults_wf FT_Bool = True"
| "type_defaults_wf FT_Int8 = True"
| "type_defaults_wf FT_Int16 = True"
| "type_defaults_wf FT_Int32 = True"
| "type_defaults_wf FT_Int64 = True"
| "type_defaults_wf FT_Uint8 = True"
| "type_defaults_wf FT_Uint16 = True"
| "type_defaults_wf FT_Uint32 = True"
| "type_defaults_wf FT_Uint64 = True"
| "type_defaults_wf FT_Float32 = True"
| "type_defaults_wf FT_Float64 = True"
| "type_defaults_wf FT_String = True"
| "type_defaults_wf (FT_BoundedString n) = True"
| "type_defaults_wf (FT_Message s) = schema_defaults_wf s"
| "type_defaults_wf (FT_Array t n) = type_defaults_wf t"
| "type_defaults_wf (FT_Sequence t) = type_defaults_wf t"
| "type_defaults_wf (FT_BoundedSequence t n) = type_defaults_wf t"
| "field_defaults_wf (FieldSchema n t d) = (pred_option value_wf d \<and> type_defaults_wf t)"
| "schema_defaults_wf (MessageSchema tn p n fs h) = list_all id (map field_defaults_wf fs)"

lemma message_wf_iff:
  "message_wf m \<longleftrightarrow> length (dm_values m) = length (ms_fields (dm_schema m)) \<and>
     (\<forall>v\<in>set (dm_values m). value_wf v)"
  by (cases m) (auto simp: list_all_iff)

lemma default_wf:
  "type_defaults_wf t \<Longrightarrow> value_wf (default_for_type t)"
  "field_defaults_wf f \<Longrightarrow> value_wf (field_default f)"
  "schema_defaults_wf s \<Longrightarrow> message_wf (message_new s)"
proof (induction t and f and s rule: schema_induct)
  case (FieldSchema n t d)
  then show ?case by (cases d) auto
qed (auto simp: list_all_iff)

lemma message_new_simps:
  "dm_schema (message_new s) = s"
  "dm_values (message_new s) = map field_default (ms_fields s)"
  by (cases s, simp)+

section \<open>Reading and writing nested fields\<close>

lemma position_bound:
  "message_wf m \<Longrightarrow> position P (ms_fields (dm_schema m)) = Some i \<Longrightarrow> i < length (dm_values m)"
  using position_less [of P] by (simp add: message_wf_iff)

text \<open>The two operations with a single split on whether the field holds a message.\<close>

lemma case_message:
  "(case v of DV_Message m \<Rightarrow> f m | _ \<Rightarrow> e) = (case as_message v of Some m \<Rightarrow> f m | None \<Rightarrow> e)"
  by (cases v) (simp_all add: as_message_def)

lemma as_message_Some [simp]: "as_message v = Some m \<longleftrightarrow> v = DV_Message m"
  by (cases v) (auto simp: as_message_def)

lemma as_message_DV [simp]: "as_message (DV_Message m) = Some m"
  by simp

abbreviation field_pos :: "DynamicMessage \<Rightarrow> string \<Rightarrow> nat option" where
  "field_pos m n \<equiv> position (\<lambda>f. fs_name f = n) (ms_fields (dm_schema m))"

lemmas nested_steps = get_nested.simps(2) [unfolded case_message Let_def]
  set_nested.simps(2) [unfolded case_message Let_def split_beta]

lemmas nested_splits = option.splits if_splits result.splits

declare get_nested.simps(2) [simp del] set_nested.simps(2) [simp del]

lemma nested_induct [case_names Nil field]:
  assumes "\<And>v m. P [] v m"
    and "\<And>n rest v m. (\<And>i nested. field_pos m n = Some i \<Longrightarrow> i < length (dm_values m) \<Longrightarrow>
        dm_values m ! i = DV_Message nested \<Longrightarrow> rest \<noteq> [] \<Longrightarrow> P rest v nested) \<Longrightarrow> P (n # rest) v m"
  shows "P path v m"
  using assms by (induction path arbitrary: m) auto

lemma set_nested_schema: "dm_schema (snd (set_nested path v m)) = dm_schema m"
  by (cases path) (auto simp: nested_steps split: nested_splits)

lemma set_nested_outcome:
  "fst (set_nested path v m) =
     (case get_nested m path of Ok _ \<Rightarrow> Ok () | Err e \<Rightarrow> Err e | Panic \<Rightarrow> Panic)"
  by (induction path v m rule: nested_induct) (auto simp: nested_steps split: nested_splits)

lemma set_nested_unchanged:
  "fst (set_nested path v m) \<noteq> Ok () \<Longrightarrow> snd (set_nested path v m) = m"
proof (induction path v m rule: nested_induct)
  case (field n rest v m)
  then show ?case
    by (cases m) (auto simp: nested_steps list_update_same_conv split: nested_splits)
qed simp

lemma get_set_nested:
  "fst (set_nested path v m) = Ok () \<Longrightarrow> get_nested (snd (set_nested path v m)) path = Ok v"
  by (induction path v m rule: nested_induct) (auto simp: nested_steps split: nested_splits)

lemma get_set_nested_other:
  "\<not> prefix p q \<Longrightarrow> \<not> prefix q p \<Longrightarrow> get_nested (snd (set_nested p v m)) q = get_nested m q"
proof (induction p v m arbitrary: q rule: nested_induct)
  case (field n rest v m)
  then obtain n' rest' where q: "q = n' # rest'" by (cases q) auto
  show ?case
  proof (cases "n = n'")
    case True
    with field q show ?thesis by (auto simp: nested_steps split: nested_splits)
  next
    case False
    then have "i \<noteq> j" if "field_pos m n = Some i" "field_pos m n' = Some j" for i j
      using that by (auto simp: position_Some)
    with q show ?thesis by (auto simp: nested_steps split: nested_splits)
  qed
qed simp

lemma nested_wf:
  "message_wf m \<Longrightarrow> i < length (dm_values m) \<Longrightarrow> dm_values m ! i = DV_Message nested \<Longrightarrow>
     message_wf nested"
  by (metis message_wf_iff nth_mem value_wf.simps(14))

lemma get_nested_no_panic: "message_wf m \<Longrightarrow> get_nested m path \<noteq> Panic"
proof (induction path "undefined :: DynamicValue" m rule: nested_induct)
  case (field n rest m)
  then show ?case
    using position_bound [OF field.prems] nested_wf [OF field.prems]
    by (fastforce simp: nested_steps split: nested_splits)
qed simp

lemma set_nested_wf: "message_wf m \<Longrightarrow> value_wf v \<Longrightarrow> message_wf (snd (set_nested path v m))"
proof (induction path v m rule: nested_induct)
  case (field n rest v m)
  have upd: "message_wf (DynamicMessage (dm_schema m) ((dm_values m)[i := u]))" if "value_wf u" for i u
    using field.prems that
    by (auto simp: message_wf_iff list_all_iff dest!: set_update_subset_insert [THEN subsetD])
  from field nested_wf [OF field.prems(1)] show ?case
    by (auto simp: nested_steps upd split: nested_splits simp del: message_wf.simps)
qed simp

section \<open>The builder\<close>

lemma field_default_alt:
  "field_default f = unwrap_or (fs_default_value f) (default_for_type (fs_field_type f))"
  by (cases f) simp

lemma dmb_build_new: "dmb_build (dmb_new s) = message_new s"
  by (cases s) (simp add: dmb_build_def dmb_new_def zip_replicate1 comp_def
      field_default_alt [symmetric])

lemma dmb_build_update:
  assumes "length (dmb_values b) = length (ms_fields (dmb_schema b))" "i < length (dmb_values b)"
  shows "dmb_build (b\<lparr>dmb_values := (dmb_values b)[i := Some v]\<rparr>) =
    DynamicMessage (dmb_schema b) ((dm_values (dmb_build b))[i := v])"
  using assms by (auto simp: dmb_build_def intro!: nth_equalityI simp: nth_list_update)

section \<open>Properties\<close>

text \<open>
  C4.  A field that has been set through a dotted path is read back through that path, with the
  type it was set with; this needs only that the type's extraction inverts its injection.
\<close>

theorem message_get_after_set:
  assumes "dynamic_conversion D" and "msg_set D path x m = (Ok (), m')"
  shows "msg_get D m' path = Ok x"
proof -
  have "get_nested m' (split_on CHR ''.'' path) = Ok (into_dynamic D x)"
    using get_set_nested [of "split_on CHR ''.'' path" "into_dynamic D x" m] assms(2)
    by (simp add: msg_set_def set_dynamic_def)
  then show ?thesis
    by (simp add: msg_get_def get_dynamic_def dynamic_conversion.from_into [OF assms(1)])
qed

text \<open>The schema of a velocity command: two nested vectors.\<close>

definition vector3_schema :: MessageSchema where
  "vector3_schema = MessageSchema ''geometry_msgs/msg/Vector3'' ''geometry_msgs'' ''Vector3''
     [FieldSchema ''x'' FT_Float64 None, FieldSchema ''y'' FT_Float64 None,
      FieldSchema ''z'' FT_Float64 None] None"

definition twist_schema :: MessageSchema where
  "twist_schema = MessageSchema ''geometry_msgs/msg/Twist'' ''geometry_msgs'' ''Twist''
     [FieldSchema ''linear'' (FT_Message vector3_schema) None,
      FieldSchema ''angular'' (FT_Message vector3_schema) None] None"

lemmas twist_simps = twist_schema_def vector3_schema_def nested_steps

lemma twist_set:
  "msg_set dynamic_f64 ''linear.y'' 7 (message_new twist_schema) =
     (Ok (), snd (msg_set dynamic_f64 ''linear.y'' 7 (message_new twist_schema)))"
  by (simp add: msg_set_def set_dynamic_def twist_simps dynamic_f64_def)

theorem message_get_after_set_witness:
  "msg_get dynamic_f64 (snd (msg_set dynamic_f64 ''linear.y'' 7 (message_new twist_schema)))
     ''linear.y'' = Ok 7"
  by (rule message_get_after_set [OF conv_f64.dynamic_conversion_axioms twist_set])

text \<open>
  Setting a field leaves every other path alone: reading a path that is neither an extension
  nor a prefix of the written one gives the same value, error or panic as before.
\<close>

theorem message_get_after_set_other:
  assumes "\<not> prefix (split_on CHR ''.'' p) (split_on CHR ''.'' q)"
    and "\<not> prefix (split_on CHR ''.'' q) (split_on CHR ''.'' p)"
  shows "get_dynamic (snd (set_dynamic p v m)) q = get_dynamic m q"
  unfolding get_dynamic_def set_dynamic_def using assms by (rule get_set_nested_other)

theorem message_get_after_set_other_witness:
  "get_dynamic (snd (set_dynamic ''linear.y'' (DV_Float64 7) (message_new twist_schema)))
     ''linear.x'' = Ok (DV_Float64 0)"
proof -
  have "get_dynamic (snd (set_dynamic ''linear.y'' (DV_Float64 7) (message_new twist_schema)))
     ''linear.x'' = get_dynamic (message_new twist_schema) ''linear.x''"
    by (rule message_get_after_set_other) simp_all
  also have "\<dots> = Ok (DV_Float64 0)"
    by (simp add: get_dynamic_def twist_simps)
  finally show ?thesis .
qed

text \<open>
  Writing a path succeeds exactly when reading it does, and otherwise reports the same error
  and leaves the message as it was; a well-formed message makes neither panic and stays well formed
  when a well-formed value is written.
\<close>

theorem message_set_spec:
  assumes "message_wf m" and "value_wf v"
  shows "message_wf (snd (set_dynamic path v m)) \<and>
    (case get_dynamic m path of
       Ok _ \<Rightarrow> fst (set_dynamic path v m) = Ok ()
     | Err e \<Rightarrow> set_dynamic path v m = (Err e, m)
     | Panic \<Rightarrow> False)"
proof -
  let ?p = "split_on CHR ''.'' path"
  from get_nested_no_panic [OF assms(1), of ?p] set_nested_wf [OF assms, of ?p]
    set_nested_outcome [of ?p v m] set_nested_unchanged [of ?p v m]
  show ?thesis
    by (auto simp: set_dynamic_def get_dynamic_def split: result.splits intro: prod_eqI)
qed

theorem message_set_spec_witness:
  "message_wf (snd (set_dynamic ''linear.w'' (DV_Bool True) (message_new twist_schema))) \<and>
   set_dynamic ''linear.w'' (DV_Bool True) (message_new twist_schema) =
     (Err (FieldNotFound ''w''), message_new twist_schema)"
proof -
  have "message_wf (message_new twist_schema)"
    by (rule default_wf(3)) (simp add: twist_schema_def vector3_schema_def)
  from message_set_spec [OF this, of "DV_Bool True" "''linear.w''"] show ?thesis
    by (simp add: get_dynamic_def twist_simps)
qed

text \<open>
  A message built from a schema without setting any field is the default message, and setting
  a field of the builder by name has the effect of setting that field of the built message.
\<close>

theorem message_builder_set:
  assumes "length (dmb_values b) = length (ms_fields (dmb_schema b))"
    and "CHR ''.'' \<notin> set n"
  shows "dmb_build (dmb_new s) = message_new s \<and>
    (case dmb_set D b n x of
       Ok b' \<Rightarrow> msg_set D n x (dmb_build b) = (Ok (), dmb_build b')
     | Err e \<Rightarrow> msg_set D n x (dmb_build b) = (Err e, dmb_build b)
     | Panic \<Rightarrow> False)"
proof -
  have "length (dm_values (dmb_build b)) = length (ms_fields (dmb_schema b))"
    "dm_schema (dmb_build b) = dmb_schema b"
    using assms(1) by (simp_all add: dmb_build_def)
  with assms show ?thesis
    using position_less [of "\<lambda>f. fs_name f = n" "ms_fields (dmb_schema b)"]
    by (auto simp: dmb_build_new dmb_set_def msg_set_def set_dynamic_def split_on_part nested_steps
        dmb_build_update split: option.splits result.splits)
qed

theorem message_builder_set_witness:
  "msg_set dynamic_f64 ''y'' 4 (dmb_build (dmb_new vector3_schema)) =
     (Ok (), dmb_build ((dmb_new vector3_schema)\<lparr>dmb_values := [None, Some (DV_Float64 4), None]\<rparr>))"
  using message_builder_set [of "dmb_new vector3_schema" "''y''" vector3_schema dynamic_f64 4,
      THEN conjunct2]
  by (simp add: dmb_set_def dmb_new_def vector3_schema_def dynamic_f64_def)

text \<open>
  The path indices computed from a schema are no validation of the path: they go on searching
  the same schema behind a field that is no message, so the path \<^verbatim>\<open>x.x\<close> has indices in a schema
  with a scalar field \<^verbatim>\<open>x\<close>, while reading it reports that \<^verbatim>\<open>x\<close> is no message.
\<close>

theorem field_path_indices_through_scalar:
  "field_path_indices vector3_schema ''x.x'' = Ok [0, 0] \<and>
   get_dynamic (message_new vector3_schema) ''x.x'' = Err (NotAMessage ''x'')"
  by (simp add: field_path_indices_def get_dynamic_def twist_simps field_index_def as_message_def)

end
