(* ===== verification/Dyn_Cdr.thy ===== *)
theory Dyn_Cdr
  imports Dyn_Message
begin

text \<open>
  \<^verbatim>\<open>ros-z/src/dynamic/serialization\<close>: CDR encoding and decoding of dynamic messages, driven by
  the schema.  The specification is the static side: \<open>to_sval\<close> says which serde value a dynamic
  value stands for under a field type, or that the two do not fit.  The dynamic serializer is
  shown to write the encapsulation header followed by the static encoding of that value, and the
  dynamic deserializer to invert it.  \<open>LE\<close> stands for the foreign \<^verbatim>\<open>byteorder::LittleEndian\<close>.
\<close>

section \<open>serialization/cdr.rs\<close>

type_synonym dyn_writer = "(vec_u8 cdr_writer, unit, DynamicError) exec"
type_synonym 'a dyn_reader = "(cdr_reader, 'a, DynamicError) exec"

definition type_mismatch :: "DynamicValue \<Rightarrow> FieldType \<Rightarrow> dyn_writer" where
  "type_mismatch v t = throw (SerializationError (CannotSerialize v t))"

primrec serialize_value :: "'z zbuf_ops \<Rightarrow> byte_order \<Rightarrow> DynamicValue \<Rightarrow> FieldType \<Rightarrow> dyn_writer"
  and serialize_message :: "'z zbuf_ops \<Rightarrow> byte_order \<Rightarrow> DynamicMessage \<Rightarrow> dyn_writer" where
  "serialize_value Z LE (DV_Bool v) = (\<lambda>t. case t of
     FT_Bool \<Rightarrow> write_bool (vec_CdrBuffer Z) v | _ \<Rightarrow> type_mismatch (DV_Bool v) t)"
| "serialize_value Z LE (DV_Int8 a) = (\<lambda>t. case t of
     FT_Int8 \<Rightarrow> write_i8 (vec_CdrBuffer Z) a | _ \<Rightarrow> type_mismatch (DV_Int8 a) t)"
| "serialize_value Z LE (DV_Int16 b) = (\<lambda>t. case t of
     FT_Int16 \<Rightarrow> write_i16 (vec_CdrBuffer Z) LE b | _ \<Rightarrow> type_mismatch (DV_Int16 b) t)"
| "serialize_value Z LE (DV_Int32 c) = (\<lambda>t. case t of
     FT_Int32 \<Rightarrow> write_i32 (vec_CdrBuffer Z) LE c | _ \<Rightarrow> type_mismatch (DV_Int32 c) t)"
| "serialize_value Z LE (DV_Int64 d) = (\<lambda>t. case t of
     FT_Int64 \<Rightarrow> write_i64 (vec_CdrBuffer Z) LE d | _ \<Rightarrow> type_mismatch (DV_Int64 d) t)"
| "serialize_value Z LE (DV_Uint8 a) = (\<lambda>t. case t of
     FT_Uint8 \<Rightarrow> write_u8 (vec_CdrBuffer Z) a | _ \<Rightarrow> type_mismatch (DV_Uint8 a) t)"
| "serialize_value Z LE (DV_Uint16 b) = (\<lambda>t. case t of
     FT_Uint16 \<Rightarrow> write_u16 (vec_CdrBuffer Z) LE b | _ \<Rightarrow> type_mismatch (DV_Uint16 b) t)"
| "serialize_value Z LE (DV_Uint32 c) = (\<lambda>t. case t of
     FT_Uint32 \<Rightarrow> write_u32 (vec_CdrBuffer Z) LE c | _ \<Rightarrow> type_mismatch (DV_Uint32 c) t)"
| "serialize_value Z LE (DV_Uint64 d) = (\<lambda>t. case t of
     FT_Uint64 \<Rightarrow> write_u64 (vec_CdrBuffer Z) LE d | _ \<Rightarrow> type_mismatch (DV_Uint64 d) t)"
| "serialize_value Z LE (DV_Float32 c) = (\<lambda>t. case t of
     FT_Float32 \<Rightarrow> write_f32 (vec_CdrBuffer Z) LE c | _ \<Rightarrow> type_mismatch (DV_Float32 c) t)"
| "serialize_value Z LE (DV_Float64 d) = (\<lambda>t. case t of
     FT_Float64 \<Rightarrow> write_f64 (vec_CdrBuffer Z) LE d | _ \<Rightarrow> type_mismatch (DV_Float64 d) t)"
| "serialize_value Z LE (DV_String s) = (\<lambda>t. case t of
     FT_String \<Rightarrow> write_string (vec_CdrBuffer Z) LE s
   | FT_BoundedString _ \<Rightarrow> write_string (vec_CdrBuffer Z) LE s
   | _ \<Rightarrow> type_mismatch (DV_String s) t)"
| "serialize_value Z LE (DV_Bytes bs) = (\<lambda>t. case t of
     FT_Sequence inner \<Rightarrow>
       (if inner = FT_Uint8 then write_bytes (vec_CdrBuffer Z) LE bs
        else type_mismatch (DV_Bytes bs) t)
   | _ \<Rightarrow> type_mismatch (DV_Bytes bs) t)"
| "serialize_value Z LE (DV_Message nested) = (\<lambda>t. case t of
     FT_Message _ \<Rightarrow> serialize_message Z LE nested | _ \<Rightarrow> type_mismatch (DV_Message nested) t)"
| "serialize_value Z LE (DV_Array vals) = (\<lambda>t. case t of
     FT_Array inner _ \<Rightarrow> run_all (map (\<lambda>ser. ser inner) (map (serialize_value Z LE) vals))
   | FT_Sequence inner \<Rightarrow>
       andthen (write_sequence_length (vec_CdrBuffer Z) LE (length vals))
         (\<lambda>_. run_all (map (\<lambda>ser. ser inner) (map (serialize_value Z LE) vals)))
   | FT_BoundedSequence inner _ \<Rightarrow>
       andthen (write_sequence_length (vec_CdrBuffer Z) LE (length vals))
         (\<lambda>_. run_all (map (\<lambda>ser. ser inner) (map (serialize_value Z LE) vals)))
   | _ \<Rightarrow> type_mismatch (DV_Array vals) t)"
| "serialize_message Z LE (DynamicMessage schema vals) =
     run_all (map (\<lambda>(field, ser). ser (fs_field_type field))
       (zip (ms_fields schema) (map (serialize_value Z LE) vals)))"

definition CDR_HEADER_LE :: bytes where
  "CDR_HEADER_LE = [0x00, 0x01, 0x00, 0x00]"

definition serialize_cdr ::
    "'z zbuf_ops \<Rightarrow> byte_order \<Rightarrow> DynamicMessage \<Rightarrow> (vec_u8, DynamicError) result" where
  "serialize_cdr Z LE msg =
     (let buffer = vec_extend_from_slice (vec_with_capacity 256) CDR_HEADER_LE;
          (res, w) = serialize_message Z LE msg (writer_new (vec_CdrBuffer Z) buffer)
      in bind_result res (\<lambda>_. Ok (wr_buffer w)))"

text \<open>\<open>zbuf_from\<close> stands for the foreign \<^verbatim>\<open>ZBuf::from\<close>.\<close>

definition serialize_cdr_to_zbuf ::
    "'z zbuf_ops \<Rightarrow> (vec_u8 \<Rightarrow> 'z) \<Rightarrow> byte_order \<Rightarrow> DynamicMessage \<Rightarrow> ('z, DynamicError) result" where
  "serialize_cdr_to_zbuf Z zbuf_from LE msg =
     bind_result (serialize_cdr Z LE msg) (\<lambda>bs. Ok (zbuf_from bs))"

definition map_cdr_err :: "cdr_error \<Rightarrow> DynamicError" where
  "map_cdr_err e = DeserializationError (CdrError e)"

abbreviation read_as :: "(cdr_reader, 'a, cdr_error) exec \<Rightarrow> ('a \<Rightarrow> 'b) \<Rightarrow> 'b dyn_reader" where
  "read_as m f \<equiv> andthen (map_err map_cdr_err m) (\<lambda>v. ret (f v))"

primrec deserialize_value :: "byte_order \<Rightarrow> FieldType \<Rightarrow> DynamicValue dyn_reader"
  and deserialize_field :: "byte_order \<Rightarrow> FieldSchema \<Rightarrow> DynamicValue dyn_reader"
  and deserialize_message :: "byte_order \<Rightarrow> MessageSchema \<Rightarrow> DynamicMessage dyn_reader" where
  "deserialize_value LE FT_Bool = read_as read_bool DV_Bool"
| "deserialize_value LE FT_Int8 = read_as read_i8 DV_Int8"
| "deserialize_value LE FT_Int16 = read_as (read_i16 LE) DV_Int16"
| "deserialize_value LE FT_Int32 = read_as (read_i32 LE) DV_Int32"
| "deserialize_value LE FT_Int64 = read_as (read_i64 LE) DV_Int64"
| "deserialize_value LE FT_Uint8 = read_as read_u8 DV_Uint8"
| "deserialize_value LE FT_Uint16 = read_as (read_u16 LE) DV_Uint16"
| "deserialize_value LE FT_Uint32 = read_as (read_u32 LE) DV_Uint32"
| "deserialize_value LE FT_Uint64 = read_as (read_u64 LE) DV_Uint64"
| "deserialize_value LE FT_Float32 = read_as (read_f32 LE) DV_Float32"
| "deserialize_value LE FT_Float64 = read_as (read_f64 LE) DV_Float64"
| "deserialize_value LE FT_String = read_as (read_string LE) DV_String"
| "deserialize_value LE (FT_BoundedString n) = read_as (read_string LE) DV_String"
| "deserialize_value LE (FT_Array inner n) =
     andthen (collect (replicate n (deserialize_value LE inner))) (\<lambda>vs. ret (DV_Array vs))"
| "deserialize_value LE (FT_Sequence inner) =
     (if inner = FT_Uint8 then read_as (read_byte_sequence LE) DV_Bytes
      else andthen (map_err map_cdr_err (read_sequence_length LE)) (\<lambda>n.
        andthen (collect (replicate n (deserialize_value LE inner))) (\<lambda>vs. ret (DV_Array vs))))"
| "deserialize_value LE (FT_BoundedSequence inner m) =
     (if inner = FT_Uint8 then read_as (read_byte_sequence LE) DV_Bytes
      else andthen (map_err map_cdr_err (read_sequence_length LE)) (\<lambda>n.
        andthen (collect (replicate n (deserialize_value LE inner))) (\<lambda>vs. ret (DV_Array vs))))"
| "deserialize_value LE (FT_Message schema) =
     andthen (deserialize_message LE schema) (\<lambda>msg. ret (DV_Message msg))"
| "deserialize_field LE (FieldSchema n t d) = deserialize_value LE t"
| "deserialize_message LE (MessageSchema tn p n flds h) =
     andthen (collect (map (deserialize_field LE) flds))
       (\<lambda>vals. ret (from_values (MessageSchema tn p n flds h) vals))"

definition deserialize_cdr ::
    "byte_order \<Rightarrow> bytes \<Rightarrow> MessageSchema \<Rightarrow> (DynamicMessage, DynamicError) result" where
  "deserialize_cdr LE data schema =
     (if length data < 4 then Err (DeserializationError (Text ''CDR data too short for header''))
      else let header = take 4 data; representation_identifier = take 2 header in
        if representation_identifier \<noteq> [0x00, 0x01]
        then Err (DeserializationError (ExpectedCdrLe representation_identifier))
        else let payload = drop 4 data
             in fst (deserialize_message LE schema (reader_new payload)))"

section \<open>serialization/mod.rs\<close>

text \<open>\<^verbatim>\<open>Protobuf\<close> exists under a feature only and its branches are \<^verbatim>\<open>unimplemented!\<close>.\<close>

datatype SerializationFormat = Cdr | Protobuf

definition msg_serialize ::
    "'z zbuf_ops \<Rightarrow> byte_order \<Rightarrow> DynamicMessage \<Rightarrow> SerializationFormat \<Rightarrow> (vec_u8, DynamicError) result"
where
  "msg_serialize Z LE msg fmt = (case fmt of Cdr \<Rightarrow> serialize_cdr Z LE msg | Protobuf \<Rightarrow> Panic)"

definition msg_serialize_to_buf ::
    "'z zbuf_ops \<Rightarrow> byte_order \<Rightarrow> DynamicMessage \<Rightarrow> SerializationFormat \<Rightarrow> (vec_u8, unit, DynamicError) exec"
where
  "msg_serialize_to_buf Z LE msg fmt = (\<lambda>buffer.
     let buffer1 = vec_clear buffer
     in case msg_serialize Z LE msg fmt of
          Ok data \<Rightarrow> (Ok (), vec_extend_from_slice buffer1 (vec_data data))
        | Err e \<Rightarrow> (Err e, buffer1)
        | Panic \<Rightarrow> (Panic, buffer1))"

definition msg_serialize_to_zbuf ::
    "'z zbuf_ops \<Rightarrow> (vec_u8 \<Rightarrow> 'z) \<Rightarrow> byte_order \<Rightarrow> DynamicMessage \<Rightarrow> SerializationFormat \<Rightarrow>
     ('z, DynamicError) result" where
  "msg_serialize_to_zbuf Z zbuf_from LE msg fmt =
     (case fmt of Cdr \<Rightarrow> serialize_cdr_to_zbuf Z zbuf_from LE msg | Protobuf \<Rightarrow> Panic)"

definition msg_deserialize ::
    "byte_order \<Rightarrow> bytes \<Rightarrow> MessageSchema \<Rightarrow> SerializationFormat \<Rightarrow> (DynamicMessage, DynamicError) result"
where
  "msg_deserialize LE data schema fmt =
     (case fmt of Cdr \<Rightarrow> deserialize_cdr LE data schema | Protobuf \<Rightarrow> Panic)"

section \<open>The specification\<close>

text \<open>Which serde value a dynamic value stands for under a field type.\<close>

abbreviation no_fit :: "DynamicValue \<Rightarrow> FieldType \<Rightarrow> (sval, DynamicError) result" where
  "no_fit v t \<equiv> Err (SerializationError (CannotSerialize v t))"

primrec to_sval :: "DynamicValue \<Rightarrow> FieldType \<Rightarrow> (sval, DynamicError) result"
  and message_sval :: "DynamicMessage \<Rightarrow> (sval, DynamicError) result" where
  "to_sval (DV_Bool x) = (\<lambda>t. case t of FT_Bool \<Rightarrow> Ok (SBool x) | _ \<Rightarrow> no_fit (DV_Bool x) t)"
| "to_sval (DV_Int8 a) = (\<lambda>t. case t of FT_Int8 \<Rightarrow> Ok (SI8 a) | _ \<Rightarrow> no_fit (DV_Int8 a) t)"
| "to_sval (DV_Int16 b) = (\<lambda>t. case t of FT_Int16 \<Rightarrow> Ok (SI16 b) | _ \<Rightarrow> no_fit (DV_Int16 b) t)"
| "to_sval (DV_Int32 c) = (\<lambda>t. case t of FT_Int32 \<Rightarrow> Ok (SI32 c) | _ \<Rightarrow> no_fit (DV_Int32 c) t)"
| "to_sval (DV_Int64 d) = (\<lambda>t. case t of FT_Int64 \<Rightarrow> Ok (SI64 d) | _ \<Rightarrow> no_fit (DV_Int64 d) t)"
| "to_sval (DV_Uint8 a) = (\<lambda>t. case t of FT_Uint8 \<Rightarrow> Ok (SU8 a) | _ \<Rightarrow> no_fit (DV_Uint8 a) t)"
| "to_sval (DV_Uint16 b) = (\<lambda>t. case t of FT_Uint16 \<Rightarrow> Ok (SU16 b) | _ \<Rightarrow> no_fit (DV_Uint16 b) t)"
| "to_sval (DV_Uint32 c) = (\<lambda>t. case t of FT_Uint32 \<Rightarrow> Ok (SU32 c) | _ \<Rightarrow> no_fit (DV_Uint32 c) t)"
| "to_sval (DV_Uint64 d) = (\<lambda>t. case t of FT_Uint64 \<Rightarrow> Ok (SU64 d) | _ \<Rightarrow> no_fit (DV_Uint64 d) t)"
| "to_sval (DV_Float32 c) = (\<lambda>t. case t of FT_Float32 \<Rightarrow> Ok (SF32 c) | _ \<Rightarrow> no_fit (DV_Float32 c) t)"
| "to_sval (DV_Float64 d) = (\<lambda>t. case t of FT_Float64 \<Rightarrow> Ok (SF64 d) | _ \<Rightarrow> no_fit (DV_Float64 d) t)"
| "to_sval (DV_String s) = (\<lambda>t. case t of
     FT_String \<Rightarrow> Ok (SStr s) | FT_BoundedString _ \<Rightarrow> Ok (SStr s) | _ \<Rightarrow> no_fit (DV_String s) t)"
| "to_sval (DV_Bytes bs) = (\<lambda>t.
     if t = FT_Sequence FT_Uint8 then Ok (SBytes bs) else no_fit (DV_Bytes bs) t)"
| "to_sval (DV_Message m) = (\<lambda>t. case t of
     FT_Message _ \<Rightarrow> message_sval m | _ \<Rightarrow> no_fit (DV_Message m) t)"
| "to_sval (DV_Array vs) = (\<lambda>t. case t of
     FT_Array inner _ \<Rightarrow> map_ok STuple (traverse (map (\<lambda>f. f inner) (map to_sval vs)))
   | FT_Sequence inner \<Rightarrow>
       map_ok (SSeq (Some (length vs))) (traverse (map (\<lambda>f. f inner) (map to_sval vs)))
   | FT_BoundedSequence inner _ \<Rightarrow>
       map_ok (SSeq (Some (length vs))) (traverse (map (\<lambda>f. f inner) (map to_sval vs)))
   | _ \<Rightarrow> no_fit (DV_Array vs) t)"
| "message_sval (DynamicMessage s vs) =
     map_ok SStruct (traverse (map (\<lambda>(field, f). f (fs_field_type field))
       (zip (ms_fields s) (map to_sval vs))))"

text \<open>
  The values of a type that decoding reproduces.  Byte sequences are held as \<open>DV_Bytes\<close>; a nested
  message carries the schema of its field.
\<close>

primrec has_type :: "FieldType \<Rightarrow> DynamicValue \<Rightarrow> bool"
  and field_has_type :: "FieldSchema \<Rightarrow> DynamicValue \<Rightarrow> bool"
  and message_typed :: "MessageSchema \<Rightarrow> DynamicMessage \<Rightarrow> bool" where
  "has_type FT_Bool = (\<lambda>v. as_bool v \<noteq> None)"
| "has_type FT_Int8 = (\<lambda>v. as_i8 v \<noteq> None)"
| "has_type FT_Int16 = (\<lambda>v. as_i16 v \<noteq> None)"
| "has_type FT_Int32 = (\<lambda>v. as_i32 v \<noteq> None)"
| "has_type FT_Int64 = (\<lambda>v. as_i64 v \<noteq> None)"
| "has_type FT_Uint8 = (\<lambda>v. as_u8 v \<noteq> None)"
| "has_type FT_Uint16 = (\<lambda>v. as_u16 v \<noteq> None)"
| "has_type FT_Uint32 = (\<lambda>v. as_u32 v \<noteq> None)"
| "has_type FT_Uint64 = (\<lambda>v. as_u64 v \<noteq> None)"
| "has_type FT_Float32 = (\<lambda>v. as_f32 v \<noteq> None)"
| "has_type FT_Float64 = (\<lambda>v. as_f64 v \<noteq> None)"
| "has_type FT_String = (\<lambda>v. pred_option (\<lambda>s. is_str s \<and> length s + 1 < 2 ^ 32) (as_str v) \<and> as_str v \<noteq> None)"
| "has_type (FT_BoundedString n) =
     (\<lambda>v. pred_option (\<lambda>s. is_str s \<and> length s + 1 < 2 ^ 32) (as_str v) \<and> as_str v \<noteq> None)"
| "has_type (FT_Message s) = (\<lambda>v. case as_message v of Some m \<Rightarrow> message_typed s m | None \<Rightarrow> False)"
| "has_type (FT_Array t n) = (\<lambda>v. case as_array v of
     Some vs \<Rightarrow> length vs = n \<and> list_all (has_type t) vs | None \<Rightarrow> False)"
| "has_type (FT_Sequence t) = (\<lambda>v.
     if t = FT_Uint8 then (case as_bytes v of Some bs \<Rightarrow> length bs < 2 ^ 32 | None \<Rightarrow> False)
     else (case as_array v of
             Some vs \<Rightarrow> length vs \<le> 100000000 \<and> list_all (has_type t) vs | None \<Rightarrow> False))"
| "has_type (FT_BoundedSequence t n) = (\<lambda>v. t \<noteq> FT_Uint8 \<and>
     (case as_array v of
        Some vs \<Rightarrow> length vs \<le> 100000000 \<and> list_all (has_type t) vs | None \<Rightarrow> False))"
| "field_has_type (FieldSchema n t d) = has_type t"
| "message_typed (MessageSchema tn p n fs h) = (\<lambda>m.
     dm_schema m = MessageSchema tn p n fs h \<and> list_all2 id (map field_has_type fs) (dm_values m))"

section \<open>Static encodings under dynamic errors\<close>

definition lift_enc :: "cdr_error enc \<Rightarrow> DynamicError enc" where
  "lift_enc e = (\<lambda>p. case e p of Ok xs \<Rightarrow> Ok xs | Err x \<Rightarrow> Err (map_cdr_err x) | Panic \<Rightarrow> Panic)"

definition result_enc :: "(cdr_error enc, DynamicError) result \<Rightarrow> DynamicError enc" where
  "result_enc r = (case r of Ok e \<Rightarrow> lift_enc e | Err x \<Rightarrow> enc_fail x | Panic \<Rightarrow> (\<lambda>p. Panic))"

lemma lift_enc_simps [simp]:
  "lift_enc (enc_bytes xs) = enc_bytes xs"
  "lift_enc (enc_align k) = enc_align k"
  "lift_enc (enc_then a b) = enc_then (lift_enc a) (lift_enc b)"
  by (rule ext, simp add: lift_enc_def enc_bytes_def enc_align_def enc_then_def split: result.splits)+

lemma lift_enc_prims [simp]:
  "lift_enc (enc_u16 BO a) = enc_u16 BO a" "lift_enc (enc_u32 BO b) = enc_u32 BO b"
  "lift_enc (enc_u64 BO c) = enc_u64 BO c" "lift_enc (enc_string BO s) = enc_string BO s"
  "lift_enc (enc_byte_seq BO s) = enc_byte_seq BO s"
  by (simp_all add: enc_defs)

lemma lift_enc_Ok: "e p = Ok xs \<Longrightarrow> lift_enc e p = Ok xs"
  by (simp add: lift_enc_def)

lemma result_enc_simps [simp]:
  "result_enc (Ok e) = lift_enc e" "result_enc (Err x) = enc_fail x"
  by (simp_all add: result_enc_def)

lemma enc_then_fail:
  "enc_then (enc_fail x) e = enc_fail x"
  "enc_total a \<Longrightarrow> enc_then a (enc_fail x) = enc_fail x"
proof -
  show "enc_then (enc_fail x) e = enc_fail x"
    by (rule ext) (simp add: enc_then_def enc_fail_def)
  show "enc_then a (enc_fail x) = enc_fail x" if "enc_total a"
  proof (rule ext)
    fix p
    from that obtain xs where "a p = Ok xs" unfolding enc_total_def by blast
    then show "enc_then a (enc_fail x) p = enc_fail x p" by (simp add: enc_then_def enc_fail_def)
  qed
qed

lemma enc_total_lift: "enc_total a \<Longrightarrow> enc_total (lift_enc a)"
  unfolding enc_total_def by (blast intro: lift_enc_Ok)

text \<open>A loop that writes the elements one by one, stopping at the first that does not fit.\<close>

lemma refines_traverse:
  assumes "list_all2 (\<lambda>m r. refines c i m (result_enc (map_ok (cdr_encode BO) r))) ms rs"
    and "\<And>s. Ok s \<in> set rs \<Longrightarrow> enc_total (cdr_encode BO s)" and "Panic \<notin> set rs"
  shows "refines c i (run_all ms)
    (result_enc (map_ok (\<lambda>ss. enc_all (map (cdr_encode BO) ss)) (traverse rs)))"
  using assms
proof (induction rule: list_all2_induct)
  case Nil
  then show ?case by (simp add: refines_ret)
next
  case (Cons m ms r rs)
  then have rest: "refines c i (run_all ms)
    (result_enc (map_ok (\<lambda>ss. enc_all (map (cdr_encode BO) ss)) (traverse rs)))"
    by simp
  note step = refines_andthen [OF Cons.hyps(1) rest]
  show ?case
  proof (cases r)
    case (Ok s)
    have "traverse rs \<noteq> Panic" using Cons.prems(2) traverse_Panic by fastforce
    with step Ok Cons.prems(1) [of s] show ?thesis
      by (cases "traverse rs") (simp_all add: enc_then_fail enc_total_lift)
  next
    case (Err x)
    with step show ?thesis by (simp add: enc_then_fail)
  next
    case Panic
    with Cons.prems(2) show ?thesis by simp
  qed
qed

section \<open>The serializer writes the static encoding\<close>

lemma traverse_applied:
  assumes "\<And>v. v \<in> set vs \<Longrightarrow> f v \<noteq> Panic \<and> (\<forall>s. f v = Ok s \<longrightarrow> P s)"
  shows "traverse (map f vs) \<noteq> Panic \<and> (\<forall>ss. traverse (map f vs) = Ok ss \<longrightarrow> (\<forall>s\<in>set ss. P s))"
proof -
  have "traverse (map f vs) \<noteq> Panic"
    using assms traverse_Panic [of "map f vs"] by force
  moreover have "P s" if "map f vs = map Ok ss" "s \<in> set ss" for s ss
  proof -
    from that have "Ok s \<in> set (map f vs)" by simp
    with assms show "P s" by fastforce
  qed
  ultimately show ?thesis by (auto simp: traverse_Ok)
qed

text \<open>The loops over fields and elements without the intermediate list of functions.\<close>

lemma message_loops:
  "message_sval (DynamicMessage s vs) =
     map_ok SStruct (traverse (map (\<lambda>fv. to_sval (snd fv) (fs_field_type (fst fv)))
       (zip (ms_fields s) vs)))"
  "serialize_message Z LE (DynamicMessage s vs) =
     run_all (map (\<lambda>fv. serialize_value Z LE (snd fv) (fs_field_type (fst fv)))
       (zip (ms_fields s) vs))"
  by (simp_all add: zip_map2 split_beta comp_def)

declare message_sval.simps [simp del] serialize_message.simps [simp del]

lemma to_sval_total:
  "to_sval v t \<noteq> Panic \<and> (\<forall>s. to_sval v t = Ok s \<longrightarrow> enc_total (cdr_encode BO s))"
  "message_sval m \<noteq> Panic \<and> (\<forall>s. message_sval m = Ok s \<longrightarrow> enc_total (cdr_encode BO s))"
proof (induction v and m arbitrary: t and rule: value_induct)
  case (DV_Array vs)
  have "traverse (map (\<lambda>v. to_sval v u) vs) \<noteq> Panic \<and>
    (\<forall>ss. traverse (map (\<lambda>v. to_sval v u) vs) = Ok ss \<longrightarrow> (\<forall>s\<in>set ss. enc_total (cdr_encode BO s)))" for u
    by (rule traverse_applied) (rule DV_Array)
  then show ?case
    by (cases t) (auto simp: comp_def map_ok_eq_Ok map_ok_eq_Panic enc_len_def
        intro!: enc_total_then enc_total_all)
next
  case (DynamicMessage s vs)
  let ?rs = "map (\<lambda>fv. to_sval (snd fv) (fs_field_type (fst fv))) (zip (ms_fields s) vs)"
  have "traverse ?rs \<noteq> Panic \<and>
    (\<forall>ss. traverse ?rs = Ok ss \<longrightarrow> (\<forall>s\<in>set ss. enc_total (cdr_encode BO s)))"
    by (rule traverse_applied) (auto dest: set_zip_rightD simp: DynamicMessage)
  then show ?case
    by (auto simp: message_loops map_ok_eq_Ok map_ok_eq_Panic intro!: enc_total_all)
qed (auto split: FieldType.splits)

lemma to_sval_not_Panic [simp]: "to_sval v t \<noteq> Panic" "Panic \<noteq> to_sval v t"
  using to_sval_total(1) [of v t] by metis+

lemma to_sval_Ok_total: "Ok s = to_sval v t \<Longrightarrow> enc_total (cdr_encode BO s)"
  using to_sval_total(1) [of v t] by simp

lemma cdr_encode_compound:
  "map_ok (cdr_encode BO) (map_ok STuple r) = map_ok (\<lambda>ss. enc_all (map (cdr_encode BO) ss)) r"
  "map_ok (cdr_encode BO) (map_ok SStruct r) = map_ok (\<lambda>ss. enc_all (map (cdr_encode BO) ss)) r"
  "map_ok (cdr_encode BO) (map_ok (SSeq (Some n)) r) =
     map_ok (enc_then (enc_u32 BO (of_nat n))) (map_ok (\<lambda>ss. enc_all (map (cdr_encode BO) ss)) r)"
  by (cases r; simp add: enc_len_def)+

lemma result_enc_then:
  "enc_total a \<Longrightarrow> r \<noteq> Panic \<Longrightarrow>
     result_enc (map_ok (enc_then a) r) = enc_then (lift_enc a) (result_enc r)"
  by (cases r) (simp_all add: enc_then_fail enc_total_lift)

lemma refines_mismatch: "refines c i (type_mismatch v t) (enc_fail (SerializationError (CannotSerialize v t)))"
  by (simp add: type_mismatch_def refines_throw)

context zbuf_laws
begin

lemma refines_elements_dyn:
  assumes "\<And>v. v \<in> set vs \<Longrightarrow> refines vec_data vec_inv (serialize_value Z BO v u)
      (result_enc (map_ok (cdr_encode BO) (to_sval v u)))"
  shows "refines vec_data vec_inv (run_all (map (\<lambda>v. serialize_value Z BO v u) vs))
    (result_enc (map_ok (\<lambda>ss. enc_all (map (cdr_encode BO) ss)) (traverse (map (\<lambda>v. to_sval v u) vs))))"
  by (rule refines_traverse) (auto simp: list_all2_conv_all_nth assms dest: to_sval_Ok_total)

lemma refines_sequence_dyn:
  assumes "\<And>v. v \<in> set vs \<Longrightarrow> refines vec_data vec_inv (serialize_value Z BO v u)
      (result_enc (map_ok (cdr_encode BO) (to_sval v u)))"
  shows "refines vec_data vec_inv
    (andthen (write_sequence_length (vec_CdrBuffer Z) BO (length vs))
       (\<lambda>_. run_all (map (\<lambda>v. serialize_value Z BO v u) vs)))
    (result_enc (map_ok (cdr_encode BO)
       (map_ok (SSeq (Some (length vs))) (traverse (map (\<lambda>v. to_sval v u) vs)))))"
proof -
  have "traverse (map (\<lambda>v. to_sval v u) vs) \<noteq> Panic"
    using traverse_applied [of vs "\<lambda>v. to_sval v u" "\<lambda>_. True"] to_sval_total(1) by blast
  then show ?thesis
    using refines_andthen [OF cdr_writing.refines_writes(12) [OF vec_writing] refines_elements_dyn,
        of vs BO u BO "length vs"] assms
    by (simp add: cdr_encode_compound result_enc_then map_ok_eq_Panic)
qed

theorem serialize_value_refines:
  "refines vec_data vec_inv (serialize_value Z BO v t)
     (result_enc (map_ok (cdr_encode BO) (to_sval v t)))"
  "refines vec_data vec_inv (serialize_message Z BO m)
     (result_enc (map_ok (cdr_encode BO) (message_sval m)))"
proof (induction v and m arbitrary: t and rule: value_induct)
  case (DV_Array vs)
  then show ?case
    using refines_elements_dyn [of vs BO] refines_sequence_dyn [of vs BO]
    by (cases t) (simp_all add: comp_def refines_mismatch cdr_encode_compound(1,2))
next
  case (DynamicMessage s vs)
  have "refines vec_data vec_inv
    (run_all (map (\<lambda>fv. serialize_value Z BO (snd fv) (fs_field_type (fst fv))) (zip (ms_fields s) vs)))
    (result_enc (map_ok (\<lambda>ss. enc_all (map (cdr_encode BO) ss))
      (traverse (map (\<lambda>fv. to_sval (snd fv) (fs_field_type (fst fv))) (zip (ms_fields s) vs)))))"
    by (rule refines_traverse) (auto simp: list_all2_conv_all_nth DynamicMessage dest: to_sval_Ok_total)
  then show ?case
    by (simp add: message_loops cdr_encode_compound)
next
  case (DV_Bool x)
  show ?case
    by (cases t) (simp_all add: refines_mismatch cdr_writing.refines_writes(1) [OF vec_writing])
qed (auto split: FieldType.splits simp: refines_mismatch
    intro!: cdr_writing.refines_writes [OF vec_writing]
      cdr_writing.refines_write_string [OF vec_writing]
      cdr_writing.refines_write_bytes [OF vec_writing])

end

section \<open>The deserializer inverts the static encoding\<close>

lemma decodes_read_as:
  "decodes eof m e x \<Longrightarrow> decodes (map_cdr_err eof) (read_as m f) e (f x)"
  by (intro decodes_map decodes_map_err)

lemma decodes_traverse:
  assumes "length rs = length vs" "length ds = length vs"
    and "\<And>k. k < length vs \<Longrightarrow> \<exists>s. rs ! k = Ok s \<and> decodes eof (ds ! k) (cdr_encode BO s) (vs ! k)"
  shows "\<exists>ss. traverse rs = Ok ss \<and> decodes eof (collect ds) (enc_all (map (cdr_encode BO) ss)) vs"
proof -
  from assms(3) obtain f where
    f: "\<And>k. k < length vs \<Longrightarrow> rs ! k = Ok (f k) \<and> decodes eof (ds ! k) (cdr_encode BO (f k)) (vs ! k)"
    by metis
  let ?ss = "map f [0..<length vs]"
  have "rs = map Ok ?ss"
    using assms(1) f by (intro nth_equalityI) auto
  moreover have "decodes eof (collect ds) (enc_all (map (cdr_encode BO) ?ss)) vs"
    using assms(2) f by (intro decodes_collect) auto
  ultimately show ?thesis
    unfolding traverse_Ok by blast
qed

lemma decodes_list:
  assumes "list_all (has_type t) vs"
    and "\<And>v. has_type t v \<Longrightarrow> \<exists>s. to_sval v t = Ok s \<and> decodes eof d (cdr_encode BO s) v"
  shows "\<exists>ss. traverse (map (\<lambda>v. to_sval v t) vs) = Ok ss \<and>
    decodes eof (collect (replicate (length vs) d)) (enc_all (map (cdr_encode BO) ss)) vs"
  using assms by (intro decodes_traverse) (auto simp: list_all_length)

context cdr_reading
begin

lemma decodes_dyn_array:
  assumes "list_all (has_type t) vs"
    and "\<And>v. has_type t v \<Longrightarrow> \<exists>s. to_sval v t = Ok s \<and> decodes eof d (cdr_encode BO s) v"
  shows "\<exists>s. map_ok STuple (traverse (map (\<lambda>v. to_sval v t) vs)) = Ok s \<and>
    decodes eof (andthen (collect (replicate (length vs) d)) (\<lambda>vs. ret (DV_Array vs)))
      (cdr_encode BO s) (DV_Array vs)"
  using decodes_list [OF assms] by (force intro: decodes_map)

lemma decodes_dyn_sequence:
  assumes "list_all (has_type t) vs" "length vs \<le> 100000000"
    and "\<And>v. has_type t v \<Longrightarrow>
      \<exists>s. to_sval v t = Ok s \<and> decodes (map_cdr_err UnexpectedEof) d (cdr_encode BO s) v"
  shows "\<exists>s. map_ok (SSeq (Some (length vs))) (traverse (map (\<lambda>v. to_sval v t) vs)) = Ok s \<and>
    decodes (map_cdr_err UnexpectedEof)
      (andthen (map_err map_cdr_err (read_sequence_length BO)) (\<lambda>n.
        andthen (collect (replicate n d)) (\<lambda>vs. ret (DV_Array vs))))
      (cdr_encode BO s) (DV_Array vs)"
proof -
  from decodes_list [OF assms(1,3)] obtain ss where
    ss: "traverse (map (\<lambda>v. to_sval v t) vs) = Ok ss"
    "decodes (map_cdr_err UnexpectedEof) (collect (replicate (length vs) d))
      (enc_all (map (cdr_encode BO) ss)) vs"
    by blast
  have "decodes (map_cdr_err UnexpectedEof)
    (andthen (collect (replicate (length vs) d)) (\<lambda>vs. ret (DV_Array vs)))
    (enc_all (map (cdr_encode BO) ss)) (DV_Array vs)"
    by (rule decodes_map) (rule ss(2))
  from decodes_andthen [where f = "\<lambda>n. andthen (collect (replicate n d)) (\<lambda>vs. ret (DV_Array vs))",
      OF decodes_map_err [where g = map_cdr_err, OF decodes_read_sequence_length [OF assms(2)]] this]
  show ?thesis by (simp add: ss(1) enc_len_def)
qed

theorem has_type_decodes:
  "has_type t v \<Longrightarrow> \<exists>s. to_sval v t = Ok s \<and>
     decodes (map_cdr_err UnexpectedEof) (deserialize_value BO t) (cdr_encode BO s) v"
  "field_has_type f v \<Longrightarrow> \<exists>s. to_sval v (fs_field_type f) = Ok s \<and>
     decodes (map_cdr_err UnexpectedEof) (deserialize_field BO f) (cdr_encode BO s) v"
  "message_typed sc m \<Longrightarrow> \<exists>s. message_sval m = Ok s \<and>
     decodes (map_cdr_err UnexpectedEof) (deserialize_message BO sc) (cdr_encode BO s) m"
proof (induction t and f and sc arbitrary: v and v and m rule: schema_induct)
  case (FT_Message sc)
  then obtain m where m: "v = DV_Message m" "message_typed sc m"
    by (auto split: option.splits)
  with FT_Message.IH [OF m(2)] show ?case by (auto intro: decodes_map)
next
  case (FT_Array t n)
  then obtain vs where "v = DV_Array vs" "length vs = n" "list_all (has_type t) vs"
    by (auto simp: as_array_def split: DynamicValue.splits)
  with decodes_dyn_array [OF _ FT_Array.IH] show ?case by (auto simp: comp_def)
next
  case (FT_Sequence t)
  show ?case
  proof (cases "t = FT_Uint8")
    case True
    with FT_Sequence.prems obtain bs where "v = DV_Bytes bs" "length bs < 2 ^ 32"
      by (auto simp: as_bytes_def split: DynamicValue.splits)
    with True show ?thesis by (auto intro!: decodes_read_as decodes_read_byte_sequence)
  next
    case False
    with FT_Sequence.prems obtain vs where "v = DV_Array vs" "length vs \<le> 100000000"
      "list_all (has_type t) vs"
      by (auto simp: as_array_def split: DynamicValue.splits)
    with decodes_dyn_sequence [OF _ _ FT_Sequence.IH] False show ?thesis by (auto simp: comp_def)
  qed
next
  case (FT_BoundedSequence t n)
  then obtain vs where "v = DV_Array vs" "length vs \<le> 100000000" "t \<noteq> FT_Uint8"
    "list_all (has_type t) vs"
    by (auto simp: as_array_def split: DynamicValue.splits)
  with decodes_dyn_sequence [OF _ _ FT_BoundedSequence.IH] show ?case by (auto simp: comp_def)
next
  case FT_Bool
  then obtain b where "v = DV_Bool b" by (auto simp: as_bool_def split: DynamicValue.splits)
  with decodes_read_as [OF decodes_read_bool, of DV_Bool b] show ?case by simp
next
  case (MessageSchema tn p n fs h)
  obtain vs where m: "m = DynamicMessage (MessageSchema tn p n fs h) vs"
    "list_all2 id (map field_has_type fs) vs"
    using MessageSchema.prems by (cases m) auto
  have "\<exists>ss. traverse (map (\<lambda>fv. to_sval (snd fv) (fs_field_type (fst fv))) (zip fs vs)) = Ok ss \<and>
    decodes (map_cdr_err UnexpectedEof) (collect (map (deserialize_field BO) fs))
      (enc_all (map (cdr_encode BO) ss)) vs"
    using m(2) MessageSchema.IH by (intro decodes_traverse) (auto simp: list_all2_conv_all_nth)
  then show ?case
    by (auto simp: m(1) message_loops from_values_def intro: decodes_map)
qed (auto simp: as_bool_def as_i8_def as_i16_def as_i32_def as_i64_def as_u8_def as_u16_def as_u32_def
    as_u64_def as_f32_def as_f64_def as_str_def split: DynamicValue.splits
    intro!: decodes_read_as parses_intros)

end

section \<open>The entry points\<close>

context zbuf_laws
begin

lemma serialize_cdr_spec:
  "case message_sval m of
     Ok s \<Rightarrow> \<exists>buf xs. cdr_encode BO s 0 = Ok xs \<and> serialize_cdr Z BO m = Ok buf \<and>
       vec_data buf = CDR_HEADER_LE @ xs
   | Err e \<Rightarrow> serialize_cdr Z BO m = Err e
   | Panic \<Rightarrow> False"
proof -
  let ?w = "writer_new (vec_CdrBuffer Z) (vec_extend_from_slice (vec_with_capacity 256) CDR_HEADER_LE)"
  have w: "vec_inv (wr_buffer ?w)" "vec_data (wr_buffer ?w) = CDR_HEADER_LE"
    "wr_start_offset ?w = length CDR_HEADER_LE"
    by (simp_all add: writer_new_def vec_CdrBuffer_def vec_len_def vec_with_capacity_def vec_inv_def)
      (simp add: vec_extend_from_slice_def vec_reserve_def CDR_HEADER_LE_def)
  have run: "case result_enc (map_ok (cdr_encode BO) (message_sval m)) 0 of
      Ok xs \<Rightarrow> \<exists>w'. serialize_message Z BO m ?w = (Ok (), w') \<and> vec_inv (wr_buffer w') \<and>
        vec_data (wr_buffer w') = CDR_HEADER_LE @ xs \<and> wr_start_offset w' = wr_start_offset ?w
    | Err x \<Rightarrow> fst (serialize_message Z BO m ?w) = Err x
    | Panic \<Rightarrow> fst (serialize_message Z BO m ?w) = Panic"
    using serialize_value_refines(2) [of BO m, unfolded refines_def, rule_format, of ?w] w
    by (auto split: result.splits)
  show ?thesis
  proof (cases "message_sval m")
    case (Ok s)
    with to_sval_total(2) [of m BO] obtain xs where "cdr_encode BO s 0 = Ok xs"
      unfolding enc_total_def by blast
    with run Ok show ?thesis by (auto simp: serialize_cdr_def lift_enc_def Let_def)
  next
    case (Err x)
    with run show ?thesis by (simp add: serialize_cdr_def enc_fail_def Let_def split_beta)
  next
    case Panic
    with to_sval_total(2) [of m BO] show ?thesis by simp
  qed
qed

end

lemma deserialize_cdr_payload:
  "deserialize_cdr BO (CDR_HEADER_LE @ xs) schema =
     fst (deserialize_message BO schema \<lparr>rd_input = xs, rd_position = 0\<rparr>)"
  by (simp add: deserialize_cdr_def CDR_HEADER_LE_def reader_new_def)

lemma message_typed_encoding:
  assumes "zbuf_laws Z" "byte_order_laws LE" "message_typed schema m"
  obtains s xs buf where "message_sval m = Ok s" "cdr_encode LE s 0 = Ok xs"
    "serialize_cdr Z LE m = Ok buf" "vec_data buf = CDR_HEADER_LE @ xs"
    "decodes (map_cdr_err UnexpectedEof) (deserialize_message LE schema) (cdr_encode LE s) m"
proof -
  from assms(2) have "cdr_reading LE" by (simp add: cdr_reading_def)
  from cdr_reading.has_type_decodes(3) [OF this assms(3)] obtain s where
    "message_sval m = Ok s"
    "decodes (map_cdr_err UnexpectedEof) (deserialize_message LE schema) (cdr_encode LE s) m"
    by blast
  with zbuf_laws.serialize_cdr_spec [OF assms(1), of LE m] show thesis
    by (auto intro: that)
qed

section \<open>The deserializer is safe and its messages are well formed\<close>

lemma safe_deserialize_value:
  "safe (deserialize_value BO t)" "safe (deserialize_field BO f)" "safe (deserialize_message BO sc)"
  by (induction t and f and sc rule: schema_induct) (auto intro!: safe_intros)

lemma collect_Ok:
  "collect ds r = (Ok vs, r') \<Longrightarrow> length vs = length ds \<and>
     (\<forall>v\<in>set vs. \<exists>d\<in>set ds. \<exists>q q'. d q = (Ok v, q'))"
proof (induction ds arbitrary: vs r)
  case (Cons d ds)
  then obtain x q xs where "d r = (Ok x, q)" "collect ds q = (Ok xs, r')" "vs = x # xs"
    by (auto simp: andthen_eq_Ok ret_run)
  with Cons.IH [of q xs] show ?case by auto
qed (simp add: ret_run)

lemma collect_replicate_wf:
  assumes "collect (replicate n d) r = (Ok vs, r')" "\<And>r v r'. d r = (Ok v, r') \<Longrightarrow> value_wf v"
  shows "\<forall>v\<in>set vs. value_wf v"
  using collect_Ok [OF assms(1)] assms(2) by fastforce

lemma deserialize_wf:
  "deserialize_value BO t r = (Ok v, r') \<Longrightarrow> value_wf v"
  "deserialize_field BO f r = (Ok v, r') \<Longrightarrow> value_wf v"
  "deserialize_message BO sc r = (Ok m, r') \<Longrightarrow> message_wf m \<and> dm_schema m = sc"
proof (induction t and f and sc arbitrary: v r r' and v r r' and m r r' rule: schema_induct)
  case (MessageSchema tn p n fs h)
  then obtain vs q where vs: "collect (map (deserialize_field BO) fs) r = (Ok vs, q)"
    "m = from_values (MessageSchema tn p n fs h) vs"
    by (auto simp: andthen_eq_Ok ret_run)
  from collect_Ok [OF vs(1)] MessageSchema.IH have "\<forall>v\<in>set vs. value_wf v" "length vs = length fs"
    by fastforce+
  then show ?case by (simp add: vs(2) from_values_def message_wf_iff del: message_wf.simps)
next
  case (FT_Array t n)
  then show ?case
    using collect_replicate_wf [where d = "deserialize_value BO t", OF _ FT_Array.IH] by (auto simp: andthen_eq_Ok ret_run list_all_iff)
next
  case (FT_Sequence t)
  then show ?case
    using collect_replicate_wf [where d = "deserialize_value BO t", OF _ FT_Sequence.IH]
    by (auto simp: andthen_eq_Ok ret_run list_all_iff split: if_splits)
next
  case (FT_BoundedSequence t n)
  then show ?case
    using collect_replicate_wf [where d = "deserialize_value BO t", OF _ FT_BoundedSequence.IH]
    by (auto simp: andthen_eq_Ok ret_run list_all_iff split: if_splits)
qed (auto simp: andthen_eq_Ok ret_run)

lemma map_err_eq_Err: "map_err g m r = (Err e, r') \<longleftrightarrow> (\<exists>x. e = g x \<and> m r = (Err x, r'))"
  by (auto simp: map_err_def split: prod.splits result.splits)

lemma andthen_eq_Err:
  "andthen m f r = (Err e, r') \<longleftrightarrow>
     m r = (Err e, r') \<or> (\<exists>x q. m r = (Ok x, q) \<and> f x q = (Err e, r'))"
  by (auto simp: andthen_def split: prod.splits result.splits)

lemma collect_Err: "collect ds r = (Err e, r') \<Longrightarrow> \<exists>d\<in>set ds. \<exists>q q'. d q = (Err e, q')"
  by (induction ds arbitrary: r) (auto simp: andthen_eq_Err ret_run)

lemma deserialize_errors:
  "deserialize_value BO t r = (Err e, r') \<Longrightarrow> \<exists>msg. e = DeserializationError msg"
  "deserialize_field BO f r = (Err e, r') \<Longrightarrow> \<exists>msg. e = DeserializationError msg"
  "deserialize_message BO sc r = (Err e, r') \<Longrightarrow> \<exists>msg. e = DeserializationError msg"
  by (induction t and f and sc arbitrary: r r' and r r' and r r' rule: schema_induct)
    (auto simp: andthen_eq_Err ret_run map_err_eq_Err map_cdr_err_def split: if_splits
      dest!: collect_Err)

section \<open>Properties\<close>

text \<open>
  C2.  Serializing a message that fits its schema succeeds, and deserializing the bytes with that
  schema gives the message back, whatever follows the bytes.
\<close>

theorem dynamic_roundtrip:
  assumes "zbuf_laws Z" and "byte_order_laws LE" and "message_typed schema m"
  shows "\<exists>buf. serialize_cdr Z LE m = Ok buf \<and>
    deserialize_cdr LE (vec_data buf @ rest) schema = Ok m"
proof -
  from assms obtain s xs buf where enc: "cdr_encode LE s 0 = Ok xs" "serialize_cdr Z LE m = Ok buf"
    "vec_data buf = CDR_HEADER_LE @ xs"
    and dec: "decodes (map_cdr_err UnexpectedEof) (deserialize_message LE schema) (cdr_encode LE s) m"
    by (rule message_typed_encoding)
  with decodes_Ok [OF dec, of "[]" xs rest] show ?thesis
    by (simp add: deserialize_cdr_payload)
qed

text \<open>A message with a nested message, a sequence and a byte sequence.\<close>

definition sample_schema :: MessageSchema where
  "sample_schema = MessageSchema ''demo/msg/Sample'' ''demo'' ''Sample''
     [FieldSchema ''id'' FT_Uint8 None, FieldSchema ''pos'' (FT_Message vector3_schema) None,
      FieldSchema ''codes'' (FT_Sequence FT_Uint16) None,
      FieldSchema ''raw'' (FT_Sequence FT_Uint8) None] None"

definition sample_message :: DynamicMessage where
  "sample_message = DynamicMessage sample_schema
     [DV_Uint8 3, DV_Message (message_new vector3_schema), DV_Array [DV_Uint16 1, DV_Uint16 2],
      DV_Bytes [7, 8, 9]]"

lemma sample_typed: "message_typed sample_schema sample_message"
  by (simp add: sample_message_def sample_schema_def vector3_schema_def as_u8_def as_u16_def
      as_array_def as_bytes_def as_f64_def)

theorem dynamic_roundtrip_witness:
  "\<exists>buf. serialize_cdr list_zbuf LittleEndian sample_message = Ok buf \<and>
    deserialize_cdr LittleEndian (vec_data buf @ [1]) sample_schema = Ok sample_message"
  by (rule dynamic_roundtrip [OF zl.zbuf_laws_axioms le.byte_order_laws_axioms sample_typed])

text \<open>
  Every proper prefix of a serialized message is rejected: one that ends inside the header as
  too short for it, every other one with the reader's end-of-input error.
\<close>

theorem dynamic_truncated:
  assumes "zbuf_laws Z" and "byte_order_laws LE" and "message_typed schema m"
    and "serialize_cdr Z LE m = Ok buf" and "n < length (vec_data buf)"
  shows "deserialize_cdr LE (take n (vec_data buf)) schema =
    Err (DeserializationError
      (if n < 4 then Text ''CDR data too short for header'' else CdrError UnexpectedEof))"
proof -
  from assms(1-3) obtain s xs buf' where enc: "cdr_encode LE s 0 = Ok xs"
    "serialize_cdr Z LE m = Ok buf'" "vec_data buf' = CDR_HEADER_LE @ xs"
    and dec: "decodes (map_cdr_err UnexpectedEof) (deserialize_message LE schema) (cdr_encode LE s) m"
    by (rule message_typed_encoding)
  have buf: "vec_data buf = CDR_HEADER_LE @ xs" using enc assms(4) by simp
  show ?thesis
  proof (cases "n < 4")
    case True
    with assms(5) show ?thesis by (simp add: deserialize_cdr_def)
  next
    case False
    then have "take n (vec_data buf) = CDR_HEADER_LE @ take (n - 4) xs"
      by (simp add: buf CDR_HEADER_LE_def take_Cons' numeral_eq_Suc)
    moreover have "strict_prefix (take (n - 4) xs) xs"
      using False assms(5) by (auto simp: buf CDR_HEADER_LE_def strict_prefix_def take_is_prefix)
    ultimately show ?thesis
      using decodes_short [OF dec, of "[]" xs "take (n - 4) xs"] enc(1) False
      by (simp add: deserialize_cdr_payload map_cdr_err_def)
  qed
qed

theorem dynamic_truncated_witness:
  "\<exists>buf. serialize_cdr list_zbuf LittleEndian sample_message = Ok buf \<and>
    deserialize_cdr LittleEndian (take 3 (vec_data buf)) sample_schema =
      Err (DeserializationError (Text ''CDR data too short for header''))"
proof -
  obtain s xs buf where buf: "serialize_cdr list_zbuf LittleEndian sample_message = Ok buf"
    "vec_data buf = CDR_HEADER_LE @ xs"
    using message_typed_encoding [OF zl.zbuf_laws_axioms le.byte_order_laws_axioms sample_typed]
    by metis
  with dynamic_truncated [OF zl.zbuf_laws_axioms le.byte_order_laws_axioms sample_typed buf(1), of 3]
  show ?thesis by (simp add: CDR_HEADER_LE_def)
qed

text \<open>
  Deserializing arbitrary bytes with any schema never panics, and a message that it returns
  has that schema and one value per field at every depth, so that no later field access panics.
\<close>

theorem deserialize_cdr_safe:
  "case deserialize_cdr LE data schema of
     Ok m \<Rightarrow> message_wf m \<and> dm_schema m = schema
   | Err e \<Rightarrow> (\<exists>msg. e = DeserializationError msg)
   | Panic \<Rightarrow> False"
  using safe_deserialize_value(3) [of LE schema, unfolded safe_def, rule_format,
      of "reader_new (drop 4 data)"]
    deserialize_wf(3) [of LE schema "reader_new (drop 4 data)"]
    deserialize_errors(3) [of LE schema "reader_new (drop 4 data)"]
  by (cases "deserialize_message LE schema (reader_new (drop 4 data))")
    (auto simp: deserialize_cdr_def Let_def reader_new_def rd_ok_def split: result.splits)

text \<open>
  Bytes in a bounded sequence are not stable under the codec: they can be serialized as an
  array of numbers only, decoding returns them in the packed representation, and the serializer
  rejects exactly that representation for a bounded sequence.
\<close>

theorem bounded_bytes_not_reserializable:
  assumes "zbuf_laws Z" and "byte_order_laws LE" and "length bs < 2 ^ 32"
    and "schema = MessageSchema tn p n [FieldSchema f (FT_BoundedSequence FT_Uint8 bound) d] h"
  shows "\<exists>buf. serialize_cdr Z LE (DynamicMessage schema [DV_Array (map DV_Uint8 bs)]) = Ok buf \<and>
    deserialize_cdr LE (vec_data buf) schema = Ok (DynamicMessage schema [DV_Bytes bs]) \<and>
    serialize_cdr Z LE (DynamicMessage schema [DV_Bytes bs]) =
      Err (SerializationError (CannotSerialize (DV_Bytes bs) (FT_BoundedSequence FT_Uint8 bound)))"
proof -
  from assms(2) have rd: "cdr_reading LE" by (simp add: cdr_reading_def)
  let ?s = "SStruct [SSeq (Some (length bs)) (map SU8 bs)]"
  have "traverse (map (\<lambda>x. Ok (SU8 x)) bs) = (Ok (map SU8 bs) :: (sval list, DynamicError) result)"
    by (simp add: traverse_Ok)
  then have s: "message_sval (DynamicMessage schema [DV_Array (map DV_Uint8 bs)]) = Ok ?s"
    by (simp add: assms(4) message_loops comp_def)
  have e: "cdr_encode LE ?s = enc_byte_seq LE bs"
    by (simp add: enc_len_def enc_byte_seq_def comp_def enc_all_bytes)
  from zbuf_laws.serialize_cdr_spec [OF assms(1), of LE
      "DynamicMessage schema [DV_Array (map DV_Uint8 bs)]"] obtain buf xs where
    buf: "enc_byte_seq LE bs 0 = (Ok xs :: (bytes, cdr_error) result)"
    "serialize_cdr Z LE (DynamicMessage schema [DV_Array (map DV_Uint8 bs)]) = Ok buf"
    "vec_data buf = CDR_HEADER_LE @ xs"
    unfolding s by (auto simp only: result.case e)
  have "decodes (map_cdr_err UnexpectedEof) (deserialize_message LE schema)
      (enc_byte_seq LE bs :: cdr_error enc) (DynamicMessage schema [DV_Bytes bs])"
    using decodes_map [OF decodes_read_as [OF
          cdr_reading.decodes_read_byte_sequence [OF rd assms(3)], of DV_Bytes],
        of "\<lambda>v. DynamicMessage schema [v]"]
    by (simp add: assms(4) from_values_def andthen_assoc)
  from decodes_Ok [OF this, of "[]" xs "[]"] buf(1) have
    "deserialize_cdr LE (vec_data buf) schema = Ok (DynamicMessage schema [DV_Bytes bs])"
    by (simp add: buf(3) deserialize_cdr_payload)
  moreover have "serialize_cdr Z LE (DynamicMessage schema [DV_Bytes bs]) =
      Err (SerializationError (CannotSerialize (DV_Bytes bs) (FT_BoundedSequence FT_Uint8 bound)))"
    using zbuf_laws.serialize_cdr_spec [OF assms(1), of LE "DynamicMessage schema [DV_Bytes bs]"]
    by (simp add: assms(4) message_loops)
  ultimately show ?thesis using buf(2) by blast
qed

theorem bounded_bytes_not_reserializable_witness:
  "\<exists>buf. serialize_cdr list_zbuf LittleEndian (DynamicMessage
      (MessageSchema ''p/msg/N'' ''p'' ''N'' [FieldSchema ''data'' (FT_BoundedSequence FT_Uint8 9) None] None)
      [DV_Array (map DV_Uint8 [1, 2])]) = Ok buf \<and>
    deserialize_cdr LittleEndian (vec_data buf)
      (MessageSchema ''p/msg/N'' ''p'' ''N'' [FieldSchema ''data'' (FT_BoundedSequence FT_Uint8 9) None] None) =
      Ok (DynamicMessage (MessageSchema ''p/msg/N'' ''p'' ''N''
        [FieldSchema ''data'' (FT_BoundedSequence FT_Uint8 9) None] None) [DV_Bytes [1, 2]]) \<and>
    serialize_cdr list_zbuf LittleEndian (DynamicMessage (MessageSchema ''p/msg/N'' ''p'' ''N''
        [FieldSchema ''data'' (FT_BoundedSequence FT_Uint8 9) None] None) [DV_Bytes [1, 2]]) =
      Err (SerializationError (CannotSerialize (DV_Bytes [1, 2]) (FT_BoundedSequence FT_Uint8 9)))"
  by (rule bounded_bytes_not_reserializable [OF zl.zbuf_laws_axioms le.byte_order_laws_axioms _ refl])
    simp

end
