(* ===== verification/Dyn_Size.thy ===== *)
theory Dyn_Size
  imports Dyn_Cdr
begin

text \<open>
  The size that a schema predicts for its messages (\<^verbatim>\<open>MessageSchema::fixed_cdr_size\<close> in
  \<^verbatim>\<open>ros-z/src/dynamic/schema.rs\<close>) against the size that the serializer produces.  The two agree
  for schemas of scalars and nonempty arrays of scalars; a nested message is laid out by the
  serializer without the padding to its own alignment that the prediction includes.
\<close>

section \<open>Scalars\<close>

definition scalar :: "FieldType \<Rightarrow> bool" where
  "scalar t \<longleftrightarrow> t = FT_Bool \<or> is_numeric t"

definition flat_type :: "FieldType \<Rightarrow> bool" where
  "flat_type t \<longleftrightarrow> scalar t \<or> (case t of FT_Array inner n \<Rightarrow> scalar inner \<and> 0 < n | _ \<Rightarrow> False)"

definition round_up :: "nat \<Rightarrow> nat \<Rightarrow> nat" where
  "round_up p k = (p + k - 1) div k * k"

lemma round_up_aligned: "0 < k \<Longrightarrow> p mod k = 0 \<Longrightarrow> round_up p k = p"
proof -
  assume k: "0 < k" and "p mod k = 0"
  then have p: "p = p div k * k" by (metis add.right_neutral div_mult_mod_eq)
  have "(p div k * k + (k - 1)) div k = p div k"
    using k by (subst div_mult_self3) auto
  with k p show ?thesis by (simp add: round_up_def Nat.add_diff_assoc)
qed

lemma round_up_padding: "0 < k \<Longrightarrow> p mod k \<noteq> 0 \<Longrightarrow> round_up p k = p + (k - p mod k)"
proof -
  assume k: "0 < k" and r: "p mod k \<noteq> 0"
  define q where "q = p div k"
  have p: "p = q * k + p mod k" by (simp add: q_def)
  have lt: "p mod k < k" using k by simp
  have "p + k - 1 = Suc q * k + (p mod k - 1)"
    using r k by (subst p) (simp add: algebra_simps)
  also have "\<dots> div k = Suc q + (p mod k - 1) div k"
    by (rule div_mult_self3) (use k in simp)
  also have "(p mod k - 1) div k = 0"
    using lt by (intro div_less less_imp_diff_less)
  finally show ?thesis
    using p lt by (simp add: round_up_def algebra_simps)
qed

lemma enc_padded_length:
  assumes "enc_then (enc_align k) (enc_bytes bs) p = Ok xs" "0 < k" "length bs = k"
  shows "p + length xs = round_up p k + k"
  using assms mod_less_divisor [of k p]
  by (auto simp: enc_then_def enc_align_def enc_bytes_def round_up_aligned round_up_padding
      simp del: mod_less_divisor split: if_splits)

lemma round_up_1 [simp]: "round_up p (Suc 0) = p"
  by (simp add: round_up_def)

context byte_order_laws
begin

lemma enc_word_length:
  "enc_u16 BO a p = Ok xs \<Longrightarrow> p + length xs = round_up p 2 + 2"
  "enc_u32 BO b p = Ok xs \<Longrightarrow> p + length xs = round_up p 4 + 4"
  "enc_u64 BO c p = Ok xs \<Longrightarrow> p + length xs = round_up p 8 + 8"
  unfolding enc_defs by (auto dest!: enc_padded_length)

lemma scalar_length:
  assumes "scalar t" "has_type t v" "to_sval v t = Ok s" "cdr_encode BO s p = Ok xs"
  shows "p + length xs = round_up p (ft_alignment t) + ft_alignment t"
  using assms
  by (cases t; cases v)
    (auto simp: scalar_def is_numeric_def as_bool_def as_i8_def as_i16_def as_i32_def as_i64_def
      as_u8_def as_u16_def as_u32_def as_u64_def as_f32_def as_f64_def
      enc_bytes_def dest!: enc_word_length)

end

lemma scalar_layout:
  "scalar t \<Longrightarrow> fixed_size t = Some (ft_alignment t) \<and>
     (\<exists>k\<le>3. ft_alignment t = 2 ^ k)"
  by (cases t) (auto simp: scalar_def is_numeric_def intro: exI [of _ 0] exI [of _ 1] exI [of _ 2]
      exI [of _ 3])

lemma align_up_scalar:
  assumes "scalar t" "p < 2 ^ 63"
  shows "align_up p (ft_alignment t) = round_up p (ft_alignment t)"
proof -
  from scalar_layout [OF assms(1)] obtain k where k: "k \<le> 3" "ft_alignment t = 2 ^ k" by blast
  have "(2::nat) ^ k \<le> 2 ^ 3" using k(1) by (rule power_increasing) simp
  with assms(2) have "p + ft_alignment t < 2 ^ 64" by (simp add: k(2))
  with align_up_eq [OF k(2)] k(1) show ?thesis by (simp add: round_up_def)
qed

section \<open>Arrays of scalars and messages of flat fields\<close>

lemma round_up_dvd: "0 < k \<Longrightarrow> round_up (round_up p k + k) k = round_up p k + k"
  by (rule round_up_aligned) (simp_all add: round_up_def)

context byte_order_laws
begin

lemma scalar_array_length:
  assumes "scalar t" "list_all (has_type t) vs" "map (\<lambda>v. to_sval v t) vs = map Ok ss" "vs \<noteq> []"
    and "enc_all (map (cdr_encode BO) ss) p = Ok xs"
  shows "p + length xs = round_up p (ft_alignment t) + ft_alignment t * length vs"
  using assms
proof (induction vs arbitrary: ss p xs)
  case (Cons v vs)
  then obtain s ss' where ss: "ss = s # ss'" "to_sval v t = Ok s" "map (\<lambda>v. to_sval v t) vs = map Ok ss'"
    by (cases ss) auto
  with Cons.prems(5) obtain ys zs where xs: "cdr_encode BO s p = Ok ys"
    "enc_all (map (cdr_encode BO) ss') (p + length ys) = Ok zs" "xs = ys @ zs"
    by (auto simp: enc_then_Ok)
  have first: "p + length ys = round_up p (ft_alignment t) + ft_alignment t"
    using scalar_length [OF Cons.prems(1) _ ss(2) xs(1)] Cons.prems(2) by simp
  have pos: "0 < ft_alignment t" using scalar_layout [OF Cons.prems(1)] by auto
  show ?case
  proof (cases "vs = []")
    case True
    with ss xs first show ?thesis by (simp add: enc_bytes_def)
  next
    case False
    have "p + length ys + length zs =
      round_up (p + length ys) (ft_alignment t) + ft_alignment t * length vs"
      using Cons.IH [OF Cons.prems(1) _ ss(3) False xs(2)] Cons.prems(2) by simp
    also have "round_up (p + length ys) (ft_alignment t) = p + length ys"
      by (simp only: first round_up_dvd [OF pos])
    finally show ?thesis
      using first xs(3) by simp
  qed
qed simp

lemma flat_length:
  assumes "flat_type t" "has_type t v" "to_sval v t = Ok s" "cdr_encode BO s p = Ok xs" "p < 2 ^ 63"
  shows "\<exists>n. fixed_size t = Some n \<and> p + length xs = align_up p (ft_alignment t) + n"
proof (cases "scalar t")
  case True
  with scalar_layout scalar_length assms align_up_scalar show ?thesis by metis
next
  case False
  with assms(1) obtain u n where t: "t = FT_Array u n" "scalar u" "0 < n"
    by (auto simp: flat_type_def split: FieldType.splits)
  with assms(2) obtain vs where vs: "v = DV_Array vs" "length vs = n" "list_all (has_type u) vs"
    by (auto simp: as_array_def split: DynamicValue.splits)
  with assms(3) t obtain ss where ss: "map (\<lambda>v. to_sval v u) vs = map Ok ss" "s = STuple ss"
    by (auto simp: comp_def map_ok_eq_Ok traverse_Ok)
  have "p + length xs = round_up p (ft_alignment u) + ft_alignment u * n"
    using scalar_array_length [OF t(2) vs(3) ss(1)] vs(2) t(3) assms(4) ss(2) by auto
  then show ?thesis
    using scalar_layout [OF t(2)] align_up_scalar [OF t(2) assms(5)] by (auto simp: t(1))
qed

lemma flat_fields_length:
  assumes "list_all (\<lambda>f. flat_type (fs_field_type f)) fs"
    and "list_all2 id (map field_has_type fs) vs"
    and "map (\<lambda>fv. to_sval (snd fv) (fs_field_type (fst fv))) (zip fs vs) = map Ok ss"
    and "enc_all (map (cdr_encode BO) ss) p = Ok xs" "p + length xs < 2 ^ 63"
  shows "add_field_sizes p (zip (map fs_fixed_size fs) (map fs_alignment fs)) = Some (p + length xs)"
  using assms
proof (induction fs arbitrary: vs ss p xs)
  case Nil
  then show ?case by (simp add: enc_bytes_def)
next
  case (Cons f fs)
  obtain n t d where f: "f = FieldSchema n t d" by (cases f)
  from Cons.prems(2) f obtain v vs' where vs: "vs = v # vs'" "has_type t v"
    "list_all2 id (map field_has_type fs) vs'"
    by (cases vs) (auto simp: id_def)
  with Cons.prems(3) f obtain s ss' where ss: "ss = s # ss'" "to_sval v t = Ok s"
    "map (\<lambda>fv. to_sval (snd fv) (fs_field_type (fst fv))) (zip fs vs') = map Ok ss'"
    by (cases ss) auto
  with Cons.prems(4) obtain ys zs where xs: "cdr_encode BO s p = Ok ys"
    "enc_all (map (cdr_encode BO) ss') (p + length ys) = Ok zs" "xs = ys @ zs"
    by (auto simp: enc_then_Ok)
  from Cons.prems(1) f have "flat_type t" by simp
  with flat_length [OF _ vs(2) ss(2) xs(1)] Cons.prems(5) obtain k where
    k: "fixed_size t = Some k" "p + length ys = align_up p (ft_alignment t) + k"
    by auto
  from Cons.IH [OF _ vs(3) ss(3) xs(2)] Cons.prems(1,5) xs(3) show ?case
    by (simp add: f k(1)) (simp add: k(2) [symmetric])
qed

end

section \<open>Properties\<close>

text \<open>
  For a schema whose fields are scalars or nonempty arrays of scalars, the predicted fixed
  size is the number of payload bytes that the serializer writes for every message of the schema
  (whose size is below the 63-bit limit of an allocation).
\<close>

theorem fixed_cdr_size_exact:
  assumes "zbuf_laws Z" and "byte_order_laws LE" and "message_typed schema m"
    and "\<forall>f\<in>set (ms_fields schema). flat_type (fs_field_type f)"
    and "serialize_cdr Z LE m = Ok buf" and "length (vec_data buf) < 2 ^ 63"
  shows "fixed_cdr_size schema = Some (length (vec_data buf) - 4)"
proof -
  from assms(1-3) obtain s xs buf' where enc: "message_sval m = Ok s" "cdr_encode LE s 0 = Ok xs"
    "serialize_cdr Z LE m = Ok buf'" "vec_data buf' = CDR_HEADER_LE @ xs"
    by (rule message_typed_encoding)
  obtain tn p n fs h where sc: "schema = MessageSchema tn p n fs h" by (cases schema)
  obtain vs where m: "m = DynamicMessage schema vs" "list_all2 id (map field_has_type fs) vs"
    using assms(3) by (cases m) (auto simp: sc)
  from enc(1) obtain ss where ss: "s = SStruct ss"
    "map (\<lambda>fv. to_sval (snd fv) (fs_field_type (fst fv))) (zip fs vs) = map Ok ss"
    by (auto simp: m(1) message_loops sc map_ok_eq_Ok traverse_Ok)
  have "length (vec_data buf) - 4 = length xs" using enc(3,4) assms(5) by (simp add: CDR_HEADER_LE_def)
  with byte_order_laws.flat_fields_length [OF assms(2) _ m(2) ss(2), of 0 xs] assms(4,6) enc(2) ss(1)
  show ?thesis by (simp add: sc list_all_iff)
qed

lemma vector3_payload:
  "message_sval (message_new vector3_schema) = Ok (SStruct [SF64 0, SF64 0, SF64 0])"
  "cdr_encode LittleEndian (SStruct [SF64 0, SF64 0, SF64 0]) 0 = Ok (replicate 24 0)"
  by code_simp+

theorem fixed_cdr_size_exact_witness:
  "\<exists>buf. serialize_cdr list_zbuf LittleEndian (message_new vector3_schema) = Ok buf \<and>
    fixed_cdr_size vector3_schema = Some (length (vec_data buf) - 4) \<and> length (vec_data buf) = 28"
proof -
  have typed: "message_typed vector3_schema (message_new vector3_schema)"
    by (simp add: vector3_schema_def as_f64_def)
  obtain buf where buf: "serialize_cdr list_zbuf LittleEndian (message_new vector3_schema) = Ok buf"
    "length (vec_data buf) = 28"
    using zl.serialize_cdr_spec [of LittleEndian "message_new vector3_schema"] vector3_payload
    by (auto simp: CDR_HEADER_LE_def)
  have "fixed_cdr_size vector3_schema = Some (length (vec_data buf) - 4)"
    by (rule fixed_cdr_size_exact [OF zl.zbuf_laws_axioms le.byte_order_laws_axioms typed _ buf(1)])
      (simp_all add: buf(2) vector3_schema_def flat_type_def scalar_def is_numeric_def)
  with buf show ?thesis by blast
qed

definition inner_schema :: MessageSchema where
  "inner_schema = MessageSchema ''demo/msg/Inner'' ''demo'' ''Inner''
     [FieldSchema ''a'' FT_Uint8 None, FieldSchema ''b'' FT_Uint64 None] None"

definition outer_schema :: MessageSchema where
  "outer_schema = MessageSchema ''demo/msg/Outer'' ''demo'' ''Outer''
     [FieldSchema ''c'' FT_Uint8 None, FieldSchema ''d'' (FT_Message inner_schema) None] None"

text \<open>
  With a nested message the prediction can be wrong: for a byte followed by a nested message
  of a byte and a 64-bit number it is 24, while the serializer writes 16 payload bytes.
\<close>

theorem fixed_cdr_size_nested_wrong:
  "fixed_cdr_size outer_schema = Some 24 \<and>
   (case serialize_cdr list_zbuf LittleEndian (message_new outer_schema) of
      Ok buf \<Rightarrow> length (vec_data buf) = 4 + 16 | _ \<Rightarrow> False)"
proof
  show "fixed_cdr_size outer_schema = Some 24" by code_simp
  have "message_sval (message_new outer_schema) = Ok (SStruct [SU8 0, SStruct [SU8 0, SU64 0]])"
    by code_simp
  moreover have "cdr_encode LittleEndian (SStruct [SU8 0, SStruct [SU8 0, SU64 0]]) 0 =
    Ok (replicate 16 0)"
    by code_simp
  ultimately show "case serialize_cdr list_zbuf LittleEndian (message_new outer_schema) of
      Ok buf \<Rightarrow> length (vec_data buf) = 4 + 16 | _ \<Rightarrow> False"
    using zl.serialize_cdr_spec [of LittleEndian "message_new outer_schema"]
    by (auto simp: CDR_HEADER_LE_def)
qed

end
