(* ===== verification/RosZ_Strings.thy ===== *)
theory RosZ_Strings
  imports RosZ_Prelude "HOL-Library.Sublist"
begin

text \<open>
  The string functions of the Rust standard library that the protocol, naming and graph components
  use: prefixes and suffixes, replacement, hexadecimal digits.  A string is the list of its UTF-8
  bytes as characters.  Nothing here models a file of the repository.
\<close>

section \<open>Prefixes and suffixes\<close>

definition strip_prefix :: "string \<Rightarrow> string \<Rightarrow> string option" where
  "strip_prefix p s = (if take (length p) s = p then Some (drop (length p) s) else None)"

definition strip_suffix :: "string \<Rightarrow> string \<Rightarrow> string option" where
  "strip_suffix p s = map_option rev (strip_prefix (rev p) (rev s))"

definition starts_with :: "string \<Rightarrow> string \<Rightarrow> bool" where
  "starts_with p s \<longleftrightarrow> take (length p) s = p"

definition ends_with :: "string \<Rightarrow> string \<Rightarrow> bool" where
  "ends_with p s \<longleftrightarrow> starts_with (rev p) (rev s)"

lemma strip_prefix_Some: "strip_prefix p s = Some r \<longleftrightarrow> s = p @ r"
  by (auto simp: strip_prefix_def) (metis append_take_drop_id)

lemma strip_suffix_Some: "strip_suffix p s = Some r \<longleftrightarrow> s = r @ p"
proof -
  have "strip_suffix p s = Some r \<longleftrightarrow> rev s = rev p @ rev r"
    by (auto simp: strip_suffix_def strip_prefix_Some)
  also have "\<dots> \<longleftrightarrow> s = r @ p"
    by (metis rev_append rev_rev_ident)
  finally show ?thesis .
qed

lemma strip_prefix_None: "strip_prefix p s = None \<longleftrightarrow> (\<nexists>r. s = p @ r)"
  using strip_prefix_Some [of p s] by (metis not_None_eq)

lemma strip_suffix_None: "strip_suffix p s = None \<longleftrightarrow> (\<nexists>r. s = r @ p)"
  using strip_suffix_Some [of p s] by (metis not_None_eq)

lemma starts_with_iff: "starts_with p s \<longleftrightarrow> (\<exists>r. s = p @ r)"
  unfolding starts_with_def by (metis append_eq_conv_conj append_take_drop_id)

lemma ends_with_iff: "ends_with p s \<longleftrightarrow> (\<exists>r. s = r @ p)"
proof -
  have "ends_with p s \<longleftrightarrow> (\<exists>r. rev s = rev p @ r)"
    by (simp add: ends_with_def starts_with_iff)
  also have "\<dots> \<longleftrightarrow> (\<exists>r. s = r @ p)"
    by (metis rev_append rev_rev_ident)
  finally show ?thesis .
qed

section \<open>Replacement\<close>

text \<open>\<^verbatim>\<open>str::replace\<close> for a nonempty pattern: leftmost matches that do not overlap.\<close>

fun str_replace :: "string \<Rightarrow> string \<Rightarrow> string \<Rightarrow> string" where
  "str_replace pat rep [] = []"
| "str_replace pat rep (c # cs) =
     (if pat \<noteq> [] \<and> take (length pat) (c # cs) = pat
      then rep @ str_replace pat rep (drop (length pat - 1) cs)
      else c # str_replace pat rep cs)"

lemma str_replace_char:
  "str_replace [a] rep s = concat (map (\<lambda>c. if c = a then rep else [c]) s)"
  by (induction s) auto

lemma str_replace_free: "c \<notin> set s \<Longrightarrow> str_replace (c # cs) rep s = s"
  by (induction s) auto

lemma str_replace_skip:
  "c \<notin> set s \<Longrightarrow> str_replace (c # cs) rep (s @ t) = s @ str_replace (c # cs) rep t"
  by (induction s) auto

lemma str_replace_match:
  "pat \<noteq> [] \<Longrightarrow> str_replace pat rep (pat @ s) = rep @ str_replace pat rep s"
  by (cases pat) auto

text \<open>Replacing a character and replacing the replacement back.\<close>

lemma str_replace_inverse:
  assumes "e # es = esc" and "e \<notin> set s"
  shows "str_replace esc [a] (str_replace [a] esc s) = s"
proof -
  have "str_replace esc [a] (concat (map (\<lambda>c. if c = a then esc else [c]) s)) = s"
    using assms(2)
  proof (induction s)
    case (Cons c s)
    have "str_replace esc [a] (esc @ t) = a # str_replace esc [a] t" for t
      using str_replace_match [of esc "[a]" t] assms(1) by auto
    moreover have "str_replace esc [a] (c # t) = c # str_replace esc [a] t" for t
      using Cons.prems str_replace_skip [of e "[c]" es "[a]" t] assms(1) by auto
    ultimately show ?case using Cons by simp
  qed simp
  then show ?thesis by (simp only: str_replace_char)
qed

lemma set_str_replace_char:
  "set (str_replace [a] rep s) \<subseteq> (set s - {a}) \<union> set rep"
  by (auto simp: str_replace_char split: if_splits)

lemma str_replace_char_Nil [simp]: "rep \<noteq> [] \<Longrightarrow> str_replace [a] rep s = [] \<longleftrightarrow> s = []"
  by (cases s) auto

section \<open>Hexadecimal numbers\<close>

text \<open>\<open>show_hex2\<close> is the format \<^verbatim>\<open>{:02x}\<close> of a byte, \<open>parse_hex_u8\<close> is
  \<^verbatim>\<open>u8::from_str_radix(s, 16)\<close>.\<close>

definition hex_char :: "nat \<Rightarrow> char" where
  "hex_char d = (if d < 10 then char_of (48 + d) else char_of (87 + d))"

definition hex_value :: "char \<Rightarrow> nat option" where
  "hex_value c =
     (let n = of_char c :: nat in
      if 48 \<le> n \<and> n \<le> 57 then Some (n - 48)
      else if 97 \<le> n \<and> n \<le> 102 then Some (n - 87)
      else if 65 \<le> n \<and> n \<le> 70 then Some (n - 55)
      else None)"

definition show_hex2 :: "u8 \<Rightarrow> string" where
  "show_hex2 b = [hex_char (unat b div 16), hex_char (unat b mod 16)]"

fun parse_hex_digits :: "nat \<Rightarrow> string \<Rightarrow> nat option" where
  "parse_hex_digits acc [] = Some acc"
| "parse_hex_digits acc (c # cs) =
     (case hex_value c of None \<Rightarrow> None | Some d \<Rightarrow> parse_hex_digits (16 * acc + d) cs)"

definition parse_hex_u8 :: "string \<Rightarrow> u8 option" where
  "parse_hex_u8 s =
     (let ds = (case s of c # cs \<Rightarrow> if c = CHR ''+'' then cs else s | [] \<Rightarrow> s) in
      if ds = [] then None
      else case parse_hex_digits 0 ds of
        None \<Rightarrow> None
      | Some n \<Rightarrow> if n < 256 then Some (of_nat n) else None)"

lemma hex_value_char [simp]: "d < 16 \<Longrightarrow> hex_value (hex_char d) = Some d"
  by (auto simp: hex_value_def hex_char_def Let_def)

lemma hex_char_neq:
  "d < 16 \<Longrightarrow> (of_char c :: nat) < 48 \<or> (57 < (of_char c :: nat) \<and> (of_char c :: nat) < 97) \<Longrightarrow>
   hex_char d \<noteq> c"
  by (auto simp: hex_char_def split: if_splits)

lemma unat_u8_less: "unat (b :: u8) < 256"
  using unsigned_less [of b, where 'a = nat] by simp

lemma nibble_less: "unat (b :: u8) div 16 < 16"
  using unat_u8_less [of b] by simp

lemma parse_hex_show [simp]: "parse_hex_u8 (show_hex2 b) = Some b"
proof -
  have b: "unat b < 256" by (rule unat_u8_less)
  then have d: "unat b div 16 < 16" "unat b mod 16 < 16" by simp_all
  moreover have "hex_char (unat b div 16) \<noteq> CHR ''+''"
    by (rule hex_char_neq [OF d(1)]) simp
  ultimately show ?thesis
    using b by (simp add: parse_hex_u8_def show_hex2_def)
qed

lemma show_hex2_length [simp]: "length (show_hex2 b) = 2"
  by (simp add: show_hex2_def)

lemma show_hex2_not_in:
  "(of_char c :: nat) < 48 \<or> (57 < (of_char c :: nat) \<and> (of_char c :: nat) < 97) \<Longrightarrow>
   c \<notin> set (show_hex2 b)"
  using hex_char_neq [of "unat b div 16" c] hex_char_neq [of "unat b mod 16" c]
    nibble_less [of b]
  by (auto simp: show_hex2_def)

end
