(* ===== verification/Msg_Types.thy ===== *)
theory Msg_Types
  imports RosZ_Strings
begin

text \<open>
  \<^verbatim>\<open>ros-z-codegen/src/types.rs\<close>: message, service and action definitions as the parser
  builds them and as the resolver completes them.  A floating-point number is its 64-bit pattern, a
  path the list of its bytes, \<^verbatim>\<open>usize\<close> is a natural number below \<open>2 ^ 64\<close>, a type hash its 32 bytes.
\<close>

section \<open>Parsed definitions\<close>

datatype ArrayType = Single | Fixed nat | Bounded nat | Unbounded

record ParsedFieldType =
  pft_base_type :: string
  pft_package :: "string option"
  pft_array :: ArrayType
  pft_string_bound :: "nat option"

datatype DefaultValue =
    Default_Bool bool
  | Default_Int "64 word"
  | Default_Float "64 word"
  | Default_String string
  | Default_BoolArray "bool list"
  | Default_IntArray "64 word list"
  | Default_FloatArray "64 word list"
  | Default_StringArray "string list"

record ParsedField =
  pf_name :: string
  pf_field_type :: ParsedFieldType
  pf_default :: "DefaultValue option"

record Constant =
  con_name :: string
  con_type :: string
  con_value :: string

record ParsedMessage =
  pm_name :: string
  pm_package :: string
  pm_fields :: "ParsedField list"
  pm_constants :: "Constant list"
  pm_source :: string
  pm_path :: string

record ParsedService =
  psrv_name :: string
  psrv_package :: string
  psrv_request :: ParsedMessage
  psrv_response :: ParsedMessage
  psrv_source :: string
  psrv_path :: string

record ParsedAction =
  pact_name :: string
  pact_package :: string
  pact_goal :: ParsedMessage
  pact_result :: "ParsedMessage option"
  pact_feedback :: "ParsedMessage option"
  pact_source :: string
  pact_path :: string

section \<open>Resolved definitions\<close>

type_synonym hash32 = bytes

record ResolvedMessage =
  rm_parsed :: ParsedMessage
  rm_type_hash :: hash32
  rm_definition :: string

record ResolvedService =
  rsrv_parsed :: ParsedService
  rsrv_request :: ResolvedMessage
  rsrv_response :: ResolvedMessage
  rsrv_type_hash :: hash32

record ResolvedAction =
  ract_parsed :: ParsedAction
  ract_goal :: ResolvedMessage
  ract_result :: "ResolvedMessage option"
  ract_feedback :: "ResolvedMessage option"
  ract_type_hash :: hash32
  ract_send_goal_hash :: hash32
  ract_get_result_hash :: hash32
  ract_feedback_message_hash :: hash32
  ract_cancel_goal_hash :: hash32
  ract_status_hash :: hash32

end
