(* ===== verification/Dyn_Registry.thy ===== *)
theory Dyn_Registry
  imports Dyn_Schema Msg_Types
begin

text \<open>
  \<^verbatim>\<open>ros-z/src/dynamic/registry.rs\<close>: the registry of schemas by type name, and the conversion of
  a parsed message definition (\<^verbatim>\<open>ros-z-codegen/src/types.rs\<close>, theory \<open>Msg_Types\<close>) to a schema.  The registry is an
  associative map; the process-wide instance behind a lock is the state that \<open>get_schema\<close>,
  \<open>register_schema\<close> and \<open>has_schema\<close> take, with the flag whether the lock is poisoned.
\<close>

section \<open>SchemaRegistry\<close>

record SchemaRegistry =
  reg_schemas :: "string \<rightharpoonup> MessageSchema"

definition registry_new :: SchemaRegistry where
  "registry_new = \<lparr>reg_schemas = Map.empty\<rparr>"

definition registry_get :: "SchemaRegistry \<Rightarrow> string \<Rightarrow> MessageSchema option" where
  "registry_get r type_name = reg_schemas r type_name"

definition registry_register ::
    "SchemaRegistry \<Rightarrow> MessageSchema \<Rightarrow> MessageSchema \<times> SchemaRegistry" where
  "registry_register r schema =
     (let type_name = ms_type_name schema
      in (schema, r\<lparr>reg_schemas := (reg_schemas r)(type_name \<mapsto> schema)\<rparr>))"

definition registry_contains :: "SchemaRegistry \<Rightarrow> string \<Rightarrow> bool" where
  "registry_contains r type_name \<longleftrightarrow> type_name \<in> dom (reg_schemas r)"

definition registry_type_names :: "SchemaRegistry \<Rightarrow> string set" where
  "registry_type_names r = dom (reg_schemas r)"

definition registry_len :: "SchemaRegistry \<Rightarrow> nat" where
  "registry_len r = card (dom (reg_schemas r))"

definition registry_is_empty :: "SchemaRegistry \<Rightarrow> bool" where
  "registry_is_empty r \<longleftrightarrow> reg_schemas r = Map.empty"

definition registry_clear :: "SchemaRegistry \<Rightarrow> SchemaRegistry" where
  "registry_clear r = r\<lparr>reg_schemas := Map.empty\<rparr>"

record GlobalRegistry =
  gl_registry :: SchemaRegistry
  gl_poisoned :: bool

definition get_schema :: "GlobalRegistry \<Rightarrow> string \<Rightarrow> MessageSchema option" where
  "get_schema g type_name =
     (if gl_poisoned g then None else registry_get (gl_registry g) type_name)"

definition register_schema :: "MessageSchema \<Rightarrow> (GlobalRegistry, MessageSchema, DynamicError) exec" where
  "register_schema schema = (\<lambda>g.
     if gl_poisoned g then (Panic, g)
     else let (s, r) = registry_register (gl_registry g) schema in (Ok s, g\<lparr>gl_registry := r\<rparr>))"

definition has_schema :: "GlobalRegistry \<Rightarrow> string \<Rightarrow> bool" where
  "has_schema g type_name \<longleftrightarrow>
     (if gl_poisoned g then False else registry_contains (gl_registry g) type_name)"

section \<open>Conversion of parsed messages\<close>

type_synonym schema_resolver = "string \<Rightarrow> string \<Rightarrow> MessageSchema option"

definition primitive_of_name :: "string \<Rightarrow> FieldType option" where
  "primitive_of_name base_type =
     (if base_type = ''bool'' then Some FT_Bool
      else if base_type = ''int8'' \<or> base_type = ''byte'' then Some FT_Int8
      else if base_type = ''int16'' then Some FT_Int16
      else if base_type = ''int32'' then Some FT_Int32
      else if base_type = ''int64'' then Some FT_Int64
      else if base_type = ''uint8'' \<or> base_type = ''char'' then Some FT_Uint8
      else if base_type = ''uint16'' then Some FT_Uint16
      else if base_type = ''uint32'' then Some FT_Uint32
      else if base_type = ''uint64'' then Some FT_Uint64
      else if base_type = ''float32'' then Some FT_Float32
      else if base_type = ''float64'' then Some FT_Float64
      else if base_type = ''string'' then Some FT_String
      else None)"

definition convert_base_type ::
    "string \<Rightarrow> string option \<Rightarrow> schema_resolver \<Rightarrow> (FieldType, DynamicError) result" where
  "convert_base_type base_type package resolver =
     (case primitive_of_name base_type of
        Some t \<Rightarrow> Ok t
      | None \<Rightarrow>
          (case Option.bind (strip_prefix ''string<='' base_type) (parse_uint 64) of
             Some max_len \<Rightarrow> Ok (FT_BoundedString max_len)
           | None \<Rightarrow>
               bind_result (ok_or (InvalidTypeName base_type) package) (\<lambda>pkg.
               bind_result (ok_or (SchemaNotFound (pkg @ ''/msg/'' @ base_type)) (resolver pkg base_type))
                 (\<lambda>schema. Ok (FT_Message schema)))))"

definition convert_field_type ::
    "ParsedField \<Rightarrow> schema_resolver \<Rightarrow> (FieldType, DynamicError) result" where
  "convert_field_type field resolver =
     bind_result (convert_base_type (pft_base_type (pf_field_type field))
         (pft_package (pf_field_type field)) resolver)
       (\<lambda>base_type. case pft_array (pf_field_type field) of
          Single \<Rightarrow> Ok base_type
        | Fixed n \<Rightarrow> Ok (FT_Array base_type n)
        | Bounded n \<Rightarrow> Ok (FT_BoundedSequence base_type n)
        | Unbounded \<Rightarrow> Ok (FT_Sequence base_type))"

definition parsed_message_to_schema ::
    "ParsedMessage \<Rightarrow> schema_resolver \<Rightarrow> (MessageSchema, DynamicError) result" where
  "parsed_message_to_schema msg resolver =
     bind_result
       (traverse (map (\<lambda>f. bind_result (convert_field_type f resolver)
          (\<lambda>t. Ok (field_schema_new (pf_name f) t))) (pm_fields msg)))
       (\<lambda>flds. Ok (MessageSchema (pm_package msg @ ''/msg/'' @ pm_name msg) (pm_package msg)
          (pm_name msg) flds None))"

section \<open>Lemmas\<close>

lemma parsed_type_name: "parsed_message_to_schema msg resolver = Ok s \<Longrightarrow>
    ms_type_name s = pm_package msg @ ''/msg/'' @ pm_name msg"
  by (auto simp: parsed_message_to_schema_def bind_result_eq_Ok)

lemma parsed_fields: "parsed_message_to_schema msg resolver = Ok s \<Longrightarrow>
    map fs_name (ms_fields s) = map pf_name (pm_fields msg) \<and>
    list_all2 (\<lambda>f t. convert_field_type f resolver = Ok t) (pm_fields msg)
      (map fs_field_type (ms_fields s))"
proof -
  assume "parsed_message_to_schema msg resolver = Ok s"
  then obtain flds where flds: "map (\<lambda>f. bind_result (convert_field_type f resolver)
      (\<lambda>t. Ok (field_schema_new (pf_name f) t))) (pm_fields msg) = map Ok flds"
    "ms_fields s = flds"
    by (auto simp: parsed_message_to_schema_def bind_result_eq_Ok traverse_Ok)
  have "list_all2 (\<lambda>f g. \<exists>t. convert_field_type f resolver = Ok t \<and> field_schema_new (pf_name f) t = g)
    (pm_fields msg) flds"
    using flds(1) by (auto simp: list_eq_iff_nth_eq list_all2_conv_all_nth bind_result_eq_Ok)
  then show ?thesis
    unfolding flds(2)
    by (induction rule: list_all2_induct) (auto simp: field_schema_new_def)
qed

section \<open>Properties\<close>

text \<open>
  The registry is a map keyed by the schemas' own type names: after registering a schema the
  lookup of its name returns it, every other name is looked up as before, and membership and
  lookup agree.
\<close>

theorem registry_register_get:
  assumes "\<not> gl_poisoned g"
  shows "\<exists>g'. register_schema schema g = (Ok schema, g') \<and> \<not> gl_poisoned g' \<and>
    (\<forall>n. get_schema g' n = (if n = ms_type_name schema then Some schema else get_schema g n)) \<and>
    (\<forall>n. has_schema g' n \<longleftrightarrow> get_schema g' n \<noteq> None)"
  using assms
  by (auto simp: register_schema_def get_schema_def has_schema_def registry_register_def
      registry_get_def registry_contains_def Let_def)

theorem registry_register_get_witness:
  "\<exists>g'. register_schema (MessageSchema ''p/msg/N'' ''p'' ''N'' [] None)
       \<lparr>gl_registry = registry_new, gl_poisoned = False\<rparr> =
       (Ok (MessageSchema ''p/msg/N'' ''p'' ''N'' [] None), g') \<and>
     get_schema g' ''p/msg/N'' = Some (MessageSchema ''p/msg/N'' ''p'' ''N'' [] None)"
  using registry_register_get [of "\<lparr>gl_registry = registry_new, gl_poisoned = False\<rparr>"
      "MessageSchema ''p/msg/N'' ''p'' ''N'' [] None"] by auto

text \<open>
  A schema converted from a parsed message keeps the order and the names of its fields and
  gives each the converted type, and the schema's type name is the one the builder accepts: it
  splits into the package, \<^verbatim>\<open>msg\<close> and the message name.
\<close>

theorem parsed_message_schema:
  assumes "parsed_message_to_schema msg resolver = Ok s"
    and "CHR ''/'' \<notin> set (pm_package msg)" and "CHR ''/'' \<notin> set (pm_name msg)"
  shows "map fs_name (ms_fields s) = map pf_name (pm_fields msg) \<and>
    list_all2 (\<lambda>f t. convert_field_type f resolver = Ok t) (pm_fields msg)
      (map fs_field_type (ms_fields s)) \<and>
    msb_build ((msb_new (ms_type_name s))\<lparr>msb_fields := ms_fields s\<rparr>) = Ok s"
proof -
  have "ms_type_name s = pm_package msg @ CHR ''/'' # ''msg'' @ CHR ''/'' # pm_name msg"
    using parsed_type_name [OF assms(1)] by simp
  moreover have "split_on CHR ''/'' (''msg'' @ CHR ''/'' # pm_name msg) = [''msg'', pm_name msg]"
    using assms(3) by (simp add: split_on_part)
  ultimately have "split_on CHR ''/'' (ms_type_name s) = [pm_package msg, ''msg'', pm_name msg]"
    using assms(2) by (metis split_on_append)
  then have "msb_build ((msb_new (ms_type_name s))\<lparr>msb_fields := ms_fields s\<rparr>) = Ok s"
    using assms(1) by (auto simp: msb_build_def msb_new_def parsed_message_to_schema_def
        bind_result_eq_Ok)
  with parsed_fields [OF assms(1)] show ?thesis by blast
qed

theorem parsed_message_schema_witness:
  "msb_build ((msb_new ''std_msgs/msg/Header'')\<lparr>msb_fields := [FieldSchema ''seq'' FT_Uint32 None]\<rparr>) =
     Ok (MessageSchema ''std_msgs/msg/Header'' ''std_msgs'' ''Header''
       [FieldSchema ''seq'' FT_Uint32 None] None)"
proof -
  let ?m = "\<lparr>pm_name = ''Header'', pm_package = ''std_msgs'',
    pm_fields = [\<lparr>pf_name = ''seq'', pf_field_type = \<lparr>pft_base_type = ''uint32'', pft_package = None,
      pft_array = Single, pft_string_bound = None\<rparr>, pf_default = None\<rparr>],
    pm_constants = [], pm_source = ''uint32 seq'', pm_path = ''Header.msg''\<rparr>"
  have "parsed_message_to_schema ?m (\<lambda>_ _. None) = Ok (MessageSchema ''std_msgs/msg/Header'' ''std_msgs''
      ''Header'' [FieldSchema ''seq'' FT_Uint32 None] None)"
    by (simp add: parsed_message_to_schema_def convert_field_type_def convert_base_type_def
        primitive_of_name_def field_schema_new_def)
  from parsed_message_schema [OF this] show ?thesis by simp
qed

end
