(* ===== verification/Codec_Interop.thy ===== *)
theory Codec_Interop
  imports Dyn_Cdr
begin

text \<open>
  The two codecs of ros-z meet on the wire: a node that knows a message only by its schema
  (\<^verbatim>\<open>ros-z/src/dynamic\<close>) exchanges messages with nodes that use a Rust type with a serde
  implementation (\<^verbatim>\<open>ros-z-cdr\<close>).  The theory says which shape the Rust type of a schema has
  and composes the results on both codecs.
\<close>

section \<open>The shape of the Rust type that belongs to a schema\<close>

primrec ft_shape :: "FieldType \<Rightarrow> dshape" and fs_shape :: "FieldSchema \<Rightarrow> dshape"
  and ms_shape :: "MessageSchema \<Rightarrow> dshape" where
  "ft_shape FT_Bool = DBool"
| "ft_shape FT_Int8 = DI8"
| "ft_shape FT_Int16 = DI16"
| "ft_shape FT_Int32 = DI32"
| "ft_shape FT_Int64 = DI64"
| "ft_shape FT_Uint8 = DU8"
| "ft_shape FT_Uint16 = DU16"
| "ft_shape FT_Uint32 = DU32"
| "ft_shape FT_Uint64 = DU64"
| "ft_shape FT_Float32 = DF32"
| "ft_shape FT_Float64 = DF64"
| "ft_shape FT_String = DString"
| "ft_shape (FT_BoundedString n) = DString"
| "ft_shape (FT_Message s) = ms_shape s"
| "ft_shape (FT_Array t n) = DTuple (replicate n (ft_shape t))"
| "ft_shape (FT_Sequence t) = (if t = FT_Uint8 then DByteBuf else DSeq (ft_shape t))"
| "ft_shape (FT_BoundedSequence t n) = DSeq (ft_shape t)"
| "fs_shape (FieldSchema n t d) = ft_shape t"
| "ms_shape (MessageSchema tn p n fs h) = DStruct (map fs_shape fs)"

lemma traverse_shapes:
  assumes "list_all2 (\<lambda>P r. \<exists>s. r = Ok s \<and> P s) Ps rs"
  shows "\<exists>ss. traverse rs = Ok ss \<and> list_all2 id Ps ss"
  using assms by (induction rule: list_all2_induct) auto

lemma traverse_all:
  assumes "\<And>v. v \<in> set vs \<Longrightarrow> \<exists>s. f v = Ok s \<and> P s"
  shows "\<exists>ss. traverse (map f vs) = Ok ss \<and> length ss = length vs \<and> list_all P ss"
proof -
  have "list_all2 (\<lambda>P r. \<exists>s. r = Ok s \<and> P s) (replicate (length vs) P) (map f vs)"
    using assms by (simp add: list_all2_conv_all_nth)
  from traverse_shapes [OF this] show ?thesis
    by (auto simp: list_all2_conv_all_nth list_all_length)
qed

theorem has_type_shape:
  "has_type t v \<Longrightarrow> \<exists>s. to_sval v t = Ok s \<and> has_shape (ft_shape t) s"
  "field_has_type f v \<Longrightarrow> \<exists>s. to_sval v (fs_field_type f) = Ok s \<and> has_shape (fs_shape f) s"
  "message_typed sc m \<Longrightarrow> \<exists>s. message_sval m = Ok s \<and> has_shape (ms_shape sc) s"
proof (induction t and f and sc arbitrary: v and v and m rule: schema_induct)
  case (FT_Message sc)
  then show ?case by (auto simp: as_message_def split: DynamicValue.splits)
next
  case (FT_Array t n)
  then obtain vs where vs: "v = DV_Array vs" "length vs = n" "list_all (has_type t) vs"
    by (auto simp: as_array_def split: DynamicValue.splits)
  with traverse_all [of vs "\<lambda>v. to_sval v t" "has_shape (ft_shape t)"] FT_Array.IH
  show ?case by (auto simp: list_all_iff list_all2_conv_all_nth list_all_length comp_def)
next
  case (FT_Sequence t)
  show ?case
  proof (cases "t = FT_Uint8")
    case True
    with FT_Sequence.prems show ?thesis by (auto simp: as_bytes_def split: DynamicValue.splits)
  next
    case False
    with FT_Sequence.prems obtain vs where "v = DV_Array vs" "length vs \<le> 100000000"
      "list_all (has_type t) vs"
      by (auto simp: as_array_def split: DynamicValue.splits)
    with False traverse_all [of vs "\<lambda>v. to_sval v t" "has_shape (ft_shape t)"] FT_Sequence.IH
    show ?thesis by (auto simp: list_all_iff comp_def)
  qed
next
  case (FT_BoundedSequence t n)
  then obtain vs where "v = DV_Array vs" "length vs \<le> 100000000" "list_all (has_type t) vs"
    by (auto simp: as_array_def split: DynamicValue.splits)
  with traverse_all [of vs "\<lambda>v. to_sval v t" "has_shape (ft_shape t)"] FT_BoundedSequence.IH
  show ?case by (auto simp: list_all_iff comp_def)
next
  case (MessageSchema tn p n fs h)
  obtain vs where m: "m = DynamicMessage (MessageSchema tn p n fs h) vs"
    "list_all2 id (map field_has_type fs) vs"
    using MessageSchema.prems by (cases m) auto
  have "list_all2 (\<lambda>P r. \<exists>s. r = Ok s \<and> P s) (map has_shape (map fs_shape fs))
    (map (\<lambda>fv. to_sval (snd fv) (fs_field_type (fst fv))) (zip fs vs))"
    using m(2) MessageSchema.IH by (auto simp: list_all2_conv_all_nth)
  from traverse_shapes [OF this] show ?case by (auto simp: m(1) message_loops)
qed (auto simp: as_bool_def as_i8_def as_i16_def as_i32_def as_i64_def as_u8_def as_u16_def as_u32_def
    as_u64_def as_f32_def as_f64_def as_str_def split: DynamicValue.splits)

section \<open>Properties\<close>

text \<open>
  C32.  The dynamic serializer implements the static one: for every message, fitting or not, it
  produces the encapsulation header followed by exactly the bytes that \<^verbatim>\<open>to_vec\<close> produces for the
  serde value that the message stands for, or the error of the first value that does not fit its
  field, and it never panics.
\<close>

theorem dynamic_serializer_refines_static:
  assumes "zbuf_laws Z"
  shows "case message_sval m of
      Ok s \<Rightarrow> \<exists>buf static. serialize_cdr Z LE m = Ok buf \<and> to_vec Z LE s hint = Ok static \<and>
        vec_data buf = CDR_HEADER_LE @ vec_data static
    | Err e \<Rightarrow> serialize_cdr Z LE m = Err e
    | Panic \<Rightarrow> False"
proof (cases "message_sval m")
  case (Ok s)
  with zbuf_laws.serialize_cdr_spec [OF assms, of LE m] obtain buf xs where
    "cdr_encode LE s 0 = Ok xs" "serialize_cdr Z LE m = Ok buf" "vec_data buf = CDR_HEADER_LE @ xs"
    by auto
  with zbuf_laws.to_vec_spec [OF assms, of LE s hint] Ok show ?thesis by auto
qed (use zbuf_laws.serialize_cdr_spec [OF assms, of LE m] in simp_all)

theorem dynamic_serializer_refines_static_witness:
  "\<exists>s buf static. message_sval sample_message = Ok s \<and>
     serialize_cdr list_zbuf LittleEndian sample_message = Ok buf \<and>
     to_vec list_zbuf LittleEndian s 0 = Ok static \<and>
     vec_data buf = CDR_HEADER_LE @ vec_data static"
  using dynamic_serializer_refines_static [OF zl.zbuf_laws_axioms, of LittleEndian sample_message 0]
    has_type_shape(3) [OF sample_typed]
  by (auto split: result.splits)

text \<open>
  Dynamic and static nodes understand each other.  The payload of a message that fits its
  schema is read by the deserializer of the corresponding Rust type as the value the message
  stands for, to its last byte; and the bytes a node with that Rust type serializes, behind the
  header, are read dynamically as the message.
\<close>

theorem dynamic_static_interop:
  assumes "zbuf_laws Z" and "byte_order_laws LE" and "message_typed schema m"
  shows "\<exists>s buf static. message_sval m = Ok s \<and>
    serialize_cdr Z LE m = Ok buf \<and>
    from_bytes LE (ms_shape schema) (drop 4 (vec_data buf)) = Ok (s, length (vec_data buf) - 4) \<and>
    to_vec Z LE s hint = Ok static \<and>
    deserialize_cdr LE (CDR_HEADER_LE @ vec_data static) schema = Ok m"
proof -
  from assms obtain s xs buf where enc: "message_sval m = Ok s" "cdr_encode LE s 0 = Ok xs"
    "serialize_cdr Z LE m = Ok buf" "vec_data buf = CDR_HEADER_LE @ xs"
    and dyn: "decodes (map_cdr_err UnexpectedEof) (deserialize_message LE schema) (cdr_encode LE s) m"
    by (rule message_typed_encoding)
  from has_type_shape(3) [OF assms(3)] enc(1) have "has_shape (ms_shape schema) s" by simp
  with assms(2) have stat: "decodes UnexpectedEof (deserialize LE (ms_shape schema)) (cdr_encode LE s) s"
    by (rule has_shape_encoding)
  from zbuf_laws.to_vec_spec [OF assms(1), of LE s hint] enc(2) obtain static where
    "to_vec Z LE s hint = Ok static" "vec_data static = xs" by auto
  with enc decodes_Ok [OF dyn, of "[]" xs "[]"] from_bytes_decodes [OF stat enc(2), of "[]"]
  show ?thesis using deserialize_cdr_payload [of LE xs schema] by (simp add: CDR_HEADER_LE_def)
qed

theorem dynamic_static_interop_witness:
  "\<exists>s buf static. message_sval sample_message = Ok s \<and>
     serialize_cdr list_zbuf LittleEndian sample_message = Ok buf \<and>
     from_bytes LittleEndian (ms_shape sample_schema) (drop 4 (vec_data buf)) =
       Ok (s, length (vec_data buf) - 4) \<and>
     to_vec list_zbuf LittleEndian s 0 = Ok static \<and>
     deserialize_cdr LittleEndian (CDR_HEADER_LE @ vec_data static) sample_schema = Ok sample_message"
  by (rule dynamic_static_interop
      [OF zl.zbuf_laws_axioms le.byte_order_laws_axioms sample_typed])

end
