(* ===== verification/Action_State.thy ===== *)
theory Action_State
  imports RosZ_Prelude
begin

text \<open>
  \<^verbatim>\<open>ros-z/src/action/mod.rs\<close> and \<^verbatim>\<open>state.rs\<close>: goal identifiers, the status codes and their
  conversion from and to the wire, the goal state machine of the ROS 2 specification, and the
  server's table of goals.  Instants and durations are natural numbers.  An
  \<^verbatim>\<open>Arc<AtomicBool>\<close> and a \<^verbatim>\<open>oneshot\<close> channel are shared between the table and a handle or a
  waiting task, so they are addresses into stores of the server (theory \<open>Action_Server\<close>).
\<close>

section \<open>GoalId, Time and GoalInfo\<close>

datatype GoalId = GoalId (goal_id_bytes: bytes)

definition goal_id_from_bytes :: "bytes \<Rightarrow> GoalId" where
  "goal_id_from_bytes bs = GoalId bs"

definition goal_id_is_valid :: "GoalId \<Rightarrow> bool" where
  "goal_id_is_valid g \<longleftrightarrow> (\<exists>x\<in>set (goal_id_bytes g). x \<noteq> 0)"

record Time =
  time_sec :: i32
  time_nanosec :: u32

definition time_zero :: Time where
  "time_zero = \<lparr>time_sec = 0, time_nanosec = 0\<rparr>"

text \<open>\<^verbatim>\<open>Time::now\<close> for a system clock at \<open>secs\<close> seconds and \<open>nanos\<close> nanoseconds.\<close>

definition time_now :: "nat \<Rightarrow> nat \<Rightarrow> Time" where
  "time_now secs nanos = \<lparr>time_sec = of_nat secs, time_nanosec = of_nat nanos\<rparr>"

record GoalInfo =
  gi_goal_id :: GoalId
  gi_stamp :: Time

definition goal_info_new :: "GoalId \<Rightarrow> Time \<Rightarrow> GoalInfo" where
  "goal_info_new gid now = \<lparr>gi_goal_id = gid, gi_stamp = now\<rparr>"

section \<open>GoalStatus\<close>

datatype GoalStatus =
  GS_Unknown | GS_Accepted | GS_Executing | GS_Canceling | GS_Succeeded | GS_Canceled | GS_Aborted

definition is_active :: "GoalStatus \<Rightarrow> bool" where
  "is_active s \<longleftrightarrow> s = GS_Accepted \<or> s = GS_Executing \<or> s = GS_Canceling"

definition is_terminal :: "GoalStatus \<Rightarrow> bool" where
  "is_terminal s \<longleftrightarrow> s = GS_Succeeded \<or> s = GS_Canceled \<or> s = GS_Aborted"

fun status_as_i8 :: "GoalStatus \<Rightarrow> i8" where
  "status_as_i8 GS_Unknown = 0"
| "status_as_i8 GS_Accepted = 1"
| "status_as_i8 GS_Executing = 2"
| "status_as_i8 GS_Canceling = 3"
| "status_as_i8 GS_Succeeded = 4"
| "status_as_i8 GS_Canceled = 5"
| "status_as_i8 GS_Aborted = 6"

definition show_i8 :: "i8 \<Rightarrow> string" where
  "show_i8 v = (if sint v < 0 then CHR ''-'' # show_nat (nat (- sint v)) else show_nat (nat (sint v)))"

definition goal_status_try_from :: "i8 \<Rightarrow> (GoalStatus, string) result" where
  "goal_status_try_from value =
     (if value = 0 then Ok GS_Unknown
      else if value = 1 then Ok GS_Accepted
      else if value = 2 then Ok GS_Executing
      else if value = 3 then Ok GS_Canceling
      else if value = 4 then Ok GS_Succeeded
      else if value = 5 then Ok GS_Canceled
      else if value = 6 then Ok GS_Aborted
      else Err (''Invalid GoalStatus value: '' @ show_i8 value))"

section \<open>The goal state machine\<close>

datatype GoalEvent = EV_Execute | EV_CancelGoal | EV_Succeed | EV_Abort | EV_Canceled

definition transition_goal_state :: "GoalStatus \<Rightarrow> GoalEvent \<Rightarrow> GoalStatus" where
  "transition_goal_state current event = (case (current, event) of
     (GS_Accepted, EV_Execute) \<Rightarrow> GS_Executing
   | (GS_Accepted, EV_CancelGoal) \<Rightarrow> GS_Canceling
   | (GS_Executing, EV_CancelGoal) \<Rightarrow> GS_Canceling
   | (GS_Executing, EV_Succeed) \<Rightarrow> GS_Succeeded
   | (GS_Executing, EV_Abort) \<Rightarrow> GS_Aborted
   | (GS_Canceling, EV_Canceled) \<Rightarrow> GS_Canceled
   | (GS_Canceling, EV_Succeed) \<Rightarrow> GS_Succeeded
   | (GS_Canceling, EV_Abort) \<Rightarrow> GS_Aborted
   | _ \<Rightarrow> GS_Unknown)"

text \<open>The statuses that a sequence of events can produce.\<close>

definition run_events :: "GoalStatus \<Rightarrow> GoalEvent list \<Rightarrow> GoalStatus" where
  "run_events = foldl transition_goal_state"

section \<open>The goal table\<close>

type_synonym instant = nat
type_synonym duration = nat
type_synonym flag = nat
type_synonym channel = nat

datatype ('g, 'r) ServerGoalState =
    SG_Accepted 'g instant "instant option"
  | SG_Executing 'g flag "instant option"
  | SG_Canceling 'g
  | SG_Terminated 'r GoalStatus instant "instant option"

record ('g, 'r) GoalManager =
  gm_goals :: "GoalId \<rightharpoonup> ('g, 'r) ServerGoalState"
  gm_result_timeout :: duration
  gm_goal_timeout :: "duration option"
  gm_result_futures :: "GoalId \<rightharpoonup> channel list"

definition goal_manager_new :: "duration \<Rightarrow> duration option \<Rightarrow> ('g, 'r) GoalManager" where
  "goal_manager_new result_timeout goal_timeout =
     \<lparr>gm_goals = Map.empty, gm_result_timeout = result_timeout, gm_goal_timeout = goal_timeout,
      gm_result_futures = Map.empty\<rparr>"

section \<open>Lemmas\<close>

lemma terminal_not_active: "is_terminal s \<Longrightarrow> \<not> is_active s"
  by (auto simp: is_terminal_def is_active_def)

lemma transition_valid:
  "transition_goal_state c e \<noteq> GS_Unknown \<Longrightarrow> is_active c"
  by (cases c; cases e) (simp_all add: transition_goal_state_def is_active_def)

lemma transition_terminal:
  "is_terminal (transition_goal_state c e) \<Longrightarrow> e = EV_Succeed \<or> e = EV_Abort \<or> e = EV_Canceled"
  by (cases c; cases e) (simp_all add: transition_goal_state_def is_terminal_def)

lemma run_events_inactive: "\<not> is_active s \<Longrightarrow> es \<noteq> [] \<Longrightarrow> run_events s es = GS_Unknown"
proof (induction es arbitrary: s)
  case (Cons e es)
  then have "transition_goal_state s e = GS_Unknown"
    using transition_valid by blast
  with Cons.IH [of GS_Unknown] show ?case
    by (cases es) (simp_all add: run_events_def is_active_def)
qed simp

lemma run_events_canceled:
  "run_events s es = GS_Canceled \<Longrightarrow> s \<noteq> GS_Canceled \<Longrightarrow> s \<noteq> GS_Canceling \<Longrightarrow> EV_CancelGoal \<in> set es"
proof (induction es arbitrary: s)
  case (Cons e es)
  let ?t = "transition_goal_state s e"
  have run: "run_events ?t es = GS_Canceled" using Cons.prems(1) by (simp add: run_events_def)
  show ?case
  proof (cases "e = EV_CancelGoal")
    case False
    then have "?t \<noteq> GS_Canceling" "?t \<noteq> GS_Canceled"
      using Cons.prems(2,3) by (cases s; cases e; simp add: transition_goal_state_def)+
    with Cons.IH [OF run] show ?thesis by simp
  qed simp
qed (simp add: run_events_def)

section \<open>Properties\<close>

text \<open>
  The status codes on the wire are a faithful encoding: every status is recovered from its
  code, and any other 8-bit value is rejected with the message that shows it.
\<close>

theorem goal_status_code:
  "goal_status_try_from (status_as_i8 s) = Ok s \<and>
   (goal_status_try_from v = Ok s \<longleftrightarrow> v = status_as_i8 s) \<and>
   ((\<nexists>t. v = status_as_i8 t) \<longleftrightarrow>
      goal_status_try_from v = Err (''Invalid GoalStatus value: '' @ show_i8 v))"
proof -
  have "goal_status_try_from (status_as_i8 t) = Ok t" for t
    by (cases t) (simp_all add: goal_status_try_from_def)
  moreover have "goal_status_try_from v = Ok t \<Longrightarrow> v = status_as_i8 t" for t
    by (auto simp: goal_status_try_from_def split: if_splits)
  moreover have "(\<exists>t. goal_status_try_from v = Ok t) \<or>
      goal_status_try_from v = Err (''Invalid GoalStatus value: '' @ show_i8 v)"
    by (simp add: goal_status_try_from_def)
  ultimately show ?thesis by (metis result.distinct(1))
qed

text \<open>
  The goal state machine: a finished or unknown goal reacts to no event any more, whatever
  sequence follows, and a goal that has just been accepted is canceled only by a sequence that
  contains a cancel request.
\<close>

theorem goal_state_machine:
  "(\<forall>s es. \<not> is_active s \<longrightarrow> es \<noteq> [] \<longrightarrow> run_events s es = GS_Unknown) \<and>
   (\<forall>es. run_events GS_Accepted es = GS_Canceled \<longrightarrow> EV_CancelGoal \<in> set es)"
  using run_events_inactive run_events_canceled by blast

theorem goal_state_machine_witness:
  "run_events GS_Succeeded [EV_Execute, EV_Abort] = GS_Unknown \<and>
   run_events GS_Accepted [EV_Execute, EV_CancelGoal, EV_Canceled] = GS_Canceled"
proof
  show "run_events GS_Succeeded [EV_Execute, EV_Abort] = GS_Unknown"
    by (rule goal_state_machine [THEN conjunct1, rule_format]) (simp_all add: is_active_def)
  show "run_events GS_Accepted [EV_Execute, EV_CancelGoal, EV_Canceled] = GS_Canceled"
    by (simp add: run_events_def transition_goal_state_def)
qed

end
