(* ===== verification/Action_Server.thy ===== *)
theory Action_Server
  imports Action_State
begin

text \<open>
  \<^verbatim>\<open>ros-z/src/action/server.rs\<close> and the request handlers of \<^verbatim>\<open>driver.rs\<close>: the goal handles
  with their type states, the operations that move a goal through the table, expiration, and the
  cancel and result services.  What the server sends is a list of outputs.  A query carries
  whether it has a payload and a usable attachment: the code unwraps both, so a query without
  them panics.  A payload that cannot be deserialized is the request \<open>None\<close>.
\<close>

section \<open>The server\<close>

record query =
  q_id :: nat
  q_has_payload :: bool
  q_has_attachment :: bool

datatype ('r, 'f) sent =
    GoalReply nat bool Time
  | StatusPublished "GoalId \<rightharpoonup> GoalStatus"
  | FeedbackPublished GoalId 'f
  | CancelReply nat i8 "GoalInfo list"
  | ResultReply nat i8 'r

text \<open>
  \<open>sv_flags\<close> is the store of cancel flags, \<open>sv_sent\<close> what has been sent on each \<^verbatim>\<open>oneshot\<close>
  channel; both hand out fresh addresses from a counter.
\<close>

record ('g, 'r, 'f) server =
  sv_manager :: "('g, 'r) GoalManager"
  sv_flags :: "flag \<Rightarrow> bool"
  sv_next_flag :: flag
  sv_sent :: "channel \<rightharpoonup> 'r \<times> GoalStatus"
  sv_next_channel :: channel
  sv_out :: "('r, 'f) sent list"

type_synonym ('g, 'r, 'f, 'a) server_exec = "(('g, 'r, 'f) server, 'a, unit) exec"

definition server_new :: "duration \<Rightarrow> duration option \<Rightarrow> ('g, 'r, 'f) server" where
  "server_new result_timeout goal_timeout =
     \<lparr>sv_manager = goal_manager_new result_timeout goal_timeout, sv_flags = (\<lambda>_. False),
      sv_next_flag = 0, sv_sent = Map.empty, sv_next_channel = 0, sv_out = []\<rparr>"

abbreviation sv_goals :: "('g, 'r, 'f) server \<Rightarrow> GoalId \<rightharpoonup> ('g, 'r) ServerGoalState" where
  "sv_goals sv \<equiv> gm_goals (sv_manager sv)"

abbreviation sv_futures :: "('g, 'r, 'f) server \<Rightarrow> GoalId \<rightharpoonup> channel list" where
  "sv_futures sv \<equiv> gm_result_futures (sv_manager sv)"

text \<open>\<^verbatim>\<open>SafeGoalManager::modify\<close> and \<^verbatim>\<open>read\<close>: a closure under the lock.\<close>

definition modify :: "(('g, 'r) GoalManager \<Rightarrow> 'a \<times> ('g, 'r) GoalManager) \<Rightarrow> ('g, 'r, 'f, 'a) server_exec" where
  "modify f = (\<lambda>sv. let (x, m) = f (sv_manager sv) in (Ok x, sv\<lparr>sv_manager := m\<rparr>))"

definition emit :: "('r, 'f) sent \<Rightarrow> ('g, 'r, 'f, unit) server_exec" where
  "emit out = (\<lambda>sv. (Ok (), sv\<lparr>sv_out := sv_out sv @ [out]\<rparr>))"

text \<open>A reply unwraps the attachment of the query first.\<close>

definition reply :: "query \<Rightarrow> ('r, 'f) sent \<Rightarrow> ('g, 'r, 'f, unit) server_exec" where
  "reply q out = (if q_has_attachment q then emit out else panic)"

fun status_of :: "('g, 'r) ServerGoalState \<Rightarrow> GoalStatus" where
  "status_of (SG_Accepted _ _ _) = GS_Accepted"
| "status_of (SG_Executing _ _ _) = GS_Executing"
| "status_of (SG_Canceling _) = GS_Canceling"
| "status_of (SG_Terminated _ status _ _) = status"

text \<open>
  The status list in the iteration order of the hash map, with the time of the call in every
  \<^verbatim>\<open>GoalInfo\<close>: kept as the map from goals to statuses.
\<close>

definition status_list :: "('g, 'r) GoalManager \<Rightarrow> GoalId \<rightharpoonup> GoalStatus" where
  "status_list m = (\<lambda>gid. map_option status_of (gm_goals m gid))"

definition publish_status :: "('g, 'r, 'f, unit) server_exec" where
  "publish_status = (\<lambda>sv. emit (StatusPublished (status_list (sv_manager sv))) sv)"

section \<open>Goal handles\<close>

text \<open>The markers of the type-state pattern; \<open>gh_state\<close> is the \<^verbatim>\<open>PhantomData\<close> field.\<close>

typedecl Requested
typedecl Accepted
typedecl Executing

record ('st, 'g) GoalHandle =
  gh_goal :: 'g
  gh_info :: GoalInfo
  gh_query :: "query option"
  gh_cancel_flag :: "flag option"
  gh_state :: "'st itself"

abbreviation gh_id :: "('st, 'g) GoalHandle \<Rightarrow> GoalId" where
  "gh_id h \<equiv> gi_goal_id (gh_info h)"

text \<open>
  \<^verbatim>\<open>recv_goal\<close> after the query has arrived: the payload is unwrapped and deserialized.
\<close>

definition recv_goal ::
    "query \<Rightarrow> ('g \<times> GoalId) option \<Rightarrow> Time \<Rightarrow> ((Requested, 'g) GoalHandle, string) result" where
  "recv_goal q request now =
     (if \<not> q_has_payload q then Panic
      else case request of
        None \<Rightarrow> Err ''deserialization failed''
      | Some (goal, gid) \<Rightarrow>
          Ok \<lparr>gh_goal = goal, gh_info = goal_info_new gid now, gh_query = Some q,
              gh_cancel_flag = None, gh_state = TYPE(Requested)\<rparr>)"

definition accept ::
    "instant \<Rightarrow> instant \<Rightarrow> (Requested, 'g) GoalHandle \<Rightarrow>
     ('g, 'r, 'f, (Accepted, 'g) GoalHandle) server_exec" where
  "accept now_expires now_stamp h =
     andthen (case gh_query h of
                Some q \<Rightarrow> reply q (GoalReply (q_id q) True (gi_stamp (gh_info h)))
              | None \<Rightarrow> ret ()) (\<lambda>_.
     andthen (modify (\<lambda>m.
        let expires_at = map_option (\<lambda>timeout. now_expires + timeout) (gm_goal_timeout m)
        in ((), m\<lparr>gm_goals := (gm_goals m)(gh_id h \<mapsto> SG_Accepted (gh_goal h) now_stamp expires_at)\<rparr>))) (\<lambda>_.
     andthen publish_status (\<lambda>_.
     ret \<lparr>gh_goal = gh_goal h, gh_info = gh_info h, gh_query = None, gh_cancel_flag = None,
          gh_state = TYPE(Accepted)\<rparr>)))"

definition reject :: "(Requested, 'g) GoalHandle \<Rightarrow> ('g, 'r, 'f, unit) server_exec" where
  "reject h = (case gh_query h of
     Some q \<Rightarrow> reply q (GoalReply (q_id q) False time_zero)
   | None \<Rightarrow> ret ())"

text \<open>\<^verbatim>\<open>Arc::new(AtomicBool::new(false))\<close>.\<close>

definition new_flag :: "('g, 'r, 'f, flag) server_exec" where
  "new_flag = (\<lambda>sv. (Ok (sv_next_flag sv),
     sv\<lparr>sv_flags := (sv_flags sv)(sv_next_flag sv := False), sv_next_flag := sv_next_flag sv + 1\<rparr>))"

definition execute ::
    "instant \<Rightarrow> (Accepted, 'g) GoalHandle \<Rightarrow> ('g, 'r, 'f, (Executing, 'g) GoalHandle) server_exec" where
  "execute now h =
     andthen new_flag (\<lambda>cancel_flag.
     andthen (modify (\<lambda>m.
        let expires_at = map_option (\<lambda>timeout. now + timeout) (gm_goal_timeout m)
        in ((), m\<lparr>gm_goals := (gm_goals m)(gh_id h \<mapsto> SG_Executing (gh_goal h) cancel_flag expires_at)\<rparr>))) (\<lambda>_.
     andthen publish_status (\<lambda>_.
     ret \<lparr>gh_goal = gh_goal h, gh_info = gh_info h, gh_query = None,
          gh_cancel_flag = Some cancel_flag, gh_state = TYPE(Executing)\<rparr>)))"

definition publish_feedback ::
    "(Executing, 'g) GoalHandle \<Rightarrow> 'f \<Rightarrow> ('g, 'r, 'f, unit) server_exec" where
  "publish_feedback h feedback = emit (FeedbackPublished (gh_id h) feedback)"

definition is_cancel_requested :: "('g, 'r, 'f) server \<Rightarrow> (Executing, 'g) GoalHandle \<Rightarrow> bool" where
  "is_cancel_requested sv h = unwrap_or (map_option (sv_flags sv) (gh_cancel_flag h)) False"

text \<open>Sending on the waiting channels; a receiver that is gone makes no difference.\<close>

definition send_all :: "channel list \<Rightarrow> 'r \<times> GoalStatus \<Rightarrow> ('g, 'r, 'f, unit) server_exec" where
  "send_all txs v = (\<lambda>sv. (Ok (), sv\<lparr>sv_sent := foldl (\<lambda>sent tx. sent(tx \<mapsto> v)) (sv_sent sv) txs\<rparr>))"

definition terminate ::
    "instant \<Rightarrow> (Executing, 'g) GoalHandle \<Rightarrow> 'r \<Rightarrow> GoalStatus \<Rightarrow> ('g, 'r, 'f, unit) server_exec" where
  "terminate now h result status =
     andthen (modify (\<lambda>m.
        let expires_at = Some (now + gm_result_timeout m);
            futures = unwrap_or (gm_result_futures m (gh_id h)) []
        in (futures, m\<lparr>gm_goals := (gm_goals m)(gh_id h \<mapsto> SG_Terminated result status now expires_at),
                       gm_result_futures := (gm_result_futures m)(gh_id h := None)\<rparr>))) (\<lambda>futures_to_notify.
     andthen (send_all futures_to_notify (result, status)) (\<lambda>_.
     publish_status))"

definition succeed :: "instant \<Rightarrow> (Executing, 'g) GoalHandle \<Rightarrow> 'r \<Rightarrow> ('g, 'r, 'f, unit) server_exec" where
  "succeed now h result = terminate now h result GS_Succeeded"

definition abort :: "instant \<Rightarrow> (Executing, 'g) GoalHandle \<Rightarrow> 'r \<Rightarrow> ('g, 'r, 'f, unit) server_exec" where
  "abort now h result = terminate now h result GS_Aborted"

definition canceled :: "instant \<Rightarrow> (Executing, 'g) GoalHandle \<Rightarrow> 'r \<Rightarrow> ('g, 'r, 'f, unit) server_exec" where
  "canceled now h result = terminate now h result GS_Canceled"

section \<open>Cancellation, results and expiration\<close>

text \<open>Setting the cancel flag of an executing goal; the result says whether there was one.\<close>

definition request_cancel :: "GoalId \<Rightarrow> ('g, 'r, 'f, bool) server_exec" where
  "request_cancel gid = (\<lambda>sv. case sv_goals sv gid of
     Some (SG_Executing _ cancel_flag _) \<Rightarrow>
       (Ok True, sv\<lparr>sv_flags := (sv_flags sv)(cancel_flag := True)\<rparr>)
   | _ \<Rightarrow> (Ok False, sv))"

definition handle_cancel_request :: "query \<Rightarrow> GoalInfo option \<Rightarrow> ('g, 'r, 'f, unit) server_exec" where
  "handle_cancel_request q request =
     (if \<not> q_has_payload q then panic
      else case request of
        None \<Rightarrow> ret ()
      | Some goal_info \<Rightarrow>
          andthen (request_cancel (gi_goal_id goal_info)) (\<lambda>cancelled.
            reply q (CancelReply (q_id q) (if cancelled then 1 else 0)
              (if cancelled then [goal_info] else []))))"

datatype 'r result_state = RS_Terminated 'r GoalStatus | RS_Waiting channel | RS_NotFound

text \<open>
  The part of \<^verbatim>\<open>handle_result_request\<close> up to the \<^verbatim>\<open>await\<close>: a fresh channel is created, and its
  sender is registered when the goal is known and not finished.
\<close>

definition lookup_result :: "GoalId \<Rightarrow> ('g, 'r, 'f, 'r result_state) server_exec" where
  "lookup_result gid = (\<lambda>sv.
     let tx = sv_next_channel sv; sv1 = sv\<lparr>sv_next_channel := tx + 1\<rparr>
     in modify (\<lambda>m. case gm_goals m gid of
          Some (SG_Terminated result status _ _) \<Rightarrow> (RS_Terminated result status, m)
        | Some _ \<Rightarrow> (RS_Waiting tx,
            m\<lparr>gm_result_futures := (gm_result_futures m)
                (gid \<mapsto> unwrap_or (gm_result_futures m gid) [] @ [tx])\<rparr>)
        | None \<Rightarrow> (RS_NotFound, m)) sv1)"

definition send_result :: "query \<Rightarrow> 'r \<Rightarrow> GoalStatus \<Rightarrow> ('g, 'r, 'f, unit) server_exec" where
  "send_result q result status = reply q (ResultReply (q_id q) (status_as_i8 status) result)"

text \<open>The whole handler; \<open>Some tx\<close> means that it waits on the channel \<open>tx\<close>.\<close>

definition handle_result_request :: "query \<Rightarrow> GoalId option \<Rightarrow> ('g, 'r, 'f, channel option) server_exec" where
  "handle_result_request q request =
     (if \<not> q_has_payload q then panic
      else case request of
        None \<Rightarrow> ret None
      | Some gid \<Rightarrow>
          andthen (lookup_result gid) (\<lambda>state. case state of
            RS_Terminated result status \<Rightarrow> andthen (send_result q result status) (\<lambda>_. ret None)
          | RS_Waiting tx \<Rightarrow> ret (Some tx)
          | RS_NotFound \<Rightarrow> ret None))"

definition resume_result_request :: "query \<Rightarrow> channel \<Rightarrow> ('g, 'r, 'f, bool) server_exec" where
  "resume_result_request q tx = (\<lambda>sv. case sv_sent sv tx of
     Some (result, status) \<Rightarrow> andthen (send_result q result status) (\<lambda>_. ret True) sv
   | None \<Rightarrow> (Ok False, sv))"

text \<open>The result service without a driver: it answers for finished goals only.\<close>

definition handle_result_requests_legacy ::
    "query \<Rightarrow> GoalId option \<Rightarrow> ('g, 'r, 'f, unit) server_exec" where
  "handle_result_requests_legacy q request =
     (if \<not> q_has_payload q then panic
      else case request of
        None \<Rightarrow> ret ()
      | Some gid \<Rightarrow> (\<lambda>sv. case sv_goals sv gid of
            Some (SG_Terminated result status _ _) \<Rightarrow> send_result q result status sv
          | _ \<Rightarrow> (Ok (), sv)))"

fun should_expire :: "instant \<Rightarrow> ('g, 'r) ServerGoalState \<Rightarrow> bool" where
  "should_expire now (SG_Accepted _ _ expires_at) = (case expires_at of Some t \<Rightarrow> t \<le> now | None \<Rightarrow> False)"
| "should_expire now (SG_Executing _ _ expires_at) = (case expires_at of Some t \<Rightarrow> t \<le> now | None \<Rightarrow> False)"
| "should_expire now (SG_Terminated _ _ _ expires_at) = (case expires_at of Some t \<Rightarrow> t \<le> now | None \<Rightarrow> False)"
| "should_expire now (SG_Canceling _) = False"

text \<open>The expired goals come in the iteration order of the hash map, hence as a set.\<close>

definition expired_ids :: "instant \<Rightarrow> ('g, 'r) GoalManager \<Rightarrow> GoalId set" where
  "expired_ids now m =
     {gid. case gm_goals m gid of Some st \<Rightarrow> should_expire now st | None \<Rightarrow> False}"

definition expire_goals :: "instant \<Rightarrow> ('g, 'r, 'f, GoalId set) server_exec" where
  "expire_goals now =
     andthen (modify (\<lambda>m.
        let expired = expired_ids now m
        in (expired, m\<lparr>gm_goals := (\<lambda>gid. if gid \<in> expired then None else gm_goals m gid)\<rparr>))) (\<lambda>expired.
     andthen (if expired \<noteq> {} then publish_status else ret ()) (\<lambda>_.
     ret expired))"

definition set_result_timeout :: "duration \<Rightarrow> ('g, 'r, 'f, unit) server_exec" where
  "set_result_timeout timeout = modify (\<lambda>m. ((), m\<lparr>gm_result_timeout := timeout\<rparr>))"

definition result_timeout :: "('g, 'r, 'f) server \<Rightarrow> duration" where
  "result_timeout sv = gm_result_timeout (sv_manager sv)"

section \<open>Single messages\<close>

text \<open>The requests without the handlers of the driver, and replies that the caller has made.\<close>

definition recv_cancel :: "query \<Rightarrow> GoalInfo option \<Rightarrow> (GoalInfo \<times> query, string) result" where
  "recv_cancel q request =
     (if \<not> q_has_payload q then Panic
      else case request of None \<Rightarrow> Err ''deserialization failed'' | Some goal_info \<Rightarrow> Ok (goal_info, q))"

definition recv_cancel_request_low :: "query \<Rightarrow> GoalInfo option \<Rightarrow> (GoalInfo \<times> query, string) result" where
  "recv_cancel_request_low q request =
     (if \<not> q_has_payload q then Panic
      else case request of None \<Rightarrow> Err ''deserialization failed'' | Some goal_info \<Rightarrow> Ok (goal_info, q))"

definition recv_result_request :: "query \<Rightarrow> GoalId option \<Rightarrow> (GoalId \<times> query, string) result" where
  "recv_result_request q request =
     (if \<not> q_has_payload q then Panic
      else case request of None \<Rightarrow> Err ''deserialization failed'' | Some gid \<Rightarrow> Ok (gid, q))"

definition send_goal_response_low :: "query \<Rightarrow> bool \<Rightarrow> Time \<Rightarrow> ('g, 'r, 'f, unit) server_exec" where
  "send_goal_response_low q accepted stamp = reply q (GoalReply (q_id q) accepted stamp)"

definition send_cancel_response_low :: "query \<Rightarrow> i8 \<Rightarrow> GoalInfo list \<Rightarrow> ('g, 'r, 'f, unit) server_exec" where
  "send_cancel_response_low q code infos = reply q (CancelReply (q_id q) code infos)"

definition send_result_response_low :: "query \<Rightarrow> i8 \<Rightarrow> 'r \<Rightarrow> ('g, 'r, 'f, unit) server_exec" where
  "send_result_response_low q status result = reply q (ResultReply (q_id q) status result)"

end
