(* ===== verification/Action_Driver.thy ===== *)
theory Action_Driver
  imports Action_Server
begin

text \<open>
  The driver loop of \<^verbatim>\<open>ros-z/src/action/driver.rs\<close> as a step relation.  A goal request spawns a
  task that accepts the goal, starts it and runs the user's handler; the tasks run concurrently,
  one atomic operation under the lock at a time, while the loop itself answers cancel and result
  requests and expires goals.  \<^verbatim>\<open>handle_result_request\<close> is awaited inside the loop: while it
  waits for a result (\<open>dr_waiting\<close>), the loop takes no other event.  Goal ids are chosen by
  the clients and nothing in the code compares them with earlier ones, so two tasks may carry the
  same id; the state records the ids of the goal requests (\<open>dr_requested\<close>, latest first), and the
  properties that need an id to be used once say so.
\<close>

section \<open>The step relation\<close>

text \<open>The tasks of the \<^verbatim>\<open>JoinSet\<close>, numbered in the order in which they were spawned.\<close>

datatype 'g task =
    T_Requested "(Requested, 'g) GoalHandle"
  | T_Accepted "(Accepted, 'g) GoalHandle"
  | T_Executing "(Executing, 'g) GoalHandle"

record ('g, 'r, 'f) driver =
  dr_server :: "('g, 'r, 'f) server"
  dr_tasks :: "nat \<rightharpoonup> 'g task"
  dr_next_task :: nat
  dr_waiting :: "(query \<times> GoalId \<times> channel) option"
  dr_running :: bool
  dr_requested :: "GoalId list"

definition driver_init :: "('g, 'r, 'f) server \<Rightarrow> ('g, 'r, 'f) driver" where
  "driver_init sv = \<lparr>dr_server = sv, dr_tasks = Map.empty, dr_next_task = 0, dr_waiting = None,
     dr_running = True, dr_requested = []\<rparr>"

text \<open>The loop is at its \<^verbatim>\<open>select!\<close>.\<close>

definition dr_ready :: "('g, 'r, 'f) driver \<Rightarrow> bool" where
  "dr_ready d \<longleftrightarrow> dr_running d \<and> dr_waiting d = None"

inductive driver_step :: "('g, 'r, 'f) driver \<Rightarrow> ('g, 'r, 'f) driver \<Rightarrow> bool" where
  shutdown: "dr_ready d \<Longrightarrow>
    driver_step d (d\<lparr>dr_tasks := Map.empty, dr_running := False\<rparr>)"
| expire: "dr_ready d \<Longrightarrow> expire_goals now (dr_server d) = (Ok expired, sv) \<Longrightarrow>
    driver_step d (d\<lparr>dr_server := sv\<rparr>)"
| goal_request: "dr_ready d \<Longrightarrow> recv_goal q request now = Ok h \<Longrightarrow>
    driver_step d (d\<lparr>dr_tasks := (dr_tasks d)(dr_next_task d \<mapsto> T_Requested h),
      dr_next_task := dr_next_task d + 1, dr_requested := gh_id h # dr_requested d\<rparr>)"
| cancel_request: "dr_ready d \<Longrightarrow> handle_cancel_request q request (dr_server d) = (Ok (), sv) \<Longrightarrow>
    driver_step d (d\<lparr>dr_server := sv\<rparr>)"
| result_request: "dr_ready d \<Longrightarrow> handle_result_request q request (dr_server d) = (Ok None, sv) \<Longrightarrow>
    driver_step d (d\<lparr>dr_server := sv\<rparr>)"
| result_wait: "dr_ready d \<Longrightarrow>
    handle_result_request q (Some gid) (dr_server d) = (Ok (Some tx), sv) \<Longrightarrow>
    driver_step d (d\<lparr>dr_server := sv, dr_waiting := Some (q, gid, tx)\<rparr>)"
| result_resume: "dr_waiting d = Some (q, gid, tx) \<Longrightarrow>
    resume_result_request q tx (dr_server d) = (Ok True, sv) \<Longrightarrow>
    driver_step d (d\<lparr>dr_server := sv, dr_waiting := None\<rparr>)"
| task_accept: "dr_tasks d k = Some (T_Requested h) \<Longrightarrow>
    accept now1 now2 h (dr_server d) = (Ok h', sv) \<Longrightarrow>
    driver_step d (d\<lparr>dr_server := sv, dr_tasks := (dr_tasks d)(k \<mapsto> T_Accepted h')\<rparr>)"
| task_execute: "dr_tasks d k = Some (T_Accepted h) \<Longrightarrow>
    execute now h (dr_server d) = (Ok h', sv) \<Longrightarrow>
    driver_step d (d\<lparr>dr_server := sv, dr_tasks := (dr_tasks d)(k \<mapsto> T_Executing h')\<rparr>)"
| task_feedback: "dr_tasks d k = Some (T_Executing h) \<Longrightarrow>
    publish_feedback h feedback (dr_server d) = (Ok (), sv) \<Longrightarrow>
    driver_step d (d\<lparr>dr_server := sv\<rparr>)"
| task_succeed: "dr_tasks d k = Some (T_Executing h) \<Longrightarrow>
    succeed now h res (dr_server d) = (Ok (), sv) \<Longrightarrow>
    driver_step d (d\<lparr>dr_server := sv, dr_tasks := (dr_tasks d)(k := None)\<rparr>)"
| task_abort: "dr_tasks d k = Some (T_Executing h) \<Longrightarrow>
    abort now h res (dr_server d) = (Ok (), sv) \<Longrightarrow>
    driver_step d (d\<lparr>dr_server := sv, dr_tasks := (dr_tasks d)(k := None)\<rparr>)"
| task_canceled: "dr_tasks d k = Some (T_Executing h) \<Longrightarrow>
    canceled now h res (dr_server d) = (Ok (), sv) \<Longrightarrow>
    driver_step d (d\<lparr>dr_server := sv, dr_tasks := (dr_tasks d)(k := None)\<rparr>)"
| task_drop: "dr_tasks d k = Some (T_Executing h) \<Longrightarrow>
    driver_step d (d\<lparr>dr_tasks := (dr_tasks d)(k := None)\<rparr>)"

inductive_cases driver_stepE: "driver_step d d'"

inductive reachable :: "('g, 'r, 'f) driver \<Rightarrow> bool" where
  start: "reachable (driver_init (server_new rt gt))"
| step: "reachable d \<Longrightarrow> driver_step d d' \<Longrightarrow> reachable d'"

section \<open>Effects of the operations\<close>

text \<open>
  The operations that the steps use, as equations; \<open>record_out\<close> is the part of the server that
  outputs change.
\<close>

definition record_out :: "('r, 'f) sent list \<Rightarrow> ('g, 'r, 'f) server \<Rightarrow> ('g, 'r, 'f) server" where
  "record_out outs sv = sv\<lparr>sv_out := sv_out sv @ outs\<rparr>"

lemmas server_defs = andthen_def modify_def emit_def reply_def publish_status_def ret_def panic_def
  new_flag_def send_all_def record_out_def

lemma record_out_simps [simp]:
  "sv_manager (record_out o1 sv) = sv_manager sv" "sv_flags (record_out o1 sv) = sv_flags sv"
  "sv_next_flag (record_out o1 sv) = sv_next_flag sv" "sv_sent (record_out o1 sv) = sv_sent sv"
  "sv_next_channel (record_out o1 sv) = sv_next_channel sv" "sv_out (record_out o1 sv) = sv_out sv @ o1"
  by (simp_all add: record_out_def)

lemma accept_Ok:
  assumes "accept now1 now2 h sv = (Ok h', sv')"
  shows "gh_info h' = gh_info h \<and> gh_goal h' = gh_goal h \<and> (\<exists>exp.
    sv_goals sv' = (sv_goals sv)(gh_id h \<mapsto> SG_Accepted (gh_goal h) now2 exp)) \<and>
    sv_futures sv' = sv_futures sv \<and> sv_flags sv' = sv_flags sv \<and> sv_sent sv' = sv_sent sv \<and>
    sv_next_flag sv' = sv_next_flag sv \<and> sv_next_channel sv' = sv_next_channel sv"
  using assms by (auto simp: accept_def server_defs Let_def split: option.splits if_splits)

lemma execute_Ok:
  assumes "execute now h sv = (Ok h', sv')"
  shows "gh_info h' = gh_info h \<and> gh_goal h' = gh_goal h \<and> gh_cancel_flag h' = Some (sv_next_flag sv) \<and>
    (\<exists>exp. sv_goals sv' = (sv_goals sv)(gh_id h \<mapsto> SG_Executing (gh_goal h) (sv_next_flag sv) exp)) \<and>
    sv_futures sv' = sv_futures sv \<and> sv_flags sv' = (sv_flags sv)(sv_next_flag sv := False) \<and>
    sv_sent sv' = sv_sent sv \<and> sv_next_flag sv' = sv_next_flag sv + 1 \<and>
    sv_next_channel sv' = sv_next_channel sv"
  using assms by (auto simp: execute_def server_defs Let_def)

lemma foldl_sent: "foldl (\<lambda>sent tx. sent(tx \<mapsto> v)) m txs = (\<lambda>tx. if tx \<in> set txs then Some v else m tx)"
  by (induction txs arbitrary: m) auto

lemma terminate_Ok:
  assumes "terminate now h result status sv = (Ok (), sv')"
  shows "(\<exists>exp. sv_goals sv' = (sv_goals sv)(gh_id h \<mapsto> SG_Terminated result status now exp)) \<and>
    sv_futures sv' = (sv_futures sv)(gh_id h := None) \<and> sv_flags sv' = sv_flags sv \<and>
    sv_sent sv' = (\<lambda>tx. if tx \<in> set (unwrap_or (sv_futures sv (gh_id h)) [])
                        then Some (result, status) else sv_sent sv tx) \<and>
    sv_next_flag sv' = sv_next_flag sv \<and> sv_next_channel sv' = sv_next_channel sv"
  using assms by (auto simp: terminate_def server_defs Let_def foldl_sent fun_eq_iff)

lemma request_cancel_run:
  "request_cancel gid sv = (case sv_goals sv gid of
     Some (SG_Executing g f e) \<Rightarrow> (Ok True, sv\<lparr>sv_flags := (sv_flags sv)(f := True)\<rparr>)
   | _ \<Rightarrow> (Ok False, sv))"
  by (simp add: request_cancel_def)

lemma cancel_request_Ok:
  assumes "handle_cancel_request q request sv = (Ok (), sv')"
  shows "sv_manager sv' = sv_manager sv \<and> sv_sent sv' = sv_sent sv \<and>
    sv_next_flag sv' = sv_next_flag sv \<and> sv_next_channel sv' = sv_next_channel sv"
  using assms
  by (auto simp: handle_cancel_request_def request_cancel_def server_defs
      split: if_splits option.splits ServerGoalState.splits)

lemma result_request_Ok:
  assumes "handle_result_request q request sv = (Ok None, sv')"
  shows "sv_manager sv' = sv_manager sv \<and> sv_sent sv' = sv_sent sv \<and> sv_flags sv' = sv_flags sv \<and>
    sv_next_flag sv' = sv_next_flag sv \<and> sv_next_channel sv \<le> sv_next_channel sv'"
  using assms
  by (auto simp: handle_result_request_def lookup_result_def send_result_def server_defs Let_def
      split: if_splits option.splits ServerGoalState.splits result_state.splits)

lemma result_wait_Ok:
  assumes "handle_result_request q (Some gid) sv = (Ok (Some tx), sv')"
  shows "(\<exists>st. sv_goals sv gid = Some st \<and> (\<nexists>r s t e. st = SG_Terminated r s t e)) \<and>
    tx = sv_next_channel sv \<and> sv_next_channel sv' = sv_next_channel sv + 1 \<and>
    sv_goals sv' = sv_goals sv \<and>
    sv_futures sv' = (sv_futures sv)(gid \<mapsto> unwrap_or (sv_futures sv gid) [] @ [tx]) \<and>
    sv_sent sv' = sv_sent sv \<and> sv_flags sv' = sv_flags sv \<and> sv_next_flag sv' = sv_next_flag sv"
  using assms
  by (auto simp: handle_result_request_def lookup_result_def send_result_def server_defs Let_def
      split: if_splits option.splits ServerGoalState.splits result_state.splits)

lemma result_resume_Ok:
  assumes "resume_result_request q tx sv = (Ok True, sv')"
  shows "\<exists>r s. sv_sent sv tx = Some (r, s) \<and>
    sv' = record_out [ResultReply (q_id q) (status_as_i8 s) r] sv"
  using assms
  by (auto simp: resume_result_request_def send_result_def server_defs split: if_splits option.splits)

lemma expired_ids_iff: "gid \<in> expired_ids now m \<longleftrightarrow> (\<exists>st. gm_goals m gid = Some st \<and> should_expire now st)"
  by (auto simp: expired_ids_def split: option.splits)

lemma expire_goals_Ok:
  assumes "expire_goals now sv = (Ok expired, sv')"
  shows "expired = expired_ids now (sv_manager sv) \<and>
    sv_goals sv' = (\<lambda>gid. if gid \<in> expired then None else sv_goals sv gid) \<and>
    sv_futures sv' = sv_futures sv \<and> sv_flags sv' = sv_flags sv \<and> sv_sent sv' = sv_sent sv \<and>
    sv_next_flag sv' = sv_next_flag sv \<and> sv_next_channel sv' = sv_next_channel sv \<and>
    sv_out sv' = sv_out sv @
      (if expired = {} then [] else [StatusPublished (status_list (sv_manager sv'))])"
  using assms by (auto simp: expire_goals_def server_defs Let_def split: if_splits)

section \<open>The invariant\<close>

text \<open>The goal id of a task, and the ids that at most one goal request has carried.\<close>

fun task_id :: "'g task \<Rightarrow> GoalId" where
  "task_id (T_Requested h) = gh_id h"
| "task_id (T_Accepted h) = gh_id h"
| "task_id (T_Executing h) = gh_id h"

abbreviation requested_once :: "('g, 'r, 'f) driver \<Rightarrow> GoalId \<Rightarrow> bool" where
  "requested_once d gid \<equiv> count_list (dr_requested d) gid \<le> 1"

fun task_ok :: "('g, 'r, 'f) server \<Rightarrow> 'g task \<Rightarrow> bool" where
  "task_ok sv (T_Requested h) \<longleftrightarrow> sv_goals sv (gh_id h) = None \<and> sv_futures sv (gh_id h) = None"
| "task_ok sv (T_Accepted h) \<longleftrightarrow>
     (\<forall>st. sv_goals sv (gh_id h) = Some st \<longrightarrow> status_of st = GS_Accepted)"
| "task_ok sv (T_Executing h) \<longleftrightarrow> (\<exists>f. gh_cancel_flag h = Some f \<and>
     (\<forall>st. sv_goals sv (gh_id h) = Some st \<longrightarrow> (\<exists>g e. st = SG_Executing g f e)))"

fun state_ok :: "('g, 'r) ServerGoalState \<Rightarrow> bool" where
  "state_ok (SG_Canceling g) = False"
| "state_ok (SG_Terminated r s t e) = is_terminal s"
| "state_ok _ = True"

definition flag_at :: "('g, 'r, 'f) driver \<Rightarrow> GoalId \<Rightarrow> flag \<Rightarrow> bool" where
  "flag_at d gid f \<longleftrightarrow>
     (\<exists>g e. sv_goals (dr_server d) gid = Some (SG_Executing g f e)) \<or>
     (\<exists>k h. dr_tasks d k = Some (T_Executing h) \<and> gh_id h = gid \<and> gh_cancel_flag h = Some f)"

definition waiter :: "('g, 'r, 'f) server \<Rightarrow> GoalId \<Rightarrow> channel \<Rightarrow> bool" where
  "waiter sv gid tx \<longleftrightarrow> (\<exists>txs. sv_futures sv gid = Some txs \<and> tx \<in> set txs)"

definition finished :: "('g, 'r, 'f) server \<Rightarrow> GoalId \<Rightarrow> bool" where
  "finished sv gid \<longleftrightarrow> (\<exists>r s t e. sv_goals sv gid = Some (SG_Terminated r s t e))"

definition tasks_inv :: "('g, 'r, 'f) driver \<Rightarrow> bool" where
  "tasks_inv d \<longleftrightarrow>
     (\<forall>k t. dr_tasks d k = Some t \<longrightarrow> k < dr_next_task d \<and> task_id t \<in> set (dr_requested d) \<and>
        (requested_once d (task_id t) \<longrightarrow> task_ok (dr_server d) t)) \<and>
     (\<forall>k k' t t'. dr_tasks d k = Some t \<longrightarrow> dr_tasks d k' = Some t' \<longrightarrow> task_id t = task_id t' \<longrightarrow>
        requested_once d (task_id t) \<longrightarrow> k = k') \<and>
     (\<forall>gid st. sv_goals (dr_server d) gid = Some st \<longrightarrow> state_ok st \<and> gid \<in> set (dr_requested d)) \<and>
     (\<forall>gid. sv_futures (dr_server d) gid \<noteq> None \<longrightarrow> gid \<in> set (dr_requested d))"

definition flags_inv :: "('g, 'r, 'f) driver \<Rightarrow> bool" where
  "flags_inv d \<longleftrightarrow>
     (\<forall>gid f. flag_at d gid f \<longrightarrow> f < sv_next_flag (dr_server d)) \<and>
     (\<forall>gid gid' f. flag_at d gid f \<longrightarrow> flag_at d gid' f \<longrightarrow> gid = gid') \<and>
     (\<forall>k h. dr_tasks d k = Some (T_Executing h) \<longrightarrow> gh_cancel_flag h \<noteq> None) \<and>
     (\<forall>k k' h h'. dr_tasks d k = Some (T_Executing h) \<longrightarrow> dr_tasks d k' = Some (T_Executing h') \<longrightarrow>
        gh_cancel_flag h = gh_cancel_flag h' \<longrightarrow> k = k')"

definition waiters_inv :: "('g, 'r, 'f) driver \<Rightarrow> bool" where
  "waiters_inv d \<longleftrightarrow> (let sv = dr_server d in
     (\<forall>gid tx. waiter sv gid tx \<longrightarrow> tx < sv_next_channel sv \<and> sv_sent sv tx = None) \<and>
     (\<forall>gid gid' tx. waiter sv gid tx \<longrightarrow> waiter sv gid' tx \<longrightarrow> gid = gid') \<and>
     (\<forall>tx. sv_next_channel sv \<le> tx \<longrightarrow> sv_sent sv tx = None) \<and>
     (\<forall>gid tx. finished sv gid \<longrightarrow> \<not> waiter sv gid tx) \<and>
     (\<forall>q gid tx. dr_waiting d = Some (q, gid, tx) \<longrightarrow> tx < sv_next_channel sv \<and>
        (waiter sv gid tx \<or> sv_sent sv tx \<noteq> None)))"

definition driver_inv :: "('g, 'r, 'f) driver \<Rightarrow> bool" where
  "driver_inv d \<longleftrightarrow> tasks_inv d \<and> flags_inv d \<and> waiters_inv d"

lemma driver_inv_init: "driver_inv (driver_init (server_new rt gt))"
  by (simp add: driver_inv_def tasks_inv_def flags_inv_def waiters_inv_def driver_init_def
      server_new_def goal_manager_new_def flag_at_def waiter_def Let_def)

lemma task_ok_mono:
  "task_ok sv t \<Longrightarrow> sv_goals sv' (task_id t) = sv_goals sv (task_id t) \<or> sv_goals sv' (task_id t) = None \<Longrightarrow>
     sv_futures sv' (task_id t) = sv_futures sv (task_id t) \<or> (\<nexists>h. t = T_Requested h) \<Longrightarrow> task_ok sv' t"
  by (cases t) auto

lemma task_ok_same: "sv_manager sv' = sv_manager sv \<Longrightarrow> task_ok sv' t \<longleftrightarrow> task_ok sv t"
  by (cases t) simp_all

lemma tasks_inv_same:
  assumes "tasks_inv d" "dr_tasks d' = dr_tasks d" "dr_requested d' = dr_requested d"
    and "dr_next_task d' = dr_next_task d"
    and "sv_manager (dr_server d') = sv_manager (dr_server d)"
  shows "tasks_inv d'"
  using assms by (simp add: tasks_inv_def task_ok_same [OF assms(5)])

lemma task_of:
  "tasks_inv d \<Longrightarrow> dr_tasks d k = Some t \<Longrightarrow> requested_once d (task_id t) \<Longrightarrow> task_ok (dr_server d) t"
  by (auto simp: tasks_inv_def)

lemma task_unique:
  "tasks_inv d \<Longrightarrow> dr_tasks d k = Some t \<Longrightarrow> dr_tasks d k' = Some t' \<Longrightarrow> task_id t = task_id t' \<Longrightarrow>
   requested_once d (task_id t) \<Longrightarrow> k = k'"
  by (auto simp: tasks_inv_def)

lemma tasks_inv_update:
  assumes "tasks_inv d" "dr_tasks d k = Some t0"
    and "sv_goals sv = (sv_goals (dr_server d))(task_id t0 \<mapsto> st)" "state_ok st"
    and "\<And>g. g \<noteq> task_id t0 \<Longrightarrow> sv_futures sv g = sv_futures (dr_server d) g"
    and "\<And>t. new = Some t \<Longrightarrow> task_id t = task_id t0"
    and "\<And>t. new = Some t \<Longrightarrow> requested_once d (task_id t0) \<Longrightarrow> task_ok sv t"
  shows "tasks_inv (d\<lparr>dr_server := sv, dr_tasks := (dr_tasks d)(k := new)\<rparr>)"
proof -
  have used: "task_id t0 \<in> set (dr_requested d)" and lt: "k < dr_next_task d"
    using assms(1,2) by (auto simp: tasks_inv_def)
  have other: "task_ok sv t" if "dr_tasks d k' = Some t" "k' \<noteq> k" "requested_once d (task_id t)" for k' t
  proof -
    have "task_id t \<noteq> task_id t0" using task_unique [OF assms(1) that(1) assms(2)] that(2,3) by blast
    then show ?thesis
      by (intro task_ok_mono [OF task_of [OF assms(1) that(1,3)]]) (simp_all add: assms(3,5))
  qed
  have same: "k' = k" if "dr_tasks d k' = Some t" "task_id t = task_id t0" "requested_once d (task_id t0)"
    for k' t
    using task_unique [OF assms(1) that(1) assms(2) that(2)] that(2,3) by simp
  have fut: "g \<in> set (dr_requested d)" if "sv_futures sv g \<noteq> None" for g
    using assms(1,5) used that by (cases "g = task_id t0") (auto simp: tasks_inv_def)
  have goals: "state_ok s \<and> g \<in> set (dr_requested d)" if "sv_goals sv g = Some s" for g s
    using assms(1,3,4) used that by (auto simp: tasks_inv_def split: if_splits)
  have uniq: "k1 = k2" if "((dr_tasks d)(k := new)) k1 = Some t1" "((dr_tasks d)(k := new)) k2 = Some t2"
    "task_id t1 = task_id t2" "requested_once d (task_id t1)" for k1 k2 t1 t2
  proof (cases "k1 = k"; cases "k2 = k")
    assume "k1 = k" "k2 \<noteq> k"
    with that assms(6) [of t1] same [of k2 t2] show ?thesis by simp
  next
    assume "k1 \<noteq> k" "k2 = k"
    with that assms(6) [of t2] same [of k1 t1] show ?thesis by simp
  next
    assume "k1 \<noteq> k" "k2 \<noteq> k"
    with that task_unique [OF assms(1), of k1 t1 k2 t2] show ?thesis by simp
  qed simp
  have task: "k' < dr_next_task d \<and> task_id t \<in> set (dr_requested d) \<and>
    (requested_once d (task_id t) \<longrightarrow> task_ok sv t)" if "((dr_tasks d)(k := new)) k' = Some t" for k' t
  proof (cases "k' = k")
    case True
    with that used lt assms(6,7) [of t] show ?thesis by simp
  next
    case False
    with that have "dr_tasks d k' = Some t" by simp
    with assms(1) other [OF this False] show ?thesis by (simp add: tasks_inv_def)
  qed
  let ?d = "d\<lparr>dr_server := sv, dr_tasks := (dr_tasks d)(k := new)\<rparr>"
  have parts: "dr_tasks ?d = (dr_tasks d)(k := new)" "dr_server ?d = sv"
    "dr_requested ?d = dr_requested d" "dr_next_task ?d = dr_next_task d"
    by simp_all
  show ?thesis
    unfolding tasks_inv_def parts using task uniq goals fut by blast
qed

lemma tasks_inv_terminate:
  assumes "tasks_inv d" "dr_tasks d k = Some (T_Executing h)"
    and "terminate now h res status (dr_server d) = (Ok (), sv)" "is_terminal status"
  shows "tasks_inv (d\<lparr>dr_server := sv, dr_tasks := (dr_tasks d)(k := None)\<rparr>)"
  using terminate_Ok [OF assms(3)] assms(4)
  by (auto intro: tasks_inv_update [OF assms(1,2)])

lemma tasks_inv_request:
  assumes "tasks_inv d"
  shows "tasks_inv (d\<lparr>dr_tasks := (dr_tasks d)(dr_next_task d \<mapsto> T_Requested h),
      dr_next_task := dr_next_task d + 1, dr_requested := gh_id h # dr_requested d\<rparr>)"
proof -
  have new: "gh_id h \<notin> set (dr_requested d)" if "count_list (dr_requested d) (gh_id h) = 0"
    using that by (simp add: count_list_0_iff)
  have fresh: "sv_goals (dr_server d) (gh_id h) = None" "sv_futures (dr_server d) (gh_id h) = None"
    if "count_list (dr_requested d) (gh_id h) = 0"
    using assms new [OF that] by (cases "sv_goals (dr_server d) (gh_id h)"; auto simp: tasks_inv_def)+
  have id: "task_id t \<in> set (dr_requested d)" "k < dr_next_task d" if "dr_tasks d k = Some t" for k t
    using assms that by (auto simp: tasks_inv_def)
  have ok: "task_ok (dr_server d) t" if "dr_tasks d k = Some t"
    "count_list (gh_id h # dr_requested d) (task_id t) \<le> 1" for k t
    using task_of [OF assms that(1)] that(2) by (simp split: if_splits)
  have old: "task_id t \<noteq> gh_id h" if "dr_tasks d k = Some t"
    "count_list (gh_id h # dr_requested d) (task_id t) \<le> 1" for k t
    using id(1) [OF that(1)] that(2) new by (auto split: if_splits)
  have uniq: "k = k'" if "dr_tasks d k = Some t" "dr_tasks d k' = Some t'" "task_id t = task_id t'"
    "count_list (gh_id h # dr_requested d) (task_id t) \<le> 1" for k k' t t'
    using task_unique [OF assms that(1-3)] that(4) by (simp split: if_splits)
  let ?d = "d\<lparr>dr_tasks := (dr_tasks d)(dr_next_task d \<mapsto> T_Requested h),
      dr_next_task := dr_next_task d + 1, dr_requested := gh_id h # dr_requested d\<rparr>"
  have "k < dr_next_task ?d \<and> task_id t \<in> set (dr_requested ?d) \<and>
    (requested_once ?d (task_id t) \<longrightarrow> task_ok (dr_server ?d) t)" if "dr_tasks ?d k = Some t" for k t
  proof (cases "k = dr_next_task d")
    case True
    with that have "t = T_Requested h" by simp
    with True fresh show ?thesis by simp
  next
    case False
    with that have "dr_tasks d k = Some t" by simp
    with id [OF this] ok [OF this] show ?thesis by simp
  qed
  moreover have "k = k'" if "dr_tasks ?d k = Some t" "dr_tasks ?d k' = Some t'" "task_id t = task_id t'"
    "requested_once ?d (task_id t)" for k k' t t'
  proof (cases "k = dr_next_task d"; cases "k' = dr_next_task d")
    assume "k = dr_next_task d" "k' \<noteq> dr_next_task d"
    with that old [of k' t'] show ?thesis by (auto split: if_splits)
  next
    assume "k \<noteq> dr_next_task d" "k' = dr_next_task d"
    with that old [of k t] show ?thesis by (auto split: if_splits)
  next
    assume "k \<noteq> dr_next_task d" "k' \<noteq> dr_next_task d"
    with that uniq [of k t k' t'] show ?thesis by simp
  qed simp
  moreover have "state_ok st \<and> gid \<in> set (dr_requested ?d)" if "sv_goals (dr_server ?d) gid = Some st" for gid st
    using assms that by (simp add: tasks_inv_def)
  moreover have "gid \<in> set (dr_requested ?d)" if "sv_futures (dr_server ?d) gid \<noteq> None" for gid
    using assms that by (simp add: tasks_inv_def)
  ultimately show ?thesis
    unfolding tasks_inv_def by blast
qed

lemma tasks_inv_step:
  assumes "driver_step d d'" "tasks_inv d"
  shows "tasks_inv d'"
  using assms(1)
proof (cases rule: driver_step.cases)
  case (expire now expired sv)
  note ex = expire_goals_Ok [OF expire(3)]
  have "task_ok sv t" if "task_ok (dr_server d) t" for t
    using that by (rule task_ok_mono) (simp_all add: ex)
  with assms(2) expire(1) ex show ?thesis
    by (auto simp: tasks_inv_def split: if_splits)
next
  case (goal_request q request now h)
  then show ?thesis using tasks_inv_request [OF assms(2)] by simp
next
  case (cancel_request q request sv)
  with cancel_request_Ok [OF cancel_request(3)] show ?thesis
    by (auto intro: tasks_inv_same [OF assms(2)])
next
  case (result_request q request sv)
  with result_request_Ok [OF result_request(3)] show ?thesis
    by (auto intro: tasks_inv_same [OF assms(2)])
next
  case (result_wait q gid tx sv)
  note ok = result_wait_Ok [OF result_wait(3)]
  have "task_ok sv t" if "task_ok (dr_server d) t" for t
    using that ok by (cases t) auto
  with assms(2) result_wait(1) ok show ?thesis
    by (auto simp: tasks_inv_def)
next
  case (result_resume q gid tx sv)
  with result_resume_Ok [OF result_resume(3)] show ?thesis
    by (auto intro: tasks_inv_same [OF assms(2)])
next
  case (task_accept k h now1 now2 h' sv)
  note ok = accept_Ok [OF task_accept(3)]
  then obtain st where "sv_goals sv = (sv_goals (dr_server d))(gh_id h \<mapsto> st)" "status_of st = GS_Accepted"
    "state_ok st"
    by fastforce
  with ok task_accept(1) show ?thesis by (auto intro!: tasks_inv_update [OF assms(2) task_accept(2)])
next
  case (task_execute k h now h' sv)
  note ok = execute_Ok [OF task_execute(3)]
  then obtain g f e where "sv_goals sv = (sv_goals (dr_server d))(gh_id h \<mapsto> SG_Executing g f e)"
    "gh_cancel_flag h' = Some f"
    by fastforce
  with ok task_execute(1) show ?thesis by (auto intro!: tasks_inv_update [OF assms(2) task_execute(2)])
next
  case (task_feedback k h feedback sv)
  then show ?thesis
    by (auto simp: publish_feedback_def emit_def intro: tasks_inv_same [OF assms(2)])
next
  case (task_succeed k h now res sv)
  with tasks_inv_terminate [OF assms(2)] show ?thesis
    by (simp add: succeed_def is_terminal_def)
next
  case (task_abort k h now res sv)
  with tasks_inv_terminate [OF assms(2)] show ?thesis
    by (simp add: abort_def is_terminal_def)
next
  case (task_canceled k h now res sv)
  with tasks_inv_terminate [OF assms(2)] show ?thesis
    by (simp add: canceled_def is_terminal_def)
qed (use assms(2) in \<open>auto simp: tasks_inv_def\<close>)

text \<open>What a step does to the flags that goals own, and to the handlers that are running.\<close>

lemma flag_at_step:
  assumes "driver_step d d'"
  shows "\<exists>owner. \<forall>gid f. flag_at d' gid f \<longrightarrow> flag_at d gid f \<or> (f = sv_next_flag (dr_server d) \<and>
    sv_next_flag (dr_server d') = sv_next_flag (dr_server d) + 1 \<and> gid = owner)"
  using assms
proof (cases rule: driver_step.cases)
  case (expire now expired sv)
  with expire_goals_Ok [OF expire(3)] show ?thesis
    by (auto simp: flag_at_def split: if_splits)
next
  case (cancel_request q request sv)
  with cancel_request_Ok [OF cancel_request(3)] show ?thesis
    by (auto simp: flag_at_def)
next
  case (result_request q request sv)
  with result_request_Ok [OF result_request(3)] show ?thesis
    by (auto simp: flag_at_def)
next
  case (result_wait q gid tx sv)
  with result_wait_Ok [OF result_wait(3)] show ?thesis
    by (auto simp: flag_at_def)
next
  case (result_resume q gid tx sv)
  with result_resume_Ok [OF result_resume(3)] show ?thesis
    by (auto simp: flag_at_def)
next
  case (task_accept k h now1 now2 h' sv)
  with accept_Ok [OF task_accept(3)] show ?thesis
    by (auto simp: flag_at_def split: if_splits)
next
  case (task_execute k h now h' sv)
  with execute_Ok [OF task_execute(3)] show ?thesis
    by (intro exI [of _ "gh_id h"]) (auto simp: flag_at_def split: if_splits)
next
  case (task_succeed k h now res sv)
  with terminate_Ok [OF task_succeed(3) [unfolded succeed_def]] show ?thesis
    by (auto simp: flag_at_def split: if_splits)
next
  case (task_abort k h now res sv)
  with terminate_Ok [OF task_abort(3) [unfolded abort_def]] show ?thesis
    by (auto simp: flag_at_def split: if_splits)
next
  case (task_canceled k h now res sv)
  with terminate_Ok [OF task_canceled(3) [unfolded canceled_def]] show ?thesis
    by (auto simp: flag_at_def split: if_splits)
qed (auto simp: flag_at_def publish_feedback_def emit_def split: if_splits)

lemma handlers_step:
  assumes "driver_step d d'"
  shows "\<exists>owner. \<forall>k h. dr_tasks d' k = Some (T_Executing h) \<longrightarrow>
    dr_tasks d k = Some (T_Executing h) \<or>
    (gh_cancel_flag h = Some (sv_next_flag (dr_server d)) \<and> k = owner)"
  using assms
  by (cases rule: driver_step.cases) (auto split: if_splits dest!: execute_Ok)

lemma next_flag_step:
  assumes "driver_step d d'"
  shows "sv_next_flag (dr_server d) \<le> sv_next_flag (dr_server d')"
  using assms
  by (cases rule: driver_step.cases)
    (auto simp: succeed_def abort_def canceled_def publish_feedback_def emit_def
      dest!: expire_goals_Ok cancel_request_Ok result_request_Ok result_wait_Ok result_resume_Ok
        accept_Ok execute_Ok terminate_Ok)

lemma flags_inv_step:
  assumes "driver_step d d'" "flags_inv d"
  shows "flags_inv d'"
proof -
  from flag_at_step [OF assms(1)] obtain owner where old: "\<And>gid f. flag_at d' gid f \<Longrightarrow>
    flag_at d gid f \<or> (f = sv_next_flag (dr_server d) \<and>
      sv_next_flag (dr_server d') = sv_next_flag (dr_server d) + 1 \<and> gid = owner)"
    by blast
  note le = next_flag_step [OF assms(1)]
  have lt: "f < sv_next_flag (dr_server d)" if "flag_at d gid f" for gid f
    using that assms(2) by (auto simp: flags_inv_def)
  have bound: "f < sv_next_flag (dr_server d')" if "flag_at d' gid f" for gid f
    using old [OF that] lt le by fastforce
  have goal: "gid = gid'" if "flag_at d' gid f" "flag_at d' gid' f" for gid gid' f
    using old [OF that(1)] old [OF that(2)] lt assms(2) by (auto simp: flags_inv_def)
  from handlers_step [OF assms(1)] obtain owner' where run: "\<And>k h. dr_tasks d' k = Some (T_Executing h) \<Longrightarrow>
    dr_tasks d k = Some (T_Executing h) \<or>
    (gh_cancel_flag h = Some (sv_next_flag (dr_server d)) \<and> k = owner')"
    by blast
  have less: "\<exists>f. gh_cancel_flag h = Some f \<and> f < sv_next_flag (dr_server d)"
    if "dr_tasks d k = Some (T_Executing h)" for k h
    using assms(2) that lt unfolding flags_inv_def flag_at_def by blast
  have some: "gh_cancel_flag h \<noteq> None" if "dr_tasks d' k = Some (T_Executing h)" for k h
    using run [OF that] less by blast
  have task: "k = k'" if "dr_tasks d' k = Some (T_Executing h)" "dr_tasks d' k' = Some (T_Executing h')"
    "gh_cancel_flag h = gh_cancel_flag h'" for k k' h h'
  proof -
    have "k = k'" if "dr_tasks d k = Some (T_Executing h)" "dr_tasks d k' = Some (T_Executing h')"
      using assms(2) that \<open>gh_cancel_flag h = gh_cancel_flag h'\<close> unfolding flags_inv_def by blast
    then show ?thesis using run [OF that(1)] run [OF that(2)] that(3) less by force
  qed
  show ?thesis unfolding flags_inv_def using bound goal some task by blast
qed

text \<open>Waiters and channels: a step that leaves them alone, a new waiter, a finished goal.\<close>

lemma waiters_inv_same:
  assumes "waiters_inv d" "sv_futures (dr_server d') = sv_futures (dr_server d)"
    and "sv_sent (dr_server d') = sv_sent (dr_server d)"
    and "sv_next_channel (dr_server d) \<le> sv_next_channel (dr_server d')"
    and "dr_waiting d' = dr_waiting d \<or> dr_waiting d' = None"
    and "\<And>gid. finished (dr_server d') gid \<Longrightarrow> finished (dr_server d) gid"
  shows "waiters_inv d'"
proof -
  have w: "waiter (dr_server d') = waiter (dr_server d)"
    by (simp add: fun_eq_iff waiter_def assms(2))
  have lt: "x < sv_next_channel (dr_server d')" if "x < sv_next_channel (dr_server d)" for x
    using that assms(4) by simp
  have wait: "dr_waiting d = Some x" if "dr_waiting d' = Some x" for x
    using that assms(5) by auto
  show ?thesis
    using assms(1,6) unfolding waiters_inv_def Let_def w assms(3)
    by (auto simp: lt dest: order_trans [OF assms(4)] dest!: wait)
qed

lemma waiters_inv_wait:
  assumes "waiters_inv d" "handle_result_request q (Some gid) (dr_server d) = (Ok (Some tx), sv)"
  shows "waiters_inv (d\<lparr>dr_server := sv, dr_waiting := Some (q, gid, tx)\<rparr>)"
proof -
  note ok = result_wait_Ok [OF assms(2)]
  have w: "waiter sv g x \<longleftrightarrow> waiter (dr_server d) g x \<or> (g = gid \<and> x = tx)" for g x
    using ok by (cases "sv_futures (dr_server d) gid") (auto simp: waiter_def)
  have fresh: "\<not> waiter (dr_server d) g tx" "sv_sent (dr_server d) tx = None" for g
    using assms(1) ok by (auto simp: waiters_inv_def Let_def)
  have "finished sv g \<longleftrightarrow> finished (dr_server d) g" "\<not> finished (dr_server d) gid" for g
    using ok by (auto simp: finished_def)
  then show ?thesis
    using assms(1) ok fresh
    by (auto simp: waiters_inv_def Let_def w less_Suc_eq)
qed

lemma waiters_inv_terminate:
  assumes "waiters_inv d" "terminate now h res status (dr_server d) = (Ok (), sv)"
  shows "waiters_inv (d\<lparr>dr_server := sv, dr_tasks := tasks\<rparr>)"
proof -
  note ok = terminate_Ok [OF assms(2)]
  have w: "waiter sv g x \<longleftrightarrow> waiter (dr_server d) g x \<and> g \<noteq> gh_id h" for g x
    using ok by (auto simp: waiter_def)
  have s: "sv_sent sv x = (if waiter (dr_server d) (gh_id h) x then Some (res, status)
      else sv_sent (dr_server d) x)" for x
    using ok by (cases "sv_futures (dr_server d) (gh_id h)") (auto simp: waiter_def)
  have g: "finished sv g \<longleftrightarrow> finished (dr_server d) g" if "g \<noteq> gh_id h" for g
    using ok that by (auto simp: finished_def)
  have f: "g = gh_id h" if "finished sv g" "waiter (dr_server d) g x" for g x
    using g [of g] assms(1) that unfolding waiters_inv_def Let_def by blast
  have u: "g = g'" if "waiter (dr_server d) g x" "waiter (dr_server d) g' x" for g g' x
    using assms(1) that by (auto simp: waiters_inv_def Let_def)
  have n: "\<not> waiter (dr_server d) g x" if "sv_next_channel (dr_server d) \<le> x" for g x
    using assms(1) that by (force simp: waiters_inv_def Let_def)
  have "sv_next_channel sv = sv_next_channel (dr_server d)" using ok by simp
  then show ?thesis
    using assms(1) unfolding waiters_inv_def Let_def
    by (auto simp: w s n dest: u f)
qed

lemma waiters_inv_step:
  assumes "driver_step d d'" "waiters_inv d"
  shows "waiters_inv d'"
  using assms(1)
proof (cases rule: driver_step.cases)
  case (result_wait q gid tx sv)
  with waiters_inv_wait [OF assms(2)] show ?thesis by simp
next
  case (task_succeed gid h now res sv)
  with waiters_inv_terminate [OF assms(2)] show ?thesis by (simp add: succeed_def)
next
  case (task_abort gid h now res sv)
  with waiters_inv_terminate [OF assms(2)] show ?thesis by (simp add: abort_def)
next
  case (task_canceled gid h now res sv)
  with waiters_inv_terminate [OF assms(2)] show ?thesis by (simp add: canceled_def)
qed (use assms(2) in \<open>auto intro!: waiters_inv_same [OF assms(2)]
    simp: publish_feedback_def emit_def finished_def
    dest!: expire_goals_Ok cancel_request_Ok result_request_Ok result_resume_Ok accept_Ok execute_Ok
    split: if_splits\<close>)

theorem reachable_inv: "reachable d \<Longrightarrow> driver_inv d"
proof (induction rule: reachable.induct)
  case (start rt gt)
  show ?case by (rule driver_inv_init)
next
  case (step d d')
  then show ?case
    using tasks_inv_step flags_inv_step waiters_inv_step by (auto simp: driver_inv_def)
qed

section \<open>A concrete run\<close>

definition ex_query :: query where
  "ex_query = \<lparr>q_id = 1, q_has_payload = True, q_has_attachment = True\<rparr>"

definition ex_gid :: GoalId where
  "ex_gid = GoalId (replicate 16 7)"

lemma example_executing:
  "\<exists>(d :: (nat, nat, nat) driver) h. reachable d \<and> dr_ready d \<and>
     dr_tasks d 0 = Some (T_Executing h) \<and> gh_id h = ex_gid \<and> dr_requested d = [ex_gid] \<and>
     (\<exists>g f e. sv_goals (dr_server d) ex_gid = Some (SG_Executing g f e))"
proof -
  let ?d0 = "driver_init (server_new 10 None) :: (nat, nat, nat) driver"
  obtain h0 :: "(Requested, nat) GoalHandle" where
    h0: "recv_goal ex_query (Some (5, ex_gid)) time_zero = Ok h0" "gh_id h0 = ex_gid"
    "gh_query h0 = Some ex_query"
    by (simp add: recv_goal_def ex_query_def goal_info_new_def)
  let ?d1 = "?d0\<lparr>dr_tasks := [0 \<mapsto> T_Requested h0], dr_next_task := 1, dr_requested := [ex_gid]\<rparr>"
  have "driver_step ?d0 ?d1"
    using driver_step.goal_request [of ?d0 ex_query "Some (5, ex_gid)" time_zero h0] h0
    by (simp add: dr_ready_def driver_init_def)
  then have r1: "reachable ?d1" by (rule reachable.step [OF reachable.start])
  obtain h1 sv1 where a: "accept 0 0 h0 (dr_server ?d1) = (Ok h1, sv1)"
    using h0(3) by (simp add: accept_def server_defs ex_query_def)
  let ?d2 = "?d1\<lparr>dr_server := sv1, dr_tasks := (dr_tasks ?d1)(0 \<mapsto> T_Accepted h1)\<rparr>"
  have r2: "reachable ?d2"
    by (rule reachable.step [OF r1]) (rule driver_step.task_accept [OF _ a], simp)
  obtain h2 sv2 where e: "execute 0 h1 (dr_server ?d2) = (Ok h2, sv2)"
    by (simp add: execute_def server_defs)
  let ?d3 = "?d2\<lparr>dr_server := sv2, dr_tasks := (dr_tasks ?d2)(0 \<mapsto> T_Executing h2)\<rparr>"
  have r3: "reachable ?d3"
    by (rule reachable.step [OF r2]) (rule driver_step.task_execute [OF _ e], simp)
  moreover have "\<exists>g f e. sv_goals sv2 ex_gid = Some (SG_Executing g f e)" "gh_id h2 = ex_gid"
    using execute_Ok [OF e] accept_Ok [OF a] h0(2) by auto
  moreover have "dr_ready ?d3" by (simp add: dr_ready_def driver_init_def)
  ultimately show ?thesis by force
qed

lemma example_waiting:
  "\<exists>(d :: (nat, nat, nat) driver) h tx. reachable d \<and> dr_waiting d = Some (ex_query, ex_gid, tx) \<and>
     sv_sent (dr_server d) tx = None \<and> dr_tasks d 0 = Some (T_Executing h) \<and> gh_id h = ex_gid"
proof -
  from example_executing obtain d :: "(nat, nat, nat) driver" and h g f e where d: "reachable d"
    "dr_ready d" "dr_tasks d 0 = Some (T_Executing h)" "gh_id h = ex_gid"
    "sv_goals (dr_server d) ex_gid = Some (SG_Executing g f e)"
    by blast
  then obtain tx sv where w: "handle_result_request ex_query (Some ex_gid) (dr_server d) = (Ok (Some tx), sv)"
    by (simp add: handle_result_request_def lookup_result_def server_defs ex_query_def Let_def)
  let ?d = "d\<lparr>dr_server := sv, dr_waiting := Some (ex_query, ex_gid, tx)\<rparr>"
  have "driver_step d ?d" by (rule driver_step.result_wait [OF d(2) w])
  with d(1) have "reachable ?d" by (rule reachable.step)
  moreover have "sv_sent sv tx = None"
    using result_wait_Ok [OF w] reachable_inv [OF d(1)]
    by (auto simp: driver_inv_def waiters_inv_def Let_def)
  ultimately show ?thesis using d(3,4) by force
qed

section \<open>Properties\<close>

text \<open>
  C5.  In every reachable state of the server, one step changes the recorded status of a goal whose
  id no other goal request has carried only along the goal state machine, with one exception: a
  handler may report cancellation of a goal that is still recorded as executing.  A finished goal
  of that kind is never changed again.  Other goals may use their ids as often as they like.
\<close>

theorem goal_status_steps:
  assumes "reachable d" and "driver_step d d'" and "requested_once d gid"
    and "sv_goals (dr_server d) gid = Some st" and "sv_goals (dr_server d') gid = Some st'"
  shows "st' = st \<or> (\<not> finished (dr_server d) gid \<and>
    ((\<exists>e. transition_goal_state (status_of st) e = status_of st' \<and> status_of st' \<noteq> GS_Unknown) \<or>
     (status_of st = GS_Executing \<and> status_of st' = GS_Canceled)))"
proof -
  have inv: "tasks_inv d" using reachable_inv [OF assms(1)] by (simp add: driver_inv_def)
  then have ok: "state_ok st" using assms(4) by (auto simp: tasks_inv_def)
  have t: "task_ok (dr_server d) t" if "dr_tasks d k = Some t" "task_id t = gid" for k t
    using task_of [OF inv that(1)] that(2) assms(3) by simp
  show ?thesis
    using assms(2)
  proof (cases rule: driver_step.cases)
    case (expire now expired sv)
    with assms(4,5) expire_goals_Ok [OF expire(3)] show ?thesis by (auto split: if_splits)
  next
    case (task_accept k h now1 now2 h' sv)
    with assms(4,5) accept_Ok [OF task_accept(3)] t [OF task_accept(2)] show ?thesis
      by (auto split: if_splits)
  next
    case (task_execute k h now h' sv)
    with assms(4,5) execute_Ok [OF task_execute(3)] t [OF task_execute(2)] ok
    show ?thesis
      by (auto split: if_splits simp: transition_goal_state_def finished_def is_terminal_def
          intro!: exI [of _ EV_Execute])
  next
    case (task_succeed k h now res sv)
    with assms(4,5) terminate_Ok [OF task_succeed(3) [unfolded succeed_def]]
      t [OF task_succeed(2)] show ?thesis
      by (auto split: if_splits simp: transition_goal_state_def finished_def
          intro!: exI [of _ EV_Succeed])
  next
    case (task_abort k h now res sv)
    with assms(4,5) terminate_Ok [OF task_abort(3) [unfolded abort_def]]
      t [OF task_abort(2)] show ?thesis
      by (auto split: if_splits simp: transition_goal_state_def finished_def
          intro!: exI [of _ EV_Abort])
  next
    case (task_canceled k h now res sv)
    with assms(4,5) terminate_Ok [OF task_canceled(3) [unfolded canceled_def]]
      t [OF task_canceled(2)] show ?thesis
      by (auto split: if_splits simp: finished_def)
  qed (use assms(4,5) in \<open>auto simp: publish_feedback_def emit_def
      dest!: cancel_request_Ok result_request_Ok result_wait_Ok result_resume_Ok\<close>)
qed

theorem goal_status_steps_witness:
  "\<exists>(d :: (nat, nat, nat) driver) d' st st'. reachable d \<and> driver_step d d' \<and> requested_once d ex_gid \<and>
     sv_goals (dr_server d) ex_gid = Some st \<and> sv_goals (dr_server d') ex_gid = Some st' \<and>
     (st' = st \<or> (\<not> finished (dr_server d) ex_gid \<and>
       ((\<exists>e. transition_goal_state (status_of st) e = status_of st' \<and> status_of st' \<noteq> GS_Unknown) \<or>
        (status_of st = GS_Executing \<and> status_of st' = GS_Canceled))))"
proof -
  from example_executing obtain d :: "(nat, nat, nat) driver" and h g f e where d: "reachable d"
    "dr_tasks d 0 = Some (T_Executing h)" "gh_id h = ex_gid" "dr_requested d = [ex_gid]"
    "sv_goals (dr_server d) ex_gid = Some (SG_Executing g f e)"
    by blast
  obtain sv where c: "canceled 0 h 3 (dr_server d) = (Ok (), sv)"
    by (simp add: canceled_def terminate_def server_defs)
  let ?d = "d\<lparr>dr_server := sv, dr_tasks := (dr_tasks d)(0 := None)\<rparr>"
  have st: "driver_step d ?d" by (rule driver_step.task_canceled [OF d(2) c])
  obtain st' where st': "sv_goals (dr_server ?d) ex_gid = Some st'"
    using terminate_Ok [OF c [unfolded canceled_def]] d(3) by auto
  have once: "requested_once d ex_gid" by (simp add: d(4))
  from goal_status_steps [OF d(1) st once d(5) st'] d(1,5) st once st' show ?thesis by blast
qed

text \<open>
  C29.  A goal id that a client uses again takes the finished goal back to the beginning: there is
  a run in which a goal that has succeeded is recorded as accepted after the next step, and its
  result is gone from the table.
\<close>

theorem reused_id_restarts_goal:
  "\<exists>(d :: (nat, nat, nat) driver) d'. reachable d \<and> driver_step d d' \<and>
     map_option status_of (sv_goals (dr_server d) ex_gid) = Some GS_Succeeded \<and>
     finished (dr_server d) ex_gid \<and>
     map_option status_of (sv_goals (dr_server d') ex_gid) = Some GS_Accepted \<and>
     \<not> finished (dr_server d') ex_gid"
proof -
  from example_executing obtain d :: "(nat, nat, nat) driver" and h where d: "reachable d" "dr_ready d"
    "dr_tasks d 0 = Some (T_Executing h)" "gh_id h = ex_gid"
    by blast
  obtain sv where s: "succeed 0 h 42 (dr_server d) = (Ok (), sv)"
    by (simp add: succeed_def terminate_def server_defs)
  let ?d1 = "d\<lparr>dr_server := sv, dr_tasks := (dr_tasks d)(0 := None)\<rparr>"
  have r1: "reachable ?d1" by (rule reachable.step [OF d(1)]) (rule driver_step.task_succeed [OF d(3) s])
  obtain h0 :: "(Requested, nat) GoalHandle" where
    h0: "recv_goal ex_query (Some (5, ex_gid)) time_zero = Ok h0" "gh_id h0 = ex_gid"
    "gh_query h0 = Some ex_query"
    by (simp add: recv_goal_def ex_query_def goal_info_new_def)
  let ?k = "dr_next_task ?d1"
  let ?d2 = "?d1\<lparr>dr_tasks := (dr_tasks ?d1)(?k \<mapsto> T_Requested h0), dr_next_task := ?k + 1,
    dr_requested := gh_id h0 # dr_requested ?d1\<rparr>"
  have r2: "reachable ?d2"
    by (rule reachable.step [OF r1], rule driver_step.goal_request [OF _ h0(1)])
      (use d(2) in \<open>simp add: dr_ready_def\<close>)
  obtain h1 sv1 where a: "accept 0 0 h0 (dr_server ?d2) = (Ok h1, sv1)"
    using h0(3) by (simp add: accept_def server_defs ex_query_def)
  let ?d3 = "?d2\<lparr>dr_server := sv1, dr_tasks := (dr_tasks ?d2)(?k \<mapsto> T_Accepted h1)\<rparr>"
  have st: "driver_step ?d2 ?d3" by (rule driver_step.task_accept [OF _ a]) simp
  obtain e where "sv_goals sv ex_gid = Some (SG_Terminated 42 GS_Succeeded 0 e)"
    using terminate_Ok [OF s [unfolded succeed_def]] d(4) by auto
  moreover obtain e' where "sv_goals sv1 ex_gid = Some (SG_Accepted (gh_goal h0) 0 e')"
    using accept_Ok [OF a] h0(2) by auto
  ultimately show ?thesis
    using r2 st by (intro exI [of _ ?d2] exI [of _ ?d3]) (simp add: finished_def)
qed

text \<open>
  C3.  No result is lost: when the driver waits for the result of a goal and a handler of that goal
  finishes it, in whatever way, the waiting request is answered with exactly that result and
  status code.  This holds also when goal ids are used again.
\<close>

theorem waiting_request_answered:
  assumes "reachable d" and "dr_waiting d = Some (q, gid, tx)" and "sv_sent (dr_server d) tx = None"
    and "dr_tasks d k = Some (T_Executing h)" and "gh_id h = gid"
    and "terminate now h res status (dr_server d) = (Ok (), sv)" and "q_has_attachment q"
  shows "resume_result_request q tx sv =
    (Ok True, record_out [ResultReply (q_id q) (status_as_i8 status) res] sv)"
proof -
  from reachable_inv [OF assms(1)] have "waiters_inv d"
    by (simp add: driver_inv_def)
  then have "waiter (dr_server d) gid tx"
    using assms(2,3) by (auto simp: waiters_inv_def Let_def)
  then have "sv_sent sv tx = Some (res, status)"
    using terminate_Ok [OF assms(6)] assms(5) by (auto simp: waiter_def)
  then show ?thesis
    using assms(7) by (simp add: resume_result_request_def send_result_def server_defs)
qed

theorem waiting_request_answered_witness:
  "\<exists>(d :: (nat, nat, nat) driver) (sv :: (nat, nat, nat) server) tx. reachable d \<and>
     dr_waiting d = Some (ex_query, ex_gid, tx) \<and>
     resume_result_request ex_query tx sv = (Ok True, record_out [ResultReply 1 4 42] sv)"
proof -
  from example_waiting obtain d :: "(nat, nat, nat) driver" and h tx where d: "reachable d"
    "dr_waiting d = Some (ex_query, ex_gid, tx)" "sv_sent (dr_server d) tx = None"
    "dr_tasks d 0 = Some (T_Executing h)" "gh_id h = ex_gid"
    by blast
  obtain sv where t: "terminate 0 h 42 GS_Succeeded (dr_server d) = (Ok (), sv)"
    by (simp add: terminate_def server_defs)
  have "q_has_attachment ex_query" by (simp add: ex_query_def)
  from waiting_request_answered [OF d t this] d(1,2) show ?thesis
    by (auto simp: ex_query_def)
qed

lemma sent_mono:
  assumes "driver_step d d'" "sv_sent (dr_server d') tx = None"
  shows "sv_sent (dr_server d) tx = None"
  using assms
  by (cases rule: driver_step.cases)
    (auto simp: succeed_def abort_def canceled_def publish_feedback_def emit_def
      dest!: accept_Ok execute_Ok terminate_Ok result_resume_Ok expire_goals_Ok cancel_request_Ok
        result_request_Ok result_wait_Ok split: if_splits)

lemma driver_step_blocked:
  assumes "driver_step d d'" "dr_waiting d = Some (q, gid, tx)" "sv_sent (dr_server d') tx = None"
  shows "sv_sent (dr_server d) tx = None \<and> dr_waiting d' = Some (q, gid, tx) \<and>
    sv_next_flag (dr_server d) \<le> sv_next_flag (dr_server d') \<and>
    (\<forall>f < sv_next_flag (dr_server d). sv_flags (dr_server d') f = sv_flags (dr_server d) f)"
  using assms
  by (cases rule: driver_step.cases)
    (auto simp: dr_ready_def succeed_def abort_def canceled_def publish_feedback_def emit_def
      dest!: accept_Ok execute_Ok terminate_Ok result_resume_Ok split: if_splits)

text \<open>
  While the driver waits for a result it does nothing else: in any continuation of the run in
  which that result has not been sent, it still waits, and no cancel flag of any goal has been set
  (or reset), because cancel requests are not served.
\<close>

theorem driver_blocked_while_waiting:
  assumes "driver_step\<^sup>*\<^sup>* d d'" and "dr_waiting d = Some (q, gid, tx)"
    and "sv_sent (dr_server d') tx = None"
  shows "dr_waiting d' = Some (q, gid, tx) \<and>
    (\<forall>f < sv_next_flag (dr_server d). sv_flags (dr_server d') f = sv_flags (dr_server d) f)"
proof -
  have "sv_sent (dr_server d') tx = None \<Longrightarrow> dr_waiting d' = Some (q, gid, tx) \<and>
    sv_next_flag (dr_server d) \<le> sv_next_flag (dr_server d') \<and>
    (\<forall>f < sv_next_flag (dr_server d). sv_flags (dr_server d') f = sv_flags (dr_server d) f)"
    using assms(1)
  proof (induction rule: rtranclp_induct)
    case base
    then show ?case using assms(2) by simp
  next
    case (step e e')
    have "sv_sent (dr_server e) tx = None"
      using step.hyps(2) step.prems sent_mono by blast
    with step.IH driver_step_blocked [OF step.hyps(2) _ step.prems] show ?case by fastforce
  qed
  with assms(3) show ?thesis by blast
qed

theorem driver_blocked_while_waiting_witness:
  "\<exists>(d :: (nat, nat, nat) driver) d' tx. driver_step d d' \<and> reachable d \<and>
     dr_waiting d' = Some (ex_query, ex_gid, tx) \<and>
     (\<forall>f < sv_next_flag (dr_server d). sv_flags (dr_server d') f = sv_flags (dr_server d) f)"
proof -
  from example_waiting obtain d :: "(nat, nat, nat) driver" and h tx where d: "reachable d"
    "dr_waiting d = Some (ex_query, ex_gid, tx)" "sv_sent (dr_server d) tx = None"
    "dr_tasks d 0 = Some (T_Executing h)" "gh_id h = ex_gid"
    by blast
  obtain sv where f: "publish_feedback h 9 (dr_server d) = (Ok (), sv)"
    by (simp add: publish_feedback_def emit_def)
  have st: "driver_step d (d\<lparr>dr_server := sv\<rparr>)" by (rule driver_step.task_feedback [OF d(4) f])
  have sent: "sv_sent (dr_server (d\<lparr>dr_server := sv\<rparr>)) tx = None"
    using f d(3) by (auto simp: publish_feedback_def emit_def)
  from driver_blocked_while_waiting [OF r_into_rtranclp [where r = driver_step, OF st] d(2) sent] st d(1) show ?thesis
    by blast
qed

text \<open>
  C38.  In every reachable state a well-formed cancel request is answered.  When the goal is
  recorded as executing, the answer is return code 1 with the goal, and exactly the handler that
  owns the recorded flag sees the request: it is a handler of that goal, there is at most one, and
  for a goal whose id was requested once it is the goal's handler.  In every other case the answer
  is return code 0 without a goal and no handler sees anything new.
\<close>

theorem cancel_request_reaches_handler:
  assumes "reachable d" and "q_has_payload q" and "q_has_attachment q" and "gi_goal_id info = gid"
  shows "\<exists>sv. handle_cancel_request q (Some info) (dr_server d) = (Ok (), sv) \<and>
    (case sv_goals (dr_server d) gid of
       Some (SG_Executing g f e) \<Rightarrow>
         sv_out sv = sv_out (dr_server d) @ [CancelReply (q_id q) 1 [info]] \<and>
         (\<forall>k h. dr_tasks d k = Some (T_Executing h) \<longrightarrow> is_cancel_requested sv h =
            (is_cancel_requested (dr_server d) h \<or> gh_cancel_flag h = Some f)) \<and>
         (\<forall>k h k' h'. dr_tasks d k = Some (T_Executing h) \<longrightarrow> gh_cancel_flag h = Some f \<longrightarrow>
            gh_id h = gid \<and> (dr_tasks d k' = Some (T_Executing h') \<and> gh_cancel_flag h' = Some f \<longrightarrow> k' = k)) \<and>
         (\<forall>k h. dr_tasks d k = Some (T_Executing h) \<longrightarrow> gh_id h = gid \<longrightarrow> requested_once d gid \<longrightarrow>
            gh_cancel_flag h = Some f)
     | _ \<Rightarrow>
         sv_out sv = sv_out (dr_server d) @ [CancelReply (q_id q) 0 []] \<and>
         (\<forall>k h. dr_tasks d k = Some (T_Executing h) \<longrightarrow>
            is_cancel_requested sv h = is_cancel_requested (dr_server d) h))"
proof (cases "\<exists>g f e. sv_goals (dr_server d) gid = Some (SG_Executing g f e)")
  case True
  then obtain g f e where st: "sv_goals (dr_server d) gid = Some (SG_Executing g f e)" by blast
  from reachable_inv [OF assms(1)] have inv: "tasks_inv d" "flags_inv d"
    by (simp_all add: driver_inv_def)
  have run: "handle_cancel_request q (Some info) (dr_server d) =
    (Ok (), record_out [CancelReply (q_id q) 1 [info]]
      (dr_server d\<lparr>sv_flags := (sv_flags (dr_server d))(f := True)\<rparr>))"
    using assms(2-4) st by (simp add: handle_cancel_request_def request_cancel_def server_defs)
  have owner: "gh_id h = gid" if "dr_tasks d k = Some (T_Executing h)" "gh_cancel_flag h = Some f" for k h
    using inv(2) st that unfolding flags_inv_def flag_at_def by blast
  have one: "k' = k" if "dr_tasks d k = Some (T_Executing h)" "gh_cancel_flag h = Some f"
    "dr_tasks d k' = Some (T_Executing h')" "gh_cancel_flag h' = Some f" for k h k' h'
    using inv(2) that unfolding flags_inv_def by metis
  have its: "gh_cancel_flag h = Some f"
    if "dr_tasks d k = Some (T_Executing h)" "gh_id h = gid" "requested_once d gid" for k h
    using task_of [OF inv(1) that(1)] that(2,3) st by auto
  have sees: "is_cancel_requested (record_out [CancelReply (q_id q) 1 [info]]
      (dr_server d\<lparr>sv_flags := (sv_flags (dr_server d))(f := True)\<rparr>)) h =
    (is_cancel_requested (dr_server d) h \<or> gh_cancel_flag h = Some f)" for h
    by (cases "gh_cancel_flag h") (auto simp: is_cancel_requested_def)
  show ?thesis
    unfolding run st using sees owner one its by auto
next
  case False
  then have "request_cancel gid (dr_server d) = (Ok False, dr_server d)"
    by (auto simp: request_cancel_def split: option.splits ServerGoalState.splits)
  then have "handle_cancel_request q (Some info) (dr_server d) =
    (Ok (), record_out [CancelReply (q_id q) 0 []] (dr_server d))"
    using assms(2-4) by (simp add: handle_cancel_request_def server_defs)
  with False show ?thesis
    by (auto simp: is_cancel_requested_def split: option.splits ServerGoalState.splits)
qed

theorem cancel_request_reaches_handler_witness:
  "\<exists>(d :: (nat, nat, nat) driver) h sv. reachable d \<and> dr_tasks d 0 = Some (T_Executing h) \<and>
     handle_cancel_request ex_query (Some (goal_info_new ex_gid time_zero)) (dr_server d) = (Ok (), sv) \<and>
     is_cancel_requested sv h"
proof -
  from example_executing obtain d :: "(nat, nat, nat) driver" and h g f e where d: "reachable d"
    "dr_tasks d 0 = Some (T_Executing h)" "gh_id h = ex_gid" "dr_requested d = [ex_gid]"
    "sv_goals (dr_server d) ex_gid = Some (SG_Executing g f e)"
    by blast
  from cancel_request_reaches_handler [OF d(1), of ex_query "goal_info_new ex_gid time_zero" ex_gid] d
  show ?thesis by (fastforce simp: ex_query_def goal_info_new_def)
qed

text \<open>
  Expiration removes exactly the goals whose expiration time has come, reports exactly these,
  publishes the status list if and only if there are any, and leaves the waiting result requests
  alone; a second call at the same time finds nothing to do.
\<close>

theorem expire_goals_exact:
  "\<exists>sv'. expire_goals now sv = (Ok (expired_ids now (sv_manager sv)), sv') \<and>
    (\<forall>gid. gid \<in> expired_ids now (sv_manager sv) \<longleftrightarrow>
       (\<exists>st. sv_goals sv gid = Some st \<and> should_expire now st)) \<and>
    (\<forall>gid. sv_goals sv' gid =
       (if gid \<in> expired_ids now (sv_manager sv) then None else sv_goals sv gid)) \<and>
    sv_futures sv' = sv_futures sv \<and>
    (sv_out sv' = sv_out sv \<longleftrightarrow> expired_ids now (sv_manager sv) = {}) \<and>
    expire_goals now sv' = (Ok {}, sv')"
proof -
  obtain ex sv' where run: "expire_goals now sv = (Ok ex, sv')"
    by (cases "expired_ids now (sv_manager sv) = {}") (simp_all add: expire_goals_def server_defs Let_def)
  note ok = expire_goals_Ok [OF run]
  have "gid \<notin> expired_ids now (sv_manager sv')" for gid
    using ok expired_ids_iff [of gid now "sv_manager sv"] by (auto simp: expired_ids_iff)
  then have "expired_ids now (sv_manager sv') = {}" by blast
  then have "expire_goals now sv' = (Ok {}, sv')"
    by (simp add: expire_goals_def server_defs Let_def)
  with run ok show ?thesis by (auto simp: expired_ids_iff)
qed

text \<open>
  The server never records a goal as being canceled: the status that the specification
  requires between a cancel request and the end of the goal does not occur in any reachable state.
\<close>

theorem never_canceling:
  assumes "reachable d" and "sv_goals (dr_server d) gid = Some st"
  shows "status_of st \<noteq> GS_Canceling"
proof -
  have "state_ok st"
    using reachable_inv [OF assms(1)] assms(2) by (auto simp: driver_inv_def tasks_inv_def)
  then show ?thesis by (cases st) (auto simp: is_terminal_def)
qed

theorem never_canceling_witness:
  "\<exists>(d :: (nat, nat, nat) driver) st. reachable d \<and> sv_goals (dr_server d) ex_gid = Some st \<and>
     status_of st \<noteq> GS_Canceling"
proof -
  from example_executing obtain d :: "(nat, nat, nat) driver" and st where
    "reachable d" "sv_goals (dr_server d) ex_gid = Some st"
    by blast
  with never_canceling show ?thesis by blast
qed

text \<open>
  A query without a payload, or an answered one without a usable attachment, panics in the
  cancel and result handlers, which run inside the driver loop; no other input does.
\<close>

theorem handlers_panic_iff:
  "(fst (handle_cancel_request q request sv) = Panic \<longleftrightarrow>
     (if q_has_payload q then request \<noteq> None \<and> \<not> q_has_attachment q else True)) \<and>
   (fst (handle_result_request q gid sv) = Panic \<longleftrightarrow>
     (if q_has_payload q then \<not> q_has_attachment q \<and> (\<exists>g. gid = Some g \<and> finished sv g) else True))"
  by (auto simp: handle_cancel_request_def request_cancel_def handle_result_request_def
      lookup_result_def send_result_def server_defs finished_def Let_def
      split: option.splits ServerGoalState.splits result_state.splits if_splits)

end
