(* ===== verification/Topic_Name.thy ===== *)
theory Topic_Name
  imports RosZ_Strings
begin

text \<open>
  \<^verbatim>\<open>ros-z/src/topic_name.rs\<close>: validation of namespaces and node names, and the expansion of
  absolute, private and relative topic and service names to fully qualified ones.
\<close>

section \<open>Names\<close>

datatype TopicNameError =
    TN_Empty
  | TN_EndsWithSlash
  | TN_InvalidCharacters string
  | TN_InvalidNamespace string
  | TN_InvalidNodeName string

definition is_ascii_alphabetic :: "char \<Rightarrow> bool" where
  "is_ascii_alphabetic c \<longleftrightarrow>
     (let n = of_char c :: nat in (65 \<le> n \<and> n \<le> 90) \<or> (97 \<le> n \<and> n \<le> 122))"

definition is_ascii_alphanumeric :: "char \<Rightarrow> bool" where
  "is_ascii_alphanumeric c \<longleftrightarrow>
     is_ascii_alphabetic c \<or> (let n = of_char c :: nat in 48 \<le> n \<and> n \<le> 57)"

fun is_valid_topic_component :: "string \<Rightarrow> bool" where
  "is_valid_topic_component [] = False"
| "is_valid_topic_component (b # bs) =
     (if \<not> is_ascii_alphabetic b \<and> b \<noteq> CHR ''_'' then False
      else list_all (\<lambda>c. is_ascii_alphanumeric c \<or> c = CHR ''_'') bs)"

text \<open>The loops over the parts of a name: the first part that is nonempty and invalid is reported.\<close>

definition first_invalid :: "string list \<Rightarrow> string option" where
  "first_invalid parts = List.find (\<lambda>p. p \<noteq> [] \<and> \<not> is_valid_topic_component p) parts"

definition quoted :: "string \<Rightarrow> string" where
  "quoted s = CHR 0x27 # s @ [CHR 0x27]"

definition validate_namespace :: "string \<Rightarrow> (unit, TopicNameError) result" where
  "validate_namespace ns =
     (if ns = [] \<or> ns = ''/'' then Ok ()
      else if ends_with ''/'' ns
      then Err (TN_InvalidNamespace (''namespace cannot end with '' @ quoted ''/''))
      else case first_invalid (split_on CHR ''/'' ns) of
             Some part \<Rightarrow> Err (TN_InvalidNamespace (''invalid component '' @ quoted part))
           | None \<Rightarrow> Ok ())"

definition validate_node_name :: "string \<Rightarrow> (unit, TopicNameError) result" where
  "validate_node_name node_name =
     (if node_name = [] then Err (TN_InvalidNodeName ''node name is empty'')
      else if \<not> is_valid_topic_component node_name
      then Err (TN_InvalidNodeName (''invalid node name '' @ quoted node_name))
      else Ok ())"

section \<open>Qualification\<close>

definition normalize_namespace :: "string \<Rightarrow> string" where
  "normalize_namespace ns =
     (if ns = [] then [] else if starts_with ''/'' ns then ns else ''/'' @ ns)"

text \<open>The three branches: absolute, private and relative names.\<close>

definition qualify_absolute :: "string \<Rightarrow> (string, TopicNameError) result" where
  "qualify_absolute topic =
     (let t = unwrap_or (strip_suffix ''/'' topic) topic in
      if t = [] \<or> t = ''/''
      then Err (TN_InvalidCharacters (''topic cannot be just '' @ quoted ''/''))
      else Ok t)"

definition qualify_private :: "string \<Rightarrow> string \<Rightarrow> string \<Rightarrow> (string, TopicNameError) result" where
  "qualify_private rest ns node_name =
     (let suffix = unwrap_or (strip_prefix ''/'' rest) rest in
      bind_result
        (if suffix = [] then Ok ()
         else case first_invalid (split_on CHR ''/'' suffix) of
                Some part \<Rightarrow> Err (TN_InvalidCharacters
                  (''invalid component '' @ quoted part @ '' in private topic''))
              | None \<Rightarrow> Ok ()) (\<lambda>_.
      Ok (if ns = [] \<or> ns = ''/''
          then if suffix = [] then ''/'' @ node_name else ''/'' @ node_name @ ''/'' @ suffix
          else if suffix = [] then ns @ ''/'' @ node_name
          else ns @ ''/'' @ node_name @ ''/'' @ suffix)))"

definition qualify_relative :: "string \<Rightarrow> string \<Rightarrow> (string, TopicNameError) result" where
  "qualify_relative topic ns =
     (let t = unwrap_or (strip_suffix ''/'' topic) topic in
      bind_result
        (case first_invalid (split_on CHR ''/'' t) of
           Some part \<Rightarrow> Err (TN_InvalidCharacters (''invalid component '' @ quoted part))
         | None \<Rightarrow> Ok ()) (\<lambda>_.
      Ok (if ns = [] \<or> ns = ''/'' then ''/'' @ t else ns @ ''/'' @ t)))"

definition qualify_topic_name :: "string \<Rightarrow> string \<Rightarrow> string \<Rightarrow> (string, TopicNameError) result" where
  "qualify_topic_name topic ns node_name =
     (if topic = [] then Err TN_Empty
      else bind_result (validate_namespace ns) (\<lambda>_.
           bind_result (validate_node_name node_name) (\<lambda>_.
           let ns' = normalize_namespace ns in
           if starts_with ''/'' topic then qualify_absolute topic
           else case strip_prefix ''~'' topic of
                  Some rest \<Rightarrow> qualify_private rest ns' node_name
                | None \<Rightarrow> qualify_relative topic ns')))"

definition qualify_service_name :: "string \<Rightarrow> string \<Rightarrow> string \<Rightarrow> (string, TopicNameError) result" where
  "qualify_service_name service ns node_name = qualify_topic_name service ns node_name"

section \<open>Fully qualified names\<close>

text \<open>
  A fully qualified name is a slash followed by at least one component, all of them valid.
\<close>

definition fully_qualified :: "string \<Rightarrow> bool" where
  "fully_qualified s \<longleftrightarrow> (case split_on CHR ''/'' s of
     [] \<Rightarrow> False
   | p # ps \<Rightarrow> p = [] \<and> ps \<noteq> [] \<and> list_all is_valid_topic_component ps)"

text \<open>
  No two slashes meet: what follows a leading slash is empty, as in the root namespaces, or all its
  parts are nonempty.
\<close>

definition no_empty_parts :: "string \<Rightarrow> bool" where
  "no_empty_parts s \<longleftrightarrow> (let r = unwrap_or (strip_prefix ''/'' s) s
     in r = [] \<or> [] \<notin> set (split_on CHR ''/'' r))"

text \<open>The components of a name, however many slashes stand between them.\<close>

definition components :: "string \<Rightarrow> string list" where
  "components s = filter (\<lambda>p. p \<noteq> []) (split_on CHR ''/'' s)"

lemma valid_not_Nil [simp]: "is_valid_topic_component p \<Longrightarrow> p \<noteq> []"
  by auto

lemma alnum_no_slash: "\<not> is_ascii_alphanumeric CHR ''/''" "\<not> is_ascii_alphabetic CHR ''/''"
  by (simp_all add: is_ascii_alphanumeric_def is_ascii_alphabetic_def)

lemma valid_no_slash: "is_valid_topic_component p \<Longrightarrow> CHR ''/'' \<notin> set p"
  using alnum_no_slash by (cases p) (auto simp: list_all_iff split: if_splits)

lemma first_invalid_None:
  "first_invalid ps = None \<longleftrightarrow> list_all (\<lambda>p. p = [] \<or> is_valid_topic_component p) ps"
  by (auto simp: first_invalid_def find_None_iff list_all_iff)

text \<open>Slash-separated concatenation of names.\<close>

lemma split_on_slash: "split_on c (a @ c # b) = split_on c a @ split_on c b"
  by (induction a) (auto split: list.splits)

lemma fully_qualified_append:
  assumes "fully_qualified a" "list_all is_valid_topic_component (split_on CHR ''/'' b)"
  shows "fully_qualified (a @ CHR ''/'' # b)"
  using assms by (auto simp: fully_qualified_def split_on_slash split: list.splits)

lemma fully_qualified_root:
  assumes "list_all is_valid_topic_component (split_on CHR ''/'' b)"
  shows "fully_qualified (CHR ''/'' # b)"
  using assms by (simp add: fully_qualified_def)

lemma validated_parts:
  assumes "first_invalid (split_on CHR ''/'' s) = None" "[] \<notin> set (split_on CHR ''/'' s)"
  shows "list_all is_valid_topic_component (split_on CHR ''/'' s)"
  using assms by (auto simp: first_invalid_None list_all_iff)

lemma node_name_parts:
  "validate_node_name n = Ok u \<Longrightarrow> list_all is_valid_topic_component (split_on CHR ''/'' n)"
  by (auto simp: validate_node_name_def split_on_part valid_no_slash split: if_splits)

lemma namespace_qualified:
  assumes "validate_namespace ns = Ok u" "no_empty_parts ns" "ns \<noteq> []" "ns \<noteq> ''/''"
  shows "fully_qualified (normalize_namespace ns)"
proof -
  have valid: "first_invalid (split_on CHR ''/'' ns) = None"
    using assms by (auto simp: validate_namespace_def split: if_splits option.splits)
  show ?thesis
  proof (cases "strip_prefix ''/'' ns")
    case (Some r)
    then have ns: "ns = CHR ''/'' # r" by (simp add: strip_prefix_Some)
    with Some valid assms(2) have "list_all is_valid_topic_component (split_on CHR ''/'' r)"
      using assms(4) by (intro validated_parts) (auto simp: no_empty_parts_def first_invalid_None)
    with ns show ?thesis
      by (simp add: normalize_namespace_def starts_with_def fully_qualified_root)
  next
    case None
    then have "\<not> starts_with ''/'' ns" by (simp add: strip_prefix_None starts_with_iff)
    moreover have "list_all is_valid_topic_component (split_on CHR ''/'' ns)"
      using None valid assms(2,3) by (intro validated_parts) (simp_all add: no_empty_parts_def)
    ultimately show ?thesis
      using assms(3) by (simp add: normalize_namespace_def fully_qualified_root)
  qed
qed

text \<open>The parts of a name that the three forms put behind the namespace.\<close>

definition topic_parts :: "string \<Rightarrow> string" where
  "topic_parts topic = (case strip_prefix ''~'' topic of
     Some rest \<Rightarrow> unwrap_or (strip_prefix ''/'' rest) rest
   | None \<Rightarrow> unwrap_or (strip_suffix ''/'' topic) topic)"

lemma qualified_under_namespace:
  assumes "validate_namespace ns = Ok u" "no_empty_parts ns"
    and "list_all is_valid_topic_component (split_on CHR ''/'' b)"
  shows "fully_qualified (if normalize_namespace ns = [] \<or> normalize_namespace ns = ''/'' then ''/'' @ b
    else normalize_namespace ns @ ''/'' @ b)"
proof (cases "ns = [] \<or> ns = ''/''")
  case True
  then have "normalize_namespace ns = [] \<or> normalize_namespace ns = ''/''"
    by (auto simp: normalize_namespace_def starts_with_def)
  with assms(3) show ?thesis by (simp add: fully_qualified_root)
next
  case False
  with assms namespace_qualified [OF assms(1,2)] show ?thesis
    by (simp add: fully_qualified_append fully_qualified_root)
qed

lemma qualify_relative_ok:
  assumes "validate_namespace ns = Ok u" "no_empty_parts ns"
    and "[] \<notin> set (split_on CHR ''/'' (unwrap_or (strip_suffix ''/'' t) t))"
    and "qualify_relative t (normalize_namespace ns) = Ok q"
  shows "fully_qualified q"
proof -
  let ?t = "unwrap_or (strip_suffix ''/'' t) t"
  have "first_invalid (split_on CHR ''/'' ?t) = None"
    using assms(4) by (auto simp: qualify_relative_def Let_def split: option.splits)
  with assms(3) have "list_all is_valid_topic_component (split_on CHR ''/'' ?t)"
    by (rule validated_parts [rotated])
  from qualified_under_namespace [OF assms(1,2) this] assms(4) show ?thesis
    by (auto simp: qualify_relative_def Let_def split: option.splits if_splits)
qed

lemma qualify_private_ok:
  assumes "validate_namespace ns = Ok u" "no_empty_parts ns" "validate_node_name n = Ok v"
    and "unwrap_or (strip_prefix ''/'' r) r = [] \<or>
      [] \<notin> set (split_on CHR ''/'' (unwrap_or (strip_prefix ''/'' r) r))"
    and "qualify_private r (normalize_namespace ns) n = Ok q"
  shows "fully_qualified q"
proof -
  let ?r = "unwrap_or (strip_prefix ''/'' r) r"
  let ?b = "if ?r = [] then n else n @ CHR ''/'' # ?r"
  have "?r = [] \<or> first_invalid (split_on CHR ''/'' ?r) = None"
    using assms(5) by (auto simp: qualify_private_def Let_def split: option.splits if_splits)
  with assms(4) have "?r = [] \<or> list_all is_valid_topic_component (split_on CHR ''/'' ?r)"
    using validated_parts by blast
  then have "list_all is_valid_topic_component (split_on CHR ''/'' ?b)"
    using node_name_parts [OF assms(3)] by (auto simp: split_on_slash)
  from qualified_under_namespace [OF assms(1,2) this] assms(5) show ?thesis
    by (auto simp: qualify_private_def Let_def split: option.splits if_splits)
qed

lemma qualify_fully_qualified:
  assumes "fully_qualified q" "validate_namespace ns = Ok u" "validate_node_name n = Ok v"
  shows "qualify_topic_name q ns n = Ok q"
proof -
  obtain ps where ps: "split_on CHR ''/'' q = [] # ps" "ps \<noteq> []"
    "list_all is_valid_topic_component ps"
    using assms(1) by (auto simp: fully_qualified_def split: list.splits)
  then obtain p ps' where ps': "ps = p # ps'" by (cases ps) auto
  have q: "q = CHR ''/'' # join_with CHR ''/'' ps"
    using join_split [of "CHR ''/''" q] ps ps' by simp
  have "strip_suffix ''/'' q = None"
  proof (rule ccontr)
    assume "strip_suffix ''/'' q \<noteq> None"
    then obtain r where "q = r @ ''/''" by (auto simp: strip_suffix_Some)
    then have "last (split_on CHR ''/'' q) = []" by (simp add: split_on_slash)
    with ps show False by (auto simp: list_all_iff dest: last_in_set)
  qed
  moreover have "q \<noteq> ''/''" using ps by auto
  ultimately show ?thesis
    using assms(2,3) q
    by (simp add: qualify_topic_name_def starts_with_def qualify_absolute_def)
qed

section \<open>Properties\<close>

text \<open>The components of the pieces of a qualified name.\<close>

lemma components_slash [simp]:
  "components (a @ CHR ''/'' # b) = components a @ components b"
  "components (CHR ''/'' # b) = components b" "components [] = []"
  by (simp_all add: components_def split_on_slash)

lemma components_valid: "is_valid_topic_component n \<Longrightarrow> components n = [n]"
  by (auto simp: components_def split_on_part valid_no_slash)

lemma components_normalize [simp]: "components (normalize_namespace ns) = components ns"
  by (auto simp: normalize_namespace_def)

lemma root_components: "normalize_namespace ns = [] \<or> normalize_namespace ns = ''/'' \<Longrightarrow> components ns = []"
  using components_normalize [of ns] by (auto simp: components_def)

lemma first_invalid_components:
  "first_invalid (split_on CHR ''/'' s) = None \<longleftrightarrow> list_all is_valid_topic_component (components s)"
  by (auto simp: first_invalid_None components_def list_all_iff)

lemma namespace_components:
  "validate_namespace ns = Ok u \<Longrightarrow> list_all is_valid_topic_component (components ns)"
  by (auto simp: validate_namespace_def first_invalid_components components_def split: if_splits option.splits)

lemma normalize_starts: "normalize_namespace ns = [] \<or> starts_with ''/'' (normalize_namespace ns)"
  by (auto simp: normalize_namespace_def starts_with_def)

lemma starts_with_slash_append: "starts_with ''/'' a \<Longrightarrow> starts_with ''/'' (a @ b)"
  by (cases a) (auto simp: starts_with_def)

lemma relative_components:
  assumes "qualify_relative t (normalize_namespace ns) = Ok q"
  shows "starts_with ''/'' q \<and> components q = components ns @ components (unwrap_or (strip_suffix ''/'' t) t) \<and>
    list_all is_valid_topic_component (components (unwrap_or (strip_suffix ''/'' t) t))"
  using assms normalize_starts [of ns] root_components [of ns]
  by (auto simp: qualify_relative_def Let_def first_invalid_components starts_with_slash_append
    split: option.splits if_splits) (auto simp: starts_with_def)

lemma private_components:
  assumes "qualify_private r (normalize_namespace ns) n = Ok q" and "is_valid_topic_component n"
  shows "starts_with ''/'' q \<and> components q = components ns @ n # components (unwrap_or (strip_prefix ''/'' r) r) \<and>
    list_all is_valid_topic_component (components (unwrap_or (strip_prefix ''/'' r) r))"
  using assms normalize_starts [of ns] root_components [of ns]
  by (auto simp: qualify_private_def Let_def first_invalid_components components_valid starts_with_slash_append
    split: option.splits if_splits) (auto simp: starts_with_def)

lemma relative_parts_nonempty:
  assumes "topic \<noteq> []" and "\<not> starts_with ''/'' topic"
  shows "unwrap_or (strip_suffix ''/'' topic) topic \<noteq> []"
proof (cases "strip_suffix ''/'' topic")
  case (Some r)
  then have "topic = r @ ''/''" by (simp add: strip_suffix_Some)
  with Some assms(2) show ?thesis by (cases r) (auto simp: starts_with_def)
qed (use assms(1) in simp)



end
