(* ===== verification/Bounded_Queue.thy ===== *)
theory Bounded_Queue
  imports RosZ_Prelude "HOL-Library.Sublist"
begin

text \<open>
  \<^verbatim>\<open>ros-z/src/queue.rs\<close>: the queue behind every subscription and service, which drops its oldest
  element when it is full.  Each operation is atomic under the mutex, so a use of the queue by
  several threads is a sequence of operations.  A receive that finds the queue empty waits; it is
  modelled by the state it finds when it gets the lock back.
\<close>

section \<open>Operations\<close>

record 'a BoundedQueue =
  q_data :: "'a list"
  q_capacity :: nat

definition queue_new :: "nat \<Rightarrow> 'a BoundedQueue" where
  "queue_new capacity = \<lparr>q_data = [], q_capacity = capacity\<rparr>"

text \<open>\<^verbatim>\<open>pop_front\<close> of a \<^verbatim>\<open>VecDeque\<close>.\<close>

fun pop_front :: "'a list \<Rightarrow> 'a option \<times> 'a list" where
  "pop_front [] = (None, [])"
| "pop_front (x # xs) = (Some x, xs)"

definition queue_push :: "'a \<Rightarrow> 'a BoundedQueue \<Rightarrow> bool \<times> 'a BoundedQueue" where
  "queue_push item q =
     (let data = q_data q;
          (dropped, data') = (if q_capacity q \<le> length data then (True, snd (pop_front data))
                              else (False, data))
      in (dropped, q\<lparr>q_data := data' @ [item]\<rparr>))"

definition queue_try_recv :: "'a BoundedQueue \<Rightarrow> 'a option \<times> 'a BoundedQueue" where
  "queue_try_recv q = (let (x, data) = pop_front (q_data q) in (x, q\<lparr>q_data := data\<rparr>))"

text \<open>\<open>None\<close>: the caller waits, and the queue is left as it is.\<close>

definition queue_recv :: "'a BoundedQueue \<Rightarrow> ('a option, unit) result \<times> 'a BoundedQueue" where
  "queue_recv q =
     (if q_data q = [] then (Ok None, q)
      else case pop_front (q_data q) of
             (Some x, data) \<Rightarrow> (Ok (Some x), q\<lparr>q_data := data\<rparr>)
           | (None, _) \<Rightarrow> (Panic, q))"

text \<open>\<open>wake\<close> is the outcome of the wait: whether it timed out, and the queue found afterwards.\<close>

definition queue_recv_timeout ::
    "bool \<times> 'a BoundedQueue \<Rightarrow> 'a BoundedQueue \<Rightarrow> 'a option \<times> 'a BoundedQueue" where
  "queue_recv_timeout wake q =
     (if q_data q = []
      then let (timed_out, q') = wake
           in if timed_out \<or> q_data q' = [] then (None, q') else queue_try_recv q'
      else queue_try_recv q)"

definition queue_is_empty :: "'a BoundedQueue \<Rightarrow> bool" where
  "queue_is_empty q \<longleftrightarrow> q_data q = []"

definition queue_len :: "'a BoundedQueue \<Rightarrow> nat" where
  "queue_len q = length (q_data q)"

text \<open>One round of \<^verbatim>\<open>recv_async\<close>: it returns an item, or it waits for the next notification.\<close>

definition queue_recv_async :: "'a BoundedQueue \<Rightarrow> 'a option \<times> 'a BoundedQueue" where
  "queue_recv_async q = queue_try_recv q"

section \<open>Sequences of operations\<close>

datatype 'a queue_op = Push 'a | Recv

text \<open>A run records what was received, and for every push whether it reported a drop.\<close>

fun run_queue :: "'a queue_op list \<Rightarrow> 'a BoundedQueue \<Rightarrow> 'a list \<times> bool list \<times> 'a BoundedQueue" where
  "run_queue [] q = ([], [], q)"
| "run_queue (Push x # ops) q =
     (let (dropped, q') = queue_push x q; (got, drops, q'') = run_queue ops q'
      in (got, dropped # drops, q''))"
| "run_queue (Recv # ops) q =
     (let (r, q') = queue_try_recv q; (got, drops, q'') = run_queue ops q'
      in (case r of Some x \<Rightarrow> x # got | None \<Rightarrow> got, drops, q''))"

fun pushed :: "'a queue_op list \<Rightarrow> 'a list" where
  "pushed [] = []"
| "pushed (Push x # ops) = x # pushed ops"
| "pushed (Recv # ops) = pushed ops"

lemma pop_front_simps: "snd (pop_front xs) = tl xs" "fst (pop_front xs) = (case xs of [] \<Rightarrow> None | x # _ \<Rightarrow> Some x)"
  by (cases xs; simp)+

lemma queue_push_eq:
  "queue_push x q = (q_capacity q \<le> length (q_data q),
     q\<lparr>q_data := (if q_capacity q \<le> length (q_data q) then tl (q_data q) else q_data q) @ [x]\<rparr>)"
  by (simp add: queue_push_def pop_front_simps)

lemma queue_try_recv_eq:
  "queue_try_recv q = (case q_data q of [] \<Rightarrow> (None, q) | x # xs \<Rightarrow> (Some x, q\<lparr>q_data := xs\<rparr>))"
  by (cases "q_data q") (simp_all add: queue_try_recv_def)

text \<open>The effect of one operation on the queue, and the run of the others after it.\<close>

lemma push_data:
  "q_capacity (snd (queue_push x q)) = q_capacity q"
  "q_data (snd (queue_push x q)) =
     (if q_capacity q \<le> length (q_data q) then tl (q_data q) else q_data q) @ [x]"
  "fst (queue_push x q) \<longleftrightarrow> q_capacity q \<le> length (q_data q)"
  by (simp_all add: queue_push_eq)

lemma run_push:
  "run_queue (Push x # ops) q = (got, drops, q') \<longleftrightarrow>
     (\<exists>drops1. drops = fst (queue_push x q) # drops1 \<and>
        run_queue ops (snd (queue_push x q)) = (got, drops1, q'))"
  by (auto simp: Let_def split: prod.splits)

lemma run_recv:
  "run_queue (Recv # ops) q = (got, drops, q') \<longleftrightarrow>
     (case q_data q of
        [] \<Rightarrow> run_queue ops q = (got, drops, q')
      | x # xs \<Rightarrow> \<exists>got1. got = x # got1 \<and> run_queue ops (q\<lparr>q_data := xs\<rparr>) = (got1, drops, q'))"
  by (cases "q_data q") (auto simp: queue_try_recv_eq split: prod.splits)

declare run_queue.simps(2,3) [simp del]

lemma run_queue_bound:
  "run_queue ops q = (got, drops, q') \<Longrightarrow> 0 < q_capacity q \<Longrightarrow> length (q_data q) \<le> q_capacity q \<Longrightarrow>
   length (q_data q') \<le> q_capacity q"
proof (induction ops arbitrary: q got drops)
  case (Cons op ops)
  show ?case
  proof (cases op)
    case (Push x)
    have "length (q_data (snd (queue_push x q))) \<le> q_capacity q"
      using Cons.prems(2,3) by (auto simp: push_data)
    with Cons.IH [of "snd (queue_push x q)"] Cons.prems Push show ?thesis
      by (auto simp: run_push push_data(1))
  next
    case Recv
    with Cons.IH [of q] Cons.IH [of "q\<lparr>q_data := tl (q_data q)\<rparr>"] Cons.prems show ?thesis
      by (auto simp: run_recv split: list.splits)
  qed
qed simp

lemma run_queue_order:
  "run_queue ops q = (got, drops, q') \<Longrightarrow> 0 < q_capacity q \<Longrightarrow>
   subseq (got @ q_data q') (q_data q @ pushed ops) \<and>
   length (q_data q @ pushed ops) = length (got @ q_data q') + length (filter (\<lambda>d. d) drops)"
proof (induction ops arbitrary: q got drops)
  case (Cons op ops)
  show ?case
  proof (cases op)
    case (Push x)
    let ?q1 = "snd (queue_push x q)"
    obtain drops1 where d: "drops = fst (queue_push x q) # drops1"
      "run_queue ops ?q1 = (got, drops1, q')"
      using Cons.prems(1) Push by (auto simp: run_push)
    note ih = Cons.IH [OF d(2), unfolded push_data(1), OF Cons.prems(2)]
    have "subseq (q_data ?q1 @ pushed ops) (q_data q @ x # pushed ops)"
      by (cases "q_data q") (auto simp: push_data)
    with ih have "subseq (got @ q_data q') (q_data q @ x # pushed ops)"
      by (blast intro: subseq_order.trans)
    moreover have "length (q_data q @ x # pushed ops) =
        length (got @ q_data q') + length (filter (\<lambda>d. d) drops)"
      using ih Cons.prems(2) d(1) by (cases "q_data q") (auto simp: push_data)
    ultimately show ?thesis using Push by simp
  next
    case Recv
    with Cons.IH [of q] Cons.IH [of "q\<lparr>q_data := tl (q_data q)\<rparr>"] Cons.prems show ?thesis
      by (cases "q_data q") (auto simp: run_recv)
  qed
qed auto

lemma queue_fill:
  assumes "run_queue (map Push xs) q = (got, drops, q')" "0 < q_capacity q"
    "length (q_data q) \<le> q_capacity q"
  shows "q_data q' = drop (length (q_data q @ xs) - q_capacity q) (q_data q @ xs)"
  using assms
proof (induction xs arbitrary: q drops)
  case (Cons x xs)
  let ?q1 = "snd (queue_push x q)"
  obtain drops1 where run: "run_queue (map Push xs) ?q1 = (got, drops1, q')"
    using Cons.prems(1) by (auto simp: run_push)
  have q1: "length (q_data ?q1) \<le> q_capacity ?q1" "0 < q_capacity ?q1"
    using Cons.prems by (auto simp: push_data)
  from Cons.IH [OF run q1(2,1)]
  have q': "q_data q' = drop (length (q_data ?q1 @ xs) - q_capacity q) (q_data ?q1 @ xs)"
    by (simp add: push_data(1))
  show ?case
  proof (cases "q_capacity q \<le> length (q_data q)")
    case True
    with Cons.prems obtain y ys where "q_data q = y # ys" "q_capacity q = Suc (length ys)"
      by (cases "q_data q") auto
    with q' True show ?thesis by (simp add: push_data)
  next
    case False
    then have "q_data ?q1 @ xs = q_data q @ x # xs" by (simp add: push_data)
    with q' show ?thesis by simp
  qed
qed simp

section \<open>Properties\<close>

text \<open>
  C36.  A queue of positive capacity never holds more elements than that, delivers what is pushed in
  order and at most once, and accounts for every element: whatever the sequence of pushes and
  receives, each pushed element has been received, is still queued, or was reported as dropped.
\<close>

theorem bounded_queue_accounting:
  assumes "0 < c" and "run_queue ops (queue_new c) = (got, drops, q)"
  shows "length (q_data q) \<le> c \<and> subseq (got @ q_data q) (pushed ops) \<and>
    length (pushed ops) = length got + length (q_data q) + length (filter (\<lambda>d. d) drops)"
  using assms run_queue_bound [of ops "queue_new c"] run_queue_order [of ops "queue_new c"]
  by (simp add: queue_new_def)

theorem bounded_queue_accounting_witness:
  "run_queue [Push (1::nat), Push 2, Push 3, Recv] (queue_new 2) = ([2], [False, False, True],
     \<lparr>q_data = [3], q_capacity = 2\<rparr>) \<and> subseq ([2] @ [3]) [1, 2, 3::nat]"
proof -
  have run: "run_queue [Push (1::nat), Push 2, Push 3, Recv] (queue_new 2) =
      ([2], [False, False, True], \<lparr>q_data = [3], q_capacity = 2\<rparr>)"
    by code_simp
  from bounded_queue_accounting [OF _ run] run show ?thesis by simp
qed

text \<open>
  Without receives the queue holds exactly the most recent elements, as many as its capacity
  allows, in the order in which they were pushed.
\<close>

theorem bounded_queue_keeps_last:
  assumes "0 < c"
  shows "q_data (snd (snd (run_queue (map Push xs) (queue_new c)))) = drop (length xs - c) xs"
  using queue_fill [of xs "queue_new c"] assms
  by (cases "run_queue (map Push xs) (queue_new c)") (simp add: queue_new_def)

theorem bounded_queue_keeps_last_witness:
  "q_data (snd (snd (run_queue (map Push [1, 2, 3::nat]) (queue_new 2)))) = [2, 3]"
  using bounded_queue_keeps_last [of 2 "[1, 2, 3::nat]"] by simp

end
