(* ===== verification/Proto_Entity.thy ===== *)
theory Proto_Entity
  imports RosZ_Strings
begin

text \<open>
  \<^verbatim>\<open>ros-z-protocol/src/entity.rs\<close> and \<^verbatim>\<open>qos.rs\<close>: the entities of the ROS graph, the textual
  forms of entity kinds, type hashes and QoS profiles, and their parsers.  Zenoh is a parameter
  (\<open>zenoh_ops\<close>): which strings it accepts as key expressions, and how it prints and parses session
  ids; the locale \<open>zenoh_laws\<close> holds the documented laws.  The record also carries the features
  that the crate is built with.  \<^verbatim>\<open>usize\<close> is a 64-bit word.
\<close>

section \<open>Zenoh\<close>

record 'z zenoh_ops =
  ke_accepts :: "string \<Rightarrow> bool"
  zid_show :: "'z \<Rightarrow> string"
  zid_parse :: "string \<Rightarrow> 'z option"
  feat_no_type_hash :: bool
  feat_rmw_zenoh :: bool
  feat_ros2dds :: bool

text \<open>Printing a session id gives nonempty hexadecimal text that parses to the id.\<close>

locale zenoh_laws =
  fixes Z :: "'z zenoh_ops"
  assumes zid_parse_show [simp]: "zid_parse Z (zid_show Z z) = Some z"
    and zid_no_slash [simp]: "CHR ''/'' \<notin> set (zid_show Z z)"

section \<open>QosProfile\<close>

datatype QosReliability = BestEffort | Reliable
datatype QosDurability = Volatile | TransientLocal
datatype QosHistory = KeepLast u64 | KeepAll

record QosProfile =
  reliability :: QosReliability
  durability :: QosDurability
  history :: QosHistory

definition qos_default :: QosProfile where
  "qos_default = \<lparr>reliability = Reliable, durability = Volatile, history = KeepLast 10\<rparr>"

definition from_depth :: "u64 \<Rightarrow> QosHistory" where
  "from_depth depth = KeepLast depth"

definition history_depth :: "QosHistory \<Rightarrow> u64" where
  "history_depth h = (case h of KeepLast d \<Rightarrow> d | KeepAll \<Rightarrow> 0)"

datatype QosDecodeError = InvalidFormat | InvalidReliability | InvalidDurability | InvalidHistory

definition qos_encode :: "QosProfile \<Rightarrow> string" where
  "qos_encode q =
     (let rel = (if reliability q \<noteq> reliability qos_default
                 then (case reliability q of Reliable \<Rightarrow> ''1'' | BestEffort \<Rightarrow> ''2'') else '''');
          dur = (if durability q \<noteq> durability qos_default
                 then (case durability q of TransientLocal \<Rightarrow> ''1'' | Volatile \<Rightarrow> ''2'') else '''');
          hist = (case history q of
                    KeepLast depth \<Rightarrow>
                      (if history q \<noteq> history qos_default
                       then ''1,'' @ show_nat (unat depth) else '','' @ show_nat (unat depth))
                  | KeepAll \<Rightarrow> ''2,'');
          deadline = '','';
          lifespan = '','';
          liveliness = '',,''
      in rel @ '':'' @ dur @ '':'' @ hist @ '':'' @ deadline @ '':'' @ lifespan @ '':'' @ liveliness)"

definition parse_usize :: "string \<Rightarrow> u64 option" where
  "parse_usize s = map_option of_nat (parse_uint 64 s)"

definition qos_decode :: "string \<Rightarrow> (QosProfile, QosDecodeError) result" where
  "qos_decode s =
     (let fields = split_on CHR '':'' s in
      if length fields < 3 then Err InvalidFormat
      else
        bind_result
          (let f = fields ! 0 in
           if f = '''' then Ok (reliability qos_default)
           else if f = ''1'' then Ok Reliable
           else if f = ''2'' then Ok BestEffort
           else Err InvalidReliability) (\<lambda>rel.
        bind_result
          (let f = fields ! 1 in
           if f = '''' then Ok (durability qos_default)
           else if f = ''1'' then Ok TransientLocal
           else if f = ''2'' then Ok Volatile
           else Err InvalidDurability) (\<lambda>dur.
        let history_parts = split_on CHR '','' (fields ! 2) in
        if length history_parts < 2 then Err InvalidHistory
        else
          bind_result
            (let kind = history_parts ! 0 in
             if kind = '''' \<or> kind = ''1''
             then map_ok KeepLast (ok_or InvalidHistory (parse_usize (history_parts ! 1)))
             else if kind = ''2'' then Ok KeepAll
             else Err InvalidHistory) (\<lambda>hist.
          Ok \<lparr>reliability = rel, durability = dur, history = hist\<rparr>))))"

section \<open>Entities\<close>

definition EMPTY_PLACEHOLDER :: string where
  "EMPTY_PLACEHOLDER = ''%''"

datatype LivelinessKE = LivelinessKE string
datatype TopicKE = TopicKE string

record 'z NodeEntity =
  domain_id :: u64
  z_id :: 'z
  node_id :: u64
  node_name :: string
  namespace :: string
  enclave :: string

definition node_entity_new ::
    "u64 \<Rightarrow> 'z \<Rightarrow> u64 \<Rightarrow> string \<Rightarrow> string \<Rightarrow> string \<Rightarrow> 'z NodeEntity" where
  "node_entity_new d z i n ns encl =
     \<lparr>domain_id = d, z_id = z, node_id = i, node_name = n, namespace = ns, enclave = encl\<rparr>"

datatype EntityKind = EK_Node | EK_Publisher | EK_Subscription | EK_Service | EK_Client

definition kind_show :: "EntityKind \<Rightarrow> string" where
  "kind_show k = (case k of
     EK_Node \<Rightarrow> ''NN'' | EK_Publisher \<Rightarrow> ''MP'' | EK_Subscription \<Rightarrow> ''MS''
   | EK_Service \<Rightarrow> ''SS'' | EK_Client \<Rightarrow> ''SC'')"

definition kind_from_str :: "string \<Rightarrow> (EntityKind, string) result" where
  "kind_from_str s =
     (if s = ''NN'' then Ok EK_Node
      else if s = ''MP'' then Ok EK_Publisher
      else if s = ''MS'' then Ok EK_Subscription
      else if s = ''SS'' then Ok EK_Service
      else if s = ''SC'' then Ok EK_Client
      else Err ''Invalid entity kind'')"

record TypeHash =
  version :: u8
  hash_value :: bytes

definition type_hash_new :: "u8 \<Rightarrow> bytes \<Rightarrow> TypeHash" where
  "type_hash_new v bs = \<lparr>version = v, hash_value = bs\<rparr>"

definition type_hash_zero :: TypeHash where
  "type_hash_zero = \<lparr>version = 1, hash_value = replicate 32 0\<rparr>"

text \<open>\<^verbatim>\<open>chunks(2)\<close>, and a chunk as a string: \<^verbatim>\<open>from_utf8(chunk).unwrap_or("00")\<close>.\<close>

fun chunks2 :: "string \<Rightarrow> string list" where
  "chunks2 [] = []"
| "chunks2 [a] = [[a]]"
| "chunks2 (a # b # cs) = [a, b] # chunks2 cs"

definition chunk_str :: "string \<Rightarrow> string" where
  "chunk_str chunk = (case from_utf8 (map of_char chunk) of Ok _ \<Rightarrow> chunk | _ \<Rightarrow> ''00'')"

definition from_rihs_string :: "string \<Rightarrow> TypeHash option" where
  "from_rihs_string rihs_str =
     (if rihs_str = ''TypeHashNotSupported'' then Some type_hash_zero
      else case strip_prefix ''RIHS01_'' rihs_str of
        None \<Rightarrow> None
      | Some hex_part \<Rightarrow>
          if length hex_part = 64
          then map_option (\<lambda>hash_bytes. \<lparr>version = 1, hash_value = hash_bytes\<rparr>)
                 (those (map (\<lambda>chunk. parse_hex_u8 (chunk_str chunk)) (chunks2 hex_part)))
          else None)"

definition to_rihs_string :: "'z zenoh_ops \<Rightarrow> TypeHash \<Rightarrow> string" where
  "to_rihs_string Z h =
     (if feat_no_type_hash Z then ''TypeHashNotSupported''
      else if version h = 1
      then (let hex_str = concat (map show_hex2 (hash_value h)) in ''RIHS01_'' @ hex_str)
      else ''RIHS'' @ show_hex2 (version h) @ ''_'' @ concat (map show_hex2 (hash_value h)))"

record TypeInfo =
  type_name :: string
  type_hash :: TypeHash

definition type_info_new :: "string \<Rightarrow> TypeHash \<Rightarrow> TypeInfo" where
  "type_info_new n h = \<lparr>type_name = n, type_hash = h\<rparr>"

record 'z EndpointEntity =
  endpoint_id :: u64
  endpoint_node :: "'z NodeEntity"
  endpoint_kind :: EntityKind
  topic :: string
  type_info :: "TypeInfo option"
  endpoint_qos :: QosProfile

datatype 'z Entity = Node "'z NodeEntity" | Endpoint "'z EndpointEntity"

datatype EntityConversionError =
    MissingAdminSpace | MissingDomainId | MissingZId | MissingNodeId | MissingEntityId
  | MissingEntityKind | MissingEnclave | MissingNamespace | MissingNodeName | MissingTopicName
  | MissingTopicType | MissingTopicHash | MissingTopicQoS | ParsingError
  | QosDecodeFailed QosDecodeError

text \<open>\<^verbatim>\<open>zenoh::Error\<close>, and the conversion of a string into a key expression.\<close>

datatype zerror = BadKeyExpr string | Conversion EntityConversionError | Message string

definition ke_try_from :: "'z zenoh_ops \<Rightarrow> string \<Rightarrow> (string, zerror) result" where
  "ke_try_from Z s = (if ke_accepts Z s then Ok s else Err (BadKeyExpr s))"

section \<open>Textual forms\<close>

lemma kind_from_show [simp]: "kind_from_str (kind_show k) = Ok k"
  by (cases k) (simp_all add: kind_show_def kind_from_str_def)

lemma kind_no_slash [simp]: "CHR ''/'' \<notin> set (kind_show k)"
  by (cases k) (simp_all add: kind_show_def)

lemma parse_usize_show [simp]: "parse_usize (show_nat (unat n)) = Some n"
proof -
  have "unat n < 2 ^ 64" using unsigned_less [of n, where 'a = nat] by simp
  then show ?thesis by (simp add: parse_usize_def)
qed

lemma show_nat_no_sep [simp]:
  "CHR ''/'' \<notin> set (show_nat n)" "CHR '':'' \<notin> set (show_nat n)" "CHR '','' \<notin> set (show_nat n)"
  by (simp_all add: show_nat_not_in)

text \<open>Separators in front of text that does not contain them, for reading back formatted text.\<close>

lemma split_on_simps [simp]:
  "split_on c (c # s) = [] # split_on c s"
  "c \<notin> set p \<Longrightarrow> split_on c (p @ c # s) = p # split_on c s"
  "c \<notin> set p \<Longrightarrow> split_on c p = [p]"
  by (simp_all add: split_on_append split_on_part)

lemma qos_decode_encode: "qos_decode (qos_encode q) = Ok q"
proof -
  have "split_on CHR '':'' (qos_encode q) =
      [if reliability q = Reliable then '''' else ''2'',
       if durability q = Volatile then '''' else ''1'',
       case history q of KeepLast d \<Rightarrow> (if d = 10 then '''' else ''1'') @ '','' @ show_nat (unat d)
                       | KeepAll \<Rightarrow> ''2,'',
       '','', '','', '',,'']"
    by (cases "reliability q"; cases "durability q"; cases "history q")
      (auto simp: qos_encode_def qos_default_def)
  moreover have "parse_usize (show_nat 10) = Some 10"
    using parse_usize_show [of 10] by simp
  ultimately show ?thesis
    by (cases "reliability q"; cases "durability q"; cases "history q")
      (auto simp: qos_decode_def qos_default_def)
qed

lemma qos_encode_no_slash [simp]: "CHR ''/'' \<notin> set (qos_encode q)"
  by (cases "reliability q"; cases "durability q"; cases "history q")
    (auto simp: qos_encode_def Let_def)

lemma chunks2_concat: "chunks2 (concat (map show_hex2 bs)) = map show_hex2 bs"
  by (induction bs) (simp_all add: show_hex2_def)

lemma ascii_utf8: "list_all (\<lambda>b. b < 0x80) bs \<Longrightarrow> utf8_scan i bs = None"
  by (induction bs arbitrary: i) auto

lemma hex_char_ascii: "d < 16 \<Longrightarrow> (of_char (hex_char d) :: nat) < 128"
  by (simp add: hex_char_def)

lemma chunk_str_hex [simp]: "chunk_str (show_hex2 b) = show_hex2 b"
proof -
  have "(of_char (hex_char d) :: u8) < 0x80" if "d < 16" for d
  proof -
    have "(of_char (hex_char d) :: u8) = of_nat (of_char (hex_char d))"
      by (simp add: of_nat_of_char)
    then show ?thesis
      using hex_char_ascii [OF that] by (simp add: word_less_nat_alt unat_of_nat)
  qed
  then have "is_str (map of_char (show_hex2 b))"
    using nibble_less [of b] by (auto simp: is_str_def show_hex2_def intro!: ascii_utf8)
  then show ?thesis by (simp add: chunk_str_def)
qed

lemma length_concat_hex: "length (concat (map show_hex2 bs)) = 2 * length bs"
  by (induction bs) simp_all

lemma those_map_Some: "(\<And>x. x \<in> set xs \<Longrightarrow> f x = Some (g x)) \<Longrightarrow> those (map f xs) = Some (map g xs)"
  by (induction xs) auto

lemma rihs_roundtrip:
  assumes "\<not> feat_no_type_hash Z" "version h = 1" "length (hash_value h) = 32"
  shows "from_rihs_string (to_rihs_string Z h) = Some h"
proof -
  let ?hex = "concat (map show_hex2 (hash_value h))"
  have "to_rihs_string Z h = ''RIHS01_'' @ ?hex" using assms by (simp add: to_rihs_string_def)
  moreover have "strip_prefix ''RIHS01_'' (''RIHS01_'' @ ?hex) = Some ?hex"
    by (simp add: strip_prefix_Some)
  moreover have "those (map (\<lambda>chunk. parse_hex_u8 (chunk_str chunk)) (map show_hex2 (hash_value h))) =
      Some (hash_value h)"
    using those_map_Some [of "hash_value h" "\<lambda>b. parse_hex_u8 (chunk_str (show_hex2 b))" id]
    by (simp add: comp_def)
  ultimately show ?thesis
    using assms by (simp add: from_rihs_string_def length_concat_hex chunks2_concat)
qed

lemma rihs_no_sep:
  "CHR ''/'' \<notin> set (to_rihs_string Z h)" "CHR ''%'' \<notin> set (to_rihs_string Z h)"
  using show_hex2_not_in [of "CHR ''/''"] show_hex2_not_in [of "CHR ''%''"]
  by (auto simp: to_rihs_string_def Let_def)

end
