(* ===== verification/Proto_Format.thy ===== *)
theory Proto_Format
  imports Proto_Entity
begin

text \<open>
  \<^verbatim>\<open>ros-z-protocol/src/format\<close>: the trait of key expression formats with its two
  implementations, the one of \<^verbatim>\<open>rmw_zenoh_cpp\<close> and the one of \<^verbatim>\<open>zenoh-plugin-ros2dds\<close>, and the
  run-time selection between them.  A parser that walks over the chunks of a key expression is a
  computation on the list of the chunks still to come.  The contract of the trait is the locale
  \<open>key_expr_formatter\<close>: parsing a liveliness token returns the entity it was made for, up to what
  the format does not transport.
\<close>

section \<open>The trait\<close>

definition mangle_name :: "string \<Rightarrow> string \<Rightarrow> string" where
  "mangle_name ESCAPE_CHAR name = str_replace ''/'' ESCAPE_CHAR name"

definition demangle_name :: "string \<Rightarrow> string \<Rightarrow> string" where
  "demangle_name ESCAPE_CHAR name = str_replace ESCAPE_CHAR ''/'' name"

text \<open>\<^verbatim>\<open>iter.next().ok_or(err)?\<close> and \<^verbatim>\<open>.parse().map_err(|_| ParsingError)?\<close>.\<close>

definition iter_next :: "EntityConversionError \<Rightarrow> (string list, string, zerror) exec" where
  "iter_next err = (\<lambda>it. case it of [] \<Rightarrow> (Err (Conversion err), []) | x # xs \<Rightarrow> (Ok x, xs))"

definition parsed :: "'a option \<Rightarrow> (string list, 'a, zerror) exec" where
  "parsed r = (case r of Some v \<Rightarrow> ret v | None \<Rightarrow> throw (Conversion ParsingError))"

definition strip_leading :: "string \<Rightarrow> string" where
  "strip_leading s = unwrap_or (strip_prefix ''/'' s) s"

definition strip_trailing :: "string \<Rightarrow> string" where
  "strip_trailing s = unwrap_or (strip_suffix ''/'' s) s"

section \<open>rmw_zenoh\<close>

definition EMPTY_TOPIC_TYPE :: string where
  "EMPTY_TOPIC_TYPE = ''EMPTY_TOPIC_TYPE''"

definition EMPTY_TOPIC_HASH :: string where
  "EMPTY_TOPIC_HASH = ''EMPTY_TOPIC_HASH''"

definition RMW_ESCAPE :: string where
  "RMW_ESCAPE = ''%''"

definition ADMIN_SPACE :: string where
  "ADMIN_SPACE = ''@ros2_lv''"

definition rmw_topic_key_expr :: "'z zenoh_ops \<Rightarrow> 'z EndpointEntity \<Rightarrow> (TopicKE, zerror) result" where
  "rmw_topic_key_expr Z e =
     (let s = strip_trailing (strip_leading (topic e));
          type_text = (case type_info e of
              None \<Rightarrow> EMPTY_TOPIC_TYPE @ ''/'' @ EMPTY_TOPIC_HASH
            | Some x \<Rightarrow> demangle_name RMW_ESCAPE (type_name x) @ ''/'' @
                demangle_name RMW_ESCAPE (to_rihs_string Z (type_hash x)))
      in map_ok TopicKE (ke_try_from Z
           (show_nat (unat (domain_id (endpoint_node e))) @ ''/'' @ s @ ''/'' @ type_text)))"

definition rmw_liveliness_key_expr ::
    "'z zenoh_ops \<Rightarrow> 'z EndpointEntity \<Rightarrow> 'z \<Rightarrow> (LivelinessKE, zerror) result" where
  "rmw_liveliness_key_expr Z e zid =
     (let node = endpoint_node e;
          ns = (if namespace node = [] then EMPTY_PLACEHOLDER else mangle_name RMW_ESCAPE (namespace node));
          name = mangle_name RMW_ESCAPE (node_name node);
          topic_name = mangle_name RMW_ESCAPE (strip_trailing (topic e));
          type_text = (case type_info e of
              None \<Rightarrow> EMPTY_TOPIC_TYPE @ ''/'' @ EMPTY_TOPIC_HASH
            | Some x \<Rightarrow> mangle_name RMW_ESCAPE (type_name x) @ ''/'' @ to_rihs_string Z (type_hash x))
      in map_ok LivelinessKE (ke_try_from Z
           (ADMIN_SPACE @ ''/'' @ show_nat (unat (domain_id node)) @ ''/'' @ zid_show Z (z_id node) @ ''/'' @
            show_nat (unat (node_id node)) @ ''/'' @ show_nat (unat (endpoint_id e)) @ ''/'' @
            kind_show (endpoint_kind e) @ ''/'' @ EMPTY_PLACEHOLDER @ ''/'' @ ns @ ''/'' @ name @ ''/'' @
            topic_name @ ''/'' @ type_text @ ''/'' @ qos_encode (endpoint_qos e))))"

definition rmw_node_liveliness_key_expr ::
    "'z zenoh_ops \<Rightarrow> 'z NodeEntity \<Rightarrow> (LivelinessKE, zerror) result" where
  "rmw_node_liveliness_key_expr Z node =
     (let ns = (if namespace node = [] then EMPTY_PLACEHOLDER else mangle_name RMW_ESCAPE (namespace node));
          name = mangle_name RMW_ESCAPE (node_name node)
      in map_ok LivelinessKE (ke_try_from Z
           (ADMIN_SPACE @ ''/'' @ show_nat (unat (domain_id node)) @ ''/'' @ zid_show Z (z_id node) @ ''/'' @
            show_nat (unat (node_id node)) @ ''/'' @ show_nat (unat (node_id node)) @ ''/NN/'' @
            EMPTY_PLACEHOLDER @ ''/'' @ ns @ ''/'' @ name)))"

text \<open>The topic, type, hash and QoS chunks of an endpoint's token.\<close>

definition rmw_parse_endpoint ::
    "'z NodeEntity \<Rightarrow> u64 \<Rightarrow> EntityKind \<Rightarrow> (string list, 'z Entity, zerror) exec" where
  "rmw_parse_endpoint node entity_id entity_kind =
     andthen (iter_next MissingTopicName) (\<lambda>topic_chunk.
     andthen (iter_next MissingTopicType) (\<lambda>topic_type.
     andthen (iter_next MissingTopicHash) (\<lambda>topic_hash.
     let tinfo = (if topic_type = EMPTY_TOPIC_TYPE \<or> topic_hash = EMPTY_TOPIC_HASH then None
                  else Some \<lparr>type_name = demangle_name RMW_ESCAPE topic_type,
                    type_hash = unwrap_or (from_rihs_string topic_hash) (type_hash_new 0 (replicate 32 0))\<rparr>)
     in
     andthen (iter_next MissingTopicQoS) (\<lambda>qos_chunk.
     case qos_decode qos_chunk of
       Ok qos \<Rightarrow> ret (Endpoint \<lparr>endpoint_id = entity_id, endpoint_node = node, endpoint_kind = entity_kind,
         topic = demangle_name RMW_ESCAPE topic_chunk, type_info = tinfo, endpoint_qos = qos\<rparr>)
     | Err e \<Rightarrow> throw (Conversion (QosDecodeFailed e))
     | Panic \<Rightarrow> panic))))"

definition rmw_parse_liveliness :: "'z zenoh_ops \<Rightarrow> string \<Rightarrow> ('z Entity, zerror) result" where
  "rmw_parse_liveliness Z ke = fst (
     andthen (iter_next MissingAdminSpace) (\<lambda>admin.
     if admin \<noteq> ADMIN_SPACE then throw (Conversion MissingAdminSpace) else
     andthen (iter_next MissingDomainId) (\<lambda>c1. andthen (parsed (parse_usize c1)) (\<lambda>domain.
     andthen (iter_next MissingZId) (\<lambda>c2. andthen (parsed (zid_parse Z c2)) (\<lambda>zid.
     andthen (iter_next MissingNodeId) (\<lambda>c3. andthen (parsed (parse_usize c3)) (\<lambda>nid.
     andthen (iter_next MissingEntityId) (\<lambda>c4. andthen (parsed (parse_usize c4)) (\<lambda>eid.
     andthen (iter_next MissingEntityKind) (\<lambda>c5.
     andthen (parsed (case kind_from_str c5 of Ok k \<Rightarrow> Some k | _ \<Rightarrow> None)) (\<lambda>kind.
     andthen (iter_next MissingEnclave) (\<lambda>c6.
     let encl = (if c6 = EMPTY_PLACEHOLDER then [] else demangle_name RMW_ESCAPE c6) in
     andthen (iter_next MissingNamespace) (\<lambda>c7.
     let ns = (if c7 = EMPTY_PLACEHOLDER then [] else demangle_name RMW_ESCAPE c7) in
     andthen (iter_next MissingNodeName) (\<lambda>c8.
     let node = \<lparr>domain_id = domain, z_id = zid, node_id = nid,
                 node_name = demangle_name RMW_ESCAPE c8, namespace = ns, enclave = encl\<rparr> in
     if kind = EK_Node then ret (Node node) else rmw_parse_endpoint node eid kind))))))))))))))
     (split_on CHR ''/'' ke))"

definition rmw_encode_qos :: "QosProfile \<Rightarrow> bool \<Rightarrow> string" where
  "rmw_encode_qos qos keyless = qos_encode qos"

definition debug_qos_error :: "QosDecodeError \<Rightarrow> string" where
  "debug_qos_error e = (case e of
     InvalidFormat \<Rightarrow> ''InvalidFormat'' | InvalidReliability \<Rightarrow> ''InvalidReliability''
   | InvalidDurability \<Rightarrow> ''InvalidDurability'' | InvalidHistory \<Rightarrow> ''InvalidHistory'')"

definition rmw_decode_qos :: "string \<Rightarrow> (bool \<times> QosProfile, zerror) result" where
  "rmw_decode_qos s = (case qos_decode s of
     Ok qos \<Rightarrow> Ok (False, qos)
   | Err e \<Rightarrow> Err (Message (''QoS decode error: '' @ debug_qos_error e))
   | Panic \<Rightarrow> Panic)"

section \<open>ros2dds\<close>

text \<open>The section sign U+00A7 in UTF-8.\<close>

definition SLASH_REPLACEMENT_CHAR :: string where
  "SLASH_REPLACEMENT_CHAR = [CHR 0xC2, CHR 0xA7]"

definition dds_topic_key_expr :: "'z zenoh_ops \<Rightarrow> 'z EndpointEntity \<Rightarrow> (TopicKE, zerror) result" where
  "dds_topic_key_expr Z e =
     map_ok TopicKE (ke_try_from Z (strip_trailing (strip_leading (topic e))))"

definition dds_encode_qos :: "QosProfile \<Rightarrow> bool \<Rightarrow> string" where
  "dds_encode_qos qos keyless =
     (if keyless then '''' else ''K'') @ '':'' @
     (case reliability qos of BestEffort \<Rightarrow> ''0'' | Reliable \<Rightarrow> ''1'') @ '':'' @
     (case durability qos of Volatile \<Rightarrow> ''0'' | TransientLocal \<Rightarrow> ''1'') @ '':'' @
     (case history qos of KeepLast depth \<Rightarrow> ''0,'' @ show_nat (unat depth) | KeepAll \<Rightarrow> ''1,0'')"

definition dds_decode_qos :: "string \<Rightarrow> (bool \<times> QosProfile, zerror) result" where
  "dds_decode_qos s =
     (let parts = split_on CHR '':'' s in
      if length parts < 4
      then Err (Message (''Invalid QoS format: expected at least 4 colon-separated parts, got '' @
                  show_nat (length parts)))
      else
        let keyless = (parts ! 0 = []);
            rel = (if parts ! 1 = '''' then reliability qos_default
                   else if parts ! 1 = ''0'' then BestEffort
                   else if parts ! 1 = ''1'' then Reliable
                   else reliability qos_default);
            dur = (if parts ! 2 = '''' then durability qos_default
                   else if parts ! 2 = ''0'' then Volatile
                   else if parts ! 2 = ''1'' then TransientLocal
                   else durability qos_default);
            hist = (if parts ! 3 = [] then history qos_default
                    else let history_parts = split_on CHR '','' (parts ! 3) in
                      if 2 \<le> length history_parts
                      then let depth = unwrap_or (parse_usize (history_parts ! 1)) 10 in
                        if history_parts ! 0 = ''0'' \<or> history_parts ! 0 = '''' then from_depth depth
                        else if history_parts ! 0 = ''1'' then KeepAll
                        else from_depth depth
                      else history qos_default)
        in Ok (keyless, \<lparr>reliability = rel, durability = dur, history = hist\<rparr>))"

definition dds_liveliness_key_expr ::
    "'z zenoh_ops \<Rightarrow> 'z EndpointEntity \<Rightarrow> 'z \<Rightarrow> (LivelinessKE, zerror) result" where
  "dds_liveliness_key_expr Z e zid =
     (let kind = (case endpoint_kind e of
            EK_Publisher \<Rightarrow> ''MP'' | EK_Subscription \<Rightarrow> ''MS'' | EK_Service \<Rightarrow> ''SS''
          | EK_Client \<Rightarrow> ''SC'' | EK_Node \<Rightarrow> ''NN'');
          topic_name = mangle_name SLASH_REPLACEMENT_CHAR (strip_trailing (strip_leading (topic e)));
          tname = unwrap_or (map_option (\<lambda>ti. mangle_name SLASH_REPLACEMENT_CHAR (type_name ti))
                    (type_info e)) ''unknown'';
          qos_str = (if endpoint_kind e = EK_Publisher \<or> endpoint_kind e = EK_Subscription
                     then ''/'' @ dds_encode_qos (endpoint_qos e) False else '''')
      in map_ok LivelinessKE (ke_try_from Z
           (''@/'' @ zid_show Z zid @ ''/'' @ ADMIN_SPACE @ ''/'' @ kind @ ''/'' @ topic_name @ ''/'' @
            tname @ qos_str)))"

definition dds_node_liveliness_key_expr ::
    "'z zenoh_ops \<Rightarrow> 'z NodeEntity \<Rightarrow> (LivelinessKE, zerror) result" where
  "dds_node_liveliness_key_expr Z node =
     Err (Message ''ros2dds backend does not support node liveliness tokens'')"

definition dds_kind :: "string \<Rightarrow> EntityKind option" where
  "dds_kind s =
     (if s = ''MP'' then Some EK_Publisher
      else if s = ''MS'' then Some EK_Subscription
      else if s = ''SS'' then Some EK_Service
      else if s = ''SC'' then Some EK_Client
      else if s = ''AS'' \<or> s = ''AC'' then Some EK_Service
      else None)"

text \<open>\<^verbatim>\<open>if let Some(qos_str) = iter.next()\<close>.\<close>

definition dds_optional_qos :: "(string list, QosProfile, zerror) exec" where
  "dds_optional_qos = (\<lambda>it. case it of
     [] \<Rightarrow> (Ok qos_default, [])
   | qos_str # rest \<Rightarrow> (map_ok snd (dds_decode_qos qos_str), rest))"

definition dds_parse_liveliness :: "'z zenoh_ops \<Rightarrow> string \<Rightarrow> ('z Entity, zerror) result" where
  "dds_parse_liveliness Z ke = fst (
     andthen (iter_next MissingAdminSpace) (\<lambda>first.
     if first \<noteq> ''@'' then throw (Conversion MissingAdminSpace) else
     andthen (iter_next MissingZId) (\<lambda>c1. andthen (parsed (zid_parse Z c1)) (\<lambda>zid.
     andthen (iter_next MissingAdminSpace) (\<lambda>admin.
     if admin \<noteq> ADMIN_SPACE then throw (Conversion MissingAdminSpace) else
     andthen (iter_next MissingEntityKind) (\<lambda>c2. andthen (parsed (dds_kind c2)) (\<lambda>kind.
     andthen (iter_next MissingTopicName) (\<lambda>topic_escaped.
     andthen (iter_next MissingTopicType) (\<lambda>type_escaped.
     let tname = demangle_name SLASH_REPLACEMENT_CHAR type_escaped in
     andthen dds_optional_qos (\<lambda>qos.
     let node = \<lparr>domain_id = 0, z_id = zid, node_id = 0, node_name = [], namespace = [], enclave = []\<rparr>;
         tinfo = (if tname = [] \<or> tname = ''unknown'' then None
                  else Some \<lparr>type_name = tname, type_hash = type_hash_zero\<rparr>)
     in ret (Endpoint \<lparr>endpoint_id = 0, endpoint_node = node, endpoint_kind = kind,
          topic = demangle_name SLASH_REPLACEMENT_CHAR topic_escaped, type_info = tinfo,
          endpoint_qos = qos\<rparr>))))))))))
     (split_on CHR ''/'' ke))"

section \<open>Selection at run time\<close>

datatype KeyExprFormat = RmwZenoh | Ros2Dds

definition rmw_disabled :: zerror where
  "rmw_disabled = Message ''rmw-zenoh format not enabled''"

definition dds_disabled :: zerror where
  "dds_disabled = Message ''ros2dds format not enabled''"

definition fmt_topic_key_expr ::
    "'z zenoh_ops \<Rightarrow> KeyExprFormat \<Rightarrow> 'z EndpointEntity \<Rightarrow> (TopicKE, zerror) result" where
  "fmt_topic_key_expr Z fmt e = (case fmt of
     RmwZenoh \<Rightarrow> if feat_rmw_zenoh Z then rmw_topic_key_expr Z e else Err rmw_disabled
   | Ros2Dds \<Rightarrow> if feat_ros2dds Z then dds_topic_key_expr Z e else Err dds_disabled)"

definition fmt_liveliness_key_expr ::
    "'z zenoh_ops \<Rightarrow> KeyExprFormat \<Rightarrow> 'z EndpointEntity \<Rightarrow> 'z \<Rightarrow> (LivelinessKE, zerror) result" where
  "fmt_liveliness_key_expr Z fmt e zid = (case fmt of
     RmwZenoh \<Rightarrow> if feat_rmw_zenoh Z then rmw_liveliness_key_expr Z e zid else Err rmw_disabled
   | Ros2Dds \<Rightarrow> if feat_ros2dds Z then dds_liveliness_key_expr Z e zid else Err dds_disabled)"

definition fmt_node_liveliness_key_expr ::
    "'z zenoh_ops \<Rightarrow> KeyExprFormat \<Rightarrow> 'z NodeEntity \<Rightarrow> (LivelinessKE, zerror) result" where
  "fmt_node_liveliness_key_expr Z fmt n = (case fmt of
     RmwZenoh \<Rightarrow> if feat_rmw_zenoh Z then rmw_node_liveliness_key_expr Z n else Err rmw_disabled
   | Ros2Dds \<Rightarrow> if feat_ros2dds Z then dds_node_liveliness_key_expr Z n else Err dds_disabled)"

definition fmt_parse_liveliness ::
    "'z zenoh_ops \<Rightarrow> KeyExprFormat \<Rightarrow> string \<Rightarrow> ('z Entity, zerror) result" where
  "fmt_parse_liveliness Z fmt ke = (case fmt of
     RmwZenoh \<Rightarrow> if feat_rmw_zenoh Z then rmw_parse_liveliness Z ke else Err rmw_disabled
   | Ros2Dds \<Rightarrow> if feat_ros2dds Z then dds_parse_liveliness Z ke else Err dds_disabled)"

definition fmt_encode_qos :: "'z zenoh_ops \<Rightarrow> KeyExprFormat \<Rightarrow> QosProfile \<Rightarrow> bool \<Rightarrow> string" where
  "fmt_encode_qos Z fmt qos keyless = (case fmt of
     RmwZenoh \<Rightarrow> if feat_rmw_zenoh Z then rmw_encode_qos qos keyless else []
   | Ros2Dds \<Rightarrow> if feat_ros2dds Z then dds_encode_qos qos keyless else [])"

definition fmt_decode_qos ::
    "'z zenoh_ops \<Rightarrow> KeyExprFormat \<Rightarrow> string \<Rightarrow> (bool \<times> QosProfile, zerror) result" where
  "fmt_decode_qos Z fmt s = (case fmt of
     RmwZenoh \<Rightarrow> if feat_rmw_zenoh Z then rmw_decode_qos s else Err rmw_disabled
   | Ros2Dds \<Rightarrow> if feat_ros2dds Z then dds_decode_qos s else Err dds_disabled)"

end
