(* ===== verification/Graph_Events.thy ===== *)
theory Graph_Events
  imports Proto_Format "HOL-Library.Mapping" "HOL-Library.AList_Mapping"
begin

text \<open>
  \<^verbatim>\<open>ros-z/src/event.rs\<close>: the event statuses of a publisher or subscription and the manager that
  distributes graph changes to registered callbacks.  A callback, and the trigger of guard
  conditions, is a foreign function that is called for its effect; it is a name here, and an
  operation returns the calls that it makes, in order.  Counters are 32-bit and wrap around, as in
  a release build.  A hash map is iterated in an order that is a parameter (\<open>order\<close>).
\<close>

unbundle bit_operations_syntax

section \<open>Event statuses\<close>

datatype ZenohEventType =
    RequestedQosIncompatible | OfferedQosIncompatible | MessageLost | SubscriptionMatched
  | PublicationMatched | SubscriptionIncompatibleType | PublisherIncompatibleType
  | OfferedDeadlineMissed | RequestedDeadlineMissed | LivelinessLost | LivelinessChanged

definition ZENOH_EVENT_ID_MAX :: nat where
  "ZENOH_EVENT_ID_MAX = 11"

text \<open>\<^verbatim>\<open>event_type as usize\<close>\<close>

definition event_id :: "ZenohEventType \<Rightarrow> nat" where
  "event_id t = (case t of
     RequestedQosIncompatible \<Rightarrow> 0 | OfferedQosIncompatible \<Rightarrow> 1 | MessageLost \<Rightarrow> 2
   | SubscriptionMatched \<Rightarrow> 3 | PublicationMatched \<Rightarrow> 4 | SubscriptionIncompatibleType \<Rightarrow> 5
   | PublisherIncompatibleType \<Rightarrow> 6 | OfferedDeadlineMissed \<Rightarrow> 7 | RequestedDeadlineMissed \<Rightarrow> 8
   | LivelinessLost \<Rightarrow> 9 | LivelinessChanged \<Rightarrow> 10)"

record ZenohEventStatus =
  total_count :: i32
  total_count_change :: i32
  current_count :: i32
  current_count_change :: i32
  status_data :: string
  changed :: bool
  last_policy_kind :: u32

definition status_default :: ZenohEventStatus where
  "status_default = \<lparr>total_count = 0, total_count_change = 0, current_count = 0,
     current_count_change = 0, status_data = '''', changed = False, last_policy_kind = 0\<rparr>"

record 'c EventsManager =
  event_statuses :: "ZenohEventStatus list"
  event_callbacks :: "'c option list"
  entity_gid :: bytes

definition events_manager_new :: "bytes \<Rightarrow> 'c EventsManager" where
  "events_manager_new gid =
     \<lparr>event_statuses = replicate ZENOH_EVENT_ID_MAX status_default,
      event_callbacks = replicate ZENOH_EVENT_ID_MAX None, entity_gid = gid\<rparr>"

abbreviation status_at :: "ZenohEventType \<Rightarrow> 'c EventsManager \<Rightarrow> ZenohEventStatus" where
  "status_at t m \<equiv> event_statuses m ! event_id t"

definition set_status :: "ZenohEventType \<Rightarrow> ZenohEventStatus \<Rightarrow> 'c EventsManager \<Rightarrow> 'c EventsManager" where
  "set_status t s m = m\<lparr>event_statuses := (event_statuses m)[event_id t := s]\<rparr>"

definition em_set_callback ::
    "ZenohEventType \<Rightarrow> 'c \<Rightarrow> 'c EventsManager \<Rightarrow> ('c \<times> i32) list \<times> 'c EventsManager" where
  "em_set_callback t callback m =
     (let unread_count = total_count_change (status_at t m);
          (calls, m1) =
            (if unread_count \<noteq> 0
             then ([(callback, unread_count)],
                   set_status t ((status_at t m)\<lparr>total_count_change := 0\<rparr>) m)
             else ([], m))
      in (calls, m1\<lparr>event_callbacks := (event_callbacks m1)[event_id t := Some callback]\<rparr>))"

text \<open>\<^verbatim>\<open>change.max(0)\<close> on signed integers\<close>

definition positive_part :: "i32 \<Rightarrow> i32" where
  "positive_part c = (if sint c < 0 then 0 else c)"

definition update_event_status_with_policy ::
    "ZenohEventType \<Rightarrow> i32 \<Rightarrow> u32 \<Rightarrow> 'c EventsManager \<Rightarrow> ('c \<times> i32) list \<times> 'c EventsManager" where
  "update_event_status_with_policy t change policy_kind m =
     (let status = status_at t m;
          status1 = status
            \<lparr>total_count := total_count status + positive_part change,
             total_count_change := total_count_change status + positive_part change,
             current_count := current_count status + change,
             current_count_change := current_count_change status + change,
             changed := True\<rparr>;
          status2 = (if policy_kind \<noteq> 0 then status1\<lparr>last_policy_kind := policy_kind\<rparr> else status1);
          m' = set_status t status2 m;
          calls = (case event_callbacks m' ! event_id t of
                     Some callback \<Rightarrow> [(callback, change)] | None \<Rightarrow> [])
      in (calls, m'))"

definition update_event_status ::
    "ZenohEventType \<Rightarrow> i32 \<Rightarrow> 'c EventsManager \<Rightarrow> ('c \<times> i32) list \<times> 'c EventsManager" where
  "update_event_status t change m = update_event_status_with_policy t change 0 m"

definition take_event_status ::
    "ZenohEventType \<Rightarrow> 'c EventsManager \<Rightarrow> ZenohEventStatus \<times> 'c EventsManager" where
  "take_event_status t m =
     (let status = status_at t m
      in (status, set_status t
            (status\<lparr>current_count_change := 0, total_count_change := 0, changed := False\<rparr>) m))"

section \<open>RmEventHandle and EventWaitData\<close>

text \<open>A handle shares the manager of its entity; the shared manager is the state argument.\<close>

datatype RmEventHandle = RmEventHandle (handle_event_type: ZenohEventType)

definition take_event :: "RmEventHandle \<Rightarrow> 'c EventsManager \<Rightarrow> ZenohEventStatus \<times> 'c EventsManager" where
  "take_event h mgr = take_event_status (handle_event_type h) mgr"

definition is_ready :: "RmEventHandle \<Rightarrow> 'c EventsManager \<Rightarrow> bool" where
  "is_ready h mgr = changed (status_at (handle_event_type h) mgr)"

definition handle_set_callback ::
    "RmEventHandle \<Rightarrow> 'c \<Rightarrow> 'c EventsManager \<Rightarrow> ('c \<times> i32) list \<times> 'c EventsManager" where
  "handle_set_callback h callback mgr = em_set_callback (handle_event_type h) callback mgr"

record EventWaitData =
  triggered :: bool

definition wait_data_new :: EventWaitData where
  "wait_data_new = \<lparr>triggered = False\<rparr>"

definition is_triggered :: "EventWaitData \<Rightarrow> bool" where
  "is_triggered w = triggered w"

definition set_triggered :: "bool \<Rightarrow> EventWaitData \<Rightarrow> EventWaitData" where
  "set_triggered b w = w\<lparr>triggered := b\<rparr>"

section \<open>GraphEventManager\<close>

text \<open>A call of a registered callback, or of the guard condition trigger with a pointer.\<close>

datatype ('c, 't) notification = Callback 'c i32 | Guard 't u64

record ('c, 't) GraphEventManager =
  gem_callbacks :: "(bytes, (ZenohEventType, 'c) mapping) mapping"
  graph_guard_conditions :: "u64 list"
  trigger_guard_condition :: "'t option"

definition gem_new :: "('c, 't) GraphEventManager" where
  "gem_new = \<lparr>gem_callbacks = Mapping.empty, graph_guard_conditions = [],
     trigger_guard_condition = None\<rparr>"

definition set_guard_condition_trigger ::
    "'t \<Rightarrow> ('c, 't) GraphEventManager \<Rightarrow> ('c, 't) GraphEventManager" where
  "set_guard_condition_trigger t m = m\<lparr>trigger_guard_condition := Some t\<rparr>"

definition register_event_callback ::
    "bytes \<Rightarrow> ZenohEventType \<Rightarrow> 'c \<Rightarrow> ('c, 't) GraphEventManager \<Rightarrow> ('c, 't) GraphEventManager" where
  "register_event_callback gid t callback m =
     (let entity_callbacks = unwrap_or (Mapping.lookup (gem_callbacks m) gid) Mapping.empty
      in m\<lparr>gem_callbacks :=
             Mapping.update gid (Mapping.update t callback entity_callbacks) (gem_callbacks m)\<rparr>)"

definition unregister_entity :: "bytes \<Rightarrow> ('c, 't) GraphEventManager \<Rightarrow> ('c, 't) GraphEventManager" where
  "unregister_entity gid m = m\<lparr>gem_callbacks := Mapping.delete gid (gem_callbacks m)\<rparr>"

definition register_graph_guard_condition ::
    "u64 \<Rightarrow> ('c, 't) GraphEventManager \<Rightarrow> ('c, 't) GraphEventManager" where
  "register_graph_guard_condition gc m =
     m\<lparr>graph_guard_conditions := graph_guard_conditions m @ [gc]\<rparr>"

definition unregister_graph_guard_condition ::
    "u64 \<Rightarrow> ('c, 't) GraphEventManager \<Rightarrow> ('c, 't) GraphEventManager" where
  "unregister_graph_guard_condition gc m =
     m\<lparr>graph_guard_conditions := filter (\<lambda>g. g \<noteq> gc) (graph_guard_conditions m)\<rparr>"

definition encode_change :: "ZenohEventType \<Rightarrow> i32 \<Rightarrow> u32 \<Rightarrow> i32" where
  "encode_change t change policy_kind =
     (if policy_kind \<noteq> 0 \<and> (t = RequestedQosIncompatible \<or> t = OfferedQosIncompatible)
      then (push_bit 16 policy_kind) OR (change AND 0xFFFF) else change)"

definition registered_callback ::
    "bytes \<Rightarrow> ZenohEventType \<Rightarrow> ('c, 't) GraphEventManager \<Rightarrow> 'c option" where
  "registered_callback gid t m =
     Option.bind (Mapping.lookup (gem_callbacks m) gid) (\<lambda>callbacks. Mapping.lookup callbacks t)"

definition trigger_event_with_policy ::
    "('c, 't) GraphEventManager \<Rightarrow> bytes \<Rightarrow> ZenohEventType \<Rightarrow> i32 \<Rightarrow> u32 \<Rightarrow> ('c, 't) notification list"
where
  "trigger_event_with_policy m gid t change policy_kind =
     (let encoded_change = encode_change t change policy_kind
      in case registered_callback gid t m of
           Some callback \<Rightarrow> [Callback callback encoded_change] | None \<Rightarrow> [])"

definition trigger_event ::
    "('c, 't) GraphEventManager \<Rightarrow> bytes \<Rightarrow> ZenohEventType \<Rightarrow> i32 \<Rightarrow> ('c, 't) notification list" where
  "trigger_event m gid t change = trigger_event_with_policy m gid t change 0"

text \<open>The event type of a change: none for nodes and services, a panic for an ill-formed endpoint.\<close>

definition change_event_type :: "'z Entity \<Rightarrow> (ZenohEventType option, 'e) result" where
  "change_event_type entity = (case entity of
     Endpoint endpoint \<Rightarrow> (case endpoint_kind endpoint of
         EK_Publisher \<Rightarrow> Ok (Some SubscriptionMatched)
       | EK_Subscription \<Rightarrow> Ok (Some PublicationMatched)
       | EK_Service \<Rightarrow> Ok None
       | EK_Client \<Rightarrow> Ok None
       | EK_Node \<Rightarrow> Panic)
   | Node _ \<Rightarrow> Ok None)"

definition trigger_graph_change ::
    "(bytes set \<Rightarrow> bytes list) \<Rightarrow> ('c, 't) GraphEventManager \<Rightarrow> 'z Entity \<Rightarrow> bool \<Rightarrow>
     (unit, 'e) result \<times> ('c, 't) notification list" where
  "trigger_graph_change order m entity appeared =
     (let change = (if appeared then 1 else - 1);
          guards = (case trigger_guard_condition m of
                      Some trigger \<Rightarrow> map (Guard trigger) (graph_guard_conditions m) | None \<Rightarrow> [])
      in case (change_event_type entity :: (ZenohEventType option, 'e) result) of
           Ok None \<Rightarrow> (Ok (), guards)
         | Ok (Some t) \<Rightarrow>
             (Ok (), guards @ List.map_filter
                (\<lambda>gid. map_option (\<lambda>callback. Callback callback change) (registered_callback gid t m))
                (order (Mapping.keys (gem_callbacks m))))
         | _ \<Rightarrow> (Panic, guards))"

section \<open>Well-formed managers\<close>

definition events_wf :: "'c EventsManager \<Rightarrow> bool" where
  "events_wf m \<longleftrightarrow> length (event_statuses m) = ZENOH_EVENT_ID_MAX \<and>
     length (event_callbacks m) = ZENOH_EVENT_ID_MAX"

lemma event_id_less [simp]: "event_id t < ZENOH_EVENT_ID_MAX"
  by (cases t) (simp_all add: event_id_def ZENOH_EVENT_ID_MAX_def)

lemma event_id_inject [simp]: "event_id t = event_id u \<longleftrightarrow> t = u"
  by (cases t; cases u) (simp_all add: event_id_def)

lemma status_at_set [simp]:
  "events_wf m \<Longrightarrow> status_at u (set_status t s m) = (if t = u then s else status_at u m)"
  by (simp add: events_wf_def set_status_def nth_list_update)

lemma set_status_frame [simp]:
  "event_callbacks (set_status t s m) = event_callbacks m" "entity_gid (set_status t s m) = entity_gid m"
  by (simp_all add: set_status_def)

lemma status_at_new [simp]: "status_at t (events_manager_new gid) = status_default"
  by (simp add: events_manager_new_def)

text \<open>Every operation keeps the vectors at their length, so no index is ever out of range.\<close>

lemma events_wf_set [simp]: "events_wf (set_status t s m) \<longleftrightarrow> events_wf m"
  by (simp add: events_wf_def set_status_def)

lemma events_wf_operations:
  "events_wf (events_manager_new gid)"
  "events_wf m \<Longrightarrow> events_wf (snd (em_set_callback t c m))"
  "events_wf m \<Longrightarrow> events_wf (snd (update_event_status_with_policy t change p m))"
  "events_wf m \<Longrightarrow> events_wf (snd (take_event_status t m))"
proof -
  show "events_wf (events_manager_new gid)" by (simp add: events_wf_def events_manager_new_def)
  show "events_wf (snd (em_set_callback t c m))" if "events_wf m"
    using that by (simp add: em_set_callback_def Let_def) (simp add: events_wf_def set_status_def)
qed (simp_all add: update_event_status_with_policy_def take_event_status_def Let_def)

section \<open>Accounting\<close>

text \<open>A history of updates of one event type, each a change and a policy kind.\<close>

fun run_updates :: "ZenohEventType \<Rightarrow> (i32 \<times> u32) list \<Rightarrow> 'c EventsManager \<Rightarrow>
    ('c \<times> i32) list \<times> 'c EventsManager" where
  "run_updates t [] m = ([], m)"
| "run_updates t ((change, policy) # us) m =
     (let (calls, m1) = update_event_status_with_policy t change policy m;
          (calls', m2) = run_updates t us m1
      in (calls @ calls', m2))"

lemma update_status:
  assumes "events_wf m"
  shows "status_at u (snd (update_event_status_with_policy t change policy m)) =
    (if u = t then (status_at t m)
       \<lparr>total_count := total_count (status_at t m) + positive_part change,
        total_count_change := total_count_change (status_at t m) + positive_part change,
        current_count := current_count (status_at t m) + change,
        current_count_change := current_count_change (status_at t m) + change,
        changed := True,
        last_policy_kind := if policy \<noteq> 0 then policy else last_policy_kind (status_at t m)\<rparr>
     else status_at u m)"
  using assms by (auto simp: update_event_status_with_policy_def Let_def)

lemma run_updates_accounting:
  assumes "events_wf m"
  shows "let m' = snd (run_updates t us m) in
    events_wf m' \<and>
    total_count (status_at t m') = total_count (status_at t m) + sum_list (map (positive_part \<circ> fst) us) \<and>
    total_count_change (status_at t m') =
      total_count_change (status_at t m) + sum_list (map (positive_part \<circ> fst) us) \<and>
    current_count (status_at t m') = current_count (status_at t m) + sum_list (map fst us) \<and>
    current_count_change (status_at t m') = current_count_change (status_at t m) + sum_list (map fst us) \<and>
    (changed (status_at t m') \<longleftrightarrow> changed (status_at t m) \<or> us \<noteq> []) \<and>
    (\<forall>u. u \<noteq> t \<longrightarrow> status_at u m' = status_at u m)"
  using assms
proof (induction us arbitrary: m)
  case (Cons u us)
  obtain change policy where u: "u = (change, policy)" by (cases u)
  let ?m = "snd (update_event_status_with_policy t change policy m)"
  have "events_wf ?m" using Cons.prems by (rule events_wf_operations(3))
  from Cons.IH [OF this] show ?case
    by (simp add: u Let_def split_beta update_status [OF Cons.prems] add.assoc)
qed simp

section \<open>Properties\<close>

text \<open>
  C35.  Between two reads of an event status no change is lost or counted twice: the status read
  second holds the sum of all changes reported in between, and of their positive parts, in its
  change counters, totals that continue those read first, and says whether there was any change;
  the statuses of all other event types are untouched, and after the read the event is no longer
  ready.
\<close>

theorem event_status_accounting:
  assumes "events_wf m" and "take_event_status t m = (before, m1)"
    and "run_updates t us m1 = (calls, m2)" and "take_event_status t m2 = (after, m3)"
  shows "total_count_change after = sum_list (map (positive_part \<circ> fst) us) \<and>
    current_count_change after = sum_list (map fst us) \<and>
    total_count after = total_count before + total_count_change after \<and>
    current_count after = current_count before + current_count_change after \<and>
    (changed after \<longleftrightarrow> us \<noteq> []) \<and>
    (\<forall>u. u \<noteq> t \<longrightarrow> status_at u m3 = status_at u m) \<and>
    \<not> is_ready (RmEventHandle t) m3"
proof -
  have m1: "before = status_at t m" "m1 = snd (take_event_status t m)" "m2 = snd (run_updates t us m1)"
    "after = status_at t m2" "m3 = snd (take_event_status t m2)"
    using assms(2-4) by (auto simp: take_event_status_def Let_def)
  have wf1: "events_wf m1" using events_wf_operations(4) [OF assms(1)] by (simp add: m1)
  have "events_wf m2" using run_updates_accounting [OF wf1, of t us] by (simp add: m1(3) Let_def)
  then show ?thesis
    using run_updates_accounting [OF wf1, of t us] assms(1) m1
    by (simp add: Let_def take_event_status_def is_ready_def)
qed

theorem event_status_accounting_witness:
  "(let m1 = snd (take_event_status PublicationMatched (events_manager_new [] :: nat EventsManager));
        m2 = snd (run_updates PublicationMatched [(1, 0), (1, 0), (- 1, 0)] m1);
        after = fst (take_event_status PublicationMatched m2)
    in total_count_change after = 2 \<and> current_count_change after = 1 \<and> changed after)"
proof -
  have "positive_part (- 1) = 0" "positive_part 1 = 1" by (simp_all add: positive_part_def)
  then show ?thesis
    using event_status_accounting [where 'a = nat, OF events_wf_operations(1), of PublicationMatched "[]" _ _
        "[(1, 0), (1, 0), (- 1, 0)]", OF prod.collapse [symmetric] prod.collapse [symmetric]
        prod.collapse [symmetric]]
    by (simp add: Let_def del: run_updates.simps)
qed


end
