(* ===== verification/RosZ_Collections.thy ===== *)
theory RosZ_Collections
  imports RosZ_Prelude "HOL-Library.Char_ord" "HOL-Library.List_Lexorder"
begin

text \<open>
  The maps of the Rust standard library.  A \<^verbatim>\<open>HashMap\<close> is a map, and the order in which its keys
  are iterated is a parameter with the law \<open>iteration_order\<close>.  A \<^verbatim>\<open>BTreeMap\<close> with string keys
  is the list of its entries in the order of the keys, which is the order of iteration; strings
  compare by their bytes.
\<close>

section \<open>HashMap\<close>

definition iteration_order :: "('k set \<Rightarrow> 'k list) \<Rightarrow> bool" where
  "iteration_order order \<longleftrightarrow> (\<forall>K. finite K \<longrightarrow> distinct (order K) \<and> set (order K) = K)"

lemma iteration_order_set [simp]: "iteration_order order \<Longrightarrow> finite K \<Longrightarrow> set (order K) = K"
  and iteration_order_distinct [simp]: "iteration_order order \<Longrightarrow> finite K \<Longrightarrow> distinct (order K)"
  by (simp_all add: iteration_order_def)

lemma iteration_order_sorted: "iteration_order sorted_list_of_set"
  by (simp add: iteration_order_def)

section \<open>BTreeMap\<close>

type_synonym 'v btree = "(string \<times> 'v) list"

fun btree_insert :: "string \<Rightarrow> 'v \<Rightarrow> 'v btree \<Rightarrow> 'v btree" where
  "btree_insert k v [] = [(k, v)]"
| "btree_insert k v ((k', v') # t) =
     (if k < k' then (k, v) # (k', v') # t
      else if k = k' then (k, v) # t
      else (k', v') # btree_insert k v t)"

abbreviation btree_get :: "'v btree \<Rightarrow> string \<Rightarrow> 'v option" where
  "btree_get \<equiv> map_of"

definition btree_contains :: "'v btree \<Rightarrow> string \<Rightarrow> bool" where
  "btree_contains t k \<longleftrightarrow> map_of t k \<noteq> None"

definition btree_values :: "'v btree \<Rightarrow> 'v list" where
  "btree_values t = map snd t"

definition btree_ok :: "'v btree \<Rightarrow> bool" where
  "btree_ok t \<longleftrightarrow> sorted_wrt (<) (map fst t)"

lemma btree_get_insert [simp]: "map_of (btree_insert k v t) = (map_of t)(k \<mapsto> v)"
  by (induction k v t rule: btree_insert.induct) auto

lemma btree_keys_insert: "set (map fst (btree_insert k v t)) = insert k (set (map fst t))"
  by (induction k v t rule: btree_insert.induct) auto

lemma btree_ok_insert: "btree_ok t \<Longrightarrow> btree_ok (btree_insert k v t)"
  unfolding btree_ok_def
proof (induction k v t rule: btree_insert.induct)
  case (2 k v k' v' t)
  then show ?case
    using btree_keys_insert [of k v t] by (fastforce simp: not_less)
qed simp

lemma btree_contains_insert [simp]: "btree_contains (btree_insert k v t) x \<longleftrightarrow> x = k \<or> btree_contains t x"
  by (simp add: btree_contains_def)

lemma btree_ok_Nil [simp]: "btree_ok []"
  by (simp add: btree_ok_def)

lemma btree_ok_distinct: "btree_ok t \<Longrightarrow> distinct (map fst t)"
  unfolding btree_ok_def by (induction t) auto

end
