(* ===== verification/Graph_Data.thy ===== *)
theory Graph_Data
  imports Graph_Events RosZ_Collections "HOL-Library.Multiset" "HOL-Library.Product_Lexorder"
begin

text \<open>
  \<^verbatim>\<open>ros-z/src/entity.rs\<close> and the type \<^verbatim>\<open>GraphData\<close> of \<^verbatim>\<open>ros-z/src/graph.rs\<close>: the tokens that a
  session has seen, the entities parsed from them, and three indexes of weak references.

  Reference counting is explicit: an \<^verbatim>\<open>Arc\<close> is an address, \<open>arc_value\<close> says what it points to and
  \<open>arc_strong\<close> counts its strong references, including those that callers keep; a weak reference
  is an address and upgrades while the count is positive.  The foreign type \<^verbatim>\<open>Slab\<close> is a record of
  operations (\<open>slab_ops\<close>), with its documented laws in the locale \<open>slab_laws\<close>; the orders in which
  hash tables are iterated are functions with the law of \<open>iteration_order\<close>.
\<close>

section \<open>Foreign parts\<close>

record ('a, 's) slab_ops =
  slab_with_capacity :: "nat \<Rightarrow> 's"
  slab_len :: "'s \<Rightarrow> nat"
  slab_capacity :: "'s \<Rightarrow> nat"
  slab_insert :: "'a \<Rightarrow> 's \<Rightarrow> 's"
  slab_retain :: "('a \<Rightarrow> bool) \<Rightarrow> 's \<Rightarrow> 's"
  slab_iter :: "'s \<Rightarrow> 'a list"

locale slab_laws =
  fixes S :: "('a, 's) slab_ops"
  assumes iter_new [simp]: "slab_iter S (slab_with_capacity S n) = []"
    and mset_iter_insert:
      "mset (slab_iter S (slab_insert S x s)) = add_mset x (mset (slab_iter S s))"
    and iter_retain [simp]: "slab_iter S (slab_retain S P s) = filter P (slab_iter S s)"
    and len_iter: "slab_len S s = length (slab_iter S s)"
begin

lemma set_iter_insert [simp]: "set (slab_iter S (slab_insert S x s)) = insert x (set (slab_iter S s))"
  using arg_cong [OF mset_iter_insert, of set_mset x s] by simp

lemma distinct_iter_insert [simp]:
  "distinct (filter P (slab_iter S (slab_insert S x s))) \<longleftrightarrow>
     distinct (filter P (slab_iter S s)) \<and> (P x \<longrightarrow> x \<notin> set (slab_iter S s))"
proof -
  have "mset (filter P (slab_iter S (slab_insert S x s))) = mset (filter P (x # slab_iter S s))"
    by (simp add: mset_iter_insert)
  from mset_eq_imp_distinct_iff [OF this] show ?thesis by auto
qed

end

text \<open>A slab that is a list in which new elements come last, with its capacity.\<close>

definition list_slab :: "('a, nat \<times> 'a list) slab_ops" where
  "list_slab = \<lparr>slab_with_capacity = (\<lambda>n. (n, [])), slab_len = length \<circ> snd, slab_capacity = fst,
     slab_insert = (\<lambda>x (n, xs). (max n (Suc (length xs)), xs @ [x])),
     slab_retain = (\<lambda>P (n, xs). (n, filter P xs)), slab_iter = snd\<rparr>"

interpretation ls: slab_laws list_slab
  by unfold_locales (auto simp: list_slab_def)

record ('z, 's) graph_env =
  env_zenoh :: "'z zenoh_ops"
  env_slab :: "(nat, 's) slab_ops"
  order_tokens :: "LivelinessKE set \<Rightarrow> LivelinessKE list"
  order_names :: "string set \<Rightarrow> string list"
  order_nodes :: "(string \<times> string) set \<Rightarrow> (string \<times> string) list"
  order_gids :: "bytes set \<Rightarrow> bytes list"

section \<open>entity.rs\<close>

type_synonym NodeKey = "string \<times> string"

definition node_key :: "'z NodeEntity \<Rightarrow> NodeKey" where
  "node_key entity =
     (let normalized_namespace = (if namespace entity = ''/'' then '''' else namespace entity)
      in (normalized_namespace, node_name entity))"

definition node_to_liveliness_ke :: "'z zenoh_ops \<Rightarrow> 'z NodeEntity \<Rightarrow> (LivelinessKE, zerror) result" where
  "node_to_liveliness_ke Z entity = fmt_node_liveliness_key_expr Z RmwZenoh entity"

definition endpoint_to_liveliness_ke ::
    "'z zenoh_ops \<Rightarrow> 'z EndpointEntity \<Rightarrow> (LivelinessKE, zerror) result" where
  "endpoint_to_liveliness_ke Z entity =
     fmt_liveliness_key_expr Z RmwZenoh entity (z_id (endpoint_node entity))"

definition entity_to_liveliness_ke :: "'z zenoh_ops \<Rightarrow> 'z Entity \<Rightarrow> (LivelinessKE, zerror) result" where
  "entity_to_liveliness_ke Z entity = (case entity of
     Node n \<Rightarrow> node_to_liveliness_ke Z n | Endpoint e \<Rightarrow> endpoint_to_liveliness_ke Z e)"

definition node_lv_token_key_expr :: "'z zenoh_ops \<Rightarrow> 'z NodeEntity \<Rightarrow> (string, zerror) result" where
  "node_lv_token_key_expr Z entity = map_ok (\<lambda>ke. case ke of LivelinessKE s \<Rightarrow> s) (node_to_liveliness_ke Z entity)"

definition entity_kind :: "'z Entity \<Rightarrow> EntityKind" where
  "entity_kind entity = (case entity of Node _ \<Rightarrow> EK_Node | Endpoint e \<Rightarrow> endpoint_kind e)"

definition entity_get_endpoint :: "'z Entity \<Rightarrow> 'z EndpointEntity option" where
  "entity_get_endpoint entity = (case entity of Node _ \<Rightarrow> None | Endpoint e \<Rightarrow> Some e)"

section \<open>GraphData\<close>

definition DEFAULT_SLAB_CAPACITY :: nat where
  "DEFAULT_SLAB_CAPACITY = 128"

record ('z, 's) GraphData =
  gd_cached :: "LivelinessKE set"
  gd_parsed :: "(LivelinessKE, nat) mapping"
  gd_by_topic :: "(string, 's) mapping"
  gd_by_service :: "(string, 's) mapping"
  gd_by_node :: "(NodeKey, 's) mapping"
  gd_parser :: "string \<Rightarrow> ('z Entity, zerror) result"
  arc_value :: "nat \<rightharpoonup> 'z Entity"
  arc_strong :: "nat \<Rightarrow> nat"
  arc_next :: nat

text \<open>\<^verbatim>\<open>Arc::new\<close>, \<^verbatim>\<open>Arc::clone\<close>, dropping an \<^verbatim>\<open>Arc\<close>, and \<^verbatim>\<open>Weak::upgrade\<close>.\<close>

definition arc_new :: "'z Entity \<Rightarrow> ('z, 's) GraphData \<Rightarrow> nat \<times> ('z, 's) GraphData" where
  "arc_new e g = (arc_next g,
     g\<lparr>arc_value := (arc_value g)(arc_next g \<mapsto> e), arc_strong := (arc_strong g)(arc_next g := 1),
       arc_next := Suc (arc_next g)\<rparr>)"

definition arc_clone :: "nat \<Rightarrow> ('z, 's) GraphData \<Rightarrow> ('z, 's) GraphData" where
  "arc_clone a g = g\<lparr>arc_strong := (arc_strong g)(a := Suc (arc_strong g a))\<rparr>"

definition arc_drop :: "nat \<Rightarrow> ('z, 's) GraphData \<Rightarrow> ('z, 's) GraphData" where
  "arc_drop a g = g\<lparr>arc_strong := (arc_strong g)(a := arc_strong g a - 1)\<rparr>"

definition arc_upgrade :: "('z, 's) GraphData \<Rightarrow> nat \<Rightarrow> 'z Entity option" where
  "arc_upgrade g a = (if 0 < arc_strong g a then arc_value g a else None)"

abbreviation upgrades :: "('z, 's) GraphData \<Rightarrow> nat \<Rightarrow> bool" where
  "upgrades g a \<equiv> arc_upgrade g a \<noteq> None"

definition new_with_parser :: "(string \<Rightarrow> ('z Entity, zerror) result) \<Rightarrow> ('z, 's) GraphData" where
  "new_with_parser p =
     \<lparr>gd_cached = {}, gd_parsed = Mapping.empty, gd_by_topic = Mapping.empty,
      gd_by_service = Mapping.empty, gd_by_node = Mapping.empty, gd_parser = p,
      arc_value = Map.empty, arc_strong = (\<lambda>_. 0), arc_next = 0\<rparr>"

definition gd_insert :: "LivelinessKE \<Rightarrow> ('z, 's) GraphData \<Rightarrow> ('z, 's) GraphData" where
  "gd_insert ke g =
     (if Mapping.lookup (gd_parsed g) ke \<noteq> None then g
      else g\<lparr>gd_cached := insert ke (gd_cached g)\<rparr>)"

text \<open>Removing a key from \<^verbatim>\<open>parsed\<close> drops the \<^verbatim>\<open>Arc\<close> found there.\<close>

definition parsed_remove :: "LivelinessKE \<Rightarrow> ('z, 's) GraphData \<Rightarrow> ('z, 's) GraphData" where
  "parsed_remove ke g =
     (case Mapping.lookup (gd_parsed g) ke of
        Some a \<Rightarrow> (arc_drop a g)\<lparr>gd_parsed := Mapping.delete ke (gd_parsed g)\<rparr>
      | None \<Rightarrow> g)"

definition gd_remove :: "LivelinessKE \<Rightarrow> ('z, 's) GraphData \<Rightarrow> ('z, 's) GraphData" where
  "gd_remove ke g = parsed_remove ke (g\<lparr>gd_cached := gd_cached g - {ke}\<rparr>)"

text \<open>The slab of a key, created on demand, pruned when it is full, takes one more weak reference.\<close>

definition index_weak ::
    "(nat, 's) slab_ops \<Rightarrow> (nat \<Rightarrow> bool) \<Rightarrow> 'k \<Rightarrow> nat \<Rightarrow> ('k, 's) mapping \<Rightarrow> ('k, 's) mapping" where
  "index_weak S alive k weak m =
     (let slab = unwrap_or (Mapping.lookup m k) (slab_with_capacity S DEFAULT_SLAB_CAPACITY);
          slab1 = (if slab_capacity S slab \<le> slab_len S slab then slab_retain S alive slab else slab)
      in Mapping.update k (slab_insert S weak slab1) m)"

definition is_pubsub_kind :: "EntityKind \<Rightarrow> bool" where
  "is_pubsub_kind k \<longleftrightarrow> k = EK_Publisher \<or> k = EK_Subscription"

definition is_service_kind :: "EntityKind \<Rightarrow> bool" where
  "is_service_kind k \<longleftrightarrow> k = EK_Service \<or> k = EK_Client"

definition index_entity ::
    "(nat, 's) slab_ops \<Rightarrow> 'z Entity \<Rightarrow> nat \<Rightarrow> ('z, 's) GraphData \<Rightarrow> ('z, 's) GraphData" where
  "index_entity S entity weak g = (case entity of
     Node x \<Rightarrow> g\<lparr>gd_by_node := index_weak S (upgrades g) (node_key x) weak (gd_by_node g)\<rparr>
   | Endpoint x \<Rightarrow>
       (let g1 = (if is_pubsub_kind (endpoint_kind x)
                  then g\<lparr>gd_by_topic := index_weak S (upgrades g) (topic x) weak (gd_by_topic g)\<rparr> else g);
            g2 = (if is_service_kind (endpoint_kind x)
                  then g1\<lparr>gd_by_service := index_weak S (upgrades g1) (topic x) weak (gd_by_service g1)\<rparr>
                  else g1)
        in g2\<lparr>gd_by_node := index_weak S (upgrades g2) (node_key (endpoint_node x)) weak (gd_by_node g2)\<rparr>))"

abbreviation ke_str :: "LivelinessKE \<Rightarrow> string" where
  "ke_str ke \<equiv> (case ke of LivelinessKE s \<Rightarrow> s)"

definition parse_token ::
    "(nat, 's) slab_ops \<Rightarrow> LivelinessKE \<Rightarrow> ('z, 's) GraphData \<Rightarrow> ('z, 's) GraphData" where
  "parse_token S ke g =
     (if Mapping.lookup (gd_parsed g) ke \<noteq> None then g
      else case gd_parser g (ke_str ke) of
        Ok entity \<Rightarrow>
          (let (arc, g1) = arc_new entity g;
               g2 = index_entity S entity arc g1
           in g2\<lparr>gd_parsed := Mapping.update ke arc (gd_parsed g2)\<rparr>)
      | _ \<Rightarrow> g)"

definition gd_parse :: "('z, 's) graph_env \<Rightarrow> ('z, 's) GraphData \<Rightarrow> ('z, 's) GraphData" where
  "gd_parse E g =
     fold (parse_token (env_slab E)) (order_tokens E (gd_cached g)) (g\<lparr>gd_cached := {}\<rparr>)"

definition parse_cached :: "('z, 's) graph_env \<Rightarrow> ('z, 's) GraphData \<Rightarrow> ('z, 's) GraphData" where
  "parse_cached E g = (if gd_cached g \<noteq> {} then gd_parse E g else g)"

text \<open>
  Visiting a slab: every weak reference that upgrades is passed on, the others are removed.  The
  result is the list of the entities passed to the visitor.
\<close>

definition visit_slab ::
    "(nat, 's) slab_ops \<Rightarrow> (nat \<Rightarrow> bool) \<Rightarrow> 'k \<Rightarrow> ('k, 's) mapping \<Rightarrow> nat list \<times> ('k, 's) mapping" where
  "visit_slab S alive k m = (case Mapping.lookup m k of
     Some slab \<Rightarrow> (filter alive (slab_iter S slab), Mapping.update k (slab_retain S alive slab) m)
   | None \<Rightarrow> ([], m))"

definition visit_by_node ::
    "('z, 's) graph_env \<Rightarrow> NodeKey \<Rightarrow> ('z, 's) GraphData \<Rightarrow> nat list \<times> ('z, 's) GraphData" where
  "visit_by_node E k g =
     (let g1 = parse_cached E g;
          (arcs, m) = visit_slab (env_slab E) (upgrades g1) k (gd_by_node g1)
      in (arcs, g1\<lparr>gd_by_node := m\<rparr>))"

definition visit_by_topic ::
    "('z, 's) graph_env \<Rightarrow> string \<Rightarrow> ('z, 's) GraphData \<Rightarrow> nat list \<times> ('z, 's) GraphData" where
  "visit_by_topic E k g =
     (let g1 = parse_cached E g;
          (arcs, m) = visit_slab (env_slab E) (upgrades g1) k (gd_by_topic g1)
      in (arcs, g1\<lparr>gd_by_topic := m\<rparr>))"

definition visit_by_service ::
    "('z, 's) graph_env \<Rightarrow> string \<Rightarrow> ('z, 's) GraphData \<Rightarrow> nat list \<times> ('z, 's) GraphData" where
  "visit_by_service E k g =
     (let g1 = parse_cached E g;
          (arcs, m) = visit_slab (env_slab E) (upgrades g1) k (gd_by_service g1)
      in (arcs, g1\<lparr>gd_by_service := m\<rparr>))"

end
