(* ===== verification/Graph_Ops.thy ===== *)
theory Graph_Ops
  imports Graph_Data
begin

text \<open>
  The type \<^verbatim>\<open>Graph\<close> of \<^verbatim>\<open>ros-z/src/graph.rs\<close>: the handler of liveliness samples, the local entities,
  and all queries.  Every operation runs under the mutex of the graph data, which is never
  poisoned (\<^verbatim>\<open>parking_lot\<close>), so concurrent use is a sequence of operations.  The calls of event
  callbacks are appended to \<open>g_notes\<close>.  Operations that return \<^verbatim>\<open>Arc\<close>s give the caller a strong
  reference to each, which \<open>release\<close> drops.
\<close>

record ('z, 's, 'c, 't) Graph =
  g_data :: "('z, 's) GraphData"
  g_event_manager :: "('c, 't) GraphEventManager"
  g_zid :: 'z
  g_notes :: "('c, 't) notification list"

type_synonym ('z, 's, 'c, 't, 'a) graph_exec = "(('z, 's, 'c, 't) Graph, 'a, zerror) exec"

text \<open>An operation of the graph data, run on the graph; an assertion; a query of the data.\<close>

definition on_data :: "(('z, 's) GraphData \<Rightarrow> 'a \<times> ('z, 's) GraphData) \<Rightarrow> ('z, 's, 'c, 't, 'a) graph_exec" where
  "on_data f = (\<lambda>g. let (x, d) = f (g_data g) in (Ok x, g\<lparr>g_data := d\<rparr>))"

definition assert_that :: "bool \<Rightarrow> ('z, 's, 'c, 't, unit) graph_exec" where
  "assert_that b = (if b then ret () else panic)"

abbreviation value_of :: "('z, 's, 'c, 't) Graph \<Rightarrow> nat \<Rightarrow> 'z Entity" where
  "value_of g a \<equiv> the (arc_value (g_data g) a)"

section \<open>Changes\<close>

definition notify ::
    "('z, 's) graph_env \<Rightarrow> 'z Entity \<Rightarrow> bool \<Rightarrow> ('z, 's, 'c, 't, unit) graph_exec" where
  "notify E entity appeared = (\<lambda>g.
     let (res, notes) = trigger_graph_change (order_gids E) (g_event_manager g) entity appeared
     in (res, g\<lparr>g_notes := g_notes g @ notes\<rparr>))"

text \<open>The liveliness subscriber: a token appeared, respectively disappeared.\<close>

definition on_put :: "('z, 's) graph_env \<Rightarrow> LivelinessKE \<Rightarrow> ('z, 's, 'c, 't, unit) graph_exec" where
  "on_put E ke = (\<lambda>g.
     let d = g_data g;
         already_parsed = (Mapping.lookup (gd_parsed d) ke \<noteq> None);
         already_cached = (ke \<in> gd_cached d);
         d' = (if already_parsed then d else if already_cached then d else gd_insert ke d);
         g' = g\<lparr>g_data := d'\<rparr>
     in case gd_parser d (ke_str ke) of
          Ok entity \<Rightarrow> notify E entity True g'
        | Err e \<Rightarrow> (Ok (), g')
        | Panic \<Rightarrow> (Panic, g'))"

definition on_delete :: "('z, 's) graph_env \<Rightarrow> LivelinessKE \<Rightarrow> ('z, 's, 'c, 't, unit) graph_exec" where
  "on_delete E ke = (\<lambda>g.
     andthen
       (case gd_parser (g_data g) (ke_str ke) of
          Ok entity \<Rightarrow> notify E entity False
        | Err e \<Rightarrow> ret ()
        | Panic \<Rightarrow> panic)
       (\<lambda>_. on_data (\<lambda>d. ((), gd_remove ke d))) g)"

definition entity_node :: "'z Entity \<Rightarrow> 'z NodeEntity" where
  "entity_node entity = (case entity of Node n \<Rightarrow> n | Endpoint e \<Rightarrow> endpoint_node e)"

definition is_entity_local :: "('z, 's, 'c, 't) Graph \<Rightarrow> 'z Entity \<Rightarrow> bool" where
  "is_entity_local g entity \<longleftrightarrow> z_id (entity_node entity) = g_zid g"

text \<open>A reply to the initial liveliness query; \<open>None\<close> is an error reply.\<close>

definition process_reply :: "LivelinessKE option \<Rightarrow> ('z, 's, 'c, 't, unit) graph_exec" where
  "process_reply reply = (\<lambda>g. case reply of
     None \<Rightarrow> (Ok (), g)
   | Some ke \<Rightarrow>
       (case gd_parser (g_data g) (ke_str ke) of
          Ok entity \<Rightarrow>
            (Ok (), if is_entity_local g entity then g
                    else g\<lparr>g_data := gd_insert ke (g_data g)\<rparr>)
        | Err e \<Rightarrow> (Ok (), g)
        | Panic \<Rightarrow> (Panic, g)))"

text \<open>
  A Zenoh session: its id, and the outcomes of declaring a liveliness subscriber and of querying
  the tokens that match a pattern.
\<close>

record 'z session =
  session_zid :: 'z
  declare_subscriber :: "string \<Rightarrow> (unit, zerror) result"
  liveliness_get :: "string \<Rightarrow> (LivelinessKE option list, zerror) result"

definition new_with_pattern ::
    "'z session \<Rightarrow> string \<Rightarrow> (string \<Rightarrow> ('z Entity, zerror) result) \<Rightarrow>
     (('z, 's, 'c, 't) Graph, zerror) result" where
  "new_with_pattern session liveliness_pattern p =
     (let g = \<lparr>g_data = new_with_parser p, g_event_manager = gem_new, g_zid = session_zid session,
               g_notes = []\<rparr>
      in bind_result (declare_subscriber session liveliness_pattern) (\<lambda>_.
         bind_result (liveliness_get session liveliness_pattern) (\<lambda>replies.
         let (res, g') = run_all (map process_reply replies) g
         in bind_result res (\<lambda>_. Ok g'))))"

definition graph_new ::
    "('z, 's) graph_env \<Rightarrow> 'z session \<Rightarrow> u64 \<Rightarrow> (('z, 's, 'c, 't) Graph, zerror) result" where
  "graph_new E session domain =
     new_with_pattern session (ADMIN_SPACE @ ''/'' @ show_nat (unat domain) @ ''/**'')
       (fmt_parse_liveliness (env_zenoh E) RmwZenoh)"

definition add_local_entity :: "('z, 's) graph_env \<Rightarrow> 'z Entity \<Rightarrow> ('z, 's, 'c, 't, unit) graph_exec" where
  "add_local_entity E entity = (\<lambda>g.
     case entity_to_liveliness_ke (env_zenoh E) entity of
       Err e \<Rightarrow> (Err e, g)
     | Panic \<Rightarrow> (Panic, g)
     | Ok ke \<Rightarrow>
         (let d = g_data g;
              already_exists = (Mapping.lookup (gd_parsed d) ke \<noteq> None);
              (arc, d1) = arc_new entity d;
              d2 = (parsed_remove ke (arc_clone arc d1));
              d3 = d2\<lparr>gd_parsed := Mapping.update ke arc (gd_parsed d2)\<rparr>;
              d4 = index_entity (env_slab E) entity arc d3;
              (res, g') = (if already_exists then ret () else notify E entity True) (g\<lparr>g_data := d4\<rparr>)
          in (res, g'\<lparr>g_data := arc_drop arc (g_data g')\<rparr>)))"

text \<open>The slab of a key, if there is one, keeps the weak references that satisfy \<open>P\<close>.\<close>

definition retain_at :: "(nat, 's) slab_ops \<Rightarrow> (nat \<Rightarrow> bool) \<Rightarrow> 'k \<Rightarrow> ('k, 's) mapping \<Rightarrow> ('k, 's) mapping" where
  "retain_at S P k m = (case Mapping.lookup m k of
     Some slab \<Rightarrow> Mapping.update k (slab_retain S P slab) m | None \<Rightarrow> m)"

text \<open>The weak references that upgrade to an entity with another token.\<close>

definition other_token :: "'z zenoh_ops \<Rightarrow> LivelinessKE \<Rightarrow> ('z, 's) GraphData \<Rightarrow> nat \<Rightarrow> bool" where
  "other_token Z ke d a = (case arc_upgrade d a of
     Some e \<Rightarrow> entity_to_liveliness_ke Z e \<noteq> Ok ke | None \<Rightarrow> False)"

definition unindex_entity ::
    "('z, 's) graph_env \<Rightarrow> LivelinessKE \<Rightarrow> 'z Entity \<Rightarrow> ('z, 's) GraphData \<Rightarrow> ('z, 's) GraphData" where
  "unindex_entity E ke entity d =
     (let S = env_slab E; P = other_token (env_zenoh E) ke in
      case entity of
        Node n \<Rightarrow> d\<lparr>gd_by_node := retain_at S (P d) (node_key n) (gd_by_node d)\<rparr>
      | Endpoint e \<Rightarrow>
          (let d1 = (if is_pubsub_kind (endpoint_kind e)
                     then d\<lparr>gd_by_topic := retain_at S (P d) (topic e) (gd_by_topic d)\<rparr> else d);
               d2 = (if is_service_kind (endpoint_kind e)
                     then d1\<lparr>gd_by_service := retain_at S (P d1) (topic e) (gd_by_service d1)\<rparr> else d1)
           in d2\<lparr>gd_by_node := retain_at S (P d2) (node_key (endpoint_node e)) (gd_by_node d2)\<rparr>))"

definition remove_local_entity :: "('z, 's) graph_env \<Rightarrow> 'z Entity \<Rightarrow> ('z, 's, 'c, 't, unit) graph_exec" where
  "remove_local_entity E entity = (\<lambda>g.
     case entity_to_liveliness_ke (env_zenoh E) entity of
       Err e \<Rightarrow> (Err e, g)
     | Panic \<Rightarrow> (Panic, g)
     | Ok ke \<Rightarrow>
         (let d = g_data g;
              d1 = parsed_remove ke (d\<lparr>gd_cached := gd_cached d - {ke}\<rparr>);
              d2 = unindex_entity E ke entity d1
          in notify E entity False (g\<lparr>g_data := d2\<rparr>)))"

section \<open>Counting and listing entities\<close>

definition count_kind :: "EntityKind \<Rightarrow> nat list \<Rightarrow> ('z, 's, 'c, 't, nat) graph_exec" where
  "count_kind kind arcs = (\<lambda>g. (Ok (length (filter (\<lambda>a. entity_kind (value_of g a) = kind) arcs)), g))"

definition graph_count ::
    "('z, 's) graph_env \<Rightarrow> EntityKind \<Rightarrow> string \<Rightarrow> ('z, 's, 'c, 't, nat) graph_exec" where
  "graph_count E kind name =
     andthen (assert_that (kind \<noteq> EK_Node)) (\<lambda>_.
       if is_pubsub_kind kind then andthen (on_data (visit_by_topic E name)) (count_kind kind)
       else if is_service_kind kind then andthen (on_data (visit_by_service E name)) (count_kind kind)
       else panic)"

text \<open>The visited entities of a kind are pushed to the result: each gets one more reference.\<close>

definition push_kind :: "EntityKind \<Rightarrow> nat list \<Rightarrow> ('z, 's, 'c, 't, nat list) graph_exec" where
  "push_kind kind arcs = (\<lambda>g.
     let res = filter (\<lambda>a. entity_kind (value_of g a) = kind) arcs
     in (Ok res, g\<lparr>g_data := fold arc_clone res (g_data g)\<rparr>))"

definition get_entities_by_topic ::
    "('z, 's) graph_env \<Rightarrow> EntityKind \<Rightarrow> string \<Rightarrow> ('z, 's, 'c, 't, nat list) graph_exec" where
  "get_entities_by_topic E kind name =
     andthen (assert_that (kind \<noteq> EK_Node)) (\<lambda>_.
     andthen (on_data (visit_by_topic E name)) (push_kind kind))"

definition count_by_service ::
    "('z, 's) graph_env \<Rightarrow> EntityKind \<Rightarrow> string \<Rightarrow> ('z, 's, 'c, 't, nat) graph_exec" where
  "count_by_service E kind service_name =
     andthen (assert_that (is_service_kind kind)) (\<lambda>_.
     andthen (on_data (visit_by_service E service_name)) (count_kind kind))"

definition get_entities_by_service ::
    "('z, 's) graph_env \<Rightarrow> EntityKind \<Rightarrow> string \<Rightarrow> ('z, 's, 'c, 't, nat list) graph_exec" where
  "get_entities_by_service E kind service_name =
     andthen (assert_that (is_service_kind kind)) (\<lambda>_.
     andthen (on_data (visit_by_service E service_name)) (push_kind kind))"

text \<open>The callers of the last two operations drop what they were given.\<close>

definition release :: "nat list \<Rightarrow> ('z, 's, 'c, 't, unit) graph_exec" where
  "release arcs = on_data (\<lambda>d. ((), fold arc_drop arcs d))"

definition get_entities_by_node ::
    "('z, 's) graph_env \<Rightarrow> EntityKind \<Rightarrow> NodeKey \<Rightarrow> ('z, 's, 'c, 't, 'z EndpointEntity list) graph_exec" where
  "get_entities_by_node E kind node =
     andthen (assert_that (kind \<noteq> EK_Node)) (\<lambda>_.
     andthen (on_data (visit_by_node E node)) (\<lambda>arcs g.
       (Ok (List.map_filter (\<lambda>a.
              let ent = value_of g a
              in if entity_kind ent = kind then entity_get_endpoint ent else None) arcs), g)))"

section \<open>Names and types\<close>

text \<open>The first type that the entities of a slab give, for services and for topics.\<close>

definition service_type :: "'z Entity list \<Rightarrow> string option" where
  "service_type ents = fold (\<lambda>ent found_type.
     case entity_get_endpoint ent of
       Some enp \<Rightarrow> (if found_type = None \<and> endpoint_kind enp = EK_Service
                    then map_option type_name (type_info enp) else found_type)
     | None \<Rightarrow> found_type) ents None"

definition topic_type :: "'z Entity list \<Rightarrow> string option" where
  "topic_type ents = fold (\<lambda>ent found_type.
     if found_type = None
     then (case entity_get_endpoint ent of
             Some enp \<Rightarrow>
               (if is_pubsub_kind (endpoint_kind enp)
                then (case type_info enp of Some t \<Rightarrow> Some (type_name t) | None \<Rightarrow> found_type)
                else found_type)
           | None \<Rightarrow> found_type)
     else found_type) ents None"

text \<open>A loop over all slabs of an index: what upgrades in each, and the pruned index.\<close>

definition sweep ::
    "(nat, 's) slab_ops \<Rightarrow> ('k set \<Rightarrow> 'k list) \<Rightarrow> (nat \<Rightarrow> bool) \<Rightarrow> ('k, 's) mapping \<Rightarrow>
     ('k \<times> nat list) list \<times> ('k, 's) mapping" where
  "sweep S order alive m =
     (List.map_filter (\<lambda>k. map_option (\<lambda>slab. (k, filter alive (slab_iter S slab))) (Mapping.lookup m k))
        (order (Mapping.keys m)),
      Mapping.map_values (\<lambda>_ slab. slab_retain S alive slab) m)"

definition typed_names ::
    "('z Entity list \<Rightarrow> string option) \<Rightarrow> (string \<times> nat list) list \<Rightarrow>
     ('z, 's, 'c, 't, (string \<times> string) list) graph_exec" where
  "typed_names type_of rows = (\<lambda>g.
     (Ok (List.map_filter (\<lambda>(name, arcs). map_option (Pair name) (type_of (map (value_of g) arcs))) rows), g))"

definition get_service_names_and_types ::
    "('z, 's) graph_env \<Rightarrow> ('z, 's, 'c, 't, (string \<times> string) list) graph_exec" where
  "get_service_names_and_types E =
     andthen (on_data (\<lambda>d.
       let d1 = parse_cached E d;
           (rows, m) = sweep (env_slab E) (order_names E) (upgrades d1) (gd_by_service d1)
       in (rows, d1\<lparr>gd_by_service := m\<rparr>))) (typed_names service_type)"

definition get_topic_names_and_types ::
    "('z, 's) graph_env \<Rightarrow> ('z, 's, 'c, 't, (string \<times> string) list) graph_exec" where
  "get_topic_names_and_types E =
     andthen (on_data (\<lambda>d.
       let d1 = parse_cached E d;
           (rows, m) = sweep (env_slab E) (order_names E) (upgrades d1) (gd_by_topic d1)
       in (rows, d1\<lparr>gd_by_topic := m\<rparr>))) (typed_names topic_type)"

text \<open>A \<^verbatim>\<open>BTreeSet\<close> of pairs is listed in lexicographic order.\<close>

definition typed_endpoint :: "EntityKind \<Rightarrow> 'z Entity \<Rightarrow> (string \<times> string) option" where
  "typed_endpoint kind ent = (case entity_get_endpoint ent of
     Some enp \<Rightarrow> (if endpoint_kind enp = kind
                  then map_option (\<lambda>t. (topic enp, type_name t)) (type_info enp) else None)
   | None \<Rightarrow> None)"

definition get_names_and_types_by_node ::
    "('z, 's) graph_env \<Rightarrow> NodeKey \<Rightarrow> EntityKind \<Rightarrow> ('z, 's, 'c, 't, (string \<times> string) list) graph_exec" where
  "get_names_and_types_by_node E node kind =
     andthen (on_data (\<lambda>d. visit_by_node E node (parse_cached E d))) (\<lambda>arcs g.
       (Ok (sorted_list_of_set (set (List.map_filter (\<lambda>a. typed_endpoint kind (value_of g a)) arcs))), g))"

section \<open>Nodes\<close>

definition node_exists :: "('z, 's) graph_env \<Rightarrow> NodeKey \<Rightarrow> ('z, 's, 'c, 't, bool) graph_exec" where
  "node_exists E node = on_data (\<lambda>d.
     let d1 = parse_cached E d in (Mapping.lookup (gd_by_node d1) node \<noteq> None, d1))"

definition with_slash :: "string \<Rightarrow> string" where
  "with_slash s = (if s = '''' then ''/'' else if \<not> starts_with ''/'' s then ''/'' @ s else s)"

text \<open>The upgraded entities of every slab, in iteration order; nothing is pruned.\<close>

definition upgraded_nodes :: "('z, 's) graph_env \<Rightarrow> ('z, 's) GraphData \<Rightarrow> (NodeKey \<times> 'z NodeEntity) list" where
  "upgraded_nodes E d = concat (map (\<lambda>k. case Mapping.lookup (gd_by_node d) k of
     Some slab \<Rightarrow> List.map_filter (\<lambda>a. case arc_upgrade d a of
         Some (Node n) \<Rightarrow> Some (k, n) | _ \<Rightarrow> None) (slab_iter (env_slab E) slab)
   | None \<Rightarrow> []) (order_nodes E (Mapping.keys (gd_by_node d))))"

definition get_node_names ::
    "('z, 's) graph_env \<Rightarrow> ('z, 's, 'c, 't, (string \<times> string) list) graph_exec" where
  "get_node_names E = on_data (\<lambda>d.
     let d1 = parse_cached E d
     in (map (\<lambda>((ns, name), n). (name, with_slash ns)) (upgraded_nodes E d1), d1))"

definition get_node_names_with_enclaves ::
    "('z, 's) graph_env \<Rightarrow> ('z, 's, 'c, 't, (string \<times> string \<times> string) list) graph_exec" where
  "get_node_names_with_enclaves E = on_data (\<lambda>d.
     let d1 = parse_cached E d
     in (map (\<lambda>((ns, name), n). (name, with_slash ns, with_slash (enclave n))) (upgraded_nodes E d1), d1))"

section \<open>Actions and snapshots\<close>

definition ACTION_NAME_SUFFIX :: string where
  "ACTION_NAME_SUFFIX = ''/_action/feedback''"

definition ACTION_TYPE_SUFFIX :: string where
  "ACTION_TYPE_SUFFIX = ''_FeedbackMessage''"

definition filter_action_names_and_types :: "(string \<times> string) list \<Rightarrow> (string \<times> string) list" where
  "filter_action_names_and_types topics = List.map_filter (\<lambda>(topic_name, type_name).
     case strip_suffix ACTION_NAME_SUFFIX topic_name of
       Some action_name \<Rightarrow>
         Some (action_name, unwrap_or (strip_suffix ACTION_TYPE_SUFFIX type_name) type_name)
     | None \<Rightarrow> None) topics"

definition get_action_client_names_and_types_by_node ::
    "('z, 's) graph_env \<Rightarrow> NodeKey \<Rightarrow> ('z, 's, 'c, 't, (string \<times> string) list) graph_exec" where
  "get_action_client_names_and_types_by_node E node =
     andthen (get_names_and_types_by_node E node EK_Subscription)
       (\<lambda>subscribers. ret (filter_action_names_and_types subscribers))"

definition get_action_server_names_and_types_by_node ::
    "('z, 's) graph_env \<Rightarrow> NodeKey \<Rightarrow> ('z, 's, 'c, 't, (string \<times> string) list) graph_exec" where
  "get_action_server_names_and_types_by_node E node =
     andthen (get_names_and_types_by_node E node EK_Publisher)
       (\<lambda>publishers. ret (filter_action_names_and_types publishers))"

definition get_action_names_and_types ::
    "('z, 's) graph_env \<Rightarrow> ('z, 's, 'c, 't, (string \<times> string) list) graph_exec" where
  "get_action_names_and_types E =
     andthen (get_topic_names_and_types E)
       (\<lambda>topics. ret (remdups_adj (sort (filter_action_names_and_types topics))))"

record TopicSnapshot =
  ts_name :: string
  ts_type_name :: string
  publishers :: nat
  subscribers :: nat

record NodeSnapshot =
  ns_name :: string
  ns_namespace :: string

record ServiceSnapshot =
  ss_name :: string
  ss_type_name :: string

record GraphSnapshot =
  snap_timestamp :: nat
  snap_domain_id :: u64
  snap_topics :: "TopicSnapshot list"
  snap_nodes :: "NodeSnapshot list"
  snap_services :: "ServiceSnapshot list"

text \<open>The length of the list of entities, which is dropped at once.\<close>

definition count_entities_by_topic ::
    "('z, 's) graph_env \<Rightarrow> EntityKind \<Rightarrow> string \<Rightarrow> ('z, 's, 'c, 't, nat) graph_exec" where
  "count_entities_by_topic E kind name =
     andthen (get_entities_by_topic E kind name) (\<lambda>arcs.
     andthen (release arcs) (\<lambda>_. ret (length arcs)))"

definition topic_snapshot ::
    "('z, 's) graph_env \<Rightarrow> string \<times> string \<Rightarrow> ('z, 's, 'c, 't, TopicSnapshot) graph_exec" where
  "topic_snapshot E = (\<lambda>(name, type_name).
     andthen (count_entities_by_topic E EK_Publisher name) (\<lambda>pubs.
     andthen (count_entities_by_topic E EK_Subscription name) (\<lambda>subs.
     ret \<lparr>ts_name = name, ts_type_name = type_name, publishers = pubs, subscribers = subs\<rparr>)))"

definition snapshot ::
    "('z, 's) graph_env \<Rightarrow> nat \<Rightarrow> u64 \<Rightarrow> ('z, 's, 'c, 't, GraphSnapshot) graph_exec" where
  "snapshot E now domain =
     andthen (get_topic_names_and_types E) (\<lambda>names.
     andthen (collect (map (topic_snapshot E) names)) (\<lambda>topics.
     andthen (get_node_names E) (\<lambda>nodes.
     andthen (get_service_names_and_types E) (\<lambda>services.
     ret \<lparr>snap_timestamp = now, snap_domain_id = domain, snap_topics = topics,
          snap_nodes = map (\<lambda>(name, ns). \<lparr>ns_name = name, ns_namespace = ns\<rparr>) nodes,
          snap_services = map (\<lambda>(name, t). \<lparr>ss_name = name, ss_type_name = t\<rparr>) services\<rparr>))))"

end
