(* ===== verification/Graph_Refinement.thy ===== *)
theory Graph_Refinement
  imports Graph_Ops
begin

text \<open>
  The graph as its users see it is a finite map from liveliness tokens to entities.  The theory
  relates the caches, reference counts and weak indexes of \<^verbatim>\<open>GraphData\<close> to that map: an invariant
  of the data (\<open>data_inv\<close>), the abstraction (\<open>tokens\<close>), and the effect of every operation on both.
\<close>

section \<open>What the indexes are meant to hold\<close>

definition topic_of :: "'z Entity \<Rightarrow> string option" where
  "topic_of e = (case e of Node _ \<Rightarrow> None
   | Endpoint x \<Rightarrow> if is_pubsub_kind (endpoint_kind x) then Some (topic x) else None)"

definition service_of :: "'z Entity \<Rightarrow> string option" where
  "service_of e = (case e of Node _ \<Rightarrow> None
   | Endpoint x \<Rightarrow> if is_service_kind (endpoint_kind x) then Some (topic x) else None)"

definition node_of :: "'z Entity \<Rightarrow> NodeKey option" where
  "node_of e = Some (node_key (entity_node e))"

definition weaks_at :: "(nat, 's) slab_ops \<Rightarrow> ('k, 's) mapping \<Rightarrow> 'k \<Rightarrow> nat list" where
  "weaks_at S m k = (case Mapping.lookup m k of Some s \<Rightarrow> slab_iter S s | None \<Rightarrow> [])"

text \<open>
  An index is right for a key function: its weak references were allocated, those that upgrade
  are under the key of their entity and not there twice, and none of a parsed entity is missing.
\<close>

definition index_ok ::
    "(nat, 's) slab_ops \<Rightarrow> ('z Entity \<Rightarrow> 'k option) \<Rightarrow> ('z, 's) GraphData \<Rightarrow> ('k, 's) mapping \<Rightarrow> bool" where
  "index_ok S key d m \<longleftrightarrow>
     (\<forall>k a. a \<in> set (weaks_at S m k) \<longrightarrow> a < arc_next d) \<and>
     (\<forall>k. distinct (filter (upgrades d) (weaks_at S m k))) \<and>
     (\<forall>k a e. a \<in> set (weaks_at S m k) \<longrightarrow> arc_upgrade d a = Some e \<longrightarrow> key e = Some k) \<and>
     (\<forall>ke a e k. Mapping.lookup (gd_parsed d) ke = Some a \<longrightarrow> arc_value d a = Some e \<longrightarrow>
        key e = Some k \<longrightarrow> a \<in> set (weaks_at S m k)) \<and>
     finite (Mapping.keys m)"

text \<open>
  \<open>R\<close> are the tokens of the entities that the session removes itself.  The code that removes one finds
  it in the indexes by the token that is computed from the entity there; so an entity that was parsed
  from some token must not have another token of \<open>R\<close>.
\<close>

definition own_token :: "LivelinessKE set \<Rightarrow> 'z zenoh_ops \<Rightarrow> 'z Entity \<Rightarrow> LivelinessKE \<Rightarrow> bool" where
  "own_token R Z e ke \<longleftrightarrow> (\<forall>k. entity_to_liveliness_ke Z e = Ok k \<longrightarrow> k \<in> R \<longrightarrow> k = ke)"

definition canonical ::
    "LivelinessKE set \<Rightarrow> 'z zenoh_ops \<Rightarrow> (string \<Rightarrow> ('z Entity, zerror) result) \<Rightarrow> LivelinessKE \<Rightarrow> bool" where
  "canonical R Z p ke \<longleftrightarrow> (\<forall>e. p (ke_str ke) = Ok e \<longrightarrow> own_token R Z e ke)"

definition data_inv :: "('z, 's) graph_env \<Rightarrow> LivelinessKE set \<Rightarrow> ('z, 's) GraphData \<Rightarrow> bool" where
  "data_inv E R d \<longleftrightarrow>
     finite (gd_cached d) \<and>
     (\<forall>ke\<in>gd_cached d. canonical R (env_zenoh E) (gd_parser d) ke) \<and>
     (\<forall>a. arc_next d \<le> a \<longrightarrow> arc_strong d a = 0) \<and>
     (\<forall>ke a. Mapping.lookup (gd_parsed d) ke = Some a \<longrightarrow>
        (\<exists>e. arc_upgrade d a = Some e \<and> own_token R (env_zenoh E) e ke)) \<and>
     (\<forall>ke ke' a. Mapping.lookup (gd_parsed d) ke = Some a \<longrightarrow> Mapping.lookup (gd_parsed d) ke' = Some a \<longrightarrow>
        ke = ke') \<and>
     index_ok (env_slab E) topic_of d (gd_by_topic d) \<and>
     index_ok (env_slab E) service_of d (gd_by_service d) \<and>
     index_ok (env_slab E) node_of d (gd_by_node d)"

text \<open>The abstract graph.\<close>

definition tokens :: "('z, 's) GraphData \<Rightarrow> LivelinessKE \<rightharpoonup> 'z Entity" where
  "tokens d ke = (case Mapping.lookup (gd_parsed d) ke of
     Some a \<Rightarrow> arc_value d a
   | None \<Rightarrow> if ke \<in> gd_cached d
             then (case gd_parser d (ke_str ke) of Ok e \<Rightarrow> Some e | _ \<Rightarrow> None) else None)"

text \<open>The entities of the abstract graph that satisfy a predicate, as often as they have tokens.\<close>

definition matching :: "(LivelinessKE \<rightharpoonup> 'z Entity) \<Rightarrow> ('z Entity \<Rightarrow> bool) \<Rightarrow> 'z Entity multiset" where
  "matching T P = image_mset (\<lambda>ke. the (T ke)) (mset_set {ke. \<exists>e. T ke = Some e \<and> P e})"

text \<open>No caller keeps a reference: those of the map of parsed entities are the only ones.\<close>

definition unheld :: "('z, 's) GraphData \<Rightarrow> bool" where
  "unheld d \<longleftrightarrow> (\<forall>a. arc_strong d a = (if \<exists>ke. Mapping.lookup (gd_parsed d) ke = Some a then 1 else 0))"

section \<open>Indexes\<close>

lemma arc_upgrade_value: "arc_upgrade d a = Some e \<Longrightarrow> arc_value d a = Some e"
  by (simp add: arc_upgrade_def split: if_splits)

lemma arc_upgrade_frame [simp]:
  "arc_upgrade (d\<lparr>gd_cached := c\<rparr>) = arc_upgrade d" "arc_upgrade (d\<lparr>gd_parsed := p\<rparr>) = arc_upgrade d"
  "arc_upgrade (d\<lparr>gd_by_topic := t\<rparr>) = arc_upgrade d"
  "arc_upgrade (d\<lparr>gd_by_service := t\<rparr>) = arc_upgrade d"
  "arc_upgrade (d\<lparr>gd_by_node := n\<rparr>) = arc_upgrade d"
  by (simp_all add: fun_eq_iff arc_upgrade_def)

lemma index_ok_frame [simp]:
  "index_ok S key (d\<lparr>gd_cached := c\<rparr>) m = index_ok S key d m"
  "index_ok S key (d\<lparr>gd_by_topic := t\<rparr>) m = index_ok S key d m"
  "index_ok S key (d\<lparr>gd_by_service := t\<rparr>) m = index_ok S key d m"
  "index_ok S key (d\<lparr>gd_by_node := n\<rparr>) m = index_ok S key d m"
  by (simp_all add: index_ok_def)

lemma index_okD:
  assumes "index_ok S key d m"
  shows "a \<in> set (weaks_at S m k) \<Longrightarrow> a < arc_next d"
    and "distinct (filter (upgrades d) (weaks_at S m k))"
    and "a \<in> set (weaks_at S m k) \<Longrightarrow> arc_upgrade d a = Some e \<Longrightarrow> key e = Some k"
    and "Mapping.lookup (gd_parsed d) ke = Some a \<Longrightarrow> arc_value d a = Some e \<Longrightarrow> key e = Some k \<Longrightarrow>
      a \<in> set (weaks_at S m k)"
    and "finite (Mapping.keys m)"
  using assms unfolding index_ok_def by blast+

lemma index_okI:
  assumes "\<And>k a. a \<in> set (weaks_at S m k) \<Longrightarrow> a < arc_next d"
    and "\<And>k. distinct (filter (upgrades d) (weaks_at S m k))"
    and "\<And>k a e. a \<in> set (weaks_at S m k) \<Longrightarrow> arc_upgrade d a = Some e \<Longrightarrow> key e = Some k"
    and "\<And>ke a e k. Mapping.lookup (gd_parsed d) ke = Some a \<Longrightarrow> arc_value d a = Some e \<Longrightarrow>
      key e = Some k \<Longrightarrow> a \<in> set (weaks_at S m k)"
    and "finite (Mapping.keys m)"
  shows "index_ok S key d m"
  using assms unfolding index_ok_def by blast

lemma distinct_filter_mono:
  assumes "distinct (filter P xs)" and "\<And>x. Q x \<Longrightarrow> P x"
  shows "distinct (filter Q xs)"
proof -
  have "filter Q xs = filter Q (filter P xs)"
    using assms(2) by (auto simp: filter_filter intro: filter_cong)
  then show ?thesis using distinct_filter [OF assms(1), of Q] by simp
qed

text \<open>References only get fewer.\<close>

lemma index_ok_shrink:
  assumes "index_ok S key d m" and "arc_next d' = arc_next d" and "arc_value d' = arc_value d"
    and "\<And>a e. arc_upgrade d' a = Some e \<Longrightarrow> arc_upgrade d a = Some e"
    and "\<And>ke a. Mapping.lookup (gd_parsed d') ke = Some a \<Longrightarrow> Mapping.lookup (gd_parsed d) ke = Some a"
  shows "index_ok S key d' m"
proof (rule index_okI)
  note ok = index_okD [OF assms(1)]
  have "upgrades d a" if "upgrades d' a" for a using that assms(4) by fastforce
  then show "distinct (filter (upgrades d') (weaks_at S m k))" for k
    by (rule distinct_filter_mono [OF ok(2)])
  show "a < arc_next d'" if "a \<in> set (weaks_at S m k)" for k a
    using ok(1) [OF that] assms(2) by simp
  show "key e = Some k" if "a \<in> set (weaks_at S m k)" "arc_upgrade d' a = Some e" for k a e
    using ok(3) [OF that(1) assms(4) [OF that(2)]] .
  show "a \<in> set (weaks_at S m k)"
    if "Mapping.lookup (gd_parsed d') ke = Some a" "arc_value d' a = Some e" "key e = Some k" for ke a e k
    using ok(4) [OF assms(5) [OF that(1)] _ that(3)] that(2) assms(3) by simp
qed (rule index_okD(5) [OF assms(1)])

definition index_opt ::
    "(nat, 's) slab_ops \<Rightarrow> (nat \<Rightarrow> bool) \<Rightarrow> 'k option \<Rightarrow> nat \<Rightarrow> ('k, 's) mapping \<Rightarrow> ('k, 's) mapping" where
  "index_opt S alive k a m = (case k of Some k \<Rightarrow> index_weak S alive k a m | None \<Rightarrow> m)"

lemma index_entity_eq:
  "index_entity S e a d = d
     \<lparr>gd_by_topic := index_opt S (upgrades d) (topic_of e) a (gd_by_topic d),
      gd_by_service := index_opt S (upgrades d) (service_of e) a (gd_by_service d),
      gd_by_node := index_opt S (upgrades d) (node_of e) a (gd_by_node d)\<rparr>"
  by (cases e) (simp_all add: index_entity_def topic_of_def service_of_def node_of_def entity_node_def
      index_opt_def Let_def)

locale weak_index = slab_laws S for S :: "(nat, 's) slab_ops"
begin

lemma weaks_at_retain:
  "weaks_at S (retain_at S P k m) k' = (if k' = k then filter P (weaks_at S m k) else weaks_at S m k')"
  by (simp add: weaks_at_def retain_at_def lookup_update' split: option.splits)

lemma keys_retain_at [simp]: "Mapping.keys (retain_at S P k m) = Mapping.keys m"
  by (auto simp: retain_at_def keys_dom_lookup lookup_update' split: option.splits if_splits)

lemma weaks_at_sweep:
  "weaks_at S (Mapping.map_values (\<lambda>_. slab_retain S P) m) k = filter P (weaks_at S m k)"
  by (simp add: weaks_at_def lookup_map_values split: option.splits)

lemma weaks_at_index_weak:
  "weaks_at S (index_weak S alive k a m) k' =
     (if k' = k
      then slab_iter S (slab_insert S a (
        let slab = unwrap_or (Mapping.lookup m k) (slab_with_capacity S DEFAULT_SLAB_CAPACITY)
        in if slab_capacity S slab \<le> slab_len S slab then slab_retain S alive slab else slab))
      else weaks_at S m k')"
  by (simp add: weaks_at_def index_weak_def Let_def lookup_update')

lemma weaks_at_slab:
  "slab_iter S (unwrap_or (Mapping.lookup m k) (slab_with_capacity S n)) = weaks_at S m k"
  by (cases "Mapping.lookup m k") (simp_all add: weaks_at_def)

lemma weaks_at_index:
  assumes "alive a" and "a \<notin> set (weaks_at S m k)"
  shows "set (weaks_at S (index_weak S alive k a m) k') \<subseteq> insert a (set (weaks_at S m k'))"
    and "alive x \<Longrightarrow> x \<in> set (weaks_at S (index_weak S alive k a m) k') \<longleftrightarrow>
      x = a \<and> k' = k \<or> x \<in> set (weaks_at S m k')"
    and "distinct (filter alive (weaks_at S m k')) \<Longrightarrow>
      distinct (filter alive (weaks_at S (index_weak S alive k a m) k'))"
  using assms by (auto simp: weaks_at_index_weak weaks_at_slab Let_def)

text \<open>Pruning keeps an index right as long as no parsed entity is removed.\<close>

lemma index_ok_retain:
  assumes "index_ok S key d m" and "\<And>ke a. Mapping.lookup (gd_parsed d) ke = Some a \<Longrightarrow> P a"
    and "\<And>k. weaks_at S m' k = weaks_at S m k \<or> weaks_at S m' k = filter P (weaks_at S m k)"
    and "Mapping.keys m' = Mapping.keys m"
  shows "index_ok S key d m'"
proof (rule index_okI)
  note ok = index_okD [OF assms(1)]
  have sub: "set (weaks_at S m' k) \<subseteq> set (weaks_at S m k)" for k
    using assms(3) [of k] by auto
  show "distinct (filter (upgrades d) (weaks_at S m' k))" for k
    using assms(3) [of k] ok(2) [of k] distinct_filter [OF ok(2), of P k]
    by (auto simp: conj_commute)
  show "a < arc_next d" if "a \<in> set (weaks_at S m' k)" for k a
    using ok(1) sub that by blast
  show "key e = Some k" if "a \<in> set (weaks_at S m' k)" "arc_upgrade d a = Some e" for k a e
    using ok(3) sub that by blast
  show "a \<in> set (weaks_at S m' k)"
    if "Mapping.lookup (gd_parsed d) ke = Some a" "arc_value d a = Some e" "key e = Some k" for ke a e k
    using ok(4) [OF that] assms(2) [OF that(1)] assms(3) [of k] by auto
qed (use index_okD(5) [OF assms(1)] assms(4) in simp)

text \<open>A new entity is entered under its key, while other references may get fewer.\<close>

lemma index_ok_add:
  assumes "index_ok S key d m" and a: "a = arc_next d"
    and d': "arc_next d' = Suc a" "arc_value d' = (arc_value d)(a \<mapsto> e)" "upgrades d' a"
    and alive: "alive = upgrades d'"
    and fewer: "\<And>x e. x \<noteq> a \<Longrightarrow> arc_upgrade d' x = Some e \<Longrightarrow> arc_upgrade d x = Some e"
    and parsed: "\<And>ke x. Mapping.lookup (gd_parsed d') ke = Some x \<Longrightarrow>
      x = a \<or> x \<noteq> a \<and> upgrades d' x \<and> Mapping.lookup (gd_parsed d) ke = Some x"
  shows "index_ok S key d' (index_opt S alive (key e) a m)"
proof -
  let ?m = "index_opt S alive (key e) a m"
  have fresh: "a \<notin> set (weaks_at S m k)" for k using assms(1) by (auto simp: index_ok_def a)
  have value_a: "arc_upgrade d' a = Some e" using d' by (auto simp: arc_upgrade_def split: if_splits)
  have sub: "set (weaks_at S ?m k) \<subseteq> insert a (set (weaks_at S m k))" for k
    using weaks_at_index(1) [of alive a m] fresh d'(3) by (auto simp: index_opt_def alive split: option.splits)
  have mem: "x \<in> set (weaks_at S ?m k) \<longleftrightarrow> x = a \<and> key e = Some k \<or> x \<in> set (weaks_at S m k)"
    if "upgrades d' x" for x k
    using weaks_at_index(2) [of alive a m] fresh d'(3) that fresh
    by (auto simp: index_opt_def alive split: option.splits)
  have dist: "distinct (filter (upgrades d') (weaks_at S ?m k))" for k
  proof -
    have "distinct (filter (upgrades d) (weaks_at S m k))" using assms(1) by (simp add: index_ok_def)
    moreover have "filter (upgrades d') (weaks_at S m k) = filter (\<lambda>x. x \<noteq> a \<and> upgrades d' x) (weaks_at S m k)"
      using fresh by (intro filter_cong) auto
    ultimately have "distinct (filter (upgrades d') (weaks_at S m k))"
      using distinct_filter_mono [of "upgrades d" _ "\<lambda>x. x \<noteq> a \<and> upgrades d' x"] fewer by fastforce
    then show ?thesis
      using weaks_at_index(3) [of alive a m] fresh d'(3) by (auto simp: index_opt_def alive split: option.splits)
  qed
  have less: "x < arc_next d'" if "x \<in> set (weaks_at S ?m k)" for x k
    using that sub [of k] assms(1) by (auto simp: index_ok_def a d'(1) less_Suc_eq)
  have keys: "key x = Some k" if "b \<in> set (weaks_at S ?m k)" "arc_upgrade d' b = Some x" for b x k
  proof (cases "b = a")
    case True
    with that mem [of b k] fresh [of k] value_a show ?thesis by auto
  next
    case False
    with that mem [of b k] fewer [of b x] assms(1) show ?thesis by (auto simp: index_ok_def)
  qed
  have all: "b \<in> set (weaks_at S ?m k)"
    if "Mapping.lookup (gd_parsed d') ke = Some b" "arc_value d' b = Some x" "key x = Some k" for ke b x k
  proof (cases "b = a")
    case True
    with that mem [of b k] d'(2,3) show ?thesis by auto
  next
    case False
    with that parsed [of ke b] have "upgrades d' b" "Mapping.lookup (gd_parsed d) ke = Some b"
      "arc_value d b = Some x" by (auto simp: d'(2))
    with mem [of b k] assms(1) that(3) show ?thesis unfolding index_ok_def by blast
  qed
  have "finite (Mapping.keys ?m)"
    using index_okD(5) [OF assms(1)] by (simp add: index_opt_def index_weak_def Let_def split: option.splits)
  then show ?thesis unfolding index_ok_def using less dist keys all by blast
qed

end

section \<open>Operations of the graph data\<close>

text \<open>What an appearing token does to the abstract graph: the first entity of a token stays.\<close>

definition spec_put :: "(string \<Rightarrow> ('z Entity, zerror) result) \<Rightarrow> LivelinessKE \<Rightarrow>
    (LivelinessKE \<rightharpoonup> 'z Entity) \<Rightarrow> LivelinessKE \<rightharpoonup> 'z Entity" where
  "spec_put p ke T = (case T ke of
     Some _ \<Rightarrow> T
   | None \<Rightarrow> (case p (ke_str ke) of Ok e \<Rightarrow> T(ke \<mapsto> e) | _ \<Rightarrow> T))"

lemma parsed_unique:
  assumes "data_inv E R d" "Mapping.lookup (gd_parsed d) ke = Some a" "Mapping.lookup (gd_parsed d) ke' = Some a"
  shows "ke = ke'"
  using assms unfolding data_inv_def by blast

lemma parsed_alive:
  assumes "data_inv E R d" "Mapping.lookup (gd_parsed d) ke = Some a"
  obtains e where "arc_upgrade d a = Some e" "arc_value d a = Some e" "0 < arc_strong d a" "a < arc_next d"
    "own_token R (env_zenoh E) e ke" "tokens d ke = Some e"
proof -
  from assms obtain e where e: "arc_upgrade d a = Some e" "own_token R (env_zenoh E) e ke"
    unfolding data_inv_def by blast
  then have strong: "0 < arc_strong d a" "arc_value d a = Some e"
    by (simp_all add: arc_upgrade_def split: if_splits)
  moreover have "a < arc_next d"
    using assms(1) strong(1) unfolding data_inv_def by (metis leI less_irrefl)
  ultimately show thesis using e assms(2) by (intro that) (simp_all add: tokens_def)
qed

lemma parsed_upgrades: "data_inv E R d \<Longrightarrow> Mapping.lookup (gd_parsed d) ke = Some a \<Longrightarrow> upgrades d a"
  by (metis option.distinct(1) parsed_alive)

lemma new_with_parser_inv:
  "data_inv E R (new_with_parser p)" "tokens (new_with_parser p) = Map.empty" "unheld (new_with_parser p)"
  by (simp_all add: data_inv_def new_with_parser_def index_ok_def weaks_at_def fun_eq_iff tokens_def
      unheld_def lookup_empty)

lemma gd_insert_inv:
  assumes "data_inv E R d" and "canonical R (env_zenoh E) (gd_parser d) ke"
  shows "data_inv E R (gd_insert ke d)" "tokens (gd_insert ke d) = spec_put (gd_parser d) ke (tokens d)"
    "unheld (gd_insert ke d) = unheld d" "gd_parser (gd_insert ke d) = gd_parser d"
proof -
  show "data_inv E R (gd_insert ke d)"
    using assms by (simp add: gd_insert_def data_inv_def)
  show "tokens (gd_insert ke d) = spec_put (gd_parser d) ke (tokens d)"
  proof (cases "Mapping.lookup (gd_parsed d) ke")
    case None
    then show ?thesis
      by (auto simp: gd_insert_def tokens_def spec_put_def fun_eq_iff split: option.splits result.splits)
  next
    case (Some a)
    with assms(1) have "tokens d ke \<noteq> None" by (metis option.distinct(1) parsed_alive)
    with Some show ?thesis by (auto simp: gd_insert_def spec_put_def)
  qed
qed (simp_all add: gd_insert_def unheld_def)

lemma mapping_lookup_delete:
  "Mapping.lookup (Mapping.delete k m) k' = (if k' = k then None else Mapping.lookup m k')"
  by simp

text \<open>Dropping the reference that \<^verbatim>\<open>parsed\<close> holds.\<close>

lemma parsed_remove_frame:
  "gd_cached (parsed_remove ke d) = gd_cached d" "gd_parser (parsed_remove ke d) = gd_parser d"
  "arc_value (parsed_remove ke d) = arc_value d" "arc_next (parsed_remove ke d) = arc_next d"
  "gd_by_topic (parsed_remove ke d) = gd_by_topic d" "gd_by_service (parsed_remove ke d) = gd_by_service d"
  "gd_by_node (parsed_remove ke d) = gd_by_node d"
  "Mapping.lookup (gd_parsed (parsed_remove ke d)) = (Mapping.lookup (gd_parsed d))(ke := None)"
  "arc_strong (parsed_remove ke d) = (case Mapping.lookup (gd_parsed d) ke of
     Some a \<Rightarrow> (arc_strong d)(a := arc_strong d a - 1) | None \<Rightarrow> arc_strong d)"
  by (auto simp: parsed_remove_def arc_drop_def fun_eq_iff mapping_lookup_delete split: option.splits)

lemma parsed_remove_upgrade:
  "arc_upgrade (parsed_remove ke d) a = Some e \<Longrightarrow> arc_upgrade d a = Some e"
  "Mapping.lookup (gd_parsed d) ke \<noteq> Some a \<Longrightarrow> arc_upgrade (parsed_remove ke d) a = arc_upgrade d a"
  by (auto simp: arc_upgrade_def parsed_remove_frame split: option.splits if_splits)

lemma index_ok_parsed_remove: "index_ok S key d m \<Longrightarrow> index_ok S key (parsed_remove ke d) m"
  by (rule index_ok_shrink [OF _ _ _ parsed_remove_upgrade(1)])
    (simp_all add: parsed_remove_frame split: if_splits)

lemma parsed_remove_inv:
  assumes "data_inv E R d"
  shows "data_inv E R (parsed_remove ke d)" "ke' \<noteq> ke \<Longrightarrow> tokens (parsed_remove ke d) ke' = tokens d ke'"
    "ke \<notin> gd_cached d \<Longrightarrow> tokens (parsed_remove ke d) ke = None" "unheld d \<Longrightarrow> unheld (parsed_remove ke d)"
proof -
  have "\<exists>e. arc_upgrade (parsed_remove ke d) a = Some e \<and>
      own_token R (env_zenoh E) e ke'"
    if "Mapping.lookup (gd_parsed (parsed_remove ke d)) ke' = Some a" for ke' a
  proof -
    from that have ke': "ke' \<noteq> ke" "Mapping.lookup (gd_parsed d) ke' = Some a"
      by (auto simp: parsed_remove_frame split: if_splits)
    then have "Mapping.lookup (gd_parsed d) ke \<noteq> Some a" using parsed_unique [OF assms(1)] by blast
    with ke'(2) assms(1) show ?thesis by (metis parsed_remove_upgrade(2) parsed_alive)
  qed
  moreover have "arc_strong (parsed_remove ke d) a = 0" if "arc_next (parsed_remove ke d) \<le> a" for a
    using that assms(1) by (auto simp: parsed_remove_frame data_inv_def split: option.splits)
  moreover have "k = k'" if "Mapping.lookup (gd_parsed (parsed_remove ke d)) k = Some a"
    "Mapping.lookup (gd_parsed (parsed_remove ke d)) k' = Some a" for k k' a
    using that parsed_unique [OF assms] by (auto simp: parsed_remove_frame split: if_splits)
  moreover have "finite (gd_cached (parsed_remove ke d))"
    "\<forall>k\<in>gd_cached (parsed_remove ke d). canonical R (env_zenoh E) (gd_parser (parsed_remove ke d)) k"
    "index_ok (env_slab E) topic_of (parsed_remove ke d) (gd_by_topic (parsed_remove ke d))"
    "index_ok (env_slab E) service_of (parsed_remove ke d) (gd_by_service (parsed_remove ke d))"
    "index_ok (env_slab E) node_of (parsed_remove ke d) (gd_by_node (parsed_remove ke d))"
    using assms(1) by (simp_all add: data_inv_def parsed_remove_frame index_ok_parsed_remove)
  ultimately show "data_inv E R (parsed_remove ke d)"
    unfolding data_inv_def by blast
  show "tokens (parsed_remove ke d) ke' = tokens d ke'" if "ke' \<noteq> ke"
    using that by (simp add: tokens_def parsed_remove_frame split: option.splits)
  show "tokens (parsed_remove ke d) ke = None" if "ke \<notin> gd_cached d"
    using that by (simp add: tokens_def parsed_remove_frame)
  show "unheld (parsed_remove ke d)" if "unheld d"
    using that parsed_unique [OF assms] unfolding unheld_def parsed_remove_frame
    by (auto split: option.splits) (metis option.distinct(1) option.inject)+
qed

lemma gd_remove_inv:
  assumes "data_inv E R d"
  shows "data_inv E R (gd_remove ke d)" "tokens (gd_remove ke d) = (tokens d)(ke := None)"
    "unheld d \<Longrightarrow> unheld (gd_remove ke d)"
proof -
  let ?d = "d\<lparr>gd_cached := gd_cached d - {ke}\<rparr>"
  have inv: "data_inv E R ?d" using assms by (simp add: data_inv_def)
  have "tokens ?d k = tokens d k" if "k \<noteq> ke" for k
    using that by (simp add: tokens_def split: option.splits)
  with parsed_remove_inv(1-3) [OF inv, where ke = ke] show "data_inv E R (gd_remove ke d)"
    "tokens (gd_remove ke d) = (tokens d)(ke := None)"
    by (simp_all add: gd_remove_def fun_eq_iff)
  show "unheld (gd_remove ke d)" if "unheld d"
    using that parsed_remove_inv(4) [OF inv, of ke] by (simp add: gd_remove_def unheld_def)
qed

section \<open>Parsing and visiting\<close>

locale graph_laws = weak_index "env_slab E" for E :: "('z, 's) graph_env" +
  assumes orders: "iteration_order (order_tokens E)" "iteration_order (order_names E)"
    "iteration_order (order_nodes E)" "iteration_order (order_gids E)"
begin

text \<open>Entering a new entity \<open>e\<close> under a token that is not parsed, possibly with extra references.\<close>

lemma add_entity_inv:
  assumes inv: "data_inv E R d" and new: "Mapping.lookup (gd_parsed d) ke = None"
    and tok: "own_token R (env_zenoh E) e ke"
    and d': "gd_cached d' = gd_cached d" "gd_parser d' = gd_parser d"
      "arc_next d' = Suc (arc_next d)" "arc_value d' = (arc_value d)(arc_next d \<mapsto> e)"
      "arc_strong d' = (arc_strong d)(arc_next d := 1)"
      "Mapping.lookup (gd_parsed d') = (Mapping.lookup (gd_parsed d))(ke \<mapsto> arc_next d)"
      "gd_by_topic d' = index_opt (env_slab E) (upgrades d') (topic_of e) (arc_next d) (gd_by_topic d)"
      "gd_by_service d' = index_opt (env_slab E) (upgrades d') (service_of e) (arc_next d) (gd_by_service d)"
      "gd_by_node d' = index_opt (env_slab E) (upgrades d') (node_of e) (arc_next d) (gd_by_node d)"
  shows "data_inv E R d'" "tokens d' = (tokens d)(ke \<mapsto> e)" "unheld d \<Longrightarrow> unheld d'"
proof -
  let ?a = "arc_next d"
  have old: "arc_upgrade d' x = arc_upgrade d x" if "x \<noteq> ?a" for x
    using that by (simp add: arc_upgrade_def d')
  have new_a: "arc_upgrade d' ?a = Some e" by (simp add: arc_upgrade_def d')
  have not_a: "x \<noteq> ?a" if "Mapping.lookup (gd_parsed d) k = Some x" for k x
    using parsed_alive [OF inv that] by auto
  have parsed: "x = ?a \<or> x \<noteq> ?a \<and> upgrades d' x \<and> Mapping.lookup (gd_parsed d) k = Some x"
    if "Mapping.lookup (gd_parsed d') k = Some x" for k x
    using that not_a [of k x] old [of x] parsed_alive [OF inv, of k x] by (fastforce simp: d' split: if_splits)
  have ok: "index_ok (env_slab E) key d' (index_opt (env_slab E) (upgrades d') (key e) ?a m)"
    if "index_ok (env_slab E) key d m" for key :: "_ \<Rightarrow> 'k option" and m
    using that d'(3,4) old new_a parsed by (intro index_ok_add) auto
  have ok_node: "index_ok (env_slab E) node_of d' (index_opt (env_slab E) (upgrades d') (node_of e) ?a m)"
    if "index_ok (env_slab E) node_of d m" for m
    using that d'(3,4) old new_a parsed by (intro index_ok_add) auto
  have entries: "\<exists>x. arc_upgrade d' a = Some x \<and> own_token R (env_zenoh E) x k"
    if "Mapping.lookup (gd_parsed d') k = Some a" for k a
  proof (cases "k = ke")
    case True
    with that tok new_a show ?thesis by (simp add: d')
  next
    case False
    with that have "Mapping.lookup (gd_parsed d) k = Some a" by (simp add: d')
    with not_a old parsed_alive [OF inv] show ?thesis by metis
  qed
  have inj: "k = k'" if "Mapping.lookup (gd_parsed d') k = Some a" "Mapping.lookup (gd_parsed d') k' = Some a" for k k' a
    using that not_a parsed_unique [OF inv, of k a k'] by (auto simp: d' split: if_splits)
  have rest: "finite (gd_cached d')" "\<forall>k\<in>gd_cached d'. canonical R (env_zenoh E) (gd_parser d') k"
    "\<forall>a. arc_next d' \<le> a \<longrightarrow> arc_strong d' a = 0"
    "index_ok (env_slab E) topic_of d' (gd_by_topic d')" "index_ok (env_slab E) service_of d' (gd_by_service d')"
    "index_ok (env_slab E) node_of d' (gd_by_node d')"
    using inv ok [of topic_of] ok [of service_of] ok_node unfolding data_inv_def by (auto simp: d')
  show "data_inv E R d'"
    unfolding data_inv_def using rest entries inj by blast
  show "tokens d' = (tokens d)(ke \<mapsto> e)"
    using not_a by (auto simp: tokens_def fun_eq_iff d' split: option.splits)
  show "unheld d'" if "unheld d"
    using that not_a new unfolding unheld_def d' by auto (metis option.distinct(1))
qed

lemma parse_token_inv:
  assumes inv: "data_inv E R d" and can: "canonical R (env_zenoh E) (gd_parser d) ke"
  defines "d' \<equiv> parse_token (env_slab E) ke d"
  shows "data_inv E R d'" "tokens d' = spec_put (gd_parser d) ke (tokens d)" "unheld d \<Longrightarrow> unheld d'"
    "gd_parser d' = gd_parser d" "gd_cached d' = gd_cached d"
proof -
  have "data_inv E R d' \<and> tokens d' = spec_put (gd_parser d) ke (tokens d) \<and> (unheld d \<longrightarrow> unheld d') \<and>
    gd_parser d' = gd_parser d \<and> gd_cached d' = gd_cached d"
  proof (cases "Mapping.lookup (gd_parsed d) ke")
    case (Some a)
    with inv have "tokens d ke \<noteq> None" by (metis option.distinct(1) parsed_alive)
    with Some inv show ?thesis by (auto simp: d'_def parse_token_def spec_put_def)
  next
    case None
    show ?thesis
    proof (cases "gd_parser d (ke_str ke)")
      case (Ok e)
      have tok: "own_token R (env_zenoh E) e ke" using can Ok by (simp add: canonical_def)
      have d': "d' = (index_entity (env_slab E) e (arc_next d) (snd (arc_new e d)))
          \<lparr>gd_parsed := Mapping.update ke (arc_next d) (gd_parsed d)\<rparr>"
        using None Ok by (simp add: d'_def parse_token_def arc_new_def Let_def index_entity_eq)
      have "upgrades d' = upgrades (snd (arc_new e d))" by (simp add: d' index_entity_eq)
      then have new: "data_inv E R d'" "tokens d' = (tokens d)(ke \<mapsto> e)" "unheld d \<longrightarrow> unheld d'"
        using add_entity_inv [OF inv None tok, of d']
        by (simp_all add: d' index_entity_eq arc_new_def fun_eq_iff lookup_update')
      moreover have "tokens d ke = None \<or> tokens d ke = Some e" using None Ok by (simp add: tokens_def)
      ultimately show ?thesis
        using Ok by (auto simp: spec_put_def fun_upd_idem d' index_entity_eq arc_new_def)
    qed (use None inv in \<open>auto simp: d'_def parse_token_def spec_put_def split: option.splits\<close>)
  qed
  then show "data_inv E R d'" "tokens d' = spec_put (gd_parser d) ke (tokens d)" "unheld d \<Longrightarrow> unheld d'"
    "gd_parser d' = gd_parser d" "gd_cached d' = gd_cached d" by blast+
qed

lemma fold_spec_put:
  "fold (spec_put p) kes T = (\<lambda>ke. case T ke of
     Some e \<Rightarrow> Some e
   | None \<Rightarrow> if ke \<in> set kes then (case p (ke_str ke) of Ok e \<Rightarrow> Some e | _ \<Rightarrow> None) else None)"
proof (induction kes arbitrary: T)
  case (Cons k kes)
  show ?case unfolding fold.simps comp_def Cons.IH
    by (auto simp: spec_put_def fun_eq_iff split: option.splits result.splits)
qed (simp add: fun_eq_iff split: option.splits)

lemma fold_parse_inv:
  assumes "data_inv E R d" and "\<And>ke. ke \<in> set kes \<Longrightarrow> canonical R (env_zenoh E) (gd_parser d) ke"
  defines "d' \<equiv> fold (parse_token (env_slab E)) kes d"
  shows "data_inv E R d' \<and> tokens d' = fold (spec_put (gd_parser d)) kes (tokens d) \<and>
    (unheld d \<longrightarrow> unheld d') \<and> gd_parser d' = gd_parser d \<and> gd_cached d' = gd_cached d"
  using assms(1,2) unfolding d'_def
proof (induction kes arbitrary: d)
  case (Cons ke kes)
  from Cons.prems(2) have "canonical R (env_zenoh E) (gd_parser d) ke" by simp
  note step = parse_token_inv [OF Cons.prems(1) this]
  from Cons.IH [OF step(1)] Cons.prems(2) step show ?case by simp
qed simp

lemma parse_cached_inv:
  assumes inv: "data_inv E R d"
  defines "d' \<equiv> parse_cached E d"
  shows "data_inv E R d'" "tokens d' = tokens d" "unheld d \<Longrightarrow> unheld d'" "gd_parser d' = gd_parser d"
    "gd_cached d' = {}"
proof -
  let ?d = "d\<lparr>gd_cached := {}\<rparr>"
  have fin: "finite (gd_cached d)" and can: "\<And>ke. ke \<in> gd_cached d \<Longrightarrow> canonical R (env_zenoh E) (gd_parser d) ke"
    using inv by (auto simp: data_inv_def)
  have d: "data_inv E R ?d" using inv by (simp add: data_inv_def)
  have "tokens d = fold (spec_put (gd_parser d)) (order_tokens E (gd_cached d)) (tokens ?d)"
  proof
    fix ke
    have "arc_value d a \<noteq> None" if "Mapping.lookup (gd_parsed d) ke = Some a" for a
      using parsed_alive [OF inv that] by blast
    then show "tokens d ke = fold (spec_put (gd_parser d)) (order_tokens E (gd_cached d)) (tokens ?d) ke"
      using fin orders(1)
      by (cases "Mapping.lookup (gd_parsed d) ke") (auto simp: fold_spec_put tokens_def)
  qed
  with fold_parse_inv [OF d, of "order_tokens E (gd_cached d)"] can fin orders(1)
  have "data_inv E R d' \<and> tokens d' = tokens d \<and> (unheld d \<longrightarrow> unheld d') \<and> gd_parser d' = gd_parser d \<and>
    gd_cached d' = {}"
    using inv by (auto simp: d'_def parse_cached_def gd_parse_def unheld_def)
  then show "data_inv E R d'" "tokens d' = tokens d" "unheld d \<Longrightarrow> unheld d'" "gd_parser d' = gd_parser d"
    "gd_cached d' = {}" by blast+
qed

text \<open>Without held references, what upgrades in a right index is what the abstract graph has.\<close>

lemma index_exact:
  assumes inv: "data_inv E R d" and "unheld d" and "gd_cached d = {}" and ok: "index_ok (env_slab E) key d m"
  shows "mset (map (\<lambda>a. the (arc_value d a)) (filter (upgrades d) (weaks_at (env_slab E) m k))) =
    matching (tokens d) (\<lambda>e. key e = Some k)"
    and "finite {ke. \<exists>e. tokens d ke = Some e \<and> key e = Some k}"
proof -
  let ?arcs = "filter (upgrades d) (weaks_at (env_slab E) m k)"
  let ?K = "{ke. \<exists>e. tokens d ke = Some e \<and> key e = Some k}"
  let ?g = "\<lambda>ke. the (Mapping.lookup (gd_parsed d) ke)"
  have tok: "tokens d ke = Some e \<longleftrightarrow> (\<exists>a. Mapping.lookup (gd_parsed d) ke = Some a \<and> arc_value d a = Some e)" for ke e
    using assms(3) by (auto simp: tokens_def split: option.splits)
  have inj: "inj_on ?g ?K"
    using parsed_unique [OF inv] by (auto simp: inj_on_def tok)
  have arcs: "set ?arcs = ?g ` ?K"
  proof (intro set_eqI iffI)
    fix a assume a: "a \<in> set ?arcs"
    then obtain e where e: "arc_upgrade d a = Some e" "key e = Some k"
      using index_okD(3) [OF ok] by auto
    then have "arc_strong d a \<noteq> 0" by (simp add: arc_upgrade_def split: if_splits)
    with \<open>unheld d\<close> obtain ke where "Mapping.lookup (gd_parsed d) ke = Some a"
      unfolding unheld_def by (metis (full_types))
    with e show "a \<in> ?g ` ?K"
      by (intro image_eqI [of _ _ ke]) (auto simp: tok dest: arc_upgrade_value)
  next
    fix a assume "a \<in> ?g ` ?K"
    then obtain ke e where "Mapping.lookup (gd_parsed d) ke = Some a" "arc_value d a = Some e" "key e = Some k"
      by (auto simp: tok)
    moreover from this have "a \<in> set (weaks_at (env_slab E) m k)" by (rule index_okD(4) [OF ok])
    moreover note parsed_upgrades [OF inv, of ke a]
    ultimately show "a \<in> set ?arcs" by simp
  qed
  have "finite (?g ` ?K)" unfolding arcs [symmetric] by (rule List.finite_set)
  then have fin: "finite ?K" using inj by (rule finite_imageD)
  have "mset ?arcs = mset_set (set ?arcs)" using index_okD(2) [OF ok, of k] by (rule mset_set_set [symmetric])
  also have "\<dots> = image_mset ?g (mset_set ?K)" unfolding arcs using inj by (rule image_mset_mset_set [symmetric])
  finally have "mset ?arcs = image_mset ?g (mset_set ?K)" .
  then have "mset (map (\<lambda>a. the (arc_value d a)) ?arcs) = image_mset (\<lambda>ke. the (arc_value d (?g ke))) (mset_set ?K)"
    by (simp add: multiset.map_comp comp_def)
  also have "\<dots> = image_mset (\<lambda>ke. the (tokens d ke)) (mset_set ?K)"
  proof (rule image_mset_cong)
    fix ke assume "ke \<in># mset_set ?K"
    then obtain a where "Mapping.lookup (gd_parsed d) ke = Some a" using fin by (auto simp: tok)
    then show "the (arc_value d (?g ke)) = the (tokens d ke)" by (simp add: tokens_def)
  qed
  finally show "mset (map (\<lambda>a. the (arc_value d a)) ?arcs) = matching (tokens d) (\<lambda>e. key e = Some k)"
    by (simp add: matching_def)
  show "finite ?K" by (rule fin)
qed

lemma visit_slab_eq: "visit_slab S alive k m = (filter alive (weaks_at S m k), retain_at S alive k m)"
  by (simp add: visit_slab_def weaks_at_def retain_at_def split: option.splits)

lemma index_ok_prune:
  assumes "data_inv E R d" "index_ok (env_slab E) key d m"
  shows "index_ok (env_slab E) key d (retain_at (env_slab E) (upgrades d) k m)"
    "index_ok (env_slab E) key d (Mapping.map_values (\<lambda>_. slab_retain (env_slab E) (upgrades d)) m)"
proof -
  note alive = parsed_upgrades [OF assms(1)]
  show "index_ok (env_slab E) key d (retain_at (env_slab E) (upgrades d) k m)"
    by (rule index_ok_retain [OF assms(2), of "upgrades d"]) (auto simp: weaks_at_retain alive)
  show "index_ok (env_slab E) key d (Mapping.map_values (\<lambda>_. slab_retain (env_slab E) (upgrades d)) m)"
    by (rule index_ok_retain [OF assms(2), of "upgrades d"]) (auto simp: weaks_at_sweep alive)
qed

end

text \<open>Replacing an index by another right one is invisible.\<close>

lemma reindex_inv:
  assumes "data_inv E R d"
  shows "index_ok (env_slab E) topic_of d m \<Longrightarrow> data_inv E R (d\<lparr>gd_by_topic := m\<rparr>)"
    "index_ok (env_slab E) service_of d m \<Longrightarrow> data_inv E R (d\<lparr>gd_by_service := m\<rparr>)"
    "index_ok (env_slab E) node_of d n \<Longrightarrow> data_inv E R (d\<lparr>gd_by_node := n\<rparr>)"
  using assms by (simp_all add: data_inv_def)

lemma reindex_frame [simp]:
  "tokens (d\<lparr>gd_by_topic := t\<rparr>) = tokens d" "tokens (d\<lparr>gd_by_service := t\<rparr>) = tokens d"
  "tokens (d\<lparr>gd_by_node := n\<rparr>) = tokens d" "unheld (d\<lparr>gd_by_topic := t\<rparr>) = unheld d"
  "unheld (d\<lparr>gd_by_service := t\<rparr>) = unheld d" "unheld (d\<lparr>gd_by_node := n\<rparr>) = unheld d"
  by (simp_all add: fun_eq_iff tokens_def unheld_def split: option.splits)

section \<open>Local entities\<close>

lemma arc_clone_frame [simp]:
  "gd_cached (arc_clone a d) = gd_cached d" "gd_parsed (arc_clone a d) = gd_parsed d"
  "gd_parser (arc_clone a d) = gd_parser d" "arc_value (arc_clone a d) = arc_value d"
  "arc_next (arc_clone a d) = arc_next d" "gd_by_topic (arc_clone a d) = gd_by_topic d"
  "gd_by_service (arc_clone a d) = gd_by_service d" "gd_by_node (arc_clone a d) = gd_by_node d"
  "arc_strong (arc_clone a d) = (arc_strong d)(a := Suc (arc_strong d a))"
  by (simp_all add: arc_clone_def)

lemma arc_drop_frame [simp]:
  "gd_cached (arc_drop a d) = gd_cached d" "gd_parsed (arc_drop a d) = gd_parsed d"
  "gd_parser (arc_drop a d) = gd_parser d" "arc_value (arc_drop a d) = arc_value d"
  "arc_next (arc_drop a d) = arc_next d" "gd_by_topic (arc_drop a d) = gd_by_topic d"
  "gd_by_service (arc_drop a d) = gd_by_service d" "gd_by_node (arc_drop a d) = gd_by_node d"
  "arc_strong (arc_drop a d) = (arc_strong d)(a := arc_strong d a - 1)"
  by (simp_all add: arc_drop_def)

text \<open>The data after \<^verbatim>\<open>add_local_entity\<close>, respectively \<^verbatim>\<open>remove_local_entity\<close>.\<close>

definition add_local_data ::
    "(nat, 's) slab_ops \<Rightarrow> LivelinessKE \<Rightarrow> 'z Entity \<Rightarrow> ('z, 's) GraphData \<Rightarrow> ('z, 's) GraphData" where
  "add_local_data S ke e d =
     (let (arc, d1) = arc_new e d;
          d2 = parsed_remove ke (arc_clone arc d1);
          d3 = d2\<lparr>gd_parsed := Mapping.update ke arc (gd_parsed d2)\<rparr>
      in arc_drop arc (index_entity S e arc d3))"

definition remove_local_data ::
    "('z, 's) graph_env \<Rightarrow> LivelinessKE \<Rightarrow> 'z Entity \<Rightarrow> ('z, 's) GraphData \<Rightarrow> ('z, 's) GraphData" where
  "remove_local_data E ke e d = unindex_entity E ke e (gd_remove ke d)"

definition retain_opt :: "(nat, 's) slab_ops \<Rightarrow> (nat \<Rightarrow> bool) \<Rightarrow> 'k option \<Rightarrow> ('k, 's) mapping \<Rightarrow> ('k, 's) mapping" where
  "retain_opt S P k m = (case k of Some k \<Rightarrow> retain_at S P k m | None \<Rightarrow> m)"

lemma other_token_frame [simp]:
  "other_token Z ke (d\<lparr>gd_by_topic := t\<rparr>) = other_token Z ke d"
  "other_token Z ke (d\<lparr>gd_by_service := t\<rparr>) = other_token Z ke d"
  by (simp_all add: fun_eq_iff other_token_def)

lemma unindex_entity_eq:
  "unindex_entity E ke e d =
     (let P = other_token (env_zenoh E) ke d; S = env_slab E in
      d\<lparr>gd_by_topic := retain_opt S P (topic_of e) (gd_by_topic d),
        gd_by_service := retain_opt S P (service_of e) (gd_by_service d),
        gd_by_node := retain_opt S P (node_of e) (gd_by_node d)\<rparr>)"
  by (cases e) (simp_all add: unindex_entity_def topic_of_def service_of_def node_of_def entity_node_def
      retain_opt_def Let_def)

context graph_laws
begin

lemma add_local_data_inv:
  assumes inv: "data_inv E R d" and tok: "entity_to_liveliness_ke (env_zenoh E) e = Ok ke"
  defines "d' \<equiv> add_local_data (env_slab E) ke e d"
  shows "data_inv E R d'" "tokens d' = (tokens d)(ke \<mapsto> e)" "unheld d \<Longrightarrow> unheld d'" "gd_parser d' = gd_parser d"
proof -
  let ?a = "arc_next d"
  let ?d = "parsed_remove ke d"
  have "Mapping.lookup (gd_parsed d) ke \<noteq> Some ?a" using parsed_alive [OF inv, of ke ?a] by auto
  then have strong: "arc_strong d' = (arc_strong ?d)(?a := 1)"
    by (auto simp: d'_def add_local_data_def arc_new_def Let_def index_entity_eq parsed_remove_frame
        fun_eq_iff split: option.splits)
  have d': "gd_cached d' = gd_cached ?d" "gd_parser d' = gd_parser ?d" "arc_next d' = Suc ?a"
    "arc_value d' = (arc_value ?d)(?a \<mapsto> e)"
    "Mapping.lookup (gd_parsed d') = (Mapping.lookup (gd_parsed ?d))(ke \<mapsto> ?a)"
    by (simp_all add: d'_def add_local_data_def arc_new_def Let_def index_entity_eq parsed_remove_frame
        fun_eq_iff lookup_update')
  let ?d3 = "(parsed_remove ke (arc_clone ?a (snd (arc_new e d))))"
  have "upgrades ?d3 = upgrades d'"
    using \<open>Mapping.lookup (gd_parsed d) ke \<noteq> Some ?a\<close>
    by (auto simp: fun_eq_iff arc_upgrade_def strong d' parsed_remove_frame arc_new_def split: option.splits)
  then have idx: "gd_by_topic d' = index_opt (env_slab E) (upgrades d') (topic_of e) ?a (gd_by_topic ?d)"
    "gd_by_service d' = index_opt (env_slab E) (upgrades d') (service_of e) ?a (gd_by_service ?d)"
    "gd_by_node d' = index_opt (env_slab E) (upgrades d') (node_of e) ?a (gd_by_node ?d)"
    by (simp_all add: d'_def add_local_data_def arc_new_def Let_def index_entity_eq parsed_remove_frame)
  note rem = parsed_remove_inv [OF inv, where ke = ke]
  have own: "own_token R (env_zenoh E) e ke" using tok by (simp add: own_token_def)
  note add = add_entity_inv [OF rem(1) _ own, of d']
  show "data_inv E R d'" "unheld d \<Longrightarrow> unheld d'" "gd_parser d' = gd_parser d"
    using add rem(4) d' strong idx by (simp_all add: parsed_remove_frame)
  have "tokens d' = (tokens ?d)(ke \<mapsto> e)"
    using add d' strong idx by (simp add: parsed_remove_frame)
  then show "tokens d' = (tokens d)(ke \<mapsto> e)" using rem(2) by (auto simp: fun_eq_iff)
qed

lemma remove_local_data_inv:
  fixes ke e
  assumes inv: "data_inv E R d"
  defines "d' \<equiv> remove_local_data E ke e d"
  shows "ke \<in> R \<Longrightarrow> data_inv E R d'" "tokens d' = (tokens d)(ke := None)" "unheld d \<Longrightarrow> unheld d'" "gd_parser d' = gd_parser d"
proof -
  let ?d = "gd_remove ke d"
  let ?P = "other_token (env_zenoh E) ke ?d"
  note rem = gd_remove_inv [OF inv, where ke = ke]
  have keep: "?P a" if "ke \<in> R" and lk: "Mapping.lookup (gd_parsed ?d) k = Some a" for k a
  proof -
    from lk have "k \<noteq> ke" by (auto simp: gd_remove_def parsed_remove_frame split: if_splits)
    moreover obtain x where "arc_upgrade ?d a = Some x" "own_token R (env_zenoh E) x k"
      using parsed_alive [OF rem(1) lk] by blast
    ultimately show ?thesis using that(1) by (auto simp: other_token_def own_token_def)
  qed
  have str: "index_ok (env_slab E) key ?d (retain_opt (env_slab E) ?P k m)"
    if "ke \<in> R" "index_ok (env_slab E) key ?d m" for key :: "'z Entity \<Rightarrow> string option" and k m
    using index_ok_retain [OF that(2), of ?P] keep that
    by (auto simp: retain_opt_def weaks_at_retain split: option.splits)
  have node: "index_ok (env_slab E) key ?d (retain_opt (env_slab E) ?P k m)"
    if "ke \<in> R" "index_ok (env_slab E) key ?d m" for key :: "'z Entity \<Rightarrow> NodeKey option" and k m
    using index_ok_retain [OF that(2), of ?P] keep that
    by (auto simp: retain_opt_def weaks_at_retain split: option.splits)
  show "data_inv E R d'" if "ke \<in> R"
    using rem(1) str [OF that] node [OF that] by (simp add: d'_def remove_local_data_def unindex_entity_eq Let_def data_inv_def)
  show "tokens d' = (tokens d)(ke := None)" "unheld d \<Longrightarrow> unheld d'" "gd_parser d' = gd_parser d"
    using rem(2,3) by (simp_all add: d'_def remove_local_data_def unindex_entity_eq Let_def gd_remove_def
        parsed_remove_frame)
qed

end

end
