(* ===== verification/Proto_Roundtrip.thy ===== *)
theory Proto_Roundtrip
  imports Proto_Format
begin

text \<open>
  What the two formats transport.  The contract of a format is the locale
  \<open>key_expr_formatter\<close>; it is established for both, over every Zenoh that keeps its laws.
\<close>

section \<open>Mangling\<close>

lemma mangle_no_slash: "CHR ''/'' \<notin> set esc \<Longrightarrow> CHR ''/'' \<notin> set (mangle_name esc s)"
  using set_str_replace_char [of "CHR ''/''" esc s] by (auto simp: mangle_name_def)

lemma demangle_mangle:
  "esc = e # es \<Longrightarrow> e \<notin> set s \<Longrightarrow> demangle_name esc (mangle_name esc s) = s"
  by (simp add: mangle_name_def demangle_name_def str_replace_inverse)

lemma rmw_mangle [simp]:
  "CHR ''/'' \<notin> set (mangle_name RMW_ESCAPE s)"
  "CHR ''%'' \<notin> set s \<Longrightarrow> demangle_name RMW_ESCAPE (mangle_name RMW_ESCAPE s) = s"
  by (rule mangle_no_slash, simp add: RMW_ESCAPE_def) (simp add: RMW_ESCAPE_def demangle_mangle)

lemma dds_mangle [simp]:
  "CHR ''/'' \<notin> set (mangle_name SLASH_REPLACEMENT_CHAR s)"
  "CHR 0xC2 \<notin> set s \<Longrightarrow>
     demangle_name SLASH_REPLACEMENT_CHAR (mangle_name SLASH_REPLACEMENT_CHAR s) = s"
  by (rule mangle_no_slash, simp add: SLASH_REPLACEMENT_CHAR_def)
    (simp add: SLASH_REPLACEMENT_CHAR_def demangle_mangle)

lemma set_strip_leading: "set (strip_leading s) \<subseteq> set s"
  by (cases "strip_prefix ''/'' s") (auto simp: strip_leading_def strip_prefix_def dest: in_set_dropD
      split: if_splits)

lemma set_strip_trailing: "set (strip_trailing s) \<subseteq> set s"
proof (cases "strip_suffix ''/'' s")
  case (Some r)
  then have "s = r @ ''/''" by (simp only: strip_suffix_Some)
  then show ?thesis using Some by (auto simp: strip_trailing_def)
qed (simp add: strip_trailing_def)

lemma set_strip [simp]:
  "c \<notin> set s \<Longrightarrow> c \<notin> set (strip_leading s)" "c \<notin> set s \<Longrightarrow> c \<notin> set (strip_trailing s)"
  using set_strip_leading [of s] set_strip_trailing [of s] by auto

text \<open>A mangled name is a given text without slashes and escapes exactly when the name is.\<close>

lemma rmw_mangle_eq:
  assumes "CHR ''%'' \<notin> set s" "CHR ''/'' \<notin> set t" "CHR ''%'' \<notin> set t"
  shows "mangle_name RMW_ESCAPE s = t \<longleftrightarrow> s = t"
proof -
  have "mangle_name RMW_ESCAPE t = t" using assms(2) by (simp add: mangle_name_def str_replace_free)
  then show ?thesis using rmw_mangle(2) [OF assms(1)] rmw_mangle(2) [OF assms(3)] by metis
qed

lemma rmw_mangle_root [simp]: "mangle_name RMW_ESCAPE ''/'' = EMPTY_PLACEHOLDER"
  by (simp add: mangle_name_def RMW_ESCAPE_def EMPTY_PLACEHOLDER_def)

lemma rmw_mangle_placeholder:
  assumes "CHR ''%'' \<notin> set s"
  shows "mangle_name RMW_ESCAPE s = EMPTY_PLACEHOLDER \<longleftrightarrow> s = ''/''"
  using rmw_mangle(2) [OF assms] rmw_mangle(2) [of "''/''"] rmw_mangle_root by fastforce

lemma constants_no_slash [simp]:
  "CHR ''/'' \<notin> set ADMIN_SPACE" "CHR ''/'' \<notin> set EMPTY_PLACEHOLDER"
  "CHR ''/'' \<notin> set EMPTY_TOPIC_TYPE" "CHR ''/'' \<notin> set EMPTY_TOPIC_HASH"
  by (simp_all add: ADMIN_SPACE_def EMPTY_PLACEHOLDER_def EMPTY_TOPIC_TYPE_def EMPTY_TOPIC_HASH_def)

section \<open>Walking over chunks\<close>

lemma iter_next_run [simp]: "iter_next err (x # xs) = (Ok x, xs)"
  by (simp add: iter_next_def)

lemma parsed_simps [simp]: "parsed (Some x) = ret x"
  by (simp add: parsed_def)

lemma andthen_iter_next [simp]: "andthen (iter_next err) f (x # xs) = f x xs"
  by (simp add: andthen_Ok)

lemma ke_try_from_Ok: "map_ok C (ke_try_from Z s) = Ok k \<longleftrightarrow> ke_accepts Z s \<and> k = C s"
  by (auto simp: ke_try_from_def)

section \<open>The contract of a format\<close>

text \<open>
  \<open>transports e\<close> says that the format can carry the entity, \<open>received e\<close> is what arrives.
\<close>

locale key_expr_formatter =
  fixes liveliness :: "'z Entity \<Rightarrow> (LivelinessKE, zerror) result"
    and parse :: "string \<Rightarrow> ('z Entity, zerror) result"
    and transports :: "'z Entity \<Rightarrow> bool"
    and received :: "'z Entity \<Rightarrow> 'z Entity"
  assumes parse_token:
    "transports e \<Longrightarrow> liveliness e = Ok (LivelinessKE ke) \<Longrightarrow> parse ke = Ok (received e)"
begin

lemma tokens_distinguish:
  assumes "transports e" "transports e'" "liveliness e = Ok t" "liveliness e' = Ok t"
  shows "received e = received e'"
proof -
  obtain ke where "t = LivelinessKE ke" by (cases t)
  with assms parse_token [of e ke] parse_token [of e' ke] show ?thesis by simp
qed

end

section \<open>rmw_zenoh\<close>

definition rmw_token :: "'z zenoh_ops \<Rightarrow> 'z Entity \<Rightarrow> (LivelinessKE, zerror) result" where
  "rmw_token Z e = (case e of
     Node n \<Rightarrow> rmw_node_liveliness_key_expr Z n
   | Endpoint x \<Rightarrow> rmw_liveliness_key_expr Z x (z_id (endpoint_node x)))"

definition rmw_node_ok :: "'z NodeEntity \<Rightarrow> bool" where
  "rmw_node_ok n \<longleftrightarrow> CHR ''%'' \<notin> set (namespace n) \<and> CHR ''%'' \<notin> set (node_name n)"

definition rmw_type_ok :: "'z zenoh_ops \<Rightarrow> TypeInfo \<Rightarrow> bool" where
  "rmw_type_ok Z t \<longleftrightarrow> CHR ''%'' \<notin> set (type_name t) \<and> type_name t \<noteq> EMPTY_TOPIC_TYPE \<and>
     \<not> feat_no_type_hash Z \<and> version (type_hash t) = 1 \<and> length (hash_value (type_hash t)) = 32"

definition rmw_transports :: "'z zenoh_ops \<Rightarrow> 'z Entity \<Rightarrow> bool" where
  "rmw_transports Z e = (case e of
     Node n \<Rightarrow> rmw_node_ok n
   | Endpoint x \<Rightarrow> rmw_node_ok (endpoint_node x) \<and> endpoint_kind x \<noteq> EK_Node \<and>
       CHR ''%'' \<notin> set (topic x) \<and> pred_option (rmw_type_ok Z) (type_info x))"

definition rmw_received_node :: "'z NodeEntity \<Rightarrow> 'z NodeEntity" where
  "rmw_received_node n = n\<lparr>namespace := if namespace n = ''/'' then [] else namespace n, enclave := []\<rparr>"

definition rmw_received :: "'z Entity \<Rightarrow> 'z Entity" where
  "rmw_received e = (case e of
     Node n \<Rightarrow> Node (rmw_received_node n)
   | Endpoint x \<Rightarrow> Endpoint (x\<lparr>endpoint_node := rmw_received_node (endpoint_node x),
       topic := strip_trailing (topic x)\<rparr>))"

context zenoh_laws
begin

lemma rmw_parse_chunks:
  "rmw_parse_liveliness Z (ADMIN_SPACE @ CHR ''/'' # show_nat (unat d) @ CHR ''/'' # zid_show Z z @
      CHR ''/'' # show_nat (unat i) @ CHR ''/'' # show_nat (unat j) @ CHR ''/'' # kind_show k @
      CHR ''/'' # EMPTY_PLACEHOLDER @ CHR ''/'' # ns @ CHR ''/'' # rest) =
   (let node = (\<lambda>name. \<lparr>domain_id = d, z_id = z, node_id = i, node_name = demangle_name RMW_ESCAPE name,
        namespace = (if ns = EMPTY_PLACEHOLDER then [] else demangle_name RMW_ESCAPE ns), enclave = []\<rparr>)
    in case split_on CHR ''/'' rest of
         [] \<Rightarrow> Err (Conversion MissingNodeName)
       | name # chunks \<Rightarrow> if k = EK_Node then Ok (Node (node name))
                        else fst (rmw_parse_endpoint (node name) j k chunks))"
  if "CHR ''/'' \<notin> set ns"
  using that by (cases "split_on CHR ''/'' rest") (simp_all add: rmw_parse_liveliness_def ret_run Let_def)

lemma rmw_namespace:
  assumes "CHR ''%'' \<notin> set ns"
  shows "(let c = (if ns = [] then EMPTY_PLACEHOLDER else mangle_name RMW_ESCAPE ns)
    in if c = EMPTY_PLACEHOLDER then [] else demangle_name RMW_ESCAPE c) = (if ns = ''/'' then [] else ns)"
  using assms rmw_mangle_placeholder [OF assms] by (simp add: Let_def)

lemma rmw_parse_node:
  assumes "rmw_node_ok n" "rmw_node_liveliness_key_expr Z n = Ok (LivelinessKE ke)"
  shows "rmw_parse_liveliness Z ke = Ok (Node (rmw_received_node n))"
  using assms rmw_parse_chunks [where k = EK_Node] rmw_namespace [of "namespace n"]
  by (simp add: rmw_node_liveliness_key_expr_def ke_try_from_Ok rmw_node_ok_def kind_show_def Let_def
      rmw_received_node_def)

lemma rmw_type_chunks:
  assumes "pred_option (rmw_type_ok Z) ti"
  obtains tt th where "CHR ''/'' \<notin> set tt" "CHR ''/'' \<notin> set th"
    "(case ti of None \<Rightarrow> EMPTY_TOPIC_TYPE @ ''/'' @ EMPTY_TOPIC_HASH
      | Some x \<Rightarrow> mangle_name RMW_ESCAPE (type_name x) @ ''/'' @ to_rihs_string Z (type_hash x)) =
     tt @ CHR ''/'' # th"
    "(if tt = EMPTY_TOPIC_TYPE \<or> th = EMPTY_TOPIC_HASH then None
      else Some \<lparr>type_name = demangle_name RMW_ESCAPE tt,
        type_hash = unwrap_or (from_rihs_string th) (type_hash_new 0 (replicate 32 0))\<rparr>) = ti"
proof (cases ti)
  case None
  then show thesis by (intro that [of EMPTY_TOPIC_TYPE EMPTY_TOPIC_HASH]) simp_all
next
  case (Some x)
  with assms have ok: "rmw_type_ok Z x" by simp
  have "to_rihs_string Z (type_hash x) \<noteq> EMPTY_TOPIC_HASH"
    by (simp add: to_rihs_string_def EMPTY_TOPIC_HASH_def)
  moreover have "mangle_name RMW_ESCAPE (type_name x) \<noteq> EMPTY_TOPIC_TYPE"
    using ok rmw_mangle_eq [of "type_name x" EMPTY_TOPIC_TYPE]
    by (simp add: rmw_type_ok_def) (simp add: EMPTY_TOPIC_TYPE_def)
  moreover have "from_rihs_string (to_rihs_string Z (type_hash x)) = Some (type_hash x)"
    using ok by (simp add: rmw_type_ok_def rihs_roundtrip)
  ultimately show thesis
    using ok Some rihs_no_sep(1)
    by (intro that [of "mangle_name RMW_ESCAPE (type_name x)" "to_rihs_string Z (type_hash x)"])
      (simp_all add: rmw_type_ok_def)
qed

lemma rmw_parse_endpoint_token:
  assumes "rmw_transports Z (Endpoint e)" "rmw_liveliness_key_expr Z e zid = Ok (LivelinessKE ke)"
  shows "rmw_parse_liveliness Z ke = Ok (rmw_received (Endpoint e))"
proof -
  let ?n = "endpoint_node e"
  from assms(1) have ok: "rmw_node_ok ?n" "endpoint_kind e \<noteq> EK_Node" "CHR ''%'' \<notin> set (topic e)"
    by (simp_all add: rmw_transports_def)
  from assms(1) have "pred_option (rmw_type_ok Z) (type_info e)" by (simp add: rmw_transports_def)
  then obtain tt th where t: "CHR ''/'' \<notin> set tt" "CHR ''/'' \<notin> set th"
    "(case type_info e of None \<Rightarrow> EMPTY_TOPIC_TYPE @ ''/'' @ EMPTY_TOPIC_HASH
      | Some x \<Rightarrow> mangle_name RMW_ESCAPE (type_name x) @ ''/'' @ to_rihs_string Z (type_hash x)) =
     tt @ CHR ''/'' # th"
    "(if tt = EMPTY_TOPIC_TYPE \<or> th = EMPTY_TOPIC_HASH then None
      else Some \<lparr>type_name = demangle_name RMW_ESCAPE tt,
        type_hash = unwrap_or (from_rihs_string th) (type_hash_new 0 (replicate 32 0))\<rparr>) = type_info e"
    by (rule rmw_type_chunks)
  let ?ns = "if namespace ?n = [] then EMPTY_PLACEHOLDER else mangle_name RMW_ESCAPE (namespace ?n)"
  have ns: "(if ?ns = EMPTY_PLACEHOLDER then [] else demangle_name RMW_ESCAPE ?ns) =
      (if namespace ?n = ''/'' then [] else namespace ?n)"
    using rmw_namespace [of "namespace ?n"] ok(1) by (simp add: rmw_node_ok_def Let_def)
  have ke: "ke = ADMIN_SPACE @ CHR ''/'' # show_nat (unat (domain_id ?n)) @ CHR ''/'' # zid_show Z (z_id ?n) @
      CHR ''/'' # show_nat (unat (node_id ?n)) @ CHR ''/'' # show_nat (unat (endpoint_id e)) @
      CHR ''/'' # kind_show (endpoint_kind e) @ CHR ''/'' # EMPTY_PLACEHOLDER @ CHR ''/'' # ?ns @
      CHR ''/'' # mangle_name RMW_ESCAPE (node_name ?n) @
      CHR ''/'' # mangle_name RMW_ESCAPE (strip_trailing (topic e)) @ CHR ''/'' # tt @ CHR ''/'' # th @
      CHR ''/'' # qos_encode (endpoint_qos e)"
    using assms(2) by (simp add: rmw_liveliness_key_expr_def ke_try_from_Ok t(3) Let_def)
  have "CHR ''/'' \<notin> set ?ns" by simp
  from rmw_parse_chunks [OF this] show ?thesis
    unfolding ke using ok t(1,2) t(4) ns
    by (simp add: rmw_parse_endpoint_def Let_def ret_run qos_decode_encode rmw_node_ok_def
        rmw_received_def rmw_received_node_def)
qed

lemma rmw_parse_token:
  "rmw_transports Z e \<Longrightarrow> rmw_token Z e = Ok (LivelinessKE ke) \<Longrightarrow>
     rmw_parse_liveliness Z ke = Ok (rmw_received e)"
  using rmw_parse_node rmw_parse_endpoint_token
  by (cases e) (auto simp: rmw_token_def rmw_transports_def rmw_received_def)

end

sublocale zenoh_laws \<subseteq> rmw: key_expr_formatter "rmw_token Z" "rmw_parse_liveliness Z"
  "rmw_transports Z" rmw_received
  by unfold_locales (rule rmw_parse_token)

section \<open>ros2dds\<close>

lemma dds_decode_encode: "dds_decode_qos (dds_encode_qos q keyless) = Ok (keyless, q)"
proof -
  have "split_on CHR '':'' (dds_encode_qos q keyless) =
      [if keyless then '''' else ''K'',
       case reliability q of BestEffort \<Rightarrow> ''0'' | Reliable \<Rightarrow> ''1'',
       case durability q of Volatile \<Rightarrow> ''0'' | TransientLocal \<Rightarrow> ''1'',
       case history q of KeepLast d \<Rightarrow> ''0,'' @ show_nat (unat d) | KeepAll \<Rightarrow> ''1,0'']"
    by (cases "reliability q"; cases "durability q"; cases "history q") (simp_all add: dds_encode_qos_def)
  then show ?thesis
    by (cases "reliability q"; cases "durability q"; cases "history q")
      (simp_all add: dds_decode_qos_def Let_def from_depth_def)
qed

lemma dds_encode_no_slash [simp]: "CHR ''/'' \<notin> set (dds_encode_qos q keyless)"
  by (cases "reliability q"; cases "durability q"; cases "history q") (simp_all add: dds_encode_qos_def)

definition dds_token :: "'z zenoh_ops \<Rightarrow> 'z Entity \<Rightarrow> (LivelinessKE, zerror) result" where
  "dds_token Z e = (case e of
     Node n \<Rightarrow> dds_node_liveliness_key_expr Z n
   | Endpoint x \<Rightarrow> dds_liveliness_key_expr Z x (z_id (endpoint_node x)))"

definition dds_type_ok :: "TypeInfo \<Rightarrow> bool" where
  "dds_type_ok t \<longleftrightarrow> CHR 0xC2 \<notin> set (type_name t) \<and> type_name t \<noteq> [] \<and> type_name t \<noteq> ''unknown''"

definition dds_transports :: "'z Entity \<Rightarrow> bool" where
  "dds_transports e = (case e of
     Node n \<Rightarrow> True
   | Endpoint x \<Rightarrow> endpoint_kind x \<noteq> EK_Node \<and> CHR 0xC2 \<notin> set (topic x) \<and>
       pred_option dds_type_ok (type_info x))"

definition is_pubsub :: "EntityKind \<Rightarrow> bool" where
  "is_pubsub k \<longleftrightarrow> k = EK_Publisher \<or> k = EK_Subscription"

definition dds_received :: "'z Entity \<Rightarrow> 'z Entity" where
  "dds_received e = (case e of
     Node n \<Rightarrow> Node n
   | Endpoint x \<Rightarrow> Endpoint
       \<lparr>endpoint_id = 0,
        endpoint_node = \<lparr>domain_id = 0, z_id = z_id (endpoint_node x), node_id = 0, node_name = [],
          namespace = [], enclave = []\<rparr>,
        endpoint_kind = endpoint_kind x,
        topic = strip_trailing (strip_leading (topic x)),
        type_info = map_option (\<lambda>t. t\<lparr>type_hash := type_hash_zero\<rparr>) (type_info x),
        endpoint_qos = (if is_pubsub (endpoint_kind x) then endpoint_qos x else qos_default)\<rparr>)"

lemma dds_type_chunk:
  assumes "pred_option dds_type_ok ti"
  obtains tt where "CHR ''/'' \<notin> set tt"
    "unwrap_or (map_option (\<lambda>t. mangle_name SLASH_REPLACEMENT_CHAR (type_name t)) ti) ''unknown'' = tt"
    "(let tname = demangle_name SLASH_REPLACEMENT_CHAR tt in
      if tname = [] \<or> tname = ''unknown'' then None
      else Some \<lparr>type_name = tname, type_hash = type_hash_zero\<rparr>) =
     map_option (\<lambda>t. t\<lparr>type_hash := type_hash_zero\<rparr>) ti"
proof (cases ti)
  case None
  have "demangle_name SLASH_REPLACEMENT_CHAR ''unknown'' = ''unknown''"
    by (simp add: demangle_name_def SLASH_REPLACEMENT_CHAR_def)
  with None show thesis by (intro that [of "''unknown''"]) (simp_all add: Let_def)
next
  case (Some t)
  with assms show thesis
    by (intro that [of "mangle_name SLASH_REPLACEMENT_CHAR (type_name t)"])
      (simp_all add: dds_type_ok_def Let_def)
qed

context zenoh_laws
begin

lemma dds_parse_endpoint_token:
  assumes "dds_transports (Endpoint e)"
    and "dds_liveliness_key_expr Z e (z_id (endpoint_node e)) = Ok (LivelinessKE ke)"
  shows "dds_parse_liveliness Z ke = Ok (dds_received (Endpoint e))"
proof -
  from assms(1) have ok: "endpoint_kind e \<noteq> EK_Node" "CHR 0xC2 \<notin> set (topic e)"
    by (simp_all add: dds_transports_def)
  from assms(1) have "pred_option dds_type_ok (type_info e)" by (simp add: dds_transports_def)
  then obtain tt where t: "CHR ''/'' \<notin> set tt"
    "unwrap_or (map_option (\<lambda>t. mangle_name SLASH_REPLACEMENT_CHAR (type_name t)) (type_info e))
       ''unknown'' = tt"
    "(let tname = demangle_name SLASH_REPLACEMENT_CHAR tt in
      if tname = [] \<or> tname = ''unknown'' then None
      else Some \<lparr>type_name = tname, type_hash = type_hash_zero\<rparr>) =
     map_option (\<lambda>t. t\<lparr>type_hash := type_hash_zero\<rparr>) (type_info e)"
    by (rule dds_type_chunk)
  let ?tail = "if is_pubsub (endpoint_kind e) then [dds_encode_qos (endpoint_qos e) False] else []"
  have "split_on CHR ''/'' ke = ''@'' # zid_show Z (z_id (endpoint_node e)) # ADMIN_SPACE #
      kind_show (endpoint_kind e) #
      mangle_name SLASH_REPLACEMENT_CHAR (strip_trailing (strip_leading (topic e))) # tt # ?tail"
    using assms(2) t(1) ok(1)
    by (cases "endpoint_kind e")
      (simp_all add: dds_liveliness_key_expr_def ke_try_from_Ok t(2) Let_def is_pubsub_def kind_show_def)
  moreover have "dds_kind (kind_show (endpoint_kind e)) = Some (endpoint_kind e)"
    using ok(1) by (cases "endpoint_kind e") (simp_all add: dds_kind_def kind_show_def)
  ultimately show ?thesis
    using ok t(3)
    by (simp add: dds_parse_liveliness_def dds_optional_qos_def andthen_Ok ret_run dds_decode_encode
        dds_received_def Let_def)
qed

lemma dds_parse_token:
  "dds_transports e \<Longrightarrow> dds_token Z e = Ok (LivelinessKE ke) \<Longrightarrow>
     dds_parse_liveliness Z ke = Ok (dds_received e)"
  using dds_parse_endpoint_token
  by (cases e) (auto simp: dds_token_def dds_node_liveliness_key_expr_def)

end

sublocale zenoh_laws \<subseteq> dds: key_expr_formatter "dds_token Z" "dds_parse_liveliness Z"
  dds_transports dds_received
  by unfold_locales (rule dds_parse_token)

section \<open>Topic keys\<close>

lemma split_on_sep: "split_on c (a @ c # b) = split_on c a @ split_on c b"
  by (induction a) (auto split: list.splits)

definition type_chunks :: "'z zenoh_ops \<Rightarrow> TypeInfo option \<Rightarrow> string \<times> string" where
  "type_chunks Z ti = (case ti of
     None \<Rightarrow> (EMPTY_TOPIC_TYPE, EMPTY_TOPIC_HASH)
   | Some x \<Rightarrow> (type_name x, to_rihs_string Z (type_hash x)))"

lemma rmw_demangle_free: "CHR ''%'' \<notin> set s \<Longrightarrow> demangle_name RMW_ESCAPE s = s"
  by (simp add: demangle_name_def RMW_ESCAPE_def str_replace_free)

text \<open>What a topic key says between the domain and the hash, and the hash.\<close>

definition key_path :: "'z EndpointEntity \<Rightarrow> string" where
  "key_path e = strip_trailing (strip_leading (topic e)) @ ''/'' @
     (case type_info e of None \<Rightarrow> EMPTY_TOPIC_TYPE | Some x \<Rightarrow> demangle_name RMW_ESCAPE (type_name x))"

definition key_hash :: "'z zenoh_ops \<Rightarrow> 'z EndpointEntity \<Rightarrow> string" where
  "key_hash Z e = (case type_info e of None \<Rightarrow> EMPTY_TOPIC_HASH | Some x \<Rightarrow> to_rihs_string Z (type_hash x))"

definition plain_type :: "'z zenoh_ops \<Rightarrow> 'z EndpointEntity \<Rightarrow> bool" where
  "plain_type Z e \<longleftrightarrow> pred_option (\<lambda>t. rmw_type_ok Z t \<and> CHR ''/'' \<notin> set (type_name t)) (type_info e)"

lemma rmw_topic_key_chunks:
  assumes "rmw_topic_key_expr Z e = Ok k"
  shows "k = TopicKE (show_nat (unat (domain_id (endpoint_node e))) @ ''/'' @ key_path e @ ''/'' @ key_hash Z e)"
    and "split_on CHR ''/'' (show_nat (unat (domain_id (endpoint_node e))) @ ''/'' @ key_path e @ ''/'' @ key_hash Z e) =
    show_nat (unat (domain_id (endpoint_node e))) # split_on CHR ''/'' (key_path e) @ [key_hash Z e]"
proof -
  show "k = TopicKE (show_nat (unat (domain_id (endpoint_node e))) @ ''/'' @ key_path e @ ''/'' @ key_hash Z e)"
    using assms by (cases "type_info e")
      (simp_all add: rmw_topic_key_expr_def key_path_def key_hash_def ke_try_from_Ok rmw_demangle_free rihs_no_sep Let_def)
  have "CHR ''/'' \<notin> set (key_hash Z e)" by (auto simp: key_hash_def rihs_no_sep split: option.splits)
  then show "split_on CHR ''/'' (show_nat (unat (domain_id (endpoint_node e))) @ ''/'' @ key_path e @ ''/'' @ key_hash Z e) =
    show_nat (unat (domain_id (endpoint_node e))) # split_on CHR ''/'' (key_path e) @ [key_hash Z e]"
    by (simp add: split_on_sep split_on_part)
qed

lemma rmw_topic_key_eq_iff:
  assumes "rmw_topic_key_expr Z e = Ok k" and "rmw_topic_key_expr Z e' = Ok k'"
  shows "k = k' \<longleftrightarrow> domain_id (endpoint_node e) = domain_id (endpoint_node e') \<and>
    key_path e = key_path e' \<and> key_hash Z e = key_hash Z e'"
proof
  assume "k = k'"
  then have "show_nat (unat (domain_id (endpoint_node e))) # split_on CHR ''/'' (key_path e) @ [key_hash Z e] =
    show_nat (unat (domain_id (endpoint_node e'))) # split_on CHR ''/'' (key_path e') @ [key_hash Z e']"
    using rmw_topic_key_chunks [OF assms(1)] rmw_topic_key_chunks [OF assms(2)] by simp
  then show "domain_id (endpoint_node e) = domain_id (endpoint_node e') \<and>
    key_path e = key_path e' \<and> key_hash Z e = key_hash Z e'"
    by (simp, metis join_split option.inject parse_usize_show)
qed (use rmw_topic_key_chunks(1) [OF assms(1)] rmw_topic_key_chunks(1) [OF assms(2)] in simp)

lemma key_path_plain:
  assumes "plain_type Z e"
  shows "split_on CHR ''/'' (key_path e) =
    split_on CHR ''/'' (strip_trailing (strip_leading (topic e))) @ [fst (type_chunks Z (type_info e))]"
  using assms by (cases "type_info e")
    (auto simp: plain_type_def key_path_def type_chunks_def split_on_sep split_on_part rmw_type_ok_def rmw_demangle_free)

lemma key_hash_chunk: "key_hash Z e = snd (type_chunks Z (type_info e))"
  by (simp add: key_hash_def type_chunks_def split: option.splits)

lemma type_chunks_inject:
  assumes "pred_option (rmw_type_ok Z) t" "pred_option (rmw_type_ok Z) u"
  shows "type_chunks Z t = type_chunks Z u \<longleftrightarrow> t = u"
proof
  assume eq: "type_chunks Z t = type_chunks Z u"
  have rihs: "from_rihs_string (to_rihs_string Z (type_hash x)) = Some (type_hash x)"
    if "rmw_type_ok Z x" for x
    using that by (simp add: rmw_type_ok_def rihs_roundtrip)
  show "t = u"
  proof (cases t)
    case None
    with eq assms show ?thesis by (cases u) (auto simp: type_chunks_def rmw_type_ok_def)
  next
    case (Some x)
    then have ok: "rmw_type_ok Z x" using assms(1) by simp
    show ?thesis
    proof (cases u)
      case None
      with Some ok eq show ?thesis by (simp add: type_chunks_def rmw_type_ok_def)
    next
      case (Some y)
      with \<open>t = Some x\<close> eq have names: "type_name x = type_name y"
        and hashes: "to_rihs_string Z (type_hash x) = to_rihs_string Z (type_hash y)"
        by (simp_all add: type_chunks_def)
      have "rmw_type_ok Z y" using Some assms(2) by simp
      from rihs [OF ok] rihs [OF this] hashes have "type_hash x = type_hash y"
        by (metis option.inject)
      with names have "x = y" by (cases x; cases y) simp
      with Some \<open>t = Some x\<close> show ?thesis by simp
    qed
  qed
qed simp

section \<open>A Zenoh\<close>

text \<open>Session ids as numbers, and the rule that the chunks of a key expression are not empty.\<close>

definition sample_zenoh :: "u64 zenoh_ops" where
  "sample_zenoh = \<lparr>ke_accepts = (\<lambda>s. [] \<notin> set (split_on CHR ''/'' s)),
     zid_show = (\<lambda>z. show_nat (unat z)), zid_parse = parse_usize, feat_no_type_hash = False,
     feat_rmw_zenoh = True, feat_ros2dds = True\<rparr>"

interpretation zn: zenoh_laws sample_zenoh
  by unfold_locales (simp_all add: sample_zenoh_def)

definition talker :: "u64 EndpointEntity" where
  "talker = \<lparr>endpoint_id = 3,
     endpoint_node = \<lparr>domain_id = 0, z_id = 5, node_id = 1, node_name = ''talker'', namespace = ''/'',
       enclave = ''/''\<rparr>,
     endpoint_kind = EK_Publisher, topic = ''/chatter'',
     type_info = Some \<lparr>type_name = ''String_'', type_hash = type_hash_zero\<rparr>,
     endpoint_qos = qos_default\<lparr>durability := TransientLocal\<rparr>\<rparr>"

lemma show_nat_digit: "n < 10 \<Longrightarrow> show_nat n = [digit_char n]"
  by (simp add: show_nat.simps)

lemma talker_ok: "rmw_transports sample_zenoh (Endpoint talker)" "dds_transports (Endpoint talker)"
  by (simp_all add: rmw_transports_def rmw_node_ok_def rmw_type_ok_def talker_def sample_zenoh_def
      type_hash_zero_def dds_transports_def dds_type_ok_def EMPTY_TOPIC_TYPE_def)

lemma talker_tokens:
  "rmw_token sample_zenoh (Endpoint talker) = Ok (LivelinessKE
     (''@ros2_lv/0/5/1/3/MP/%/%/talker/%chatter/String_/RIHS01_'' @ replicate 64 CHR ''0'' @ ''/:1:,10:,:,:,,''))"
  "dds_token sample_zenoh (Endpoint talker) =
     Ok (LivelinessKE ''@/5/@ros2_lv/MP/chatter/String_/K:1:1:0,10'')"
  "rmw_topic_key_expr sample_zenoh talker = Ok (TopicKE
     (''0/chatter/String_/RIHS01_'' @ replicate 64 CHR ''0''))"
  by code_simp+

lemma listener_key:
  "rmw_topic_key_expr sample_zenoh (talker\<lparr>endpoint_kind := EK_Subscription, topic := ''chatter/''\<rparr>) =
     Ok (TopicKE (''0/chatter/String_/RIHS01_'' @ replicate 64 CHR ''0''))"
  by code_simp

section \<open>Properties\<close>

text \<open>
  C6.  A liveliness token of the rmw_zenoh format carries its entity: parsing the token of a node or
  endpoint whose names do not contain the escape character returns the entity, with the root
  namespace written as the empty one, without the enclave, and with one trailing slash of the
  topic removed.
\<close>

theorem rmw_liveliness_roundtrip:
  assumes "zenoh_laws Z" and "rmw_transports Z e" and "rmw_token Z e = Ok (LivelinessKE ke)"
  shows "rmw_parse_liveliness Z ke = Ok (rmw_received e)"
  using zenoh_laws.rmw_parse_token [OF assms] .

theorem rmw_liveliness_roundtrip_witness:
  "\<exists>ke. rmw_token sample_zenoh (Endpoint talker) = Ok (LivelinessKE ke) \<and>
     rmw_parse_liveliness sample_zenoh ke = Ok (rmw_received (Endpoint talker))"
  using rmw_liveliness_roundtrip [OF zn.zenoh_laws_axioms talker_ok(1)] talker_tokens(1) by blast

text \<open>
  A liveliness token of the ros2dds format carries the kind, the topic without its surrounding
  slashes, the type name and, for publishers and subscriptions, the QoS profile; node, type hash
  and ids arrive as placeholders.
\<close>

theorem dds_liveliness_roundtrip:
  assumes "zenoh_laws Z" and "dds_transports e" and "dds_token Z e = Ok (LivelinessKE ke)"
  shows "dds_parse_liveliness Z ke = Ok (dds_received e)"
  using zenoh_laws.dds_parse_token [OF assms] .

theorem dds_liveliness_roundtrip_witness:
  "\<exists>ke. dds_token sample_zenoh (Endpoint talker) = Ok (LivelinessKE ke) \<and>
     dds_parse_liveliness sample_zenoh ke = Ok (dds_received (Endpoint talker))"
  using dds_liveliness_roundtrip [OF zn.zenoh_laws_axioms talker_ok(2)] talker_tokens(2) by blast

text \<open>
  C7.  Two endpoints whose keys can be formed use the same rmw_zenoh topic key exactly when they have
  the same domain, the same text of topic (without one surrounding slash on each side), slash and
  unescaped type name, and the same text of the hash.  When both type names are free of slashes and
  escapes and hashes are in use, that is: the same domain, topic, type name and hash.
\<close>

theorem rmw_topic_keys_match:
  assumes "rmw_topic_key_expr Z e = Ok k" and "rmw_topic_key_expr Z e' = Ok k'"
  shows "(k = k' \<longleftrightarrow> domain_id (endpoint_node e) = domain_id (endpoint_node e') \<and>
      key_path e = key_path e' \<and> key_hash Z e = key_hash Z e') \<and>
    (plain_type Z e \<and> plain_type Z e' \<longrightarrow> (k = k' \<longleftrightarrow>
      domain_id (endpoint_node e) = domain_id (endpoint_node e') \<and>
      strip_trailing (strip_leading (topic e)) = strip_trailing (strip_leading (topic e')) \<and>
      type_info e = type_info e'))"
proof -
  have "key_path e = key_path e' \<and> key_hash Z e = key_hash Z e' \<longleftrightarrow>
      strip_trailing (strip_leading (topic e)) = strip_trailing (strip_leading (topic e')) \<and>
      type_info e = type_info e'" if plain: "plain_type Z e" "plain_type Z e'"
  proof
    assume "key_path e = key_path e' \<and> key_hash Z e = key_hash Z e'"
    with key_path_plain [OF plain(1)] key_path_plain [OF plain(2)]
    have eq: "split_on CHR ''/'' (strip_trailing (strip_leading (topic e))) =
        split_on CHR ''/'' (strip_trailing (strip_leading (topic e')))"
      "type_chunks Z (type_info e) = type_chunks Z (type_info e')"
      by (simp_all add: key_hash_chunk prod_eq_iff)
    have "pred_option (rmw_type_ok Z) (type_info e)" "pred_option (rmw_type_ok Z) (type_info e')"
      using plain by (cases "type_info e"; cases "type_info e'"; simp add: plain_type_def)+
    from type_chunks_inject [OF this] eq show
      "strip_trailing (strip_leading (topic e)) = strip_trailing (strip_leading (topic e')) \<and>
       type_info e = type_info e'"
      by (metis join_split)
  qed (simp add: key_path_def key_hash_def)
  with rmw_topic_key_eq_iff [OF assms] show ?thesis by blast
qed

theorem rmw_topic_keys_match_witness:
  "\<exists>k. rmw_topic_key_expr sample_zenoh talker = Ok k \<and>
     rmw_topic_key_expr sample_zenoh (talker\<lparr>endpoint_kind := EK_Subscription, topic := ''chatter/''\<rparr>) = Ok k"
proof -
  let ?l = "talker\<lparr>endpoint_kind := EK_Subscription, topic := ''chatter/''\<rparr>"
  obtain k' where k': "rmw_topic_key_expr sample_zenoh ?l = Ok k'" using listener_key by blast
  obtain k where k: "rmw_topic_key_expr sample_zenoh talker = Ok k" using talker_tokens(3) by blast
  have "strip_trailing (strip_leading (topic talker)) = strip_trailing (strip_leading (topic ?l))"
    by code_simp
  with rmw_topic_keys_match [OF k k'] talker_ok(1) have "k = k'"
    by (simp add: rmw_transports_def plain_type_def talker_def)
  with k k' show ?thesis by blast
qed

text \<open>A type name with a slash: a publisher and a subscription of different topics and types share a key.\<close>

theorem slash_in_type_name_shares_key:
  "rmw_topic_key_expr sample_zenoh (talker\<lparr>topic := ''/a/b'', type_info := Some \<lparr>type_name = ''c'', type_hash = type_hash_zero\<rparr>\<rparr>) =
   rmw_topic_key_expr sample_zenoh (talker\<lparr>topic := ''/a'', type_info := Some \<lparr>type_name = ''b/c'', type_hash = type_hash_zero\<rparr>\<rparr>) \<and>
   rmw_topic_key_expr sample_zenoh (talker\<lparr>topic := ''/a'', type_info := Some \<lparr>type_name = ''b/c'', type_hash = type_hash_zero\<rparr>\<rparr>) =
     Ok (TopicKE (''0/a/b/c/RIHS01_'' @ replicate 64 CHR ''0''))"
  by code_simp

text \<open>
  QoS profiles survive both encodings: decoding an encoded profile returns it, in the rmw_zenoh
  form always as not keyless, in the ros2dds form with its keyless flag.
\<close>

theorem qos_roundtrip:
  "rmw_decode_qos (rmw_encode_qos q keyless) = Ok (False, q) \<and>
   dds_decode_qos (dds_encode_qos q keyless) = Ok (keyless, q)"
  by (simp add: rmw_decode_qos_def rmw_encode_qos_def qos_decode_encode dds_decode_encode)

end
