(* ===== verification/Graph_Properties.thy ===== *)
theory Graph_Properties
  imports Graph_Refinement Proto_Roundtrip
begin

text \<open>
  The discovery graph as a whole: a history of liveliness samples, local entities and queries
  acts on the abstract graph as the corresponding history of map updates, and every query answers
  from that map.
\<close>

section \<open>Histories\<close>

datatype 'z graph_step =
    Appeared LivelinessKE | Disappeared LivelinessKE | AddLocal "'z Entity" | RemoveLocal "'z Entity"
  | CountOf EntityKind string | NamesByNode NodeKey EntityKind

definition graph_step :: "('z, 's) graph_env \<Rightarrow> 'z graph_step \<Rightarrow> ('z, 's, 'c, 't) Graph \<Rightarrow> ('z, 's, 'c, 't) Graph" where
  "graph_step E st g = (case st of
     Appeared ke \<Rightarrow> snd (on_put E ke g)
   | Disappeared ke \<Rightarrow> snd (on_delete E ke g)
   | AddLocal e \<Rightarrow> snd (add_local_entity E e g)
   | RemoveLocal e \<Rightarrow> snd (remove_local_entity E e g)
   | CountOf k n \<Rightarrow> snd (graph_count E k n g)
   | NamesByNode n k \<Rightarrow> snd (get_names_and_types_by_node E n k g))"

text \<open>The same history on the abstract graph.\<close>

definition spec_step ::
    "('z, 's) graph_env \<Rightarrow> (string \<Rightarrow> ('z Entity, zerror) result) \<Rightarrow> 'z graph_step \<Rightarrow>
     (LivelinessKE \<rightharpoonup> 'z Entity) \<Rightarrow> LivelinessKE \<rightharpoonup> 'z Entity" where
  "spec_step E p st T = (case st of
     Appeared ke \<Rightarrow> spec_put p ke T
   | Disappeared ke \<Rightarrow> T(ke := None)
   | AddLocal e \<Rightarrow> (case entity_to_liveliness_ke (env_zenoh E) e of Ok ke \<Rightarrow> T(ke \<mapsto> e) | _ \<Rightarrow> T)
   | RemoveLocal e \<Rightarrow> (case entity_to_liveliness_ke (env_zenoh E) e of Ok ke \<Rightarrow> T(ke := None) | _ \<Rightarrow> T)
   | _ \<Rightarrow> T)"

text \<open>
  What is required of a step: a token that appears does not carry an entity whose own token is another
  one of \<open>R\<close>, tokens that disappear are not parsed to an endpoint of kind \<^verbatim>\<open>Node\<close>, and an entity that
  is removed has its token in \<open>R\<close>.
\<close>

definition step_ok ::
    "('z, 's) graph_env \<Rightarrow> LivelinessKE set \<Rightarrow> (string \<Rightarrow> ('z Entity, zerror) result) \<Rightarrow> 'z graph_step \<Rightarrow> bool" where
  "step_ok E R p st = (case st of
     Appeared ke \<Rightarrow> canonical R (env_zenoh E) p ke
   | Disappeared ke \<Rightarrow> (case p (ke_str ke) of
         Ok (Endpoint x) \<Rightarrow> endpoint_kind x \<noteq> EK_Node | Panic \<Rightarrow> False | _ \<Rightarrow> True)
   | RemoveLocal e \<Rightarrow> (case entity_to_liveliness_ke (env_zenoh E) e of Ok ke \<Rightarrow> ke \<in> R | _ \<Rightarrow> True)
   | _ \<Rightarrow> True)"

text \<open>The tokens of the entities that a history removes.\<close>

definition removed_tokens :: "('z, 's) graph_env \<Rightarrow> 'z graph_step list \<Rightarrow> LivelinessKE set" where
  "removed_tokens E sts = {ke. \<exists>e. RemoveLocal e \<in> set sts \<and> entity_to_liveliness_ke (env_zenoh E) e = Ok ke}"

text \<open>
  A history without aliases: no token that appears is a second spelling of the token of an entity that
  the session removes.
\<close>

definition no_alias ::
    "('z, 's) graph_env \<Rightarrow> (string \<Rightarrow> ('z Entity, zerror) result) \<Rightarrow> 'z graph_step list \<Rightarrow> bool" where
  "no_alias E p sts \<longleftrightarrow> (\<forall>ke e k. Appeared ke \<in> set sts \<longrightarrow> p (ke_str ke) = Ok e \<longrightarrow>
     entity_to_liveliness_ke (env_zenoh E) e = Ok k \<longrightarrow> k \<in> removed_tokens E sts \<longrightarrow> k = ke)"

definition graph_inv ::
    "('z, 's) graph_env \<Rightarrow> LivelinessKE set \<Rightarrow> (string \<Rightarrow> ('z Entity, zerror) result) \<Rightarrow> ('z, 's, 'c, 't) Graph \<Rightarrow> bool" where
  "graph_inv E R p g \<longleftrightarrow> data_inv E R (g_data g) \<and> unheld (g_data g) \<and> gd_parser (g_data g) = p"

lemma new_graph_inv: "g_data g = new_with_parser p \<Longrightarrow> graph_inv E R p g"
  by (simp add: graph_inv_def new_with_parser_inv) (simp add: new_with_parser_def)

lemma andthen_on_data [simp]: "andthen (on_data f) m g = (case f (g_data g) of (x, d) \<Rightarrow> m x (g\<lparr>g_data := d\<rparr>))"
  by (simp add: andthen_def on_data_def split_beta Let_def)

lemma andthen_assert [simp]: "andthen (assert_that b) m g = (if b then m () g else (Panic, g))"
  by (simp add: assert_that_def andthen_def panic_def ret_def)

lemma notify_data [simp]: "g_data (snd (notify E e b g)) = g_data g"
  by (simp add: notify_def split_beta Let_def)

lemma notify_Ok: "(case e of Endpoint x \<Rightarrow> endpoint_kind x \<noteq> EK_Node | Node _ \<Rightarrow> True) \<Longrightarrow> fst (notify E e b g) = Ok ()"
  by (auto simp: notify_def trigger_graph_change_def change_event_type_def Let_def
      split: Entity.splits EntityKind.splits)

lemma on_put_data: "g_data (snd (on_put E ke g)) = gd_insert ke (g_data g)"
  by (auto simp: on_put_def Let_def gd_insert_def insert_absorb split: result.splits)

lemma on_delete_data:
  assumes "step_ok E R (gd_parser (g_data g)) (Disappeared ke)"
  shows "g_data (snd (on_delete E ke g)) = gd_remove ke (g_data g)"
proof (cases "gd_parser (g_data g) (ke_str ke)")
  case (Ok e)
  with assms have "fst (notify E e False g) = Ok ()"
    by (intro notify_Ok) (auto simp: step_ok_def split: Entity.splits)
  then show ?thesis
    using Ok notify_data [of E e False g]
    by (simp add: on_delete_def andthen_def on_data_def split_beta Let_def)
qed (use assms in \<open>simp_all add: on_delete_def on_data_def step_ok_def exec_simps\<close>)

lemma local_data:
  assumes "entity_to_liveliness_ke (env_zenoh E) e = Ok ke"
  shows "g_data (snd (add_local_entity E e g)) = add_local_data (env_slab E) ke e (g_data g)"
    "g_data (snd (remove_local_entity E e g)) = remove_local_data E ke e (g_data g)"
proof -
  show "g_data (snd (remove_local_entity E e g)) = remove_local_data E ke e (g_data g)"
    using assms by (simp add: remove_local_entity_def remove_local_data_def gd_remove_def Let_def)
  show "g_data (snd (add_local_entity E e g)) = add_local_data (env_slab E) ke e (g_data g)"
    using assms notify_data [of E e True]
    by (auto simp: add_local_entity_def add_local_data_def arc_new_def Let_def ret_def split_beta)
qed

section \<open>Visits\<close>

text \<open>A visit keeps the abstract graph and shows the visitor exactly the entities under the key.\<close>

definition visits_exactly ::
    "('z, 's) graph_env \<Rightarrow> LivelinessKE set \<Rightarrow> ('z Entity \<Rightarrow> bool) \<Rightarrow> ('z, 's) GraphData \<Rightarrow> nat list \<times> ('z, 's) GraphData \<Rightarrow> bool" where
  "visits_exactly E R P d r \<longleftrightarrow>
     data_inv E R (snd r) \<and> unheld (snd r) \<and> gd_parser (snd r) = gd_parser d \<and> tokens (snd r) = tokens d \<and>
     mset (map (\<lambda>a. the (arc_value (snd r) a)) (fst r)) = matching (tokens d) P \<and>
     finite {ke. \<exists>e. tokens d ke = Some e \<and> P e}"

context graph_laws
begin

lemma visits_by:
  assumes "data_inv E R d" "unheld d"
  shows "visits_exactly E R (\<lambda>e. topic_of e = Some t) d (visit_by_topic E t d)"
    "visits_exactly E R (\<lambda>e. service_of e = Some t) d (visit_by_service E t d)"
    "visits_exactly E R (\<lambda>e. node_of e = Some n) d (visit_by_node E n d)"
proof -
  let ?d = "parse_cached E d"
  note pc = parse_cached_inv [OF assms(1)]
  have held: "unheld ?d" using pc(3) assms(2) by simp
  have ok: "index_ok (env_slab E) topic_of ?d (gd_by_topic ?d)"
    "index_ok (env_slab E) service_of ?d (gd_by_service ?d)" "index_ok (env_slab E) node_of ?d (gd_by_node ?d)"
    using pc(1) by (simp_all add: data_inv_def)
  note exact = index_exact [OF pc(1) held pc(5)]
  show "visits_exactly E R (\<lambda>e. topic_of e = Some t) d (visit_by_topic E t d)"
    using reindex_inv(1) [OF pc(1) index_ok_prune(1) [OF pc(1) ok(1)]] exact [OF ok(1)] held pc
    by (simp add: visit_by_topic_def Let_def visit_slab_eq visits_exactly_def)
  show "visits_exactly E R (\<lambda>e. service_of e = Some t) d (visit_by_service E t d)"
    using reindex_inv(2) [OF pc(1) index_ok_prune(1) [OF pc(1) ok(2)]] exact [OF ok(2)] held pc
    by (simp add: visit_by_service_def Let_def visit_slab_eq visits_exactly_def)
  show "visits_exactly E R (\<lambda>e. node_of e = Some n) d (visit_by_node E n d)"
    using reindex_inv(3) [OF pc(1) index_ok_prune(1) [OF pc(1) ok(3)]] exact [OF ok(3)] held pc
    by (simp add: visit_by_node_def Let_def visit_slab_eq visits_exactly_def)
qed

end

lemma matching_filter:
  assumes "finite {ke. \<exists>e. T ke = Some e \<and> P e}"
  shows "filter_mset Q (matching T P) = matching T (\<lambda>e. P e \<and> Q e)"
proof -
  have "{ke \<in> {ke. \<exists>e. T ke = Some e \<and> P e}. Q (the (T ke))} = {ke. \<exists>e. T ke = Some e \<and> P e \<and> Q e}"
    by auto
  then show ?thesis
    using assms by (simp add: matching_def filter_mset_image_mset filter_mset_mset_set)
qed

lemma size_matching: "size (matching T P) = card {ke. \<exists>e. T ke = Some e \<and> P e}"
  by (simp add: matching_def)

lemma set_matching:
  "finite {ke. \<exists>e. T ke = Some e \<and> P e} \<Longrightarrow> set_mset (matching T P) = {e. P e \<and> (\<exists>ke. T ke = Some e)}"
  by (force simp: matching_def image_iff)

lemma visits_kind:
  assumes "visits_exactly E R P d (arcs, d')"
  shows "length (filter (\<lambda>a. entity_kind (the (arc_value d' a)) = k) arcs) =
    card {ke. \<exists>e. tokens d ke = Some e \<and> P e \<and> entity_kind e = k}"
proof -
  have "length (filter (\<lambda>a. entity_kind (the (arc_value d' a)) = k) arcs) =
      size (filter_mset (\<lambda>e. entity_kind e = k) (mset (map (\<lambda>a. the (arc_value d' a)) arcs)))"
    by (simp add: filter_mset_image_mset comp_def flip: mset_filter)
  with assms show ?thesis by (simp add: visits_exactly_def matching_filter size_matching)
qed

lemma visits_set:
  assumes "visits_exactly E R P d (arcs, d')"
  shows "(\<lambda>a. the (arc_value d' a)) ` set arcs = {e. P e \<and> (\<exists>ke. tokens d ke = Some e)}"
proof -
  have "(\<lambda>a. the (arc_value d' a)) ` set arcs = set_mset (mset (map (\<lambda>a. the (arc_value d' a)) arcs))" by simp
  with assms show ?thesis by (simp add: visits_exactly_def set_matching)
qed

lemma visits_graph_inv:
  assumes "graph_inv E R p g" "visits_exactly E R P (g_data g) (arcs, d')"
  shows "graph_inv E R p (g\<lparr>g_data := d'\<rparr>)" "tokens d' = tokens (g_data g)"
  using assms by (simp_all add: graph_inv_def visits_exactly_def)

context graph_laws
begin

lemma graph_visits:
  assumes "graph_inv E R p g"
  shows "visits_exactly E R (\<lambda>e. topic_of e = Some t) (g_data g) (visit_by_topic E t (g_data g))"
    "visits_exactly E R (\<lambda>e. service_of e = Some t) (g_data g) (visit_by_service E t (g_data g))"
    "visits_exactly E R (\<lambda>e. node_of e = Some n) (g_data g) (visit_by_node E n (g_data g))"
  using assms visits_by by (simp_all add: graph_inv_def)

lemma graph_count_inv:
  assumes inv: "graph_inv E R p g"
  shows "graph_inv E R p (snd (graph_count E k n g))" "tokens (g_data (snd (graph_count E k n g))) = tokens (g_data g)"
    "is_pubsub_kind k \<Longrightarrow> fst (graph_count E k n g) =
       Ok (card {ke. \<exists>e. tokens (g_data g) ke = Some e \<and> topic_of e = Some n \<and> entity_kind e = k})"
    "is_service_kind k \<Longrightarrow> fst (graph_count E k n g) =
       Ok (card {ke. \<exists>e. tokens (g_data g) ke = Some e \<and> service_of e = Some n \<and> entity_kind e = k})"
proof -
  obtain ts d where t: "visit_by_topic E n (g_data g) = (ts, d)" by force
  obtain ss d' where s: "visit_by_service E n (g_data g) = (ss, d')" by force
  note vt = graph_visits(1) [OF inv, of n, unfolded t] and vs = graph_visits(2) [OF inv, of n, unfolded s]
  note defs = graph_count_def count_kind_def panic_def t s
  show "graph_inv E R p (snd (graph_count E k n g))" "tokens (g_data (snd (graph_count E k n g))) = tokens (g_data g)"
    using visits_graph_inv [OF inv vt] visits_graph_inv [OF inv vs] inv
    by (simp_all add: defs)
  show "fst (graph_count E k n g) =
       Ok (card {ke. \<exists>e. tokens (g_data g) ke = Some e \<and> topic_of e = Some n \<and> entity_kind e = k})"
    if "is_pubsub_kind k"
    using that visits_kind [OF vt, of k] by (auto simp: defs is_pubsub_kind_def)
  show "fst (graph_count E k n g) =
       Ok (card {ke. \<exists>e. tokens (g_data g) ke = Some e \<and> service_of e = Some n \<and> entity_kind e = k})"
    if "is_service_kind k"
    using that visits_kind [OF vs, of k] by (auto simp: defs is_service_kind_def is_pubsub_kind_def)
qed

end

section \<open>Queries\<close>

definition is_typed_endpoint :: "EntityKind \<Rightarrow> 'z Entity \<Rightarrow> string \<times> string \<Rightarrow> bool" where
  "is_typed_endpoint k e r \<longleftrightarrow> (\<exists>x t. e = Endpoint x \<and> endpoint_kind x = k \<and> type_info x = Some t \<and>
     r = (topic x, type_name t))"

lemma typed_endpoint_iff: "typed_endpoint k e = Some r \<longleftrightarrow> is_typed_endpoint k e r"
  by (auto simp: typed_endpoint_def is_typed_endpoint_def entity_get_endpoint_def split: Entity.splits)

lemma set_map_filter: "set (List.map_filter f xs) = {r. \<exists>x\<in>set xs. f x = Some r}"
  by (force simp: List.map_filter_def)

lemma set_map_filter_image: "set (List.map_filter (\<lambda>a. f (v a)) xs) = {r. \<exists>e\<in>v ` set xs. f e = Some r}"
  by (auto simp: set_map_filter)

context graph_laws
begin

lemma names_by_node_inv:
  assumes inv: "graph_inv E R p g"
  shows "graph_inv E R p (snd (get_names_and_types_by_node E n k g))"
    "tokens (g_data (snd (get_names_and_types_by_node E n k g))) = tokens (g_data g)"
    "fst (get_names_and_types_by_node E n k g) = Ok (sorted_list_of_set
       {r. \<exists>ke e. tokens (g_data g) ke = Some e \<and> node_of e = Some n \<and> is_typed_endpoint k e r})"
proof -
  let ?d = "parse_cached E (g_data g)"
  have d: "graph_inv E R p (g\<lparr>g_data := ?d\<rparr>)" "tokens ?d = tokens (g_data g)"
    using inv parse_cached_inv [where d = "g_data g" and R = R] by (simp_all add: graph_inv_def)
  obtain arcs d' where v: "visit_by_node E n ?d = (arcs, d')" by force
  have vis: "visits_exactly E R (\<lambda>e. node_of e = Some n) ?d (arcs, d')"
    using graph_visits(3) [OF d(1), of n] by (simp add: v)
  show "graph_inv E R p (snd (get_names_and_types_by_node E n k g))"
    "tokens (g_data (snd (get_names_and_types_by_node E n k g))) = tokens (g_data g)"
    using visits_graph_inv [OF d(1), of _ arcs d'] vis d(2) by (auto simp: get_names_and_types_by_node_def v)
  have "set (List.map_filter (\<lambda>a. typed_endpoint k (the (arc_value d' a))) arcs) =
      {r. \<exists>ke e. tokens (g_data g) ke = Some e \<and> node_of e = Some n \<and> is_typed_endpoint k e r}"
    unfolding set_map_filter_image [of "typed_endpoint k"] visits_set [OF vis] d(2)
    by (auto simp: typed_endpoint_iff)
  then show "fst (get_names_and_types_by_node E n k g) = Ok (sorted_list_of_set
       {r. \<exists>ke e. tokens (g_data g) ke = Some e \<and> node_of e = Some n \<and> is_typed_endpoint k e r})"
    by (simp add: get_names_and_types_by_node_def v)
qed

lemma graph_step_inv:
  assumes inv: "graph_inv E R p g" and ok: "step_ok E R p st"
  shows "graph_inv E R p (graph_step E st g) \<and> tokens (g_data (graph_step E st g)) = spec_step E p st (tokens (g_data g))"
proof -
  have d: "data_inv E R (g_data g)" "unheld (g_data g)" "gd_parser (g_data g) = p"
    using inv by (simp_all add: graph_inv_def)
  show ?thesis
  proof (cases st)
    case (Appeared ke)
    with ok gd_insert_inv [OF d(1), of ke] d show ?thesis
      by (simp add: graph_step_def spec_step_def graph_inv_def on_put_data step_ok_def)
  next
    case (Disappeared ke)
    with ok have "g_data (snd (on_delete E ke g)) = gd_remove ke (g_data g)"
      by (intro on_delete_data) (simp add: d(3))
    with Disappeared gd_remove_inv [OF d(1), of ke] d show ?thesis
      by (simp add: graph_step_def spec_step_def graph_inv_def) (simp add: gd_remove_def parsed_remove_frame)
  next
    case (AddLocal e)
    show ?thesis
    proof (cases "entity_to_liveliness_ke (env_zenoh E) e")
      case (Ok ke)
      with AddLocal add_local_data_inv [OF d(1) Ok] d show ?thesis
        by (simp add: graph_step_def spec_step_def graph_inv_def local_data)
    qed (use AddLocal inv in \<open>simp_all add: graph_step_def spec_step_def add_local_entity_def\<close>)
  next
    case (RemoveLocal e)
    show ?thesis
    proof (cases "entity_to_liveliness_ke (env_zenoh E) e")
      case (Ok ke)
      with RemoveLocal ok have "ke \<in> R" by (simp add: step_ok_def)
      with Ok RemoveLocal remove_local_data_inv [OF d(1), of ke e] d show ?thesis
        by (simp add: graph_step_def spec_step_def graph_inv_def local_data)
    qed (use RemoveLocal inv in \<open>simp_all add: graph_step_def spec_step_def remove_local_entity_def\<close>)
  next
    case (CountOf k n)
    with graph_count_inv(1,2) [OF inv] show ?thesis by (simp add: graph_step_def spec_step_def)
  next
    case (NamesByNode n k)
    with names_by_node_inv(1,2) [OF inv] show ?thesis by (simp add: graph_step_def spec_step_def)
  qed
qed

lemma graph_run_inv:
  assumes "graph_inv E R p g" "list_all (step_ok E R p) sts"
  shows "graph_inv E R p (fold (graph_step E) sts g) \<and>
    tokens (g_data (fold (graph_step E) sts g)) = fold (spec_step E p) sts (tokens (g_data g))"
  using assms
proof (induction sts arbitrary: g)
  case (Cons st sts)
  from Cons.prems(2) graph_step_inv [OF Cons.prems(1), where st = st] have
    "graph_inv E R p (graph_step E st g)" "tokens (g_data (graph_step E st g)) = spec_step E p st (tokens (g_data g))"
    by auto
  with Cons.IH [OF this(1)] Cons.prems(2) show ?case by simp
qed simp

lemma graph_run_new:
  assumes "g_data g = new_with_parser p" "list_all (step_ok E R p) sts"
  shows "graph_inv E R p (fold (graph_step E) sts g)"
    "tokens (g_data (fold (graph_step E) sts g)) = fold (spec_step E p) sts Map.empty"
  using graph_run_inv [OF new_graph_inv [OF assms(1)] assms(2)]
  by (simp_all add: assms(1) new_with_parser_inv(2))

end

section \<open>Tokens of the rmw\_zenoh format are canonical\<close>

definition single_slash :: "'z Entity \<Rightarrow> bool" where
  "single_slash e = (case e of Node _ \<Rightarrow> True
   | Endpoint x \<Rightarrow> strip_trailing (strip_trailing (topic x)) = strip_trailing (topic x))"

lemma rmw_token_received:
  assumes "single_slash e"
  shows "rmw_token Z (rmw_received e) = rmw_token Z e"
proof -
  have "(if (if ns = ''/'' then [] else ns) = [] then EMPTY_PLACEHOLDER
      else mangle_name RMW_ESCAPE (if ns = ''/'' then [] else ns)) =
    (if ns = [] then EMPTY_PLACEHOLDER else mangle_name RMW_ESCAPE ns)" for ns
    by simp
  then show ?thesis
    using assms by (cases e)
      (simp_all add: rmw_token_def rmw_received_def rmw_received_node_def single_slash_def
        rmw_node_liveliness_key_expr_def rmw_liveliness_key_expr_def Let_def)
qed

lemma rmw_canonical:
  assumes "zenoh_laws Z" "feat_rmw_zenoh Z" "rmw_transports Z e" "single_slash e" "rmw_token Z e = Ok ke"
  shows "canonical UNIV Z (fmt_parse_liveliness Z RmwZenoh) ke"
proof -
  obtain s where s: "ke = LivelinessKE s" by (cases ke)
  have "entity_to_liveliness_ke Z x = rmw_token Z x" for x
    using assms(2) by (cases x) (simp_all add: entity_to_liveliness_ke_def node_to_liveliness_ke_def
        endpoint_to_liveliness_ke_def fmt_node_liveliness_key_expr_def fmt_liveliness_key_expr_def rmw_token_def)
  moreover have "fmt_parse_liveliness Z RmwZenoh s = Ok (rmw_received e)"
    using zenoh_laws.rmw_parse_token [OF assms(1,3)] assms(2,5)
    by (simp add: fmt_parse_liveliness_def s)
  ultimately show ?thesis
    using assms(5) rmw_token_received [OF assms(4), of Z] by (simp add: canonical_def own_token_def s)
qed

section \<open>A concrete graph\<close>

instantiation LivelinessKE :: linorder
begin

definition less_eq_LivelinessKE :: "LivelinessKE \<Rightarrow> LivelinessKE \<Rightarrow> bool" where
  "less_eq_LivelinessKE a b \<longleftrightarrow> ke_str a \<le> ke_str b"

definition less_LivelinessKE :: "LivelinessKE \<Rightarrow> LivelinessKE \<Rightarrow> bool" where
  "less_LivelinessKE a b \<longleftrightarrow> ke_str a < ke_str b"

instance
proof
  fix a b c :: LivelinessKE
  show "a < b \<longleftrightarrow> a \<le> b \<and> \<not> b \<le> a" "a \<le> a" "a \<le> b \<or> b \<le> a"
    by (auto simp: less_eq_LivelinessKE_def less_LivelinessKE_def)
  show "a \<le> b \<Longrightarrow> b \<le> c \<Longrightarrow> a \<le> c" by (simp add: less_eq_LivelinessKE_def)
  show "a \<le> b \<Longrightarrow> b \<le> a \<Longrightarrow> a = b"
    by (cases a; cases b) (simp add: less_eq_LivelinessKE_def)
qed

end

definition sample_env :: "(u64, nat \<times> nat list) graph_env" where
  "sample_env = \<lparr>env_zenoh = sample_zenoh, env_slab = list_slab, order_tokens = sorted_list_of_set,
     order_names = sorted_list_of_set, order_nodes = sorted_list_of_set, order_gids = sorted_list_of_set\<rparr>"

interpretation sg: graph_laws sample_env
  by unfold_locales (simp_all add: sample_env_def iteration_order_sorted ls.mset_iter_insert ls.len_iter)

definition sample_graph :: "(u64, nat \<times> nat list, nat, nat) Graph" where
  "sample_graph = \<lparr>g_data = new_with_parser (fmt_parse_liveliness sample_zenoh RmwZenoh),
     g_event_manager = gem_new, g_zid = 5, g_notes = []\<rparr>"

lemma talker_token:
  obtains ke where "entity_to_liveliness_ke (env_zenoh sample_env) (Endpoint talker) = Ok ke"
    "rmw_token sample_zenoh (Endpoint talker) = Ok ke"
  using talker_tokens(1)
  by (simp add: entity_to_liveliness_ke_def endpoint_to_liveliness_ke_def fmt_liveliness_key_expr_def
      rmw_token_def sample_env_def sample_zenoh_def)

section \<open>Properties\<close>

text \<open>The parsers of both formats return no endpoint of kind \<^verbatim>\<open>Node\<close> and do not panic.\<close>

definition parses_well :: "(string list, 'z Entity, zerror) exec \<Rightarrow> bool" where
  "parses_well m \<longleftrightarrow> (\<forall>s. (case fst (m s) of
     Ok (Endpoint x) \<Rightarrow> endpoint_kind x \<noteq> EK_Node | Panic \<Rightarrow> False | _ \<Rightarrow> True))"

definition parses_to :: "('a \<Rightarrow> bool) \<Rightarrow> (string list, 'a, zerror) exec \<Rightarrow> bool" where
  "parses_to P m \<longleftrightarrow> (\<forall>s. (case fst (m s) of Ok x \<Rightarrow> P x | Panic \<Rightarrow> False | _ \<Rightarrow> True))"

lemma parses_well_andthen:
  assumes "parses_to P m" and "\<And>x. P x \<Longrightarrow> parses_well (f x)"
  shows "parses_well (andthen m f)"
  unfolding parses_well_def
proof
  fix s
  obtain r s1 where m: "m s = (r, s1)" by force
  show "case fst (andthen m f s) of
     Ok (Endpoint x) \<Rightarrow> endpoint_kind x \<noteq> EK_Node | Panic \<Rightarrow> False | _ \<Rightarrow> True"
    using assms(1) [unfolded parses_to_def, rule_format, of s] assms(2) m
    by (cases r) (simp_all add: andthen_def parses_well_def)
qed

lemma result_total: "ok_or e x \<noteq> Panic" "map_ok g r = Panic \<longleftrightarrow> r = Panic"
  by (cases x; simp) (cases r; simp)

lemma bind_ok_or_total: "(\<And>y. k y \<noteq> Panic) \<Longrightarrow> bind_result (map_ok f (ok_or e x)) k \<noteq> Panic"
  by (cases x) simp_all

lemma qos_decode_total: "qos_decode s \<noteq> Panic" "dds_decode_qos s \<noteq> Panic"
  by (simp_all add: qos_decode_def dds_decode_qos_def Let_def bind_ok_or_total)

lemma parses_to_parts:
  "parses_to (\<lambda>_. True) (iter_next e)" "parses_to (\<lambda>v. x = Some v) (parsed x)"
  "parses_to (\<lambda>_. True) dds_optional_qos"
  using qos_decode_total(2)
  by (auto simp: parses_to_def iter_next_def parsed_def ret_def throw_def dds_optional_qos_def result_total
    split: list.splits option.splits result.splits)

lemma parses_well_ends:
  "parses_well (throw e)" "parses_well (ret (Node n))" "endpoint_kind x \<noteq> EK_Node \<Longrightarrow> parses_well (ret (Endpoint x))"
  by (simp_all add: parses_well_def throw_def ret_def)

lemma parses_well_if:
  "(b \<Longrightarrow> parses_well m) \<Longrightarrow> (\<not> b \<Longrightarrow> parses_well n) \<Longrightarrow> parses_well (if b then m else n)"
  by simp

lemmas parses_well_rules = parses_well_if parses_well_andthen [OF parses_to_parts(1)] parses_well_andthen [OF parses_to_parts(2)]
  parses_well_andthen [OF parses_to_parts(3)] parses_well_ends

lemma rmw_parse_endpoint_well: "kind \<noteq> EK_Node \<Longrightarrow> parses_well (rmw_parse_endpoint node eid kind)"
  unfolding rmw_parse_endpoint_def Let_def
  by (intro parses_well_rules) (auto intro: parses_well_ends simp: qos_decode_total(1) split: result.splits)

lemma fmt_parses_well:
  "(case fmt_parse_liveliness Z f s of
     Ok (Endpoint x) \<Rightarrow> endpoint_kind x \<noteq> EK_Node | Panic \<Rightarrow> False | _ \<Rightarrow> True)"
proof (cases f)
  case RmwZenoh
  have "case rmw_parse_liveliness Z s of
     Ok (Endpoint x) \<Rightarrow> endpoint_kind x \<noteq> EK_Node | Panic \<Rightarrow> False | _ \<Rightarrow> True"
    unfolding rmw_parse_liveliness_def Let_def
    by (rule parses_well_def [THEN iffD1, rule_format])
      (intro parses_well_rules rmw_parse_endpoint_well, simp_all)
  with RmwZenoh show ?thesis by (simp add: fmt_parse_liveliness_def)
next
  case Ros2Dds
  have "case dds_parse_liveliness Z s of
     Ok (Endpoint x) \<Rightarrow> endpoint_kind x \<noteq> EK_Node | Panic \<Rightarrow> False | _ \<Rightarrow> True"
    unfolding dds_parse_liveliness_def Let_def
    by (rule parses_well_def [THEN iffD1, rule_format])
      (intro parses_well_rules, auto simp: dds_kind_def split: if_splits)
  with Ros2Dds show ?thesis by (simp add: fmt_parse_liveliness_def)
qed

lemma history_steps_ok:
  assumes "no_alias E (fmt_parse_liveliness (env_zenoh E) f) sts"
  shows "list_all (step_ok E (removed_tokens E sts) (fmt_parse_liveliness (env_zenoh E) f)) sts"
  unfolding list_all_iff
proof
  fix st assume st: "st \<in> set sts"
  show "step_ok E (removed_tokens E sts) (fmt_parse_liveliness (env_zenoh E) f) st"
  proof (cases st)
    case (Appeared ke)
    with st assms show ?thesis unfolding step_ok_def no_alias_def canonical_def own_token_def by simp
  next
    case (Disappeared ke)
    with fmt_parses_well [of "env_zenoh E" f "ke_str ke"] show ?thesis by (simp add: step_ok_def)
  next
    case (RemoveLocal e)
    with st show ?thesis by (auto simp: step_ok_def removed_tokens_def split: result.splits)
  qed (simp_all add: step_ok_def)
qed

text \<open>
  C8.  The discovery graph, with the parser of either format, implements a map from liveliness tokens
  to entities.  After a history of tokens appearing and disappearing, local entities being added and
  removed, and queries in between, the graph answers from the map that the same history builds by
  plain updates: it counts the publishers or subscriptions of a topic, and the servers or clients of a
  service, once each, and lists the names and types of a node's endpoints of a kind in order and without
  repetition.  Lazy parsing, weak indexes and pruning are invisible.  Tokens may be spelled in any way,
  as peers and the ros2dds format do; the one condition is that no token that appears is a second spelling
  of the token of an entity that the session itself removes.
\<close>

theorem graph_refines_token_map:
  assumes "graph_laws E" and "g_data g = new_with_parser (fmt_parse_liveliness (env_zenoh E) f)"
    and "no_alias E (fmt_parse_liveliness (env_zenoh E) f) sts"
  shows "let g' = fold (graph_step E) sts g;
      T = fold (spec_step E (fmt_parse_liveliness (env_zenoh E) f)) sts Map.empty in
    (is_pubsub_kind k \<longrightarrow> fst (graph_count E k n g') =
       Ok (card {ke. \<exists>e. T ke = Some e \<and> topic_of e = Some n \<and> entity_kind e = k})) \<and>
    (is_service_kind k \<longrightarrow> fst (graph_count E k n g') =
       Ok (card {ke. \<exists>e. T ke = Some e \<and> service_of e = Some n \<and> entity_kind e = k})) \<and>
    fst (get_names_and_types_by_node E node k g') = Ok (sorted_list_of_set
       {r. \<exists>ke e. T ke = Some e \<and> node_of e = Some node \<and> is_typed_endpoint k e r})"
proof -
  note run = graph_laws.graph_run_new [OF assms(1,2) history_steps_ok [OF assms(3)]]
  show ?thesis
    using graph_laws.graph_count_inv(3,4) [OF assms(1) run(1)]
      graph_laws.names_by_node_inv(3) [OF assms(1) run(1)]
    by (simp add: Let_def run(2))
qed

theorem graph_refines_token_map_witness:
  "fst (graph_count sample_env EK_Publisher ''/chatter''
     (fold (graph_step sample_env) [AddLocal (Endpoint talker)] sample_graph)) = Ok 1"
proof -
  obtain ke where ke: "entity_to_liveliness_ke (env_zenoh sample_env) (Endpoint talker) = Ok ke"
    using talker_token by blast
  have "{k. \<exists>e. [ke \<mapsto> Endpoint talker] k = Some e \<and> topic_of e = Some ''/chatter'' \<and>
      entity_kind e = EK_Publisher} = {ke}"
    by (auto simp: topic_of_def entity_kind_def talker_def is_pubsub_kind_def)
  then show ?thesis
    using graph_refines_token_map [OF sg.graph_laws_axioms,
        of sample_graph RmwZenoh "[AddLocal (Endpoint talker)]"
          EK_Publisher "''/chatter''"] ke
    by (simp add: Let_def no_alias_def spec_step_def sample_graph_def is_pubsub_kind_def is_service_kind_def)
      (simp add: sample_env_def)
qed

text \<open>
  Discovery through the wire is complete and exact: a session that has added or received the
  rmw\_zenoh tokens of any entities, in any order and number, and no other, knows exactly the
  entities that these tokens carry.
\<close>

theorem graph_discovers_entities:
  assumes "graph_laws E" and "zenoh_laws (env_zenoh E)" and "feat_rmw_zenoh (env_zenoh E)"
    and "list_all (\<lambda>(e, ke). rmw_transports (env_zenoh E) e \<and> single_slash e \<and>
      rmw_token (env_zenoh E) e = Ok ke) es"
    and "g_data g = new_with_parser (fmt_parse_liveliness (env_zenoh E) RmwZenoh)"
  shows "tokens (g_data (fold (graph_step E) (map (\<lambda>(e, ke). Appeared ke) es) g)) ke = Some x \<longleftrightarrow>
    (\<exists>e. (e, ke) \<in> set es \<and> x = rmw_received e)"
proof -
  let ?Z = "env_zenoh E" and ?p = "fmt_parse_liveliness (env_zenoh E) RmwZenoh"
  have tok: "canonical UNIV ?Z ?p ke" "?p (ke_str ke) = Ok (rmw_received e)" if "(e, ke) \<in> set es" for e ke
  proof -
    from that assms(4) have e: "rmw_transports ?Z e" "single_slash e" "rmw_token ?Z e = Ok ke"
      by (auto simp: list_all_iff)
    then show "canonical UNIV ?Z ?p ke" using assms(2,3) by (intro rmw_canonical)
    show "?p (ke_str ke) = Ok (rmw_received e)"
      using zenoh_laws.rmw_parse_token [OF assms(2) e(1)] e(3) assms(3)
      by (cases ke) (simp add: fmt_parse_liveliness_def)
  qed
  let ?sts = "map (\<lambda>(e, ke). Appeared ke) es"
  have "list_all (step_ok E UNIV ?p) ?sts" using tok(1) by (auto simp: list_all_iff step_ok_def)
  from graph_laws.graph_run_new(2) [OF assms(1,5) this]
  have "tokens (g_data (fold (graph_step E) ?sts g)) = fold (spec_step E ?p) ?sts Map.empty" .
  also have "\<dots> = fold (spec_put ?p) (map snd es) Map.empty"
  proof -
    have "spec_step E ?p (Appeared k) = spec_put ?p k" for k by (simp add: fun_eq_iff spec_step_def)
    then show ?thesis by (simp add: fold_map comp_def split_beta)
  qed
  finally have "tokens (g_data (fold (graph_step E) ?sts g)) = fold (spec_put ?p) (map snd es) Map.empty" .
  then have eq: "tokens (g_data (fold (graph_step E) ?sts g)) ke =
      (if ke \<in> snd ` set es then (case ?p (ke_str ke) of Ok e \<Rightarrow> Some e | _ \<Rightarrow> None) else None)"
    by (simp add: graph_laws.fold_spec_put [OF assms(1)])
  show ?thesis
  proof (cases "ke \<in> snd ` set es")
    case True
    then obtain e where e: "(e, ke) \<in> set es" by auto
    have same: "rmw_received e' = rmw_received e" if "(e', ke) \<in> set es" for e'
      using tok(2) [OF that] tok(2) [OF e] by simp
    have "tokens (g_data (fold (graph_step E) ?sts g)) ke = Some (rmw_received e)"
      using eq True tok(2) [OF e] by simp
    then show ?thesis using e same by (metis option.inject)
  next
    case False
    with eq show ?thesis by force
  qed
qed

theorem graph_discovers_entities_witness:
  "\<exists>ke. tokens (g_data (fold (graph_step sample_env) [Appeared ke] sample_graph)) ke =
     Some (rmw_received (Endpoint talker))"
proof -
  obtain ke where "rmw_token sample_zenoh (Endpoint talker) = Ok ke" using talker_token by blast
  moreover have "single_slash (Endpoint talker)"
    by (simp add: single_slash_def talker_def) code_simp
  moreover have "env_zenoh sample_env = sample_zenoh" "feat_rmw_zenoh sample_zenoh"
    by (simp_all add: sample_env_def sample_zenoh_def)
  ultimately show ?thesis
    using graph_discovers_entities [OF sg.graph_laws_axioms, of "[(Endpoint talker, ke)]" sample_graph ke
        "rmw_received (Endpoint talker)"] zn.zenoh_laws_axioms talker_ok(1)
    by (auto simp: sample_graph_def)
qed

section \<open>Where the graph and its users disagree\<close>

text \<open>Keys of an index are never removed.\<close>

lemma lookup_index_mono:
  "Mapping.lookup m k \<noteq> None \<Longrightarrow> Mapping.lookup (index_opt S alive k' a m) k \<noteq> None"
  "Mapping.lookup m k \<noteq> None \<Longrightarrow> Mapping.lookup (retain_opt S P k' m) k \<noteq> None"
  by (auto simp: index_opt_def index_weak_def Let_def retain_opt_def retain_at_def lookup_update'
      split: option.splits)

lemma parse_token_by_node:
  "Mapping.lookup (gd_by_node d) k \<noteq> None \<Longrightarrow> Mapping.lookup (gd_by_node (parse_token S ke d)) k \<noteq> None"
  using lookup_index_mono(1) [of "gd_by_node d" k]
  by (simp add: parse_token_def arc_new_def Let_def index_entity_eq split: result.splits)

lemma fold_parse_by_node:
  "Mapping.lookup (gd_by_node d) k \<noteq> None \<Longrightarrow>
     Mapping.lookup (gd_by_node (fold (parse_token S) kes d)) k \<noteq> None"
  by (induction kes arbitrary: d) (simp_all add: parse_token_by_node del: not_None_eq)

lemma parse_cached_by_node:
  "Mapping.lookup (gd_by_node d) k \<noteq> None \<Longrightarrow> Mapping.lookup (gd_by_node (parse_cached E d)) k \<noteq> None"
  by (simp add: parse_cached_def gd_parse_def fold_parse_by_node del: not_None_eq)

lemma removed_local_by_node:
  assumes "entity_to_liveliness_ke (env_zenoh E) e = Ok ke"
  shows "Mapping.lookup (gd_by_node (g_data (snd (remove_local_entity E e (snd (add_local_entity E e g))))))
    (node_key (entity_node e)) \<noteq> None"
proof -
  let ?d = "add_local_data (env_slab E) ke e (g_data g)"
  have "Mapping.lookup (gd_by_node ?d) (node_key (entity_node e)) \<noteq> None"
    by (simp add: add_local_data_def arc_new_def Let_def index_entity_eq node_of_def index_opt_def
        index_weak_def lookup_update')
  then show ?thesis
    using lookup_index_mono(2) [of "gd_by_node ?d" "node_key (entity_node e)"]
    by (simp add: local_data [OF assms] remove_local_data_def unindex_entity_eq Let_def gd_remove_def
        parsed_remove_frame del: not_None_eq)
qed

text \<open>
  A node that has been added and removed again is still reported to exist, in whatever state
  the graph was, although the graph knows no entity under its token any more.
\<close>

theorem removed_node_still_exists:
  assumes "graph_laws E" and "graph_inv E R p g" and "entity_to_liveliness_ke (env_zenoh E) (Node n) = Ok ke"
  shows "let g' = snd (remove_local_entity E (Node n) (snd (add_local_entity E (Node n) g))) in
    fst (node_exists E (node_key n) g') = Ok True \<and> tokens (g_data g') ke = None"
proof -
  let ?g = "snd (remove_local_entity E (Node n) (snd (add_local_entity E (Node n) g)))"
  have "Mapping.lookup (gd_by_node (parse_cached E (g_data ?g))) (node_key n) \<noteq> None"
    using removed_local_by_node [OF assms(3), of g]
    by (intro parse_cached_by_node) (simp add: entity_node_def)
  moreover have "tokens (g_data ?g) ke = None"
  proof -
    from assms(2) have "data_inv E R (g_data g)" by (simp add: graph_inv_def)
    note add = graph_laws.add_local_data_inv [OF assms(1) this assms(3)]
    from graph_laws.remove_local_data_inv(2) [OF assms(1) add(1)] show ?thesis
      by (simp add: local_data [OF assms(3)])
  qed
  ultimately show ?thesis by (simp add: node_exists_def on_data_def Let_def)
qed

theorem removed_node_still_exists_witness:
  "\<exists>n ke. let g' = snd (remove_local_entity sample_env (Node n) (snd (add_local_entity sample_env (Node n) sample_graph)))
     in fst (node_exists sample_env (node_key n) g') = Ok True \<and> tokens (g_data g') ke = None"
proof -
  have "\<exists>ke. entity_to_liveliness_ke (env_zenoh sample_env) (Node (endpoint_node talker)) = Ok ke"
  proof -
    have "(case rmw_node_liveliness_key_expr sample_zenoh (endpoint_node talker) of Ok _ \<Rightarrow> True | _ \<Rightarrow> False)"
      by code_simp
    then show ?thesis
      by (auto simp: entity_to_liveliness_ke_def node_to_liveliness_ke_def fmt_node_liveliness_key_expr_def
          sample_env_def sample_zenoh_def split: result.splits)
  qed
  moreover have "graph_inv sample_env UNIV (fmt_parse_liveliness sample_zenoh RmwZenoh) sample_graph"
    by (rule new_graph_inv) (simp add: sample_graph_def)
  ultimately show ?thesis using removed_node_still_exists [OF sg.graph_laws_axioms] by blast
qed

text \<open>
  A publisher that a session adds locally is announced twice to every callback that waits for
  matching publishers: once when it is added, and again when its own liveliness token arrives,
  although the graph has held it since the first time.
\<close>

theorem local_publisher_announced_twice:
  assumes "entity_to_liveliness_ke (env_zenoh E) (Endpoint x) = Ok ke" and "endpoint_kind x = EK_Publisher"
    and "gd_parser (g_data g) (ke_str ke) = Ok (Endpoint y)" and "endpoint_kind y = EK_Publisher"
    and "Mapping.lookup (gd_parsed (g_data g)) ke = None"
    and "iteration_order (order_gids E)" and "finite (Mapping.keys (gem_callbacks (g_event_manager g)))"
    and "registered_callback gid SubscriptionMatched (g_event_manager g) = Some c"
  shows "\<exists>calls. g_notes (snd (on_put E ke (snd (add_local_entity E (Endpoint x) g)))) = g_notes g @ calls @ calls \<and>
    Callback c 1 \<in> set calls"
proof -
  let ?m = "g_event_manager g"
  obtain calls where calls: "trigger_graph_change (order_gids E) ?m (Endpoint x) True = (Ok () :: (unit, zerror) result, calls)"
    "Callback c 1 \<in> set calls"
  proof -
    have "gid \<in> Mapping.keys (gem_callbacks ?m)"
      using assms(8) by (auto simp: registered_callback_def keys_dom_lookup split: Option.bind_splits)
    then have "gid \<in> set (order_gids E (Mapping.keys (gem_callbacks ?m)))"
      using assms(6,7) by simp
    with assms(8) have "Callback c 1 \<in> set (List.map_filter
        (\<lambda>gid. map_option (\<lambda>callback. Callback callback 1) (registered_callback gid SubscriptionMatched ?m))
        (order_gids E (Mapping.keys (gem_callbacks ?m))))"
      by (auto simp: set_map_filter intro!: bexI [of _ gid])
    with assms(2) show thesis
      by (intro that [of "snd (trigger_graph_change (order_gids E) ?m (Endpoint x) True)"])
        (auto simp: trigger_graph_change_def change_event_type_def Let_def)
  qed
  have y: "trigger_graph_change order m (Endpoint y) b = trigger_graph_change order m (Endpoint x) b" for order m b
    using assms(2,4) by (simp add: trigger_graph_change_def change_event_type_def)
  let ?g = "snd (add_local_entity E (Endpoint x) g)"
  have g: "g_notes ?g = g_notes g @ calls" "g_event_manager ?g = ?m"
    using assms(1,5) calls by (simp_all add: add_local_entity_def arc_new_def Let_def notify_def)
  have "gd_parser (g_data ?g) = gd_parser (g_data g)"
    by (simp add: local_data [OF assms(1)] add_local_data_def arc_new_def Let_def index_entity_eq
        parsed_remove_frame)
  with assms(3) g calls have "g_notes (snd (on_put E ke ?g)) = g_notes g @ calls @ calls"
    by (simp add: on_put_def Let_def notify_def y)
  with calls(2) show ?thesis by blast
qed


theorem local_publisher_announced_twice_witness:
  "\<exists>ke calls. g_notes (snd (on_put sample_env ke (snd (add_local_entity sample_env (Endpoint talker)
     (sample_graph\<lparr>g_event_manager := register_event_callback [1] SubscriptionMatched 7 gem_new\<rparr>))))) =
     calls @ calls \<and> Callback 7 1 \<in> set calls"
proof -
  let ?g = "sample_graph\<lparr>g_event_manager := register_event_callback [1] SubscriptionMatched 7 gem_new\<rparr>"
  obtain ke where ke: "entity_to_liveliness_ke (env_zenoh sample_env) (Endpoint talker) = Ok ke"
    "rmw_token sample_zenoh (Endpoint talker) = Ok ke" using talker_token by blast
  obtain y where y: "rmw_received (Endpoint talker) = Endpoint y" "endpoint_kind y = EK_Publisher"
    by (simp add: rmw_received_def talker_def)
  have "gd_parser (g_data ?g) (ke_str ke) = Ok (Endpoint y)"
    using zn.rmw_parse_token [OF talker_ok(1)] ke(2) y(1)
    by (cases ke) (simp add: sample_graph_def new_with_parser_def fmt_parse_liveliness_def sample_zenoh_def)
  moreover have "endpoint_kind talker = EK_Publisher" by (simp add: talker_def)
  moreover have "Mapping.lookup (gd_parsed (g_data ?g)) ke = None"
    by (simp add: sample_graph_def new_with_parser_def lookup_empty)
  moreover have "finite (Mapping.keys (gem_callbacks (g_event_manager ?g)))"
    "registered_callback [1] SubscriptionMatched (g_event_manager ?g) = Some 7"
    by (simp_all add: register_event_callback_def gem_new_def registered_callback_def lookup_update' Let_def)
  ultimately show ?thesis
    using local_publisher_announced_twice [OF ke(1) _ _ y(2), of ?g "[1]" 7] sg.orders(4)
    by (auto simp: sample_graph_def)
qed

section \<open>Listing topics\<close>

text \<open>The type that an endpoint of a topic gives.\<close>

definition given_type :: "'z Entity \<Rightarrow> string option" where
  "given_type e = (case e of Node _ \<Rightarrow> None
   | Endpoint x \<Rightarrow> if is_pubsub_kind (endpoint_kind x) then map_option type_name (type_info x) else None)"

lemma topic_type_first: "topic_type ents = (case List.map_filter given_type ents of [] \<Rightarrow> None | t # _ \<Rightarrow> Some t)"
proof -
  let ?f = "\<lambda>ent found_type. if found_type = None
     then (case entity_get_endpoint ent of
             Some enp \<Rightarrow> (if is_pubsub_kind (endpoint_kind enp)
                then (case type_info enp of Some t \<Rightarrow> Some (type_name t) | None \<Rightarrow> found_type) else found_type)
           | None \<Rightarrow> found_type)
     else found_type"
  have found: "fold ?f es (Some t) = Some t" for es t by (induction es) auto
  have step: "?f e None = given_type e" for e
    by (auto simp: given_type_def entity_get_endpoint_def split: Entity.splits option.splits)
  show ?thesis unfolding topic_type_def
  proof (induction ents)
    case (Cons e es)
    show ?case
    proof (cases "given_type e")
      case None
      with Cons step [of e] show ?thesis by (simp add: map_filter_simps)
    next
      case (Some t)
      with step [of e] found [of es t] show ?thesis by (simp add: map_filter_simps)
    qed
  qed (simp add: map_filter_simps)
qed

lemma topic_type_iff:
  "topic_type ents \<noteq> None \<longleftrightarrow> (\<exists>e\<in>set ents. given_type e \<noteq> None)"
  "topic_type ents = Some t \<Longrightarrow> \<exists>e\<in>set ents. given_type e = Some t"
proof -
  have s: "set (List.map_filter given_type ents) = {t. \<exists>e\<in>set ents. given_type e = Some t}"
    by (rule set_map_filter)
  show "topic_type ents \<noteq> None \<longleftrightarrow> (\<exists>e\<in>set ents. given_type e \<noteq> None)"
  proof -
    have "topic_type ents \<noteq> None \<longleftrightarrow> set (List.map_filter given_type ents) \<noteq> {}"
      by (simp add: topic_type_first split: list.split)
    then show ?thesis unfolding s by auto
  qed
  show "\<exists>e\<in>set ents. given_type e = Some t" if "topic_type ents = Some t"
    using s that by (cases "List.map_filter given_type ents") (auto simp: topic_type_first)
qed

lemma topic_row:
  "Mapping.lookup m k = Some s \<Longrightarrow> slab_iter S s = weaks_at S m k"
  by (simp add: weaks_at_def)

lemma sweep_rows:
  assumes "iteration_order order" "finite (Mapping.keys m)"
  shows "fst (sweep S order alive m) = map (\<lambda>k. (k, filter alive (weaks_at S m k))) (order (Mapping.keys m))"
proof -
  have row: "map_option (\<lambda>slab. (k, filter alive (slab_iter S slab))) (Mapping.lookup m k) =
      Some (k, filter alive (weaks_at S m k))" if "k \<in> Mapping.keys m" for k
    using that by (auto simp: keys_dom_lookup weaks_at_def)
  have "List.map_filter (\<lambda>k. map_option (\<lambda>slab. (k, filter alive (slab_iter S slab))) (Mapping.lookup m k)) ks =
      map (\<lambda>k. (k, filter alive (weaks_at S m k))) ks" if "set ks \<subseteq> Mapping.keys m" for ks
    using that by (induction ks) (simp_all add: map_filter_simps row)
  with assms show ?thesis by (simp add: sweep_def)
qed

text \<open>
  The list of topics is right: in every state that is reached, every listed topic has a
  publisher or subscription with the listed type, no topic is listed twice, and every topic that
  has an endpoint with a type is listed.
\<close>

theorem graph_lists_topics:
  assumes "graph_laws E" and "graph_inv E R p g"
  shows "\<exists>rows. fst (get_topic_names_and_types E g) = Ok rows \<and> distinct (map fst rows) \<and>
    (\<forall>n t. (n, t) \<in> set rows \<longrightarrow>
       (\<exists>ke e. tokens (g_data g) ke = Some e \<and> topic_of e = Some n \<and> given_type e = Some t)) \<and>
    (\<forall>ke e n. tokens (g_data g) ke = Some e \<longrightarrow> topic_of e = Some n \<longrightarrow> given_type e \<noteq> None \<longrightarrow>
       n \<in> fst ` set rows)"
proof -
  let ?d = "parse_cached E (g_data g)" and ?S = "env_slab E"
  from assms(2) have inv: "data_inv E R (g_data g)" "unheld (g_data g)" by (simp_all add: graph_inv_def)
  note pc = graph_laws.parse_cached_inv [OF assms(1) inv(1)]
  have ok: "index_ok ?S topic_of ?d (gd_by_topic ?d)" using pc(1) by (simp add: data_inv_def)
  have ents: "(\<lambda>a. the (arc_value ?d a)) ` set (filter (upgrades ?d) (weaks_at ?S (gd_by_topic ?d) n)) =
      {e. topic_of e = Some n \<and> (\<exists>ke. tokens (g_data g) ke = Some e)}" for n
    using graph_laws.index_exact(1) [OF assms(1) pc(1) pc(3) [OF inv(2)] pc(5) ok, of n, THEN arg_cong [of _ _ set_mset]]
      graph_laws.index_exact(2) [OF assms(1) pc(1) pc(3) [OF inv(2)] pc(5) ok, of n]
    by (simp add: pc(2) set_matching)
  let ?ks = "order_names E (Mapping.keys (gd_by_topic ?d))"
  have ks: "distinct ?ks" "set ?ks = Mapping.keys (gd_by_topic ?d)"
    using graph_laws.orders(2) [OF assms(1)] index_okD(5) [OF ok] by simp_all
  let ?type = "\<lambda>n. topic_type (map (\<lambda>a. the (arc_value ?d a)) (filter (upgrades ?d) (weaks_at ?S (gd_by_topic ?d) n)))"
  let ?rows = "List.map_filter (\<lambda>n. map_option (Pair n) (?type n)) ?ks"
  have res: "fst (get_topic_names_and_types E g) = Ok ?rows"
    using sweep_rows [OF graph_laws.orders(2) [OF assms(1)] index_okD(5) [OF ok], of ?S "upgrades ?d"]
    by (simp add: get_topic_names_and_types_def Let_def split_beta typed_names_def List.map_filter_def
        filter_map comp_def)
  have "distinct (map fst ?rows)"
  proof -
    have "map fst ?rows = filter (\<lambda>n. ?type n \<noteq> None) ?ks"
      by (simp add: List.map_filter_def comp_def) (rule map_idI, auto)
    then show ?thesis using ks(1) by simp
  qed
  moreover have "\<exists>ke e. tokens (g_data g) ke = Some e \<and> topic_of e = Some n \<and> given_type e = Some t"
    if "(n, t) \<in> set ?rows" for n t
  proof -
    from that have "?type n = Some t" by (auto simp: set_map_filter)
    from topic_type_iff(2) [OF this] show ?thesis unfolding set_map ents by blast
  qed
  moreover have "n \<in> fst ` set ?rows"
    if "tokens (g_data g) ke = Some e" "topic_of e = Some n" "given_type e \<noteq> None" for ke e n
  proof -
    have "e \<in> (\<lambda>a. the (arc_value ?d a)) ` set (filter (upgrades ?d) (weaks_at ?S (gd_by_topic ?d) n))"
      unfolding ents using that(1,2) by blast
    then have "?type n \<noteq> None" "weaks_at ?S (gd_by_topic ?d) n \<noteq> []"
      using that(3) by (auto simp: topic_type_iff(1) simp del: not_None_eq)
    moreover from this(2) have "n \<in> set ?ks"
      unfolding ks(2) by (simp add: keys_dom_lookup dom_def weaks_at_def split: option.splits)
    ultimately show ?thesis by (force simp: set_map_filter)
  qed
  ultimately show ?thesis using res by blast
qed

theorem graph_lists_topics_witness:
  "\<exists>rows. fst (get_topic_names_and_types sample_env
      (fold (graph_step sample_env) [AddLocal (Endpoint talker)] sample_graph)) = Ok rows \<and> ''/chatter'' \<in> fst ` set rows"
proof -
  let ?p = "fmt_parse_liveliness sample_zenoh RmwZenoh"
  obtain ke where ke: "entity_to_liveliness_ke (env_zenoh sample_env) (Endpoint talker) = Ok ke"
    using talker_token by blast
  have "g_data sample_graph = new_with_parser ?p" by (simp add: sample_graph_def)
  from sg.graph_run_new [OF this, where R = UNIV and sts = "[AddLocal (Endpoint talker)]"]
  have run: "graph_inv sample_env UNIV ?p (fold (graph_step sample_env) [AddLocal (Endpoint talker)] sample_graph)"
    "tokens (g_data (fold (graph_step sample_env) [AddLocal (Endpoint talker)] sample_graph)) = [ke \<mapsto> Endpoint talker]"
    by (simp_all add: step_ok_def spec_step_def ke)
  have "topic_of (Endpoint talker) = Some ''/chatter''" "given_type (Endpoint talker) \<noteq> None"
    by (simp_all add: topic_of_def given_type_def talker_def is_pubsub_kind_def)
  moreover obtain rows where rows: "fst (get_topic_names_and_types sample_env
      (fold (graph_step sample_env) [AddLocal (Endpoint talker)] sample_graph)) = Ok rows"
    "\<And>k e n. [ke \<mapsto> Endpoint talker] k = Some e \<Longrightarrow> topic_of e = Some n \<Longrightarrow> given_type e \<noteq> None \<Longrightarrow>
       n \<in> fst ` set rows"
    using graph_lists_topics [OF sg.graph_laws_axioms run(1), unfolded run(2)] by blast
  ultimately have "''/chatter'' \<in> fst ` set rows" by (intro rows(2) [of ke "Endpoint talker"]) simp_all
  with rows(1) show ?thesis by blast
qed


end
