(* ===== verification/RosZ_Text.thy ===== *)
theory RosZ_Text
  imports RosZ_Strings
begin

text \<open>
  The functions of the Rust standard library that the definition parser uses on text: white space,
  trimming, lines, substrings, the parsing of \<^verbatim>\<open>i64\<close> and \<^verbatim>\<open>f64\<close>, and the parts
  of a file path.  A string is the list of its UTF-8 bytes as characters, so a white-space
  character outside ASCII is two or three of them.  Nothing here models a file of the repository.
\<close>

section \<open>White space\<close>

text \<open>
  \<open>ws_len s\<close> is the number of bytes of the character at the start of \<open>s\<close> if that is white space
  (the Unicode property, as \<^verbatim>\<open>char::is_whitespace\<close>) and 0 otherwise.
\<close>

definition ws3 :: "nat \<Rightarrow> nat \<Rightarrow> nat \<Rightarrow> bool" where
  "ws3 x y z \<longleftrightarrow> (x = 0xE1 \<and> y = 0x9A \<and> z = 0x80) \<or>
     (x = 0xE2 \<and> y = 0x80 \<and> (0x80 \<le> z \<and> z \<le> 0x8A \<or> z = 0xA8 \<or> z = 0xA9 \<or> z = 0xAF)) \<or>
     (x = 0xE2 \<and> y = 0x81 \<and> z = 0x9F) \<or> (x = 0xE3 \<and> y = 0x80 \<and> z = 0x80)"

definition ascii_ws :: "char \<Rightarrow> bool" where
  "ascii_ws c \<longleftrightarrow> (of_char c :: nat) = 32 \<or> (9 \<le> (of_char c :: nat) \<and> (of_char c :: nat) \<le> 13)"

fun ws_len :: "string \<Rightarrow> nat" where
  "ws_len [] = 0"
| "ws_len (a # s) =
     (if ascii_ws a then 1
      else if (of_char a :: nat) = 0xC2 then
        (case s of [] \<Rightarrow> 0 | b # _ \<Rightarrow> if (of_char b :: nat) = 0x85 \<or> (of_char b :: nat) = 0xA0 then 2 else 0)
      else (case s of b # c # _ \<Rightarrow> if ws3 (of_char a) (of_char b) (of_char c) then 3 else 0 | _ \<Rightarrow> 0))"

lemma ws_len_le: "ws_len s \<le> length s"
  by (cases s) (auto split: list.splits)

function trim_start :: "string \<Rightarrow> string" where
  "trim_start s = (if ws_len s = 0 then s else trim_start (drop (ws_len s) s))"
  by auto
termination
proof (relation "measure length")
  fix s :: string
  assume "ws_len s \<noteq> 0"
  then show "(drop (ws_len s) s, s) \<in> measure length"
    using ws_len_le [of s] by (cases s) auto
qed simp

declare trim_start.simps [simp del]

text \<open>The number of bytes of the white-space character at the end of \<open>s\<close>.\<close>

definition ws_end :: "string \<Rightarrow> nat" where
  "ws_end s =
     (case List.find (\<lambda>k. k \<le> length s \<and> ws_len (drop (length s - k) s) = k) [1, 2, 3] of
        None \<Rightarrow> 0 | Some k \<Rightarrow> k)"

lemma ws_end_le: "ws_end s \<le> length s"
  by (auto simp: ws_end_def)

function trim_end :: "string \<Rightarrow> string" where
  "trim_end s = (if ws_end s = 0 then s else trim_end (take (length s - ws_end s) s))"
  by auto
termination
proof (relation "measure length")
  fix s :: string
  assume "ws_end s \<noteq> 0"
  then show "(take (length s - ws_end s) s, s) \<in> measure length"
    using ws_end_le [of s] by auto
qed simp

declare trim_end.simps [simp del]

definition trim :: "string \<Rightarrow> string" where
  "trim s = trim_end (trim_start s)"

text \<open>\<open>split_ws cur s\<close>: the words of \<open>s\<close>, the first one continuing \<open>rev cur\<close>.\<close>

function split_ws :: "string \<Rightarrow> string \<Rightarrow> string list" where
  "split_ws cur [] = (if cur = [] then [] else [rev cur])"
| "split_ws cur (c # s) =
     (if ws_len (c # s) = 0 then split_ws (c # cur) s
      else (if cur = [] then [] else [rev cur]) @ split_ws [] (drop (ws_len (c # s)) (c # s)))"
  by pat_completeness auto
termination
proof (relation "measure (length \<circ> snd)")
  fix cur :: string and c s
  assume "ws_len (c # s) \<noteq> 0"
  then show "(([], drop (ws_len (c # s)) (c # s)), cur, c # s) \<in> measure (length \<circ> snd)"
    using ws_len_le [of "c # s"] by auto
qed simp_all

definition split_whitespace :: "string \<Rightarrow> string list" where
  "split_whitespace s = split_ws [] s"

subsection \<open>Words\<close>

text \<open>A string of ASCII characters without white space, the form of every token of a definition.\<close>

definition ascii_solid :: "char \<Rightarrow> bool" where
  "ascii_solid c \<longleftrightarrow> 33 \<le> (of_char c :: nat) \<and> (of_char c :: nat) < 127"

definition solid :: "string \<Rightarrow> bool" where
  "solid s \<longleftrightarrow> list_all ascii_solid s"

lemma solid_simps [simp]:
  "solid []" "solid (c # s) \<longleftrightarrow> ascii_solid c \<and> solid s" "solid (s @ t) \<longleftrightarrow> solid s \<and> solid t"
  by (simp_all add: solid_def)

lemma ws_len_solid [simp]: "ascii_solid c \<Longrightarrow> ws_len (c # s) = 0"
  by (auto simp: ascii_solid_def ascii_ws_def ws3_def split: list.splits)

lemma ws_len_space [simp]: "ws_len (CHR '' '' # s) = 1"
  by (simp add: ascii_ws_def)

declare ws_len.simps(2) [simp del]

lemma split_ws_solid: "solid w \<Longrightarrow> split_ws cur (w @ s) = split_ws (rev w @ cur) s"
  by (induction w arbitrary: cur) auto

lemma split_ws_end: "solid w \<Longrightarrow> w \<noteq> [] \<Longrightarrow> split_ws [] w = [w]"
  using split_ws_solid [of w "[]" "[]"] by simp

lemma split_ws_space: "split_ws cur (CHR '' '' # s) = (if cur = [] then [] else [rev cur]) @ split_ws [] s"
  by (subst split_ws.simps(2)) simp

text \<open>Splitting words that are joined by single spaces.\<close>

lemma split_whitespace_words:
  "ws \<noteq> [] \<Longrightarrow> list_all (\<lambda>w. solid w \<and> w \<noteq> []) ws \<Longrightarrow>
   split_whitespace (join_with CHR '' '' ws) = ws"
proof (induction "CHR '' ''" ws rule: join_with.induct)
  case (3 p q ps)
  then have p: "solid p" "p \<noteq> []" and IH: "split_ws [] (join_with CHR '' '' (q # ps)) = q # ps"
    by (auto simp: split_whitespace_def)
  have "split_ws [] (p @ CHR '' '' # join_with CHR '' '' (q # ps)) =
      p # split_ws [] (join_with CHR '' '' (q # ps))"
    using p by (simp add: split_ws_solid split_ws_space del: split_ws.simps)
  then show ?case by (simp add: IH split_whitespace_def)
qed (simp_all add: split_whitespace_def split_ws_end)

lemma ws_len_last:
  assumes "ws_len d = length d" and "d \<noteq> []"
  shows "\<not> ascii_solid (last d)"
proof -
  consider a where "d = [a]" | a b where "d = [a, b]" | a b c r where "d = a # b # c # r"
    using assms(2) by (metis list.exhaust)
  then show ?thesis
    using assms(1)
    by cases (auto simp: ws_len.simps(2) ascii_solid_def ascii_ws_def ws3_def split: if_splits)
qed

lemma ws_end_solid:
  assumes "ascii_solid c"
  shows "ws_end (s @ [c]) = 0"
proof -
  have "ws_len (drop (Suc (length s) - k) (s @ [c])) \<noteq> k" if "0 < k" "k \<le> Suc (length s)" for k
    using ws_len_last [of "drop (Suc (length s) - k) (s @ [c])"] assms that by auto
  from this [of 1] this [of 2] this [of 3] show ?thesis
    by (auto simp: ws_end_def)
qed

lemma trim_solid:
  assumes "ascii_solid a" and "ascii_solid c"
  shows "trim (a # s @ [c]) = a # s @ [c]"
proof -
  have "trim_start (a # s @ [c]) = a # s @ [c]"
    using assms(1) by (subst trim_start.simps) simp
  then show ?thesis
    using ws_end_solid [OF assms(2), of "a # s"] by (simp add: trim_def trim_end.simps)
qed

lemma trim_solid_single: "ascii_solid a \<Longrightarrow> trim [a] = [a]"
  using ws_end_solid [of a "[]"]
  by (simp add: trim_def trim_end.simps trim_start.simps)

text \<open>A string that starts and ends with solid characters is not changed.\<close>

lemma trim_id:
  assumes "s \<noteq> []" and "ascii_solid (hd s)" and "ascii_solid (last s)"
  shows "trim s = s"
proof (cases "tl s = []")
  case True
  then show ?thesis using assms trim_solid_single by (cases s) auto
next
  case False
  then have "s = hd s # butlast (tl s) @ [last s]"
    using assms(1) by (metis append_butlast_last_id last_tl list.exhaust_sel)
  then show ?thesis using trim_solid assms by metis
qed

lemma trim_Nil [simp]: "trim [] = []"
  by (simp add: trim_def trim_start.simps trim_end.simps ws_end_def)

section \<open>Substrings and lines\<close>

fun find_sub :: "string \<Rightarrow> string \<Rightarrow> nat option" where
  "find_sub pat [] = (if pat = [] then Some 0 else None)"
| "find_sub pat (c # cs) =
     (if take (length pat) (c # cs) = pat then Some 0 else map_option Suc (find_sub pat cs))"

definition contains_sub :: "string \<Rightarrow> string \<Rightarrow> bool" where
  "contains_sub pat s \<longleftrightarrow> find_sub pat s \<noteq> None"

text \<open>\<^verbatim>\<open>str::split\<close> with a string pattern, which is not empty.\<close>

function split_str :: "string \<Rightarrow> string \<Rightarrow> string list" where
  "split_str pat s =
     (case find_sub pat s of
        None \<Rightarrow> [s]
      | Some i \<Rightarrow> if pat = [] then [s] else take i s # split_str pat (drop (i + length pat) s))"
  by auto

lemma find_sub_Some: "find_sub pat s = Some i \<Longrightarrow> take (length pat) (drop i s) = pat \<and> i + length pat \<le> length s"
proof (induction s arbitrary: i)
  case (Cons c s)
  show ?case
  proof (cases "take (length pat) (c # s) = pat")
    case True
    then show ?thesis
      using Cons.prems by (auto dest!: arg_cong [where f = length])
  next
    case False
    then show ?thesis using Cons by auto
  qed
qed (auto split: if_splits)

termination split_str
proof (relation "measure (length \<circ> snd)")
  fix pat s :: string and i
  assume "find_sub pat s = Some i" and "pat \<noteq> []"
  then show "((pat, drop (i + length pat) s), pat, s) \<in> measure (length \<circ> snd)"
    using find_sub_Some [of pat s i] by (cases pat) auto
qed simp

declare split_str.simps [simp del]

lemma find_sub_char: "find_sub [c] s = position ((=) c) s"
  by (induction s) auto

lemma find_sub_free: "c \<notin> set s \<Longrightarrow> find_sub (c # cs) s = None"
  by (induction s) auto

lemma find_sub_skip:
  "c \<notin> set s \<Longrightarrow> find_sub (c # cs) (s @ t) = map_option ((+) (length s)) (find_sub (c # cs) t)"
proof (induction s)
  case Nil
  show ?case by (cases "find_sub (c # cs) t") auto
next
  case (Cons a s)
  then show ?case by (cases "find_sub (c # cs) t") auto
qed

lemma find_sub_here: "find_sub pat (pat @ s) = Some 0"
proof (cases "pat @ s")
  case (Cons a r)
  then have "take (length pat) (a # r) = pat" by (metis append_eq_conv_conj)
  then show ?thesis by (simp add: Cons)
qed simp

text \<open>\<^verbatim>\<open>str::splitn(2, c)\<close>.\<close>

definition splitn2 :: "char \<Rightarrow> string \<Rightarrow> string list" where
  "splitn2 c s = (case dropWhile ((\<noteq>) c) s of [] \<Rightarrow> [s] | _ # r \<Rightarrow> [takeWhile ((\<noteq>) c) s, r])"

lemma splitn2_append: "c \<notin> set p \<Longrightarrow> splitn2 c (p @ c # r) = [p, r]"
proof -
  assume "c \<notin> set p"
  then have "dropWhile ((\<noteq>) c) (p @ c # r) = c # r" "takeWhile ((\<noteq>) c) (p @ c # r) = p"
    by (induction p) auto
  then show ?thesis by (simp add: splitn2_def)
qed

text \<open>\<^verbatim>\<open>str::lines\<close>: a line ends with a newline, which a carriage return may precede.\<close>

definition strip_cr :: "string \<Rightarrow> string" where
  "strip_cr l = (if l \<noteq> [] \<and> last l = CHR 0x0D then butlast l else l)"

definition str_lines :: "string \<Rightarrow> string list" where
  "str_lines s =
     (let ps = split_on CHR 0x0A s
      in map strip_cr (butlast ps) @ (if last ps = [] then [] else [last ps]))"

lemma str_lines_join:
  assumes "ls \<noteq> []" and "list_all (\<lambda>l. CHR 0x0A \<notin> set l \<and> (l = [] \<or> last l \<noteq> CHR 0x0D)) ls"
    and "last ls \<noteq> []"
  shows "str_lines (join_with CHR 0x0A ls) = ls"
proof -
  have "list_all (\<lambda>p. CHR 0x0A \<notin> set p) ls"
    using assms(2) by (auto simp: list_all_iff)
  then have ps: "split_on CHR 0x0A (join_with CHR 0x0A ls) = ls"
    using assms(1) by (simp add: split_join)
  have "map strip_cr (butlast ls) = butlast ls"
    using assms(2) by (intro map_idI) (auto simp: strip_cr_def list_all_iff dest: in_set_butlastD)
  then show ?thesis
    using assms by (simp add: str_lines_def ps Let_def)
qed

section \<open>Numbers\<close>

text \<open>\<^verbatim>\<open>str::parse::<i64>\<close>.\<close>

definition parse_i64 :: "string \<Rightarrow> 64 word option" where
  "parse_i64 s =
     (let (neg, ds) = (case s of
          [] \<Rightarrow> (False, [])
        | c # cs \<Rightarrow> if c = CHR ''-'' then (True, cs) else if c = CHR ''+'' then (False, cs) else (False, s))
      in if ds = [] then None
         else case parse_digits 0 ds of
             None \<Rightarrow> None
           | Some n \<Rightarrow> if neg then (if n \<le> 2 ^ 63 then Some (- of_nat n) else None)
                       else (if n < 2 ^ 63 then Some (of_nat n) else None))"

definition show_i64 :: "64 word \<Rightarrow> string" where
  "show_i64 w = (if sint w < 0 then CHR ''-'' # show_nat (nat (- sint w)) else show_nat (nat (sint w)))"

text \<open>
  \<^verbatim>\<open>str::parse::<f64>\<close>: the grammar of the standard library, and the double nearest to the
  decimal number, ties to even.  \<open>round_f64 num den\<close> gives the bits of the double nearest to
  \<open>num / den\<close>, both positive: \<open>q\<close> is the binary exponent of the quotient, not below that of the
  subnormal numbers, and the significand is rounded to 53 bits.
\<close>

fun bit_len :: "nat \<Rightarrow> nat" where
  "bit_len n = (if n = 0 then 0 else Suc (bit_len (n div 2)))"

declare bit_len.simps [simp del]

definition ratio_scale :: "nat \<Rightarrow> nat \<Rightarrow> int \<Rightarrow> nat \<times> nat" where
  "ratio_scale num den k = (if 0 \<le> k then (num * 2 ^ nat k, den) else (num, den * 2 ^ nat (- k)))"

definition round_half_even :: "nat \<Rightarrow> nat \<Rightarrow> nat" where
  "round_half_even n d =
     (let m = n div d; r = n mod d
      in if d < 2 * r \<or> (d = 2 * r \<and> odd m) then m + 1 else m)"

definition round_f64 :: "nat \<Rightarrow> nat \<Rightarrow> 64 word" where
  "round_f64 num den =
     (let e0 = int (bit_len num) - int (bit_len den);
          e = (case ratio_scale num den (- e0) of (n, d) \<Rightarrow> if d \<le> n then e0 else e0 - 1);
          q = max e (- 1022);
          m = (case ratio_scale num den (52 - q) of (n, d) \<Rightarrow> round_half_even n d)
      in of_nat (min (nat (q + 1022) * 2 ^ 52 + m) 0x7FF0000000000000))"

definition is_digit :: "char \<Rightarrow> bool" where
  "is_digit c \<longleftrightarrow> digit_value c \<noteq> None"

definition to_lower :: "char \<Rightarrow> char" where
  "to_lower c = (if 65 \<le> (of_char c :: nat) \<and> (of_char c :: nat) \<le> 90 then char_of ((of_char c :: nat) + 32) else c)"

definition parse_exponent :: "string \<Rightarrow> int option" where
  "parse_exponent s =
     (case s of
        [] \<Rightarrow> Some 0
      | c # cs \<Rightarrow> if c = CHR ''e'' \<or> c = CHR ''E'' then
            (let (neg, ds) = (case cs of
                 [] \<Rightarrow> (False, [])
               | d # r \<Rightarrow> if d = CHR ''-'' then (True, r) else if d = CHR ''+'' then (False, r) else (False, cs))
             in if ds = [] then None
                else map_option (\<lambda>n. if neg then - int n else int n) (parse_digits 0 ds))
          else None)"

definition parse_decimal :: "string \<Rightarrow> 64 word option" where
  "parse_decimal s =
     (let ip = takeWhile is_digit s;
          r = dropWhile is_digit s;
          (fp, r') = (case r of
              [] \<Rightarrow> ([], [])
            | c # cs \<Rightarrow> if c = CHR ''.'' then (takeWhile is_digit cs, dropWhile is_digit cs) else ([], r))
      in if ip @ fp = [] then None
         else case (parse_digits 0 (ip @ fp), parse_exponent r') of
             (Some m, Some e) \<Rightarrow>
               (let k = e - int (length fp)
                in Some (if m = 0 then 0
                         else if 0 \<le> k then round_f64 (m * 10 ^ nat k) 1
                         else round_f64 m (10 ^ nat (- k))))
           | _ \<Rightarrow> None)"

definition parse_f64 :: "string \<Rightarrow> 64 word option" where
  "parse_f64 s =
     (let (neg, r) = (case s of
          [] \<Rightarrow> (False, [])
        | c # cs \<Rightarrow> if c = CHR ''-'' then (True, cs) else if c = CHR ''+'' then (False, cs) else (False, s));
          l = map to_lower r;
          v = (if l = ''inf'' \<or> l = ''infinity'' then Some 0x7FF0000000000000
               else if l = ''nan'' then Some 0x7FF8000000000000
               else parse_decimal r)
      in map_option (\<lambda>b. if neg then b + 0x8000000000000000 else b) v)"

section \<open>Paths\<close>

text \<open>
  The parts of a Unix path: empty parts and \<^verbatim>\<open>.\<close> are skipped, except at the start.
\<close>

fun drop_trailing_dots :: "string list \<Rightarrow> string list" where
  "drop_trailing_dots ps =
     (if 1 < length ps \<and> (last ps = [] \<or> last ps = ''.'') then drop_trailing_dots (butlast ps) else ps)"

declare drop_trailing_dots.simps [simp del]

definition file_name :: "string \<Rightarrow> string option" where
  "file_name p =
     (let l = last (drop_trailing_dots (split_on CHR ''/'' p))
      in if l = [] \<or> l = ''.'' \<or> l = ''..'' then None else Some l)"

text \<open>A leading dot does not start an extension.\<close>

definition file_stem :: "string \<Rightarrow> string option" where
  "file_stem p = map_option (\<lambda>n.
     let stem = rev (tl (dropWhile ((\<noteq>) CHR ''.'') (rev n)))
     in if CHR ''.'' \<notin> set n \<or> stem = [] then n else stem) (file_name p)"

definition with_file_name :: "string \<Rightarrow> string \<Rightarrow> string" where
  "with_file_name p n =
     (let ps = drop_trailing_dots (split_on CHR ''/'' p)
      in join_with CHR ''/'' (drop_trailing_dots (butlast ps) @ [n]))"

definition to_str :: "string \<Rightarrow> string option" where
  "to_str s = (if is_str (map of_char s) then Some s else None)"

end
