(* ===== verification/Msg_Parser.thy ===== *)
theory Msg_Parser
  imports Msg_Types RosZ_Text
begin

text \<open>
  \<^verbatim>\<open>ros-z-codegen/src/parser\<close>: the parser of \<^verbatim>\<open>.msg\<close>, \<^verbatim>\<open>.srv\<close> and \<^verbatim>\<open>.action\<close> files.
  Reading a file is a parameter, a map from paths to the contents that can be read.  An error keeps
  the arguments of its message; the panics of string slices are \<open>Panic\<close>.
\<close>

section \<open>mod.rs\<close>

datatype parse_error =
    InvalidConstantFormat nat
  | InvalidConstantDeclaration nat
  | InvalidFieldFormat nat string
  | InvalidStringBound string
  | InvalidArraySyntax string
  | InvalidBoundedSize string
  | InvalidFixedSize string
  | EmptyArrayDefault string
  | InvalidArrayDefault string
  | InvalidDefault string
  | InvalidFilename
  | NonUtf8Filename
  | FailedToRead string
  | DelimiterCount nat
  | SectionCount nat

definition strip_comment :: "string \<Rightarrow> string" where
  "strip_comment line = hd (split_on CHR ''#'' line)"

definition parse_constant :: "string \<Rightarrow> nat \<Rightarrow> (Constant, parse_error) result" where
  "parse_constant line line_num =
     (let parts = splitn2 CHR ''='' line
      in if length parts \<noteq> 2 then Err (InvalidConstantFormat line_num)
         else let type_and_name = split_whitespace (parts ! 0)
              in if type_and_name = [] \<or> 2 < length type_and_name
                 then Err (InvalidConstantDeclaration line_num)
                 else let (const_type, name) =
                          (if length type_and_name = 2 then (type_and_name ! 0, type_and_name ! 1)
                           else (type_and_name ! 0, []))
                      in Ok \<lparr>con_name = name, con_type = const_type, con_value = trim (parts ! 1)\<rparr>)"

text \<open>The suffix of an array type, and the package and name of the element type.\<close>

definition parse_array_suffix :: "string \<Rightarrow> (string \<times> ArrayType, parse_error) result" where
  "parse_array_suffix type_str =
     (case find_sub ''['' type_str of
        None \<Rightarrow> Ok (type_str, Single)
      | Some idx \<Rightarrow>
          if \<not> ends_with '']'' type_str then Err (InvalidArraySyntax type_str)
          else let base = take idx type_str;
                   array_str = take (length type_str - 1 - (idx + 1)) (drop (idx + 1) type_str)
               in if array_str = [] then Ok (base, Unbounded)
                  else case strip_prefix ''<='' array_str of
                      Some stripped \<Rightarrow>
                        map_ok (\<lambda>n. (base, Bounded n))
                          (ok_or (InvalidBoundedSize type_str) (parse_uint 64 stripped))
                    | None \<Rightarrow>
                        map_ok (\<lambda>n. (base, Fixed n))
                          (ok_or (InvalidFixedSize type_str) (parse_uint 64 array_str)))"

definition parse_type_name :: "string \<Rightarrow> string option \<times> string" where
  "parse_type_name base_str =
     (case find_sub ''/'' base_str of
        Some idx \<Rightarrow> (Some (take idx base_str), drop (idx + 1) base_str)
      | None \<Rightarrow> if base_str = ''Header'' then (Some ''std_msgs'', ''Header'') else (None, base_str))"

definition parse_field_type :: "string \<Rightarrow> string \<Rightarrow> (ParsedFieldType, parse_error) result" where
  "parse_field_type type_str source_package =
     (case (find_sub ''<='' type_str, CHR ''['' \<in> set type_str) of
        (Some idx, False) \<Rightarrow>
          map_ok (\<lambda>bound. \<lparr>pft_base_type = take idx type_str, pft_package = None, pft_array = Single,
              pft_string_bound = Some bound\<rparr>)
            (ok_or (InvalidStringBound type_str) (parse_uint 64 (drop (idx + 2) type_str)))
      | _ \<Rightarrow>
          map_ok (\<lambda>(base_str, array). let (package, base_type) = parse_type_name base_str
              in \<lparr>pft_base_type = base_type, pft_package = package, pft_array = array,
                  pft_string_bound = None\<rparr>)
            (parse_array_suffix type_str))"

subsection \<open>Default values\<close>

definition in_quotes :: "string \<Rightarrow> bool" where
  "in_quotes s \<longleftrightarrow> (starts_with [CHR 0x22] s \<and> ends_with [CHR 0x22] s) \<or>
     (starts_with [CHR 0x27] s \<and> ends_with [CHR 0x27] s)"

text \<open>The slice from 1 to one before the end, which panics on a string of one byte.\<close>

definition unquote :: "string \<Rightarrow> (string, 'e) result" where
  "unquote s = (if 2 \<le> length s then Ok (take (length s - 2) (drop 1 s)) else Panic)"

definition parse_bool :: "string \<Rightarrow> bool option" where
  "parse_bool s = (if s = ''true'' \<or> s = ''True'' then Some True
     else if s = ''false'' \<or> s = ''False'' then Some False else None)"

text \<open>The loops over the elements stop at the first element that does not have the wanted form.\<close>

fun parse_all :: "(string \<Rightarrow> 'a option) \<Rightarrow> string list \<Rightarrow> 'a list option" where
  "parse_all p [] = Some []"
| "parse_all p (e # es) =
     (case p e of None \<Rightarrow> None | Some x \<Rightarrow> map_option ((#) x) (parse_all p es))"

fun parse_strings :: "string list \<Rightarrow> (string list option, 'e) result" where
  "parse_strings [] = Ok (Some [])"
| "parse_strings (e # es) =
     (if in_quotes e
      then bind_result (unquote e) (\<lambda>x. map_ok (map_option ((#) x)) (parse_strings es))
      else Ok None)"

definition parse_array_default :: "string \<Rightarrow> (DefaultValue, parse_error) result" where
  "parse_array_default s =
     (let inner = take (length s - 2) (drop 1 s)
      in if inner = [] then Err (EmptyArrayDefault s)
         else let elements = map trim (split_on CHR '','' inner)
              in if elements = [] then Err (EmptyArrayDefault s)
                 else case parse_all parse_bool elements of
                     Some bools \<Rightarrow> Ok (Default_BoolArray bools)
                   | None \<Rightarrow>
                       case parse_all parse_i64 elements of
                         Some ints \<Rightarrow> Ok (Default_IntArray ints)
                       | None \<Rightarrow>
                           case parse_all parse_f64 elements of
                             Some floats \<Rightarrow> Ok (Default_FloatArray floats)
                           | None \<Rightarrow>
                               bind_result (parse_strings elements) (\<lambda>r. case r of
                                 Some strings \<Rightarrow> Ok (Default_StringArray strings)
                               | None \<Rightarrow> Err (InvalidArrayDefault s)))"

definition parse_default_value :: "string \<Rightarrow> (DefaultValue, parse_error) result" where
  "parse_default_value s =
     (if starts_with ''['' s \<and> ends_with '']'' s then parse_array_default s
      else case parse_bool s of
          Some b \<Rightarrow> Ok (Default_Bool b)
        | None \<Rightarrow>
            if in_quotes s then map_ok Default_String (unquote s)
            else case parse_i64 s of
                Some i \<Rightarrow> Ok (Default_Int i)
              | None \<Rightarrow>
                  case parse_f64 s of
                    Some f \<Rightarrow> Ok (Default_Float f)
                  | None \<Rightarrow> Err (InvalidDefault s))"

definition parse_field :: "string \<Rightarrow> string \<Rightarrow> nat \<Rightarrow> (ParsedField, parse_error) result" where
  "parse_field line source_package line_num =
     (let parts = split_whitespace line
      in if length parts < 2 then Err (InvalidFieldFormat line_num line)
         else bind_result (parse_field_type (parts ! 0) source_package) (\<lambda>field_type.
              bind_result
                (if 2 < length parts
                 then map_ok Some (parse_default_value (join_with CHR '' '' (drop 2 parts)))
                 else Ok None)
                (\<lambda>default. Ok \<lparr>pf_name = parts ! 1, pf_field_type = field_type, pf_default = default\<rparr>)))"

section \<open>msg.rs\<close>

definition is_constant :: "string \<Rightarrow> bool" where
  "is_constant line \<longleftrightarrow>
     (case find_sub ''='' line of
        None \<Rightarrow> False
      | Some eq_pos \<Rightarrow>
          if 0 < eq_pos \<and> line ! (eq_pos - 1) = CHR ''<'' then False
          else let before_eq = take eq_pos line
               in count_list before_eq CHR ''['' = count_list before_eq CHR '']'')"

fun parse_msg_lines ::
    "string \<Rightarrow> nat \<Rightarrow> string list \<Rightarrow> ParsedField list \<Rightarrow> Constant list \<Rightarrow>
     (ParsedField list \<times> Constant list, parse_error) result" where
  "parse_msg_lines package line_num [] flds constants = Ok (flds, constants)"
| "parse_msg_lines package line_num (l # ls) flds constants =
     (let line = trim (strip_comment l)
      in if line = [] then parse_msg_lines package (line_num + 1) ls flds constants
         else if is_constant line then
           (case parse_constant line line_num of
              Ok c \<Rightarrow> if con_name c \<noteq> []
                then parse_msg_lines package (line_num + 1) ls flds (constants @ [c])
                else parse_msg_lines package (line_num + 1) ls flds constants
            | Err _ \<Rightarrow> parse_msg_lines package (line_num + 1) ls flds constants
            | Panic \<Rightarrow> Panic)
         else bind_result (parse_field line package line_num) (\<lambda>f.
           parse_msg_lines package (line_num + 1) ls (flds @ [f]) constants))"

definition file_stem_str :: "string \<Rightarrow> (string, parse_error) result" where
  "file_stem_str path =
     bind_result (ok_or InvalidFilename (file_stem path)) (\<lambda>s. ok_or NonUtf8Filename (to_str s))"

definition parse_msg_string :: "string \<Rightarrow> string \<Rightarrow> string \<Rightarrow> (ParsedMessage, parse_error) result" where
  "parse_msg_string source package path =
     bind_result (file_stem_str path) (\<lambda>name.
     bind_result (parse_msg_lines package 0 (str_lines source) [] []) (\<lambda>(flds, constants).
     Ok \<lparr>pm_name = name, pm_package = package, pm_fields = flds, pm_constants = constants,
         pm_source = source, pm_path = path\<rparr>))"

definition parse_msg_file ::
    "(string \<Rightarrow> string option) \<Rightarrow> string \<Rightarrow> string \<Rightarrow> (ParsedMessage, parse_error) result" where
  "parse_msg_file read_to_string path package =
     bind_result (ok_or (FailedToRead path) (read_to_string path))
       (\<lambda>source. parse_msg_string source package path)"

section \<open>srv.rs\<close>

definition parse_srv_string :: "string \<Rightarrow> string \<Rightarrow> string \<Rightarrow> (ParsedService, parse_error) result" where
  "parse_srv_string source package path =
     bind_result (file_stem_str path) (\<lambda>name.
       let lines = str_lines source;
           delimiter_indices = filter (\<lambda>i. trim (lines ! i) = ''---'') [0..<length lines]
       in if length delimiter_indices \<noteq> 1 then Err (DelimiterCount (length delimiter_indices))
          else let delimiter_idx = delimiter_indices ! 0;
                   request_source = join_with CHR 0x0A (take delimiter_idx lines);
                   response_source = join_with CHR 0x0A (drop (delimiter_idx + 1) lines);
                   request_path = with_file_name path (name @ ''Request.msg'');
                   response_path = with_file_name path (name @ ''Response.msg'')
               in bind_result (parse_msg_string request_source package request_path) (\<lambda>request.
                  bind_result (parse_msg_string response_source package response_path) (\<lambda>response.
                  Ok \<lparr>psrv_name = name, psrv_package = package,
                      psrv_request = request\<lparr>pm_name := name @ ''Request''\<rparr>,
                      psrv_response = response\<lparr>pm_name := name @ ''Response''\<rparr>,
                      psrv_source = source, psrv_path = path\<rparr>)))"

definition parse_srv_file ::
    "(string \<Rightarrow> string option) \<Rightarrow> string \<Rightarrow> string \<Rightarrow> (ParsedService, parse_error) result" where
  "parse_srv_file read_to_string path package =
     bind_result (ok_or (FailedToRead path) (read_to_string path))
       (\<lambda>source. parse_srv_string source package path)"

section \<open>action.rs\<close>

fun parse_section_lines ::
    "string \<Rightarrow> nat \<Rightarrow> string list \<Rightarrow> ParsedField list \<Rightarrow> Constant list \<Rightarrow>
     (ParsedField list \<times> Constant list, parse_error) result" where
  "parse_section_lines package line_num [] flds constants = Ok (flds, constants)"
| "parse_section_lines package line_num (l # ls) flds constants =
     (let line = trim (strip_comment l)
      in if line = [] then parse_section_lines package (line_num + 1) ls flds constants
         else if CHR ''='' \<in> set line then
           bind_result (parse_constant line (line_num + 1)) (\<lambda>c.
             parse_section_lines package (line_num + 1) ls flds (constants @ [c]))
         else bind_result (parse_field line package (line_num + 1)) (\<lambda>f.
             parse_section_lines package (line_num + 1) ls (flds @ [f]) constants))"

definition parse_action_section ::
    "string \<Rightarrow> string \<Rightarrow> string \<Rightarrow> string \<Rightarrow> (ParsedMessage, parse_error) result" where
  "parse_action_section content name package path =
     bind_result (parse_section_lines package 0 (str_lines content) [] []) (\<lambda>(flds, constants).
     Ok \<lparr>pm_name = name, pm_package = package, pm_fields = flds, pm_constants = constants,
         pm_source = content, pm_path = path\<rparr>)"

definition parse_optional_section ::
    "string \<Rightarrow> string \<Rightarrow> string \<Rightarrow> string \<Rightarrow> (ParsedMessage option, parse_error) result" where
  "parse_optional_section content name package path =
     (if trim content = [] then Ok None
      else map_ok Some (parse_action_section content name package path))"

definition parse_action ::
    "string \<Rightarrow> string \<Rightarrow> string \<Rightarrow> string \<Rightarrow> (ParsedAction, parse_error) result" where
  "parse_action content action_name package path =
     (let sections = split_str [CHR 0x0A, CHR ''-'', CHR ''-'', CHR ''-'', CHR 0x0A] content
      in if length sections \<noteq> 3 then Err (SectionCount (length sections))
         else
           bind_result (parse_action_section (sections ! 0) (action_name @ ''Goal'') package path) (\<lambda>goal.
           bind_result (parse_optional_section (sections ! 1) (action_name @ ''Result'') package path) (\<lambda>res.
           bind_result (parse_optional_section (sections ! 2) (action_name @ ''Feedback'') package path)
             (\<lambda>feedback.
           Ok \<lparr>pact_name = action_name, pact_package = package, pact_goal = goal, pact_result = res,
               pact_feedback = feedback, pact_source = content, pact_path = path\<rparr>))))"

definition parse_action_file ::
    "(string \<Rightarrow> string option) \<Rightarrow> string \<Rightarrow> string \<Rightarrow> (ParsedAction, parse_error) result" where
  "parse_action_file read_to_string path package =
     bind_result (ok_or (FailedToRead path) (read_to_string path)) (\<lambda>content.
     bind_result (ok_or InvalidFilename (Option.bind (file_stem path) to_str)) (\<lambda>action_name.
     parse_action content action_name package path))"

end
