(* ===== verification/Msg_Roundtrip.thy ===== *)
theory Msg_Roundtrip
  imports Msg_Parser
begin

text \<open>
  The parser of message definitions inverts the printing of definitions: \<open>print_field\<close> and
  \<open>print_constant\<close> give the line of the ROS interface language for a field or a constant, and
  \<open>field_ok\<close>, \<open>constant_ok\<close> say which of them have one.  Further, when the parser panics, and where
  the sections of an action are parsed differently from a message.
\<close>

section \<open>Printing\<close>

definition ident_char :: "char \<Rightarrow> bool" where
  "ident_char c \<longleftrightarrow> (let n = of_char c :: nat in
     48 \<le> n \<and> n \<le> 57 \<or> 65 \<le> n \<and> n \<le> 90 \<or> 97 \<le> n \<and> n \<le> 122 \<or> n = 95)"

definition ident :: "string \<Rightarrow> bool" where
  "ident s \<longleftrightarrow> s \<noteq> [] \<and> list_all ident_char s"

definition print_array :: "ArrayType \<Rightarrow> string" where
  "print_array a = (case a of
       Single \<Rightarrow> []
     | Fixed n \<Rightarrow> ''['' @ show_nat n @ '']''
     | Bounded n \<Rightarrow> ''[<='' @ show_nat n @ '']''
     | Unbounded \<Rightarrow> ''[]'')"

definition print_type :: "ParsedFieldType \<Rightarrow> string" where
  "print_type t = (case pft_string_bound t of
       Some n \<Rightarrow> pft_base_type t @ ''<='' @ show_nat n
     | None \<Rightarrow> (case pft_package t of None \<Rightarrow> [] | Some p \<Rightarrow> p @ ''/'') @ pft_base_type t @
         print_array (pft_array t))"

definition array_ok :: "ArrayType \<Rightarrow> bool" where
  "array_ok a = (case a of Fixed n \<Rightarrow> n < 2 ^ 64 | Bounded n \<Rightarrow> n < 2 ^ 64 | _ \<Rightarrow> True)"

definition type_ok :: "ParsedFieldType \<Rightarrow> bool" where
  "type_ok t \<longleftrightarrow> ident (pft_base_type t) \<and> array_ok (pft_array t) \<and>
     (case pft_package t of None \<Rightarrow> True | Some p \<Rightarrow> ident p) \<and>
     (case pft_string_bound t of
        Some n \<Rightarrow> n < 2 ^ 64 \<and> pft_package t = None \<and> pft_array t = Single
      | None \<Rightarrow> pft_package t = None \<longrightarrow> pft_base_type t \<noteq> ''Header'')"

definition print_bool :: "bool \<Rightarrow> string" where
  "print_bool b = (if b then ''true'' else ''false'')"

definition print_list :: "('a \<Rightarrow> string) \<Rightarrow> 'a list \<Rightarrow> string" where
  "print_list p xs = ''['' @ join_with CHR '','' (map p xs) @ '']''"

definition print_quoted :: "string \<Rightarrow> string" where
  "print_quoted s = CHR 0x22 # s @ [CHR 0x22]"

text \<open>Default values that print as one word; floating-point numbers have no printed form here.\<close>

definition print_default :: "DefaultValue \<Rightarrow> string" where
  "print_default d = (case d of
       Default_Bool b \<Rightarrow> print_bool b
     | Default_Int i \<Rightarrow> show_i64 i
     | Default_String s \<Rightarrow> print_quoted s
     | Default_BoolArray bs \<Rightarrow> print_list print_bool bs
     | Default_IntArray is \<Rightarrow> print_list show_i64 is
     | Default_StringArray ss \<Rightarrow> print_list print_quoted ss
     | _ \<Rightarrow> [])"

definition plain :: "string \<Rightarrow> bool" where
  "plain s \<longleftrightarrow> solid s \<and> CHR ''#'' \<notin> set s \<and> CHR ''='' \<notin> set s"

definition default_ok :: "DefaultValue \<Rightarrow> bool" where
  "default_ok d = (case d of
       Default_Bool b \<Rightarrow> True
     | Default_Int i \<Rightarrow> True
     | Default_String s \<Rightarrow> plain s
     | Default_BoolArray bs \<Rightarrow> bs \<noteq> []
     | Default_IntArray is \<Rightarrow> is \<noteq> []
     | Default_StringArray ss \<Rightarrow> ss \<noteq> [] \<and> list_all (\<lambda>s. plain s \<and> CHR '','' \<notin> set s) ss
     | _ \<Rightarrow> False)"

definition field_words :: "ParsedField \<Rightarrow> string list" where
  "field_words f = [print_type (pf_field_type f), pf_name f] @
     (case pf_default f of None \<Rightarrow> [] | Some d \<Rightarrow> [print_default d])"

definition print_field :: "ParsedField \<Rightarrow> string" where
  "print_field f = join_with CHR '' '' (field_words f)"

definition field_ok :: "ParsedField \<Rightarrow> bool" where
  "field_ok f \<longleftrightarrow> type_ok (pf_field_type f) \<and> ident (pf_name f) \<and>
     (case pf_default f of None \<Rightarrow> True | Some d \<Rightarrow> default_ok d)"

definition print_constant :: "Constant \<Rightarrow> string" where
  "print_constant c = con_type c @ '' '' @ con_name c @ ''='' @ con_value c"

definition printable :: "char \<Rightarrow> bool" where
  "printable c \<longleftrightarrow> (ascii_solid c \<or> c = CHR '' '') \<and> c \<noteq> CHR ''#''"

definition constant_ok :: "Constant \<Rightarrow> bool" where
  "constant_ok c \<longleftrightarrow> ident (con_type c) \<and> ident (con_name c) \<and> con_value c \<noteq> [] \<and>
     list_all printable (con_value c) \<and> ascii_solid (hd (con_value c)) \<and> ascii_solid (last (con_value c))"

definition print_message :: "ParsedField list \<Rightarrow> Constant list \<Rightarrow> string" where
  "print_message fs cs = join_with CHR 0x0A (map print_field fs @ map print_constant cs)"

section \<open>Words\<close>

lemma ident_char_solid: "ident_char c \<Longrightarrow> ascii_solid c"
  by (auto simp: ident_char_def ascii_solid_def Let_def)

lemma ident_solid: "ident s \<Longrightarrow> solid s"
  by (auto simp: ident_def solid_def list_all_iff ident_char_solid)

lemma ident_not_in: "ident s \<Longrightarrow> \<not> ident_char c \<Longrightarrow> c \<notin> set s"
  by (auto simp: ident_def list_all_iff)

lemma ident_not_Nil: "ident s \<Longrightarrow> s \<noteq> []"
  by (simp add: ident_def)

lemma not_ident_chars [simp]:
  "\<not> ident_char CHR ''<''" "\<not> ident_char CHR ''=''" "\<not> ident_char CHR ''[''" "\<not> ident_char CHR '']''"
  "\<not> ident_char CHR ''/''" "\<not> ident_char CHR ''#''" "\<not> ident_char CHR '' ''"
  by (simp_all add: ident_char_def Let_def)

lemma ident_free [simp]:
  assumes "ident s"
  shows "CHR ''<'' \<notin> set s" "CHR ''='' \<notin> set s" "CHR ''['' \<notin> set s" "CHR '']'' \<notin> set s"
    "CHR ''/'' \<notin> set s" "CHR ''#'' \<notin> set s" "CHR '' '' \<notin> set s"
  using ident_not_in [OF assms] by simp_all

lemma digit_char_ident: "d < 10 \<Longrightarrow> ident_char (digit_char d)"
  by (auto simp: ident_char_def digit_char_def Let_def)

lemma show_nat_ident: "ident (show_nat n)"
  using show_nat_digits digit_char_ident by (auto simp: ident_def list_all_iff)

lemmas show_nat_solid [simp] = ident_solid [OF show_nat_ident]

lemma solid_chars [simp]:
  "ascii_solid CHR ''<''" "ascii_solid CHR ''=''" "ascii_solid CHR ''[''" "ascii_solid CHR '']''"
  "ascii_solid CHR ''/''" "ascii_solid CHR ''-''" "ascii_solid CHR '',''" "ascii_solid CHR 0x22"
  "ascii_solid CHR ''t''" "ascii_solid CHR ''r''" "ascii_solid CHR ''u''" "ascii_solid CHR ''e''"
  "ascii_solid CHR ''f''" "ascii_solid CHR ''a''" "ascii_solid CHR ''l''" "ascii_solid CHR ''s''"
  by (simp_all add: ascii_solid_def)

lemma solid_hd: "solid s \<Longrightarrow> s \<noteq> [] \<Longrightarrow> ascii_solid (hd s)"
  by (cases s) simp_all

lemma solid_last: "solid s \<Longrightarrow> s \<noteq> [] \<Longrightarrow> ascii_solid (last s)"
  by (auto simp: solid_def list_all_iff)

lemma trim_word: "solid s \<Longrightarrow> trim s = s"
  by (cases "s = []") (simp_all add: trim_id solid_hd solid_last)

section \<open>Types\<close>

lemma print_type_solid: "type_ok t \<Longrightarrow> solid (print_type t)"
  by (auto simp: type_ok_def print_type_def print_array_def ident_solid
      split: option.splits ArrayType.splits)

lemma print_type_not_Nil: "type_ok t \<Longrightarrow> print_type t \<noteq> []"
  by (auto simp: type_ok_def print_type_def ident_def split: option.splits)

lemma parse_string_bound:
  assumes "ident b" and "n < 2 ^ 64"
  shows "parse_field_type (b @ ''<='' @ show_nat n) pkg =
    Ok \<lparr>pft_base_type = b, pft_package = None, pft_array = Single, pft_string_bound = Some n\<rparr>"
proof -
  have "CHR ''<'' \<notin> set b" "CHR ''['' \<notin> set b" "CHR ''['' \<notin> set (show_nat n)"
    using assms(1) show_nat_ident [of n] by simp_all
  moreover from this have "find_sub ''<='' (b @ ''<='' @ show_nat n) = Some (length b)"
    using find_sub_skip [of "CHR ''<''" b "''=''"] find_sub_here [of "''<=''" "show_nat n"] by simp
  ultimately show ?thesis
    using assms(2) by (simp add: parse_field_type_def)
qed

lemma parse_array_none: "CHR ''['' \<notin> set s \<Longrightarrow> parse_array_suffix s = Ok (s, Single)"
  by (simp add: parse_array_suffix_def find_sub_free)

lemma parse_array_some:
  assumes "CHR ''['' \<notin> set b"
  shows "parse_array_suffix (b @ ''['' @ mid @ '']'') =
    (if mid = [] then Ok (b, Unbounded)
     else case strip_prefix ''<='' mid of
       Some stripped \<Rightarrow> map_ok (\<lambda>n. (b, Bounded n))
         (ok_or (InvalidBoundedSize (b @ ''['' @ mid @ '']'')) (parse_uint 64 stripped))
     | None \<Rightarrow> map_ok (\<lambda>n. (b, Fixed n))
         (ok_or (InvalidFixedSize (b @ ''['' @ mid @ '']'')) (parse_uint 64 mid)))"
proof -
  have "find_sub ''['' (b @ ''['' @ mid @ '']'') = Some (length b)"
    using assms find_sub_skip [of "CHR ''[''" b "[]"] find_sub_here [of "''[''" "mid @ '']''"] by simp
  moreover have "ends_with '']'' (b @ ''['' @ mid @ '']'')"
    unfolding ends_with_iff by (metis append.assoc)
  ultimately show ?thesis
    by (simp add: parse_array_suffix_def Let_def del: append_Cons)
qed

lemma parse_array_print:
  assumes "CHR ''['' \<notin> set b" and "array_ok a"
  shows "parse_array_suffix (b @ print_array a) = Ok (b, a)"
proof (cases a)
  case (Fixed n)
  have "show_nat n \<noteq> ''<='' @ r" for r
    using show_nat_not_in [of "CHR ''<''" n] by auto
  then have "strip_prefix ''<='' (show_nat n) = None"
    by (auto simp: strip_prefix_None)
  then show ?thesis
    using assms Fixed parse_array_some [OF assms(1), of "show_nat n"]
    by (simp add: print_array_def array_ok_def)
next
  case (Bounded n)
  have "strip_prefix ''<='' (''<='' @ show_nat n) = Some (show_nat n)"
    by (simp add: strip_prefix_Some)
  then show ?thesis
    using assms Bounded parse_array_some [OF assms(1), of "''<='' @ show_nat n"]
    by (simp add: print_array_def array_ok_def)
qed (use assms parse_array_some [OF assms(1), of "[]"] parse_array_none in
    \<open>simp_all add: print_array_def\<close>)

lemma parse_type_name_package: "CHR ''/'' \<notin> set p \<Longrightarrow> parse_type_name (p @ ''/'' @ b) = (Some p, b)"
  using find_sub_skip [of "CHR ''/''" p "[]" "''/'' @ b"] find_sub_here [of "''/''" b]
  by (simp add: parse_type_name_def)

lemma parse_type_name_plain: "CHR ''/'' \<notin> set b \<Longrightarrow> b \<noteq> ''Header'' \<Longrightarrow> parse_type_name b = (None, b)"
  by (simp add: parse_type_name_def find_sub_free)

lemma parse_field_type_array:
  assumes "a = Single \<Longrightarrow> CHR ''<'' \<notin> set b" and "CHR ''['' \<notin> set b" and "array_ok a"
  shows "parse_field_type (b @ print_array a) pkg =
    (case parse_type_name b of (package, base_type) \<Rightarrow>
       Ok \<lparr>pft_base_type = base_type, pft_package = package, pft_array = a, pft_string_bound = None\<rparr>)"
proof -
  have "find_sub ''<='' (b @ print_array a) = None \<or> CHR ''['' \<in> set (b @ print_array a)"
  proof (cases a)
    case Single
    then show ?thesis using assms(1) [OF Single] find_sub_free [of "CHR ''<''" b "''=''"] by (simp add: print_array_def)
  qed (simp_all add: print_array_def)
  then have "parse_field_type (b @ print_array a) pkg =
      map_ok (\<lambda>(base_str, array). let (package, base_type) = parse_type_name base_str
              in \<lparr>pft_base_type = base_type, pft_package = package, pft_array = array,
                  pft_string_bound = None\<rparr>) (parse_array_suffix (b @ print_array a))"
    unfolding parse_field_type_def
    by (cases "find_sub ''<='' (b @ print_array a)"; cases "CHR ''['' \<in> set (b @ print_array a)")
      (simp_all only: prod.case option.case bool.case simp_thms option.distinct)
  then show ?thesis
    using parse_array_print [OF assms(2,3)] by (simp add: split_beta)
qed

lemma parse_print_type:
  assumes "type_ok t"
  shows "parse_field_type (print_type t) pkg = Ok t"
proof (cases "pft_string_bound t")
  case (Some n)
  then show ?thesis
    using assms parse_string_bound [of "pft_base_type t" n]
    by (cases t) (auto simp: type_ok_def print_type_def)
next
  case None
  let ?b = "(case pft_package t of None \<Rightarrow> [] | Some p \<Rightarrow> p @ ''/'') @ pft_base_type t"
  have free: "CHR ''<'' \<notin> set ?b" "CHR ''['' \<notin> set ?b"
    using assms by (auto simp: type_ok_def split: option.splits)
  have "parse_type_name ?b = (pft_package t, pft_base_type t)"
    using assms None parse_type_name_package parse_type_name_plain
    by (auto simp: type_ok_def split: option.splits)
  then show ?thesis
    using parse_field_type_array [OF free, of "pft_array t" pkg] assms None
    by (cases t) (simp add: print_type_def type_ok_def)
qed

section \<open>Default values\<close>

lemma parse_show_i64: "parse_i64 (show_i64 w) = Some w"
proof (cases "sint w < 0")
  case True
  have "- (2 ^ 63) \<le> sint w"
    using sint_ge [of w] by simp
  then have "nat (- sint w) \<le> 2 ^ 63" by simp
  moreover have "- of_nat (nat (- sint w)) = w"
    using True by (simp add: of_nat_nat)
  ultimately show ?thesis
    using True by (simp add: parse_i64_def show_i64_def parse_digits_show)
next
  case False
  have lt: "nat (sint w) < 2 ^ 63"
    using False sint_lt [of w] by simp
  obtain d ds where d: "show_nat (nat (sint w)) = d # ds"
    by (cases "show_nat (nat (sint w))") auto
  then have "d \<noteq> CHR ''-''" "d \<noteq> CHR ''+''"
    using show_nat_not_in [of "CHR ''-''" "nat (sint w)"] show_nat_not_in [of "CHR ''+''" "nat (sint w)"]
    by auto
  moreover have "of_nat (nat (sint w)) = w"
    using False by (simp add: of_nat_nat)
  ultimately show ?thesis
    using False lt parse_digits_show [of "nat (sint w)"] by (simp add: parse_i64_def show_i64_def d)
qed

lemma show_i64_chars: "c \<in> set (show_i64 w) \<Longrightarrow> ident_char c \<or> c = CHR ''-''"
  using show_nat_ident by (auto simp: show_i64_def ident_def list_all_iff split: if_splits)

lemma show_i64_solid [simp]: "solid (show_i64 w)"
  by (simp add: show_i64_def)

lemma show_i64_not_Nil [simp]: "show_i64 w \<noteq> []"
  by (simp add: show_i64_def)

lemma show_i64_not_in: "\<not> ident_char c \<Longrightarrow> c \<noteq> CHR ''-'' \<Longrightarrow> c \<notin> set (show_i64 w)"
  using show_i64_chars by blast

lemma parse_print_bool [simp]: "parse_bool (print_bool b) = Some b"
  by (simp add: parse_bool_def print_bool_def)

lemma parse_bool_hd: "s = c # r \<Longrightarrow> c \<notin> {CHR ''t'', CHR ''T'', CHR ''f'', CHR ''F''} \<Longrightarrow> parse_bool s = None"
  by (auto simp: parse_bool_def)

lemma parse_bool_i64 [simp]: "parse_bool (show_i64 w) = None"
proof -
  have "CHR ''e'' \<notin> set (show_i64 w)"
    using show_nat_not_in [of "CHR ''e''"] by (auto simp: show_i64_def)
  then show ?thesis by (auto simp: parse_bool_def)
qed

lemma print_bool_solid [simp]: "solid (print_bool b)"
  by (simp add: print_bool_def)

lemma parse_all_map: "(\<And>x. p (pr x) = Some x) \<Longrightarrow> parse_all p (map pr xs) = Some xs"
  by (induction xs) auto

lemma parse_all_hd: "xs \<noteq> [] \<Longrightarrow> p (hd xs) = None \<Longrightarrow> parse_all p xs = None"
  by (cases xs) auto

lemma join_with_not_Nil: "xs \<noteq> [] \<Longrightarrow> list_all (\<lambda>x. x \<noteq> []) xs \<Longrightarrow> join_with c xs \<noteq> []"
  by (induction c xs rule: join_with.induct) auto

lemma set_join_with: "set (join_with c xs) \<subseteq> insert c (\<Union> (set ` set xs))"
  by (induction c xs rule: join_with.induct) auto

lemma solid_join: "ascii_solid c \<Longrightarrow> list_all solid xs \<Longrightarrow> solid (join_with c xs)"
  by (induction c xs rule: join_with.induct) auto

text \<open>The elements of a printed array are recovered.\<close>

lemma print_list_elements:
  assumes "xs \<noteq> []" and "\<And>x. x \<in> set xs \<Longrightarrow> solid (pr x) \<and> pr x \<noteq> [] \<and> CHR '','' \<notin> set (pr x)"
  shows "take (length (print_list pr xs) - 2) (drop 1 (print_list pr xs)) = join_with CHR '','' (map pr xs)"
    and "join_with CHR '','' (map pr xs) \<noteq> []"
    and "map trim (split_on CHR '','' (join_with CHR '','' (map pr xs))) = map pr xs"
proof -
  show "take (length (print_list pr xs) - 2) (drop 1 (print_list pr xs)) = join_with CHR '','' (map pr xs)"
    by (simp add: print_list_def)
  show "join_with CHR '','' (map pr xs) \<noteq> []"
    using assms by (intro join_with_not_Nil) (auto simp: list_all_iff)
  have "split_on CHR '','' (join_with CHR '','' (map pr xs)) = map pr xs"
    using assms by (intro split_join) (auto simp: list_all_iff)
  then show "map trim (split_on CHR '','' (join_with CHR '','' (map pr xs))) = map pr xs"
    using assms(2) by (simp add: trim_word)
qed

lemma print_list_brackets: "starts_with ''['' (print_list pr xs)" "ends_with '']'' (print_list pr xs)"
  by (auto simp: print_list_def starts_with_def ends_with_iff intro: exI [of _ "''['' @ join_with CHR '','' (map pr xs)"])

lemma parse_default_list:
  assumes "xs \<noteq> []" and "\<And>x. x \<in> set xs \<Longrightarrow> solid (pr x) \<and> pr x \<noteq> [] \<and> CHR '','' \<notin> set (pr x)"
  shows "parse_default_value (print_list pr xs) =
    (case parse_all parse_bool (map pr xs) of
       Some bools \<Rightarrow> Ok (Default_BoolArray bools)
     | None \<Rightarrow> case parse_all parse_i64 (map pr xs) of
         Some ints \<Rightarrow> Ok (Default_IntArray ints)
       | None \<Rightarrow> case parse_all parse_f64 (map pr xs) of
           Some floats \<Rightarrow> Ok (Default_FloatArray floats)
         | None \<Rightarrow> bind_result (parse_strings (map pr xs)) (\<lambda>r. case r of
             Some strings \<Rightarrow> Ok (Default_StringArray strings)
           | None \<Rightarrow> Err (InvalidArrayDefault (print_list pr xs))))"
proof -
  have elements: "take (length (print_list pr xs) - 2) (drop 1 (print_list pr xs)) = join_with CHR '','' (map pr xs)"
    "join_with CHR '','' (map pr xs) \<noteq> []"
    "map trim (split_on CHR '','' (join_with CHR '','' (map pr xs))) = map pr xs"
    by (rule print_list_elements [OF assms(1)], rule assms(2), assumption)+
  show ?thesis
    unfolding parse_default_value_def parse_array_default_def Let_def elements
    using assms(1) elements(2) print_list_brackets [of pr xs] by simp
qed

lemma starts_with_hd: "starts_with [c] s \<longleftrightarrow> s \<noteq> [] \<and> hd s = c"
  by (cases s) (auto simp: starts_with_def)

lemma ends_with_last: "ends_with [c] s \<longleftrightarrow> s \<noteq> [] \<and> last s = c"
  by (cases s rule: rev_cases) (auto simp: ends_with_def starts_with_def)

lemma quoted_hd: "in_quotes s \<Longrightarrow> s \<noteq> [] \<and> (hd s = CHR 0x22 \<or> hd s = CHR 0x27)"
  by (auto simp: in_quotes_def starts_with_hd)

lemma quoted_not_number:
  assumes "in_quotes s"
  shows "parse_bool s = None" and "parse_i64 s = None" and "parse_f64 s = None"
proof -
  from quoted_hd [OF assms] obtain c r where s: "s = c # r" and c: "c = CHR 0x22 \<or> c = CHR 0x27"
    by (cases s) auto
  have d: "digit_value c = None" using c by (auto simp: digit_value_def)
  show "parse_bool s = None" using s c by (auto simp: parse_bool_def)
  show "parse_i64 s = None" using s c d by (auto simp: parse_i64_def)
  have "\<not> is_digit c" using d by (simp add: is_digit_def)
  moreover have "to_lower c \<noteq> CHR ''i''" "to_lower c \<noteq> CHR ''n''"
    using c by (auto simp: to_lower_def)
  ultimately show "parse_f64 s = None" using s c by (auto simp: parse_f64_def parse_decimal_def)
qed

lemma parse_strings_quoted: "parse_strings (map print_quoted ss) = Ok (Some ss)"
  by (induction ss) (simp_all add: in_quotes_def print_quoted_def starts_with_hd ends_with_last unquote_def)

lemma parse_print_default:
  assumes "default_ok d"
  shows "parse_default_value (print_default d) = Ok d"
proof (cases d)
  case (Default_Bool b)
  then show ?thesis
    by (simp add: parse_default_value_def print_default_def starts_with_hd print_bool_def parse_bool_def)
next
  case (Default_Int i)
  have "ident_char (hd (show_i64 i)) \<or> hd (show_i64 i) = CHR ''-''"
    by (rule show_i64_chars [of _ i]) simp
  then have "hd (show_i64 i) \<notin> {CHR ''['', CHR 0x22, CHR 0x27}"
    by (auto simp: ident_char_def)
  then have "\<not> in_quotes (show_i64 i)" "\<not> starts_with ''['' (show_i64 i)"
    by (auto simp: in_quotes_def starts_with_hd)
  with Default_Int show ?thesis
    by (simp add: parse_default_value_def print_default_def parse_show_i64)
next
  case (Default_String s)
  have "in_quotes (CHR 0x22 # s @ [CHR 0x22])" by (simp add: in_quotes_def starts_with_hd ends_with_last)
  with Default_String show ?thesis
    by (simp add: parse_default_value_def print_default_def print_quoted_def starts_with_hd parse_bool_def unquote_def)
next
  case (Default_BoolArray bs)
  have "solid (print_bool b) \<and> print_bool b \<noteq> [] \<and> CHR '','' \<notin> set (print_bool b)" for b
    by (simp add: print_bool_def)
  with Default_BoolArray assms show ?thesis
    by (simp add: print_default_def default_ok_def parse_default_list parse_all_map)
next
  case (Default_IntArray js)
  have "solid (show_i64 i) \<and> show_i64 i \<noteq> [] \<and> CHR '','' \<notin> set (show_i64 i)" for i
    using show_i64_not_in [of "CHR '',''" i] by (simp add: ident_char_def)
  moreover have "parse_all parse_bool (map show_i64 js) = None"
    using assms Default_IntArray by (intro parse_all_hd) (auto simp: default_ok_def hd_map)
  ultimately show ?thesis
    using Default_IntArray assms
    by (simp add: print_default_def default_ok_def parse_default_list parse_all_map parse_show_i64)
next
  case (Default_StringArray ss)
  with assms have ss: "ss \<noteq> []" "\<And>s. s \<in> set ss \<Longrightarrow> plain s \<and> CHR '','' \<notin> set s"
    by (auto simp: default_ok_def list_all_iff)
  have words: "solid (print_quoted s) \<and> print_quoted s \<noteq> [] \<and> CHR '','' \<notin> set (print_quoted s)"
    if "s \<in> set ss" for s
    using ss(2) [OF that] by (simp add: print_quoted_def plain_def)
  have "in_quotes (hd (map print_quoted ss))"
    using ss(1) by (simp add: hd_map in_quotes_def print_quoted_def starts_with_hd ends_with_last)
  from quoted_not_number [OF this] have "parse_all parse_bool (map print_quoted ss) = None"
    "parse_all parse_i64 (map print_quoted ss) = None" "parse_all parse_f64 (map print_quoted ss) = None"
    using ss(1) by (simp_all add: parse_all_hd)
  with Default_StringArray ss(1) show ?thesis
    by (simp add: print_default_def parse_default_list [of ss print_quoted, OF _ words] parse_strings_quoted)
qed (use assms in \<open>simp_all add: default_ok_def\<close>)

text \<open>Printed default values are plain words.\<close>

lemma print_list_plain:
  assumes "\<And>x. x \<in> set xs \<Longrightarrow> plain (pr x)"
  shows "plain (print_list pr xs)"
proof -
  have "solid (join_with CHR '','' (map pr xs))"
    using assms by (intro solid_join) (auto simp: list_all_iff plain_def)
  moreover have "c \<notin> set (join_with CHR '','' (map pr xs))" if "c = CHR ''#'' \<or> c = CHR ''=''" for c
    using that assms set_join_with [of "CHR '',''" "map pr xs"] by (auto simp: plain_def)
  ultimately show ?thesis
    by (auto simp: plain_def print_list_def)
qed

lemma print_default_plain:
  assumes "default_ok d"
  shows "plain (print_default d) \<and> print_default d \<noteq> []"
proof -
  have "plain (show_i64 i)" for i
    using show_i64_not_in [of _ i] by (simp add: plain_def)
  moreover have "plain (print_bool b) \<and> print_bool b \<noteq> []" for b
    by (simp add: plain_def print_bool_def)
  moreover have "print_list p xs \<noteq> []" for p :: "'x \<Rightarrow> string" and xs
    by (simp add: print_list_def)
  moreover have "print_list show_i64 xs \<noteq> []" "print_list print_bool ys \<noteq> []" "print_list print_quoted ss \<noteq> []"
    for xs ys ss
    by (simp_all add: print_list_def)
  moreover have "plain (print_quoted s) \<and> print_quoted s \<noteq> []" if "plain s" for s
    using that by (simp add: plain_def print_quoted_def)
  ultimately show ?thesis
    using assms by (cases d) (simp_all add: print_default_def default_ok_def print_list_plain list_all_iff)
qed

section \<open>Fields and constants\<close>

lemma field_words_ok: "field_ok f \<Longrightarrow> list_all (\<lambda>w. solid w \<and> w \<noteq> []) (field_words f)"
  by (auto simp: field_ok_def field_words_def print_type_solid print_type_not_Nil ident_solid
      ident_not_Nil plain_def dest: print_default_plain split: option.splits)

lemma field_words_not_Nil [simp]: "field_words f \<noteq> []"
  by (simp add: field_words_def)

lemma print_field_words: "field_ok f \<Longrightarrow> split_whitespace (print_field f) = field_words f"
  unfolding print_field_def
  by (rule split_whitespace_words) (simp_all add: field_words_ok)

lemma parse_print_field:
  assumes "field_ok f"
  shows "parse_field (print_field f) pkg n = Ok f"
proof (cases "pf_default f")
  case None
  then show ?thesis
    using assms parse_print_type [of "pf_field_type f" pkg]
    unfolding parse_field_def print_field_words [OF assms]
    by (cases f) (simp add: field_words_def field_ok_def)
next
  case (Some d)
  then show ?thesis
    using assms parse_print_type [of "pf_field_type f" pkg] parse_print_default [of d]
    unfolding parse_field_def print_field_words [OF assms]
    by (cases f) (simp add: field_words_def field_ok_def)
qed

text \<open>What a printed line looks like to the loop over the lines.\<close>

definition clean_line :: "string \<Rightarrow> bool" where
  "clean_line l \<longleftrightarrow> l \<noteq> [] \<and> ascii_solid (hd l) \<and> ascii_solid (last l) \<and>
     list_all (\<lambda>c. ascii_solid c \<or> c = CHR '' '') l \<and> CHR ''#'' \<notin> set l"

lemma clean_line_strip: "clean_line l \<Longrightarrow> trim (strip_comment l) = l"
  by (simp add: clean_line_def strip_comment_def split_on_part trim_id)

lemma clean_line_breaks: "clean_line l \<Longrightarrow> CHR 0x0A \<notin> set l \<and> last l \<noteq> CHR 0x0D"
  by (auto simp: clean_line_def list_all_iff ascii_solid_def)

lemma clean_join:
  assumes "ws \<noteq> []" and "list_all (\<lambda>w. solid w \<and> w \<noteq> [] \<and> CHR ''#'' \<notin> set w) ws"
  shows "clean_line (join_with CHR '' '' ws)"
  using assms
proof (induction "CHR '' ''" ws rule: join_with.induct)
  case (2 p)
  then show ?case by (auto simp: clean_line_def solid_hd solid_last solid_def list_all_iff)
next
  case (3 p q ps)
  then show ?case
    by (auto simp: clean_line_def solid_hd solid_last solid_def list_all_iff)
qed simp

lemma print_type_comment: "type_ok t \<Longrightarrow> CHR ''#'' \<notin> set (print_type t)"
  using show_nat_ident
  by (auto simp: type_ok_def print_type_def print_array_def split: option.splits ArrayType.splits)

lemma print_field_clean: "field_ok f \<Longrightarrow> clean_line (print_field f)"
  unfolding print_field_def
  by (rule clean_join)
    (auto simp: field_ok_def field_words_def print_type_solid print_type_not_Nil print_type_comment
      ident_solid ident_not_Nil plain_def dest: print_default_plain split: option.splits)

lemma is_constant_free: "CHR ''='' \<notin> set l \<Longrightarrow> \<not> is_constant l"
  by (simp add: is_constant_def find_sub_free)

lemma is_constant_bound: "CHR ''='' \<notin> set p \<Longrightarrow> \<not> is_constant (p @ ''<='' @ r)"
  using find_sub_skip [of "CHR ''=''" "p @ ''<''" "[]" "''='' @ r"] find_sub_here [of "''=''" r]
  by (simp add: is_constant_def nth_append)

text \<open>An equality sign in a printed type follows a smaller sign.\<close>

lemma print_type_eq:
  assumes "type_ok t"
  shows "CHR ''='' \<notin> set (print_type t) \<or>
    (\<exists>p r. print_type t = p @ ''<='' @ r \<and> CHR ''='' \<notin> set p)"
proof (cases "pft_string_bound t")
  case (Some n)
  then show ?thesis using assms by (auto simp: type_ok_def print_type_def)
next
  case None
  let ?b = "(case pft_package t of None \<Rightarrow> [] | Some p \<Rightarrow> p @ ''/'') @ pft_base_type t"
  have b: "CHR ''='' \<notin> set ?b"
    using assms by (auto simp: type_ok_def split: option.splits)
  have t: "print_type t = ?b @ print_array (pft_array t)"
    using None by (simp add: print_type_def)
  show ?thesis
  proof (cases "pft_array t")
    case (Bounded n)
    then have "print_type t = (?b @ ''['') @ ''<='' @ (show_nat n @ '']'')"
      using t by (simp add: print_array_def)
    moreover have "CHR ''='' \<notin> set (?b @ ''['')" using b by simp
    ultimately show ?thesis by blast
  qed (use b t show_nat_ident in \<open>auto simp: print_array_def\<close>)
qed

lemma print_field_not_constant:
  assumes "field_ok f"
  shows "\<not> is_constant (print_field f)"
proof -
  obtain r where r: "print_field f = print_type (pf_field_type f) @ r" "CHR ''='' \<notin> set r"
  proof (cases "pf_default f")
    case None
    with assms that [of "'' '' @ pf_name f"] show ?thesis
      by (simp add: print_field_def field_words_def field_ok_def)
  next
    case (Some d)
    with assms that [of "'' '' @ pf_name f @ '' '' @ print_default d"] show ?thesis
      using print_default_plain [of d] by (simp add: print_field_def field_words_def field_ok_def plain_def)
  qed
  have "type_ok (pf_field_type f)" using assms by (simp add: field_ok_def)
  from print_type_eq [OF this] show ?thesis
  proof
    assume "CHR ''='' \<notin> set (print_type (pf_field_type f))"
    with r show ?thesis by (simp add: is_constant_free)
  next
    assume "\<exists>p q. print_type (pf_field_type f) = p @ ''<='' @ q \<and> CHR ''='' \<notin> set p"
    then obtain p q where "print_field f = p @ ''<='' @ (q @ r)" "CHR ''='' \<notin> set p"
      using r by auto
    then show ?thesis using is_constant_bound by metis
  qed
qed

lemma print_constant_clean: "constant_ok c \<Longrightarrow> clean_line (print_constant c)"
  by (auto simp: constant_ok_def clean_line_def print_constant_def printable_def list_all_iff ident_not_Nil
      solid_hd ident_solid hd_append ident_def [of "con_type c"] ident_def [of "con_name c"] ident_char_solid)

lemma is_constant_eq:
  assumes "CHR ''='' \<notin> set p" and "CHR ''<'' \<notin> set p" and "CHR ''['' \<notin> set p" and "CHR '']'' \<notin> set p"
  shows "is_constant (p @ ''='' @ v)"
proof -
  have "find_sub ''='' (p @ ''='' @ v) = Some (length p)"
    using find_sub_skip [of "CHR ''=''" p "[]" "''='' @ v"] assms(1) find_sub_here [of "''=''" v] by simp
  moreover have "(p @ ''='' @ v) ! (length p - 1) \<noteq> CHR ''<''" if "0 < length p"
  proof -
    have "last p \<noteq> CHR ''<''" using assms(2) that by (metis last_in_set length_greater_0_conv)
    then show ?thesis using that by (simp add: nth_append last_conv_nth)
  qed
  ultimately show ?thesis
    using assms(3,4) by (auto simp: is_constant_def count_list_0_iff)
qed

lemma print_constant_is: "constant_ok c \<Longrightarrow> is_constant (print_constant c)"
  using is_constant_eq [of "con_type c @ '' '' @ con_name c" "con_value c"]
  by (simp add: constant_ok_def print_constant_def)

lemma parse_print_constant:
  assumes "constant_ok c"
  shows "parse_constant (print_constant c) n = Ok c"
proof -
  let ?p = "join_with CHR '' '' [con_type c, con_name c]"
  have "splitn2 CHR ''='' (print_constant c) = [?p, con_value c]"
    using assms splitn2_append [of "CHR ''=''" ?p "con_value c"]
    by (simp add: constant_ok_def print_constant_def)
  moreover have "split_whitespace ?p = [con_type c, con_name c]"
    by (rule split_whitespace_words) (use assms in \<open>auto simp: constant_ok_def ident_solid ident_not_Nil\<close>)
  moreover have "trim (con_value c) = con_value c"
    using assms by (intro trim_id) (auto simp: constant_ok_def)
  ultimately show ?thesis
    by (cases c) (simp add: parse_constant_def)
qed

section \<open>Messages\<close>

lemma parse_msg_fields:
  "list_all field_ok fs \<Longrightarrow>
   parse_msg_lines pkg n (map print_field fs @ ls) fs0 cs0 =
   parse_msg_lines pkg (n + length fs) ls (fs0 @ fs) cs0"
proof (induction fs arbitrary: n fs0)
  case (Cons f fs)
  have f: "field_ok f" using Cons.prems by simp
  have "print_field f \<noteq> []" using print_field_clean [OF f] by (simp add: clean_line_def)
  with Cons show ?case
    by (simp add: clean_line_strip [OF print_field_clean [OF f]] print_field_not_constant [OF f]
        parse_print_field [OF f])
qed simp

lemma parse_msg_constants:
  "list_all constant_ok cs \<Longrightarrow>
   parse_msg_lines pkg n (map print_constant cs) fs0 cs0 = Ok (fs0, cs0 @ cs)"
proof (induction cs arbitrary: n cs0)
  case (Cons c cs)
  have c: "constant_ok c" using Cons.prems by simp
  have "print_constant c \<noteq> []" "con_name c \<noteq> []"
    using print_constant_clean [OF c] c by (auto simp: clean_line_def constant_ok_def ident_def)
  with Cons show ?case
    by (simp add: clean_line_strip [OF print_constant_clean [OF c]] print_constant_is [OF c]
        parse_print_constant [OF c])
qed simp

lemma str_lines_clean:
  assumes "list_all clean_line ls"
  shows "str_lines (join_with CHR 0x0A ls) = ls"
proof (cases "ls = []")
  case True
  then show ?thesis by (simp add: str_lines_def)
next
  case False
  have "list_all (\<lambda>l. CHR 0x0A \<notin> set l \<and> (l = [] \<or> last l \<noteq> CHR 0x0D)) ls"
    using assms clean_line_breaks by (auto simp: list_all_iff)
  moreover have "last ls \<noteq> []"
    using assms False by (auto simp: list_all_iff clean_line_def)
  ultimately show ?thesis using False by (rule str_lines_join [rotated])
qed

lemma parse_print_lines:
  assumes "list_all field_ok fs" and "list_all constant_ok cs"
  shows "parse_msg_lines pkg 0 (str_lines (print_message fs cs)) [] [] = Ok (fs, cs)"
proof -
  have "list_all clean_line (map print_field fs @ map print_constant cs)"
    using assms print_field_clean print_constant_clean by (auto simp: list_all_iff)
  then have "str_lines (print_message fs cs) = map print_field fs @ map print_constant cs"
    by (simp add: print_message_def str_lines_clean)
  with assms show ?thesis by (simp add: parse_msg_fields parse_msg_constants)
qed

section \<open>Panics of default values\<close>

definition lone_quote :: "string \<Rightarrow> bool" where
  "lone_quote s \<longleftrightarrow> s = [CHR 0x22] \<or> s = [CHR 0x27]"

text \<open>The elements of an array default value as the parser splits them.\<close>

definition array_elements :: "string \<Rightarrow> string list" where
  "array_elements s = map trim (split_on CHR '','' (take (length s - 2) (drop 1 s)))"



lemma unquote_Panic: "in_quotes s \<Longrightarrow> unquote s = Panic \<longleftrightarrow> lone_quote s"
  by (cases s; cases "tl s") (auto simp: unquote_def lone_quote_def in_quotes_def starts_with_hd)

lemma unquote_not_Err [simp]: "unquote s \<noteq> Err e"
  by (simp add: unquote_def)

lemma lone_quote_quoted: "lone_quote s \<Longrightarrow> in_quotes s"
  by (auto simp: lone_quote_def in_quotes_def starts_with_hd ends_with_last)

text \<open>A single quotation mark behind in_quotes strings only.\<close>

fun lone_after_quoted :: "string list \<Rightarrow> bool" where
  "lone_after_quoted [] = False"
| "lone_after_quoted (e # es) \<longleftrightarrow> lone_quote e \<or> (in_quotes e \<and> lone_after_quoted es)"

lemma parse_strings_Panic: "parse_strings es = Panic \<longleftrightarrow> lone_after_quoted es"
proof (induction es)
  case (Cons e es)
  show ?case
  proof (cases "in_quotes e")
    case True
    then show ?thesis
      unfolding lone_after_quoted.simps Cons.IH [symmetric]
      using unquote_Panic [OF True]
      by (cases "unquote e :: (string, 'a) result") (auto simp: map_ok_eq_Panic)
  next
    case False
    then show ?thesis using lone_quote_quoted [of e] by auto
  qed
qed simp

lemma lone_after_quoted_hd: "lone_after_quoted es \<Longrightarrow> es \<noteq> [] \<and> in_quotes (hd es)"
  using lone_quote_quoted by (cases es) auto

lemma parse_array_default_Panic:
  "parse_array_default s = Panic \<longleftrightarrow> lone_after_quoted (array_elements s)"
proof (cases "take (length s - 2) (drop 1 s) = []")
  case True
  then have "array_elements s = [[]]"
    by (simp only: array_elements_def split_on.simps list.map trim_Nil)
  with True show ?thesis
    by (simp add: parse_array_default_def lone_quote_def in_quotes_def starts_with_hd)
next
  case False
  have es: "array_elements s \<noteq> []" by (simp add: array_elements_def)
  show ?thesis
  proof (cases "lone_after_quoted (array_elements s)")
    case True
    then have "in_quotes (hd (array_elements s))" using lone_after_quoted_hd by blast
    from quoted_not_number [OF this] have
      "parse_all parse_bool (array_elements s) = None" "parse_all parse_i64 (array_elements s) = None"
      "parse_all parse_f64 (array_elements s) = None"
      using es by (simp_all add: parse_all_hd)
    with False es True show ?thesis
      unfolding parse_array_default_def Let_def array_elements_def [symmetric]
      by (simp add: parse_strings_Panic [THEN iffD2])
  next
    case no: False
    then have "parse_strings (array_elements s) \<noteq> (Panic :: (string list option, parse_error) result)"
      by (simp add: parse_strings_Panic)
    with False es no show ?thesis
      unfolding parse_array_default_def Let_def array_elements_def [symmetric]
      by (cases "parse_strings (array_elements s) :: (string list option, parse_error) result")
        (simp_all split: option.splits)
  qed
qed

section \<open>Action sections\<close>

definition bounded_type :: "ParsedFieldType \<Rightarrow> bool" where
  "bounded_type t \<longleftrightarrow> pft_string_bound t \<noteq> None \<or> (\<exists>n. pft_array t = Bounded n)"

lemma parse_constant_bound:
  assumes "CHR ''='' \<notin> set p" and "solid p" and "p \<noteq> []"
  shows "parse_constant (p @ ''='' @ r) n = Ok \<lparr>con_name = [], con_type = p, con_value = trim r\<rparr>"
proof -
  have "split_whitespace p = [p]"
    using assms(2,3) split_whitespace_words [of "[p]"] by simp
  then show ?thesis
    using splitn2_append [OF assms(1), of r] by (simp add: parse_constant_def)
qed

text \<open>A field line contains an equality sign exactly when its type has a bound.\<close>

lemma print_field_bounded:
  assumes "field_ok f" and "bounded_type (pf_field_type f)"
  obtains p r where "print_field f = p @ ''='' @ r" and "CHR ''='' \<notin> set p" and "solid p" and "p \<noteq> []"
proof -
  obtain r where r: "print_field f = print_type (pf_field_type f) @ r"
    by (cases "pf_default f") (simp_all add: print_field_def field_words_def)
  have t: "type_ok (pf_field_type f)" using assms(1) by (simp add: field_ok_def)
  have "CHR ''='' \<in> set (print_type (pf_field_type f))"
    using assms(2) t by (auto simp: bounded_type_def type_ok_def print_type_def print_array_def
        split: option.splits)
  with print_type_eq [OF t] obtain p q where
    pq: "print_type (pf_field_type f) = p @ ''<='' @ q" "CHR ''='' \<notin> set p" by blast
  have "solid (p @ ''<'')" using print_type_solid [OF t] pq(1) by simp
  with that [of "p @ ''<''" "q @ r"] show ?thesis using r pq by simp
qed

lemma print_field_unbounded:
  assumes "field_ok f" and "\<not> bounded_type (pf_field_type f)"
  shows "CHR ''='' \<notin> set (print_field f)"
proof -
  have t: "CHR ''='' \<notin> set (print_type (pf_field_type f))"
    using assms show_nat_ident
    by (auto simp: field_ok_def bounded_type_def type_ok_def print_type_def print_array_def
        split: option.splits ArrayType.splits)
  show ?thesis
  proof (cases "pf_default f")
    case None
    then show ?thesis using assms(1) t by (simp add: print_field_def field_words_def field_ok_def)
  next
    case (Some d)
    then show ?thesis using assms(1) t print_default_plain [of d]
      by (simp add: print_field_def field_words_def field_ok_def plain_def)
  qed
qed

lemma parse_section_fields:
  "list_all field_ok fs \<Longrightarrow>
   \<exists>cs. length cs = length (filter (\<lambda>f. bounded_type (pf_field_type f)) fs) \<and>
     parse_section_lines pkg n (map print_field fs) fs0 cs0 =
     Ok (fs0 @ filter (\<lambda>f. \<not> bounded_type (pf_field_type f)) fs, cs0 @ cs)"
proof (induction fs arbitrary: n fs0 cs0)
  case (Cons f fs)
  have f: "field_ok f" using Cons.prems by simp
  have line: "trim (strip_comment (print_field f)) = print_field f" "print_field f \<noteq> []"
    using print_field_clean [OF f] clean_line_strip by (auto simp: clean_line_def)
  show ?case
  proof (cases "bounded_type (pf_field_type f)")
    case True
    from print_field_bounded [OF f True] obtain p r where
      pr: "print_field f = p @ ''='' @ r" "CHR ''='' \<notin> set p" "solid p" "p \<noteq> []" .
    let ?c = "\<lparr>con_name = [], con_type = p, con_value = trim r\<rparr>"
    have "parse_constant (print_field f) (n + 1) = Ok ?c"
      unfolding pr(1) using pr by (intro parse_constant_bound)
    moreover have "CHR ''='' \<in> set (print_field f)" using pr(1) by simp
    moreover from Cons.IH [of "n + 1" fs0 "cs0 @ [?c]"] Cons.prems obtain cs where
      "length cs = length (filter (\<lambda>f. bounded_type (pf_field_type f)) fs)"
      "parse_section_lines pkg (n + 1) (map print_field fs) fs0 (cs0 @ [?c]) =
       Ok (fs0 @ filter (\<lambda>f. \<not> bounded_type (pf_field_type f)) fs, (cs0 @ [?c]) @ cs)" by auto
    ultimately show ?thesis
      using True line by (intro exI [of _ "?c # cs"]) (simp add: Let_def)
  next
    case False
    then show ?thesis
      using Cons.IH [of "n + 1" "fs0 @ [f]" cs0] Cons.prems line parse_print_field [OF f]
        print_field_unbounded [OF f False]
      by (simp add: Let_def)
  qed
qed simp

section \<open>Properties\<close>

text \<open>
  C10.  Round trip of message definitions: parsing the text that lists fields (types with their
  packages, bounds and arrays, names, default values) and constants gives exactly these fields and
  constants in their order, under the name of the file.  It holds for names of letters, digits and
  underscores, for types that are not both a bounded string and an array, and for defaults that are
  booleans, integers, strings without white space, comment and equality signs, or non-empty arrays of
  these (without commas inside strings); the values of constants have no comment sign.  Floating-point
  defaults are not covered, and the unqualified name Header stands for std_msgs/Header.
\<close>

theorem parse_print_message:
  assumes "list_all field_ok fs" and "list_all constant_ok cs" and "file_stem_str path = Ok name"
  shows "parse_msg_string (print_message fs cs) pkg path =
    Ok \<lparr>pm_name = name, pm_package = pkg, pm_fields = fs, pm_constants = cs,
        pm_source = print_message fs cs, pm_path = path\<rparr>"
  using assms by (simp add: parse_msg_string_def parse_print_lines)

theorem parse_print_message_witness:
  "parse_msg_string
     (print_message
        [\<lparr>pf_name = ''name'', pf_field_type = \<lparr>pft_base_type = ''string'', pft_package = None,
           pft_array = Single, pft_string_bound = Some 10\<rparr>, pf_default = None\<rparr>,
         \<lparr>pf_name = ''xs'', pf_field_type = \<lparr>pft_base_type = ''int8'', pft_package = None,
           pft_array = Bounded 3, pft_string_bound = None\<rparr>, pf_default = Some (Default_IntArray [1, -1])\<rparr>]
        [\<lparr>con_name = ''MAX'', con_type = ''int8'', con_value = ''4''\<rparr>]) ''p'' ''d/M.msg'' =
   Ok \<lparr>pm_name = ''M'', pm_package = ''p'',
       pm_fields =
        [\<lparr>pf_name = ''name'', pf_field_type = \<lparr>pft_base_type = ''string'', pft_package = None,
           pft_array = Single, pft_string_bound = Some 10\<rparr>, pf_default = None\<rparr>,
         \<lparr>pf_name = ''xs'', pf_field_type = \<lparr>pft_base_type = ''int8'', pft_package = None,
           pft_array = Bounded 3, pft_string_bound = None\<rparr>, pf_default = Some (Default_IntArray [1, -1])\<rparr>],
       pm_constants = [\<lparr>con_name = ''MAX'', con_type = ''int8'', con_value = ''4''\<rparr>],
       pm_source = print_message
        [\<lparr>pf_name = ''name'', pf_field_type = \<lparr>pft_base_type = ''string'', pft_package = None,
           pft_array = Single, pft_string_bound = Some 10\<rparr>, pf_default = None\<rparr>,
         \<lparr>pf_name = ''xs'', pf_field_type = \<lparr>pft_base_type = ''int8'', pft_package = None,
           pft_array = Bounded 3, pft_string_bound = None\<rparr>, pf_default = Some (Default_IntArray [1, -1])\<rparr>]
        [\<lparr>con_name = ''MAX'', con_type = ''int8'', con_value = ''4''\<rparr>],
       pm_path = ''d/M.msg''\<rparr>"
  by (rule parse_print_message)
    (simp_all add: field_ok_def type_ok_def array_ok_def ident_def ident_char_def default_ok_def
      constant_ok_def printable_def ascii_solid_def file_stem_str_def file_stem_def file_name_def
      drop_trailing_dots.simps to_str_def is_str_def Let_def)

text \<open>
  Three limits of this round trip are those of the parser.  The bound of the strings in an array is
  not recognised but kept in the name of the element type; white space inside the default string of a
  field is collapsed; and a field whose default string has an equality sign is taken for a constant.
\<close>

theorem array_of_bounded_strings_loses_bound:
  assumes "array_ok a" and "a \<noteq> Single"
  shows "parse_field_type (''string<='' @ show_nat n @ print_array a) pkg =
     Ok \<lparr>pft_base_type = ''string<='' @ show_nat n, pft_package = None, pft_array = a, pft_string_bound = None\<rparr>"
proof -
  let ?b = "''string<='' @ show_nat n"
  have free: "CHR ''['' \<notin> set ?b" "CHR ''/'' \<notin> set ?b" "?b \<noteq> ''Header''"
    using ident_not_in [OF show_nat_ident] by simp_all
  have "a = Single \<Longrightarrow> CHR ''<'' \<notin> set ?b" using assms(2) by simp
  note type = parse_field_type_array [OF this free(1) assms(1), of pkg]
  have "parse_field_type (?b @ print_array a) pkg =
      Ok \<lparr>pft_base_type = ?b, pft_package = None, pft_array = a, pft_string_bound = None\<rparr>"
    by (rule type [unfolded parse_type_name_plain [OF free(2,3)] prod.case])
  then show ?thesis unfolding append.assoc .
qed

theorem default_white_space_collapsed:
  "parse_field (''string s '' @ print_quoted ''a  b'') pkg n =
   parse_field (''string s '' @ print_quoted ''a b'') pkg n"
proof -
  let ?words = "[''string'', ''s'', CHR 0x22 # ''a'', ''b'' @ [CHR 0x22]]"
  have "split_whitespace (''string s '' @ print_quoted ''a  b'') = ?words"
    "split_whitespace (''string s '' @ print_quoted ''a b'') = ?words"
    by code_simp+
  then show ?thesis
    unfolding parse_field_def Let_def by simp
qed

theorem equality_sign_makes_constant: "is_constant (''string s '' @ print_quoted ''a=b'')"
  by (simp add: is_constant_def print_quoted_def)

text \<open>
  The parser never panics on a type, and it panics on a default value exactly when the value
  is a single quotation mark, or an array whose elements start with in_quotes strings up to an element
  that is a single quotation mark: the slice that removes the quotation marks is out of range there.
\<close>

theorem default_value_panics_iff:
  "parse_field_type type_str pkg \<noteq> Panic \<and>
   (parse_default_value s = Panic \<longleftrightarrow>
     lone_quote s \<or>
     (starts_with ''['' s \<and> ends_with '']'' s \<and> lone_after_quoted (array_elements s)))"
proof
  show "parse_field_type type_str pkg \<noteq> Panic"
    by (auto simp: parse_field_type_def parse_array_suffix_def map_ok_eq_Panic Let_def
        split: option.splits bool.splits) (metis ok_or.simps option.exhaust result.distinct(3,5))+
  show "parse_default_value s = Panic \<longleftrightarrow> lone_quote s \<or>
     (starts_with ''['' s \<and> ends_with '']'' s \<and> lone_after_quoted (array_elements s))"
  proof (cases "starts_with ''['' s \<and> ends_with '']'' s")
    case True
    then have "\<not> lone_quote s" by (auto simp: lone_quote_def starts_with_hd)
    with True show ?thesis by (simp add: parse_default_value_def parse_array_default_Panic)
  next
    case False
    then show ?thesis
      using unquote_Panic [of s] quoted_not_number(1) [of s] lone_quote_quoted [of s]
      by (auto simp: parse_default_value_def map_ok_eq_Panic split: option.splits)
  qed
qed

text \<open>
  The sections of an action file lose their bounded fields: of a list of fields the section
  parser keeps those without a bound, in order, and turns every field with a bounded string or a
  bounded sequence into a constant, because it takes each line with an equality sign for one.  The
  message parser keeps all of them.
\<close>

theorem action_section_drops_bounded:
  assumes "list_all field_ok fs" and "file_stem_str path = Ok stem"
  shows "\<exists>cs. length cs = length (filter (\<lambda>f. bounded_type (pf_field_type f)) fs) \<and>
    parse_action_section (print_message fs []) name pkg path =
      Ok \<lparr>pm_name = name, pm_package = pkg,
          pm_fields = filter (\<lambda>f. \<not> bounded_type (pf_field_type f)) fs, pm_constants = cs,
          pm_source = print_message fs [], pm_path = path\<rparr> \<and>
    map_ok pm_fields (parse_msg_string (print_message fs []) pkg path) = Ok fs"
proof -
  have "list_all clean_line (map print_field fs)"
    using assms print_field_clean by (auto simp: list_all_iff)
  then have ls: "str_lines (print_message fs []) = map print_field fs"
    by (simp add: print_message_def str_lines_clean)
  obtain cs where "length cs = length (filter (\<lambda>f. bounded_type (pf_field_type f)) fs)"
    "parse_section_lines pkg 0 (map print_field fs) [] [] =
     Ok (filter (\<lambda>f. \<not> bounded_type (pf_field_type f)) fs, cs)"
    using parse_section_fields [OF assms(1), of pkg 0 "[]" "[]"] by auto
  moreover have "parse_msg_lines pkg 0 (map print_field fs) [] [] = Ok (fs, [])"
    using parse_msg_fields [OF assms(1), of pkg 0 "[]" "[]" "[]"] by simp
  ultimately show ?thesis
    using assms(2) by (intro exI [of _ cs]) (simp add: parse_action_section_def parse_msg_string_def ls)
qed

theorem action_section_drops_bounded_witness:
  "map_ok pm_fields (parse_action_section
     (print_message [\<lparr>pf_name = ''name'', pf_field_type = \<lparr>pft_base_type = ''string'', pft_package = None,
        pft_array = Single, pft_string_bound = Some 10\<rparr>, pf_default = None\<rparr>] []) ''FibGoal'' ''p'' ''Fib.action'')
   = Ok []"
proof -
  let ?fs = "[\<lparr>pf_name = ''name'', pf_field_type = \<lparr>pft_base_type = ''string'', pft_package = None,
        pft_array = Single, pft_string_bound = Some 10\<rparr>, pf_default = None\<rparr>]"
  have "list_all field_ok ?fs"
    by (simp add: field_ok_def type_ok_def array_ok_def ident_def ident_char_def)
  moreover have "file_stem_str ''Fib.action'' = Ok ''Fib''"
    by (simp add: file_stem_str_def file_stem_def file_name_def drop_trailing_dots.simps to_str_def
        is_str_def Let_def)
  ultimately show ?thesis
    using action_section_drops_bounded [of ?fs "''Fib.action''" "''Fib''" "''FibGoal''" "''p''"]
    by (auto simp: bounded_type_def)
qed

end
