(* ===== verification/Type_Id.thy ===== *)
theory Type_Id
  imports RosZ_Prelude
begin

text \<open>
  \<^verbatim>\<open>ros-z-schema/src/type_id.rs\<close>: the type ids of the ROS 2 type hash standard RIHS01, and the
  functions that classify them.
\<close>

section \<open>Constants\<close>

definition TID_NESTED_TYPE :: u8 where "TID_NESTED_TYPE = 1"
definition TID_INT8 :: u8 where "TID_INT8 = 2"
definition TID_UINT8 :: u8 where "TID_UINT8 = 3"
definition TID_INT16 :: u8 where "TID_INT16 = 4"
definition TID_UINT16 :: u8 where "TID_UINT16 = 5"
definition TID_INT32 :: u8 where "TID_INT32 = 6"
definition TID_UINT32 :: u8 where "TID_UINT32 = 7"
definition TID_INT64 :: u8 where "TID_INT64 = 8"
definition TID_UINT64 :: u8 where "TID_UINT64 = 9"
definition TID_FLOAT32 :: u8 where "TID_FLOAT32 = 10"
definition TID_FLOAT64 :: u8 where "TID_FLOAT64 = 11"
definition TID_BOOL :: u8 where "TID_BOOL = 15"
definition TID_BYTE :: u8 where "TID_BYTE = 16"
definition TID_STRING :: u8 where "TID_STRING = 17"
definition TID_WSTRING :: u8 where "TID_WSTRING = 18"
definition TID_FIXED_STRING :: u8 where "TID_FIXED_STRING = 19"
definition TID_FIXED_WSTRING :: u8 where "TID_FIXED_WSTRING = 20"
definition TID_BOUNDED_STRING :: u8 where "TID_BOUNDED_STRING = 21"
definition TID_BOUNDED_WSTRING :: u8 where "TID_BOUNDED_WSTRING = 22"
definition TID_NESTED_TYPE_ARRAY :: u8 where "TID_NESTED_TYPE_ARRAY = 49"
definition TID_INT8_ARRAY :: u8 where "TID_INT8_ARRAY = 50"
definition TID_UINT8_ARRAY :: u8 where "TID_UINT8_ARRAY = 51"
definition TID_INT16_ARRAY :: u8 where "TID_INT16_ARRAY = 52"
definition TID_UINT16_ARRAY :: u8 where "TID_UINT16_ARRAY = 53"
definition TID_INT32_ARRAY :: u8 where "TID_INT32_ARRAY = 54"
definition TID_UINT32_ARRAY :: u8 where "TID_UINT32_ARRAY = 55"
definition TID_INT64_ARRAY :: u8 where "TID_INT64_ARRAY = 56"
definition TID_UINT64_ARRAY :: u8 where "TID_UINT64_ARRAY = 57"
definition TID_FLOAT32_ARRAY :: u8 where "TID_FLOAT32_ARRAY = 58"
definition TID_FLOAT64_ARRAY :: u8 where "TID_FLOAT64_ARRAY = 59"
definition TID_BOOL_ARRAY :: u8 where "TID_BOOL_ARRAY = 63"
definition TID_STRING_ARRAY :: u8 where "TID_STRING_ARRAY = 65"
definition TID_NESTED_TYPE_BOUNDED_SEQUENCE :: u8 where "TID_NESTED_TYPE_BOUNDED_SEQUENCE = 97"
definition TID_INT8_BOUNDED_SEQUENCE :: u8 where "TID_INT8_BOUNDED_SEQUENCE = 98"
definition TID_UINT8_BOUNDED_SEQUENCE :: u8 where "TID_UINT8_BOUNDED_SEQUENCE = 99"
definition TID_INT16_BOUNDED_SEQUENCE :: u8 where "TID_INT16_BOUNDED_SEQUENCE = 100"
definition TID_UINT16_BOUNDED_SEQUENCE :: u8 where "TID_UINT16_BOUNDED_SEQUENCE = 101"
definition TID_INT32_BOUNDED_SEQUENCE :: u8 where "TID_INT32_BOUNDED_SEQUENCE = 102"
definition TID_UINT32_BOUNDED_SEQUENCE :: u8 where "TID_UINT32_BOUNDED_SEQUENCE = 103"
definition TID_INT64_BOUNDED_SEQUENCE :: u8 where "TID_INT64_BOUNDED_SEQUENCE = 104"
definition TID_UINT64_BOUNDED_SEQUENCE :: u8 where "TID_UINT64_BOUNDED_SEQUENCE = 105"
definition TID_FLOAT32_BOUNDED_SEQUENCE :: u8 where "TID_FLOAT32_BOUNDED_SEQUENCE = 106"
definition TID_FLOAT64_BOUNDED_SEQUENCE :: u8 where "TID_FLOAT64_BOUNDED_SEQUENCE = 107"
definition TID_BOOL_BOUNDED_SEQUENCE :: u8 where "TID_BOOL_BOUNDED_SEQUENCE = 111"
definition TID_STRING_BOUNDED_SEQUENCE :: u8 where "TID_STRING_BOUNDED_SEQUENCE = 113"
definition TID_NESTED_TYPE_UNBOUNDED_SEQUENCE :: u8 where "TID_NESTED_TYPE_UNBOUNDED_SEQUENCE = 145"
definition TID_INT8_UNBOUNDED_SEQUENCE :: u8 where "TID_INT8_UNBOUNDED_SEQUENCE = 146"
definition TID_UINT8_UNBOUNDED_SEQUENCE :: u8 where "TID_UINT8_UNBOUNDED_SEQUENCE = 147"
definition TID_INT16_UNBOUNDED_SEQUENCE :: u8 where "TID_INT16_UNBOUNDED_SEQUENCE = 148"
definition TID_UINT16_UNBOUNDED_SEQUENCE :: u8 where "TID_UINT16_UNBOUNDED_SEQUENCE = 149"
definition TID_INT32_UNBOUNDED_SEQUENCE :: u8 where "TID_INT32_UNBOUNDED_SEQUENCE = 150"
definition TID_UINT32_UNBOUNDED_SEQUENCE :: u8 where "TID_UINT32_UNBOUNDED_SEQUENCE = 151"
definition TID_INT64_UNBOUNDED_SEQUENCE :: u8 where "TID_INT64_UNBOUNDED_SEQUENCE = 152"
definition TID_UINT64_UNBOUNDED_SEQUENCE :: u8 where "TID_UINT64_UNBOUNDED_SEQUENCE = 153"
definition TID_FLOAT32_UNBOUNDED_SEQUENCE :: u8 where "TID_FLOAT32_UNBOUNDED_SEQUENCE = 154"
definition TID_FLOAT64_UNBOUNDED_SEQUENCE :: u8 where "TID_FLOAT64_UNBOUNDED_SEQUENCE = 155"
definition TID_BOOL_UNBOUNDED_SEQUENCE :: u8 where "TID_BOOL_UNBOUNDED_SEQUENCE = 159"
definition TID_STRING_UNBOUNDED_SEQUENCE :: u8 where "TID_STRING_UNBOUNDED_SEQUENCE = 161"
definition TID_ARRAY_OFFSET :: u8 where "TID_ARRAY_OFFSET = 48"
definition TID_BOUNDED_SEQUENCE_OFFSET :: u8 where "TID_BOUNDED_SEQUENCE_OFFSET = 96"
definition TID_UNBOUNDED_SEQUENCE_OFFSET :: u8 where "TID_UNBOUNDED_SEQUENCE_OFFSET = 144"

lemmas type_id_defs =
  TID_NESTED_TYPE_def TID_INT8_def TID_UINT8_def TID_INT16_def TID_UINT16_def TID_INT32_def
  TID_UINT32_def TID_INT64_def TID_UINT64_def TID_FLOAT32_def TID_FLOAT64_def TID_BOOL_def
  TID_BYTE_def TID_STRING_def TID_WSTRING_def TID_FIXED_STRING_def TID_FIXED_WSTRING_def
  TID_BOUNDED_STRING_def TID_BOUNDED_WSTRING_def TID_NESTED_TYPE_ARRAY_def TID_INT8_ARRAY_def
  TID_UINT8_ARRAY_def TID_INT16_ARRAY_def TID_UINT16_ARRAY_def TID_INT32_ARRAY_def
  TID_UINT32_ARRAY_def TID_INT64_ARRAY_def TID_UINT64_ARRAY_def TID_FLOAT32_ARRAY_def
  TID_FLOAT64_ARRAY_def TID_BOOL_ARRAY_def TID_STRING_ARRAY_def
  TID_NESTED_TYPE_BOUNDED_SEQUENCE_def TID_INT8_BOUNDED_SEQUENCE_def TID_UINT8_BOUNDED_SEQUENCE_def
  TID_INT16_BOUNDED_SEQUENCE_def TID_UINT16_BOUNDED_SEQUENCE_def TID_INT32_BOUNDED_SEQUENCE_def
  TID_UINT32_BOUNDED_SEQUENCE_def TID_INT64_BOUNDED_SEQUENCE_def TID_UINT64_BOUNDED_SEQUENCE_def
  TID_FLOAT32_BOUNDED_SEQUENCE_def TID_FLOAT64_BOUNDED_SEQUENCE_def TID_BOOL_BOUNDED_SEQUENCE_def
  TID_STRING_BOUNDED_SEQUENCE_def TID_NESTED_TYPE_UNBOUNDED_SEQUENCE_def
  TID_INT8_UNBOUNDED_SEQUENCE_def TID_UINT8_UNBOUNDED_SEQUENCE_def TID_INT16_UNBOUNDED_SEQUENCE_def
  TID_UINT16_UNBOUNDED_SEQUENCE_def TID_INT32_UNBOUNDED_SEQUENCE_def
  TID_UINT32_UNBOUNDED_SEQUENCE_def TID_INT64_UNBOUNDED_SEQUENCE_def
  TID_UINT64_UNBOUNDED_SEQUENCE_def TID_FLOAT32_UNBOUNDED_SEQUENCE_def
  TID_FLOAT64_UNBOUNDED_SEQUENCE_def TID_BOOL_UNBOUNDED_SEQUENCE_def
  TID_STRING_UNBOUNDED_SEQUENCE_def TID_ARRAY_OFFSET_def TID_BOUNDED_SEQUENCE_OFFSET_def
  TID_UNBOUNDED_SEQUENCE_OFFSET_def

section \<open>Classification\<close>

definition is_nested :: "u8 \<Rightarrow> bool" where
  "is_nested type_id \<longleftrightarrow> type_id = TID_NESTED_TYPE \<or> type_id = TID_NESTED_TYPE_ARRAY \<or>
     type_id = TID_NESTED_TYPE_BOUNDED_SEQUENCE \<or> type_id = TID_NESTED_TYPE_UNBOUNDED_SEQUENCE"

definition is_array :: "u8 \<Rightarrow> bool" where
  "is_array type_id \<longleftrightarrow> 49 \<le> type_id \<and> type_id \<le> 65"

definition is_bounded_sequence :: "u8 \<Rightarrow> bool" where
  "is_bounded_sequence type_id \<longleftrightarrow> 97 \<le> type_id \<and> type_id \<le> 113"

definition is_unbounded_sequence :: "u8 \<Rightarrow> bool" where
  "is_unbounded_sequence type_id \<longleftrightarrow> 145 \<le> type_id \<and> type_id \<le> 161"

definition is_single :: "u8 \<Rightarrow> bool" where
  "is_single type_id \<longleftrightarrow> 1 \<le> type_id \<and> type_id \<le> 17"

definition tid_base_type :: "u8 \<Rightarrow> u8" where
  "tid_base_type type_id =
     (if is_unbounded_sequence type_id then type_id - TID_UNBOUNDED_SEQUENCE_OFFSET
      else if is_bounded_sequence type_id then type_id - TID_BOUNDED_SEQUENCE_OFFSET
      else if is_array type_id then type_id - TID_ARRAY_OFFSET
      else type_id)"

definition type_id_name :: "u8 \<Rightarrow> string option" where
  "type_id_name type_id =
     (let b = tid_base_type type_id in
      if b = TID_NESTED_TYPE then Some ''nested''
      else if b = TID_INT8 then Some ''int8''
      else if b = TID_UINT8 then Some ''uint8''
      else if b = TID_INT16 then Some ''int16''
      else if b = TID_UINT16 then Some ''uint16''
      else if b = TID_INT32 then Some ''int32''
      else if b = TID_UINT32 then Some ''uint32''
      else if b = TID_INT64 then Some ''int64''
      else if b = TID_UINT64 then Some ''uint64''
      else if b = TID_FLOAT32 then Some ''float32''
      else if b = TID_FLOAT64 then Some ''float64''
      else if b = TID_BOOL then Some ''bool''
      else if b = TID_STRING then Some ''string''
      else None)"

lemmas type_class_defs = is_nested_def is_array_def is_bounded_sequence_def is_unbounded_sequence_def
  is_single_def

end
