(* ===== verification/Type_Desc.thy ===== *)
theory Type_Desc
  imports Type_Id RosZ_Strings
begin

text \<open>
  \<^verbatim>\<open>ros-z-schema/src/type_description.rs\<close>, \<^verbatim>\<open>hash.rs\<close> and \<^verbatim>\<open>lib.rs\<close>: type descriptions
  and the RIHS01 hash of a description.  The JSON writer of the crate \<^verbatim>\<open>serde_json\<close>, SHA-256 of the
  crate \<^verbatim>\<open>sha2\<close> and the hexadecimal codec of the crate \<^verbatim>\<open>hex\<close> are the record \<open>hash_env\<close>; the
  locale \<open>hash_env_laws\<close> states what their documentation promises.
\<close>

section \<open>type_description.rs\<close>

record FieldTypeDescription =
  ftd_type_id :: u8
  ftd_capacity :: "64 word"
  ftd_string_capacity :: "64 word"
  ftd_nested_type_name :: string

record FieldDescription =
  fd_name :: string
  fd_field_type :: FieldTypeDescription
  fd_default_value :: string

record TypeDescription =
  td_type_name :: string
  td_fields :: "FieldDescription list"

record TypeDescriptionMsg =
  tdm_type_description :: TypeDescription
  tdm_referenced :: "TypeDescription list"

definition ftd_primitive :: "u8 \<Rightarrow> FieldTypeDescription" where
  "ftd_primitive type_id =
     \<lparr>ftd_type_id = type_id, ftd_capacity = 0, ftd_string_capacity = 0, ftd_nested_type_name = []\<rparr>"

definition ftd_nested :: "u8 \<Rightarrow> string \<Rightarrow> FieldTypeDescription" where
  "ftd_nested type_id nested_type_name =
     \<lparr>ftd_type_id = type_id, ftd_capacity = 0, ftd_string_capacity = 0,
      ftd_nested_type_name = nested_type_name\<rparr>"

definition ftd_array :: "u8 \<Rightarrow> 64 word \<Rightarrow> FieldTypeDescription" where
  "ftd_array type_id capacity =
     \<lparr>ftd_type_id = type_id, ftd_capacity = capacity, ftd_string_capacity = 0, ftd_nested_type_name = []\<rparr>"

definition ftd_nested_array :: "u8 \<Rightarrow> 64 word \<Rightarrow> string \<Rightarrow> FieldTypeDescription" where
  "ftd_nested_array type_id capacity nested_type_name =
     \<lparr>ftd_type_id = type_id, ftd_capacity = capacity, ftd_string_capacity = 0,
      ftd_nested_type_name = nested_type_name\<rparr>"

subsection \<open>The version that is hashed\<close>

record FieldDescriptionForHash =
  fdh_name :: string
  fdh_field_type :: FieldTypeDescription

record TypeDescriptionForHash =
  tdh_type_name :: string
  tdh_fields :: "FieldDescriptionForHash list"

record TypeDescriptionMsgForHash =
  tdmh_type_description :: TypeDescriptionForHash
  tdmh_referenced :: "TypeDescriptionForHash list"

definition type_for_hash :: "TypeDescription \<Rightarrow> TypeDescriptionForHash" where
  "type_for_hash td =
     \<lparr>tdh_type_name = td_type_name td,
      tdh_fields = map (\<lambda>f. \<lparr>fdh_name = fd_name f, fdh_field_type = fd_field_type f\<rparr>) (td_fields td)\<rparr>"

definition to_hash_version :: "TypeDescriptionMsg \<Rightarrow> TypeDescriptionMsgForHash" where
  "to_hash_version msg =
     \<lparr>tdmh_type_description = type_for_hash (tdm_type_description msg),
      tdmh_referenced = map type_for_hash (tdm_referenced msg)\<rparr>"

section \<open>hash.rs\<close>

record hash_env =
  he_to_string :: "TypeDescriptionMsgForHash \<Rightarrow> string option"
  he_sha256 :: "bytes \<Rightarrow> bytes"
  he_hex_encode :: "bytes \<Rightarrow> string"
  he_hex_decode :: "string \<Rightarrow> bytes option"

text \<open>The loop that puts a space behind every colon and comma that none follows.\<close>

fun add_spaces :: "string \<Rightarrow> string" where
  "add_spaces [] = []"
| "add_spaces [c] = [c]"
| "add_spaces (c # d # r) =
     (if (c = CHR '':'' \<or> c = CHR '','') \<and> d \<noteq> CHR '' '' then c # CHR '' '' # add_spaces (d # r)
      else c # add_spaces (d # r))"

definition to_ros2_json :: "hash_env \<Rightarrow> TypeDescriptionMsgForHash \<Rightarrow> string option" where
  "to_ros2_json H value = map_option add_spaces (he_to_string H value)"

definition str_bytes :: "string \<Rightarrow> bytes" where
  "str_bytes s = map of_char s"

definition calculate_hash :: "hash_env \<Rightarrow> TypeDescriptionMsg \<Rightarrow> (bytes, 'e) result" where
  "calculate_hash H msg =
     (let hash_version = to_hash_version msg
      in case to_ros2_json H hash_version of
           None \<Rightarrow> Panic
         | Some json \<Rightarrow> Ok (he_sha256 H (str_bytes json)))"

section \<open>lib.rs\<close>

datatype rihs_error = InvalidRihsPrefix | InvalidHex | InvalidHashLength nat

definition hash_to_rihs_string :: "hash_env \<Rightarrow> bytes \<Rightarrow> string" where
  "hash_to_rihs_string H hash = ''RIHS01_'' @ he_hex_encode H hash"

definition hash_from_rihs_string :: "hash_env \<Rightarrow> string \<Rightarrow> (bytes, rihs_error) result" where
  "hash_from_rihs_string H s =
     (if \<not> starts_with ''RIHS01_'' s then Err InvalidRihsPrefix
      else let hex_part = drop 7 s
           in bind_result (ok_or InvalidHex (he_hex_decode H hex_part)) (\<lambda>bytes.
              if length bytes \<noteq> 32 then Err (InvalidHashLength (length bytes)) else Ok bytes))"

definition hash_zero :: bytes where
  "hash_zero = replicate 32 0"

section \<open>Laws of the foreign parts\<close>

text \<open>
  Descriptions whose names have no space.  Names in ROS consist of letters, digits, underscores
  and slashes.
\<close>

definition spaceless_type :: "TypeDescriptionForHash \<Rightarrow> bool" where
  "spaceless_type td \<longleftrightarrow> CHR '' '' \<notin> set (tdh_type_name td) \<and>
     list_all (\<lambda>f. CHR '' '' \<notin> set (fdh_name f) \<and>
       CHR '' '' \<notin> set (ftd_nested_type_name (fdh_field_type f))) (tdh_fields td)"

definition spaceless :: "TypeDescriptionMsgForHash \<Rightarrow> bool" where
  "spaceless m \<longleftrightarrow> spaceless_type (tdmh_type_description m) \<and> list_all spaceless_type (tdmh_referenced m)"

text \<open>
  Serialization of strings and numbers does not fail, different values have different JSON texts,
  and the compact form has no white space outside of strings; SHA-256 gives 32 bytes;
  decoding inverts the encoding of bytes as hexadecimal digits.
\<close>

locale hash_env_laws =
  fixes H :: hash_env
  assumes json_total: "he_to_string H m \<noteq> None"
    and json_inj: "he_to_string H m = he_to_string H m' \<Longrightarrow> m = m'"
    and json_compact: "spaceless m \<Longrightarrow> he_to_string H m = Some s \<Longrightarrow> CHR '' '' \<notin> set s"
    and sha256_length: "length (he_sha256 H bs) = 32"
    and hex_inverse: "he_hex_decode H (he_hex_encode H bs) = Some bs"
begin

lemma json_Some: "\<exists>s. he_to_string H m = Some s"
  using json_total [of m] by blast

lemma calculate_hash_Ok:
  "\<exists>s. he_to_string H (to_hash_version msg) = Some s \<and>
     calculate_hash H msg = Ok (he_sha256 H (str_bytes (add_spaces s)))"
  using json_Some [of "to_hash_version msg"] by (auto simp: calculate_hash_def to_ros2_json_def)

lemma calculate_hash_length: "\<exists>h. calculate_hash H msg = Ok h \<and> length h = 32"
  using calculate_hash_Ok [of msg] sha256_length by auto

end

text \<open>Removing the spaces recovers a text that had none.\<close>

lemma remove_spaces: "CHR '' '' \<notin> set s \<Longrightarrow> filter ((\<noteq>) CHR '' '') (add_spaces s) = s"
proof (induction s rule: add_spaces.induct)
  case (3 c d r)
  then have "filter ((\<noteq>) CHR '' '') (add_spaces (d # r)) = d # r"
    by (cases "(c = CHR '':'' \<or> c = CHR '','') \<and> d \<noteq> CHR '' ''") auto
  then show ?case using "3.prems" by auto
qed auto

lemma add_spaces_inj:
  assumes "CHR '' '' \<notin> set s" and "CHR '' '' \<notin> set t" and "add_spaces s = add_spaces t"
  shows "s = t"
  using assms remove_spaces by metis

context hash_env_laws
begin

lemma ros2_json_inj:
  assumes "spaceless m" and "spaceless m'" and "to_ros2_json H m = to_ros2_json H m'"
  shows "m = m'"
proof -
  obtain s s' where s: "he_to_string H m = Some s" "he_to_string H m' = Some s'"
    using json_Some by meson
  with assms have "add_spaces s = add_spaces s'"
    by (simp add: to_ros2_json_def)
  moreover have "CHR '' '' \<notin> set s" "CHR '' '' \<notin> set s'"
    using json_compact [OF assms(1) s(1)] json_compact [OF assms(2) s(2)] by simp_all
  ultimately have "s = s'" using add_spaces_inj by blast
  then show ?thesis using s json_inj by metis
qed

lemma rihs_inverse: "length h = 32 \<Longrightarrow> hash_from_rihs_string H (hash_to_rihs_string H h) = Ok h"
  by (simp add: hash_from_rihs_string_def hash_to_rihs_string_def starts_with_def hex_inverse)

end

section \<open>An instance of the laws\<close>

text \<open>
  The compact JSON text of a description, for names without control characters, which have further
  escapes.  Each part of it is a prefix code, so the text determines the description.
\<close>

definition json_escape :: "char \<Rightarrow> string" where
  "json_escape c = (if c = CHR 0x22 \<or> c = CHR 0x5C then [CHR 0x5C, c] else [c])"

definition json_str :: "string \<Rightarrow> string" where
  "json_str s = [CHR 0x22] @ concat (map json_escape s) @ [CHR 0x22]"

fun json_items :: "('a \<Rightarrow> string) \<Rightarrow> 'a list \<Rightarrow> string" where
  "json_items f [] = '']''"
| "json_items f (x # r) = f x @ (if r = [] then '']'' else '','' @ json_items f r)"

definition json_list :: "('a \<Rightarrow> string) \<Rightarrow> 'a list \<Rightarrow> string" where
  "json_list f xs = ''['' @ json_items f xs"

definition json_key :: "string \<Rightarrow> string" where
  "json_key k = [CHR 0x22] @ k @ [CHR 0x22] @ '':''"

definition json_field_type :: "FieldTypeDescription \<Rightarrow> string" where
  "json_field_type t = ''{'' @ json_key ''type_id'' @ show_nat (unat (ftd_type_id t)) @ '','' @
     json_key ''capacity'' @ show_nat (unat (ftd_capacity t)) @ '','' @
     json_key ''string_capacity'' @ show_nat (unat (ftd_string_capacity t)) @ '','' @
     json_key ''nested_type_name'' @ json_str (ftd_nested_type_name t) @ ''}''"

definition json_field :: "FieldDescriptionForHash \<Rightarrow> string" where
  "json_field f = ''{'' @ json_key ''name'' @ json_str (fdh_name f) @ '','' @
     json_key ''type'' @ json_field_type (fdh_field_type f) @ ''}''"

definition json_type :: "TypeDescriptionForHash \<Rightarrow> string" where
  "json_type t = ''{'' @ json_key ''type_name'' @ json_str (tdh_type_name t) @ '','' @
     json_key ''fields'' @ json_list json_field (tdh_fields t) @ ''}''"

definition json_msg :: "TypeDescriptionMsgForHash \<Rightarrow> string" where
  "json_msg m = ''{'' @ json_key ''type_description'' @ json_type (tdmh_type_description m) @ '','' @
     json_key ''referenced_type_descriptions'' @ json_list json_type (tdmh_referenced m) @ ''}''"

definition prefix_code :: "('a \<Rightarrow> string) \<Rightarrow> bool" where
  "prefix_code f \<longleftrightarrow> (\<forall>x y s t. f x @ s = f y @ t \<longrightarrow> x = y \<and> s = t)"

lemma prefix_codeD: "prefix_code f \<Longrightarrow> f x @ s = f y @ t \<longleftrightarrow> x = y \<and> s = t"
  by (auto simp: prefix_code_def)

lemma prefix_codeI: "(\<And>x y s t. f x @ s = f y @ t \<Longrightarrow> x = y \<and> s = t) \<Longrightarrow> prefix_code f"
  by (auto simp: prefix_code_def)

lemma json_escape_code:
  "concat (map json_escape x) @ CHR 0x22 # s = concat (map json_escape y) @ CHR 0x22 # t \<Longrightarrow>
   x = y \<and> s = t"
proof (induction x arbitrary: y)
  case Nil
  then show ?case by (cases y) (auto simp: json_escape_def split: if_splits)
next
  case (Cons a x)
  then show ?case by (cases y) (auto simp: json_escape_def split: if_splits)
qed

lemma json_str_code: "prefix_code json_str"
proof (rule prefix_codeI)
  fix x y s t
  assume "json_str x @ s = json_str y @ t"
  then have "concat (map json_escape x) @ CHR 0x22 # s = concat (map json_escape y) @ CHR 0x22 # t"
    by (simp add: json_str_def)
  then show "x = y \<and> s = t" by (rule json_escape_code)
qed

lemma show_nat_comma:
  "show_nat m @ CHR '','' # s = show_nat n @ CHR '','' # t \<longleftrightarrow> m = n \<and> s = t"
proof
  assume eq: "show_nat m @ CHR '','' # s = show_nat n @ CHR '','' # t"
  have take: "takeWhile ((\<noteq>) CHR '','') (show_nat k @ CHR '','' # r) = show_nat k" for k r
    using show_nat_not_in [of "CHR '',''" k] by (subst takeWhile_append2) auto
  from arg_cong [OF eq, of "takeWhile ((\<noteq>) CHR '','')"] have "show_nat m = show_nat n"
    by (simp only: take)
  moreover from this have "m = n" by (metis parse_digits_show option.inject)
  ultimately show "m = n \<and> s = t" using eq by simp
qed simp

lemma json_field_type_code: "prefix_code json_field_type"
  by (rule prefix_codeI) (auto simp: json_field_type_def show_nat_comma prefix_codeD [OF json_str_code]
      word_unat_eq_iff [symmetric] intro: FieldTypeDescription.equality)

lemma json_field_code: "prefix_code json_field"
  by (rule prefix_codeI) (auto simp: json_field_def prefix_codeD [OF json_str_code]
      prefix_codeD [OF json_field_type_code] intro: FieldDescriptionForHash.equality)

lemma json_items_code:
  assumes "prefix_code f" and "\<And>x. f x \<noteq> [] \<and> hd (f x) \<noteq> CHR '']''"
  shows "json_items f xs @ s = json_items f ys @ t \<Longrightarrow> xs = ys \<and> s = t"
proof (induction xs arbitrary: ys)
  case Nil
  show ?case
  proof (cases ys)
    case (Cons y r)
    with Nil have "f y @ (if r = [] then '']'' else '','' @ json_items f r) @ t = CHR '']'' # s" by simp
    with assms(2) [of y] show ?thesis by (cases "f y") auto
  qed (use Nil in simp)
next
  case (Cons x r)
  show ?case
  proof (cases ys)
    case Nil
    with Cons.prems have "f x @ (if r = [] then '']'' else '','' @ json_items f r) @ s = CHR '']'' # t" by simp
    with assms(2) [of x] show ?thesis by (cases "f x") auto
  next
    case (Cons y r')
    with Cons.prems have "x = y" and
      "(if r = [] then '']'' else '','' @ json_items f r) @ s =
       (if r' = [] then '']'' else '','' @ json_items f r') @ t"
      by (simp_all add: prefix_codeD [OF assms(1)])
    then show ?thesis
      using Cons Cons.IH [of r'] by (auto split: if_splits)
  qed
qed

lemma json_list_code:
  assumes "prefix_code f" and "\<And>x. f x \<noteq> [] \<and> hd (f x) \<noteq> CHR '']''"
  shows "prefix_code (json_list f)"
  by (rule prefix_codeI) (simp add: json_list_def json_items_code [OF assms])

lemma json_fields_code: "prefix_code (json_list json_field)"
  by (rule json_list_code [OF json_field_code]) (simp add: json_field_def)

lemma json_type_code: "prefix_code json_type"
  by (rule prefix_codeI) (auto simp: json_type_def prefix_codeD [OF json_str_code]
      prefix_codeD [OF json_fields_code] intro: TypeDescriptionForHash.equality)

lemma json_types_code: "prefix_code (json_list json_type)"
  by (rule json_list_code [OF json_type_code]) (simp add: json_type_def)

lemma json_msg_code: "prefix_code json_msg"
  by (rule prefix_codeI) (auto simp: json_msg_def prefix_codeD [OF json_type_code]
      prefix_codeD [OF json_types_code] intro: TypeDescriptionMsgForHash.equality)

lemma json_msg_inj: "json_msg m = json_msg m' \<longleftrightarrow> m = m'"
  using prefix_codeD [OF json_msg_code, of m "[]" m' "[]"] by simp

lemma json_str_spaceless: "CHR '' '' \<notin> set s \<Longrightarrow> CHR '' '' \<notin> set (json_str s)"
  by (auto simp: json_str_def json_escape_def split: if_splits)

lemma json_list_spaceless:
  "(\<And>x. x \<in> set xs \<Longrightarrow> CHR '' '' \<notin> set (f x)) \<Longrightarrow> CHR '' '' \<notin> set (json_list f xs)"
proof -
  have "CHR '' '' \<notin> set (json_items f xs)" if "\<And>x. x \<in> set xs \<Longrightarrow> CHR '' '' \<notin> set (f x)"
    using that by (induction xs) auto
  then show "(\<And>x. x \<in> set xs \<Longrightarrow> CHR '' '' \<notin> set (f x)) \<Longrightarrow> CHR '' '' \<notin> set (json_list f xs)"
    by (simp add: json_list_def)
qed

lemma show_nat_spaceless [simp]: "CHR '' '' \<notin> set (show_nat n)"
  by (rule show_nat_not_in) simp

lemma json_field_spaceless:
  "CHR '' '' \<notin> set (fdh_name f) \<Longrightarrow> CHR '' '' \<notin> set (ftd_nested_type_name (fdh_field_type f)) \<Longrightarrow>
   CHR '' '' \<notin> set (json_field f)"
  using json_str_spaceless by (auto simp: json_field_def json_field_type_def json_key_def)

lemma json_type_spaceless: "spaceless_type t \<Longrightarrow> CHR '' '' \<notin> set (json_type t)"
  using json_str_spaceless [of "tdh_type_name t"] json_list_spaceless [of "tdh_fields t" json_field]
    json_field_spaceless
  by (auto simp: json_type_def json_key_def spaceless_type_def list_all_iff)

lemma json_msg_spaceless: "spaceless m \<Longrightarrow> CHR '' '' \<notin> set (json_msg m)"
  using json_list_spaceless [of "tdmh_referenced m" json_type] json_type_spaceless
  by (auto simp: json_msg_def json_key_def spaceless_def list_all_iff)

fun hex_pairs :: "string \<Rightarrow> bytes option" where
  "hex_pairs [] = Some []"
| "hex_pairs [c] = None"
| "hex_pairs (c # d # r) =
     (case (parse_hex_u8 [c, d], hex_pairs r) of (Some b, Some bs) \<Rightarrow> Some (b # bs) | _ \<Rightarrow> None)"

lemma hex_pairs_show: "hex_pairs (concat (map show_hex2 bs)) = Some bs"
proof (induction bs)
  case (Cons b bs)
  moreover have "concat (map show_hex2 (b # bs)) =
      show_hex2 b ! 0 # show_hex2 b ! 1 # concat (map show_hex2 bs)"
    by (simp add: show_hex2_def)
  moreover have "[show_hex2 b ! 0, show_hex2 b ! 1] = show_hex2 b"
    by (simp add: show_hex2_def)
  ultimately show ?case by (simp del: concat.simps list.map)
qed simp

text \<open>A checksum stands for SHA-256 here.\<close>

definition sample_hash_env :: hash_env where
  "sample_hash_env =
     \<lparr>he_to_string = \<lambda>m. Some (json_msg m),
      he_sha256 = \<lambda>bs. replicate 31 0 @ [sum_list bs],
      he_hex_encode = \<lambda>bs. concat (map show_hex2 bs),
      he_hex_decode = hex_pairs\<rparr>"

interpretation sh: hash_env_laws sample_hash_env
  by unfold_locales
    (auto simp: sample_hash_env_def json_msg_inj json_msg_spaceless hex_pairs_show)

end
