(* ===== verification/Type_Hashing.thy ===== *)
theory Type_Hashing
  imports Type_Desc Msg_Types RosZ_Collections RosZ_Text
begin

text \<open>
  \<^verbatim>\<open>ros-z-codegen/src/hashing.rs\<close>: the type description of a parsed message and of a service, and
  their hashes.  The recursive collection of referenced types is a partial function: where it does
  not end the program exhausts its stack, which the callers turn into \<open>Panic\<close>.
\<close>

section \<open>Type ids\<close>

datatype resolve_error =
    UnsupportedFieldType string ArrayType
  | MaxIterationsExceeded nat "string list"
  | ResolutionStalled nat nat "(string \<times> ParsedFieldType list) list"
  | ServiceEventInfoMissing
  | JsonFailed

definition is_primitive_type :: "string \<Rightarrow> bool" where
  "is_primitive_type base_type \<longleftrightarrow> base_type \<in> set [''bool'', ''byte'', ''char'', ''uint8'', ''int8'',
     ''uint16'', ''int16'', ''uint32'', ''int32'', ''uint64'', ''int64'', ''float32'', ''float64'', ''string'']"

definition single_type_id :: "string \<Rightarrow> u8 option" where
  "single_type_id base =
     (if base = ''int8'' then Some TID_INT8
      else if base = ''uint8'' \<or> base = ''byte'' \<or> base = ''char'' then Some TID_UINT8
      else if base = ''int16'' then Some TID_INT16
      else if base = ''uint16'' then Some TID_UINT16
      else if base = ''int32'' then Some TID_INT32
      else if base = ''uint32'' then Some TID_UINT32
      else if base = ''int64'' then Some TID_INT64
      else if base = ''uint64'' then Some TID_UINT64
      else if base = ''float32'' then Some TID_FLOAT32
      else if base = ''float64'' then Some TID_FLOAT64
      else if base = ''bool'' then Some TID_BOOL
      else if base = ''string'' then Some TID_STRING
      else None)"

definition array_type_id :: "string \<Rightarrow> u8 option" where
  "array_type_id base =
     (if base = ''int8'' then Some TID_INT8_ARRAY
      else if base = ''uint8'' \<or> base = ''byte'' \<or> base = ''char'' then Some TID_UINT8_ARRAY
      else if base = ''int16'' then Some TID_INT16_ARRAY
      else if base = ''uint16'' then Some TID_UINT16_ARRAY
      else if base = ''int32'' then Some TID_INT32_ARRAY
      else if base = ''uint32'' then Some TID_UINT32_ARRAY
      else if base = ''int64'' then Some TID_INT64_ARRAY
      else if base = ''uint64'' then Some TID_UINT64_ARRAY
      else if base = ''float32'' then Some TID_FLOAT32_ARRAY
      else if base = ''float64'' then Some TID_FLOAT64_ARRAY
      else if base = ''bool'' then Some TID_BOOL_ARRAY
      else if base = ''string'' then Some TID_STRING_ARRAY
      else None)"

definition bounded_type_id :: "string \<Rightarrow> u8 option" where
  "bounded_type_id base =
     (if base = ''int8'' then Some TID_INT8_BOUNDED_SEQUENCE
      else if base = ''uint8'' \<or> base = ''byte'' \<or> base = ''char'' then Some TID_UINT8_BOUNDED_SEQUENCE
      else if base = ''int16'' then Some TID_INT16_BOUNDED_SEQUENCE
      else if base = ''uint16'' then Some TID_UINT16_BOUNDED_SEQUENCE
      else if base = ''int32'' then Some TID_INT32_BOUNDED_SEQUENCE
      else if base = ''uint32'' then Some TID_UINT32_BOUNDED_SEQUENCE
      else if base = ''int64'' then Some TID_INT64_BOUNDED_SEQUENCE
      else if base = ''uint64'' then Some TID_UINT64_BOUNDED_SEQUENCE
      else if base = ''float32'' then Some TID_FLOAT32_BOUNDED_SEQUENCE
      else if base = ''float64'' then Some TID_FLOAT64_BOUNDED_SEQUENCE
      else if base = ''bool'' then Some TID_BOOL_BOUNDED_SEQUENCE
      else if base = ''string'' then Some TID_STRING_BOUNDED_SEQUENCE
      else None)"

definition unbounded_type_id :: "string \<Rightarrow> u8 option" where
  "unbounded_type_id base =
     (if base = ''int8'' then Some TID_INT8_UNBOUNDED_SEQUENCE
      else if base = ''uint8'' \<or> base = ''byte'' \<or> base = ''char'' then Some TID_UINT8_UNBOUNDED_SEQUENCE
      else if base = ''int16'' then Some TID_INT16_UNBOUNDED_SEQUENCE
      else if base = ''uint16'' then Some TID_UINT16_UNBOUNDED_SEQUENCE
      else if base = ''int32'' then Some TID_INT32_UNBOUNDED_SEQUENCE
      else if base = ''uint32'' then Some TID_UINT32_UNBOUNDED_SEQUENCE
      else if base = ''int64'' then Some TID_INT64_UNBOUNDED_SEQUENCE
      else if base = ''uint64'' then Some TID_UINT64_UNBOUNDED_SEQUENCE
      else if base = ''float32'' then Some TID_FLOAT32_UNBOUNDED_SEQUENCE
      else if base = ''float64'' then Some TID_FLOAT64_UNBOUNDED_SEQUENCE
      else if base = ''bool'' then Some TID_BOOL_UNBOUNDED_SEQUENCE
      else if base = ''string'' then Some TID_STRING_UNBOUNDED_SEQUENCE
      else None)"

definition get_type_id :: "ParsedFieldType \<Rightarrow> (u8, resolve_error) result" where
  "get_type_id field_type =
     (let base = pft_base_type field_type;
          array = pft_array field_type;
          has_package = pft_package field_type \<noteq> None;
          is_bounded_string = pft_string_bound field_type \<noteq> None
      in if has_package \<or> \<not> is_primitive_type base then
           Ok (case array of
                 Single \<Rightarrow> TID_NESTED_TYPE
               | Fixed _ \<Rightarrow> TID_NESTED_TYPE_ARRAY
               | Bounded _ \<Rightarrow> TID_NESTED_TYPE_BOUNDED_SEQUENCE
               | Unbounded \<Rightarrow> TID_NESTED_TYPE_UNBOUNDED_SEQUENCE)
         else if is_bounded_string \<and> base = ''string'' then Ok TID_BOUNDED_STRING
         else ok_or (UnsupportedFieldType base array)
           (case array of
              Single \<Rightarrow> single_type_id base
            | Fixed _ \<Rightarrow> array_type_id base
            | Bounded _ \<Rightarrow> bounded_type_id base
            | Unbounded \<Rightarrow> unbounded_type_id base))"

definition get_array_capacity :: "ParsedFieldType \<Rightarrow> 64 word" where
  "get_array_capacity field_type =
     (case pft_array field_type of Fixed n \<Rightarrow> of_nat n | Bounded n \<Rightarrow> of_nat n | _ \<Rightarrow> 0)"

definition get_nested_type_name_with_context :: "ParsedFieldType \<Rightarrow> string \<Rightarrow> string" where
  "get_nested_type_name_with_context field_type source_package =
     (let pkg = unwrap_or (pft_package field_type) source_package
      in pkg @ ''/msg/'' @ pft_base_type field_type)"

section \<open>Messages\<close>

partial_function (option) collect_referenced_types ::
    "TypeDescription btree \<Rightarrow> FieldDescription list \<Rightarrow> TypeDescription btree \<Rightarrow>
     TypeDescription btree option" where
  "collect_referenced_types all_deps flds collected =
     (case flds of
        [] \<Rightarrow> Some collected
      | field # rest \<Rightarrow>
          if ftd_nested_type_name (fd_field_type field) = [] then collect_referenced_types all_deps rest collected
          else case btree_get all_deps (ftd_nested_type_name (fd_field_type field)) of
              None \<Rightarrow> collect_referenced_types all_deps rest collected
            | Some dep \<Rightarrow>
                if btree_contains collected (td_type_name dep)
                then collect_referenced_types all_deps rest collected
                else Option.bind (collect_referenced_types all_deps (td_fields dep) collected) (\<lambda>c.
                  collect_referenced_types all_deps rest (btree_insert (td_type_name dep) dep c)))"

declare collect_referenced_types.simps [code]

text \<open>A recursion that does not end exhausts the stack.\<close>

definition on_stack :: "'a option \<Rightarrow> ('a, 'e) result" where
  "on_stack r = (case r of None \<Rightarrow> Panic | Some x \<Rightarrow> Ok x)"

definition field_type_description :: "string \<Rightarrow> ParsedFieldType \<Rightarrow> u8 \<Rightarrow> FieldTypeDescription" where
  "field_type_description package ft type_id =
     (let capacity = get_array_capacity ft;
          string_capacity = of_nat (unwrap_or (pft_string_bound ft) 0);
          nested_type_name = (if is_primitive_type (pft_base_type ft) then []
            else get_nested_type_name_with_context ft package)
      in if nested_type_name = [] then
           (if 0 < capacity then ftd_array type_id capacity
            else if 0 < string_capacity then
              \<lparr>ftd_type_id = type_id, ftd_capacity = 0, ftd_string_capacity = string_capacity,
               ftd_nested_type_name = []\<rparr>
            else ftd_primitive type_id)
         else if 0 < capacity then ftd_nested_array type_id capacity nested_type_name
         else ftd_nested type_id nested_type_name)"

definition dep_key :: "string \<Rightarrow> ParsedFieldType \<Rightarrow> string" where
  "dep_key package ft = unwrap_or (pft_package ft) package @ ''/'' @ pft_base_type ft"

fun build_fields ::
    "TypeDescription btree \<Rightarrow> string \<Rightarrow> ParsedField list \<Rightarrow> FieldDescription list \<Rightarrow>
     TypeDescription btree \<Rightarrow> (FieldDescription list \<times> TypeDescription btree, resolve_error) result" where
  "build_fields resolved_deps package [] flds referenced = Ok (flds, referenced)"
| "build_fields resolved_deps package (field # rest) flds referenced =
     bind_result (get_type_id (pf_field_type field)) (\<lambda>type_id.
       let desc = \<lparr>fd_name = pf_name field,
                   fd_field_type = field_type_description package (pf_field_type field) type_id,
                   fd_default_value = []\<rparr>
       in if is_primitive_type (pft_base_type (pf_field_type field))
          then build_fields resolved_deps package rest (flds @ [desc]) referenced
          else case btree_get resolved_deps (dep_key package (pf_field_type field)) of
              None \<Rightarrow> build_fields resolved_deps package rest (flds @ [desc]) referenced
            | Some dep_desc \<Rightarrow>
                bind_result (on_stack (collect_referenced_types resolved_deps (td_fields dep_desc) referenced))
                  (\<lambda>referenced'. build_fields resolved_deps package rest (flds @ [desc])
                     (btree_insert (td_type_name dep_desc) dep_desc referenced')))"

definition empty_member :: FieldDescription where
  "empty_member = \<lparr>fd_name = ''structure_needs_at_least_one_member'',
     fd_field_type = ftd_primitive TID_UINT8, fd_default_value = []\<rparr>"

definition build_type_description_msg ::
    "ParsedMessage \<Rightarrow> TypeDescription btree \<Rightarrow> (TypeDescriptionMsg, resolve_error) result" where
  "build_type_description_msg msg resolved_deps =
     bind_result
       (if pm_fields msg = [] then Ok ([empty_member], [])
        else build_fields resolved_deps (pm_package msg) (pm_fields msg) [] [])
       (\<lambda>(flds, referenced).
         Ok \<lparr>tdm_type_description =
               \<lparr>td_type_name = pm_package msg @ ''/msg/'' @ pm_name msg, td_fields = flds\<rparr>,
             tdm_referenced = btree_values referenced\<rparr>)"

definition calculate_type_hash ::
    "hash_env \<Rightarrow> ParsedMessage \<Rightarrow> TypeDescription btree \<Rightarrow> (bytes, resolve_error) result" where
  "calculate_type_hash H msg resolved_deps =
     bind_result (build_type_description_msg msg resolved_deps) (calculate_hash H)"

section \<open>Services\<close>

definition nested_field :: "string \<Rightarrow> string \<Rightarrow> FieldDescription" where
  "nested_field name type_name =
     \<lparr>fd_name = name, fd_field_type = ftd_nested TID_NESTED_TYPE type_name, fd_default_value = []\<rparr>"

definition event_field :: "string \<Rightarrow> string \<Rightarrow> FieldDescription" where
  "event_field name type_name =
     \<lparr>fd_name = name, fd_field_type = ftd_nested_array TID_NESTED_TYPE_BOUNDED_SEQUENCE 1 type_name,
      fd_default_value = []\<rparr>"

definition service_description ::
    "string \<Rightarrow> string \<Rightarrow> TypeDescription \<Rightarrow> TypeDescription \<Rightarrow> TypeDescription \<Rightarrow>
     TypeDescription btree \<Rightarrow> TypeDescriptionMsg" where
  "service_description package service_name request_desc response_desc service_event_info_desc resolved_deps =
     (let is_action = contains_sub ''SendGoal'' service_name \<or> contains_sub ''GetResult'' service_name \<or>
            contains_sub ''CancelGoal'' service_name;
          path = (if is_action then ''action'' else ''srv'');
          service_type_name = package @ ''/'' @ path @ ''/'' @ service_name;
          request_type_name = package @ ''/'' @ path @ ''/'' @ service_name @ ''_Request'';
          response_type_name = package @ ''/'' @ path @ ''/'' @ service_name @ ''_Response'';
          event_type_name = package @ ''/'' @ path @ ''/'' @ service_name @ ''_Event'';
          event_desc = \<lparr>td_type_name = event_type_name,
            td_fields = [nested_field ''info'' (td_type_name service_event_info_desc),
              event_field ''request'' request_type_name, event_field ''response'' response_type_name]\<rparr>;
          service_desc = \<lparr>td_type_name = service_type_name,
            td_fields = [nested_field ''request_message'' request_type_name,
              nested_field ''response_message'' response_type_name,
              nested_field ''event_message'' event_type_name]\<rparr>;
          request_desc_corrected = request_desc\<lparr>td_type_name := request_type_name\<rparr>;
          response_desc_corrected = response_desc\<lparr>td_type_name := response_type_name\<rparr>;
          referenced = foldl (\<lambda>m desc. btree_insert (td_type_name desc) desc m) [] (btree_values resolved_deps);
          referenced = btree_insert event_type_name event_desc referenced;
          referenced = btree_insert request_type_name request_desc_corrected referenced;
          referenced = btree_insert response_type_name response_desc_corrected referenced
      in \<lparr>tdm_type_description = service_desc,
          tdm_referenced = sort_key td_type_name (btree_values referenced)\<rparr>)"

definition calculate_service_type_hash ::
    "hash_env \<Rightarrow> string \<Rightarrow> string \<Rightarrow> TypeDescription \<Rightarrow> TypeDescription \<Rightarrow> TypeDescription \<Rightarrow>
     TypeDescription btree \<Rightarrow> (bytes, resolve_error) result" where
  "calculate_service_type_hash H package service_name request_desc response_desc service_event_info_desc
     resolved_deps =
     calculate_hash H (service_description package service_name request_desc response_desc
       service_event_info_desc resolved_deps)"

end
