(* ===== verification/Msg_Resolver.thy ===== *)
theory Msg_Resolver
  imports Type_Hashing
begin

text \<open>
  \<^verbatim>\<open>ros-z-codegen/src/resolver.rs\<close>: the resolver orders parsed messages by their dependencies,
  keeps the type description of every resolved type and computes the type hashes of messages,
  services and actions.  The order in which the hash table of resolved messages is iterated is a
  parameter; so are the foreign functions of \<open>hash_env\<close>.
\<close>

section \<open>State\<close>

record Resolver =
  rv_type_descriptions :: "TypeDescription btree"
  rv_resolved_messages :: "string \<rightharpoonup> ResolvedMessage"
  rv_is_humble :: bool
  rv_external_packages :: "string set"

definition resolver_with_external_packages :: "bool \<Rightarrow> string set \<Rightarrow> Resolver" where
  "resolver_with_external_packages is_humble external_packages =
     \<lparr>rv_type_descriptions = [], rv_resolved_messages = Map.empty, rv_is_humble = is_humble,
      rv_external_packages = external_packages\<rparr>"

definition resolver_new :: "bool \<Rightarrow> Resolver" where
  "resolver_new is_humble =
     \<lparr>rv_type_descriptions = [], rv_resolved_messages = Map.empty, rv_is_humble = is_humble,
      rv_external_packages = {}\<rparr>"

definition is_external_package :: "Resolver \<Rightarrow> string \<Rightarrow> bool" where
  "is_external_package r package \<longleftrightarrow> package \<in> rv_external_packages r"

definition message_key :: "ParsedMessage \<Rightarrow> string" where
  "message_key msg = pm_package msg @ ''/'' @ pm_name msg"

definition is_type_resolved :: "Resolver \<Rightarrow> string option \<Rightarrow> string \<Rightarrow> bool" where
  "is_type_resolved r package base =
     (case package of
        Some pkg \<Rightarrow> btree_contains (rv_type_descriptions r) (pkg @ ''/'' @ base)
      | None \<Rightarrow> False)"

definition is_type_resolved_in_context :: "Resolver \<Rightarrow> string option \<Rightarrow> string \<Rightarrow> string \<Rightarrow> bool" where
  "is_type_resolved_in_context r package base source_package =
     (case package of
        Some pkg \<Rightarrow> if is_external_package r pkg then True
          else btree_contains (rv_type_descriptions r) (pkg @ ''/'' @ base)
      | None \<Rightarrow> btree_contains (rv_type_descriptions r) (source_package @ ''/'' @ base))"

definition all_deps_resolved :: "Resolver \<Rightarrow> ParsedMessage \<Rightarrow> bool" where
  "all_deps_resolved r msg \<longleftrightarrow> list_all (\<lambda>field.
     is_primitive_type (pft_base_type (pf_field_type field)) \<or>
     is_type_resolved_in_context r (pft_package (pf_field_type field))
       (pft_base_type (pf_field_type field)) (pm_package msg)) (pm_fields msg)"

section \<open>Descriptions of resolved messages\<close>

text \<open>Names with the suffixes of action components are moved to the action namespace.\<close>

definition component_type_name :: "string \<Rightarrow> string \<Rightarrow> string" where
  "component_type_name pkg name =
     (if ends_with ''Goal'' name then pkg @ ''/action/'' @ take (length name - 4) name @ ''_Goal''
      else if ends_with ''Result'' name then pkg @ ''/action/'' @ take (length name - 6) name @ ''_Result''
      else if ends_with ''Feedback'' name then pkg @ ''/action/'' @ take (length name - 8) name @ ''_Feedback''
      else pkg @ ''/msg/'' @ name)"

definition resolved_field :: "string \<Rightarrow> ParsedField \<Rightarrow> FieldDescription" where
  "resolved_field package field =
     (let ft = pf_field_type field;
          pkg = unwrap_or (pft_package ft) package
      in \<lparr>fd_name = pf_name field,
          fd_field_type =
            \<lparr>ftd_type_id = (case get_type_id ft of Ok i \<Rightarrow> i | _ \<Rightarrow> 0),
             ftd_capacity = (case pft_array ft of Fixed n \<Rightarrow> of_nat n | Bounded n \<Rightarrow> of_nat n | _ \<Rightarrow> 0),
             ftd_string_capacity = of_nat (unwrap_or (pft_string_bound ft) 0),
             ftd_nested_type_name = (if is_primitive_type (pft_base_type ft) then []
               else component_type_name pkg (pft_base_type ft))\<rparr>,
          fd_default_value = []\<rparr>)"

definition type_description :: "ResolvedMessage \<Rightarrow> TypeDescription" where
  "type_description m =
     (let p = rm_parsed m
      in \<lparr>td_type_name = component_type_name (pm_package p) (pm_name p),
          td_fields = (if pm_fields p = [] then [empty_member]
            else map (resolved_field (pm_package p)) (pm_fields p))\<rparr>)"

section \<open>Messages\<close>

text \<open>The keys of the fields with a package, each once, in the order of their first occurrence.\<close>

definition nested_keys :: "ParsedMessage \<Rightarrow> string list" where
  "nested_keys msg = foldl (\<lambda>keys field.
     case pft_package (pf_field_type field) of
       None \<Rightarrow> keys
     | Some pkg \<Rightarrow> let key = pkg @ ''/'' @ pft_base_type (pf_field_type field)
         in if key \<in> set keys then keys else keys @ [key]) [] (pm_fields msg)"

definition expand_definition :: "Resolver \<Rightarrow> ParsedMessage \<Rightarrow> string" where
  "expand_definition r msg = foldl (\<lambda>d nested_key.
     case rv_resolved_messages r nested_key of
       None \<Rightarrow> d
     | Some resolved \<Rightarrow> d @ [CHR 0x0A, CHR 0x0A] @ replicate 80 CHR ''='' @ [CHR 0x0A] @
         ''MSG: '' @ nested_key @ [CHR 0x0A] @ rm_definition resolved)
     (pm_source msg) (nested_keys msg)"

definition resolve_message :: "hash_env \<Rightarrow> Resolver \<Rightarrow> ParsedMessage \<Rightarrow> (ResolvedMessage, resolve_error) result" where
  "resolve_message H r msg =
     bind_result (calculate_type_hash H msg (rv_type_descriptions r)) (\<lambda>type_hash.
       Ok \<lparr>rm_parsed = msg, rm_type_hash = type_hash, rm_definition = expand_definition r msg\<rparr>)"

definition add_type_description :: "string \<Rightarrow> TypeDescription \<Rightarrow> Resolver \<Rightarrow> Resolver" where
  "add_type_description key desc r =
     r\<lparr>rv_type_descriptions := btree_insert key desc (rv_type_descriptions r)\<rparr>"

definition store_resolved :: "ResolvedMessage \<Rightarrow> Resolver \<Rightarrow> Resolver" where
  "store_resolved resolved r =
     (let key = message_key (rm_parsed resolved);
          r' = add_type_description key (type_description resolved) r
      in r'\<lparr>rv_resolved_messages := (rv_resolved_messages r')(key \<mapsto> resolved)\<rparr>)"

definition MAX_ITERATIONS :: nat where
  "MAX_ITERATIONS = 10000"

definition unresolved_deps :: "Resolver \<Rightarrow> ParsedMessage \<Rightarrow> ParsedFieldType list" where
  "unresolved_deps r m = map pf_field_type (filter (\<lambda>f.
     \<not> is_primitive_type (pft_base_type (pf_field_type f)) \<and>
     \<not> is_type_resolved r (pft_package (pf_field_type f)) (pft_base_type (pf_field_type f))) (pm_fields m))"

text \<open>
  One round: the message at the head of the queue is resolved, or put back at its end.  The result
  is the new state, the queue and the stagnation counter.
\<close>

definition resolve_head ::
    "hash_env \<Rightarrow> Resolver \<Rightarrow> ParsedMessage \<Rightarrow> ParsedMessage list \<Rightarrow> nat \<Rightarrow>
     (Resolver \<times> ParsedMessage list \<times> nat, resolve_error) result" where
  "resolve_head H r msg queue stagnant =
     (if all_deps_resolved r msg
      then bind_result (resolve_message H r msg) (\<lambda>resolved. Ok (store_resolved resolved r, queue, 0))
      else Ok (r, queue @ [msg], stagnant))"

function resolve_loop ::
    "hash_env \<Rightarrow> Resolver \<Rightarrow> ParsedMessage list \<Rightarrow> nat \<Rightarrow> nat \<Rightarrow> nat \<Rightarrow>
     (unit, resolve_error) result \<times> Resolver" where
  "resolve_loop H r [] iterations last_queue_size stagnant = (Ok (), r)"
| "resolve_loop H r (msg # queue) iterations last_queue_size stagnant =
     (if MAX_ITERATIONS \<le> iterations
      then (Err (MaxIterationsExceeded (length queue + 1) (map message_key (take 10 queue))), r)
      else case resolve_head H r msg queue stagnant of
          Err e \<Rightarrow> (Err e, r)
        | Panic \<Rightarrow> (Panic, r)
        | Ok (r', queue', stagnant') \<Rightarrow>
            if length queue' = last_queue_size then
              (if 100 < stagnant' + 1
               then (Err (ResolutionStalled (iterations + 1) (length queue')
                      (map (\<lambda>m. (message_key m, unresolved_deps r' m)) (take 10 queue'))), r')
               else resolve_loop H r' queue' (iterations + 1) last_queue_size (stagnant' + 1))
            else resolve_loop H r' queue' (iterations + 1) (length queue') 0)"
  by pat_completeness auto
termination
  by (relation "measure (\<lambda>(H, r, queue, iterations, last, stagnant). MAX_ITERATIONS - iterations)") auto

definition resolve_messages ::
    "hash_env \<Rightarrow> (string set \<Rightarrow> string list) \<Rightarrow> ParsedMessage list \<Rightarrow>
     (Resolver, ResolvedMessage list, resolve_error) exec" where
  "resolve_messages H order messages = (\<lambda>r.
     case resolve_loop H r messages 0 (length messages) 0 of
       (Ok _, r') \<Rightarrow> (Ok (map (the \<circ> rv_resolved_messages r') (order (dom (rv_resolved_messages r')))), r')
     | (Err e, r') \<Rightarrow> (Err e, r')
     | (Panic, r') \<Rightarrow> (Panic, r'))"

section \<open>Services\<close>

definition nested_lookup_key :: "string \<Rightarrow> string" where
  "nested_lookup_key nested_name =
     (if contains_sub ''/msg/'' nested_name then str_replace ''/msg/'' ''/'' nested_name
      else if contains_sub ''/srv/'' nested_name then str_replace ''/srv/'' ''/'' nested_name
      else nested_name)"

partial_function (option) collect_nested_deps ::
    "TypeDescription btree \<Rightarrow> FieldDescription list \<Rightarrow> TypeDescription btree \<Rightarrow>
     TypeDescription btree option" where
  "collect_nested_deps descs flds collected =
     (case flds of
        [] \<Rightarrow> Some collected
      | field # rest \<Rightarrow>
          let nested_name = ftd_nested_type_name (fd_field_type field) in
          if nested_name = [] \<or> btree_contains collected nested_name
          then collect_nested_deps descs rest collected
          else case btree_get descs (nested_lookup_key nested_name) of
              None \<Rightarrow> collect_nested_deps descs rest collected
            | Some dep_desc \<Rightarrow>
                Option.bind (collect_nested_deps descs (td_fields dep_desc)
                    (btree_insert (td_type_name dep_desc) dep_desc collected)) (\<lambda>c.
                  collect_nested_deps descs rest c))"

declare collect_nested_deps.simps [code]

definition insert_desc :: "TypeDescription \<Rightarrow> TypeDescription btree \<Rightarrow> TypeDescription btree" where
  "insert_desc desc deps = btree_insert (td_type_name desc) desc deps"

definition insert_known :: "TypeDescription btree \<Rightarrow> string \<Rightarrow> TypeDescription btree \<Rightarrow> TypeDescription btree" where
  "insert_known descs key deps =
     (case btree_get descs key of None \<Rightarrow> deps | Some desc \<Rightarrow> insert_desc desc deps)"

definition service_type_hash ::
    "hash_env \<Rightarrow> TypeDescription btree \<Rightarrow> ParsedService \<Rightarrow> ResolvedMessage \<Rightarrow> ResolvedMessage \<Rightarrow>
     (bytes, resolve_error) result" where
  "service_type_hash H descs srv request response =
     bind_result (ok_or ServiceEventInfoMissing (btree_get descs ''service_msgs/ServiceEventInfo'')) (\<lambda>info.
       let service_deps = insert_known descs ''builtin_interfaces/Time'' (insert_desc info [])
       in bind_result (on_stack (collect_nested_deps descs (td_fields (type_description request)) service_deps))
            (\<lambda>deps1.
          bind_result (on_stack (collect_nested_deps descs (td_fields (type_description response)) deps1))
            (\<lambda>deps2.
          calculate_service_type_hash H (psrv_package srv) (psrv_name srv) (type_description request)
            (type_description response) info deps2)))"

definition resolve_service :: "hash_env \<Rightarrow> ParsedService \<Rightarrow> (Resolver, ResolvedService, resolve_error) exec" where
  "resolve_service H srv = (\<lambda>r.
     case bind_result (resolve_message H r (psrv_request srv)) (\<lambda>request.
          map_ok (Pair request) (resolve_message H r (psrv_response srv))) of
       Err e \<Rightarrow> (Err e, r)
     | Panic \<Rightarrow> (Panic, r)
     | Ok (request, response) \<Rightarrow>
         let r1 = add_type_description (message_key (psrv_request srv)) (type_description request) r;
             r2 = add_type_description (message_key (psrv_response srv)) (type_description response) r1;
             type_hash = (if rv_is_humble r2 \<or> rv_external_packages r2 \<noteq> {} then Ok hash_zero
               else service_type_hash H (rv_type_descriptions r2) srv request response)
         in (map_ok (\<lambda>h. \<lparr>rsrv_parsed = srv, rsrv_request = request, rsrv_response = response,
               rsrv_type_hash = h\<rparr>) type_hash, r2))"

fun resolve_services :: "hash_env \<Rightarrow> ParsedService list \<Rightarrow> (Resolver, ResolvedService list, resolve_error) exec" where
  "resolve_services H [] = ret []"
| "resolve_services H (srv # srvs) =
     andthen (resolve_service H srv) (\<lambda>s. andthen (resolve_services H srvs) (\<lambda>ss. ret (s # ss)))"

section \<open>Actions\<close>

definition plain_field :: "string \<Rightarrow> u8 \<Rightarrow> 64 word \<Rightarrow> string \<Rightarrow> FieldDescription" where
  "plain_field name type_id capacity nested =
     \<lparr>fd_name = name,
      fd_field_type = \<lparr>ftd_type_id = type_id, ftd_capacity = capacity, ftd_string_capacity = 0,
        ftd_nested_type_name = nested\<rparr>,
      fd_default_value = []\<rparr>"

definition action_type_name :: "ParsedAction \<Rightarrow> string \<Rightarrow> string" where
  "action_type_name action part = pact_package action @ ''/action/'' @ pact_name action @ part"

definition calculate_send_goal_hash ::
    "hash_env \<Rightarrow> Resolver \<Rightarrow> ParsedAction \<Rightarrow> ResolvedMessage \<Rightarrow> (bytes, resolve_error) result" where
  "calculate_send_goal_hash H r action goal =
     (if rv_is_humble r then Ok hash_zero
      else let request_desc = \<lparr>td_type_name = action_type_name action ''_SendGoal_Request'',
                 td_fields = [plain_field ''goal_id'' 1 0 ''unique_identifier_msgs/msg/UUID'',
                   plain_field ''goal'' 1 0 (action_type_name action ''_Goal'')]\<rparr>;
               response_desc = \<lparr>td_type_name = action_type_name action ''_SendGoal_Response'',
                 td_fields = [plain_field ''accepted'' 15 0 [],
                   plain_field ''stamp'' 1 0 ''builtin_interfaces/msg/Time'']\<rparr>;
               descs = rv_type_descriptions r;
               deps = insert_known descs ''builtin_interfaces/Time''
                 (insert_known descs ''unique_identifier_msgs/UUID'' [])
           in bind_result (ok_or ServiceEventInfoMissing (btree_get descs ''service_msgs/ServiceEventInfo''))
                (\<lambda>info.
              calculate_service_type_hash H (pact_package action) (pact_name action @ ''_SendGoal'')
                request_desc response_desc info
                (insert_desc (type_description goal) (insert_desc info deps))))"

definition calculate_get_result_hash ::
    "hash_env \<Rightarrow> Resolver \<Rightarrow> ParsedAction \<Rightarrow> ResolvedMessage \<Rightarrow> (bytes, resolve_error) result" where
  "calculate_get_result_hash H r action res =
     (if rv_is_humble r then Ok hash_zero
      else let request_desc = \<lparr>td_type_name = action_type_name action ''_GetResult_Request'',
                 td_fields = [plain_field ''goal_id'' 1 0 ''unique_identifier_msgs/msg/UUID'']\<rparr>;
               response_desc = \<lparr>td_type_name = action_type_name action ''_GetResult_Response'',
                 td_fields = [plain_field ''status'' 2 0 [],
                   plain_field ''result'' 1 0 (action_type_name action ''_Result'')]\<rparr>;
               descs = rv_type_descriptions r;
               deps = insert_known descs ''builtin_interfaces/Time''
                 (insert_known descs ''unique_identifier_msgs/UUID'' [])
           in bind_result (ok_or ServiceEventInfoMissing (btree_get descs ''service_msgs/ServiceEventInfo''))
                (\<lambda>info.
              calculate_service_type_hash H (pact_package action) (pact_name action @ ''_GetResult'')
                request_desc response_desc info
                (insert_desc (type_description res) (insert_desc info deps))))"

text \<open>The end of the two message hashes below.\<close>

definition hash_sorted ::
    "hash_env \<Rightarrow> TypeDescription \<Rightarrow> TypeDescription btree \<Rightarrow> (bytes, resolve_error) result" where
  "hash_sorted H type_desc deps =
     (let type_desc_msg = \<lparr>tdm_type_description = type_desc,
            tdm_referenced = sort_key td_type_name (btree_values deps)\<rparr>
      in case to_ros2_json H (to_hash_version type_desc_msg) of
           None \<Rightarrow> Err JsonFailed
         | Some json \<Rightarrow> Ok (he_sha256 H (str_bytes json)))"

definition calculate_feedback_message_hash ::
    "hash_env \<Rightarrow> Resolver \<Rightarrow> ParsedAction \<Rightarrow> ResolvedMessage \<Rightarrow> (bytes, resolve_error) result" where
  "calculate_feedback_message_hash H r action feedback =
     hash_sorted H
       \<lparr>td_type_name = action_type_name action ''_FeedbackMessage'',
        td_fields = [plain_field ''goal_id'' 1 0 ''unique_identifier_msgs/msg/UUID'',
          plain_field ''feedback'' 1 0 (action_type_name action ''_Feedback'')]\<rparr>
       (insert_desc (type_description feedback)
         (insert_known (rv_type_descriptions r) ''unique_identifier_msgs/UUID'' []))"

definition calculate_cancel_goal_hash :: "hash_env \<Rightarrow> Resolver \<Rightarrow> (bytes, resolve_error) result" where
  "calculate_cancel_goal_hash H r =
     (if rv_is_humble r then Ok hash_zero
      else let request_desc = \<lparr>td_type_name = ''action_msgs/srv/CancelGoal_Request'',
                 td_fields = [plain_field ''goal_info'' 1 0 ''action_msgs/msg/GoalInfo'']\<rparr>;
               response_desc = \<lparr>td_type_name = ''action_msgs/srv/CancelGoal_Response'',
                 td_fields = [plain_field ''return_code'' 2 0 []]\<rparr>;
               descs = rv_type_descriptions r;
               deps = insert_known descs ''builtin_interfaces/Time''
                 (insert_known descs ''action_msgs/GoalInfo'' [])
           in bind_result (ok_or ServiceEventInfoMissing (btree_get descs ''service_msgs/ServiceEventInfo''))
                (\<lambda>info.
              calculate_service_type_hash H ''action_msgs'' ''CancelGoal''
                request_desc response_desc info (insert_desc info deps)))"

definition calculate_status_hash :: "hash_env \<Rightarrow> Resolver \<Rightarrow> (bytes, resolve_error) result" where
  "calculate_status_hash H r =
     (let goal_info_desc = \<lparr>td_type_name = ''action_msgs/msg/GoalInfo'',
            td_fields = [plain_field ''goal_id'' 1 0 ''unique_identifier_msgs/msg/UUID'',
              plain_field ''stamp'' 1 0 ''builtin_interfaces/msg/Time'']\<rparr>;
          goal_status_desc = \<lparr>td_type_name = ''action_msgs/msg/GoalStatus'',
            td_fields = [plain_field ''goal_info'' 1 0 ''action_msgs/msg/GoalInfo'',
              plain_field ''status'' 2 0 []]\<rparr>;
          uuid_desc = \<lparr>td_type_name = ''unique_identifier_msgs/msg/UUID'',
            td_fields = [plain_field ''uuid'' 51 16 []]\<rparr>;
          deps = insert_desc goal_status_desc (insert_desc goal_info_desc []);
          deps = insert_known (rv_type_descriptions r) ''builtin_interfaces/Time'' deps;
          deps = insert_desc uuid_desc deps
      in hash_sorted H
           \<lparr>td_type_name = ''action_msgs/msg/GoalStatusArray'',
            td_fields = [plain_field ''status_list'' 145 0 ''action_msgs/msg/GoalStatus'']\<rparr> deps)"

definition resolve_optional ::
    "hash_env \<Rightarrow> Resolver \<Rightarrow> ParsedMessage option \<Rightarrow> (ResolvedMessage option, resolve_error) result" where
  "resolve_optional H r m =
     (case m of None \<Rightarrow> Ok None | Some p \<Rightarrow> map_ok Some (resolve_message H r p))"

definition add_optional :: "ParsedMessage option \<Rightarrow> ResolvedMessage option \<Rightarrow> Resolver \<Rightarrow> Resolver" where
  "add_optional parsed resolved r =
     (case (resolved, parsed) of
        (Some m, Some p) \<Rightarrow> add_type_description (message_key p) (type_description m) r
      | _ \<Rightarrow> r)"

definition resolve_action :: "hash_env \<Rightarrow> ParsedAction \<Rightarrow> (Resolver, ResolvedAction, resolve_error) exec" where
  "resolve_action H action = (\<lambda>r.
     case bind_result (resolve_message H r (pact_goal action)) (\<lambda>goal.
          bind_result (resolve_optional H r (pact_result action)) (\<lambda>res.
          map_ok (\<lambda>feedback. (goal, res, feedback)) (resolve_optional H r (pact_feedback action)))) of
       Err e \<Rightarrow> (Err e, r)
     | Panic \<Rightarrow> (Panic, r)
     | Ok (goal, res, feedback) \<Rightarrow>
         let r1 = add_type_description (message_key (pact_goal action)) (type_description goal) r;
             r2 = add_optional (pact_result action) res r1;
             r3 = add_optional (pact_feedback action) feedback r2
         in (bind_result (calculate_send_goal_hash H r3 action goal) (\<lambda>send_goal_hash.
             bind_result (case res of None \<Rightarrow> Ok (replicate 32 0)
                 | Some m \<Rightarrow> calculate_get_result_hash H r3 action m) (\<lambda>get_result_hash.
             bind_result (case feedback of None \<Rightarrow> Ok (replicate 32 0)
                 | Some m \<Rightarrow> calculate_feedback_message_hash H r3 action m) (\<lambda>feedback_message_hash.
             bind_result (calculate_cancel_goal_hash H r3) (\<lambda>cancel_goal_hash.
             bind_result (calculate_status_hash H r3) (\<lambda>status_hash.
             Ok \<lparr>ract_parsed = action, ract_goal = goal, ract_result = res, ract_feedback = feedback,
                 ract_type_hash = rm_type_hash goal, ract_send_goal_hash = send_goal_hash,
                 ract_get_result_hash = get_result_hash,
                 ract_feedback_message_hash = feedback_message_hash,
                 ract_cancel_goal_hash = cancel_goal_hash, ract_status_hash = status_hash\<rparr>))))), r3))"

fun resolve_actions :: "hash_env \<Rightarrow> ParsedAction list \<Rightarrow> (Resolver, ResolvedAction list, resolve_error) exec" where
  "resolve_actions H [] = ret []"
| "resolve_actions H (action # actions) =
     andthen (resolve_action H action) (\<lambda>a. andthen (resolve_actions H actions) (\<lambda>as. ret (a # as)))"

end
