(* ===== verification/Resolver_Properties.thy ===== *)
theory Resolver_Properties
  imports Msg_Resolver
begin

text \<open>
  Properties of type ids, type hashes and the resolver.  \<open>resolver_inv\<close> relates the keys of the
  resolver's type descriptions to the names in them; \<open>needs\<close> is the set of keys that a message waits
  for.
\<close>

section \<open>Type ids\<close>

lemma primitive_cases:
  "is_primitive_type b \<Longrightarrow> b \<in> {''bool'', ''byte'', ''char'', ''uint8'', ''int8'', ''uint16'', ''int16'',
     ''uint32'', ''int32'', ''uint64'', ''int64'', ''float32'', ''float64'', ''string''}"
  by (simp add: is_primitive_type_def)

lemma type_id_tables:
  assumes "is_primitive_type b"
  shows "\<exists>i. single_type_id b = Some i \<and> i \<noteq> 1 \<and> i \<in> {2..17} \<and> array_type_id b = Some (i + 48) \<and>
    bounded_type_id b = Some (i + 96) \<and> unbounded_type_id b = Some (i + 144)"
  using primitive_cases [OF assms]
  by (elim insertE emptyE)
    (simp_all add: single_type_id_def array_type_id_def bounded_type_id_def unbounded_type_id_def type_id_defs)

text \<open>The classes of an id of a primitive type, and of the same id with an offset.\<close>

lemma small_type_ids:
  assumes "i \<in> {2..17 :: u8}"
  shows "is_single i" "\<not> is_array i" "\<not> is_bounded_sequence i" "\<not> is_unbounded_sequence i" "\<not> is_nested i"
    "\<not> is_single (i + 48)" "is_array (i + 48)" "\<not> is_bounded_sequence (i + 48)"
    "\<not> is_unbounded_sequence (i + 48)" "\<not> is_nested (i + 48)"
    "\<not> is_single (i + 96)" "\<not> is_array (i + 96)" "is_bounded_sequence (i + 96)"
    "\<not> is_unbounded_sequence (i + 96)" "\<not> is_nested (i + 96)"
    "\<not> is_single (i + 144)" "\<not> is_array (i + 144)" "\<not> is_bounded_sequence (i + 144)"
    "is_unbounded_sequence (i + 144)" "\<not> is_nested (i + 144)"
    "tid_base_type i = i" "tid_base_type (i + 48) = i" "tid_base_type (i + 96) = i" "tid_base_type (i + 144) = i"
proof -
  have lo: "2 \<le> unat i" and hi: "unat i \<le> 17"
    using assms by (simp_all add: word_le_nat_alt)
  then have "unat (i + 48) = unat i + 48" "unat (i + 96) = unat i + 96" "unat (i + 144) = unat i + 144"
    by (simp_all add: unat_word_ariths)
  with lo hi show "is_single i" "\<not> is_array i" "\<not> is_bounded_sequence i" "\<not> is_unbounded_sequence i" "\<not> is_nested i"
    "\<not> is_single (i + 48)" "is_array (i + 48)" "\<not> is_bounded_sequence (i + 48)"
    "\<not> is_unbounded_sequence (i + 48)" "\<not> is_nested (i + 48)"
    "\<not> is_single (i + 96)" "\<not> is_array (i + 96)" "is_bounded_sequence (i + 96)"
    "\<not> is_unbounded_sequence (i + 96)" "\<not> is_nested (i + 96)"
    "\<not> is_single (i + 144)" "\<not> is_array (i + 144)" "\<not> is_bounded_sequence (i + 144)"
    "is_unbounded_sequence (i + 144)" "\<not> is_nested (i + 144)"
    by (simp_all add: type_class_defs type_id_defs word_le_nat_alt word_unat_eq_iff)
  then show "tid_base_type i = i" "tid_base_type (i + 48) = i" "tid_base_type (i + 96) = i"
    "tid_base_type (i + 144) = i"
    by (simp_all add: tid_base_type_def type_id_defs)
qed

lemma get_type_id_Ok: "\<exists>i. get_type_id t = Ok i"
  using type_id_tables [of "pft_base_type t"]
  by (auto simp: get_type_id_def Let_def split: ArrayType.splits)

section \<open>Names and keys\<close>

definition slash_free :: "string \<Rightarrow> bool" where
  "slash_free s \<longleftrightarrow> CHR ''/'' \<notin> set s"

definition slashes :: "string \<Rightarrow> nat" where
  "slashes s = count_list s CHR ''/''"

lemma slashes_append [simp]: "slashes (s @ t) = slashes s + slashes t"
  by (simp add: slashes_def count_list_append)

lemma slashes_Cons [simp]: "slashes (c # s) = (if c = CHR ''/'' then Suc (slashes s) else slashes s)"
  by (simp add: slashes_def)

lemma slashes_Nil [simp]: "slashes [] = 0"
  by (simp add: slashes_def)

lemma slash_free_slashes [simp]: "slash_free s \<Longrightarrow> slashes s = 0"
  by (simp add: slash_free_def slashes_def count_list_0_iff)

lemma slash_free_take: "slash_free s \<Longrightarrow> slash_free (take n s)"
  by (auto simp: slash_free_def dest: in_set_takeD)

lemma slashes_component:
  "slash_free p \<Longrightarrow> slash_free n \<Longrightarrow> slashes (component_type_name p n) = 2"
  by (simp add: component_type_name_def slash_free_take)

lemma component_not_Nil [simp]: "component_type_name p n \<noteq> []"
  by (simp add: component_type_name_def)

lemma lookup_key_msg:
  assumes "slash_free p" and "slash_free n"
  shows "nested_lookup_key (p @ ''/msg/'' @ n) = p @ ''/'' @ n"
proof -
  have "CHR ''/'' \<notin> set p" "CHR ''/'' \<notin> set n"
    using assms by (simp_all add: slash_free_def)
  then have "find_sub ''/msg/'' (p @ ''/msg/'' @ n) = Some (length p)"
    and "str_replace ''/msg/'' ''/'' (p @ ''/msg/'' @ n) = p @ ''/'' @ n"
    using find_sub_skip [of "CHR ''/''" p "''msg/''" "''/msg/'' @ n"] find_sub_here [of "''/msg/''" n]
      str_replace_skip [of "CHR ''/''" p "''msg/''" "''/''" "''/msg/'' @ n"]
      str_replace_match [of "''/msg/''" "''/''" n] str_replace_free [of "CHR ''/''" n "''msg/''" "''/''"]
    by simp_all
  then show ?thesis by (simp add: nested_lookup_key_def contains_sub_def)
qed

text \<open>The name of an action component has no part \<^verbatim>\<open>msg\<close> or \<^verbatim>\<open>srv\<close>.\<close>

lemma lookup_key_action:
  assumes "slash_free p" and "slash_free n"
  shows "nested_lookup_key (p @ ''/action/'' @ n) = p @ ''/action/'' @ n"
proof -
  have p: "CHR ''/'' \<notin> set p" and n: "CHR ''/'' \<notin> set n"
    using assms by (simp_all add: slash_free_def)
  have here: "take k n \<noteq> [a, b, c, CHR ''/'']" for k a b c
    using n in_set_takeD [of "CHR ''/''" k n] by auto
  have "find_sub ''/msg/'' (''/action/'' @ n) = None" "find_sub ''/srv/'' (''/action/'' @ n) = None"
    using here find_sub_free [OF n] by simp_all
  then show ?thesis
    using find_sub_skip [OF p, of "''msg/''" "''/action/'' @ n"]
      find_sub_skip [OF p, of "''srv/''" "''/action/'' @ n"]
    by (simp add: nested_lookup_key_def contains_sub_def)
qed

text \<open>A name of two slashes leads to its own description, or to a key of two slashes.\<close>

lemma lookup_key_component:
  assumes "slash_free p" and "slash_free n"
  shows "nested_lookup_key (component_type_name p n) = p @ ''/'' @ n \<or>
    slashes (nested_lookup_key (component_type_name p n)) = 2"
proof (cases "component_type_name p n = p @ ''/msg/'' @ n")
  case True
  then show ?thesis using lookup_key_msg [OF assms] by simp
next
  case False
  then obtain x where x: "component_type_name p n = p @ ''/action/'' @ x" "slash_free x"
  proof -
    have t: "slash_free (take k n)" for k using assms(2) by (rule slash_free_take)
    show thesis
      using False that [of "take (length n - 4) n @ ''_Goal''"] that [of "take (length n - 6) n @ ''_Result''"]
        that [of "take (length n - 8) n @ ''_Feedback''"] t
      by (auto simp: component_type_name_def slash_free_def split: if_splits)
  qed
  then show ?thesis
    using lookup_key_action [OF assms(1) x(2)] assms(1) by simp
qed

section \<open>The invariant of the descriptions\<close>

definition reference_ok :: "FieldDescription \<Rightarrow> bool" where
  "reference_ok f \<longleftrightarrow> ftd_nested_type_name (fd_field_type f) = [] \<or>
     (\<exists>p n. slash_free p \<and> slash_free n \<and> ftd_nested_type_name (fd_field_type f) = component_type_name p n)"

definition entry_ok :: "string \<Rightarrow> TypeDescription \<Rightarrow> bool" where
  "entry_ok k d \<longleftrightarrow> (\<exists>p n. slash_free p \<and> slash_free n \<and> k = p @ ''/'' @ n \<and>
     td_type_name d = component_type_name p n) \<and> list_all reference_ok (td_fields d)"

definition descs_ok :: "TypeDescription btree \<Rightarrow> bool" where
  "descs_ok descs \<longleftrightarrow> (\<forall>k d. map_of descs k = Some d \<longrightarrow> entry_ok k d)"

definition resolver_inv :: "Resolver \<Rightarrow> bool" where
  "resolver_inv r \<longleftrightarrow> descs_ok (rv_type_descriptions r)"

definition field_names_ok :: "ParsedField \<Rightarrow> bool" where
  "field_names_ok f \<longleftrightarrow> slash_free (pft_base_type (pf_field_type f)) \<and>
     (case pft_package (pf_field_type f) of None \<Rightarrow> True | Some p \<Rightarrow> slash_free p)"

definition msg_ok :: "ParsedMessage \<Rightarrow> bool" where
  "msg_ok m \<longleftrightarrow> slash_free (pm_package m) \<and> slash_free (pm_name m) \<and> list_all field_names_ok (pm_fields m)"

lemma descs_okE:
  assumes "descs_ok descs" and "map_of descs k = Some d"
  obtains p n where "slash_free p" and "slash_free n" and "k = p @ ''/'' @ n"
    and "td_type_name d = component_type_name p n" and "list_all reference_ok (td_fields d)"
proof -
  have "entry_ok k d" using assms by (simp add: descs_ok_def)
  then show thesis using that unfolding entry_ok_def by blast
qed

lemma descs_ok_key: "descs_ok descs \<Longrightarrow> map_of descs k = Some d \<Longrightarrow> slashes k = 1"
  by (elim descs_okE) auto

lemma descs_ok_fields: "descs_ok descs \<Longrightarrow> map_of descs k = Some d \<Longrightarrow> list_all reference_ok (td_fields d)"
  by (elim descs_okE)

lemma descs_ok_insert: "descs_ok descs \<Longrightarrow> entry_ok k d \<Longrightarrow> descs_ok (btree_insert k d descs)"
  by (simp add: descs_ok_def)

text \<open>A reference that is found has the name of the description that is found.\<close>

lemma descs_ok_lookup:
  assumes "descs_ok descs" and "reference_ok f" and "ftd_nested_type_name (fd_field_type f) \<noteq> []"
    and "map_of descs (nested_lookup_key (ftd_nested_type_name (fd_field_type f))) = Some d"
  shows "td_type_name d = ftd_nested_type_name (fd_field_type f)"
proof -
  from assms(2,3) obtain p n where pn: "slash_free p" "slash_free n"
    and name: "ftd_nested_type_name (fd_field_type f) = component_type_name p n"
    by (auto simp: reference_ok_def)
  from descs_ok_key [OF assms(1,4)] lookup_key_component [OF pn] have
    key: "nested_lookup_key (component_type_name p n) = p @ ''/'' @ n"
    by (auto simp: name)
  from descs_okE [OF assms(1,4)] obtain p' n' where p': "slash_free p'" "slash_free n'"
    "p @ ''/'' @ n = p' @ ''/'' @ n'" "td_type_name d = component_type_name p' n'"
    unfolding name key .
  have "split_on CHR ''/'' (p @ ''/'' @ n) = [p, n]" "split_on CHR ''/'' (p' @ ''/'' @ n') = [p', n']"
    using pn p'(1,2) by (simp_all add: slash_free_def split_on_append split_on_part)
  with p'(3) have "p = p'" "n = n'" by simp_all
  with p' name show ?thesis by simp
qed

lemma type_description_entry:
  assumes "msg_ok (rm_parsed m)"
  shows "entry_ok (message_key (rm_parsed m)) (type_description m)"
proof -
  have "reference_ok (resolved_field (pm_package (rm_parsed m)) f)" if "f \<in> set (pm_fields (rm_parsed m))" for f
  proof -
    have "slash_free (pft_base_type (pf_field_type f))"
      "slash_free (unwrap_or (pft_package (pf_field_type f)) (pm_package (rm_parsed m)))"
      using assms that
      by (auto simp: msg_ok_def list_all_iff field_names_ok_def split: option.splits)
        (cases "pft_package (pf_field_type f)"; fastforce)
    then show ?thesis
      by (auto simp: reference_ok_def resolved_field_def Let_def)
  qed
  moreover have "reference_ok empty_member"
    by (simp add: reference_ok_def empty_member_def ftd_primitive_def)
  ultimately show ?thesis
    using assms by (auto simp: entry_ok_def type_description_def message_key_def msg_ok_def Let_def list_all_iff)
qed

section \<open>Collecting descriptions\<close>

text \<open>
  The collection of references for a message hash looks up full type names among keys of the form
  package/name: it finds nothing.
\<close>

lemma collect_referenced_nothing:
  assumes "descs_ok descs" and "list_all reference_ok flds"
  shows "collect_referenced_types descs flds collected = Some collected"
  using assms(2)
proof (induction flds)
  case Nil
  show ?case by (subst collect_referenced_types.simps) simp
next
  case (Cons f flds)
  have "map_of descs (ftd_nested_type_name (fd_field_type f)) = None"
    if "ftd_nested_type_name (fd_field_type f) \<noteq> []"
  proof -
    from that Cons.prems have "slashes (ftd_nested_type_name (fd_field_type f)) = 2"
      by (auto simp: reference_ok_def slashes_component)
    then show ?thesis
      using descs_ok_key [OF assms(1), of "ftd_nested_type_name (fd_field_type f)"] by fastforce
  qed
  with Cons show ?case by (subst collect_referenced_types.simps) auto
qed

text \<open>
  The collection for a service hash inserts a description before it follows its references, under
  the name that it looks for: the descriptions that are not collected become fewer.
\<close>

definition missing :: "TypeDescription btree \<Rightarrow> TypeDescription btree \<Rightarrow> string set" where
  "missing descs collected = {td_type_name d |d. d \<in> ran (map_of descs)} - dom (map_of collected)"

lemma finite_missing: "finite (missing descs collected)"
proof -
  have "missing descs collected \<subseteq> td_type_name ` ran (map_of descs)"
    by (auto simp: missing_def)
  then show ?thesis by (rule finite_subset) (simp add: finite_ran finite_dom_map_of)
qed

lemma missing_insert:
  assumes "map_of descs k = Some d" and "map_of collected (td_type_name d) = None"
  shows "missing descs (btree_insert (td_type_name d) d collected) \<subset> missing descs collected"
proof -
  have "td_type_name d \<in> missing descs collected"
    using assms by (auto simp: missing_def ran_def)
  then show ?thesis by (auto simp: missing_def)
qed

lemma collect_nested_ends:
  assumes "descs_ok descs" and "list_all reference_ok flds"
  shows "\<exists>c. collect_nested_deps descs flds collected = Some c \<and>
    dom (map_of collected) \<subseteq> dom (map_of c)"
  using assms(2)
proof (induction "card (missing descs collected)" arbitrary: flds collected rule: less_induct)
  case less
  note IH = less.hyps
  show ?case
    using less.prems IH
  proof (induction flds arbitrary: collected)
    case Nil
    show ?case by (subst collect_nested_deps.simps) simp
  next
    case (Cons f flds)
    let ?name = "ftd_nested_type_name (fd_field_type f)"
    have rest: "\<exists>c. collect_nested_deps descs flds collected = Some c \<and> dom (map_of collected) \<subseteq> dom (map_of c)"
      using Cons.prems by (intro Cons.IH) auto
    show ?case
    proof (cases "?name = [] \<or> btree_contains collected ?name \<or> map_of descs (nested_lookup_key ?name) = None")
      case True
      with rest show ?thesis by (subst collect_nested_deps.simps) (auto simp: Let_def)
    next
      case False
      then obtain d where d: "map_of descs (nested_lookup_key ?name) = Some d" by auto
      let ?c = "btree_insert (td_type_name d) d collected"
      have name: "td_type_name d = ?name"
        using descs_ok_lookup [OF assms(1) _ _ d] Cons.prems(1) False by simp
      have "missing descs ?c \<subset> missing descs collected"
        using missing_insert [OF d] False name by (simp add: btree_contains_def)
      then have lt: "card (missing descs ?c) < card (missing descs collected)"
        by (rule psubset_card_mono [OF finite_missing])
      from Cons.prems(2) [OF lt descs_ok_fields [OF assms(1) d]] obtain c where
        c: "collect_nested_deps descs (td_fields d) ?c = Some c" "dom (map_of ?c) \<subseteq> dom (map_of c)" by blast
      have "missing descs c \<subseteq> missing descs ?c"
        using c(2) by (auto simp: missing_def)
      then have "card (missing descs c) < card (missing descs collected)"
        using lt card_mono [OF finite_missing] by (meson le_less_trans)
      from Cons.prems(2) [OF this, of flds] Cons.prems(1) obtain c' where
        c': "collect_nested_deps descs flds c = Some c'" "dom (map_of c) \<subseteq> dom (map_of c')" by auto
      have "collect_nested_deps descs (f # flds) collected = Some c'"
        using False d c c' by (subst collect_nested_deps.simps) (simp add: Let_def)
      moreover have "dom (map_of collected) \<subseteq> dom (map_of ?c)" by auto
      then have "dom (map_of collected) \<subseteq> dom (map_of c')"
        using c(2) c'(2) by (meson subset_trans)
      ultimately show ?thesis by blast
    qed
  qed
qed

section \<open>The description of a message\<close>

definition direct_deps :: "TypeDescription btree \<Rightarrow> string \<Rightarrow> ParsedField list \<Rightarrow> TypeDescription set" where
  "direct_deps descs pkg fs = {d. \<exists>f\<in>set fs. \<not> is_primitive_type (pft_base_type (pf_field_type f)) \<and>
     map_of descs (dep_key pkg (pf_field_type f)) = Some d}"

text \<open>What the references of a description are, given those from before.\<close>

definition refs_of :: "TypeDescription set \<Rightarrow> TypeDescription btree \<Rightarrow> TypeDescription btree \<Rightarrow> bool" where
  "refs_of D old new \<longleftrightarrow> btree_ok new \<and>
     (\<forall>k d. map_of new k = Some d \<longrightarrow> map_of old k = Some d \<or> (d \<in> D \<and> k = td_type_name d)) \<and>
     dom (map_of new) = dom (map_of old) \<union> td_type_name ` D"

lemma refs_of_empty: "btree_ok t \<Longrightarrow> refs_of {} t t"
  by (simp add: refs_of_def)

lemma refs_of_insert:
  assumes "refs_of D (btree_insert (td_type_name d) d old) new"
  shows "refs_of (insert d D) old new"
  using assms by (auto simp: refs_of_def split: if_splits)

lemma build_fields_Ok:
  assumes "descs_ok descs" and "btree_ok refs"
  shows "\<exists>ds refs'. build_fields descs pkg fs flds refs = Ok (flds @ ds, refs') \<and>
    map fd_name ds = map pf_name fs \<and> refs_of (direct_deps descs pkg fs) refs refs'"
  using assms(2)
proof (induction fs arbitrary: flds refs)
  case Nil
  then show ?case by (simp add: direct_deps_def refs_of_empty)
next
  case (Cons f fs)
  obtain i where i: "get_type_id (pf_field_type f) = Ok i" using get_type_id_Ok by blast
  let ?d = "\<lparr>fd_name = pf_name f, fd_field_type = field_type_description pkg (pf_field_type f) i,
    fd_default_value = []\<rparr>"
  show ?case
  proof (cases "is_primitive_type (pft_base_type (pf_field_type f)) \<or>
      map_of descs (dep_key pkg (pf_field_type f)) = None")
    case True
    then have "direct_deps descs pkg (f # fs) = direct_deps descs pkg fs"
      by (auto simp: direct_deps_def)
    with True Cons.IH [OF Cons.prems, of "flds @ [?d]"] i show ?thesis
      by (auto simp: Let_def intro!: exI [of _ "?d # _"])
  next
    case False
    then obtain dep where dep: "map_of descs (dep_key pkg (pf_field_type f)) = Some dep"
      and prim: "\<not> is_primitive_type (pft_base_type (pf_field_type f))" by auto
    have D: "direct_deps descs pkg (f # fs) = insert dep (direct_deps descs pkg fs)"
      using dep prim by (auto simp: direct_deps_def)
    have "collect_referenced_types descs (td_fields dep) refs = Some refs"
      by (rule collect_referenced_nothing [OF assms(1) descs_ok_fields [OF assms(1) dep]])
    moreover from Cons.IH [OF btree_ok_insert [OF Cons.prems], of "flds @ [?d]" "td_type_name dep" dep]
    obtain ds refs' where "build_fields descs pkg fs (flds @ [?d]) (btree_insert (td_type_name dep) dep refs) =
        Ok ((flds @ [?d]) @ ds, refs')" "map fd_name ds = map pf_name fs"
      "refs_of (direct_deps descs pkg fs) (btree_insert (td_type_name dep) dep refs) refs'" by blast
    ultimately show ?thesis
      using i dep prim D
      by (intro exI [of _ "?d # ds"] exI [of _ refs'])
        (simp add: Let_def on_stack_def refs_of_insert)
  qed
qed

lemma build_description_Ok:
  assumes "descs_ok descs"
  shows "\<exists>d. build_type_description_msg msg descs = Ok d \<and>
    set (tdm_referenced d) \<subseteq> direct_deps descs (pm_package msg) (pm_fields msg) \<and>
    td_type_name ` set (tdm_referenced d) = td_type_name ` direct_deps descs (pm_package msg) (pm_fields msg)"
proof (cases "pm_fields msg = []")
  case True
  then show ?thesis
    by (simp add: build_type_description_msg_def direct_deps_def btree_values_def)
next
  case False
  let ?D = "direct_deps descs (pm_package msg) (pm_fields msg)"
  from build_fields_Ok [OF assms btree_ok_Nil, of "pm_package msg" "pm_fields msg" "[]"]
  obtain ds refs where ds: "build_fields descs (pm_package msg) (pm_fields msg) [] [] = Ok (ds, refs)"
    and refs: "refs_of ?D [] refs" by auto
  have ok: "distinct (map fst refs)"
    using refs btree_ok_distinct by (auto simp: refs_of_def)
  have keys: "map_of refs k = Some d \<Longrightarrow> d \<in> ?D \<and> k = td_type_name d" for k d
    using refs by (auto simp: refs_of_def)
  have vals: "set (btree_values refs) = ran (map_of refs)"
    using ok by (auto simp: btree_values_def ran_distinct)
  then have sub: "set (btree_values refs) \<subseteq> ?D"
    using keys by (auto simp: ran_def)
  moreover have "td_type_name d \<in> td_type_name ` set (btree_values refs)" if "d \<in> ?D" for d
  proof -
    have "td_type_name d \<in> dom (map_of refs)" using refs that by (auto simp: refs_of_def)
    then obtain d' where "map_of refs (td_type_name d) = Some d'" by blast
    with keys [OF this] vals show ?thesis by (auto simp: ran_def image_iff)
  qed
  ultimately have "td_type_name ` set (btree_values refs) = td_type_name ` ?D" by auto
  with sub ds False show ?thesis by (simp add: build_type_description_msg_def)
qed

context hash_env_laws
begin

lemma resolve_message_Ok:
  assumes "resolver_inv r"
  shows "\<exists>m. resolve_message H r msg = Ok m \<and> rm_parsed m = msg"
proof -
  from assms build_description_Ok obtain d where "build_type_description_msg msg (rv_type_descriptions r) = Ok d"
    unfolding resolver_inv_def by blast
  moreover obtain h where "calculate_hash H d = (Ok h :: (bytes, resolve_error) result)"
    using calculate_hash_length by blast
  ultimately show ?thesis by (simp add: resolve_message_def calculate_type_hash_def)
qed

end

section \<open>The queue\<close>

definition needs :: "string set \<Rightarrow> ParsedMessage \<Rightarrow> string set" where
  "needs ext msg = {dep_key (pm_package msg) (pf_field_type f) |f. f \<in> set (pm_fields msg) \<and>
     \<not> is_primitive_type (pft_base_type (pf_field_type f)) \<and>
     (\<forall>pkg\<in>set_option (pft_package (pf_field_type f)). pkg \<notin> ext)}"

definition known :: "Resolver \<Rightarrow> string set" where
  "known r = dom (map_of (rv_type_descriptions r))"

lemma all_deps_resolved_iff:
  "all_deps_resolved r msg \<longleftrightarrow> needs (rv_external_packages r) msg \<subseteq> known r"
proof -
  have "is_type_resolved_in_context r (pft_package t) (pft_base_type t) p \<longleftrightarrow>
    (\<forall>pkg\<in>set_option (pft_package t). pkg \<notin> rv_external_packages r) \<longrightarrow> dep_key p t \<in> known r" for t p
    by (cases "pft_package t")
      (auto simp: is_type_resolved_in_context_def is_external_package_def dep_key_def known_def btree_contains_def)
  then show ?thesis
    unfolding all_deps_resolved_def needs_def by (auto simp: list_all_iff)
qed

lemma store_resolved_simps [simp]:
  "rv_external_packages (store_resolved m r) = rv_external_packages r"
  "rv_is_humble (store_resolved m r) = rv_is_humble r"
  "known (store_resolved m r) = insert (message_key (rm_parsed m)) (known r)"
  "rv_resolved_messages (store_resolved m r) =
     (rv_resolved_messages r)(message_key (rm_parsed m) \<mapsto> m)"
  by (auto simp: store_resolved_def add_type_description_def known_def Let_def)

lemma store_resolved_inv:
  "resolver_inv r \<Longrightarrow> msg_ok (rm_parsed m) \<Longrightarrow> resolver_inv (store_resolved m r)"
  by (simp add: resolver_inv_def store_resolved_def add_type_description_def Let_def descs_ok_insert
      type_description_entry)

text \<open>A message that has to wait goes to the end of the queue.\<close>

lemma loop_wait:
  assumes "\<not> all_deps_resolved r msg" and "it < MAX_ITERATIONS" and "n = length (msg # queue)"
  shows "resolve_loop H r (msg # queue) it n st =
    (if 100 < st + 1 then
       (Err (ResolutionStalled (it + 1) n
          (map (\<lambda>m. (message_key m, unresolved_deps r m)) (take 10 (queue @ [msg])))), r)
     else resolve_loop H r (queue @ [msg]) (it + 1) n (st + 1))"
  using assms by (simp add: resolve_head_def)

declare resolve_loop.simps(2) [simp del]

lemma loop_wait_all:
  assumes "list_all (\<lambda>m. \<not> all_deps_resolved r m) xs" and "it + length xs \<le> MAX_ITERATIONS"
    and "st + length xs \<le> 100" and "n = length (xs @ ys)"
  shows "resolve_loop H r (xs @ ys) it n st = resolve_loop H r (ys @ xs) (it + length xs) n (st + length xs)"
  using assms
proof (induction xs arbitrary: ys it st)
  case (Cons x xs)
  have "resolve_loop H r ((x # xs) @ ys) it n st = resolve_loop H r (xs @ ys @ [x]) (it + 1) n (st + 1)"
    using Cons.prems loop_wait [of r x it n "xs @ ys" H st] by simp
  also have "\<dots> = resolve_loop H r ((ys @ [x]) @ xs) (it + 1 + length xs) n (st + 1 + length xs)"
    by (rule Cons.IH) (use Cons.prems in auto)
  finally show ?case by simp
qed simp

text \<open>More than a hundred messages that have to wait, one after the other, end the loop.\<close>

lemma loop_stall:
  assumes "list_all (\<lambda>m. \<not> all_deps_resolved r m) xs" and "length xs = 101 - st" and "st \<le> 100"
    and "it + length xs \<le> MAX_ITERATIONS" and "n = length (xs @ ys)"
  shows "\<exists>ms. resolve_loop H r (xs @ ys) it n st = (Err (ResolutionStalled (it + length xs) n ms), r)"
proof -
  obtain zs z where xs: "xs = zs @ [z]"
    using assms(2,3) by (cases xs rule: rev_cases) auto
  have "resolve_loop H r (zs @ z # ys) it n st =
      resolve_loop H r ((z # ys) @ zs) (it + length zs) n (st + length zs)"
    by (rule loop_wait_all) (use assms xs in auto)
  moreover have "st + length zs = 100" using assms(2,3) xs by simp
  ultimately show ?thesis
    using assms xs loop_wait [of r z "it + length zs" n "ys @ zs" H "st + length zs"] by simp
qed

text \<open>The message that is ready is resolved after the ones before it have gone to the end.\<close>

context hash_env_laws
begin

lemma loop_progress:
  assumes "resolver_inv r" and "all_deps_resolved r msg" and "list_all (\<lambda>m. \<not> all_deps_resolved r m) xs"
    and "it + length xs < MAX_ITERATIONS" and "length xs \<le> 100" and "n = length (xs @ msg # ys)"
  obtains m where "rm_parsed m = msg" and "resolve_message H r msg = Ok m" and
    "resolve_loop H r (xs @ msg # ys) it n 0 =
     resolve_loop H (store_resolved m r) (ys @ xs) (it + length xs + 1) (n - 1) 0"
proof -
  obtain m where m: "resolve_message H r msg = Ok m" "rm_parsed m = msg"
    using resolve_message_Ok [OF assms(1)] by blast
  have "resolve_loop H r (xs @ msg # ys) it n 0 =
      resolve_loop H r ((msg # ys) @ xs) (it + length xs) n (0 + length xs)"
    by (rule loop_wait_all) (use assms in auto)
  also have "\<dots> = resolve_loop H (store_resolved m r) (ys @ xs) (it + length xs + 1) (n - 1) 0"
    using assms(2,4,6) m by (simp add: resolve_loop.simps(2) resolve_head_def add.commute)
  finally show thesis using that m by blast
qed

end

text \<open>
  The messages that are still in the queue wait only for known types and for each other, each for
  messages of smaller rank: the one of smallest rank is ready.
\<close>

definition queue_ok :: "Resolver \<Rightarrow> (ParsedMessage \<Rightarrow> nat) \<Rightarrow> ParsedMessage list \<Rightarrow> bool" where
  "queue_ok r rank q \<longleftrightarrow> (\<forall>m\<in>set q. msg_ok m \<and> (\<forall>k\<in>needs (rv_external_packages r) m.
     k \<in> known r \<or> (\<exists>m'\<in>set q. message_key m' = k \<and> rank m' < rank m)))"

lemma queue_ready:
  assumes "queue_ok r rank q" and "q \<noteq> []"
  obtains xs m ys where "q = xs @ m # ys" and "all_deps_resolved r m"
    and "list_all (\<lambda>m. \<not> all_deps_resolved r m) xs"
proof -
  let ?m = "arg_min_list rank q"
  have "?m \<in> set q" and "\<And>m'. m' \<in> set q \<Longrightarrow> rank ?m \<le> rank m'"
    using assms(2) by (simp_all add: arg_min_list_in f_arg_min_list_f)
  with assms(1) have "all_deps_resolved r ?m"
    unfolding all_deps_resolved_iff queue_ok_def by (meson not_less subsetI)
  with \<open>?m \<in> set q\<close> have "\<exists>m\<in>set q. all_deps_resolved r m" by blast
  from split_list_first_prop [OF this] that show thesis by (auto simp: list_all_iff)
qed

lemma queue_ok_store:
  assumes "queue_ok r rank (xs @ m # ys)" and "rm_parsed p = m"
  shows "queue_ok (store_resolved p r) rank (ys @ xs)"
proof -
  have "k \<in> insert (message_key m) (known r) \<or> (\<exists>m'\<in>set (ys @ xs). message_key m' = k \<and> rank m' < rank x)"
    if "x \<in> set (ys @ xs)" "k \<in> needs (rv_external_packages r) x" for x k
  proof -
    have "k \<in> known r \<or> (\<exists>m'\<in>set (xs @ m # ys). message_key m' = k \<and> rank m' < rank x)"
      using assms(1) that unfolding queue_ok_def by auto
    then show ?thesis by auto
  qed
  with assms show ?thesis
    unfolding queue_ok_def by auto
qed

context hash_env_laws
begin

text \<open>
  At most 101 messages: every message is found ready after at most a hundred others, and the number
  of rounds is at most the sum of the lengths of the queue.
\<close>

lemma loop_complete:
  assumes "resolver_inv r" and "queue_ok r rank q" and "distinct (map message_key q)"
    and "length q \<le> 101" and "2 * it + length q * (length q + 1) \<le> 2 * MAX_ITERATIONS"
  shows "\<exists>r'. resolve_loop H r q it (length q) 0 = (Ok (), r') \<and>
    known r' = known r \<union> message_key ` set q \<and>
    (\<forall>m\<in>set q. \<exists>p. rv_resolved_messages r' (message_key m) = Some p \<and> rm_parsed p = m) \<and>
    (\<forall>k. k \<notin> message_key ` set q \<longrightarrow> rv_resolved_messages r' k = rv_resolved_messages r k)"
  using assms
proof (induction "length q" arbitrary: r q it)
  case 0
  then show ?case by simp
next
  case (Suc n)
  have "q \<noteq> []" using Suc.hyps(2) by auto
  from queue_ready [OF Suc.prems(2) this] obtain xs msg ys where
    q: "q = xs @ msg # ys" and ready: "all_deps_resolved r msg"
    and wait: "list_all (\<lambda>m. \<not> all_deps_resolved r m) xs" .
  have len: "length q = Suc n" "length xs \<le> n" "length (ys @ xs) = n"
    using Suc.hyps(2) q by simp_all
  have sum: "2 * it + (n + 1) * (n + 2) \<le> 2 * MAX_ITERATIONS"
    using Suc.prems(5) len(1) by simp
  have "it + length xs < MAX_ITERATIONS"
    using sum len(2) by (simp add: algebra_simps)
  moreover have "length xs \<le> 100" using Suc.prems(4) len by simp
  ultimately obtain p where p: "rm_parsed p = msg" and step: "resolve_loop H r q it (length q) 0 =
      resolve_loop H (store_resolved p r) (ys @ xs) (it + length xs + 1) n 0"
    using loop_progress [OF Suc.prems(1) ready wait, of it "length q" ys] q len by auto
  let ?r = "store_resolved p r"
  have inv: "resolver_inv ?r"
    using Suc.prems(1,2) p q by (intro store_resolved_inv) (auto simp: queue_ok_def)
  have "2 * (it + length xs + 1) + length (ys @ xs) * (length (ys @ xs) + 1) \<le> 2 * MAX_ITERATIONS"
    using sum len(2,3) by (simp add: algebra_simps)
  moreover have "distinct (map message_key (ys @ xs))" "length (ys @ xs) \<le> 101"
    using Suc.prems(3,4) q by auto
  ultimately obtain r' where
    r': "resolve_loop H ?r (ys @ xs) (it + length xs + 1) (length (ys @ xs)) 0 = (Ok (), r')"
    "known r' = known ?r \<union> message_key ` set (ys @ xs)"
    "\<forall>m\<in>set (ys @ xs). \<exists>p. rv_resolved_messages r' (message_key m) = Some p \<and> rm_parsed p = m"
    "\<forall>k. k \<notin> message_key ` set (ys @ xs) \<longrightarrow> rv_resolved_messages r' k = rv_resolved_messages ?r k"
    using Suc.hyps(1) [OF len(3) [symmetric] inv queue_ok_store [OF Suc.prems(2) [unfolded q] p]] by metis
  have "message_key msg \<notin> message_key ` set (ys @ xs)" using Suc.prems(3) q by auto
  then have "rv_resolved_messages r' (message_key msg) = Some p" using r'(4) p by simp
  with r' step len(3) p q show ?case
    by (intro exI [of _ r']) auto
qed

end

section \<open>Closed states\<close>

text \<open>What a resolved message needs is known, and it is filed under its own key.\<close>

definition resolved_closed :: "Resolver \<Rightarrow> bool" where
  "resolved_closed r \<longleftrightarrow> (\<forall>k m. rv_resolved_messages r k = Some m \<longrightarrow>
     k = message_key (rm_parsed m) \<and> k \<in> known r \<and>
     needs (rv_external_packages r) (rm_parsed m) \<subseteq> known r)"

lemma resolve_head_closed:
  assumes "resolve_head H r msg queue st = Ok (r', queue', st')" and "resolved_closed r"
  shows "resolved_closed r'"
proof (cases "all_deps_resolved r msg")
  case True
  with assms(1) obtain p where "resolve_message H r msg = Ok p" and r': "r' = store_resolved p r"
    by (auto simp: resolve_head_def bind_result_eq_Ok)
  then have p: "rm_parsed p = msg" by (auto simp: resolve_message_def bind_result_eq_Ok)
  have "needs (rv_external_packages r) msg \<subseteq> known r"
    using True by (simp add: all_deps_resolved_iff)
  moreover have "k = message_key (rm_parsed m) \<and> k \<in> known r \<and>
      needs (rv_external_packages r) (rm_parsed m) \<subseteq> known r" if "rv_resolved_messages r k = Some m" for k m
    using assms(2) that by (simp add: resolved_closed_def)
  ultimately show ?thesis
    unfolding resolved_closed_def r' by (auto simp: p split: if_splits)
next
  case False
  with assms show ?thesis by (simp add: resolve_head_def)
qed

lemma resolve_loop_closed:
  "resolved_closed r \<Longrightarrow> resolve_loop H r q it n st = (res, r') \<Longrightarrow> resolved_closed r'"
proof (induction H r q it n st rule: resolve_loop.induct)
  case (2 H r msg queue it n st)
  show ?case
  proof (cases "resolve_head H r msg queue st")
    case (Ok x)
    obtain r1 q1 st1 where x: "x = (r1, q1, st1)" by (cases x) auto
    have "resolved_closed r1" using resolve_head_closed "2.prems"(1) Ok x by blast
    with 2 Ok x show ?thesis
      by (auto simp: resolve_loop.simps(2) split: if_splits)
  qed (use 2 in \<open>auto simp: resolve_loop.simps(2) split: if_splits\<close>)
qed simp

section \<open>The resolver returns\<close>

lemma add_type_description_inv:
  "resolver_inv r \<Longrightarrow> msg_ok (rm_parsed m) \<Longrightarrow>
   resolver_inv (add_type_description (message_key (rm_parsed m)) (type_description m) r)"
  by (simp add: resolver_inv_def add_type_description_def descs_ok_insert type_description_entry)

lemma collect_for_message:
  assumes "descs_ok descs" and "msg_ok (rm_parsed m)"
  shows "\<exists>c. collect_nested_deps descs (td_fields (type_description m)) collected = Some c"
  using collect_nested_ends [OF assms(1), of "td_fields (type_description m)" collected]
    type_description_entry [OF assms(2)] by (auto simp: entry_ok_def)

definition srv_ok :: "ParsedService \<Rightarrow> bool" where
  "srv_ok s \<longleftrightarrow> msg_ok (psrv_request s) \<and> msg_ok (psrv_response s)"

definition action_ok :: "ParsedAction \<Rightarrow> bool" where
  "action_ok a \<longleftrightarrow> msg_ok (pact_goal a) \<and> (\<forall>m\<in>set_option (pact_result a). msg_ok m) \<and>
     (\<forall>m\<in>set_option (pact_feedback a). msg_ok m)"

text \<open>Outcomes that are no panic and leave a state with the invariant.\<close>

definition good :: "(Resolver, 'a, 'e) exec \<Rightarrow> bool" where
  "good f \<longleftrightarrow> (\<forall>r. resolver_inv r \<longrightarrow> fst (f r) \<noteq> Panic \<and> resolver_inv (snd (f r)))"

lemma good_ret: "good (ret x)"
  by (simp add: good_def ret_def)

lemma good_andthen: "good f \<Longrightarrow> (\<And>x. good (g x)) \<Longrightarrow> good (andthen f g)"
  by (fastforce simp: good_def andthen_def split: prod.splits result.splits)

context hash_env_laws
begin

lemma calculate_hash_not_Panic: "calculate_hash H d \<noteq> Panic"
  using json_Some [of "to_hash_version d"] by (auto simp: calculate_hash_def to_ros2_json_def)

lemma service_hash_not_Panic: "calculate_service_type_hash H p n a b c deps \<noteq> Panic"
  by (simp add: calculate_service_type_hash_def calculate_hash_not_Panic)

lemma service_type_hash_not_Panic:
  assumes "descs_ok descs" and "msg_ok (rm_parsed a)" and "msg_ok (rm_parsed b)"
  shows "service_type_hash H descs srv a b \<noteq> Panic"
proof (cases "map_of descs ''service_msgs/ServiceEventInfo''")
  case (Some info)
  let ?deps = "insert_known descs ''builtin_interfaces/Time'' (insert_desc info [])"
  obtain c where c: "collect_nested_deps descs (td_fields (type_description a)) ?deps = Some c"
    using collect_for_message [OF assms(1,2)] by blast
  obtain c' where "collect_nested_deps descs (td_fields (type_description b)) c = Some c'"
    using collect_for_message [OF assms(1,3)] by blast
  with Some c show ?thesis
    by (simp add: service_type_hash_def Let_def on_stack_def service_hash_not_Panic)
qed (simp add: service_type_hash_def)

lemma good_resolve_service: "srv_ok srv \<Longrightarrow> good (resolve_service H srv)"
  unfolding good_def
proof (intro allI impI)
  fix r
  assume ok: "srv_ok srv" and inv: "resolver_inv r"
  obtain a where a: "resolve_message H r (psrv_request srv) = Ok a" "rm_parsed a = psrv_request srv"
    using resolve_message_Ok [OF inv] by blast
  obtain b where b: "resolve_message H r (psrv_response srv) = Ok b" "rm_parsed b = psrv_response srv"
    using resolve_message_Ok [OF inv] by blast
  have ab: "msg_ok (rm_parsed a)" "msg_ok (rm_parsed b)" using ok a b by (simp_all add: srv_ok_def)
  let ?r = "add_type_description (message_key (rm_parsed b)) (type_description b)
    (add_type_description (message_key (rm_parsed a)) (type_description a) r)"
  have r: "resolver_inv ?r" using inv ab by (intro add_type_description_inv)
  then have "service_type_hash H (rv_type_descriptions ?r) srv a b \<noteq> Panic"
    using ab by (intro service_type_hash_not_Panic) (simp_all add: resolver_inv_def)
  with r a b show "fst (resolve_service H srv r) \<noteq> Panic \<and> resolver_inv (snd (resolve_service H srv r))"
    by (auto simp: resolve_service_def Let_def map_ok_eq_Panic)
qed

lemma send_goal_not_Panic: "calculate_send_goal_hash H r a m \<noteq> Panic"
  by (cases "map_of (rv_type_descriptions r) ''service_msgs/ServiceEventInfo''")
    (simp_all add: calculate_send_goal_hash_def Let_def service_hash_not_Panic)

lemma get_result_not_Panic: "calculate_get_result_hash H r a m \<noteq> Panic"
  by (cases "map_of (rv_type_descriptions r) ''service_msgs/ServiceEventInfo''")
    (simp_all add: calculate_get_result_hash_def Let_def service_hash_not_Panic)

lemma cancel_goal_not_Panic: "calculate_cancel_goal_hash H r \<noteq> Panic"
  by (cases "map_of (rv_type_descriptions r) ''service_msgs/ServiceEventInfo''")
    (simp_all add: calculate_cancel_goal_hash_def Let_def service_hash_not_Panic)

lemma hash_sorted_not_Panic: "hash_sorted H d deps \<noteq> Panic"
  by (simp add: hash_sorted_def Let_def split: option.splits)

lemma feedback_not_Panic: "calculate_feedback_message_hash H r a m \<noteq> Panic"
  by (simp add: calculate_feedback_message_hash_def hash_sorted_not_Panic)

lemma status_not_Panic: "calculate_status_hash H r \<noteq> Panic"
  by (simp add: calculate_status_hash_def Let_def hash_sorted_not_Panic)

lemma resolve_optional_Ok:
  assumes "resolver_inv r"
  shows "\<exists>m. resolve_optional H r p = Ok m \<and> map_option rm_parsed m = p"
proof (cases p)
  case (Some a)
  with resolve_message_Ok [OF assms, of a] show ?thesis by (auto simp: resolve_optional_def)
qed (simp add: resolve_optional_def)

lemma good_resolve_action: "action_ok action \<Longrightarrow> good (resolve_action H action)"
  unfolding good_def
proof (intro allI impI)
  fix r
  assume ok: "action_ok action" and inv: "resolver_inv r"
  obtain g where g: "resolve_message H r (pact_goal action) = Ok g" "rm_parsed g = pact_goal action"
    using resolve_message_Ok [OF inv] by blast
  obtain a where a: "resolve_optional H r (pact_result action) = Ok a" "map_option rm_parsed a = pact_result action"
    using resolve_optional_Ok [OF inv] by blast
  obtain b where b: "resolve_optional H r (pact_feedback action) = Ok b"
    "map_option rm_parsed b = pact_feedback action"
    using resolve_optional_Ok [OF inv] by blast
  have opt: "resolver_inv (add_optional p m r')" if "map_option rm_parsed m = p" "\<forall>x\<in>set_option p. msg_ok x"
    "resolver_inv r'" for m p r'
    using that add_type_description_inv [of r'] by (cases m) (auto simp: add_optional_def)
  let ?r1 = "add_type_description (message_key (rm_parsed g)) (type_description g) r"
  have "resolver_inv ?r1" using inv ok g by (intro add_type_description_inv) (simp_all add: action_ok_def)
  then have r3: "resolver_inv (add_optional (pact_feedback action) b (add_optional (pact_result action) a ?r1))"
    using ok a b by (intro opt) (simp_all add: action_ok_def)
  have bind: "bind_result x f \<noteq> Panic" if "x \<noteq> Panic" "\<And>y. f y \<noteq> Panic" for x :: "('x, 'y) result" and f :: "'x \<Rightarrow> ('z, 'y) result"
    using that by (cases x) auto
  from r3 g a b show "fst (resolve_action H action r) \<noteq> Panic \<and> resolver_inv (snd (resolve_action H action r))"
    by (auto simp: resolve_action_def Let_def bind send_goal_not_Panic get_result_not_Panic cancel_goal_not_Panic
        feedback_not_Panic status_not_Panic split: option.splits)
qed

lemma good_resolve_services: "list_all srv_ok srvs \<Longrightarrow> good (resolve_services H srvs)"
  by (induction srvs) (auto intro!: good_ret good_andthen good_resolve_service)

lemma good_resolve_actions: "list_all action_ok acts \<Longrightarrow> good (resolve_actions H acts)"
  by (induction acts) (auto intro!: good_ret good_andthen good_resolve_action)

lemma resolve_head_good:
  assumes "resolver_inv r" and "list_all msg_ok (msg # queue)"
  shows "\<exists>r' q' st'. resolve_head H r msg queue st = Ok (r', q', st') \<and> resolver_inv r' \<and> list_all msg_ok q'"
  using assms resolve_message_Ok [OF assms(1), of msg]
  by (cases "all_deps_resolved r msg") (auto simp: resolve_head_def intro: store_resolved_inv)

end

lemma resolve_loop_inv:
  "resolver_inv r \<Longrightarrow> list_all msg_ok q \<Longrightarrow> hash_env_laws H \<Longrightarrow>
   fst (resolve_loop H r q it n st) \<noteq> Panic \<and> resolver_inv (snd (resolve_loop H r q it n st))"
proof (induction H r q it n st rule: resolve_loop.induct)
  case (2 H r msg queue it n st)
  from hash_env_laws.resolve_head_good [OF "2.prems"(3,1,2)] obtain r1 q1 st1 where
    h: "resolve_head H r msg queue st = Ok (r1, q1, st1)" "resolver_inv r1" "list_all msg_ok q1" by blast
  with 2 show ?case
    by (auto simp: resolve_loop.simps(2) split: if_splits)
qed simp

lemma good_resolve_messages:
  assumes "hash_env_laws H" and "list_all msg_ok msgs"
  shows "good (resolve_messages H order msgs)"
  unfolding good_def
proof (intro allI impI)
  fix r
  assume "resolver_inv r"
  from resolve_loop_inv [OF this assms(2,1), of 0 "length msgs" 0]
  show "fst (resolve_messages H order msgs r) \<noteq> Panic \<and> resolver_inv (snd (resolve_messages H order msgs r))"
    by (auto simp: resolve_messages_def split: prod.splits result.splits)
qed

section \<open>Properties\<close>

text \<open>Bounded strings, which have a type id of their own, and the ids of all other types.\<close>

definition bounded_string :: "ParsedFieldType \<Rightarrow> bool" where
  "bounded_string t \<longleftrightarrow> pft_package t = None \<and> pft_base_type t = ''string'' \<and> pft_string_bound t \<noteq> None"

lemma plain_type_id:
  assumes "\<not> bounded_string t"
  shows "\<exists>i. get_type_id t = Ok i \<and>
    (is_single i \<longleftrightarrow> pft_array t = Single) \<and>
    (is_array i \<longleftrightarrow> (\<exists>n. pft_array t = Fixed n)) \<and>
    (is_bounded_sequence i \<longleftrightarrow> (\<exists>n. pft_array t = Bounded n)) \<and>
    (is_unbounded_sequence i \<longleftrightarrow> pft_array t = Unbounded) \<and>
    (is_nested i \<longleftrightarrow> pft_package t \<noteq> None \<or> \<not> is_primitive_type (pft_base_type t)) \<and>
    get_type_id (t\<lparr>pft_array := Single\<rparr>) = Ok (tid_base_type i)"
proof (cases "pft_package t \<noteq> None \<or> \<not> is_primitive_type (pft_base_type t)")
  case True
  then show ?thesis
    by (cases "pft_array t")
      (auto simp: get_type_id_def Let_def type_id_defs type_class_defs tid_base_type_def word_le_nat_alt)
next
  case False
  then have "get_type_id t = ok_or (UnsupportedFieldType (pft_base_type t) (pft_array t))
      (case pft_array t of Single \<Rightarrow> single_type_id (pft_base_type t) | Fixed _ \<Rightarrow> array_type_id (pft_base_type t)
       | Bounded _ \<Rightarrow> bounded_type_id (pft_base_type t) | Unbounded \<Rightarrow> unbounded_type_id (pft_base_type t))"
    "get_type_id (t\<lparr>pft_array := Single\<rparr>) =
      ok_or (UnsupportedFieldType (pft_base_type t) Single) (single_type_id (pft_base_type t))"
    using assms False by (auto simp: get_type_id_def Let_def bounded_string_def)
  moreover obtain i where "single_type_id (pft_base_type t) = Some i" "i \<in> {2..17}"
    "array_type_id (pft_base_type t) = Some (i + 48)" "bounded_type_id (pft_base_type t) = Some (i + 96)"
    "unbounded_type_id (pft_base_type t) = Some (i + 144)"
    using type_id_tables [of "pft_base_type t"] False by auto
  ultimately show ?thesis
    using False small_type_ids [of i] by (cases "pft_array t") simp_all
qed

text \<open>
  C31.  Every field type has a type id, and the id says what the type is: it is nested exactly when
  the type is no primitive type of the language, its base id is the id of the element type, and it
  is classified as single value, array, bounded or unbounded sequence exactly as the type is.  The
  exception is a bounded string, which has the id 21, alone or in an array or sequence, and belongs
  to none of the four classes.
\<close>

theorem type_id_classifies:
  "\<exists>i. get_type_id t = Ok i \<and>
    (is_nested i \<longleftrightarrow> pft_package t \<noteq> None \<or> \<not> is_primitive_type (pft_base_type t)) \<and>
    get_type_id (t\<lparr>pft_array := Single\<rparr>) = Ok (tid_base_type i) \<and>
    (if bounded_string t
     then i = TID_BOUNDED_STRING \<and> \<not> is_single i \<and> \<not> is_array i \<and> \<not> is_bounded_sequence i \<and>
       \<not> is_unbounded_sequence i
     else (is_single i \<longleftrightarrow> pft_array t = Single) \<and>
       (is_array i \<longleftrightarrow> (\<exists>n. pft_array t = Fixed n)) \<and>
       (is_bounded_sequence i \<longleftrightarrow> (\<exists>n. pft_array t = Bounded n)) \<and>
       (is_unbounded_sequence i \<longleftrightarrow> pft_array t = Unbounded))"
proof (cases "bounded_string t")
  case True
  then show ?thesis
    by (auto simp: bounded_string_def get_type_id_def is_primitive_type_def Let_def type_id_defs type_class_defs
        tid_base_type_def word_le_nat_alt)
next
  case False
  then show ?thesis using plain_type_id [OF False] by auto
qed

theorem type_id_classifies_witness:
  "\<exists>i. get_type_id \<lparr>pft_base_type = ''float64'', pft_package = None, pft_array = Fixed 36, pft_string_bound = None\<rparr>
     = Ok i \<and> is_array i \<and> \<not> is_nested i \<and> tid_base_type i = TID_FLOAT64"
  using type_id_classifies [of "\<lparr>pft_base_type = ''float64'', pft_package = None, pft_array = Fixed 36,
      pft_string_bound = None\<rparr>"]
  by (auto simp: get_type_id_def is_primitive_type_def single_type_id_def bounded_string_def)

text \<open>Messages for examples.\<close>

definition sample_field :: "string \<Rightarrow> string option \<Rightarrow> string \<Rightarrow> ParsedField" where
  "sample_field base pkg name = \<lparr>pf_name = name, pf_field_type = \<lparr>pft_base_type = base, pft_package = pkg,
     pft_array = Single, pft_string_bound = None\<rparr>, pf_default = None\<rparr>"

definition sample_msg :: "string \<Rightarrow> string \<Rightarrow> ParsedField list \<Rightarrow> ParsedMessage" where
  "sample_msg pkg name flds = \<lparr>pm_name = name, pm_package = pkg, pm_fields = flds, pm_constants = [],
     pm_source = [], pm_path = []\<rparr>"

definition sample_time :: ParsedMessage where
  "sample_time = sample_msg ''builtin_interfaces'' ''Time'' [sample_field ''int32'' None ''sec'']"

definition sample_header :: ParsedMessage where
  "sample_header = sample_msg ''std_msgs'' ''Header'' [sample_field ''Time'' (Some ''builtin_interfaces'') ''stamp'']"

definition sample_pose :: ParsedMessage where
  "sample_pose = sample_msg ''geometry_msgs'' ''Stamped'' [sample_field ''Header'' (Some ''std_msgs'') ''header'']"

lemmas sample_defs = sample_field_def sample_msg_def sample_time_def sample_header_def sample_pose_def

lemma sample_msg_ok: "list_all msg_ok [sample_header, sample_time, sample_pose]"
  by (simp add: sample_defs msg_ok_def field_names_ok_def slash_free_def)

lemma sample_needs:
  "needs {} sample_time = {}"
  "needs {} sample_header = {''builtin_interfaces/Time''}"
  "needs {} sample_pose = {''std_msgs/Header''}"
  by (simp_all add: sample_defs needs_def dep_key_def is_primitive_type_def)

lemma sample_keys [simp]:
  "message_key sample_time = ''builtin_interfaces/Time''"
  "message_key sample_header = ''std_msgs/Header''"
  "message_key sample_pose = ''geometry_msgs/Stamped''"
  by (simp_all add: sample_defs message_key_def)

lemma new_resolver_inv: "resolver_inv (resolver_with_external_packages h ext)"
  by (simp add: resolver_inv_def descs_ok_def resolver_with_external_packages_def)

lemma new_resolver [simp]:
  "known (resolver_with_external_packages h ext) = {}"
  "rv_resolved_messages (resolver_with_external_packages h ext) = Map.empty"
  "rv_external_packages (resolver_with_external_packages h ext) = ext"
  by (simp_all add: known_def resolver_with_external_packages_def)

text \<open>
  C9.  Up to 101 messages are resolved in whatever order they come: if their dependencies are acyclic
  (each message needs only messages of smaller rank, outside the external packages), the resolver
  returns every one of them, once.
\<close>

theorem resolve_messages_complete:
  fixes rank :: "ParsedMessage \<Rightarrow> nat"
  assumes "hash_env_laws H" and "iteration_order order" and "list_all msg_ok msgs"
    and "distinct (map message_key msgs)" and "length msgs \<le> 101"
    and "\<forall>m\<in>set msgs. \<forall>k\<in>needs ext m. \<exists>m'\<in>set msgs. message_key m' = k \<and> rank m' < rank m"
  shows "\<exists>ms r. resolve_messages H order msgs (resolver_with_external_packages humble ext) = (Ok ms, r) \<and>
    distinct (map rm_parsed ms) \<and> set (map rm_parsed ms) = set msgs \<and>
    (\<forall>m\<in>set msgs. needs ext m \<subseteq> known r)"
proof -
  let ?r = "resolver_with_external_packages humble ext"
  have queue: "queue_ok ?r rank msgs"
    using assms(3,6) by (simp add: queue_ok_def list_all_iff)
  have "length msgs * (length msgs + 1) \<le> 101 * (101 + 1)"
    using assms(5) by (intro mult_le_mono) auto
  then have rounds: "2 * 0 + length msgs * (length msgs + 1) \<le> 2 * MAX_ITERATIONS"
    by (simp add: MAX_ITERATIONS_def)
  from hash_env_laws.loop_complete [OF assms(1) new_resolver_inv [of humble ext] queue assms(4,5) rounds]
  obtain r where r: "resolve_loop H ?r msgs 0 (length msgs) 0 = (Ok (), r)"
    "known r = message_key ` set msgs"
    "\<forall>m\<in>set msgs. \<exists>p. rv_resolved_messages r (message_key m) = Some p \<and> rm_parsed p = m"
    "\<forall>k. k \<notin> message_key ` set msgs \<longrightarrow> rv_resolved_messages r k = None"
    unfolding new_resolver Un_empty_left by blast
  let ?ks = "order (dom (rv_resolved_messages r))"
  have dom: "dom (rv_resolved_messages r) = message_key ` set msgs"
    using r(3,4) by auto
  then have ks: "distinct ?ks" "set ?ks = message_key ` set msgs"
    using assms(2) by simp_all
  have inj: "inj_on message_key (set msgs)"
    using assms(4) by (simp add: distinct_map)
  have parsed: "rm_parsed (the (rv_resolved_messages r (message_key m))) = m" if "m \<in> set msgs" for m
    using r(3) that by fastforce
  have "inj_on (rm_parsed \<circ> (the \<circ> rv_resolved_messages r)) (set ?ks)"
    unfolding ks(2) by (rule inj_onI) (auto simp: parsed)
  then have "distinct (map rm_parsed (map (the \<circ> rv_resolved_messages r) ?ks))"
    using ks(1) by (simp add: distinct_map)
  moreover have "set (map rm_parsed (map (the \<circ> rv_resolved_messages r) ?ks)) = set msgs"
    using ks(2) parsed by (force simp: image_iff)
  moreover have "needs ext m \<subseteq> known r" if "m \<in> set msgs" for m
    using assms(6) r(2) that by force
  ultimately show ?thesis
    using r(1) by (intro exI [of _ "map (the \<circ> rv_resolved_messages r) ?ks"] exI [of _ r])
      (simp add: resolve_messages_def)
qed

theorem resolve_messages_complete_witness:
  "\<exists>ms r. resolve_messages sample_hash_env sorted_list_of_set [sample_header, sample_time, sample_pose]
       (resolver_with_external_packages False {}) = (Ok ms, r) \<and>
     set (map rm_parsed ms) = {sample_header, sample_time, sample_pose}"
proof -
  let ?rank = "\<lambda>m. if m = sample_time then 0 else if m = sample_header then 1 else 2 :: nat"
  have "\<forall>m\<in>set [sample_header, sample_time, sample_pose]. \<forall>k\<in>needs {} m.
      \<exists>m'\<in>set [sample_header, sample_time, sample_pose]. message_key m' = k \<and> ?rank m' < ?rank m"
    by (auto simp: sample_needs) (simp_all add: sample_defs)
  moreover have "distinct (map message_key [sample_header, sample_time, sample_pose])" by simp
  ultimately show ?thesis
    using resolve_messages_complete [OF sh.hash_env_laws_axioms iteration_order_sorted sample_msg_ok,
        of "{}" ?rank False] by auto
qed

text \<open>
  The resolver gives up on messages that could be resolved: when 101 messages that wait for
  another one stand before it in the queue, the loop ends with the error for a stalled resolution
  after 101 rounds, although the next message is ready.
\<close>

theorem resolution_stalls_early:
  assumes "list_all (\<lambda>m. \<not> all_deps_resolved r m) xs" and "length xs = 101" and "all_deps_resolved r m"
  shows "\<exists>ms. resolve_messages H order (xs @ [m]) r = (Err (ResolutionStalled 101 102 ms), r)"
proof -
  obtain ms where "resolve_loop H r (xs @ [m]) 0 102 0 = (Err (ResolutionStalled (0 + length xs) 102 ms), r)"
    using loop_stall [OF assms(1), of 0 0 102 "[m]" H] assms(2) by (auto simp: MAX_ITERATIONS_def)
  then show ?thesis using assms(2) by (simp add: resolve_messages_def)
qed

theorem resolution_stalls_early_witness:
  "\<exists>ms. fst (resolve_messages sample_hash_env sorted_list_of_set (replicate 101 sample_header @ [sample_time])
     (resolver_new False)) = Err (ResolutionStalled 101 102 ms)"
proof -
  have "\<not> all_deps_resolved (resolver_new False) sample_header"
    "all_deps_resolved (resolver_new False) sample_time"
    by (simp_all add: all_deps_resolved_iff resolver_new_def known_def sample_needs)
  then obtain ms where "resolve_messages sample_hash_env sorted_list_of_set
      (replicate 101 sample_header @ [sample_time]) (resolver_new False) =
      (Err (ResolutionStalled 101 102 ms), resolver_new False)"
    using resolution_stalls_early [of "resolver_new False" "replicate 101 sample_header" sample_time]
    by (auto simp: list_all_iff)
  then show ?thesis by simp
qed

text \<open>
  Whatever the outcome, also after an error, the resolver's table is closed: each resolved
  message is filed under its own key, its description is known, and so is that of every type it
  needs.
\<close>

theorem resolver_stays_closed:
  assumes "resolved_closed r"
  shows "resolved_closed (snd (resolve_messages H order msgs r))"
  using resolve_loop_closed [OF assms, of H msgs 0 "length msgs" 0]
  by (auto simp: resolve_messages_def split: prod.splits result.splits)

theorem resolver_stays_closed_witness:
  "resolved_closed (snd (resolve_messages sample_hash_env sorted_list_of_set
     [sample_header, sample_time] (resolver_new False)))"
  by (rule resolver_stays_closed) (simp add: resolved_closed_def resolver_new_def)

text \<open>
  C30.  The resolver always returns: from every state whose descriptions have consistent names, the
  resolution of messages, services and actions ends with a result or an error, neither a panic nor
  an endless recursion through the references (also where messages refer to each other in a
  cycle), and leaves such a state.
\<close>

theorem resolver_returns:
  assumes "hash_env_laws H" and "resolver_inv r" and "list_all msg_ok msgs" and "list_all srv_ok srvs"
    and "list_all action_ok acts"
  shows "fst (resolve_messages H order msgs r) \<noteq> Panic \<and> resolver_inv (snd (resolve_messages H order msgs r)) \<and>
    fst (resolve_services H srvs r) \<noteq> Panic \<and> resolver_inv (snd (resolve_services H srvs r)) \<and>
    fst (resolve_actions H acts r) \<noteq> Panic \<and> resolver_inv (snd (resolve_actions H acts r))"
  using good_resolve_messages [OF assms(1,3), of order] assms(2)
    hash_env_laws.good_resolve_services [OF assms(1,4)] hash_env_laws.good_resolve_actions [OF assms(1,5)]
  unfolding good_def by blast

definition sample_service :: ParsedService where
  "sample_service = \<lparr>psrv_name = ''Ask'', psrv_package = ''p'', psrv_request = sample_msg ''p'' ''AskRequest'' [],
     psrv_response = sample_msg ''p'' ''AskResponse'' [sample_field ''AskResponse'' None ''self''],
     psrv_source = [], psrv_path = []\<rparr>"

definition sample_action :: ParsedAction where
  "sample_action = \<lparr>pact_name = ''Fib'', pact_package = ''p'', pact_goal = sample_msg ''p'' ''FibGoal'' [],
     pact_result = Some (sample_msg ''p'' ''FibResult'' []), pact_feedback = None, pact_source = [], pact_path = []\<rparr>"

theorem resolver_returns_witness:
  "fst (resolve_services sample_hash_env [sample_service] (resolver_with_external_packages False {})) \<noteq> Panic \<and>
   fst (resolve_actions sample_hash_env [sample_action] (resolver_with_external_packages False {})) \<noteq> Panic"
proof -
  have "list_all srv_ok [sample_service]" "list_all action_ok [sample_action]"
    by (simp_all add: srv_ok_def action_ok_def sample_service_def sample_action_def sample_msg_def
        sample_field_def msg_ok_def field_names_ok_def slash_free_def)
  then show ?thesis
    using resolver_returns [OF sh.hash_env_laws_axioms new_resolver_inv [of False "{}"] sample_msg_ok]
    by blast
qed

text \<open>
  The type hash of a message covers the types of its own fields and no others: in every state of
  the resolver the referenced descriptions that are hashed with a message are exactly the known
  descriptions of its fields' types.  The descriptions that those refer to are missing.
\<close>

theorem message_hash_direct_only:
  assumes "resolver_inv r"
  shows "\<exists>d. build_type_description_msg msg (rv_type_descriptions r) = Ok d \<and>
    set (tdm_referenced d) \<subseteq> direct_deps (rv_type_descriptions r) (pm_package msg) (pm_fields msg) \<and>
    td_type_name ` set (tdm_referenced d) =
      td_type_name ` direct_deps (rv_type_descriptions r) (pm_package msg) (pm_fields msg)"
  using assms build_description_Ok unfolding resolver_inv_def by blast

theorem message_hash_direct_only_witness:
  "\<exists>d. build_type_description_msg sample_pose
       (rv_type_descriptions (snd (resolve_messages sample_hash_env sorted_list_of_set
         [sample_header, sample_time] (resolver_with_external_packages False {})))) = Ok d \<and>
     ''builtin_interfaces/msg/Time'' \<notin> td_type_name ` set (tdm_referenced d)"
proof -
  let ?r = "snd (resolve_messages sample_hash_env sorted_list_of_set
         [sample_header, sample_time] (resolver_with_external_packages False {}))"
  have "list_all msg_ok [sample_header, sample_time]" using sample_msg_ok by simp
  then have inv: "resolver_inv ?r"
    using good_resolve_messages [OF sh.hash_env_laws_axioms] new_resolver_inv unfolding good_def by blast
  have "td_type_name d = ''std_msgs/msg/Header''"
    if "d \<in> direct_deps (rv_type_descriptions ?r) (pm_package sample_pose) (pm_fields sample_pose)" for d
  proof -
    from that have "map_of (rv_type_descriptions ?r) (''std_msgs'' @ ''/'' @ ''Header'') = Some d"
      by (simp add: direct_deps_def sample_defs dep_key_def)
    then have "entry_ok (''std_msgs'' @ ''/'' @ ''Header'') d"
      using inv by (simp add: resolver_inv_def descs_ok_def)
    then obtain p n where pn: "slash_free p" "slash_free n" "''std_msgs'' @ ''/'' @ ''Header'' = p @ ''/'' @ n"
      "td_type_name d = component_type_name p n" unfolding entry_ok_def by blast
    from arg_cong [OF pn(3), of "split_on CHR ''/''"] pn(1,2) have "p = ''std_msgs''" "n = ''Header''"
      by (simp_all add: slash_free_def split_on_append split_on_part)
    then show ?thesis using pn(4) by (simp add: component_type_name_def ends_with_def starts_with_def)
  qed
  then show ?thesis
    using message_hash_direct_only [OF inv, of sample_pose] by fastforce
qed

definition clear_type :: "TypeDescription \<Rightarrow> TypeDescription" where
  "clear_type td = td\<lparr>td_fields := map (\<lambda>f. f\<lparr>fd_default_value := []\<rparr>) (td_fields td)\<rparr>"

definition clear_defaults :: "TypeDescriptionMsg \<Rightarrow> TypeDescriptionMsg" where
  "clear_defaults m = \<lparr>tdm_type_description = clear_type (tdm_type_description m),
     tdm_referenced = map clear_type (tdm_referenced m)\<rparr>"

lemma type_for_hash_eq: "type_for_hash t = type_for_hash t' \<longleftrightarrow> clear_type t = clear_type t'"
proof -
  have field: "\<lparr>fdh_name = fd_name f, fdh_field_type = fd_field_type f\<rparr> =
      \<lparr>fdh_name = fd_name g, fdh_field_type = fd_field_type g\<rparr> \<longleftrightarrow>
      f\<lparr>fd_default_value := []\<rparr> = g\<lparr>fd_default_value := []\<rparr>" for f g :: FieldDescription
    by (cases f; cases g) simp
  have "map (\<lambda>f. \<lparr>fdh_name = fd_name f, fdh_field_type = fd_field_type f\<rparr>) fs =
      map (\<lambda>f. \<lparr>fdh_name = fd_name f, fdh_field_type = fd_field_type f\<rparr>) gs \<longleftrightarrow>
      map (\<lambda>f. f\<lparr>fd_default_value := []\<rparr>) fs = map (\<lambda>f. f\<lparr>fd_default_value := []\<rparr>) gs"
    for fs gs :: "FieldDescription list"
    by (simp only: list_eq_iff_nth_eq length_map) (auto simp: field simp del: FieldDescriptionForHash.iffs)
  then show ?thesis
    by (cases t; cases t') (simp add: type_for_hash_def clear_type_def)
qed

lemma to_hash_version_eq: "to_hash_version m = to_hash_version m' \<longleftrightarrow> clear_defaults m = clear_defaults m'"
proof -
  have "map type_for_hash ts = map type_for_hash us \<longleftrightarrow> map clear_type ts = map clear_type us" for ts us
    by (auto simp: list_eq_iff_nth_eq type_for_hash_eq)
  then show ?thesis by (simp add: to_hash_version_def clear_defaults_def type_for_hash_eq)
qed

text \<open>
  The text that is hashed determines the description: for descriptions whose names have no
  spaces, the canonical JSON texts are equal exactly when the descriptions are equal up to default
  values.
\<close>

theorem hash_text_determines_type:
  assumes "hash_env_laws H" and "spaceless (to_hash_version m)" and "spaceless (to_hash_version m')"
  shows "to_ros2_json H (to_hash_version m) = to_ros2_json H (to_hash_version m') \<longleftrightarrow>
    clear_defaults m = clear_defaults m'"
  using hash_env_laws.ros2_json_inj [OF assms] to_hash_version_eq [of m m'] by metis

definition sample_description :: "u8 \<Rightarrow> string \<Rightarrow> TypeDescriptionMsg" where
  "sample_description type_id dv = \<lparr>tdm_type_description = \<lparr>td_type_name = ''std_msgs/msg/String'',
     td_fields = [\<lparr>fd_name = ''data'', fd_field_type = ftd_primitive type_id, fd_default_value = dv\<rparr>]\<rparr>,
     tdm_referenced = []\<rparr>"

theorem hash_text_determines_type_witness:
  "to_ros2_json sample_hash_env (to_hash_version (sample_description TID_STRING ''a'')) =
     to_ros2_json sample_hash_env (to_hash_version (sample_description TID_STRING ''b'')) \<and>
   to_ros2_json sample_hash_env (to_hash_version (sample_description TID_STRING [])) \<noteq>
     to_ros2_json sample_hash_env (to_hash_version (sample_description TID_INT8 []))"
proof -
  have "spaceless (to_hash_version (sample_description i d))" for i d
    by (simp add: spaceless_def spaceless_type_def to_hash_version_def type_for_hash_def
        sample_description_def ftd_primitive_def)
  from hash_text_determines_type [OF sh.hash_env_laws_axioms this this] show ?thesis
    by (simp add: clear_defaults_def clear_type_def sample_description_def ftd_primitive_def type_id_defs)
qed

end
