(* ===== verification/Dyn_TypeDesc.thy ===== *)
theory Dyn_TypeDesc
  imports Dyn_Schema Type_Desc RosZ_Collections
begin

text \<open>
  \<^verbatim>\<open>ros-z/src/dynamic/type_description.rs\<close>: the conversion of a schema to the type description that is
  hashed and sent, and back.  The two collections that the recursion over a schema fills are the
  state of the collecting functions.
\<close>

section \<open>From a schema to its description\<close>

primrec get_base_type_id :: "FieldType \<Rightarrow> (u8, DynamicError) result" where
  "get_base_type_id FT_Bool = Ok TID_BOOL"
| "get_base_type_id FT_Int8 = Ok TID_INT8"
| "get_base_type_id FT_Int16 = Ok TID_INT16"
| "get_base_type_id FT_Int32 = Ok TID_INT32"
| "get_base_type_id FT_Int64 = Ok TID_INT64"
| "get_base_type_id FT_Uint8 = Ok TID_UINT8"
| "get_base_type_id FT_Uint16 = Ok TID_UINT16"
| "get_base_type_id FT_Uint32 = Ok TID_UINT32"
| "get_base_type_id FT_Uint64 = Ok TID_UINT64"
| "get_base_type_id FT_Float32 = Ok TID_FLOAT32"
| "get_base_type_id FT_Float64 = Ok TID_FLOAT64"
| "get_base_type_id FT_String = Ok TID_STRING"
| "get_base_type_id (FT_BoundedString n) = Ok TID_STRING"
| "get_base_type_id (FT_Message schema) = Ok TID_NESTED_TYPE"
| "get_base_type_id (FT_Array inner n) = get_base_type_id inner"
| "get_base_type_id (FT_Sequence inner) = get_base_type_id inner"
| "get_base_type_id (FT_BoundedSequence inner n) = get_base_type_id inner"

fun field_type_to_description :: "FieldType \<Rightarrow> (FieldTypeDescription, DynamicError) result" where
  "field_type_to_description FT_Bool = Ok (ftd_primitive TID_BOOL)"
| "field_type_to_description FT_Int8 = Ok (ftd_primitive TID_INT8)"
| "field_type_to_description FT_Int16 = Ok (ftd_primitive TID_INT16)"
| "field_type_to_description FT_Int32 = Ok (ftd_primitive TID_INT32)"
| "field_type_to_description FT_Int64 = Ok (ftd_primitive TID_INT64)"
| "field_type_to_description FT_Uint8 = Ok (ftd_primitive TID_UINT8)"
| "field_type_to_description FT_Uint16 = Ok (ftd_primitive TID_UINT16)"
| "field_type_to_description FT_Uint32 = Ok (ftd_primitive TID_UINT32)"
| "field_type_to_description FT_Uint64 = Ok (ftd_primitive TID_UINT64)"
| "field_type_to_description FT_Float32 = Ok (ftd_primitive TID_FLOAT32)"
| "field_type_to_description FT_Float64 = Ok (ftd_primitive TID_FLOAT64)"
| "field_type_to_description FT_String = Ok (ftd_primitive TID_STRING)"
| "field_type_to_description (FT_BoundedString capacity) =
     Ok \<lparr>ftd_type_id = TID_STRING, ftd_capacity = 0, ftd_string_capacity = of_nat capacity,
         ftd_nested_type_name = []\<rparr>"
| "field_type_to_description (FT_Message schema) = Ok (ftd_nested TID_NESTED_TYPE (ms_type_name schema))"
| "field_type_to_description (FT_Array inner n) =
     bind_result (get_base_type_id inner) (\<lambda>base_type_id.
       let array_type_id = base_type_id + TID_ARRAY_OFFSET
       in case inner of
            FT_Message schema \<Rightarrow> Ok (ftd_nested_array array_type_id (of_nat n) (ms_type_name schema))
          | _ \<Rightarrow> Ok (ftd_array array_type_id (of_nat n)))"
| "field_type_to_description (FT_Sequence inner) =
     bind_result (get_base_type_id inner) (\<lambda>base_type_id.
       let seq_type_id = base_type_id + TID_UNBOUNDED_SEQUENCE_OFFSET
       in case inner of
            FT_Message schema \<Rightarrow> Ok (ftd_nested seq_type_id (ms_type_name schema))
          | _ \<Rightarrow> Ok (ftd_primitive seq_type_id))"
| "field_type_to_description (FT_BoundedSequence inner capacity) =
     bind_result (get_base_type_id inner) (\<lambda>base_type_id.
       let seq_type_id = base_type_id + TID_BOUNDED_SEQUENCE_OFFSET
       in case inner of
            FT_Message schema \<Rightarrow> Ok (ftd_nested_array seq_type_id (of_nat capacity) (ms_type_name schema))
          | _ \<Rightarrow> Ok (ftd_array seq_type_id (of_nat capacity)))"

definition field_schema_to_description :: "FieldSchema \<Rightarrow> (FieldDescription, DynamicError) result" where
  "field_schema_to_description field =
     bind_result (field_type_to_description (fs_field_type field)) (\<lambda>t.
       Ok \<lparr>fd_name = fs_name field, fd_field_type = t, fd_default_value = []\<rparr>)"

definition to_type_description :: "MessageSchema \<Rightarrow> (TypeDescription, DynamicError) result" where
  "to_type_description schema =
     bind_result (traverse (map field_schema_to_description (ms_fields schema))) (\<lambda>flds.
       Ok \<lparr>td_type_name = ms_type_name schema, td_fields = flds\<rparr>)"

record type_collection =
  tc_referenced :: "TypeDescription list"
  tc_visited :: "string \<rightharpoonup> bool"

definition mark_visited :: "string \<Rightarrow> (type_collection, unit, DynamicError) exec" where
  "mark_visited type_name = (\<lambda>c. (Ok (), c\<lparr>tc_visited := (tc_visited c)(type_name \<mapsto> True)\<rparr>))"

definition push_description :: "MessageSchema \<Rightarrow> (type_collection, unit, DynamicError) exec" where
  "push_description schema = (\<lambda>c. case to_type_description schema of
       Ok td \<Rightarrow> (Ok (), c\<lparr>tc_referenced := tc_referenced c @ [td]\<rparr>)
     | Err e \<Rightarrow> (Err e, c)
     | Panic \<Rightarrow> (Panic, c))"

primrec collect_field_type_references :: "FieldType \<Rightarrow> (type_collection, unit, DynamicError) exec"
  and fs_collect_references :: "FieldSchema \<Rightarrow> (type_collection, unit, DynamicError) exec"
  and ms_collect_referenced_types :: "MessageSchema \<Rightarrow> (type_collection, unit, DynamicError) exec" where
  "collect_field_type_references FT_Bool = ret ()"
| "collect_field_type_references FT_Int8 = ret ()"
| "collect_field_type_references FT_Int16 = ret ()"
| "collect_field_type_references FT_Int32 = ret ()"
| "collect_field_type_references FT_Int64 = ret ()"
| "collect_field_type_references FT_Uint8 = ret ()"
| "collect_field_type_references FT_Uint16 = ret ()"
| "collect_field_type_references FT_Uint32 = ret ()"
| "collect_field_type_references FT_Uint64 = ret ()"
| "collect_field_type_references FT_Float32 = ret ()"
| "collect_field_type_references FT_Float64 = ret ()"
| "collect_field_type_references FT_String = ret ()"
| "collect_field_type_references (FT_BoundedString n) = ret ()"
| "collect_field_type_references (FT_Message nested_schema) = (\<lambda>c.
     if tc_visited c (ms_type_name nested_schema) \<noteq> None then (Ok (), c)
     else andthen (mark_visited (ms_type_name nested_schema)) (\<lambda>_.
          andthen (ms_collect_referenced_types nested_schema) (\<lambda>_.
          push_description nested_schema)) c)"
| "collect_field_type_references (FT_Array inner n) = collect_field_type_references inner"
| "collect_field_type_references (FT_Sequence inner) = collect_field_type_references inner"
| "collect_field_type_references (FT_BoundedSequence inner n) = collect_field_type_references inner"
| "fs_collect_references (FieldSchema n t d) = collect_field_type_references t"
| "ms_collect_referenced_types (MessageSchema tn p n flds h) = run_all (map fs_collect_references flds)"

definition to_type_description_msg :: "MessageSchema \<Rightarrow> (TypeDescriptionMsg, DynamicError) result" where
  "to_type_description_msg schema =
     (case ms_collect_referenced_types schema \<lparr>tc_referenced = [], tc_visited = Map.empty\<rparr> of
        (r, c) \<Rightarrow> bind_result r (\<lambda>_.
          let referenced = sort_key td_type_name (tc_referenced c)
          in bind_result (to_type_description schema) (\<lambda>td.
             Ok \<lparr>tdm_type_description = td, tdm_referenced = referenced\<rparr>)))"

definition compute_type_hash :: "hash_env \<Rightarrow> MessageSchema \<Rightarrow> (bytes, DynamicError) result" where
  "compute_type_hash H schema = bind_result (to_type_description_msg schema) (calculate_hash H)"

section \<open>From a description to the schema\<close>

definition base_field_type ::
    "FieldTypeDescription \<Rightarrow> (string \<rightharpoonup> MessageSchema) \<Rightarrow> (FieldType, DynamicError) result" where
  "base_field_type ftd type_map =
     (let base_type_id = tid_base_type (ftd_type_id ftd) in
      if base_type_id = TID_BOOL then Ok FT_Bool
      else if base_type_id = TID_INT8 then Ok FT_Int8
      else if base_type_id = TID_INT16 then Ok FT_Int16
      else if base_type_id = TID_INT32 then Ok FT_Int32
      else if base_type_id = TID_INT64 then Ok FT_Int64
      else if base_type_id = TID_UINT8 then Ok FT_Uint8
      else if base_type_id = TID_UINT16 then Ok FT_Uint16
      else if base_type_id = TID_UINT32 then Ok FT_Uint32
      else if base_type_id = TID_UINT64 then Ok FT_Uint64
      else if base_type_id = TID_FLOAT32 then Ok FT_Float32
      else if base_type_id = TID_FLOAT64 then Ok FT_Float64
      else if base_type_id = TID_STRING then
        (if ftd_string_capacity ftd > 0 then Ok (FT_BoundedString (unat (ftd_string_capacity ftd)))
         else Ok FT_String)
      else if base_type_id = TID_NESTED_TYPE then
        bind_result (ok_or (FieldNotFound (''Referenced type not found: '' @ ftd_nested_type_name ftd))
            (type_map (ftd_nested_type_name ftd))) (\<lambda>schema. Ok (FT_Message schema))
      else Err (SerializationError (Text (''Unknown type ID: '' @ show_nat (unat base_type_id)))))"

definition field_type_description_to_type ::
    "FieldTypeDescription \<Rightarrow> (string \<rightharpoonup> MessageSchema) \<Rightarrow> (FieldType, DynamicError) result" where
  "field_type_description_to_type ftd type_map =
     bind_result (base_field_type ftd type_map) (\<lambda>base_type.
       if is_array (ftd_type_id ftd) then Ok (FT_Array base_type (unat (ftd_capacity ftd)))
       else if is_bounded_sequence (ftd_type_id ftd) then
         Ok (FT_BoundedSequence base_type (unat (ftd_capacity ftd)))
       else if is_unbounded_sequence (ftd_type_id ftd) then Ok (FT_Sequence base_type)
       else Ok base_type)"

definition field_description_to_schema ::
    "FieldDescription \<Rightarrow> (string \<rightharpoonup> MessageSchema) \<Rightarrow> (FieldSchema, DynamicError) result" where
  "field_description_to_schema fd type_map =
     bind_result (field_type_description_to_type (fd_field_type fd) type_map) (\<lambda>field_type.
       Ok (FieldSchema (fd_name fd) field_type None))"

definition type_description_to_schema_partial ::
    "TypeDescription \<Rightarrow> (MessageSchema, DynamicError) result" where
  "type_description_to_schema_partial td =
     (let parts = split_on CHR ''/'' (td_type_name td)
      in if length parts \<noteq> 3 then Err (InvalidTypeName (td_type_name td))
         else Ok (MessageSchema (td_type_name td) (parts ! 0) (parts ! 2) [] None))"

definition type_description_to_schema_full ::
    "TypeDescription \<Rightarrow> (string \<rightharpoonup> MessageSchema) \<Rightarrow> (MessageSchema, DynamicError) result" where
  "type_description_to_schema_full td type_map =
     (let parts = split_on CHR ''/'' (td_type_name td)
      in if length parts \<noteq> 3 then Err (InvalidTypeName (td_type_name td))
         else bind_result (traverse (map (\<lambda>fd. field_description_to_schema fd type_map) (td_fields td)))
           (\<lambda>flds. Ok (MessageSchema (td_type_name td) (parts ! 0) (parts ! 2) flds None)))"

text \<open>One pass of \<^verbatim>\<open>retain\<close>: the descriptions it keeps, the map, and whether one was resolved.\<close>

fun retain_unresolved ::
    "TypeDescription list \<Rightarrow> (string \<rightharpoonup> MessageSchema) \<Rightarrow> bool \<Rightarrow>
     TypeDescription list \<times> (string \<rightharpoonup> MessageSchema) \<times> bool" where
  "retain_unresolved [] resolved_map made_progress = ([], resolved_map, made_progress)"
| "retain_unresolved (ref_td # rest) resolved_map made_progress =
     (case type_description_to_schema_full ref_td resolved_map of
        Ok schema \<Rightarrow> retain_unresolved rest (resolved_map(td_type_name ref_td \<mapsto> schema)) True
      | _ \<Rightarrow> (case retain_unresolved rest resolved_map made_progress of
          (kept, m, p) \<Rightarrow> (ref_td # kept, m, p)))"

lemma retain_length: "retain_unresolved tds m p = (kept, m', p') \<Longrightarrow>
    length kept \<le> length tds \<and> (p' \<and> \<not> p \<longrightarrow> length kept < length tds)"
  by (induction tds m p arbitrary: kept m' p' rule: retain_unresolved.induct)
    (auto split: result.splits prod.splits, fastforce+)

fun join_str :: "string \<Rightarrow> string list \<Rightarrow> string" where
  "join_str sep [] = []"
| "join_str sep [x] = x"
| "join_str sep (x # y # r) = x @ sep @ join_str sep (y # r)"

function resolve_references ::
    "TypeDescription list \<Rightarrow> (string \<rightharpoonup> MessageSchema) \<Rightarrow> (string \<rightharpoonup> MessageSchema, DynamicError) result" where
  "resolve_references remaining resolved_map =
     (if remaining = [] then Ok resolved_map
      else case retain_unresolved remaining resolved_map False of
        (kept, m, made_progress) \<Rightarrow>
          if \<not> made_progress \<and> kept \<noteq> [] then
            Err (SerializationError (Text (''Cannot resolve dependencies for types: '' @
              join_str '', '' (map td_type_name kept))))
          else resolve_references kept m)"
  by pat_completeness auto

lemma retain_progress: "retain_unresolved tds m False = (kept, m', p) \<Longrightarrow> tds \<noteq> [] \<Longrightarrow>
    \<not> (\<not> p \<and> kept \<noteq> []) \<Longrightarrow> length kept < length tds"
  using retain_length [of tds m False kept m' p] by (cases p) auto

termination resolve_references
  by (relation "measure (\<lambda>(remaining, m). length remaining)") (auto dest!: retain_progress [OF sym])

declare resolve_references.simps [simp del]

definition type_description_msg_to_schema ::
    "TypeDescriptionMsg \<Rightarrow> (MessageSchema, DynamicError) result" where
  "type_description_msg_to_schema msg =
     bind_result (traverse (map type_description_to_schema_partial (tdm_referenced msg))) (\<lambda>_.
     bind_result (resolve_references (tdm_referenced msg) Map.empty) (\<lambda>resolved_map.
       type_description_to_schema_full (tdm_type_description msg) resolved_map))"

end
