(* ===== verification/TypeDesc_Roundtrip.thy ===== *)
theory TypeDesc_Roundtrip
  imports Dyn_TypeDesc Type_Hashing
begin

text \<open>
  Schemas and type descriptions: which schemas a description can express, that such a schema
  survives the conversion to its description and back, and where the descriptions of the message
  compiler and of the runtime differ.
\<close>

section \<open>Schemas that a description can express\<close>

text \<open>
  What a description keeps of a schema: everything but default values, hashes and the bounds of the
  strings in arrays and sequences.  A string bound of zero is not distinguished from an unbounded
  string.
\<close>

fun string_element :: "FieldType \<Rightarrow> FieldType" where
  "string_element (FT_BoundedString n) = FT_String"
| "string_element t = t"

primrec strip_ft :: "FieldType \<Rightarrow> FieldType" and strip_fs :: "FieldSchema \<Rightarrow> FieldSchema"
  and strip_ms :: "MessageSchema \<Rightarrow> MessageSchema" where
  "strip_ft FT_Bool = FT_Bool"
| "strip_ft FT_Int8 = FT_Int8"
| "strip_ft FT_Int16 = FT_Int16"
| "strip_ft FT_Int32 = FT_Int32"
| "strip_ft FT_Int64 = FT_Int64"
| "strip_ft FT_Uint8 = FT_Uint8"
| "strip_ft FT_Uint16 = FT_Uint16"
| "strip_ft FT_Uint32 = FT_Uint32"
| "strip_ft FT_Uint64 = FT_Uint64"
| "strip_ft FT_Float32 = FT_Float32"
| "strip_ft FT_Float64 = FT_Float64"
| "strip_ft FT_String = FT_String"
| "strip_ft (FT_BoundedString n) = (if n = 0 then FT_String else FT_BoundedString n)"
| "strip_ft (FT_Message s) = FT_Message (strip_ms s)"
| "strip_ft (FT_Array t n) = FT_Array (string_element (strip_ft t)) n"
| "strip_ft (FT_Sequence t) = FT_Sequence (string_element (strip_ft t))"
| "strip_ft (FT_BoundedSequence t n) = FT_BoundedSequence (string_element (strip_ft t)) n"
| "strip_fs (FieldSchema n t d) = FieldSchema n (strip_ft t) None"
| "strip_ms (MessageSchema tn p n flds h) = MessageSchema tn p n (map strip_fs flds) None"

text \<open>
  Element types of arrays and sequences are not themselves collections, and capacities and bounds
  fit 64 bits; the package and the name of a message are the
  outer parts of its three-part type name.
\<close>

definition plain_element :: "FieldType \<Rightarrow> bool" where
  "plain_element t \<longleftrightarrow> (case t of FT_Array _ _ \<Rightarrow> False
     | FT_Sequence _ \<Rightarrow> False | FT_BoundedSequence _ _ \<Rightarrow> False | _ \<Rightarrow> True)"

primrec ft_describable :: "FieldType \<Rightarrow> bool" and fs_describable :: "FieldSchema \<Rightarrow> bool"
  and ms_describable :: "MessageSchema \<Rightarrow> bool" where
  "ft_describable FT_Bool = True"
| "ft_describable FT_Int8 = True"
| "ft_describable FT_Int16 = True"
| "ft_describable FT_Int32 = True"
| "ft_describable FT_Int64 = True"
| "ft_describable FT_Uint8 = True"
| "ft_describable FT_Uint16 = True"
| "ft_describable FT_Uint32 = True"
| "ft_describable FT_Uint64 = True"
| "ft_describable FT_Float32 = True"
| "ft_describable FT_Float64 = True"
| "ft_describable FT_String = True"
| "ft_describable (FT_BoundedString n) = (n < 2 ^ 64)"
| "ft_describable (FT_Message s) = ms_describable s"
| "ft_describable (FT_Array t n) = (plain_element t \<and> ft_describable t \<and> n < 2 ^ 64)"
| "ft_describable (FT_Sequence t) = (plain_element t \<and> ft_describable t)"
| "ft_describable (FT_BoundedSequence t n) = (plain_element t \<and> ft_describable t \<and> n < 2 ^ 64)"
| "fs_describable (FieldSchema n t d) = ft_describable t"
| "ms_describable (MessageSchema tn p n flds h) =
     ((case split_on CHR ''/'' tn of [a, _, c] \<Rightarrow> a = p \<and> c = n | _ \<Rightarrow> False) \<and>
      list_all (\<lambda>b. b) (map fs_describable flds))"

text \<open>The message types inside a type at every depth, and those that its description names.\<close>

primrec ft_nested :: "FieldType \<Rightarrow> MessageSchema list" and fs_nested :: "FieldSchema \<Rightarrow> MessageSchema list"
  and ms_nested :: "MessageSchema \<Rightarrow> MessageSchema list" where
  "ft_nested FT_Bool = []"
| "ft_nested FT_Int8 = []"
| "ft_nested FT_Int16 = []"
| "ft_nested FT_Int32 = []"
| "ft_nested FT_Int64 = []"
| "ft_nested FT_Uint8 = []"
| "ft_nested FT_Uint16 = []"
| "ft_nested FT_Uint32 = []"
| "ft_nested FT_Uint64 = []"
| "ft_nested FT_Float32 = []"
| "ft_nested FT_Float64 = []"
| "ft_nested FT_String = []"
| "ft_nested (FT_BoundedString n) = []"
| "ft_nested (FT_Message s) = s # ms_nested s"
| "ft_nested (FT_Array t n) = ft_nested t"
| "ft_nested (FT_Sequence t) = ft_nested t"
| "ft_nested (FT_BoundedSequence t n) = ft_nested t"
| "fs_nested (FieldSchema n t d) = ft_nested t"
| "ms_nested (MessageSchema tn p n flds h) = concat (map fs_nested flds)"

fun ft_direct :: "FieldType \<Rightarrow> MessageSchema list" where
  "ft_direct (FT_Message s) = [s]"
| "ft_direct (FT_Array t n) = ft_direct t"
| "ft_direct (FT_Sequence t) = ft_direct t"
| "ft_direct (FT_BoundedSequence t n) = ft_direct t"
| "ft_direct t = []"

definition ms_direct :: "MessageSchema \<Rightarrow> MessageSchema list" where
  "ms_direct s = concat (map (\<lambda>f. ft_direct (fs_field_type f)) (ms_fields s))"

text \<open>A type name stands for one type.\<close>

definition coherent :: "MessageSchema \<Rightarrow> bool" where
  "coherent s \<longleftrightarrow> list_all (\<lambda>a. list_all (\<lambda>b. ms_type_name a = ms_type_name b \<longrightarrow>
     strip_ms a = strip_ms b) (ms_nested s)) (ms_nested s)"

section \<open>Lemmas\<close>

lemma strip_name [simp]: "ms_type_name (strip_ms s) = ms_type_name s"
  by (cases s) simp

lemma strip_fields: "ms_fields (strip_ms s) = map strip_fs (ms_fields s)"
  by (cases s) simp

lemma base_id_Ok: "\<exists>i. get_base_type_id t = Ok i"
  by (induction t rule: schema_induct(1)) auto

lemma base_id_element [simp]: "get_base_type_id (string_element t) = get_base_type_id t"
  by (cases t) simp_all

lemma size_element [simp]: "size (string_element t) = size t"
  by (cases t) simp_all

lemma base_id_strip [simp]: "get_base_type_id (strip_ft t) = get_base_type_id t"
  by (induction t rule: schema_induct(1) [where ?P2.0 = "\<lambda>_. True" and ?P3.0 = "\<lambda>_. True"]) auto

lemma ft_description_Ok: "\<exists>d. field_type_to_description t = Ok d"
proof -
  obtain i where i: "get_base_type_id u = Ok (i u)" for u using base_id_Ok by metis
  show ?thesis
  proof (cases t)
    case (FT_Array u n) then show ?thesis using i by (cases u) simp_all
  next
    case (FT_Sequence u) then show ?thesis using i by (cases u) simp_all
  next
    case (FT_BoundedSequence u n) then show ?thesis using i by (cases u) simp_all
  qed simp_all
qed

lemma ft_description_strip: "field_type_to_description (strip_ft t) = field_type_to_description t"
proof (cases t)
  case (FT_Array u n) then show ?thesis by (cases u) simp_all
next
  case (FT_Sequence u) then show ?thesis by (cases u) simp_all
next
  case (FT_BoundedSequence u n) then show ?thesis by (cases u) simp_all
qed (simp_all add: ftd_primitive_def)

lemma to_type_description_Ok: "\<exists>td. to_type_description s = Ok td \<and> td_type_name td = ms_type_name s"
proof -
  have "\<exists>d. field_schema_to_description f = Ok d" for f
    using ft_description_Ok [of "fs_field_type f"] by (auto simp: field_schema_to_description_def)
  then obtain g where "field_schema_to_description f = Ok (g f)" for f by metis
  then have "map field_schema_to_description (ms_fields s) = map Ok (map g (ms_fields s))" by simp
  then have "traverse (map field_schema_to_description (ms_fields s)) = Ok (map g (ms_fields s))"
    by (simp only: traverse_Ok)
  then show ?thesis by (simp add: to_type_description_def)
qed

lemma description_strip: "to_type_description (strip_ms s) = to_type_description s"
proof -
  have "field_schema_to_description (strip_fs f) = field_schema_to_description f" for f
    by (cases f) (simp add: field_schema_to_description_def ft_description_strip)
  then show ?thesis by (simp add: to_type_description_def strip_fields comp_def)
qed

definition describe :: "MessageSchema \<Rightarrow> TypeDescription" where
  "describe s = (case to_type_description s of Ok td \<Rightarrow> td | _ \<Rightarrow> undefined)"

lemma to_type_description_describe [simp]: "to_type_description s = Ok (describe s)"
  using to_type_description_Ok [of s] by (auto simp: describe_def)

lemma describe_name [simp]: "td_type_name (describe s) = ms_type_name s"
  using to_type_description_Ok [of s] by auto


subsection \<open>Fields\<close>

lemma ft_back:
  assumes "ft_describable t" and "\<And>s. s \<in> set (ft_direct t) \<Longrightarrow> m (ms_type_name s) = Some (strip_ms s)"
  shows "bind_result (field_type_to_description t) (\<lambda>d. field_type_description_to_type d m) = Ok (strip_ft t)"
proof -
  note d = field_type_description_to_type_def base_field_type_def tid_base_type_def type_class_defs
    type_id_defs ftd_primitive_def ftd_nested_def ftd_array_def ftd_nested_array_def
    plain_element_def word_le_nat_alt unat_of_nat take_bit_nat_eq_self word_gt_0 of_nat_eq_0_iff
  have cap: "(of_nat n :: 64 word) \<noteq> 0" if "0 < n" "n < 2 ^ 64" for n
    using that nat_dvd_not_less [of n "2 ^ 64"] by (simp add: word_of_nat_eq_0_iff)
  show ?thesis
  proof (cases t)
    case (FT_BoundedString n) then show ?thesis using assms cap by (simp add: d)
  next
    case (FT_Array u n) then show ?thesis using assms by (cases u) (simp_all add: d)
  next
    case (FT_Sequence u) then show ?thesis using assms by (cases u) (simp_all add: d)
  next
    case (FT_BoundedSequence u n) then show ?thesis using assms by (cases u) (simp_all add: d)
  qed (use assms in \<open>simp_all add: d\<close>)
qed

lemma direct_cases:
  assumes "ft_describable t" and "s \<in> set (ft_direct t)"
  obtains "t = FT_Message s" | n where "t = FT_Array (FT_Message s) n" | "t = FT_Sequence (FT_Message s)"
  | n where "t = FT_BoundedSequence (FT_Message s) n"
proof -
  have "u = FT_Message s" if "plain_element u" "s \<in> set (ft_direct u)" for u
    using that by (cases u) (simp_all add: plain_element_def)
  then show thesis using assms that by (cases t) auto
qed

lemma ft_back_resolved:
  assumes "ft_describable t"
    and "bind_result (field_type_to_description t) (\<lambda>d. field_type_description_to_type d m) = Ok u"
    and "s \<in> set (ft_direct t)"
  shows "m (ms_type_name s) \<noteq> None"
proof
  assume none: "m (ms_type_name s) = None"
  note d = field_type_description_to_type_def base_field_type_def tid_base_type_def type_class_defs
    type_id_defs ftd_nested_def ftd_nested_array_def word_le_nat_alt
  from assms(1,3)
  have "\<exists>e. bind_result (field_type_to_description t) (\<lambda>d. field_type_description_to_type d m) = Err e"
    by (cases rule: direct_cases) (use none in \<open>simp_all add: d\<close>)
  then show False using assms(2) by auto
qed


subsection \<open>Messages\<close>

lemma field_back:
  assumes "fs_describable f"
    and "\<And>s. s \<in> set (ft_direct (fs_field_type f)) \<Longrightarrow> m (ms_type_name s) = Some (strip_ms s)"
  shows "bind_result (field_schema_to_description f) (\<lambda>d. field_description_to_schema d m) = Ok (strip_fs f)"
proof (cases f)
  case (FieldSchema n t v)
  obtain d where d: "field_type_to_description t = Ok d" using ft_description_Ok by blast
  with ft_back [of t m] assms FieldSchema show ?thesis
    by (simp add: field_schema_to_description_def field_description_to_schema_def)
qed

lemma field_back_resolved:
  assumes "fs_describable f"
    and "bind_result (field_schema_to_description f) (\<lambda>d. field_description_to_schema d m) = Ok g"
    and "s \<in> set (ft_direct (fs_field_type f))"
  shows "m (ms_type_name s) \<noteq> None"
proof (cases f)
  case (FieldSchema n t v)
  obtain d where d: "field_type_to_description t = Ok d" using ft_description_Ok by blast
  with assms(2) FieldSchema obtain u where "field_type_description_to_type d m = Ok u"
    by (auto simp: field_schema_to_description_def field_description_to_schema_def bind_result_eq_Ok)
  with d ft_back_resolved [of t m u s] assms FieldSchema show ?thesis by simp
qed

lemma describable_name:
  assumes "ms_describable s"
  shows "length (split_on CHR ''/'' (ms_type_name s)) = 3"
    and "split_on CHR ''/'' (ms_type_name s) ! 0 = ms_package s"
    and "split_on CHR ''/'' (ms_type_name s) ! 2 = ms_name s"
    and "f \<in> set (ms_fields s) \<Longrightarrow> fs_describable f"
  using assms by (cases s; auto split: list.splits simp: list_all_iff)+

lemma describe_fields:
  "\<exists>g. (\<forall>f. field_schema_to_description f = Ok (g f)) \<and> td_fields (describe s) = map g (ms_fields s)"
proof -
  have "\<exists>d. field_schema_to_description f = Ok d" for f
    using ft_description_Ok [of "fs_field_type f"] by (auto simp: field_schema_to_description_def)
  then obtain g where g: "field_schema_to_description f = Ok (g f)" for f by metis
  then have "map field_schema_to_description (ms_fields s) = map Ok (map g (ms_fields s))" by simp
  then have "traverse (map field_schema_to_description (ms_fields s)) = Ok (map g (ms_fields s))"
    by (simp only: traverse_Ok)
  then have "td_fields (describe s) = map g (ms_fields s)"
    by (simp add: describe_def to_type_description_def del: to_type_description_describe)
  with g show ?thesis by blast
qed

lemma full_back:
  assumes "ms_describable s" and "\<And>d. d \<in> set (ms_direct s) \<Longrightarrow> m (ms_type_name d) = Some (strip_ms d)"
  shows "type_description_to_schema_full (describe s) m = Ok (strip_ms s)"
proof -
  obtain g where g: "field_schema_to_description f = Ok (g f)"
    and flds: "td_fields (describe s) = map g (ms_fields s)" for f
    using describe_fields by metis
  have "field_description_to_schema (g f) m = Ok (strip_fs f)" if "f \<in> set (ms_fields s)" for f
    using field_back [of f m] assms(2) that describable_name(4) [OF assms(1)] g
    by (auto simp: ms_direct_def)
  then have "map (\<lambda>fd. field_description_to_schema fd m) (td_fields (describe s)) =
      map Ok (map strip_fs (ms_fields s))"
    by (simp add: flds)
  then have "traverse (map (\<lambda>fd. field_description_to_schema fd m) (td_fields (describe s))) =
      Ok (map strip_fs (ms_fields s))"
    by (simp only: traverse_Ok)
  then show ?thesis
    using describable_name(1-3) [OF assms(1)]
    by (cases s) (simp add: type_description_to_schema_full_def)
qed

lemma full_back_resolved:
  assumes "ms_describable s" and "type_description_to_schema_full (describe s) m = Ok t"
    and "d \<in> set (ms_direct s)"
  shows "m (ms_type_name d) \<noteq> None"
proof -
  obtain g where g: "field_schema_to_description f = Ok (g f)"
    and flds: "td_fields (describe s) = map g (ms_fields s)" for f
    using describe_fields by metis
  from assms(3) obtain f where f: "f \<in> set (ms_fields s)" "d \<in> set (ft_direct (fs_field_type f))"
    by (auto simp: ms_direct_def)
  from assms(2) obtain us where "map (\<lambda>fd. field_description_to_schema fd m) (map g (ms_fields s)) = map Ok us"
    by (auto simp: type_description_to_schema_full_def Let_def bind_result_eq_Ok traverse_Ok flds
        split: if_splits)
  then have "\<forall>h\<in>set (ms_fields s). \<exists>u. field_description_to_schema (g h) m = Ok u"
    by (metis (no_types, lifting) image_eqI image_iff list.set_map)
  with f(1) obtain u where "field_description_to_schema (g f) m = Ok u" by blast
  then show ?thesis
    using field_back_resolved [of f m u d] f describable_name(4) [OF assms(1)] g by simp
qed

lemma describe_strip: "strip_ms a = strip_ms b \<Longrightarrow> describe a = describe b"
  using description_strip [of a] description_strip [of b] by simp


subsection \<open>Collection\<close>

text \<open>
  What a collecting step adds: descriptions of types that were not visited before, one for each name
  it marks, such that every type that is named by the source of the step or by an added description
  is marked at the end.
\<close>

definition added :: "MessageSchema set \<Rightarrow> MessageSchema set \<Rightarrow> string set \<Rightarrow> MessageSchema list \<Rightarrow> string set \<Rightarrow> bool" where
  "added A D V new V' \<longleftrightarrow> V' = V \<union> ms_type_name ` set new \<and> distinct (map ms_type_name new) \<and>
     ms_type_name ` set new \<inter> V = {} \<and> set new \<subseteq> A \<and> ms_type_name ` D \<subseteq> V' \<and>
     (\<forall>n\<in>set new. ms_type_name ` set (ms_direct n) \<subseteq> V')"

lemma addedD:
  assumes "added A D V new V'"
  shows "V' = V \<union> ms_type_name ` set new" and "distinct (map ms_type_name new)"
    and "ms_type_name ` set new \<inter> V = {}" and "set new \<subseteq> A" and "ms_type_name ` D \<subseteq> V'"
    and "n \<in> set new \<Longrightarrow> ms_type_name ` set (ms_direct n) \<subseteq> V'"
  using assms unfolding added_def by blast+

lemma added_append:
  assumes "added A D V new V'" and "added B E V' new' V''"
  shows "added (A \<union> B) (D \<union> E) V (new @ new') V''"
  unfolding added_def
proof (intro conjI)
  note 1 = addedD [OF assms(1)] and 2 = addedD [OF assms(2)]
  show "V'' = V \<union> ms_type_name ` set (new @ new')" using 1 2 by auto
  show "distinct (map ms_type_name (new @ new'))" using 1 2 by auto
  show "ms_type_name ` set (new @ new') \<inter> V = {}" using 1 2 by auto
  show "set (new @ new') \<subseteq> A \<union> B" using 1 2 by auto
  have sub: "V' \<subseteq> V''" using 2 by blast
  from addedD(5) [OF assms(1)] addedD(5) [OF assms(2)] show "ms_type_name ` (D \<union> E) \<subseteq> V''" using sub by blast
  show "\<forall>n\<in>set (new @ new'). ms_type_name ` set (ms_direct n) \<subseteq> V''"
  proof
    fix n assume "n \<in> set (new @ new')"
    then consider "n \<in> set new" | "n \<in> set new'" by auto
    then show "ms_type_name ` set (ms_direct n) \<subseteq> V''"
    proof cases
      case 1
      with sub show ?thesis using addedD(6) [OF assms(1)] by blast
    qed (rule 2(6))
  qed
qed

lemma added_snoc:
  assumes "added A (set (ms_direct s)) (insert (ms_type_name s) V) new V'" and "ms_type_name s \<notin> V"
  shows "added (insert s A) {s} V (new @ [s]) V'"
  unfolding added_def
proof (intro conjI)
  note 1 = addedD [OF assms(1)]
  show "V' = V \<union> ms_type_name ` set (new @ [s])" using 1 by auto
  show "distinct (map ms_type_name (new @ [s]))" using 1 by auto
  show "ms_type_name ` set (new @ [s]) \<inter> V = {}" using 1 assms(2) by auto
  show "set (new @ [s]) \<subseteq> insert s A" using 1 by auto
  show "ms_type_name ` {s} \<subseteq> V'" using 1 by blast
  show "\<forall>n\<in>set (new @ [s]). ms_type_name ` set (ms_direct n) \<subseteq> V'" using 1 by (metis Un_iff set_append set_ConsD empty_iff list.set(1))
qed

definition collects :: "MessageSchema set \<Rightarrow> MessageSchema set \<Rightarrow> (type_collection, unit, DynamicError) exec \<Rightarrow> bool" where
  "collects A D f \<longleftrightarrow> (\<forall>r v. \<exists>new v'. f \<lparr>tc_referenced = r, tc_visited = v\<rparr> =
     (Ok (), \<lparr>tc_referenced = r @ map describe new, tc_visited = v'\<rparr>) \<and> added A D (dom v) new (dom v'))"

lemma collects_ret: "collects {} {} (ret ())"
  by (simp add: collects_def added_def ret_def)

lemma collects_andthen:
  assumes "collects A D f" and "collects B E g"
  shows "collects (A \<union> B) (D \<union> E) (andthen f (\<lambda>_. g))"
  unfolding collects_def
proof (intro allI)
  fix r v
  obtain new v' where 1: "f \<lparr>tc_referenced = r, tc_visited = v\<rparr> =
      (Ok (), \<lparr>tc_referenced = r @ map describe new, tc_visited = v'\<rparr>)" "added A D (dom v) new (dom v')"
    using assms(1) unfolding collects_def by blast
  obtain new' v'' where 2: "g \<lparr>tc_referenced = r @ map describe new, tc_visited = v'\<rparr> =
      (Ok (), \<lparr>tc_referenced = (r @ map describe new) @ map describe new', tc_visited = v''\<rparr>)"
    "added B E (dom v') new' (dom v'')"
    using assms(2) unfolding collects_def by blast
  show "\<exists>new v'. andthen f (\<lambda>_. g) \<lparr>tc_referenced = r, tc_visited = v\<rparr> =
      (Ok (), \<lparr>tc_referenced = r @ map describe new, tc_visited = v'\<rparr>) \<and>
      added (A \<union> B) (D \<union> E) (dom v) new (dom v')"
    by (intro exI [of _ "new @ new'"] exI [of _ v''] conjI added_append [OF 1(2) 2(2)])
      (simp add: andthen_def 1(1) 2(1))
qed

lemma collects_run_all:
  assumes "\<And>x. x \<in> set xs \<Longrightarrow> collects (A x) (D x) (f x)"
  shows "collects (\<Union> (A ` set xs)) (\<Union> (D ` set xs)) (run_all (map f xs))"
  using assms
proof (induction xs)
  case Nil then show ?case using collects_ret by simp
next
  case (Cons x xs)
  then show ?case using collects_andthen [of "A x" "D x" "f x"] by simp
qed

lemma collects_message:
  assumes "collects A (set (ms_direct s)) (ms_collect_referenced_types s)"
  shows "collects (insert s A) {s} (collect_field_type_references (FT_Message s))"
  unfolding collects_def
proof (intro allI)
  fix r v
  let ?goal = "\<lambda>new v'. collect_field_type_references (FT_Message s) \<lparr>tc_referenced = r, tc_visited = v\<rparr> =
      (Ok (), \<lparr>tc_referenced = r @ map describe new, tc_visited = v'\<rparr>) \<and>
      added (insert s A) {s} (dom v) new (dom v')"
  show "\<exists>new v'. ?goal new v'"
  proof (cases "v (ms_type_name s) = None")
    case False
    then have "?goal [] v" by (auto simp: added_def)
    then show ?thesis by blast
  next
    case True
    obtain new v' where 1: "ms_collect_referenced_types s
          \<lparr>tc_referenced = r, tc_visited = v(ms_type_name s \<mapsto> True)\<rparr> =
        (Ok (), \<lparr>tc_referenced = r @ map describe new, tc_visited = v'\<rparr>)"
      "added A (set (ms_direct s)) (dom (v(ms_type_name s \<mapsto> True))) new (dom v')"
      using assms unfolding collects_def by blast
    have "added (insert s A) {s} (dom v) (new @ [s]) (dom v')"
      using added_snoc [of A s "dom v" new "dom v'"] 1(2) True by (simp add: domIff)
    with 1(1) True have "?goal (new @ [s]) v'"
      by (simp add: andthen_def mark_visited_def push_description_def)
    then show ?thesis by blast
  qed
qed

lemma collects_schema:
  "collects (set (ft_nested t)) (set (ft_direct t)) (collect_field_type_references t)"
  "collects (set (fs_nested f)) (set (ft_direct (fs_field_type f))) (fs_collect_references f)"
  "collects (set (ms_nested s)) (set (ms_direct s)) (ms_collect_referenced_types s)"
proof (induction t and f and s rule: schema_induct)
  case (FT_Message s)
  then show ?case using collects_message by simp
next
  case (MessageSchema tn p n flds h)
  then show ?case
    using collects_run_all [of flds "\<lambda>f. set (fs_nested f)" "\<lambda>f. set (ft_direct (fs_field_type f))"
        fs_collect_references]
    by (simp add: ms_direct_def)
qed (simp_all add: collects_ret)


subsection \<open>Resolution\<close>

text \<open>
  The referenced types of a coherent schema: distinct names, each describable, and every type that
  one of them names is among them.
\<close>

definition closed_types :: "MessageSchema set \<Rightarrow> bool" where
  "closed_types N \<longleftrightarrow> inj_on ms_type_name N \<and> (\<forall>n\<in>N. ms_describable n) \<and>
     (\<forall>n\<in>N. \<forall>d\<in>set (ms_direct n). \<exists>e\<in>N. ms_type_name e = ms_type_name d \<and> strip_ms e = strip_ms d)"

definition resolved_except :: "MessageSchema set \<Rightarrow> MessageSchema set \<Rightarrow> (string \<rightharpoonup> MessageSchema) \<Rightarrow> bool" where
  "resolved_except N R m \<longleftrightarrow>
     (\<forall>n\<in>N. m (ms_type_name n) = (if n \<in> R then None else Some (strip_ms n)))"

lemma full_iff:
  assumes "closed_types N" and "resolved_except N R m" and "n \<in> N"
  shows "if (\<forall>e\<in>R \<inter> N. ms_type_name e \<notin> ms_type_name ` set (ms_direct n))
    then type_description_to_schema_full (describe n) m = Ok (strip_ms n)
    else \<forall>t. type_description_to_schema_full (describe n) m \<noteq> Ok t"
proof -
  have n: "ms_describable n"
    and dep: "\<And>d. d \<in> set (ms_direct n) \<Longrightarrow> \<exists>e\<in>N. ms_type_name e = ms_type_name d \<and> strip_ms e = strip_ms d"
    using assms(1,3) by (auto simp: closed_types_def)
  show ?thesis
  proof (cases "\<forall>e\<in>R \<inter> N. ms_type_name e \<notin> ms_type_name ` set (ms_direct n)")
    case True
    have "m (ms_type_name d) = Some (strip_ms d)" if "d \<in> set (ms_direct n)" for d
    proof -
      from dep [OF that] obtain e where e: "e \<in> N" "ms_type_name e = ms_type_name d" "strip_ms e = strip_ms d"
        by blast
      then have "e \<notin> R" using True that by (metis IntI image_eqI)
      then show ?thesis using assms(2) e by (metis resolved_except_def)
    qed
    then show ?thesis using full_back [OF n] True by simp
  next
    case False
    then obtain e d where e: "e \<in> R" "e \<in> N" "d \<in> set (ms_direct n)" "ms_type_name e = ms_type_name d"
      by auto
    then have "m (ms_type_name d) = None" using assms(2) by (metis resolved_except_def)
    then have "\<forall>t. type_description_to_schema_full (describe n) m \<noteq> Ok t"
      using full_back_resolved [OF n _ e(3)] by blast
    then show ?thesis using False by simp
  qed
qed

lemma resolved_insert:
  assumes "closed_types N" and "resolved_except N R m" and "n \<in> N"
  shows "resolved_except N (R - {n}) (m(ms_type_name n \<mapsto> strip_ms n))"
  using assms by (auto simp: resolved_except_def closed_types_def inj_on_def)

text \<open>One pass keeps a sublist, and resolves a type whose dependencies are resolved.\<close>

lemma retain_pass:
  assumes "closed_types N" and "set R \<subseteq> N" and "distinct R" and "set R \<subseteq> S"
    and "resolved_except N S m"
  shows "\<exists>K m' p'. retain_unresolved (map describe R) m p = (map describe K, m', p') \<and>
    set K \<subseteq> set R \<and> distinct K \<and> resolved_except N (S - set R \<union> set K) m' \<and> (p \<longrightarrow> p') \<and>
    ((\<exists>n\<in>set R. \<forall>e\<in>S \<inter> N. ms_type_name e \<notin> ms_type_name ` set (ms_direct n)) \<longrightarrow> p')"
  using assms(2-5)
proof (induction R arbitrary: S m p)
  case Nil
  then show ?case by simp
next
  case (Cons n R)
  note full = full_iff [OF assms(1) Cons.prems(4), of n]
  show ?case
  proof (cases "\<forall>e\<in>S \<inter> N. ms_type_name e \<notin> ms_type_name ` set (ms_direct n)")
    case True
    with full Cons.prems have ok: "type_description_to_schema_full (describe n) m = Ok (strip_ms n)" by simp
    let ?m = "m(ms_type_name n \<mapsto> strip_ms n)"
    have pre: "set R \<subseteq> N" "distinct R" "set R \<subseteq> S - {n}" using Cons.prems(1-3) by auto
    have "resolved_except N (S - {n}) ?m"
      using resolved_insert [OF assms(1) Cons.prems(4)] Cons.prems(1) by simp
    from Cons.IH [OF pre this, of True] obtain K m' p' where K:
      "retain_unresolved (map describe R) ?m True = (map describe K, m', p')" "set K \<subseteq> set R"
      "distinct K" "resolved_except N (S - {n} - set R \<union> set K) m'" "p'"
      by blast
    have "S - {n} - set R = S - set (n # R)" by auto
    with K ok show ?thesis
      by (intro exI [of _ K] exI [of _ m'] exI [of _ p']) auto
  next
    case False
    with full Cons.prems have no: "type_description_to_schema_full (describe n) m \<noteq> Ok t" for t by simp
    from Cons.IH [of S m p] Cons.prems
    obtain K m' p' where K: "retain_unresolved (map describe R) m p = (map describe K, m', p')"
      "set K \<subseteq> set R" "distinct K" "resolved_except N (S - set R \<union> set K) m'" "p \<longrightarrow> p'"
      "(\<exists>n\<in>set R. \<forall>e\<in>S \<inter> N. ms_type_name e \<notin> ms_type_name ` set (ms_direct n)) \<longrightarrow> p'"
      by auto
    have "S - set R \<union> set K = S - set (n # R) \<union> set (n # K)"
      using Cons.prems(2,3) K(2) by auto
    with K False no Cons.prems(2) show ?thesis
      by (intro exI [of _ "n # K"] exI [of _ m'] exI [of _ p'])
        (auto split: result.splits)
  qed
qed


text \<open>A type is larger than the types it names, so that some unresolved type has all it needs.\<close>

lemma direct_size:
  assumes "d \<in> set (ms_direct s)"
  shows "size (strip_ms d) < size (strip_ms s)"
proof -
  have t: "d \<in> set (ft_direct t) \<Longrightarrow> size (strip_ms d) < size (strip_ft t)" for t
    by (induction t rule: schema_induct(1) [where ?P2.0 = "\<lambda>_. True" and ?P3.0 = "\<lambda>_. True"]) auto
  from assms obtain f where f: "f \<in> set (ms_fields s)" "d \<in> set (ft_direct (fs_field_type f))"
    by (auto simp: ms_direct_def)
  have "size (strip_ft (fs_field_type f)) < size (strip_fs f)" by (cases f) simp
  also have "size (strip_fs f) < size (strip_ms s)"
    using f(1) size_list_estimation' [of "strip_fs f" "map strip_fs (ms_fields s)" _ size]
    by (cases s) (fastforce simp: less_Suc_eq_le)
  finally show ?thesis using t [OF f(2)] by simp
qed

lemma ready_type:
  assumes "closed_types N" and "R \<subseteq> N" and "R \<noteq> {}"
  shows "\<exists>n\<in>R. \<forall>e\<in>R \<inter> N. ms_type_name e \<notin> ms_type_name ` set (ms_direct n)"
proof -
  obtain n where n: "n \<in> R" "\<And>e. e \<in> R \<Longrightarrow> size (strip_ms n) \<le> size (strip_ms e)"
    using assms(3) ex_has_least_nat [of "\<lambda>n. n \<in> R" _ "\<lambda>n. size (strip_ms n)"] by blast
  have "ms_type_name e \<noteq> ms_type_name d" if e: "e \<in> R" and d: "d \<in> set (ms_direct n)" for e d
  proof
    assume eq: "ms_type_name e = ms_type_name d"
    have "n \<in> N" using n(1) assms(2) by blast
    with assms(1) d obtain e' where e': "e' \<in> N" "ms_type_name e' = ms_type_name d" "strip_ms e' = strip_ms d"
      unfolding closed_types_def by metis
    have "inj_on ms_type_name N" using assms(1) by (simp add: closed_types_def)
    then have "e' = e" using e'(1,2) eq e assms(2) by (metis inj_onD subsetD)
    then show False using direct_size [OF d] n(2) [OF e] e'(3) by simp
  qed
  then show ?thesis using n(1) by blast
qed

lemma resolve_closed:
  assumes "closed_types N" and "set R \<subseteq> N" and "distinct R" and "resolved_except N (set R) m"
  shows "\<exists>m'. resolve_references (map describe R) m = Ok m' \<and> resolved_except N {} m'"
  using assms(2-4)
proof (induction "length R" arbitrary: R m rule: less_induct)
  case less
  show ?case
  proof (cases "R = []")
    case True
    then show ?thesis using less.prems(3) by (simp add: resolve_references.simps)
  next
    case False
    obtain K m' where K: "retain_unresolved (map describe R) m False = (map describe K, m', True)"
      "set K \<subseteq> set R" "distinct K" "resolved_except N (set R - set R \<union> set K) m'"
      using retain_pass [OF assms(1) less.prems(1,2) order_refl less.prems(3), of False]
        ready_type [OF assms(1) less.prems(1)] False by auto
    have "length K < length R" using retain_length [OF K(1)] by simp
    moreover have "set K \<subseteq> N" using K(2) less.prems(1) by blast
    ultimately show ?thesis
      using less.hyps [of K m'] K False by (subst resolve_references.simps) simp
  qed
qed

lemma nested_describable:
  "ft_describable t \<Longrightarrow> n \<in> set (ft_nested t) \<Longrightarrow> ms_describable n"
  "fs_describable f \<Longrightarrow> n \<in> set (fs_nested f) \<Longrightarrow> ms_describable n"
  "ms_describable s \<Longrightarrow> n \<in> set (ms_nested s) \<Longrightarrow> ms_describable n"
  by (induction t and f and s rule: schema_induct) (auto simp: list_all_iff)

lemma direct_nested:
  "set (ft_direct t) \<subseteq> set (ft_nested t)"
  "set (ft_direct (fs_field_type f)) \<subseteq> set (fs_nested f)"
  "set (ms_direct s) \<subseteq> set (ms_nested s)"
  by (induction t and f and s rule: schema_induct) (auto simp: ms_direct_def)

lemma nested_trans:
  "n \<in> set (ft_nested t) \<Longrightarrow> set (ms_nested n) \<subseteq> set (ft_nested t)"
  "n \<in> set (fs_nested f) \<Longrightarrow> set (ms_nested n) \<subseteq> set (fs_nested f)"
  "n \<in> set (ms_nested s) \<Longrightarrow> set (ms_nested n) \<subseteq> set (ms_nested s)"
  by (induction t and f and s rule: schema_induct) auto

lemma sort_key_describe:
  "sort_key td_type_name (map describe xs) = map describe (sort_key ms_type_name xs)"
proof -
  have "insort_key td_type_name (describe x) (map describe ys) = map describe (insort_key ms_type_name x ys)"
    for x ys by (induction ys) auto
  then show ?thesis by (induction xs) auto
qed




section \<open>Properties\<close>

lemma coherentD:
  "coherent s \<Longrightarrow> a \<in> set (ms_nested s) \<Longrightarrow> b \<in> set (ms_nested s) \<Longrightarrow> ms_type_name a = ms_type_name b \<Longrightarrow>
    strip_ms a = strip_ms b"
  unfolding coherent_def list_all_iff by blast

lemma collected_types:
  assumes "ms_describable s" and "coherent s"
  obtains N v where "ms_collect_referenced_types s \<lparr>tc_referenced = [], tc_visited = Map.empty\<rparr> =
      (Ok (), \<lparr>tc_referenced = map describe N, tc_visited = v\<rparr>)" "closed_types (set N)" "distinct N"
    "\<And>d. d \<in> set (ms_direct s) \<Longrightarrow> \<exists>e\<in>set N. ms_type_name e = ms_type_name d \<and> strip_ms e = strip_ms d"
proof -
  obtain N v where N: "ms_collect_referenced_types s \<lparr>tc_referenced = [], tc_visited = Map.empty\<rparr> =
      (Ok (), \<lparr>tc_referenced = [] @ map describe N, tc_visited = v\<rparr>)"
    and ad: "added (set (ms_nested s)) (set (ms_direct s)) (dom (Map.empty :: string \<rightharpoonup> bool)) N (dom v)"
    using collects_schema(3) [of s] unfolding collects_def by metis
  have V: "dom v = ms_type_name ` set N" using addedD(1) [OF ad] by simp
  note dist = addedD(2) [OF ad] and sub = addedD(4) [OF ad] and top = addedD(5) [OF ad]
    and deps = addedD(6) [OF ad]
  have dep: "\<exists>e\<in>set N. ms_type_name e = ms_type_name d \<and> strip_ms e = strip_ms d"
    if "ms_type_name d \<in> dom v" and "d \<in> set (ms_nested s)" for d
  proof -
    from that(1) V obtain e where e: "e \<in> set N" "ms_type_name e = ms_type_name d" by auto
    with sub coherentD [OF assms(2) _ that(2), of e] show ?thesis by blast
  qed
  have "closed_types (set N)"
    unfolding closed_types_def
  proof (intro conjI ballI)
    show "inj_on ms_type_name (set N)" using dist by (simp add: distinct_map)
  next
    fix n assume "n \<in> set N"
    with sub show "ms_describable n" using nested_describable(3) [OF assms(1)] by blast
  next
    fix n d assume n: "n \<in> set N" and d: "d \<in> set (ms_direct n)"
    have "d \<in> set (ms_nested s)"
      using n d sub direct_nested(3) [of n] nested_trans(3) [of n s] by blast
    moreover have "ms_type_name d \<in> dom v" using deps [OF n] d by blast
    ultimately show "\<exists>e\<in>set N. ms_type_name e = ms_type_name d \<and> strip_ms e = strip_ms d"
      using dep by blast
  qed
  moreover have "\<exists>e\<in>set N. ms_type_name e = ms_type_name d \<and> strip_ms e = strip_ms d"
    if "d \<in> set (ms_direct s)" for d
    using dep [of d] top that direct_nested(3) [of s] by blast
  ultimately show thesis
    using that [of N v] N dist by (simp add: distinct_map)
qed

lemma described_schema_back:
  assumes "ms_describable s" and "coherent s"
  shows "\<exists>m. to_type_description_msg s = Ok m \<and> type_description_msg_to_schema m = Ok (strip_ms s)"
proof -
  from assms obtain N v where N: "ms_collect_referenced_types s \<lparr>tc_referenced = [], tc_visited = Map.empty\<rparr> =
      (Ok (), \<lparr>tc_referenced = map describe N, tc_visited = v\<rparr>)"
    and cl: "closed_types (set N)" and dist: "distinct N"
    and top: "\<And>d. d \<in> set (ms_direct s) \<Longrightarrow>
      \<exists>e\<in>set N. ms_type_name e = ms_type_name d \<and> strip_ms e = strip_ms d"
    by (rule collected_types) blast
  let ?R = "sort_key ms_type_name N"
  let ?msg = "\<lparr>tdm_type_description = describe s, tdm_referenced = map describe ?R\<rparr>"
  have m: "to_type_description_msg s = Ok ?msg"
    by (simp add: to_type_description_msg_def N sort_key_describe)
  have "\<exists>u. type_description_to_schema_partial td = Ok u" if "td \<in> set (map describe ?R)" for td
  proof -
    from that obtain n where n: "n \<in> set N" "td = describe n" by auto
    with cl have "ms_describable n" unfolding closed_types_def by blast
    with n(2) show ?thesis
      using describable_name(1) [of n] by (simp add: type_description_to_schema_partial_def Let_def)
  qed
  then obtain g where g: "type_description_to_schema_partial td = Ok (g td)" if "td \<in> set (map describe ?R)" for td
    by metis
  then have "map type_description_to_schema_partial (map describe ?R) = map Ok (map g (map describe ?R))"
    by (simp del: set_sort)
  then have partial: "traverse (map type_description_to_schema_partial (map describe ?R)) =
      Ok (map g (map describe ?R))"
    by (simp only: traverse_Ok)
  have "resolved_except (set N) (set ?R) Map.empty" by (simp add: resolved_except_def)
  then obtain rm where rm: "resolve_references (map describe ?R) Map.empty = Ok rm"
    and fin: "resolved_except (set N) {} rm"
    using resolve_closed [OF cl, of ?R Map.empty] dist by auto
  have "rm (ms_type_name d) = Some (strip_ms d)" if "d \<in> set (ms_direct s)" for d
    using top [OF that] fin by (metis empty_iff resolved_except_def)
  then have "type_description_to_schema_full (describe s) rm = Ok (strip_ms s)"
    using full_back [OF assms(1)] by blast
  with partial rm m show ?thesis
    by (simp add: type_description_msg_to_schema_def)
qed

text \<open>
  C13.  A schema survives the description that is sent for it: for a schema with three-part type
  names, no nested collections and capacities below 2^64, in which one name stands for one type, the
  description exists, resolving it succeeds in every order of the dependencies, and the result is
  the schema without its default values and hashes, without the bounds of the strings in arrays
  and sequences, and with bounded strings of bound zero turned into strings.
\<close>

theorem schema_description_roundtrip:
  assumes "ms_describable s" and "coherent s"
  shows "\<exists>m. to_type_description_msg s = Ok m \<and> type_description_msg_to_schema m = Ok (strip_ms s)"
  using assms by (rule described_schema_back)

definition sample_pose_schema :: MessageSchema where
  "sample_pose_schema =
     (let time = MessageSchema ''builtin_interfaces/msg/Time'' ''builtin_interfaces'' ''Time''
            [FieldSchema ''sec'' FT_Int32 None, FieldSchema ''nanosec'' FT_Uint32 None] None;
          header = MessageSchema ''std_msgs/msg/Header'' ''std_msgs'' ''Header''
            [FieldSchema ''stamp'' (FT_Message time) None,
             FieldSchema ''frame_id'' (FT_BoundedString 16) (Some (DV_String []))] (Some ''RIHS01_0'')
      in MessageSchema ''demo_msgs/msg/Pose'' ''demo_msgs'' ''Pose''
           [FieldSchema ''header'' (FT_Message header) None,
            FieldSchema ''times'' (FT_BoundedSequence (FT_Message time) 4) None,
            FieldSchema ''labels'' (FT_Sequence (FT_BoundedString 8)) None,
            FieldSchema ''covariance'' (FT_Array FT_Float64 36) None] None)"

theorem schema_description_roundtrip_witness:
  "\<exists>m. to_type_description_msg sample_pose_schema = Ok m \<and>
     type_description_msg_to_schema m = Ok (strip_ms sample_pose_schema)"
proof -
  have "ms_describable sample_pose_schema" "coherent sample_pose_schema"
    by (simp_all add: sample_pose_schema_def coherent_def plain_element_def Let_def)
  then show ?thesis by (rule schema_description_roundtrip)
qed

section \<open>Descriptions of the message compiler\<close>

lemma field_type_description_id [simp]: "ftd_type_id (field_type_description package ft i) = i"
  by (simp add: field_type_description_def Let_def ftd_primitive_def ftd_array_def ftd_nested_def
      ftd_nested_array_def)

lemma build_fields_keep: "build_fields deps package pfs flds ref = Ok (flds', ref') \<Longrightarrow> set flds \<subseteq> set flds'"
proof (induction deps package pfs flds ref rule: build_fields.induct)
  case (2 deps package field rest flds ref)
  then show ?case
    by (auto simp: Let_def bind_result_eq_Ok split: if_splits option.splits) blast+
qed simp

lemma build_fields_ids:
  assumes "build_fields deps package pfs flds ref = Ok (flds', ref')" and "f \<in> set pfs"
  shows "\<exists>d\<in>set flds'. get_type_id (pf_field_type f) = Ok (ftd_type_id (fd_field_type d))"
  using assms
proof (induction deps package pfs flds ref rule: build_fields.induct)
  case (2 deps package field rest flds ref)
  from "2.prems"(1) obtain i where i: "get_type_id (pf_field_type field) = Ok i"
    by (auto simp: bind_result_eq_Ok)
  let ?d = "\<lparr>fd_name = pf_name field,
     fd_field_type = field_type_description package (pf_field_type field) i, fd_default_value = []\<rparr>"
  from "2.prems"(1) i obtain r where r: "build_fields deps package rest (flds @ [?d]) r = Ok (flds', ref')"
    and ih: "f \<in> set rest \<Longrightarrow> ?case"
    using "2.IH" by (auto simp: Let_def bind_result_eq_Ok split: if_splits option.splits)
  show ?case
  proof (cases "f \<in> set rest")
    case False
    with "2.prems"(2) have "f = field" by simp
    moreover have "?d \<in> set flds'" using build_fields_keep [OF r] by simp
    ultimately show ?thesis using i by (intro bexI [of _ ?d]) simp_all
  qed (rule ih)
qed simp

lemma unknown_id_rejected:
  assumes "fd \<in> set (td_fields td)" and "ftd_type_id (fd_field_type fd) = TID_BOUNDED_STRING"
  shows "type_description_to_schema_full td m \<noteq> Ok s"
proof
  assume "type_description_to_schema_full td m = Ok s"
  then obtain us where "map (\<lambda>fd. field_description_to_schema fd m) (td_fields td) = map Ok us"
    by (auto simp: type_description_to_schema_full_def Let_def bind_result_eq_Ok traverse_Ok
        split: if_splits)
  with assms(1) obtain u where "field_description_to_schema fd m = Ok u"
    by (metis (no_types, lifting) image_eqI image_iff list.set_map)
  moreover have "tid_base_type TID_BOUNDED_STRING = 21"
    by (simp add: tid_base_type_def type_class_defs type_id_defs)
  ultimately show False
    using assms(2)
    by (simp add: field_description_to_schema_def field_type_description_to_type_def
        base_field_type_def type_id_defs)
qed

text \<open>
  The runtime rejects the compiler's descriptions of messages with bounded strings: the message
  compiler gives such a field the type id 21, which the conversion of a received description to a
  schema does not know.
\<close>

theorem bounded_string_description_rejected:
  assumes "build_type_description_msg msg deps = Ok d" and "f \<in> set (pm_fields msg)"
    and "pft_base_type (pf_field_type f) = ''string''" and "pft_package (pf_field_type f) = None"
    and "pft_string_bound (pf_field_type f) = Some n"
  shows "type_description_msg_to_schema d \<noteq> Ok s"
proof -
  have id: "get_type_id (pf_field_type f) = Ok TID_BOUNDED_STRING"
    using assms(3-5) by (simp add: get_type_id_def is_primitive_type_def)
  obtain flds ref where b: "build_fields deps (pm_package msg) (pm_fields msg) [] [] = Ok (flds, ref)"
    "td_fields (tdm_type_description d) = flds"
    using assms(1,2) by (auto simp: build_type_description_msg_def bind_result_eq_Ok split: if_splits)
  from build_fields_ids [OF b(1) assms(2)] id b(2) obtain fd
    where "fd \<in> set (td_fields (tdm_type_description d))"
      "ftd_type_id (fd_field_type fd) = TID_BOUNDED_STRING" by auto
  then show ?thesis
    using unknown_id_rejected by (auto simp: type_description_msg_to_schema_def bind_result_eq_Ok)
qed

definition sample_bounded_field :: ParsedField where
  "sample_bounded_field = \<lparr>pf_name = ''label'',
     pf_field_type = \<lparr>pft_base_type = ''string'', pft_package = None, pft_array = Single,
       pft_string_bound = Some 10\<rparr>, pf_default = None\<rparr>"

definition sample_bounded_message :: ParsedMessage where
  "sample_bounded_message = \<lparr>pm_name = ''Label'', pm_package = ''demo'', pm_fields = [sample_bounded_field],
     pm_constants = [], pm_source = [], pm_path = []\<rparr>"

theorem bounded_string_description_rejected_witness:
  "\<exists>d. build_type_description_msg sample_bounded_message [] = Ok d \<and>
     (\<forall>s. type_description_msg_to_schema d \<noteq> Ok s)"
proof -
  obtain d where d: "build_type_description_msg sample_bounded_message [] = Ok d"
    by (simp add: build_type_description_msg_def sample_bounded_message_def sample_bounded_field_def
        get_type_id_def is_primitive_type_def)
  then show ?thesis
    using bounded_string_description_rejected [OF d, of sample_bounded_field 10]
    by (simp add: sample_bounded_message_def sample_bounded_field_def)
qed

end
