(* ===== verification/RosZ_Qos.thy ===== *)
theory RosZ_Qos
  imports Proto_Entity
begin

text \<open>
  \<^verbatim>\<open>ros-z/src/qos.rs\<close>: the QoS profile of the library, with deadlines and liveliness, its text form
  and its reduction to the profile of \<^verbatim>\<open>ros-z-protocol\<close> (theory \<open>Proto_Entity\<close>).  A
  \<^verbatim>\<open>NonZeroUsize\<close> is a 64-bit word; that it is not zero is part of \<open>qos_valid\<close>.
\<close>

section \<open>Types\<close>

datatype rz_reliability = RZ_Reliable | RZ_BestEffort
datatype rz_history = RZ_KeepLast u64 | RZ_KeepAll
datatype rz_durability = RZ_TransientLocal | RZ_Volatile
datatype rz_liveliness = Automatic | ManualByNode | ManualByTopic

definition show_reliability :: "rz_reliability \<Rightarrow> string" where
  "show_reliability r = (case r of RZ_Reliable \<Rightarrow> ''Reliable'' | RZ_BestEffort \<Rightarrow> ''Best Effort'')"

definition DEFAULT_HISTORY_DEPTH :: u64 where "DEFAULT_HISTORY_DEPTH = 10"

definition rz_history_default :: rz_history where
  "rz_history_default = RZ_KeepLast DEFAULT_HISTORY_DEPTH"

definition rz_from_depth :: "u64 \<Rightarrow> rz_history" where
  "rz_from_depth depth = RZ_KeepLast (if depth = 0 then DEFAULT_HISTORY_DEPTH else depth)"

definition show_history :: "rz_history \<Rightarrow> string" where
  "show_history h = (case h of
     RZ_KeepLast depth \<Rightarrow> ''Keep Last ('' @ show_nat (unat depth) @ '')'' | RZ_KeepAll \<Rightarrow> ''Keep All'')"

definition show_durability :: "rz_durability \<Rightarrow> string" where
  "show_durability d = (case d of RZ_TransientLocal \<Rightarrow> ''Transient Local'' | RZ_Volatile \<Rightarrow> ''Volatile'')"

definition show_liveliness :: "rz_liveliness \<Rightarrow> string" where
  "show_liveliness l = (case l of
     Automatic \<Rightarrow> ''Automatic'' | ManualByNode \<Rightarrow> ''Manual by Node'' | ManualByTopic \<Rightarrow> ''Manual by Topic'')"

record Duration =
  dur_sec :: u64
  dur_nsec :: u64

definition INFINITE :: Duration where
  "INFINITE = \<lparr>dur_sec = 9223372036, dur_nsec = 854775807\<rparr>"

definition show_duration :: "Duration \<Rightarrow> string" where
  "show_duration d =
     (if d = INFINITE then ''Infinite''
      else if dur_nsec d = 0 then show_nat (unat (dur_sec d)) @ ''s''
      else show_nat (unat (dur_sec d)) @ ''s '' @ show_nat (unat (dur_nsec d)) @ ''ns'')"

record rz_qos =
  rq_reliability :: rz_reliability
  rq_durability :: rz_durability
  rq_history :: rz_history
  rq_deadline :: Duration
  rq_lifespan :: Duration
  rq_liveliness :: rz_liveliness
  rq_lease_duration :: Duration

definition rz_qos_default :: rz_qos where
  "rz_qos_default =
     \<lparr>rq_reliability = RZ_Reliable, rq_durability = RZ_Volatile, rq_history = rz_history_default,
      rq_deadline = INFINITE, rq_lifespan = INFINITE, rq_liveliness = Automatic,
      rq_lease_duration = INFINITE\<rparr>"

definition to_protocol_qos :: "rz_qos \<Rightarrow> QosProfile" where
  "to_protocol_qos q =
     \<lparr>reliability = (case rq_reliability q of RZ_Reliable \<Rightarrow> Reliable | RZ_BestEffort \<Rightarrow> BestEffort),
      durability = (case rq_durability q of RZ_TransientLocal \<Rightarrow> TransientLocal | RZ_Volatile \<Rightarrow> Volatile),
      history = (case rq_history q of RZ_KeepLast depth \<Rightarrow> KeepLast depth | RZ_KeepAll \<Rightarrow> KeepAll)\<rparr>"

definition show_qos :: "rz_qos \<Rightarrow> string" where
  "show_qos q =
     ''QoS('' @ show_reliability (rq_reliability q) @ '', '' @ show_durability (rq_durability q) @ '', '' @
     show_history (rq_history q) @
     (if rq_deadline q \<noteq> INFINITE then '', deadline='' @ show_duration (rq_deadline q) else []) @
     (if rq_lifespan q \<noteq> INFINITE then '', lifespan='' @ show_duration (rq_lifespan q) else []) @
     (if rq_liveliness q \<noteq> Automatic then '', liveliness='' @ show_liveliness (rq_liveliness q) else []) @
     (if rq_lease_duration q \<noteq> INFINITE then '', lease='' @ show_duration (rq_lease_duration q) else []) @
     '')''"

section \<open>Encoding\<close>

definition encode_duration :: "Duration \<Rightarrow> string" where
  "encode_duration d = show_nat (unat (dur_sec d)) @ '','' @ show_nat (unat (dur_nsec d))"

definition rz_encode :: "rz_qos \<Rightarrow> string" where
  "rz_encode q =
     (let dq = rz_qos_default;
          rel = (if rq_reliability q \<noteq> rq_reliability dq
                 then (case rq_reliability q of RZ_Reliable \<Rightarrow> ''1'' | RZ_BestEffort \<Rightarrow> ''2'') else []);
          dur = (if rq_durability q \<noteq> rq_durability dq
                 then (case rq_durability q of RZ_TransientLocal \<Rightarrow> ''1'' | RZ_Volatile \<Rightarrow> ''2'') else []);
          hist = (case rq_history q of
                    RZ_KeepLast depth \<Rightarrow>
                      (if rq_history q \<noteq> rq_history dq then ''1,'' @ show_nat (unat depth)
                       else '','' @ show_nat (unat depth))
                  | RZ_KeepAll \<Rightarrow> ''2,'');
          deadline = (if rq_deadline q \<noteq> rq_deadline dq then encode_duration (rq_deadline q) else '','');
          lifespan = (if rq_lifespan q \<noteq> rq_lifespan dq then encode_duration (rq_lifespan q) else '','');
          liveliness =
            (if rq_liveliness q \<noteq> rq_liveliness dq \<or> rq_lease_duration q \<noteq> rq_lease_duration dq
             then (case rq_liveliness q of Automatic \<Rightarrow> ''1'' | ManualByNode \<Rightarrow> ''2'' | ManualByTopic \<Rightarrow> ''3'') @
                '','' @ encode_duration (rq_lease_duration q)
             else '',,'')
      in rel @ '':'' @ dur @ '':'' @ hist @ '':'' @ deadline @ '':'' @ lifespan @ '':'' @ liveliness)"

section \<open>Decoding\<close>

datatype rz_decode_error =
  IncompleteQos | RZ_InvalidReliability | RZ_InvalidDurability | RZ_InvalidHistory | RZ_InvalidHistoryDepth

text \<open>\<^verbatim>\<open>iter.next()\<close> of the iterator that \<^verbatim>\<open>split\<close> gives.\<close>

fun next_part :: "string list \<Rightarrow> string option \<times> string list" where
  "next_part [] = (None, [])"
| "next_part (x # xs) = (Some x, xs)"

definition decode_history :: "string \<Rightarrow> (rz_history, rz_decode_error) result" where
  "decode_history x =
     (if x = '','' \<or> x = [] then Ok rz_history_default
      else case split_on CHR '','' x of
          kind # depth # _ \<Rightarrow>
            if kind = [] \<or> kind = ''0'' \<or> kind = ''1'' then
              bind_result (ok_or RZ_InvalidHistory (parse_usize depth)) (\<lambda>depth_usize.
                if depth_usize = 0 then Err RZ_InvalidHistoryDepth else Ok (RZ_KeepLast depth_usize))
            else if kind = ''2'' then Ok RZ_KeepAll
            else Err RZ_InvalidHistory
        | _ \<Rightarrow> Err IncompleteQos)"

text \<open>\<^verbatim>\<open>iter.next().unwrap_or("").parse().unwrap_or(dflt)\<close>.\<close>

definition parse_part :: "string option \<Rightarrow> u64 \<Rightarrow> u64" where
  "parse_part x dflt = unwrap_or (parse_usize (unwrap_or x [])) dflt"

definition decode_lease :: "string list \<Rightarrow> Duration" where
  "decode_lease parts =
     (let (sec, parts') = next_part parts; (nsec, _) = next_part parts'
      in \<lparr>dur_sec = parse_part sec (dur_sec INFINITE), dur_nsec = parse_part nsec (dur_nsec INFINITE)\<rparr>)"

definition decode_duration :: "string option \<Rightarrow> Duration" where
  "decode_duration field = (case field of
       None \<Rightarrow> INFINITE
     | Some x \<Rightarrow> if x = [] \<or> x = '','' then INFINITE else decode_lease (split_on CHR '','' x))"

definition decode_liveliness :: "string option \<Rightarrow> rz_liveliness \<times> Duration" where
  "decode_liveliness field = (case field of
       None \<Rightarrow> (Automatic, INFINITE)
     | Some x \<Rightarrow>
         if x = [] \<or> x = '',,'' then (Automatic, INFINITE)
         else let (kind, parts) = next_part (split_on CHR '','' x);
                  k = unwrap_or kind []
              in (if k = [] \<or> k = ''0'' \<or> k = ''1'' then Automatic
                  else if k = ''2'' then ManualByNode
                  else if k = ''3'' then ManualByTopic
                  else Automatic, decode_lease parts))"

definition rz_decode :: "string \<Rightarrow> (rz_qos, rz_decode_error) result" where
  "rz_decode encoded =
     (let (f1, fields1) = next_part (split_on CHR '':'' encoded) in
      bind_result (case f1 of
          None \<Rightarrow> Err IncompleteQos
        | Some x \<Rightarrow> if x = ''0'' \<or> x = [] then Ok RZ_Reliable else if x = ''1'' then Ok RZ_Reliable
            else if x = ''2'' then Ok RZ_BestEffort else Err RZ_InvalidReliability) (\<lambda>rel.
      let (f2, fields2) = next_part fields1 in
      bind_result (case f2 of
          None \<Rightarrow> Err IncompleteQos
        | Some x \<Rightarrow> if x = ''0'' \<or> x = [] then Ok RZ_Volatile else if x = ''1'' then Ok RZ_TransientLocal
            else if x = ''2'' then Ok RZ_Volatile else Err RZ_InvalidDurability) (\<lambda>dur.
      let (f3, fields3) = next_part fields2 in
      bind_result (case f3 of None \<Rightarrow> Err IncompleteQos | Some x \<Rightarrow> decode_history x) (\<lambda>hist.
      let (f4, fields4) = next_part fields3;
          (f5, fields5) = next_part fields4;
          (f6, fields6) = next_part fields5;
          (liveliness, lease) = decode_liveliness f6
      in Ok \<lparr>rq_reliability = rel, rq_durability = dur, rq_history = hist,
             rq_deadline = decode_duration f4, rq_lifespan = decode_duration f5,
             rq_liveliness = liveliness, rq_lease_duration = lease\<rparr>))))"

section \<open>Properties\<close>

definition qos_valid :: "rz_qos \<Rightarrow> bool" where
  "qos_valid q \<longleftrightarrow> rq_history q \<noteq> RZ_KeepLast 0"

lemma parse_part_show [simp]: "parse_part (Some (show_nat (unat n))) d = n"
  by (simp add: parse_part_def)

lemma duration_no_colon [simp]: "CHR '':'' \<notin> set (encode_duration d)"
  by (simp add: encode_duration_def)

lemma split_duration [simp]:
  "split_on CHR '','' (encode_duration d) = [show_nat (unat (dur_sec d)), show_nat (unat (dur_nsec d))]"
  by (simp add: encode_duration_def)

lemma decode_lease_show [simp]:
  "decode_lease [show_nat (unat (dur_sec d)), show_nat (unat (dur_nsec d))] = d"
  by (simp add: decode_lease_def)

lemma duration_not_separator [simp]: "encode_duration d \<noteq> []" "encode_duration d \<noteq> '',''"
proof -
  show "encode_duration d \<noteq> []" by (simp add: encode_duration_def)
  show "encode_duration d \<noteq> '',''"
  proof
    assume "encode_duration d = '',''"
    with split_duration [of d] show False using show_nat_not_Nil [of "unat (dur_sec d)"] by simp
  qed
qed

lemma decode_duration_encode:
  "decode_duration (Some (if d \<noteq> INFINITE then encode_duration d else '','')) = d"
  by (simp add: decode_duration_def)

definition liveliness_text :: "rz_liveliness \<Rightarrow> Duration \<Rightarrow> string" where
  "liveliness_text l d =
     (if l \<noteq> Automatic \<or> d \<noteq> INFINITE
      then (case l of Automatic \<Rightarrow> ''1'' | ManualByNode \<Rightarrow> ''2'' | ManualByTopic \<Rightarrow> ''3'') @ '','' @ encode_duration d
      else '',,'')"

lemma decode_liveliness_text: "decode_liveliness (Some (liveliness_text l d)) = (l, d)"
  by (cases l) (auto simp: liveliness_text_def decode_liveliness_def)

definition history_text :: "rz_history \<Rightarrow> string" where
  "history_text h = (case h of
     RZ_KeepLast n \<Rightarrow> (if n = 10 then [] else ''1'') @ '','' @ show_nat (unat n) | RZ_KeepAll \<Rightarrow> ''2,'')"

lemma decode_history_text:
  assumes "h \<noteq> RZ_KeepLast 0"
  shows "decode_history (history_text h) = Ok h"
proof (cases h)
  case (RZ_KeepLast n)
  moreover have "parse_usize (show_nat 10) = Some 10" using parse_usize_show [of 10] by simp
  ultimately show ?thesis
    using assms by (auto simp: decode_history_def history_text_def)
qed (simp add: decode_history_def history_text_def)

lemma rz_encode_fields:
  "split_on CHR '':'' (rz_encode q) =
     [if rq_reliability q = RZ_Reliable then [] else ''2'',
      if rq_durability q = RZ_Volatile then [] else ''1'',
      history_text (rq_history q),
      if rq_deadline q \<noteq> INFINITE then encode_duration (rq_deadline q) else '','',
      if rq_lifespan q \<noteq> INFINITE then encode_duration (rq_lifespan q) else '','',
      liveliness_text (rq_liveliness q) (rq_lease_duration q)]"
proof -
  have h: "CHR '':'' \<notin> set (history_text h)" for h
    by (cases h) (auto simp: history_text_def)
  have l: "CHR '':'' \<notin> set (liveliness_text l d)" for l d
    by (cases l) (auto simp: liveliness_text_def)
  have "rz_encode q =
      (if rq_reliability q = RZ_Reliable then [] else ''2'') @ '':'' @
      (if rq_durability q = RZ_Volatile then [] else ''1'') @ '':'' @
      history_text (rq_history q) @ '':'' @
      (if rq_deadline q \<noteq> INFINITE then encode_duration (rq_deadline q) else '','') @ '':'' @
      (if rq_lifespan q \<noteq> INFINITE then encode_duration (rq_lifespan q) else '','') @ '':'' @
      liveliness_text (rq_liveliness q) (rq_lease_duration q)"
    by (cases "rq_reliability q"; cases "rq_durability q"; cases "rq_history q")
      (auto simp: rz_encode_def rz_qos_default_def rz_history_default_def DEFAULT_HISTORY_DEPTH_def
        history_text_def liveliness_text_def Let_def)
  then show ?thesis using h l by simp
qed

lemma rz_decode_encode:
  assumes "qos_valid q"
  shows "rz_decode (rz_encode q) = Ok q"
proof -
  have "decode_history (history_text (rq_history q)) = Ok (rq_history q)"
    using assms by (intro decode_history_text) (simp add: qos_valid_def)
  then show ?thesis
    by (cases "rq_reliability q"; cases "rq_durability q")
      (simp_all add: rz_decode_def rz_encode_fields decode_duration_encode decode_liveliness_text)
qed

text \<open>
  C39.  The text form of a profile is read back as the profile, with all its durations; the protocol
  crate reads it as its own reduction of the profile, and its text of that reduction is read here
  as the profile without the durations.
\<close>

theorem qos_texts_agree:
  assumes "qos_valid q"
  shows "rz_decode (rz_encode q) = Ok q \<and>
    qos_decode (rz_encode q) = Ok (to_protocol_qos q) \<and>
    rz_decode (qos_encode (to_protocol_qos q)) =
      Ok (q\<lparr>rq_deadline := INFINITE, rq_lifespan := INFINITE, rq_liveliness := Automatic,
            rq_lease_duration := INFINITE\<rparr>)"
proof (intro conjI)
  show "rz_decode (rz_encode q) = Ok q" by (rule rz_decode_encode [OF assms])
  have ten: "parse_usize (show_nat 10) = Some 10" using parse_usize_show [of 10] by simp
  show "qos_decode (rz_encode q) = Ok (to_protocol_qos q)"
    by (cases "rq_reliability q"; cases "rq_durability q"; cases "rq_history q")
      (auto simp: qos_decode_def rz_encode_fields to_protocol_qos_def qos_default_def history_text_def ten)
  let ?q = "q\<lparr>rq_deadline := INFINITE, rq_lifespan := INFINITE, rq_liveliness := Automatic,
            rq_lease_duration := INFINITE\<rparr>"
  have "qos_encode (to_protocol_qos q) = rz_encode ?q"
    by (cases "rq_reliability q"; cases "rq_durability q"; cases "rq_history q")
      (auto simp: qos_encode_def rz_encode_def to_protocol_qos_def qos_default_def rz_qos_default_def
        rz_history_default_def DEFAULT_HISTORY_DEPTH_def Let_def)
  moreover have "rz_decode (rz_encode ?q) = Ok ?q"
    using assms by (intro rz_decode_encode) (simp add: qos_valid_def)
  ultimately show "rz_decode (qos_encode (to_protocol_qos q)) = Ok ?q" by simp
qed

definition sample_qos :: rz_qos where
  "sample_qos = rz_qos_default\<lparr>rq_history := RZ_KeepLast 5, rq_deadline := \<lparr>dur_sec = 1, dur_nsec = 0\<rparr>,
     rq_liveliness := ManualByTopic\<rparr>"

theorem qos_texts_agree_witness:
  "rz_decode (rz_encode sample_qos) = Ok sample_qos \<and>
   history (to_protocol_qos sample_qos) = KeepLast 5 \<and>
   qos_decode (rz_encode sample_qos) = Ok (to_protocol_qos sample_qos)"
proof -
  have "qos_valid sample_qos" by (simp add: qos_valid_def sample_qos_def)
  from qos_texts_agree [OF this] show ?thesis
    by (simp add: to_protocol_qos_def sample_qos_def)
qed

end
