(* ===== verification/Msg_Serdes.thy ===== *)
theory Msg_Serdes
  imports Dyn_Cdr
begin

text \<open>
  \<^verbatim>\<open>ros-z/src/msg.rs\<close> (the traits \<^verbatim>\<open>ZSerializer\<close> and \<^verbatim>\<open>ZDeserializer\<close> and their CDR
  implementation), \<^verbatim>\<open>shm.rs\<close> (the writer into shared memory) and \<^verbatim>\<open>dynamic/serdes.rs\<close> (the
  implementation for dynamic messages).  A trait is a record of its methods; the locale \<open>serdes\<close>
  states what publishers and subscribers rely on, and both implementations are interpretations of
  it.  Shared memory, and the conversions to a \<^verbatim>\<open>ZBuf\<close>, are the record \<open>shm_env\<close>.
\<close>

section \<open>shm.rs\<close>

text \<open>
  \<open>se_alloc\<close> is the outcome of an allocation, a block of memory with whatever it contains, and
  \<open>se_from_shm\<close>, \<open>se_from_vec\<close> are the conversions \<^verbatim>\<open>ZBuf::from\<close>.
\<close>

record 'z shm_env =
  se_alloc :: "nat \<Rightarrow> bytes option"
  se_from_shm :: "bytes \<Rightarrow> 'z"
  se_from_vec :: "vec_u8 \<Rightarrow> 'z"

locale shm_env_laws = zbuf_laws Z for Z :: "'z zbuf_ops" +
  fixes E :: "'z shm_env"
  assumes alloc_length: "se_alloc E n = Some mem \<Longrightarrow> length mem = n"
    and from_shm_bytes [simp]: "zb_contiguous Z (se_from_shm E bs) = bs"
    and from_vec_bytes [simp]: "zb_contiguous Z (se_from_vec E v) = vec_data v"

definition DEFAULT_SHM_POOL_SIZE :: nat where "DEFAULT_SHM_POOL_SIZE = 10 * 1024 * 1024"
definition DEFAULT_SHM_THRESHOLD :: nat where "DEFAULT_SHM_THRESHOLD = 512"

record 'p ShmConfig =
  shm_provider :: 'p
  shm_threshold :: nat

definition shm_config_new :: "'p \<Rightarrow> 'p ShmConfig" where
  "shm_config_new provider = \<lparr>shm_provider = provider, shm_threshold = DEFAULT_SHM_THRESHOLD\<rparr>"

definition shm_with_threshold :: "'p ShmConfig \<Rightarrow> nat \<Rightarrow> 'p ShmConfig" where
  "shm_with_threshold c threshold = c\<lparr>shm_threshold := threshold\<rparr>"

text \<open>\<open>var\<close> reads the environment; \<open>create\<close> stands for the creation of a provider.\<close>

definition shm_config_from_env ::
    "(string \<Rightarrow> string option) \<Rightarrow> (nat \<Rightarrow> ('p, 'e) result) \<Rightarrow> ('p ShmConfig option, 'e) result" where
  "shm_config_from_env var create =
     (let has_pool_size = var ''ZENOH_SHM_ALLOC_SIZE'' \<noteq> None;
          has_threshold = var ''ZENOH_SHM_MESSAGE_SIZE_THRESHOLD'' \<noteq> None
      in if \<not> has_pool_size \<and> \<not> has_threshold then Ok None
         else let pool_size = unwrap_or (Option.bind (var ''ZENOH_SHM_ALLOC_SIZE'') (parse_uint 64))
                    DEFAULT_SHM_POOL_SIZE;
                  threshold = unwrap_or (Option.bind (var ''ZENOH_SHM_MESSAGE_SIZE_THRESHOLD'') (parse_uint 64))
                    DEFAULT_SHM_THRESHOLD
              in bind_result (create pool_size) (\<lambda>provider.
                 Ok (Some \<lparr>shm_provider = provider, shm_threshold = threshold\<rparr>)))"

text \<open>
  A writer is the allocated block, its size and the position.  Writing past the end panics; so that
  the buffer operations stay functions of the buffer, such a write leaves a block that is longer
  than the allocation, and whoever runs the writer panics when \<open>sw_overflow\<close> holds.
\<close>

record ShmWriter =
  sw_buffer :: bytes
  sw_size :: nat
  sw_position :: nat

definition shm_writer_new :: "bytes \<Rightarrow> ShmWriter" where
  "shm_writer_new mem = \<lparr>sw_buffer = mem, sw_size = length mem, sw_position = 0\<rparr>"

definition sw_overflow :: "ShmWriter \<Rightarrow> bool" where
  "sw_overflow w \<longleftrightarrow> sw_size w < length (sw_buffer w)"

definition sw_write_bytes :: "ShmWriter \<Rightarrow> bytes \<Rightarrow> ShmWriter" where
  "sw_write_bytes w bs =
     (let end_pos = sw_position w + length bs
      in w\<lparr>sw_buffer := take (sw_position w) (sw_buffer w) @ bs @ drop end_pos (sw_buffer w),
           sw_position := end_pos\<rparr>)"

definition sw_clear :: "ShmWriter \<Rightarrow> ShmWriter" where
  "sw_clear w = w\<lparr>sw_buffer := take (sw_size w) (sw_buffer w), sw_position := 0\<rparr>"

text \<open>The whole block becomes the \<^verbatim>\<open>ZBuf\<close>, not only the part that was written.\<close>

definition sw_into_zbuf :: "'z shm_env \<Rightarrow> ShmWriter \<Rightarrow> 'z" where
  "sw_into_zbuf E w = se_from_shm E (sw_buffer w)"

definition ShmWriter_CdrBuffer :: "'z zbuf_ops \<Rightarrow> (ShmWriter, 'z) CdrBuffer" where
  "ShmWriter_CdrBuffer Z =
     \<lparr>cb_extend_from_slice = sw_write_bytes,
      cb_push = (\<lambda>w b. sw_write_bytes w [b]),
      cb_len = sw_position,
      cb_reserve = (\<lambda>w n. w),
      cb_reserve_4k = default_reserve_4k (\<lambda>w n. w) sw_position,
      cb_clear = sw_clear,
      cb_append_zbuf = (\<lambda>w z. sw_write_bytes w (zb_contiguous Z z))\<rparr>"

section \<open>msg.rs\<close>

text \<open>
  What the derived \<^verbatim>\<open>Serialize\<close> and \<^verbatim>\<open>Deserialize\<close> implementations of a type do: the serializer
  calls for a value, the deserializer calls of the type, and the value built from what they return.
\<close>

record 'a serde_type =
  st_ser :: "'a \<Rightarrow> sval"
  st_shape :: dshape
  st_de :: "sval \<Rightarrow> 'a"

definition fits :: "'a serde_type \<Rightarrow> 'a \<Rightarrow> bool" where
  "fits T x \<longleftrightarrow> has_shape (st_shape T) (st_ser T x) \<and> st_de T (st_ser T x) = x"

datatype serdes_error =
    AllocationFailed
  | CdrSerializationFailed cdr_error
  | DynamicSerializationFailed DynamicError

text \<open>A method whose Rust signature returns no \<^verbatim>\<open>Result\<close> can only panic.\<close>

record ('a, 'z) ZSerializer =
  zs_to_zbuf_with_hint :: "'a \<Rightarrow> nat \<Rightarrow> ('z, unit) result"
  zs_to_zbuf :: "'a \<Rightarrow> ('z, unit) result"
  zs_to_shm :: "'a \<Rightarrow> nat \<Rightarrow> 'z shm_env \<Rightarrow> ('z \<times> nat, serdes_error) result"
  zs_to_buf :: "'a \<Rightarrow> (vec_u8, unit, unit) exec"
  zs_serialize :: "'a \<Rightarrow> (vec_u8, unit) result"

fun unwrap_result :: "('a, 'e) result \<Rightarrow> ('a, 'f) result" where
  "unwrap_result (Ok x) = Ok x"
| "unwrap_result (Err e) = Panic"
| "unwrap_result Panic = Panic"

definition cdr_to_buf :: "'z zbuf_ops \<Rightarrow> byte_order \<Rightarrow> 'a serde_type \<Rightarrow> 'a \<Rightarrow> (vec_u8, unit, unit) exec" where
  "cdr_to_buf Z LE T inp = (\<lambda>buffer.
     let buffer1 = vec_extend_from_slice (vec_clear buffer) CDR_HEADER_LE;
         (res, w) = serialize (vec_CdrBuffer Z) LE (st_ser T inp) (serializer_new (vec_CdrBuffer Z) buffer1)
     in (unwrap_result res, wr_buffer w))"

definition cdr_serialize :: "'z zbuf_ops \<Rightarrow> byte_order \<Rightarrow> 'a serde_type \<Rightarrow> 'a \<Rightarrow> (vec_u8, unit) result" where
  "cdr_serialize Z LE T inp =
     (let (res, buffer) = cdr_to_buf Z LE T inp vec_new in bind_result res (\<lambda>_. Ok buffer))"

definition cdr_to_zbuf_with_hint ::
    "'z zbuf_ops \<Rightarrow> byte_order \<Rightarrow> 'a serde_type \<Rightarrow> 'a \<Rightarrow> nat \<Rightarrow> ('z, unit) result" where
  "cdr_to_zbuf_with_hint Z LE T inp capacity_hint =
     (let B = ZBufWriter_CdrBuffer Z;
          writer = cb_extend_from_slice B (zw_with_capacity Z capacity_hint) CDR_HEADER_LE;
          (res, w) = serialize B LE (st_ser T inp) (serializer_new B writer)
      in bind_result (unwrap_result res) (\<lambda>_. Ok (zw_into_zbuf Z (wr_buffer w))))"

definition cdr_to_zbuf :: "'z zbuf_ops \<Rightarrow> byte_order \<Rightarrow> 'a serde_type \<Rightarrow> 'a \<Rightarrow> ('z, unit) result" where
  "cdr_to_zbuf Z LE T inp = cdr_to_zbuf_with_hint Z LE T inp 256"

definition cdr_to_shm ::
    "'z zbuf_ops \<Rightarrow> byte_order \<Rightarrow> 'a serde_type \<Rightarrow> 'a \<Rightarrow> nat \<Rightarrow> 'z shm_env \<Rightarrow> ('z \<times> nat, serdes_error) result" where
  "cdr_to_shm Z LE T inp estimated_size E =
     (case se_alloc E estimated_size of
        None \<Rightarrow> Err AllocationFailed
      | Some mem \<Rightarrow>
          let B = ShmWriter_CdrBuffer Z;
              writer = cb_extend_from_slice B (shm_writer_new mem) CDR_HEADER_LE;
              (res, w) = serialize B LE (st_ser T inp) (serializer_new B writer);
              writer' = wr_buffer w
          in if sw_overflow writer' then Panic
             else case res of
                 Ok _ \<Rightarrow> Ok (sw_into_zbuf E writer', sw_position writer')
               | Err e \<Rightarrow> Err (CdrSerializationFailed e)
               | Panic \<Rightarrow> Panic)"

text \<open>The provided method of the trait; it leaves an empty vector behind.\<close>

definition serialize_to_zbuf_reuse ::
    "('a, 'z) ZSerializer \<Rightarrow> 'z shm_env \<Rightarrow> 'a \<Rightarrow> (vec_u8, 'z, unit) exec" where
  "serialize_to_zbuf_reuse S E inp = (\<lambda>buffer. case zs_to_buf S inp buffer of
       (Ok _, buffer') \<Rightarrow> (Ok (se_from_vec E buffer'), vec_new)
     | (Err e, buffer') \<Rightarrow> (Err e, buffer')
     | (Panic, buffer') \<Rightarrow> (Panic, buffer'))"

definition cdr_deserialize :: "byte_order \<Rightarrow> 'a serde_type \<Rightarrow> bytes \<Rightarrow> ('a, message) result" where
  "cdr_deserialize LE T inp =
     (if length inp < 4 then Err (Text ''CDR data too short for header'')
      else let header = take 4 inp; representation_identifier = take 2 header in
        if representation_identifier \<noteq> [0x00, 0x01] then Err (ExpectedCdrLe representation_identifier)
        else let payload = drop 4 inp in
          case from_bytes LE (st_shape T) payload of
            Ok (x, n) \<Rightarrow> Ok (st_de T x)
          | Err e \<Rightarrow> Err (CdrError e)
          | Panic \<Rightarrow> Panic)"

definition CdrSerdes :: "'z zbuf_ops \<Rightarrow> byte_order \<Rightarrow> 'a serde_type \<Rightarrow> ('a, 'z) ZSerializer" where
  "CdrSerdes Z LE T =
     \<lparr>zs_to_zbuf_with_hint = cdr_to_zbuf_with_hint Z LE T,
      zs_to_zbuf = cdr_to_zbuf Z LE T,
      zs_to_shm = cdr_to_shm Z LE T,
      zs_to_buf = cdr_to_buf Z LE T,
      zs_serialize = cdr_serialize Z LE T\<rparr>"

text \<open>\<open>size_of\<close> stands for \<^verbatim>\<open>std::mem::size_of::<Self>()\<close>.\<close>

definition estimated_serialized_size :: "nat \<Rightarrow> nat" where
  "estimated_serialized_size size_of = size_of * 2 + 4"

definition zmessage_to_zbuf :: "('a, 'z) ZSerializer \<Rightarrow> ('a \<Rightarrow> nat) \<Rightarrow> 'a \<Rightarrow> ('z, unit) result" where
  "zmessage_to_zbuf S estimate inp = zs_to_zbuf_with_hint S inp (estimate inp)"

section \<open>dynamic/serdes.rs\<close>

definition dyn_to_zbuf :: "'z zbuf_ops \<Rightarrow> 'z shm_env \<Rightarrow> byte_order \<Rightarrow> DynamicMessage \<Rightarrow> ('z, unit) result" where
  "dyn_to_zbuf Z E LE inp = unwrap_result (serialize_cdr_to_zbuf Z (se_from_vec E) LE inp)"

definition dyn_to_shm ::
    "'z zbuf_ops \<Rightarrow> byte_order \<Rightarrow> DynamicMessage \<Rightarrow> nat \<Rightarrow> 'z shm_env \<Rightarrow> ('z \<times> nat, serdes_error) result" where
  "dyn_to_shm Z LE inp estimated_size E =
     (case serialize_cdr Z LE inp of
        Err e \<Rightarrow> Err (DynamicSerializationFailed e)
      | Panic \<Rightarrow> Panic
      | Ok data \<Rightarrow>
          let actual_size = vec_len data
          in case se_alloc E actual_size of
               None \<Rightarrow> Err AllocationFailed
             | Some shm_buf \<Rightarrow>
                 if length shm_buf < actual_size then Panic
                 else Ok (se_from_shm E (vec_data data @ drop actual_size shm_buf), actual_size))"

definition dyn_serialize :: "'z zbuf_ops \<Rightarrow> byte_order \<Rightarrow> DynamicMessage \<Rightarrow> (vec_u8, unit) result" where
  "dyn_serialize Z LE inp = unwrap_result (serialize_cdr Z LE inp)"

definition dyn_to_buf :: "'z zbuf_ops \<Rightarrow> byte_order \<Rightarrow> DynamicMessage \<Rightarrow> (vec_u8, unit, unit) exec" where
  "dyn_to_buf Z LE inp = (\<lambda>buffer.
     let buffer1 = vec_clear buffer
     in case serialize_cdr Z LE inp of
          Ok data \<Rightarrow> (Ok (), vec_extend_from_slice buffer1 (vec_data data))
        | _ \<Rightarrow> (Panic, buffer1))"

definition DynamicCdrSerdes :: "'z zbuf_ops \<Rightarrow> 'z shm_env \<Rightarrow> byte_order \<Rightarrow> (DynamicMessage, 'z) ZSerializer" where
  "DynamicCdrSerdes Z E LE =
     \<lparr>zs_to_zbuf_with_hint = (\<lambda>inp _. dyn_to_zbuf Z E LE inp),
      zs_to_zbuf = dyn_to_zbuf Z E LE,
      zs_to_shm = dyn_to_shm Z LE,
      zs_to_buf = dyn_to_buf Z LE,
      zs_serialize = dyn_serialize Z LE\<rparr>"

definition dyn_deserialize :: "byte_order \<Rightarrow> bytes \<times> MessageSchema \<Rightarrow> (DynamicMessage, DynamicError) result" where
  "dyn_deserialize LE inp = (case inp of (bs, schema) \<Rightarrow> deserialize_cdr LE bs schema)"

section \<open>The writers append\<close>

context cdr_writing
begin

lemma serialize_behind:
  assumes "inv_buf b"
  shows "case cdr_encode BO v 0 of
      Ok xs \<Rightarrow> \<exists>w. serialize B BO v (serializer_new B b) = (Ok (), w) \<and> inv_buf (wr_buffer w) \<and>
        content (wr_buffer w) = content b @ xs
    | Err x \<Rightarrow> fst (serialize B BO v (serializer_new B b)) = Err x
    | Panic \<Rightarrow> fst (serialize B BO v (serializer_new B b)) = Panic"
  using serialize_refines [of BO v, unfolded refines_def, rule_format, of "serializer_new B b"] assms
  by (auto simp: serializer_new_def writer_new_def split: result.splits)

lemma serialize_behind_header:
  assumes "inv_buf b" and "content b = []" and "cdr_encode BO v 0 = Ok xs"
  shows "\<exists>w. serialize B BO v (serializer_new B (cb_extend_from_slice B b h)) = (Ok (), w) \<and>
    inv_buf (wr_buffer w) \<and> content (wr_buffer w) = h @ xs"
  using serialize_behind [of "cb_extend_from_slice B b h" BO v] assms by simp

end

definition sw_content :: "ShmWriter \<Rightarrow> bytes" where
  "sw_content w = take (sw_position w) (sw_buffer w)"

definition sw_inv :: "nat \<Rightarrow> ShmWriter \<Rightarrow> bool" where
  "sw_inv n w \<longleftrightarrow> sw_size w = n \<and> length (sw_buffer w) = max n (sw_position w)"

lemma sw_write [simp]:
  assumes "sw_inv n w"
  shows "sw_inv n (sw_write_bytes w bs)" and "sw_content (sw_write_bytes w bs) = sw_content w @ bs"
  using assms by (auto simp: sw_inv_def sw_content_def sw_write_bytes_def Let_def)

lemma sw_cleared [simp]:
  assumes "sw_inv n w"
  shows "sw_inv n (sw_clear w)" and "sw_content (sw_clear w) = []"
  using assms by (auto simp: sw_inv_def sw_content_def sw_clear_def)

lemma sw_writer_new [simp]:
  "sw_inv (length mem) (shm_writer_new mem)" "sw_content (shm_writer_new mem) = []"
  by (simp_all add: sw_inv_def sw_content_def shm_writer_new_def)

lemma sw_position_content [simp]: "sw_inv n w \<Longrightarrow> length (sw_content w) = sw_position w"
  by (auto simp: sw_inv_def sw_content_def)

lemma sw_overflow_iff: "sw_inv n w \<Longrightarrow> sw_overflow w \<longleftrightarrow> n < sw_position w"
  by (auto simp: sw_inv_def sw_overflow_def)

lemma sw_buffer_split: "sw_inv n w \<Longrightarrow> \<exists>rest. sw_buffer w = sw_content w @ rest \<and> length rest = n - sw_position w"
  by (intro exI [of _ "drop (sw_position w) (sw_buffer w)"]) (auto simp: sw_inv_def sw_content_def)

context zbuf_laws
begin

lemma shm_cdr_buffer: "cdr_buffer Z (ShmWriter_CdrBuffer Z) sw_content (sw_inv n)"
  by unfold_locales (auto simp: ShmWriter_CdrBuffer_def default_reserve_4k_def contiguous)

lemma shm_writing: "cdr_writing Z (ShmWriter_CdrBuffer Z) sw_content (sw_inv n)"
  using shm_cdr_buffer by (simp add: cdr_writing_def)

end

section \<open>What the CDR implementation produces\<close>

definition cdr_bytes :: "byte_order \<Rightarrow> 'a serde_type \<Rightarrow> 'a \<Rightarrow> bytes" where
  "cdr_bytes LE T x = CDR_HEADER_LE @ (case cdr_encode LE (st_ser T x) 0 of Ok xs \<Rightarrow> xs | _ \<Rightarrow> [])"

definition encodable :: "byte_order \<Rightarrow> 'a serde_type \<Rightarrow> 'a \<Rightarrow> bool" where
  "encodable LE T x \<longleftrightarrow> (\<exists>xs. cdr_encode LE (st_ser T x) 0 = Ok xs)"

lemma cdr_bytes_Ok: "cdr_encode LE (st_ser T x) 0 = Ok xs \<Longrightarrow> cdr_bytes LE T x = CDR_HEADER_LE @ xs"
  by (simp add: cdr_bytes_def)

lemma fits_encodable: "byte_order_laws LE \<Longrightarrow> fits T x \<Longrightarrow> encodable LE T x"
  unfolding fits_def encodable_def by (meson has_shape_encoding)

context zbuf_laws
begin

lemma cdr_to_buf_spec:
  assumes "encodable LE T x"
  shows "\<exists>b. cdr_to_buf Z LE T x buffer = (Ok (), b) \<and> vec_inv b \<and> vec_data b = cdr_bytes LE T x"
proof -
  let ?B = "vec_CdrBuffer Z" and ?b = "vec_clear buffer"
  from assms obtain xs where xs: "cdr_encode LE (st_ser T x) 0 = Ok xs" by (auto simp: encodable_def)
  have "cb_extend_from_slice ?B = vec_extend_from_slice" by (simp add: vec_CdrBuffer_def)
  with cdr_writing.serialize_behind_header [OF vec_writing, of ?b, OF _ _ xs, of CDR_HEADER_LE]
  obtain w where "serialize ?B LE (st_ser T x)
      (serializer_new ?B (vec_extend_from_slice ?b CDR_HEADER_LE)) = (Ok (), w)"
    "vec_inv (wr_buffer w)" "vec_data (wr_buffer w) = CDR_HEADER_LE @ xs" by auto
  then show ?thesis by (simp add: cdr_to_buf_def cdr_bytes_Ok [OF xs])
qed

lemma cdr_to_zbuf_spec:
  assumes "encodable LE T x"
  shows "\<exists>z. cdr_to_zbuf_with_hint Z LE T x hint = Ok z \<and> zb_contiguous Z z = cdr_bytes LE T x"
proof -
  let ?B = "ZBufWriter_CdrBuffer Z" and ?b = "zw_with_capacity Z hint"
  from assms obtain xs where xs: "cdr_encode LE (st_ser T x) 0 = Ok xs" by (auto simp: encodable_def)
  have "zw_inv Z ?b" "zw_content Z ?b = []"
    by (simp_all add: zw_inv_def zw_content_def zw_with_capacity_def zslices_empty vec_with_capacity_def
        vec_inv_def)
  with cdr_writing.serialize_behind_header [OF zw_writing, of ?b, OF _ _ xs, of CDR_HEADER_LE]
  obtain w where "serialize ?B LE (st_ser T x)
      (serializer_new ?B (cb_extend_from_slice ?B ?b CDR_HEADER_LE)) = (Ok (), w)"
    "zw_content Z (wr_buffer w) = CDR_HEADER_LE @ xs" by auto
  then show ?thesis
    by (simp add: cdr_to_zbuf_with_hint_def contiguous zw_into_zbuf_content cdr_bytes_Ok [OF xs])
qed

end

context shm_env_laws
begin

lemma cdr_to_shm_spec:
  assumes "encodable LE T x"
  shows "case se_alloc E n of
      None \<Rightarrow> cdr_to_shm Z LE T x n E = Err AllocationFailed
    | Some mem \<Rightarrow> (if n < length (cdr_bytes LE T x) then cdr_to_shm Z LE T x n E = Panic
        else \<exists>z rest. cdr_to_shm Z LE T x n E = Ok (z, length (cdr_bytes LE T x)) \<and>
          zb_contiguous Z z = cdr_bytes LE T x @ rest \<and> length rest = n - length (cdr_bytes LE T x))"
proof (cases "se_alloc E n")
  case None
  then show ?thesis by (simp add: cdr_to_shm_def)
next
  case (Some mem)
  let ?B = "ShmWriter_CdrBuffer Z" and ?b = "shm_writer_new mem"
  from assms obtain xs where xs: "cdr_encode LE (st_ser T x) 0 = Ok xs" by (auto simp: encodable_def)
  have b: "sw_inv n ?b" "sw_content ?b = []" using alloc_length [OF Some] sw_writer_new by auto
  from cdr_writing.serialize_behind_header [OF shm_writing b xs, of CDR_HEADER_LE]
  obtain w where w: "serialize ?B LE (st_ser T x)
      (serializer_new ?B (cb_extend_from_slice ?B ?b CDR_HEADER_LE)) = (Ok (), w)"
    "sw_inv n (wr_buffer w)" "sw_content (wr_buffer w) = cdr_bytes LE T x"
    unfolding cdr_bytes_Ok [OF xs] by blast
  have pos: "sw_position (wr_buffer w) = length (cdr_bytes LE T x)"
    using sw_position_content [OF w(2)] w(3) by simp
  obtain rest where "sw_buffer (wr_buffer w) = cdr_bytes LE T x @ rest"
    "length rest = n - length (cdr_bytes LE T x)"
    using sw_buffer_split [OF w(2)] w(3) pos by auto
  with w pos show ?thesis
    using Some by (auto simp: cdr_to_shm_def sw_overflow_iff [OF w(2)] sw_into_zbuf_def)
qed

end

lemma cdr_deserialize_bytes:
  assumes "byte_order_laws LE" and "fits T x"
  shows "cdr_deserialize LE T (cdr_bytes LE T x @ rest) = Ok x"
proof -
  from assms obtain xs where xs: "cdr_encode LE (st_ser T x) 0 = Ok xs"
    and dec: "decodes UnexpectedEof (deserialize LE (st_shape T)) (cdr_encode LE (st_ser T x)) (st_ser T x)"
    unfolding fits_def by (meson has_shape_encoding)
  from from_bytes_decodes [OF dec xs, of rest] assms(2) show ?thesis
    by (simp add: cdr_deserialize_def cdr_bytes_Ok [OF xs] CDR_HEADER_LE_def fits_def)
qed

section \<open>What publishers and subscribers rely on\<close>

text \<open>
  For the values that satisfy \<open>ok\<close>: every way to serialize gives the bytes \<open>bytes_of\<close>, into shared
  memory with the rest of the block behind them, and reading them gives the value back, whatever
  follows.  Into shared memory a serializer may also fail to allocate, or panic when the block is
  smaller than \<open>needs\<close>.
\<close>

locale serdes = shm_env_laws Z E for Z :: "'z zbuf_ops" and E :: "'z shm_env" +
  fixes S :: "('a, 'z) ZSerializer"
    and deser :: "bytes \<Rightarrow> ('a, 'e) result"
    and ok :: "'a \<Rightarrow> bool"
    and bytes_of :: "'a \<Rightarrow> bytes"
    and needs :: "'a \<Rightarrow> nat"
  assumes to_zbuf: "ok x \<Longrightarrow> \<exists>z. zs_to_zbuf S x = Ok z \<and> zb_contiguous Z z = bytes_of x"
    and to_zbuf_hint: "ok x \<Longrightarrow> \<exists>z. zs_to_zbuf_with_hint S x hint = Ok z \<and> zb_contiguous Z z = bytes_of x"
    and to_shm: "ok x \<Longrightarrow> zs_to_shm S x n E = Err AllocationFailed \<or>
      (if n < needs x then zs_to_shm S x n E = Panic
       else \<exists>z rest. zs_to_shm S x n E = Ok (z, length (bytes_of x)) \<and> zb_contiguous Z z = bytes_of x @ rest)"
    and to_buf: "ok x \<Longrightarrow> \<exists>b. zs_to_buf S x buffer = (Ok (), b) \<and> vec_data b = bytes_of x"
    and serialize: "ok x \<Longrightarrow> \<exists>b. zs_serialize S x = Ok b \<and> vec_data b = bytes_of x"
    and deserialize: "ok x \<Longrightarrow> deser (bytes_of x @ rest) = Ok x"
begin

lemma deserialize_exact: "ok x \<Longrightarrow> deser (bytes_of x) = Ok x"
  using deserialize [of x "[]"] by simp

lemma reuse: "ok x \<Longrightarrow> \<exists>z. serialize_to_zbuf_reuse S E x buffer = (Ok z, vec_new) \<and> zb_contiguous Z z = bytes_of x"
  using to_buf [of x buffer] by (auto simp: serialize_to_zbuf_reuse_def)

end

lemma cdr_serdes:
  assumes "shm_env_laws Z E" and "byte_order_laws LE"
  shows "serdes Z E (CdrSerdes Z LE T) (cdr_deserialize LE T) (fits T) (cdr_bytes LE T)
    (\<lambda>x. length (cdr_bytes LE T x))"
proof -
  have Z: "zbuf_laws Z" using assms(1) by (simp add: shm_env_laws_def)
  note enc = fits_encodable [OF assms(2)]
  show ?thesis
  proof (intro serdes.intro serdes_axioms.intro)
    show "shm_env_laws Z E" by (rule assms(1))
  next
    fix x assume x: "fits T x"
    from zbuf_laws.cdr_to_zbuf_spec [OF Z enc [OF x]]
    show "\<exists>z. zs_to_zbuf (CdrSerdes Z LE T) x = Ok z \<and> zb_contiguous Z z = cdr_bytes LE T x"
      by (simp add: CdrSerdes_def cdr_to_zbuf_def)
  next
    fix x hint assume x: "fits T x"
    from zbuf_laws.cdr_to_zbuf_spec [OF Z enc [OF x]]
    show "\<exists>z. zs_to_zbuf_with_hint (CdrSerdes Z LE T) x hint = Ok z \<and> zb_contiguous Z z = cdr_bytes LE T x"
      by (simp add: CdrSerdes_def)
  next
    fix x n assume x: "fits T x"
    from shm_env_laws.cdr_to_shm_spec [OF assms(1) enc [OF x], of n]
    show "zs_to_shm (CdrSerdes Z LE T) x n E = Err AllocationFailed \<or>
      (if n < length (cdr_bytes LE T x) then zs_to_shm (CdrSerdes Z LE T) x n E = Panic
       else \<exists>z rest. zs_to_shm (CdrSerdes Z LE T) x n E = Ok (z, length (cdr_bytes LE T x)) \<and>
         zb_contiguous Z z = cdr_bytes LE T x @ rest)"
      by (cases "se_alloc E n") (auto simp: CdrSerdes_def split: if_splits)
  next
    fix x buffer assume x: "fits T x"
    from zbuf_laws.cdr_to_buf_spec [OF Z enc [OF x], of buffer]
    show "\<exists>b. zs_to_buf (CdrSerdes Z LE T) x buffer = (Ok (), b) \<and> vec_data b = cdr_bytes LE T x"
      by (auto simp: CdrSerdes_def)
  next
    fix x assume x: "fits T x"
    from zbuf_laws.cdr_to_buf_spec [OF Z enc [OF x], of vec_new]
    show "\<exists>b. zs_serialize (CdrSerdes Z LE T) x = Ok b \<and> vec_data b = cdr_bytes LE T x"
      by (auto simp: CdrSerdes_def cdr_serialize_def)
  next
    fix x rest assume "fits T x"
    then show "cdr_deserialize LE T (cdr_bytes LE T x @ rest) = Ok x"
      by (rule cdr_deserialize_bytes [OF assms(2)])
  qed
qed

text \<open>Dynamic messages are serialized first and then copied into a block of the right size.\<close>

definition dyn_bytes :: "'z zbuf_ops \<Rightarrow> byte_order \<Rightarrow> DynamicMessage \<Rightarrow> bytes" where
  "dyn_bytes Z LE m = (case serialize_cdr Z LE m of Ok buf \<Rightarrow> vec_data buf | _ \<Rightarrow> [])"

lemma dyn_serdes:
  assumes "shm_env_laws Z E" and "byte_order_laws LE"
  shows "serdes Z E (DynamicCdrSerdes Z E LE) (\<lambda>bs. dyn_deserialize LE (bs, schema))
    (message_typed schema) (dyn_bytes Z LE) (\<lambda>_. 0)"
proof -
  have Z: "zbuf_laws Z" using assms(1) by (simp add: shm_env_laws_def)
  note vec = shm_env_laws.from_vec_bytes [OF assms(1)] and shm = shm_env_laws.from_shm_bytes [OF assms(1)]
  have run: "\<exists>buf. serialize_cdr Z LE m = Ok buf \<and> vec_data buf = dyn_bytes Z LE m \<and>
      deserialize_cdr LE (dyn_bytes Z LE m @ rest) schema = Ok m" if "message_typed schema m" for m rest
  proof -
    from Z assms(2) that obtain s xs buf where "cdr_encode LE s 0 = Ok xs" "serialize_cdr Z LE m = Ok buf"
      "vec_data buf = CDR_HEADER_LE @ xs"
      and dec: "decodes (map_cdr_err UnexpectedEof) (deserialize_message LE schema) (cdr_encode LE s) m"
      by (rule message_typed_encoding)
    with decodes_Ok [OF dec, of "[]" xs rest] show ?thesis
      by (simp add: deserialize_cdr_payload dyn_bytes_def)
  qed
  show ?thesis
  proof (intro serdes.intro serdes_axioms.intro)
    show "shm_env_laws Z E" by (rule assms(1))
  next
    fix m assume "message_typed schema m"
    from run [OF this, of "[]"] show "\<exists>z. zs_to_zbuf (DynamicCdrSerdes Z E LE) m = Ok z \<and>
        zb_contiguous Z z = dyn_bytes Z LE m"
      by (auto simp: DynamicCdrSerdes_def dyn_to_zbuf_def serialize_cdr_to_zbuf_def vec)
  next
    fix m hint assume "message_typed schema m"
    from run [OF this, of "[]"] show "\<exists>z. zs_to_zbuf_with_hint (DynamicCdrSerdes Z E LE) m hint = Ok z \<and>
        zb_contiguous Z z = dyn_bytes Z LE m"
      by (auto simp: DynamicCdrSerdes_def dyn_to_zbuf_def serialize_cdr_to_zbuf_def vec)
  next
    fix m n assume "message_typed schema m"
    from run [OF this] obtain buf where "serialize_cdr Z LE m = Ok buf" "vec_data buf = dyn_bytes Z LE m"
      by blast
    then show "zs_to_shm (DynamicCdrSerdes Z E LE) m n E = Err AllocationFailed \<or>
      (if n < 0 then zs_to_shm (DynamicCdrSerdes Z E LE) m n E = Panic
       else \<exists>z rest. zs_to_shm (DynamicCdrSerdes Z E LE) m n E = Ok (z, length (dyn_bytes Z LE m)) \<and>
         zb_contiguous Z z = dyn_bytes Z LE m @ rest)"
      using shm_env_laws.alloc_length [OF assms(1), of "length (dyn_bytes Z LE m)"]
      by (cases "se_alloc E (length (dyn_bytes Z LE m))")
        (auto simp: DynamicCdrSerdes_def dyn_to_shm_def vec_len_def shm)
  next
    fix m buffer assume "message_typed schema m"
    from run [OF this, of "[]"] show "\<exists>b. zs_to_buf (DynamicCdrSerdes Z E LE) m buffer = (Ok (), b) \<and>
        vec_data b = dyn_bytes Z LE m"
      by (auto simp: DynamicCdrSerdes_def dyn_to_buf_def)
  next
    fix m assume "message_typed schema m"
    from run [OF this, of "[]"] show "\<exists>b. zs_serialize (DynamicCdrSerdes Z E LE) m = Ok b \<and> vec_data b = dyn_bytes Z LE m"
      by (auto simp: DynamicCdrSerdes_def dyn_serialize_def)
  next
    fix m rest assume "message_typed schema m"
    from run [OF this, of rest] show "dyn_deserialize LE (dyn_bytes Z LE m @ rest, schema) = Ok m"
      by (auto simp: dyn_deserialize_def)
  qed
qed

section \<open>Instances\<close>

text \<open>A pool of one kilobyte whose memory is not cleared.\<close>

definition sample_shm :: "zslice list shm_env" where
  "sample_shm =
     \<lparr>se_alloc = (\<lambda>n. if n \<le> 1024 then Some (replicate n 0xAA) else None),
      se_from_shm = (\<lambda>bs. [bs]), se_from_vec = (\<lambda>v. [vec_data v])\<rparr>"

interpretation ssh: shm_env_laws list_zbuf sample_shm
  by unfold_locales (auto simp: sample_shm_def list_zbuf_def split: if_splits)

interpretation shmb: cdr_buffer list_zbuf "ShmWriter_CdrBuffer list_zbuf" sw_content "sw_inv n" for n
  by (rule zl.shm_cdr_buffer)

interpretation cdrs: serdes list_zbuf sample_shm "CdrSerdes list_zbuf LittleEndian T"
  "cdr_deserialize LittleEndian T" "fits T" "cdr_bytes LittleEndian T"
  "\<lambda>x. length (cdr_bytes LittleEndian T x)" for T
  by (rule cdr_serdes [OF ssh.shm_env_laws_axioms le.byte_order_laws_axioms])

interpretation dyns: serdes list_zbuf sample_shm "DynamicCdrSerdes list_zbuf sample_shm LittleEndian"
  "\<lambda>bs. dyn_deserialize LittleEndian (bs, schema)" "message_typed schema"
  "dyn_bytes list_zbuf LittleEndian" "\<lambda>_. 0" for schema
  by (rule dyn_serdes [OF ssh.shm_env_laws_axioms le.byte_order_laws_axioms])

end
