(* ===== verification/Attachments.thy ===== *)
theory Attachments
  imports Proto_Entity Bounded_Queue Cdr_Codec
begin

text \<open>
  What publishers, subscribers, clients and servers share: the attachment of a message
  (\<^verbatim>\<open>ros-z/src/attachment.rs\<close>), the GID of an endpoint (\<^verbatim>\<open>entity.rs\<close>) and the handler of incoming
  data (\<^verbatim>\<open>common.rs\<close>).  The serializer of the crate \<^verbatim>\<open>zenoh_ext\<close> is the record \<open>att_env\<close>, the
  SHA-256 function and the bytes of a session id are arguments.
\<close>

section \<open>attachment.rs\<close>

record Attachment =
  att_sequence_number :: i64
  att_source_timestamp :: i64
  att_source_gid :: bytes

text \<open>\<open>now\<close> is the number of nanoseconds since the epoch, if the clock is not before it.\<close>

definition attachment_new :: "nat option \<Rightarrow> i64 \<Rightarrow> bytes \<Rightarrow> Attachment" where
  "attachment_new now sn gid =
     \<lparr>att_sequence_number = sn,
      att_source_timestamp = (case now of None \<Rightarrow> 0 | Some ns \<Rightarrow> of_nat ns),
      att_source_gid = gid\<rparr>"

record att_env =
  ae_ser_i64 :: "i64 \<Rightarrow> bytes"
  ae_ser_gid :: "bytes \<Rightarrow> bytes"
  ae_de_i64 :: "bytes \<Rightarrow> (i64 \<times> bytes) option"
  ae_de_gid :: "bytes \<Rightarrow> (bytes \<times> bytes) option"

text \<open>Reading a value behind which others follow returns the value and the rest.\<close>

locale att_env_laws =
  fixes A :: att_env
  assumes de_ser_i64 [simp]: "ae_de_i64 A (ae_ser_i64 A x @ rest) = Some (x, rest)"
    and de_ser_gid [simp]: "length gid = 16 \<Longrightarrow> ae_de_gid A (ae_ser_gid A gid @ rest) = Some (gid, rest)"

definition attachment_to_bytes :: "att_env \<Rightarrow> Attachment \<Rightarrow> bytes" where
  "attachment_to_bytes A a =
     ae_ser_i64 A (att_sequence_number a) @ ae_ser_i64 A (att_source_timestamp a) @
     ae_ser_gid A (att_source_gid a)"

definition attachment_try_from :: "att_env \<Rightarrow> bytes \<Rightarrow> Attachment option" where
  "attachment_try_from A bs =
     Option.bind (ae_de_i64 A bs) (\<lambda>(sn, bs1).
     Option.bind (ae_de_i64 A bs1) (\<lambda>(ts, bs2).
     map_option (\<lambda>(gid, _). \<lparr>att_sequence_number = sn, att_source_timestamp = ts, att_source_gid = gid\<rparr>)
       (ae_de_gid A bs2)))"

context att_env_laws
begin

lemma attachment_read_back:
  assumes "length (att_source_gid a) = 16"
  shows "attachment_try_from A (attachment_to_bytes A a) = Some a"
  using de_ser_gid [OF assms, of "[]"]
  by (simp add: attachment_try_from_def attachment_to_bytes_def)

end

text \<open>The fixed-width little-endian form.\<close>

definition sample_att_env :: att_env where
  "sample_att_env =
     \<lparr>ae_ser_i64 = le_bytes 8, ae_ser_gid = (\<lambda>g. g),
      ae_de_i64 = (\<lambda>bs. if length bs < 8 then None else Some (of_le_bytes (take 8 bs), drop 8 bs)),
      ae_de_gid = (\<lambda>bs. if length bs < 16 then None else Some (take 16 bs, drop 16 bs))\<rparr>"

interpretation sae: att_env_laws sample_att_env
  by unfold_locales (simp_all add: sample_att_env_def of_le_bytes_le_bytes)

section \<open>entity.rs\<close>

text \<open>\<open>zid_bytes\<close> is \<^verbatim>\<open>ZenohId::to_le_bytes\<close>.\<close>

definition endpoint_gid :: "(bytes \<Rightarrow> bytes) \<Rightarrow> ('i \<Rightarrow> bytes) \<Rightarrow> 'i EndpointEntity \<Rightarrow> bytes" where
  "endpoint_gid sha256 zid_bytes e =
     take 16 (sha256 (zid_bytes (z_id (endpoint_node e)) @ le_bytes 8 (endpoint_id e)))"

section \<open>common.rs\<close>

text \<open>
  What a handler does with a datum: the queue of the first and third form, and the trace of calls
  of the callback, respectively the number of calls of the notifier.
\<close>

datatype data_handler = HandleQueue | HandleCallback | HandleQueueWithNotifier

record 's handler_state =
  hs_queue :: "'s BoundedQueue"
  hs_calls :: "'s list"
  hs_notified :: nat

definition handle :: "data_handler \<Rightarrow> 's \<Rightarrow> 's handler_state \<Rightarrow> 's handler_state" where
  "handle h data st = (case h of
       HandleQueue \<Rightarrow> st\<lparr>hs_queue := snd (queue_push data (hs_queue st))\<rparr>
     | HandleCallback \<Rightarrow> st\<lparr>hs_calls := hs_calls st @ [data]\<rparr>
     | HandleQueueWithNotifier \<Rightarrow>
         st\<lparr>hs_queue := snd (queue_push data (hs_queue st)), hs_notified := hs_notified st + 1\<rparr>)"

text \<open>The capacity that the builders give the queue.\<close>

definition queue_size :: "QosHistory \<Rightarrow> nat" where
  "queue_size h = (case h of KeepLast depth \<Rightarrow> unat depth | KeepAll \<Rightarrow> 2 ^ 64 - 1)"

lemma handle_all_queue:
  assumes "0 < q_capacity (hs_queue st)" and "length (q_data (hs_queue st)) \<le> q_capacity (hs_queue st)"
  shows "q_capacity (hs_queue (fold (handle HandleQueue) ds st)) = q_capacity (hs_queue st) \<and>
    q_data (hs_queue (fold (handle HandleQueue) ds st)) =
      drop (length (q_data (hs_queue st) @ ds) - q_capacity (hs_queue st)) (q_data (hs_queue st) @ ds)"
  using assms
proof (induction ds arbitrary: st)
  case (Cons d ds)
  let ?q = "hs_queue st" and ?st = "handle HandleQueue d st"
  have st: "hs_queue ?st = snd (queue_push d ?q)" by (simp add: handle_def)
  have "0 < q_capacity (hs_queue ?st)" "length (q_data (hs_queue ?st)) \<le> q_capacity (hs_queue ?st)"
    using Cons.prems by (auto simp: st push_data)
  note ih = Cons.IH [OF this]
  show ?case
  proof (cases "q_capacity ?q \<le> length (q_data ?q)")
    case True
    with Cons.prems obtain y ys where "q_data ?q = y # ys" "q_capacity ?q = Suc (length ys)"
      by (cases "q_data ?q") auto
    with ih True show ?thesis by (simp add: st push_data)
  next
    case False
    then have "q_data (hs_queue ?st) @ ds = q_data ?q @ d # ds" by (simp add: st push_data)
    from ih [unfolded this] show ?thesis by (simp add: st push_data(1) del: drop_append)
  qed
qed simp

end
