(* ===== verification/PubSub.thy ===== *)
theory PubSub
  imports Msg_Serdes RosZ_Qos Attachments Topic_Name Graph_Events Dyn_TypeDesc
begin

text \<open>
  \<^verbatim>\<open>ros-z/src/pubsub.rs\<close>: publishers and subscribers.  Zenoh is the record \<open>session_ops\<close> of the
  declarations that it accepts; a \<open>put\<close> is what a publisher hands to Zenoh and a subscriber gets
  back as a sample.  Serialization is the trait \<open>ZSerializer\<close> of theory \<open>Msg_Serdes\<close>.
\<close>

section \<open>Builders\<close>

record ('i, 'b) ZPubBuilder =
  pb_entity :: "'i EndpointEntity"
  pb_with_attachment :: bool
  pb_shm_config :: "'b shm_env ShmConfig option"
  pb_keyexpr_format :: KeyExprFormat
  pb_dyn_schema :: "MessageSchema option"

definition pb_with_qos :: "rz_qos \<Rightarrow> ('i, 'b) ZPubBuilder \<Rightarrow> ('i, 'b) ZPubBuilder" where
  "pb_with_qos qos b = b\<lparr>pb_entity := (pb_entity b)\<lparr>endpoint_qos := to_protocol_qos qos\<rparr>\<rparr>"

definition pb_set_attachment :: "bool \<Rightarrow> ('i, 'b) ZPubBuilder \<Rightarrow> ('i, 'b) ZPubBuilder" where
  "pb_set_attachment a b = b\<lparr>pb_with_attachment := a\<rparr>"

definition pb_with_shm_config :: "'b shm_env ShmConfig \<Rightarrow> ('i, 'b) ZPubBuilder \<Rightarrow> ('i, 'b) ZPubBuilder" where
  "pb_with_shm_config config b = b\<lparr>pb_shm_config := Some config\<rparr>"

definition pb_without_shm :: "('i, 'b) ZPubBuilder \<Rightarrow> ('i, 'b) ZPubBuilder" where
  "pb_without_shm b = b\<lparr>pb_shm_config := None\<rparr>"

text \<open>The type information that both builders derive from a schema.\<close>

definition dds_type_name :: "string \<Rightarrow> string" where
  "dds_type_name ros_name =
     str_replace ''/action/'' ''::action::dds_::''
       (str_replace ''/srv/'' ''::srv::dds_::'' (str_replace ''/msg/'' ''::msg::dds_::'' ros_name)) @ ''_''"

definition schema_type_info :: "hash_env \<Rightarrow> MessageSchema \<Rightarrow> (TypeInfo, unit) result" where
  "schema_type_info H schema =
     bind_result
       (case compute_type_hash H schema of
          Ok hash \<Rightarrow> Ok (unwrap_or (from_rihs_string (hash_to_rihs_string H hash)) type_hash_zero)
        | Err _ \<Rightarrow> Ok type_hash_zero
        | Panic \<Rightarrow> Panic)
       (\<lambda>h. Ok (type_info_new (dds_type_name (ms_type_name schema)) h))"

definition entity_with_schema :: "hash_env \<Rightarrow> MessageSchema \<Rightarrow> 'i EndpointEntity \<Rightarrow> ('i EndpointEntity, unit) result" where
  "entity_with_schema H schema e =
     (if type_info e = None
      then bind_result (schema_type_info H schema) (\<lambda>ti. Ok (e\<lparr>type_info := Some ti\<rparr>))
      else Ok e)"

definition pb_with_dyn_schema ::
    "hash_env \<Rightarrow> MessageSchema \<Rightarrow> ('i, 'b) ZPubBuilder \<Rightarrow> (('i, 'b) ZPubBuilder, unit) result" where
  "pb_with_dyn_schema H schema b =
     bind_result (entity_with_schema H schema (pb_entity b)) (\<lambda>e.
       Ok (b\<lparr>pb_entity := e, pb_dyn_schema := Some schema\<rparr>))"

datatype pub_error = QualifyFailed TopicNameError | ZenohError zerror

definition zenoh_result :: "('a, zerror) result \<Rightarrow> ('a, pub_error) result" where
  "zenoh_result r = (case r of Ok x \<Rightarrow> Ok x | Err e \<Rightarrow> Err (ZenohError e) | Panic \<Rightarrow> Panic)"

datatype congestion_control = Block | Drop

text \<open>Which declarations the session accepts; \<open>so_zid\<close> is its id.\<close>

record 'i session_ops =
  so_zid :: 'i
  so_declare :: "string \<Rightarrow> (unit, zerror) result"
  so_declare_token :: "string \<Rightarrow> (unit, zerror) result"
  so_zid_bytes :: "'i \<Rightarrow> bytes"
  so_sha256 :: "bytes \<Rightarrow> bytes"

record ('i, 'b, 'c) ZPub =
  zp_entity :: "'i EndpointEntity"
  zp_sn :: u64
  zp_gid :: bytes
  zp_key_expr :: string
  zp_congestion :: congestion_control
  zp_express :: bool
  zp_token :: string
  zp_with_attachment :: bool
  zp_events_mgr :: "'c EventsManager"
  zp_shm_config :: "'b shm_env ShmConfig option"
  zp_dyn_schema :: "MessageSchema option"

fun topic_ke_str :: "TopicKE \<Rightarrow> string" where "topic_ke_str (TopicKE s) = s"
fun liveliness_ke_str :: "LivelinessKE \<Rightarrow> string" where "liveliness_ke_str (LivelinessKE s) = s"

definition qualify_entity :: "'i EndpointEntity \<Rightarrow> ('i EndpointEntity, pub_error) result" where
  "qualify_entity e =
     (case qualify_topic_name (topic e) (namespace (endpoint_node e)) (node_name (endpoint_node e)) of
        Ok t \<Rightarrow> Ok (e\<lparr>topic := t\<rparr>)
      | Err x \<Rightarrow> Err (QualifyFailed x)
      | Panic \<Rightarrow> Panic)"

definition pub_build ::
    "'i zenoh_ops \<Rightarrow> 'i session_ops \<Rightarrow> ('i, 'b) ZPubBuilder \<Rightarrow> (('i, 'b, 'c) ZPub, pub_error) result" where
  "pub_build Z se b =
     bind_result (qualify_entity (pb_entity b)) (\<lambda>entity.
     bind_result (zenoh_result (fmt_topic_key_expr Z (pb_keyexpr_format b) entity)) (\<lambda>topic_ke.
     let key_expr = topic_ke_str topic_ke;
         congestion = (case reliability (endpoint_qos entity) of Reliable \<Rightarrow> Block | BestEffort \<Rightarrow> Drop);
         express = (case durability (endpoint_qos entity) of TransientLocal \<Rightarrow> True | Volatile \<Rightarrow> False)
     in bind_result (zenoh_result (so_declare se key_expr)) (\<lambda>_.
     bind_result (zenoh_result (fmt_liveliness_key_expr Z (pb_keyexpr_format b) entity (so_zid se))) (\<lambda>lv_ke.
     bind_result (zenoh_result (so_declare_token se (liveliness_ke_str lv_ke))) (\<lambda>_.
     let gid = endpoint_gid (so_sha256 se) (so_zid_bytes se) entity
     in Ok \<lparr>zp_entity = entity, zp_sn = 0, zp_gid = gid, zp_key_expr = key_expr,
           zp_congestion = congestion, zp_express = express, zp_token = liveliness_ke_str lv_ke,
           zp_with_attachment = pb_with_attachment b, zp_events_mgr = events_manager_new gid,
           zp_shm_config = pb_shm_config b, zp_dyn_schema = pb_dyn_schema b\<rparr>)))))"

section \<open>Publishing\<close>

record 'b put =
  put_key_expr :: string
  put_payload :: 'b
  put_attachment :: "Attachment option"

text \<open>\<^verbatim>\<open>fetch_add\<close> on an \<^verbatim>\<open>AtomicUsize\<close> wraps around.\<close>

definition new_attachment :: "nat option \<Rightarrow> ('i, 'b, 'c) ZPub \<Rightarrow> Attachment \<times> ('i, 'b, 'c) ZPub" where
  "new_attachment now p = (attachment_new now (zp_sn p) (zp_gid p), p\<lparr>zp_sn := zp_sn p + 1\<rparr>)"

text \<open>\<^verbatim>\<open>self.inner.put(..)\<close>, with an attachment if the publisher is built with one.\<close>

definition put_builder :: "nat option \<Rightarrow> 'b \<Rightarrow> (('i, 'b, 'c) ZPub, 'b put, unit) exec" where
  "put_builder now payload = (\<lambda>p.
     if zp_with_attachment p
     then let (att, p') = new_attachment now p
          in (Ok \<lparr>put_key_expr = zp_key_expr p, put_payload = payload, put_attachment = Some att\<rparr>, p')
     else (Ok \<lparr>put_key_expr = zp_key_expr p, put_payload = payload, put_attachment = None\<rparr>, p))"

definition publish_payload ::
    "'b zbuf_ops \<Rightarrow> ('a, 'b) ZSerializer \<Rightarrow> ('a \<Rightarrow> nat) \<Rightarrow> 'b shm_env ShmConfig option \<Rightarrow> 'a \<Rightarrow>
     ('b \<times> nat, unit) result" where
  "publish_payload Zb S estimate shm_config msg =
     (let regular = bind_result (zs_to_zbuf S msg) (\<lambda>zbuf. Ok (zbuf, length (zb_contiguous Zb zbuf))) in
      case shm_config of
        Some shm_cfg \<Rightarrow>
          let estimated_size = estimate msg
          in if shm_threshold shm_cfg \<le> estimated_size
             then (case zs_to_shm S msg estimated_size (shm_provider shm_cfg) of
                 Ok r \<Rightarrow> Ok r
               | Err e \<Rightarrow> regular
               | Panic \<Rightarrow> Panic)
             else regular
      | None \<Rightarrow> regular)"

definition publish ::
    "'b zbuf_ops \<Rightarrow> ('a, 'b) ZSerializer \<Rightarrow> ('a \<Rightarrow> nat) \<Rightarrow> nat option \<Rightarrow> 'a \<Rightarrow>
     (('i, 'b, 'c) ZPub, 'b put, unit) exec" where
  "publish Zb S estimate now msg = (\<lambda>p.
     case publish_payload Zb S estimate (zp_shm_config p) msg of
       Ok (zbuf, actual_size) \<Rightarrow> put_builder now zbuf p
     | Err e \<Rightarrow> (Err e, p)
     | Panic \<Rightarrow> (Panic, p))"

definition async_publish ::
    "'b zbuf_ops \<Rightarrow> ('a, 'b) ZSerializer \<Rightarrow> ('a \<Rightarrow> nat) \<Rightarrow> nat option \<Rightarrow> 'a \<Rightarrow>
     (('i, 'b, 'c) ZPub, 'b put, unit) exec" where
  "async_publish Zb S estimate now msg = (\<lambda>p.
     case publish_payload Zb S estimate (zp_shm_config p) msg of
       Ok (zbuf, _) \<Rightarrow> put_builder now zbuf p
     | Err e \<Rightarrow> (Err e, p)
     | Panic \<Rightarrow> (Panic, p))"

definition publish_serialized :: "nat option \<Rightarrow> 'b \<Rightarrow> (('i, 'b, 'c) ZPub, 'b put, unit) exec" where
  "publish_serialized now data = put_builder now data"

definition publish_sample :: "nat option \<Rightarrow> 'b put \<Rightarrow> (('i, 'b, 'c) ZPub, 'b put, unit) exec" where
  "publish_sample now msg = put_builder now (put_payload msg)"

section \<open>Subscribers\<close>

record 'i ZSubBuilder =
  sb_entity :: "'i EndpointEntity"
  sb_keyexpr_format :: KeyExprFormat
  sb_dyn_schema :: "MessageSchema option"

definition sb_with_qos :: "rz_qos \<Rightarrow> 'i ZSubBuilder \<Rightarrow> 'i ZSubBuilder" where
  "sb_with_qos qos b = b\<lparr>sb_entity := (sb_entity b)\<lparr>endpoint_qos := to_protocol_qos qos\<rparr>\<rparr>"

definition sb_with_dyn_schema :: "hash_env \<Rightarrow> MessageSchema \<Rightarrow> 'i ZSubBuilder \<Rightarrow> ('i ZSubBuilder, unit) result" where
  "sb_with_dyn_schema H schema b =
     bind_result (entity_with_schema H schema (sb_entity b)) (\<lambda>e.
       Ok (b\<lparr>sb_entity := e, sb_dyn_schema := Some schema\<rparr>))"

record ('i, 'b, 'c) ZSub =
  zs_entity :: "'i EndpointEntity"
  zs_queue :: "'b put BoundedQueue option"
  zs_key_expr :: string
  zs_token :: string
  zs_events_mgr :: "'c EventsManager"
  zs_dyn_schema :: "MessageSchema option"

definition sub_build_internal ::
    "'i zenoh_ops \<Rightarrow> 'i session_ops \<Rightarrow> 'b put BoundedQueue option \<Rightarrow> 'i ZSubBuilder \<Rightarrow>
     (('i, 'b, 'c) ZSub, pub_error) result" where
  "sub_build_internal Z se queue b =
     bind_result (qualify_entity (sb_entity b)) (\<lambda>entity.
     bind_result (zenoh_result (fmt_topic_key_expr Z (sb_keyexpr_format b) entity)) (\<lambda>topic_ke.
     let key_expr = topic_ke_str topic_ke
     in bind_result (zenoh_result (so_declare se key_expr)) (\<lambda>_.
     let gid = endpoint_gid (so_sha256 se) (so_zid_bytes se) entity
     in bind_result (zenoh_result (fmt_liveliness_key_expr Z (sb_keyexpr_format b) entity (so_zid se))) (\<lambda>lv_ke.
     bind_result (zenoh_result (so_declare_token se (liveliness_ke_str lv_ke))) (\<lambda>_.
     Ok \<lparr>zs_entity = entity, zs_queue = queue, zs_key_expr = key_expr,
         zs_token = liveliness_ke_str lv_ke, zs_events_mgr = events_manager_new gid,
         zs_dyn_schema = sb_dyn_schema b\<rparr>)))))"

definition sub_build ::
    "'i zenoh_ops \<Rightarrow> 'i session_ops \<Rightarrow> 'i ZSubBuilder \<Rightarrow> (('i, 'b, 'c) ZSub, pub_error) result" where
  "sub_build Z se b =
     sub_build_internal Z se (Some (queue_new (queue_size (history (endpoint_qos (sb_entity b)))))) b"

definition sub_build_with_notifier ::
    "'i zenoh_ops \<Rightarrow> 'i session_ops \<Rightarrow> 'i ZSubBuilder \<Rightarrow> (('i, 'b, 'c) ZSub, pub_error) result" where
  "sub_build_with_notifier Z se b =
     sub_build_internal Z se (Some (queue_new (queue_size (history (endpoint_qos (sb_entity b)))))) b"

text \<open>
  A subscriber with a callback has no queue.  \<open>callback_messages\<close> is what its callback is called with
  for a sample: the message, or nothing when it cannot be deserialized.
\<close>

definition sub_build_with_callback ::
    "'i zenoh_ops \<Rightarrow> 'i session_ops \<Rightarrow> 'i ZSubBuilder \<Rightarrow> (('i, 'b, 'c) ZSub, pub_error) result" where
  "sub_build_with_callback Z se b = sub_build_internal Z se None b"

definition callback_messages :: "'b zbuf_ops \<Rightarrow> (bytes \<Rightarrow> ('a, 'e) result) \<Rightarrow> 'b put \<Rightarrow> 'a list" where
  "callback_messages Zb deser sample =
     (case deser (zb_contiguous Zb (put_payload sample)) of Ok msg \<Rightarrow> [msg] | _ \<Rightarrow> [])"

text \<open>A sample arrives: the handler pushes it on the queue.\<close>

definition sub_deliver :: "'b put \<Rightarrow> ('i, 'b, 'c) ZSub \<Rightarrow> ('i, 'b, 'c) ZSub" where
  "sub_deliver sample s = s\<lparr>zs_queue := map_option (\<lambda>q. hs_queue (handle HandleQueue sample
     \<lparr>hs_queue = q, hs_calls = [], hs_notified = 0\<rparr>)) (zs_queue s)\<rparr>"

text \<open>With a notifier, the handler pushes the sample and then calls the notifier.\<close>

definition sub_deliver_notify :: "'b put \<Rightarrow> ('i, 'b, 'c) ZSub \<times> nat \<Rightarrow> ('i, 'b, 'c) ZSub \<times> nat" where
  "sub_deliver_notify sample = (\<lambda>(s, notified). case zs_queue s of
       None \<Rightarrow> (s, notified)
     | Some q \<Rightarrow>
        let h = handle HandleQueueWithNotifier sample \<lparr>hs_queue = q, hs_calls = [], hs_notified = notified\<rparr>
        in (s\<lparr>zs_queue := Some (hs_queue h)\<rparr>, hs_notified h))"

section \<open>Receiving\<close>

datatype 'e recv_error = NoQueue | ReceiveTimedOut | SchemaRequired | DeserializeFailed 'e

definition sub_queue :: "('i, 'b, 'c) ZSub \<Rightarrow> ('b put BoundedQueue, 'e recv_error) result" where
  "sub_queue s = ok_or NoQueue (zs_queue s)"

text \<open>\<open>None\<close>: the caller waits for a sample.\<close>

definition recv_serialized :: "(('i, 'b, 'c) ZSub, 'b put option, 'e recv_error) exec" where
  "recv_serialized = (\<lambda>s. case sub_queue s of
       Ok q \<Rightarrow> (case queue_recv q of
           (Ok r, q') \<Rightarrow> (Ok r, s\<lparr>zs_queue := Some q'\<rparr>)
         | (Err _, q') \<Rightarrow> (Panic, s\<lparr>zs_queue := Some q'\<rparr>)
         | (Panic, q') \<Rightarrow> (Panic, s\<lparr>zs_queue := Some q'\<rparr>))
     | Err e \<Rightarrow> (Err e, s)
     | Panic \<Rightarrow> (Panic, s))"

definition async_recv_serialized :: "(('i, 'b, 'c) ZSub, 'b put option, 'e recv_error) exec" where
  "async_recv_serialized = (\<lambda>s. case sub_queue s of
       Ok q \<Rightarrow> (case queue_recv_async q of (r, q') \<Rightarrow> (Ok r, s\<lparr>zs_queue := Some q'\<rparr>))
     | Err e \<Rightarrow> (Err e, s)
     | Panic \<Rightarrow> (Panic, s))"

definition recv_serialized_timeout ::
    "bool \<times> 'b put BoundedQueue \<Rightarrow> (('i, 'b, 'c) ZSub, 'b put, 'e recv_error) exec" where
  "recv_serialized_timeout wake = (\<lambda>s. case sub_queue s of
       Ok q \<Rightarrow> (case queue_recv_timeout wake q of
           (r, q') \<Rightarrow> (ok_or ReceiveTimedOut r, s\<lparr>zs_queue := Some q'\<rparr>))
     | Err e \<Rightarrow> (Err e, s)
     | Panic \<Rightarrow> (Panic, s))"

definition sub_is_ready :: "('i, 'b, 'c) ZSub \<Rightarrow> bool" where
  "sub_is_ready s = unwrap_or (map_option (\<lambda>q. \<not> queue_is_empty q) (zs_queue s)) False"

definition decode_sample ::
    "'b zbuf_ops \<Rightarrow> (bytes \<Rightarrow> ('a, 'e) result) \<Rightarrow> 'b put \<Rightarrow> ('a, 'e recv_error) result" where
  "decode_sample Zb deser sample = (case deser (zb_contiguous Zb (put_payload sample)) of
       Ok x \<Rightarrow> Ok x | Err e \<Rightarrow> Err (DeserializeFailed e) | Panic \<Rightarrow> Panic)"

definition recv ::
    "'b zbuf_ops \<Rightarrow> (bytes \<Rightarrow> ('a, 'e) result) \<Rightarrow> (('i, 'b, 'c) ZSub, 'a option, 'e recv_error) exec" where
  "recv Zb deser = andthen recv_serialized (\<lambda>r s. case r of
       None \<Rightarrow> (Ok None, s)
     | Some sample \<Rightarrow> (map_ok Some (decode_sample Zb deser sample), s))"

definition recv_timeout ::
    "'b zbuf_ops \<Rightarrow> (bytes \<Rightarrow> ('a, 'e) result) \<Rightarrow> bool \<times> 'b put BoundedQueue \<Rightarrow>
     (('i, 'b, 'c) ZSub, 'a, 'e recv_error) exec" where
  "recv_timeout Zb deser wake = andthen (recv_serialized_timeout wake) (\<lambda>sample s.
     (decode_sample Zb deser sample, s))"

definition async_recv ::
    "'b zbuf_ops \<Rightarrow> (bytes \<Rightarrow> ('a, 'e) result) \<Rightarrow> (('i, 'b, 'c) ZSub, 'a option, 'e recv_error) exec" where
  "async_recv Zb deser = andthen async_recv_serialized (\<lambda>r s. case r of
       None \<Rightarrow> (Ok None, s)
     | Some sample \<Rightarrow> (map_ok Some (decode_sample Zb deser sample), s))"

subsection \<open>Dynamic messages\<close>

definition with_schema ::
    "(MessageSchema \<Rightarrow> (('i, 'b, 'c) ZSub, 'a, 'e recv_error) exec) \<Rightarrow> (('i, 'b, 'c) ZSub, 'a, 'e recv_error) exec" where
  "with_schema f = (\<lambda>s. case zs_dyn_schema s of None \<Rightarrow> (Err SchemaRequired, s) | Some schema \<Rightarrow> f schema s)"

definition dyn_recv ::
    "'b zbuf_ops \<Rightarrow> byte_order \<Rightarrow> (('i, 'b, 'c) ZSub, DynamicMessage option, DynamicError recv_error) exec" where
  "dyn_recv Zb LE = with_schema (\<lambda>schema. recv Zb (\<lambda>bs. dyn_deserialize LE (bs, schema)))"

definition dyn_recv_timeout ::
    "'b zbuf_ops \<Rightarrow> byte_order \<Rightarrow> bool \<times> 'b put BoundedQueue \<Rightarrow>
     (('i, 'b, 'c) ZSub, DynamicMessage, DynamicError recv_error) exec" where
  "dyn_recv_timeout Zb LE wake =
     with_schema (\<lambda>schema. recv_timeout Zb (\<lambda>bs. dyn_deserialize LE (bs, schema)) wake)"

definition dyn_async_recv ::
    "'b zbuf_ops \<Rightarrow> byte_order \<Rightarrow> (('i, 'b, 'c) ZSub, DynamicMessage option, DynamicError recv_error) exec" where
  "dyn_async_recv Zb LE = with_schema (\<lambda>schema. async_recv Zb (\<lambda>bs. dyn_deserialize LE (bs, schema)))"

definition dyn_try_recv ::
    "'b zbuf_ops \<Rightarrow> byte_order \<Rightarrow> ('i, 'b, 'c) ZSub \<Rightarrow>
     (DynamicMessage, DynamicError recv_error) result option \<times> ('i, 'b, 'c) ZSub" where
  "dyn_try_recv Zb LE s = (case (zs_dyn_schema s, zs_queue s) of
       (Some schema, Some q) \<Rightarrow>
         (case queue_try_recv q of
            (Some sample, q') \<Rightarrow>
              (Some (decode_sample Zb (\<lambda>bs. dyn_deserialize LE (bs, schema)) sample), s\<lparr>zs_queue := Some q'\<rparr>)
          | (None, q') \<Rightarrow> (None, s\<lparr>zs_queue := Some q'\<rparr>))
     | _ \<Rightarrow> (None, s))"

end
