(* ===== verification/Services.thy ===== *)
theory Services
  imports PubSub
begin

text \<open>
  \<^verbatim>\<open>ros-z/src/service.rs\<close>: service clients and servers.  A request is a query that Zenoh carries to the
  server, with the attachment that identifies it; the server keeps the queries it has taken in a map
  until they are answered.  Replies reach the client through a bounded channel.
\<close>

section \<open>Queries and replies\<close>

record query =
  qu_key_expr :: string
  qu_payload :: "bytes option"
  qu_attachment :: "bytes option"

record reply =
  rp_query :: query
  rp_key_expr :: string
  rp_payload :: bytes
  rp_attachment :: bytes

record QueryKey =
  qk_sn :: i64
  qk_gid :: bytes

definition query_key_from :: "Attachment \<Rightarrow> QueryKey" where
  "query_key_from a = \<lparr>qk_sn = att_sequence_number a, qk_gid = att_source_gid a\<rparr>"

section \<open>ZClient\<close>

text \<open>The channel of the crate \<^verbatim>\<open>flume\<close>: \<open>try_send\<close> fails when the channel is full.\<close>

record 'i ZClient =
  zc_sn :: u64
  zc_gid :: bytes
  zc_key_expr :: string
  zc_token :: string
  zc_rx :: "bytes list"
  zc_depth :: nat
  zc_topic :: string

definition client_depth :: "QosHistory \<Rightarrow> nat" where
  "client_depth h = (case h of KeepLast n \<Rightarrow> unat n | KeepAll \<Rightarrow> 1000)"

definition qualify_service_entity :: "'i EndpointEntity \<Rightarrow> ('i EndpointEntity, pub_error) result" where
  "qualify_service_entity e =
     (case qualify_service_name (topic e) (namespace (endpoint_node e)) (node_name (endpoint_node e)) of
        Ok t \<Rightarrow> Ok (e\<lparr>topic := t\<rparr>)
      | Err x \<Rightarrow> Err (QualifyFailed x)
      | Panic \<Rightarrow> Panic)"

definition client_build ::
    "'i zenoh_ops \<Rightarrow> 'i session_ops \<Rightarrow> KeyExprFormat \<Rightarrow> 'i EndpointEntity \<Rightarrow> ('i ZClient, pub_error) result" where
  "client_build Z se fmt e =
     bind_result (qualify_service_entity e) (\<lambda>entity.
     bind_result (zenoh_result (fmt_topic_key_expr Z fmt entity)) (\<lambda>topic_ke.
     let key_expr = topic_ke_str topic_ke
     in bind_result (zenoh_result (so_declare se key_expr)) (\<lambda>_.
     bind_result (zenoh_result (fmt_liveliness_key_expr Z fmt entity (so_zid se))) (\<lambda>lv_ke.
     bind_result (zenoh_result (so_declare_token se (liveliness_ke_str lv_ke))) (\<lambda>_.
     Ok \<lparr>zc_sn = 1, zc_gid = endpoint_gid (so_sha256 se) (so_zid_bytes se) entity, zc_key_expr = key_expr,
         zc_token = liveliness_ke_str lv_ke, zc_rx = [],
         zc_depth = client_depth (history (endpoint_qos entity)), zc_topic = topic entity\<rparr>)))))"

definition client_attachment :: "nat option \<Rightarrow> 'i ZClient \<Rightarrow> Attachment \<times> 'i ZClient" where
  "client_attachment now c = (attachment_new now (zc_sn c) (zc_gid c), c\<lparr>zc_sn := zc_sn c + 1\<rparr>)"

text \<open>\<open>ser\<close> is the serializer of the request type, which can only panic.\<close>

definition send_request ::
    "att_env \<Rightarrow> ('a \<Rightarrow> (vec_u8, unit) result) \<Rightarrow> nat option \<Rightarrow> 'a \<Rightarrow> ('i ZClient, query, unit) exec" where
  "send_request A ser now msg = (\<lambda>c. case ser msg of
       Ok payload \<Rightarrow>
         (let (att, c') = client_attachment now c
          in (Ok \<lparr>qu_key_expr = zc_key_expr c, qu_payload = Some (vec_data payload),
                  qu_attachment = Some (attachment_to_bytes A att)\<rparr>, c'))
     | Err e \<Rightarrow> (Err e, c)
     | Panic \<Rightarrow> (Panic, c))"

definition rmw_send_request ::
    "att_env \<Rightarrow> ('a \<Rightarrow> (vec_u8, unit) result) \<Rightarrow> nat option \<Rightarrow> 'a \<Rightarrow> ('i ZClient, i64 \<times> query, unit) exec" where
  "rmw_send_request A ser now msg = (\<lambda>c.
     let (att, c') = client_attachment now c; sn = att_sequence_number att
     in case ser msg of
          Ok payload \<Rightarrow> (Ok (sn, \<lparr>qu_key_expr = zc_key_expr c, qu_payload = Some (vec_data payload),
             qu_attachment = Some (attachment_to_bytes A att)\<rparr>), c')
        | Err e \<Rightarrow> (Err e, c')
        | Panic \<Rightarrow> (Panic, c'))"

text \<open>The callback of a query: a reply that does not fit the channel is dropped.\<close>

definition on_reply :: "(bytes, 'e) result \<Rightarrow> 'i ZClient \<Rightarrow> 'i ZClient" where
  "on_reply r c = (case r of
       Ok payload \<Rightarrow> if length (zc_rx c) < zc_depth c then c\<lparr>zc_rx := zc_rx c @ [payload]\<rparr> else c
     | _ \<Rightarrow> c)"

datatype 'e take_error = NoSample | TakeTimedOut | TakeFailed 'e

definition take_sample :: "('i ZClient, bytes, 'e take_error) exec" where
  "take_sample = (\<lambda>c. case pop_front (zc_rx c) of
       (Some x, rx) \<Rightarrow> (Ok x, c\<lparr>zc_rx := rx\<rparr>)
     | (None, rx) \<Rightarrow> (Err NoSample, c))"

text \<open>\<open>wake\<close> is what arrives before the timeout when the channel is empty.\<close>

definition take_sample_timeout :: "bytes option \<Rightarrow> ('i ZClient, bytes, 'e take_error) exec" where
  "take_sample_timeout wake = (\<lambda>c. case pop_front (zc_rx c) of
       (Some x, rx) \<Rightarrow> (Ok x, c\<lparr>zc_rx := rx\<rparr>)
     | (None, rx) \<Rightarrow> (ok_or TakeTimedOut wake, c))"

definition deserialize_response :: "(bytes \<Rightarrow> ('a, 'e) result) \<Rightarrow> bytes \<Rightarrow> ('i ZClient, 'a, 'e take_error) exec" where
  "deserialize_response deser bs = (\<lambda>c. (case deser bs of
       Ok x \<Rightarrow> Ok x | Err e \<Rightarrow> Err (TakeFailed e) | Panic \<Rightarrow> Panic, c))"

definition take_response :: "(bytes \<Rightarrow> ('a, 'e) result) \<Rightarrow> ('i ZClient, 'a, 'e take_error) exec" where
  "take_response deser = andthen take_sample (deserialize_response deser)"

definition take_response_timeout ::
    "(bytes \<Rightarrow> ('a, 'e) result) \<Rightarrow> bytes option \<Rightarrow> ('i ZClient, 'a, 'e take_error) exec" where
  "take_response_timeout deser wake = andthen (take_sample_timeout wake) (deserialize_response deser)"

text \<open>\<open>None\<close>: the caller waits for a reply.\<close>

definition take_response_async :: "(bytes \<Rightarrow> ('a, 'e) result) \<Rightarrow> ('i ZClient, 'a option, 'e take_error) exec" where
  "take_response_async deser = (\<lambda>c. case pop_front (zc_rx c) of
       (Some x, rx) \<Rightarrow> andthen (deserialize_response deser x) (\<lambda>r. ret (Some r)) (c\<lparr>zc_rx := rx\<rparr>)
     | (None, rx) \<Rightarrow> (Ok None, c))"

section \<open>ZServer\<close>

record 'i ZServer =
  zv_key_expr :: string
  zv_sn :: u64
  zv_gid :: bytes
  zv_token :: string
  zv_queue :: "query BoundedQueue option"
  zv_map :: "QueryKey \<rightharpoonup> query"

definition server_build_internal ::
    "'i zenoh_ops \<Rightarrow> 'i session_ops \<Rightarrow> KeyExprFormat \<Rightarrow> query BoundedQueue option \<Rightarrow> 'i EndpointEntity \<Rightarrow>
     ('i ZServer, pub_error) result" where
  "server_build_internal Z se fmt queue e =
     bind_result (qualify_service_entity e) (\<lambda>entity.
     bind_result (zenoh_result (fmt_topic_key_expr Z fmt entity)) (\<lambda>topic_ke.
     let key_expr = topic_ke_str topic_ke
     in bind_result (zenoh_result (so_declare se key_expr)) (\<lambda>_.
     bind_result (zenoh_result (fmt_liveliness_key_expr Z fmt entity (so_zid se))) (\<lambda>lv_ke.
     bind_result (zenoh_result (so_declare_token se (liveliness_ke_str lv_ke))) (\<lambda>_.
     Ok \<lparr>zv_key_expr = key_expr, zv_sn = 1,
         zv_gid = endpoint_gid (so_sha256 se) (so_zid_bytes se) entity,
         zv_token = liveliness_ke_str lv_ke, zv_queue = queue, zv_map = Map.empty\<rparr>)))))"

definition server_build ::
    "'i zenoh_ops \<Rightarrow> 'i session_ops \<Rightarrow> KeyExprFormat \<Rightarrow> 'i EndpointEntity \<Rightarrow> ('i ZServer, pub_error) result" where
  "server_build Z se fmt e =
     server_build_internal Z se fmt (Some (queue_new (queue_size (history (endpoint_qos e))))) e"

definition server_build_with_notifier ::
    "'i zenoh_ops \<Rightarrow> 'i session_ops \<Rightarrow> KeyExprFormat \<Rightarrow> 'i EndpointEntity \<Rightarrow> ('i ZServer, pub_error) result" where
  "server_build_with_notifier Z se fmt e =
     server_build_internal Z se fmt (Some (queue_new (queue_size (history (endpoint_qos e))))) e"

definition server_build_with_callback ::
    "'i zenoh_ops \<Rightarrow> 'i session_ops \<Rightarrow> KeyExprFormat \<Rightarrow> 'i EndpointEntity \<Rightarrow> ('i ZServer, pub_error) result" where
  "server_build_with_callback Z se fmt e = server_build_internal Z se fmt None e"

definition server_deliver :: "query \<Rightarrow> 'i ZServer \<Rightarrow> 'i ZServer" where
  "server_deliver q s = s\<lparr>zv_queue := map_option (\<lambda>bq. hs_queue (handle HandleQueue q
     \<lparr>hs_queue = bq, hs_calls = [], hs_notified = 0\<rparr>)) (zv_queue s)\<rparr>"

datatype 'e server_error =
  ServerNoQueue | NoQuery | BadAttachment | ExistingQuery | RequestFailed 'e | QueryNotFound

definition take_query :: "('i ZServer, query, 'e server_error) exec" where
  "take_query = (\<lambda>s. case zv_queue s of
       None \<Rightarrow> (Err ServerNoQueue, s)
     | Some q \<Rightarrow> (case queue_try_recv q of (r, q') \<Rightarrow> (ok_or NoQuery r, s\<lparr>zv_queue := Some q'\<rparr>)))"

text \<open>
  What \<^verbatim>\<open>take_request\<close> does with the query it has received, and the order in which
  \<^verbatim>\<open>take_request_async\<close> does it.  \<open>unwrap\<close> of a missing attachment or payload panics.
\<close>

definition accept_query ::
    "att_env \<Rightarrow> (bytes \<Rightarrow> ('a, 'e) result) \<Rightarrow> query \<Rightarrow> ('i ZServer, QueryKey \<times> 'a, 'e server_error) exec" where
  "accept_query A deser q = (\<lambda>s.
     case qu_attachment q of
       None \<Rightarrow> (Panic, s)
     | Some att \<Rightarrow>
       (case attachment_try_from A att of
          None \<Rightarrow> (Err BadAttachment, s)
        | Some attachment \<Rightarrow>
          (let key = query_key_from attachment in
           case qu_payload q of
             None \<Rightarrow> (Panic, s)
           | Some payload_bytes \<Rightarrow>
               if zv_map s key \<noteq> None then (Err ExistingQuery, s)
               else (case deser payload_bytes of
                   Ok msg \<Rightarrow> (Ok (key, msg), s\<lparr>zv_map := (zv_map s)(key \<mapsto> q)\<rparr>)
                 | Err e \<Rightarrow> (Err (RequestFailed e), s)
                 | Panic \<Rightarrow> (Panic, s)))))"

definition accept_query_async ::
    "att_env \<Rightarrow> (bytes \<Rightarrow> ('a, 'e) result) \<Rightarrow> query \<Rightarrow> ('i ZServer, QueryKey \<times> 'a, 'e server_error) exec" where
  "accept_query_async A deser q = (\<lambda>s.
     case qu_attachment q of
       None \<Rightarrow> (Panic, s)
     | Some att \<Rightarrow>
       (case attachment_try_from A att of
          None \<Rightarrow> (Err BadAttachment, s)
        | Some attachment \<Rightarrow>
          (let key = query_key_from attachment in
           if zv_map s key \<noteq> None then (Err ExistingQuery, s)
           else case qu_payload q of
             None \<Rightarrow> (Panic, s)
           | Some payload_bytes \<Rightarrow>
               (case deser payload_bytes of
                   Ok msg \<Rightarrow> (Ok (key, msg), s\<lparr>zv_map := (zv_map s)(key \<mapsto> q)\<rparr>)
                 | Err e \<Rightarrow> (Err (RequestFailed e), s)
                 | Panic \<Rightarrow> (Panic, s)))))"

text \<open>\<open>None\<close>: the server waits for a query.\<close>

definition take_request ::
    "att_env \<Rightarrow> (bytes \<Rightarrow> ('a, 'e) result) \<Rightarrow> ('i ZServer, (QueryKey \<times> 'a) option, 'e server_error) exec" where
  "take_request A deser = (\<lambda>s. case zv_queue s of
       None \<Rightarrow> (Err ServerNoQueue, s)
     | Some q \<Rightarrow> (case queue_recv q of
           (Ok (Some query), q') \<Rightarrow> andthen (accept_query A deser query) (\<lambda>r. ret (Some r)) (s\<lparr>zv_queue := Some q'\<rparr>)
         | (Ok None, q') \<Rightarrow> (Ok None, s\<lparr>zv_queue := Some q'\<rparr>)
         | (_, q') \<Rightarrow> (Panic, s\<lparr>zv_queue := Some q'\<rparr>)))"

definition take_request_async ::
    "att_env \<Rightarrow> (bytes \<Rightarrow> ('a, 'e) result) \<Rightarrow> ('i ZServer, (QueryKey \<times> 'a) option, 'e server_error) exec" where
  "take_request_async A deser = (\<lambda>s. case zv_queue s of
       None \<Rightarrow> (Err ServerNoQueue, s)
     | Some q \<Rightarrow> (case queue_recv_async q of
           (Some query, q') \<Rightarrow> andthen (accept_query_async A deser query) (\<lambda>r. ret (Some r)) (s\<lparr>zv_queue := Some q'\<rparr>)
         | (None, q') \<Rightarrow> (Ok None, s\<lparr>zv_queue := Some q'\<rparr>)))"

text \<open>\<^verbatim>\<open>send_response_async\<close> does the same and awaits the reply.\<close>

definition send_response ::
    "att_env \<Rightarrow> ('r \<Rightarrow> (vec_u8, unit) result) \<Rightarrow> nat option \<Rightarrow> 'r \<Rightarrow> QueryKey \<Rightarrow> ('i ZServer, reply, 'e server_error) exec" where
  "send_response A ser now msg key = (\<lambda>s. case zv_map s key of
       None \<Rightarrow> (Err QueryNotFound, s)
     | Some query \<Rightarrow>
       (let s' = s\<lparr>zv_map := (zv_map s)(key := None)\<rparr> in
        case ser msg of
          Ok payload \<Rightarrow>
            (Ok \<lparr>rp_query = query, rp_key_expr = zv_key_expr s, rp_payload = vec_data payload,
                 rp_attachment = attachment_to_bytes A (attachment_new now (qk_sn key) (qk_gid key))\<rparr>, s')
        | _ \<Rightarrow> (Panic, s')))"

end
