(* ===== verification/Type_Service.thy ===== *)
theory Type_Service
  imports Services Graph_Ops
begin

text \<open>
  \<^verbatim>\<open>type_description_service.rs\<close> and \<^verbatim>\<open>type_description_client.rs\<close> of \<^verbatim>\<open>ros-z/src/dynamic\<close>: a node offers the
  descriptions of its schemas as a service, and a client asks a node, or the nodes that publish on
  a topic, for the schema of a type that it does not know.
\<close>

section \<open>Wire types\<close>

text \<open>
  Each struct comes with what its derived \<^verbatim>\<open>Serialize\<close> and \<^verbatim>\<open>Deserialize\<close> do.  A Rust string is
  serialized as its bytes.
\<close>

definition string_serde :: "string serde_type" where
  "string_serde = \<lparr>st_ser = (\<lambda>s. SStr (str_bytes s)), st_shape = DString,
     st_de = (\<lambda>v. case v of SStr bs \<Rightarrow> map (\<lambda>b. char_of (unat b)) bs | _ \<Rightarrow> [])\<rparr>"

definition vec_serde :: "'a serde_type \<Rightarrow> 'a list serde_type" where
  "vec_serde T = \<lparr>st_ser = (\<lambda>xs. SSeq (Some (length xs)) (map (st_ser T) xs)), st_shape = DSeq (st_shape T),
     st_de = (\<lambda>v. case v of SSeq _ vs \<Rightarrow> map (st_de T) vs | _ \<Rightarrow> [])\<rparr>"

record WireFieldType =
  wft_type_id :: u8
  wft_capacity :: u64
  wft_string_capacity :: u64
  wft_nested_type_name :: string

definition WireFieldType_serde :: "WireFieldType serde_type" where
  "WireFieldType_serde =
     \<lparr>st_ser = (\<lambda>x. SStruct [SU8 (wft_type_id x), SU64 (wft_capacity x), SU64 (wft_string_capacity x),
        st_ser string_serde (wft_nested_type_name x)]),
      st_shape = DStruct [DU8, DU64, DU64, st_shape string_serde],
      st_de = (\<lambda>v. case v of SStruct [SU8 a, SU64 b, SU64 c, d] \<Rightarrow>
          \<lparr>wft_type_id = a, wft_capacity = b, wft_string_capacity = c,
           wft_nested_type_name = st_de string_serde d\<rparr>
        | _ \<Rightarrow> \<lparr>wft_type_id = 0, wft_capacity = 0, wft_string_capacity = 0, wft_nested_type_name = []\<rparr>)\<rparr>"

record WireField =
  wf_name :: string
  wf_field_type :: WireFieldType
  wf_default_value :: string

definition WireField_serde :: "WireField serde_type" where
  "WireField_serde =
     \<lparr>st_ser = (\<lambda>x. SStruct [st_ser string_serde (wf_name x), st_ser WireFieldType_serde (wf_field_type x),
        st_ser string_serde (wf_default_value x)]),
      st_shape = DStruct [st_shape string_serde, st_shape WireFieldType_serde, st_shape string_serde],
      st_de = (\<lambda>v. case v of SStruct [a, b, c] \<Rightarrow>
          \<lparr>wf_name = st_de string_serde a, wf_field_type = st_de WireFieldType_serde b,
           wf_default_value = st_de string_serde c\<rparr>
        | _ \<Rightarrow> \<lparr>wf_name = [], wf_field_type = st_de WireFieldType_serde v, wf_default_value = []\<rparr>)\<rparr>"

record WireIndividualTypeDescription =
  wi_type_name :: string
  wi_fields :: "WireField list"

definition WireIndividual_serde :: "WireIndividualTypeDescription serde_type" where
  "WireIndividual_serde =
     \<lparr>st_ser = (\<lambda>x. SStruct [st_ser string_serde (wi_type_name x), st_ser (vec_serde WireField_serde) (wi_fields x)]),
      st_shape = DStruct [st_shape string_serde, st_shape (vec_serde WireField_serde)],
      st_de = (\<lambda>v. case v of SStruct [a, b] \<Rightarrow>
          \<lparr>wi_type_name = st_de string_serde a, wi_fields = st_de (vec_serde WireField_serde) b\<rparr>
        | _ \<Rightarrow> \<lparr>wi_type_name = [], wi_fields = []\<rparr>)\<rparr>"

record WireTypeDescription =
  wt_type_description :: WireIndividualTypeDescription
  wt_referenced_type_descriptions :: "WireIndividualTypeDescription list"

definition WireTypeDescription_serde :: "WireTypeDescription serde_type" where
  "WireTypeDescription_serde =
     \<lparr>st_ser = (\<lambda>x. SStruct [st_ser WireIndividual_serde (wt_type_description x),
        st_ser (vec_serde WireIndividual_serde) (wt_referenced_type_descriptions x)]),
      st_shape = DStruct [st_shape WireIndividual_serde, st_shape (vec_serde WireIndividual_serde)],
      st_de = (\<lambda>v. case v of SStruct [a, b] \<Rightarrow>
          \<lparr>wt_type_description = st_de WireIndividual_serde a,
           wt_referenced_type_descriptions = st_de (vec_serde WireIndividual_serde) b\<rparr>
        | _ \<Rightarrow> \<lparr>wt_type_description = st_de WireIndividual_serde v, wt_referenced_type_descriptions = []\<rparr>)\<rparr>"

definition wire_type_description_default :: WireTypeDescription where
  "wire_type_description_default =
     \<lparr>wt_type_description = \<lparr>wi_type_name = [], wi_fields = []\<rparr>, wt_referenced_type_descriptions = []\<rparr>"

record WireTypeSource =
  ws_type_name :: string
  ws_encoding :: string
  ws_raw_file_contents :: string

definition WireTypeSource_serde :: "WireTypeSource serde_type" where
  "WireTypeSource_serde =
     \<lparr>st_ser = (\<lambda>x. SStruct [st_ser string_serde (ws_type_name x), st_ser string_serde (ws_encoding x),
        st_ser string_serde (ws_raw_file_contents x)]),
      st_shape = DStruct [st_shape string_serde, st_shape string_serde, st_shape string_serde],
      st_de = (\<lambda>v. case v of SStruct [a, b, c] \<Rightarrow>
          \<lparr>ws_type_name = st_de string_serde a, ws_encoding = st_de string_serde b,
           ws_raw_file_contents = st_de string_serde c\<rparr>
        | _ \<Rightarrow> \<lparr>ws_type_name = [], ws_encoding = [], ws_raw_file_contents = []\<rparr>)\<rparr>"

record WireKeyValue =
  wkv_key :: string
  wkv_value :: string

definition WireKeyValue_serde :: "WireKeyValue serde_type" where
  "WireKeyValue_serde =
     \<lparr>st_ser = (\<lambda>x. SStruct [st_ser string_serde (wkv_key x), st_ser string_serde (wkv_value x)]),
      st_shape = DStruct [st_shape string_serde, st_shape string_serde],
      st_de = (\<lambda>v. case v of SStruct [a, b] \<Rightarrow>
          \<lparr>wkv_key = st_de string_serde a, wkv_value = st_de string_serde b\<rparr>
        | _ \<Rightarrow> \<lparr>wkv_key = [], wkv_value = []\<rparr>)\<rparr>"

record GetTypeDescriptionRequest =
  gr_type_name :: string
  gr_type_hash :: string
  gr_include_type_sources :: bool

definition Request_serde :: "GetTypeDescriptionRequest serde_type" where
  "Request_serde =
     \<lparr>st_ser = (\<lambda>x. SStruct [st_ser string_serde (gr_type_name x), st_ser string_serde (gr_type_hash x),
        SBool (gr_include_type_sources x)]),
      st_shape = DStruct [st_shape string_serde, st_shape string_serde, DBool],
      st_de = (\<lambda>v. case v of SStruct [a, b, SBool c] \<Rightarrow>
          \<lparr>gr_type_name = st_de string_serde a, gr_type_hash = st_de string_serde b, gr_include_type_sources = c\<rparr>
        | _ \<Rightarrow> \<lparr>gr_type_name = [], gr_type_hash = [], gr_include_type_sources = False\<rparr>)\<rparr>"

record GetTypeDescriptionResponse =
  gs_successful :: bool
  gs_failure_reason :: string
  gs_type_description :: WireTypeDescription
  gs_type_sources :: "WireTypeSource list"
  gs_extra_information :: "WireKeyValue list"

definition Response_serde :: "GetTypeDescriptionResponse serde_type" where
  "Response_serde =
     \<lparr>st_ser = (\<lambda>x. SStruct [SBool (gs_successful x), st_ser string_serde (gs_failure_reason x),
        st_ser WireTypeDescription_serde (gs_type_description x),
        st_ser (vec_serde WireTypeSource_serde) (gs_type_sources x),
        st_ser (vec_serde WireKeyValue_serde) (gs_extra_information x)]),
      st_shape = DStruct [DBool, st_shape string_serde, st_shape WireTypeDescription_serde,
        st_shape (vec_serde WireTypeSource_serde), st_shape (vec_serde WireKeyValue_serde)],
      st_de = (\<lambda>v. case v of SStruct [SBool a, b, c, d, e] \<Rightarrow>
          \<lparr>gs_successful = a, gs_failure_reason = st_de string_serde b,
           gs_type_description = st_de WireTypeDescription_serde c,
           gs_type_sources = st_de (vec_serde WireTypeSource_serde) d,
           gs_extra_information = st_de (vec_serde WireKeyValue_serde) e\<rparr>
        | _ \<Rightarrow> \<lparr>gs_successful = False, gs_failure_reason = [],
            gs_type_description = st_de WireTypeDescription_serde v, gs_type_sources = [], gs_extra_information = []\<rparr>)\<rparr>"

definition service_type_info :: TypeInfo where
  "service_type_info = type_info_new ''type_description_interfaces::srv::dds_::GetTypeDescription_''
     (unwrap_or (from_rihs_string
        ''RIHS01_69b9c19c1021405984cc60dbbb1edceb147a6538b411d812ba6afabeed962cd5'') type_hash_zero)"

section \<open>The table of schemas\<close>

record TypeSource =
  src_encoding :: string
  src_raw_content :: string

record RegisteredSchema =
  rs_schema :: MessageSchema
  rs_type_hash :: string
  rs_source :: "TypeSource option"

definition registered_new :: "hash_env \<Rightarrow> MessageSchema \<Rightarrow> (RegisteredSchema, DynamicError) result" where
  "registered_new H schema = bind_result (compute_type_hash H schema) (\<lambda>h.
     Ok \<lparr>rs_schema = schema, rs_type_hash = hash_to_rihs_string H h, rs_source = None\<rparr>)"

definition registered_with_source ::
    "hash_env \<Rightarrow> MessageSchema \<Rightarrow> string \<Rightarrow> string \<Rightarrow> (RegisteredSchema, DynamicError) result" where
  "registered_with_source H schema encoding raw_content = bind_result (compute_type_hash H schema) (\<lambda>h.
     Ok \<lparr>rs_schema = schema, rs_type_hash = hash_to_rihs_string H h,
         rs_source = Some \<lparr>src_encoding = encoding, src_raw_content = raw_content\<rparr>\<rparr>)"

record TypeDescriptionService =
  tds_schemas :: "string \<rightharpoonup> RegisteredSchema"
  tds_poisoned :: bool

definition tds_insert :: "string \<Rightarrow> RegisteredSchema \<Rightarrow> (TypeDescriptionService, unit, DynamicError) exec" where
  "tds_insert name registered = (\<lambda>s.
     if tds_poisoned s then (Err RegistryLockPoisoned, s)
     else (Ok (), s\<lparr>tds_schemas := (tds_schemas s)(name \<mapsto> registered)\<rparr>))"

definition tds_register_schema :: "hash_env \<Rightarrow> MessageSchema \<Rightarrow> (TypeDescriptionService, unit, DynamicError) exec" where
  "tds_register_schema H schema = (\<lambda>s. case registered_new H schema of
       Ok registered \<Rightarrow> tds_insert (ms_type_name schema) registered s
     | Err e \<Rightarrow> (Err e, s)
     | Panic \<Rightarrow> (Panic, s))"

definition tds_register_schema_with_source ::
    "hash_env \<Rightarrow> MessageSchema \<Rightarrow> string \<Rightarrow> string \<Rightarrow> (TypeDescriptionService, unit, DynamicError) exec" where
  "tds_register_schema_with_source H schema encoding raw_content = (\<lambda>s.
     case registered_with_source H schema encoding raw_content of
       Ok registered \<Rightarrow> tds_insert (ms_type_name schema) registered s
     | Err e \<Rightarrow> (Err e, s)
     | Panic \<Rightarrow> (Panic, s))"

definition tds_unregister_schema :: "string \<Rightarrow> (TypeDescriptionService, unit, DynamicError) exec" where
  "tds_unregister_schema name = (\<lambda>s.
     if tds_poisoned s then (Err RegistryLockPoisoned, s)
     else (Ok (), s\<lparr>tds_schemas := (tds_schemas s)(name := None)\<rparr>))"

definition tds_get_schema :: "TypeDescriptionService \<Rightarrow> string \<Rightarrow> (RegisteredSchema option, DynamicError) result" where
  "tds_get_schema s name = (if tds_poisoned s then Err RegistryLockPoisoned else Ok (tds_schemas s name))"

definition tds_list_types ::
    "(string set \<Rightarrow> string list) \<Rightarrow> TypeDescriptionService \<Rightarrow> (string list, DynamicError) result" where
  "tds_list_types order s = (if tds_poisoned s then Err RegistryLockPoisoned else Ok (order (dom (tds_schemas s))))"

section \<open>Descriptions on the wire\<close>

definition field_to_wire :: "FieldDescription \<Rightarrow> WireField" where
  "field_to_wire fd =
     \<lparr>wf_name = fd_name fd,
      wf_field_type = \<lparr>wft_type_id = ftd_type_id (fd_field_type fd), wft_capacity = ftd_capacity (fd_field_type fd),
        wft_string_capacity = ftd_string_capacity (fd_field_type fd),
        wft_nested_type_name = ftd_nested_type_name (fd_field_type fd)\<rparr>,
      wf_default_value = fd_default_value fd\<rparr>"

definition individual_to_wire :: "TypeDescription \<Rightarrow> WireIndividualTypeDescription" where
  "individual_to_wire td = \<lparr>wi_type_name = td_type_name td, wi_fields = map field_to_wire (td_fields td)\<rparr>"

definition schema_to_wire_type_description :: "MessageSchema \<Rightarrow> (WireTypeDescription, DynamicError) result" where
  "schema_to_wire_type_description schema = bind_result (to_type_description_msg schema) (\<lambda>m.
     Ok \<lparr>wt_type_description = individual_to_wire (tdm_type_description m),
         wt_referenced_type_descriptions = map individual_to_wire (tdm_referenced m)\<rparr>)"

definition wire_to_schema_field :: "WireField \<Rightarrow> FieldDescription" where
  "wire_to_schema_field w =
     \<lparr>fd_name = wf_name w,
      fd_field_type = \<lparr>ftd_type_id = wft_type_id (wf_field_type w), ftd_capacity = wft_capacity (wf_field_type w),
        ftd_string_capacity = wft_string_capacity (wf_field_type w),
        ftd_nested_type_name = wft_nested_type_name (wf_field_type w)\<rparr>,
      fd_default_value = wf_default_value w\<rparr>"

definition wire_to_schema_individual :: "WireIndividualTypeDescription \<Rightarrow> TypeDescription" where
  "wire_to_schema_individual w =
     \<lparr>td_type_name = wi_type_name w, td_fields = map wire_to_schema_field (wi_fields w)\<rparr>"

definition wire_to_schema_type_description :: "WireTypeDescription \<Rightarrow> TypeDescriptionMsg" where
  "wire_to_schema_type_description w =
     \<lparr>tdm_type_description = wire_to_schema_individual (wt_type_description w),
      tdm_referenced = map wire_to_schema_individual (wt_referenced_type_descriptions w)\<rparr>"

definition wire_source :: "string \<Rightarrow> TypeSource \<Rightarrow> WireTypeSource" where
  "wire_source name source =
     \<lparr>ws_type_name = name, ws_encoding = src_encoding source, ws_raw_file_contents = src_raw_content source\<rparr>"

definition collect_type_sources :: "RegisteredSchema \<Rightarrow> (string \<rightharpoonup> RegisteredSchema) \<Rightarrow> WireTypeSource list" where
  "collect_type_sources registered all_schemas =
     (case rs_source registered of
        Some source \<Rightarrow> [wire_source (ms_type_name (rs_schema registered)) source]
      | None \<Rightarrow> []) @
     (case to_type_description_msg (rs_schema registered) of
        Ok m \<Rightarrow> concat (map (\<lambda>ref_td.
            case Option.bind (all_schemas (td_type_name ref_td)) rs_source of
              Some ref_source \<Rightarrow> [wire_source (td_type_name ref_td) ref_source]
            | None \<Rightarrow> []) (tdm_referenced m))
      | _ \<Rightarrow> [])"

section \<open>Answering a query\<close>

text \<open>\<^verbatim>\<open>Display for DynamicError\<close>; \<open>show_msg\<close> is the text of a formatted message.\<close>

definition show_dynamic_error :: "(message \<Rightarrow> string) \<Rightarrow> DynamicError \<Rightarrow> string" where
  "show_dynamic_error show_msg e = (case e of
       InvalidTypeName name \<Rightarrow> ''Invalid type name '' @ quoted name @ '': expected format '' @ quoted ''package/msg/Name''
     | FieldNotFound name \<Rightarrow> ''Field '' @ quoted name @ '' not found in message schema''
     | EmptyPath \<Rightarrow> ''Empty path provided for field access''
     | NotAMessage name \<Rightarrow> ''Field '' @ quoted name @ '' is not a message type, cannot access nested fields''
     | TypeMismatch path expected \<Rightarrow> ''Type mismatch at '' @ quoted path @ '': expected type '' @ quoted expected
     | IndexOutOfBounds idx \<Rightarrow> ''Field index '' @ show_nat idx @ '' is out of bounds''
     | SerializationError m \<Rightarrow> ''CDR serialization error: '' @ show_msg m
     | DeserializationError m \<Rightarrow> ''CDR deserialization error: '' @ show_msg m
     | SchemaLoadError package source \<Rightarrow> ''Failed to load schema for package '' @ quoted package @ '': '' @ source
     | RegistryLockPoisoned \<Rightarrow> ''Schema registry lock was poisoned''
     | SchemaNotFound name \<Rightarrow> ''Schema '' @ quoted name @ '' not found in registry''
     | InvalidDefaultValue field reason \<Rightarrow> ''Invalid default value for field '' @ quoted field @ '': '' @ reason
     | BoundExceeded mx actual \<Rightarrow>
         ''Bounded type exceeded maximum size: max='' @ show_nat mx @ '', actual='' @ show_nat actual)"

definition failure_response :: "string \<Rightarrow> GetTypeDescriptionResponse" where
  "failure_response reason =
     \<lparr>gs_successful = False, gs_failure_reason = reason, gs_type_description = wire_type_description_default,
      gs_type_sources = [], gs_extra_information = []\<rparr>"

definition build_response ::
    "(message \<Rightarrow> string) \<Rightarrow> TypeDescriptionService \<Rightarrow> GetTypeDescriptionRequest \<Rightarrow> (GetTypeDescriptionResponse, unit) result" where
  "build_response show_msg s request =
     (if tds_poisoned s then Ok (failure_response ''Internal error: registry lock poisoned'')
      else case tds_schemas s (gr_type_name request) of
        None \<Rightarrow> Ok (failure_response (''Type '' @ quoted (gr_type_name request) @ '' not registered''))
      | Some registered \<Rightarrow>
          if gr_type_hash request \<noteq> [] \<and> gr_type_hash request \<noteq> rs_type_hash registered
          then Ok (failure_response (''Type hash mismatch: expected '' @ rs_type_hash registered @
                 '', got '' @ gr_type_hash request))
          else case schema_to_wire_type_description (rs_schema registered) of
            Err e \<Rightarrow> Ok (failure_response (''Failed to convert schema: '' @ show_dynamic_error show_msg e))
          | Panic \<Rightarrow> Panic
          | Ok td \<Rightarrow> Ok
              \<lparr>gs_successful = True, gs_failure_reason = [], gs_type_description = td,
               gs_type_sources = (if gr_include_type_sources request
                  then collect_type_sources registered (tds_schemas s) else []),
               gs_extra_information = [\<lparr>wkv_key = ''ros_z_version'', wkv_value = ''0.1.0''\<rparr>]\<rparr>)"

text \<open>The payload of the reply; \<open>None\<close>: the query is dropped without one.\<close>

definition handle_query ::
    "'b zbuf_ops \<Rightarrow> byte_order \<Rightarrow> (message \<Rightarrow> string) \<Rightarrow> TypeDescriptionService \<Rightarrow> query \<Rightarrow> (bytes option, unit) result" where
  "handle_query Zb LE show_msg s q = (case qu_payload q of
       None \<Rightarrow> Ok None
     | Some payload \<Rightarrow> (case cdr_deserialize LE Request_serde payload of
           Err e \<Rightarrow> Ok None
         | Panic \<Rightarrow> Panic
         | Ok request \<Rightarrow>
             bind_result (build_response show_msg s request) (\<lambda>response.
             bind_result (cdr_serialize Zb LE Response_serde response) (\<lambda>b. Ok (Some (vec_data b))))))"

text \<open>
  \<^verbatim>\<open>GlobalCounter::increment\<close>, and the entity of the service.  The service answers in a callback, so it
  has no queue.
\<close>

definition counter_increment :: "u64 \<Rightarrow> u64 \<times> u64" where
  "counter_increment c = (c, c + 1)"

definition tds_entity :: "'i \<Rightarrow> string \<Rightarrow> string \<Rightarrow> u64 \<Rightarrow> u64 \<Rightarrow> 'i EndpointEntity" where
  "tds_entity zid n ns nid i =
     \<lparr>endpoint_id = i, endpoint_node = node_entity_new 0 zid nid n ns [], endpoint_kind = EK_Service,
      topic = ''~get_type_description'', type_info = Some service_type_info, endpoint_qos = qos_default\<rparr>"

definition tds_new ::
    "'i zenoh_ops \<Rightarrow> 'i session_ops \<Rightarrow> string \<Rightarrow> string \<Rightarrow> u64 \<Rightarrow>
     (u64, TypeDescriptionService \<times> 'i ZServer, pub_error) exec" where
  "tds_new Z se n ns nid = (\<lambda>counter.
     let (i, counter') = counter_increment counter
     in (map_ok (\<lambda>server. (\<lparr>tds_schemas = Map.empty, tds_poisoned = False\<rparr>, server))
           (server_build_with_callback Z se RmwZenoh (tds_entity (so_zid se) n ns nid i)), counter'))"

section \<open>The client\<close>

definition trim_end_matches :: "char \<Rightarrow> string \<Rightarrow> string" where
  "trim_end_matches c s = rev (dropWhile (\<lambda>x. x = c) (rev s))"

definition normalize_type_name :: "string \<Rightarrow> string" where
  "normalize_type_name dds_name =
     trim_end_matches CHR ''_''
       (str_replace ''::action::dds_::'' ''/action/''
         (str_replace ''::srv::dds_::'' ''/srv/'' (str_replace ''::msg::dds_::'' ''/msg/'' dds_name)))"

definition tdc_entity :: "'i \<Rightarrow> string \<Rightarrow> string \<Rightarrow> u64 \<Rightarrow> u64 \<Rightarrow> 'i EndpointEntity" where
  "tdc_entity zid service ns nid i =
     \<lparr>endpoint_id = i, endpoint_node = node_entity_new 0 zid nid ''type_desc_client'' ns [],
      endpoint_kind = EK_Client, topic = service, type_info = Some service_type_info, endpoint_qos = qos_default\<rparr>"

text \<open>An error of the transport or of the client, and one of the library below it.\<close>

datatype tdc_error = TdcBuild pub_error | TdcTake "message take_error" | TdcDynamic DynamicError | TdcFailure string

definition create_client ::
    "'i zenoh_ops \<Rightarrow> 'i session_ops \<Rightarrow> string \<Rightarrow> string \<Rightarrow> (u64, 'i ZClient, tdc_error) exec" where
  "create_client Z se service ns = (\<lambda>counter.
     let (nid, c1) = counter_increment counter; (i, c2) = counter_increment c1
     in (case client_build Z se RmwZenoh (tdc_entity (so_zid se) service ns nid i) of
           Ok c \<Rightarrow> Ok c | Err e \<Rightarrow> Err (TdcBuild e) | Panic \<Rightarrow> Panic, c2))"

definition tdc_service_name :: "string \<Rightarrow> string \<Rightarrow> string" where
  "tdc_service_name n ns =
     (if ns = [] \<or> ns = ''/'' then ''/'' @ n @ ''/get_type_description''
      else ns @ ''/'' @ n @ ''/get_type_description'')"

text \<open>
  \<open>net\<close> is what the network does with a query: the payload of the first reply that arrives before
  the timeout.
\<close>

definition get_type_description ::
    "'i zenoh_ops \<Rightarrow> 'i session_ops \<Rightarrow> att_env \<Rightarrow> 'b zbuf_ops \<Rightarrow> byte_order \<Rightarrow> (query \<Rightarrow> bytes option) \<Rightarrow> nat option \<Rightarrow>
     string \<Rightarrow> string \<Rightarrow> GetTypeDescriptionRequest \<Rightarrow> (u64, GetTypeDescriptionResponse, tdc_error) exec" where
  "get_type_description Z se A Zb LE net now n ns request =
     andthen (create_client Z se (tdc_service_name n ns) []) (\<lambda>client counter.
       case send_request A (cdr_serialize Zb LE Request_serde) now request client of
         (Ok q, client') \<Rightarrow>
           (case take_response_timeout (cdr_deserialize LE Response_serde) (net q) client' of
              (Ok response, _) \<Rightarrow> (Ok response, counter)
            | (Err e, _) \<Rightarrow> (Err (TdcTake e), counter)
            | (Panic, _) \<Rightarrow> (Panic, counter))
       | (_, client') \<Rightarrow> (Panic, counter))"

definition response_to_schema :: "GetTypeDescriptionResponse \<Rightarrow> (MessageSchema, tdc_error) result" where
  "response_to_schema response =
     (if \<not> gs_successful response
      then Err (TdcDynamic (SerializationError (Text (''Response indicates failure: '' @ gs_failure_reason response))))
      else case type_description_msg_to_schema (wire_to_schema_type_description (gs_type_description response)) of
        Ok s \<Rightarrow> Ok s | Err e \<Rightarrow> Err (TdcDynamic e) | Panic \<Rightarrow> Panic)"

text \<open>
  Discovery by topic.  \<open>polls\<close> is what the graph answers each time it is asked for the publishers of
  the topic; \<open>expired k\<close> tells whether the deadline has passed before the \<open>k\<close>-th publisher is asked.
\<close>

fun poll_publishers :: "(nat \<Rightarrow> 'i Entity list) \<Rightarrow> nat \<Rightarrow> nat \<Rightarrow> 'i Entity list" where
  "poll_publishers polls k 0 = []"
| "poll_publishers polls k (Suc n) = (if polls k \<noteq> [] then polls k else poll_publishers polls (Suc k) n)"

fun ask_publishers ::
    "('i EndpointEntity \<Rightarrow> (u64, GetTypeDescriptionResponse, tdc_error) exec) \<Rightarrow> (nat \<Rightarrow> bool) \<Rightarrow> nat \<Rightarrow>
     tdc_error \<Rightarrow> 'i Entity list \<Rightarrow> (u64, MessageSchema, tdc_error) exec" where
  "ask_publishers ask expired k last_error [] counter = (Err last_error, counter)"
| "ask_publishers ask expired k last_error (Node n # ps) counter =
     (if expired k then (Err last_error, counter)
      else ask_publishers ask expired (Suc k) last_error ps counter)"
| "ask_publishers ask expired k last_error (Endpoint e # ps) counter =
     (if expired k then (Err last_error, counter)
      else case ask e counter of
        (Ok response, counter') \<Rightarrow>
          if gs_successful response then (response_to_schema response, counter')
          else ask_publishers ask expired (Suc k)
                 (TdcDynamic (SerializationError (Text (gs_failure_reason response)))) ps counter'
      | (Err e', counter') \<Rightarrow> ask_publishers ask expired (Suc k) e' ps counter'
      | (Panic, counter') \<Rightarrow> (Panic, counter'))"

definition get_type_description_for_topic ::
    "'i zenoh_ops \<Rightarrow>
     (string \<Rightarrow> string \<Rightarrow> GetTypeDescriptionRequest \<Rightarrow> (u64, GetTypeDescriptionResponse, tdc_error) exec) \<Rightarrow>
     (nat \<Rightarrow> 'i Entity list) option \<Rightarrow> (nat \<Rightarrow> bool) \<Rightarrow> string \<Rightarrow> (u64, MessageSchema \<times> string, tdc_error) exec" where
  "get_type_description_for_topic Z get graph expired t = (case graph of
       None \<Rightarrow> throw (TdcDynamic (SerializationError (Text ''TypeDescriptionClient requires graph for topic-based discovery'')))
     | Some polls \<Rightarrow> (let publishers = poll_publishers polls 0 6 in
         case publishers of
           [] \<Rightarrow> throw (TdcDynamic (SchemaNotFound (''No publishers found for topic: '' @ t)))
         | Node n # _ \<Rightarrow> throw (TdcDynamic (SerializationError (Text ''Expected endpoint entity'')))
         | Endpoint e # _ \<Rightarrow>
           (case type_info e of
              None \<Rightarrow> throw (TdcDynamic (SchemaNotFound (''Publisher on '' @ t @ '' has no type information'')))
            | Some ti \<Rightarrow>
                (let ty = normalize_type_name (type_name ti); hash = to_rihs_string Z (type_hash ti) in
                 andthen (ask_publishers
                     (\<lambda>e. get (node_name (endpoint_node e)) (namespace (endpoint_node e))
                        \<lparr>gr_type_name = ty, gr_type_hash = hash, gr_include_type_sources = False\<rparr>)
                     expired 0
                     (TdcDynamic (SchemaNotFound (''Failed to get type description from any publisher on '' @ t)))
                     publishers) (\<lambda>schema. ret (schema, hash))))))"

end
