(* ===== verification/PubSub_Properties.thy ===== *)
theory PubSub_Properties
  imports PubSub
begin

text \<open>
  Publishing and receiving over any serializer that keeps the promise \<open>serdes\<close>: a message that is
  published, through shared memory or not, is received as it was sent; the queue keeps the newest
  messages in order; sequence numbers are consecutive.
\<close>

section \<open>One message\<close>

text \<open>Shared memory is not used for the message, or the estimate is large enough for it.\<close>

definition shm_adequate :: "'b shm_env \<Rightarrow> 'b shm_env ShmConfig option \<Rightarrow> nat \<Rightarrow> nat \<Rightarrow> bool" where
  "shm_adequate E cfg estimated needed \<longleftrightarrow> (case cfg of
       None \<Rightarrow> True
     | Some c \<Rightarrow> estimated < shm_threshold c \<or> shm_provider c = E \<and> needed \<le> estimated)"

lemma put_builder_spec:
  "\<exists>att p'. put_builder now z p = (Ok \<lparr>put_key_expr = zp_key_expr p, put_payload = z, put_attachment = att\<rparr>, p') \<and>
     p' = p\<lparr>zp_sn := zp_sn p + (if zp_with_attachment p then 1 else 0)\<rparr> \<and>
     map_option att_sequence_number att = (if zp_with_attachment p then Some (zp_sn p) else None)"
  by (simp add: put_builder_def new_attachment_def attachment_new_def)

context serdes
begin

lemma regular_payload:
  assumes "ok x"
  shows "\<exists>z. bind_result (zs_to_zbuf S x) (\<lambda>zbuf. Ok (zbuf, length (zb_contiguous Z zbuf))) =
      (Ok (z, length (bytes_of x)) :: ('z \<times> nat, unit) result) \<and> zb_contiguous Z z = bytes_of x"
  using to_zbuf [OF assms] by auto

lemma publish_payload_ok:
  assumes "ok x" and "shm_adequate E cfg (estimate x) (needs x)"
  shows "\<exists>z rest. publish_payload Z S estimate cfg x = Ok (z, length (bytes_of x)) \<and>
    zb_contiguous Z z = bytes_of x @ rest"
proof -
  obtain z where z: "bind_result (zs_to_zbuf S x) (\<lambda>zbuf. Ok (zbuf, length (zb_contiguous Z zbuf))) =
      (Ok (z, length (bytes_of x)) :: ('z \<times> nat, unit) result)" "zb_contiguous Z z = bytes_of x @ []"
    using regular_payload [OF assms(1)] by auto
  show ?thesis
  proof (cases cfg)
    case None
    with z show ?thesis unfolding publish_payload_def by auto
  next
    case (Some c)
    show ?thesis
    proof (cases "shm_threshold c \<le> estimate x")
      case False
      with Some z show ?thesis unfolding publish_payload_def by auto
    next
      case True
      with assms(2) Some have c: "shm_provider c = E" "\<not> estimate x < needs x"
        by (auto simp: shm_adequate_def)
      from to_shm [OF assms(1), of "estimate x"] c(2)
      consider "zs_to_shm S x (estimate x) E = Err AllocationFailed"
        | y rest where "zs_to_shm S x (estimate x) E = Ok (y, length (bytes_of x))"
          "zb_contiguous Z y = bytes_of x @ rest" by auto
      then show ?thesis
        by cases (use Some True c z in \<open>auto simp: publish_payload_def\<close>)
    qed
  qed
qed

lemma publish_ok:
  assumes "ok x" and "shm_adequate E (zp_shm_config p) (estimate x) (needs x)"
  shows "\<exists>sample p'. publish Z S estimate now x p = (Ok sample, p') \<and>
    decode_sample Z deser sample = Ok x \<and> put_key_expr sample = zp_key_expr p \<and>
    map_option att_sequence_number (put_attachment sample) = (if zp_with_attachment p then Some (zp_sn p) else None) \<and>
    p' = p\<lparr>zp_sn := zp_sn p + (if zp_with_attachment p then 1 else 0)\<rparr>"
proof -
  obtain z rest where z: "publish_payload Z S estimate (zp_shm_config p) x = Ok (z, length (bytes_of x))"
    "zb_contiguous Z z = bytes_of x @ rest"
    using publish_payload_ok [of x "zp_shm_config p" estimate] assms by blast
  obtain att p' where "put_builder now z p = (Ok \<lparr>put_key_expr = zp_key_expr p, put_payload = z, put_attachment = att\<rparr>, p')"
    "p' = p\<lparr>zp_sn := zp_sn p + (if zp_with_attachment p then 1 else 0)\<rparr>"
    "map_option att_sequence_number att = (if zp_with_attachment p then Some (zp_sn p) else None)"
    using put_builder_spec [of now z p] by blast
  with z deserialize [OF assms(1), of rest] show ?thesis
    by (auto simp: publish_def decode_sample_def)
qed

end

section \<open>Many messages\<close>

text \<open>The messages of a publisher one after the other, and the receives of a subscriber.\<close>

abbreviation publish_all ::
    "'b zbuf_ops \<Rightarrow> ('a, 'b) ZSerializer \<Rightarrow> ('a \<Rightarrow> nat) \<Rightarrow> nat option \<Rightarrow> 'a list \<Rightarrow>
     (('i, 'b, 'c) ZPub, 'b put list, unit) exec" where
  "publish_all Zb S estimate now msgs \<equiv> collect (map (publish Zb S estimate now) msgs)"

abbreviation recv_all ::
    "'b zbuf_ops \<Rightarrow> (bytes \<Rightarrow> ('a, 'e) result) \<Rightarrow> nat \<Rightarrow> (('i, 'b, 'c) ZSub, 'a option list, 'e recv_error) exec" where
  "recv_all Zb deser n \<equiv> collect (replicate n (recv Zb deser))"

definition numbered :: "bool \<Rightarrow> u64 \<Rightarrow> 'b put list \<Rightarrow> bool" where
  "numbered with_att sn samples \<longleftrightarrow> map (\<lambda>s. map_option att_sequence_number (put_attachment s)) samples =
     map (\<lambda>i. if with_att then Some (sn + of_nat i) else None) [0..<length samples]"

lemma numbered_Cons:
  assumes "map_option att_sequence_number (put_attachment s) = (if a then Some sn else None)"
    and "numbered a (sn + (if a then 1 else 0)) ss"
  shows "numbered a sn (s # ss)"
proof -
  have "map (\<lambda>i. if a then Some (sn + of_nat i) else None) [0..<Suc (length ss)] =
      (if a then Some sn else None) #
      map (\<lambda>i. if a then Some (sn + (if a then 1 else 0) + of_nat i) else None) [0..<length ss]"
    by (simp add: upt_conv_Cons map_Suc_upt [symmetric] comp_def add.assoc del: upt_Suc)
  then show ?thesis using assms by (simp add: numbered_def)
qed

context serdes
begin

lemma publish_all_ok:
  assumes "list_all (\<lambda>x. ok x \<and> shm_adequate E (zp_shm_config p) (estimate x) (needs x)) xs"
  shows "\<exists>samples p'. publish_all Z S estimate now xs p = (Ok samples, p') \<and>
    map (decode_sample Z deser) samples = map Ok xs \<and>
    list_all (\<lambda>s. put_key_expr s = zp_key_expr p) samples \<and>
    numbered (zp_with_attachment p) (zp_sn p) samples"
  using assms
proof (induction xs arbitrary: p)
  case Nil
  then show ?case by (simp add: ret_def numbered_def)
next
  case (Cons x xs)
  then obtain s p1 where s: "publish Z S estimate now x p = (Ok s, p1)" "decode_sample Z deser s = Ok x"
    "put_key_expr s = zp_key_expr p"
    "map_option att_sequence_number (put_attachment s) = (if zp_with_attachment p then Some (zp_sn p) else None)"
    "p1 = p\<lparr>zp_sn := zp_sn p + (if zp_with_attachment p then 1 else 0)\<rparr>"
    using publish_ok [of x p estimate now] by auto
  have "list_all (\<lambda>x. ok x \<and> shm_adequate E (zp_shm_config p1) (estimate x) (needs x)) xs"
    using Cons.prems s(5) by simp
  from Cons.IH [OF this] obtain ss p2 where ss: "publish_all Z S estimate now xs p1 = (Ok ss, p2)"
    "map (decode_sample Z deser) ss = map Ok xs"
    "list_all (\<lambda>s. put_key_expr s = zp_key_expr p1) ss"
    "numbered (zp_with_attachment p1) (zp_sn p1) ss" by blast
  have "numbered (zp_with_attachment p) (zp_sn p) (s # ss)"
    by (rule numbered_Cons [OF s(4)]) (use ss(4) s(5) in simp)
  with s ss show ?case by (auto simp: andthen_def ret_def)
qed

end

section \<open>Receiving\<close>

lemma sub_deliver_queue:
  "zs_queue s = Some q \<Longrightarrow> zs_queue (sub_deliver d s) = Some (snd (queue_push d q))"
  by (simp add: sub_deliver_def handle_def)

lemma deliver_all:
  assumes "zs_queue s = Some q" and "0 < q_capacity q" and "length (q_data q) \<le> q_capacity q"
  shows "\<exists>q'. zs_queue (fold sub_deliver ds s) = Some q' \<and>
    q_data q' = drop (length (q_data q @ ds) - q_capacity q) (q_data q @ ds)"
proof -
  have "zs_queue (fold sub_deliver ds s) = Some (hs_queue (fold (handle HandleQueue) ds st))"
    if "zs_queue s = Some (hs_queue st)" for st
    using that
  proof (induction ds arbitrary: s st)
    case (Cons d ds)
    have "zs_queue (sub_deliver d s) = Some (hs_queue (handle HandleQueue d st))"
      using sub_deliver_queue [OF Cons.prems] by (simp add: handle_def)
    from Cons.IH [OF this] show ?case by simp
  qed simp
  from this [of "\<lparr>hs_queue = q, hs_calls = [], hs_notified = 0\<rparr>"] assms(1)
  show ?thesis
    using handle_all_queue [of "\<lparr>hs_queue = q, hs_calls = [], hs_notified = 0\<rparr>" ds] assms(2,3) by auto
qed

lemma recv_empty: "zs_queue s = Some q \<Longrightarrow> q_data q = [] \<Longrightarrow> recv Zb deser s = (Ok None, s)"
  by (simp add: recv_def recv_serialized_def sub_queue_def queue_recv_def andthen_def)

lemma recv_next:
  assumes "zs_queue s = Some q" and "q_data q = x # xs" and "decode_sample Zb deser x = Ok m"
  shows "recv Zb deser s = (Ok (Some m), s\<lparr>zs_queue := Some (q\<lparr>q_data := xs\<rparr>)\<rparr>)"
  using assms by (simp add: recv_def recv_serialized_def sub_queue_def queue_recv_def andthen_def)

lemma recv_all_queue:
  assumes "zs_queue s = Some q" and "map (decode_sample Zb deser) (q_data q) = map Ok ms"
  shows "\<exists>s'. recv_all Zb deser (length ms) s = (Ok (map Some ms), s') \<and> recv Zb deser s' = (Ok None, s')"
  using assms
proof (induction ms arbitrary: s q)
  case Nil
  then show ?case by (simp add: ret_def recv_empty)
next
  case (Cons m ms)
  then obtain x xs where x: "q_data q = x # xs" "decode_sample Zb deser x = Ok m"
    "map (decode_sample Zb deser) xs = map Ok ms" by auto
  let ?s = "s\<lparr>zs_queue := Some (q\<lparr>q_data := xs\<rparr>)\<rparr>"
  have "\<exists>s'. recv_all Zb deser (length ms) ?s = (Ok (map Some ms), s') \<and> recv Zb deser s' = (Ok None, s')"
    by (rule Cons.IH [of _ "q\<lparr>q_data := xs\<rparr>"]) (use x in simp_all)
  with recv_next [OF Cons.prems(1) x(1,2)] show ?case by (auto simp: andthen_def ret_def)
qed

context serdes
begin

lemma publish_receive:
  assumes "list_all (\<lambda>x. ok x \<and> shm_adequate E (zp_shm_config p) (estimate x) (needs x)) xs"
    and "zs_queue s = Some (queue_new d)" and "0 < d"
  shows "\<exists>samples p' s'. publish_all Z S estimate now xs p = (Ok samples, p') \<and>
    numbered (zp_with_attachment p) (zp_sn p) samples \<and>
    recv_all Z deser (min d (length xs)) (fold sub_deliver samples s) =
      (Ok (map Some (drop (length xs - d) xs)), s') \<and>
    recv Z deser s' = (Ok None, s')"
proof -
  obtain samples p' where pub: "publish_all Z S estimate now xs p = (Ok samples, p')"
    "map (decode_sample Z deser) samples = map Ok xs" "numbered (zp_with_attachment p) (zp_sn p) samples"
    using publish_all_ok [OF assms(1)] by blast
  have len: "length samples = length xs" using arg_cong [OF pub(2), of length] by simp
  obtain q where q: "zs_queue (fold sub_deliver samples s) = Some q"
    "q_data q = drop (length xs - d) samples"
    using deliver_all [OF assms(2), of samples] assms(3) len by (auto simp: queue_new_def)
  have "map (decode_sample Z deser) (q_data q) = map Ok (drop (length xs - d) xs)"
    using q(2) pub(2) by (metis drop_map)
  from recv_all_queue [OF q(1) this] pub show ?thesis
    by (auto simp: min_def split: if_splits)
qed

end

section \<open>Properties\<close>

text \<open>
  C11.  Messages arrive as they were sent: for a message type whose values fit its shape, publishing
  any messages succeeds, through shared memory or not, as long as the size estimate of each
  message that goes through shared memory is large enough; a subscriber with history depth \<open>d\<close> that
  has been handed the samples receives the last \<open>d\<close> messages in order and then waits; attachments
  carry consecutive sequence numbers.
\<close>

theorem published_messages_received:
  assumes "shm_env_laws Zb E" and "byte_order_laws LE"
    and "list_all (\<lambda>m. fits T m \<and>
      shm_adequate E (zp_shm_config p) (estimate m) (length (cdr_bytes LE T m))) msgs"
    and "zs_queue s = Some (queue_new d)" and "0 < d"
  shows "\<exists>samples p' s'. publish_all Zb (CdrSerdes Zb LE T) estimate now msgs p = (Ok samples, p') \<and>
    numbered (zp_with_attachment p) (zp_sn p) samples \<and>
    recv_all Zb (cdr_deserialize LE T) (min d (length msgs)) (fold sub_deliver samples s) =
      (Ok (map Some (drop (length msgs - d) msgs)), s') \<and>
    recv Zb (cdr_deserialize LE T) s' = (Ok None, s')"
  by (rule serdes.publish_receive [OF cdr_serdes [OF assms(1,2)] assms(3-5)])

text \<open>A message type with a number and a text.\<close>

definition sample_serde :: "(u32 \<times> bytes) serde_type" where
  "sample_serde = \<lparr>st_ser = (\<lambda>(n, t). SStruct [SU32 n, SStr t]), st_shape = DStruct [DU32, DString],
     st_de = (\<lambda>v. case v of SStruct [SU32 n, SStr t] \<Rightarrow> (n, t) | _ \<Rightarrow> (0, []))\<rparr>"

definition sample_pub :: "nat \<Rightarrow> (unit, zslice list, unit) ZPub" where
  "sample_pub threshold =
     \<lparr>zp_entity = \<lparr>endpoint_id = 1, endpoint_node = node_entity_new 0 () 0 ''talker'' [] [],
        endpoint_kind = EK_Publisher, topic = ''/chatter'', type_info = None, endpoint_qos = qos_default\<rparr>,
      zp_sn = 0, zp_gid = replicate 16 7, zp_key_expr = ''0/chatter'', zp_congestion = Block,
      zp_express = False, zp_token = [], zp_with_attachment = True,
      zp_events_mgr = events_manager_new (replicate 16 7),
      zp_shm_config = Some \<lparr>shm_provider = sample_shm, shm_threshold = threshold\<rparr>, zp_dyn_schema = None\<rparr>"

definition sample_sub :: "nat \<Rightarrow> (unit, zslice list, unit) ZSub" where
  "sample_sub d =
     \<lparr>zs_entity = (zp_entity (sample_pub 0))\<lparr>endpoint_kind := EK_Subscription\<rparr>,
      zs_queue = Some (queue_new d), zs_key_expr = ''0/chatter'', zs_token = [],
      zs_events_mgr = events_manager_new (replicate 16 8), zs_dyn_schema = None\<rparr>"

lemma sample_length: "length (cdr_bytes LittleEndian sample_serde (n, t)) = length t + 13"
  by (simp add: cdr_bytes_def sample_serde_def CDR_HEADER_LE_def enc_defs enc_then_def enc_align_def
      enc_bytes_def LittleEndian_def)

lemma sample_fits: "is_str t \<Longrightarrow> length t + 1 < 2 ^ 32 \<Longrightarrow> fits sample_serde (n, t)"
  by (simp add: fits_def sample_serde_def)

theorem published_messages_received_witness:
  "\<exists>samples p' s'. publish_all list_zbuf (CdrSerdes list_zbuf LittleEndian sample_serde) (\<lambda>_. 32) None
       [(1, []), (2, [65]), (3, [65, 66])] (sample_pub 16) = (Ok samples, p') \<and>
     numbered True 0 samples \<and>
     recv_all list_zbuf (cdr_deserialize LittleEndian sample_serde) 2
       (fold sub_deliver samples (sample_sub 2)) = (Ok [Some (2, [65]), Some (3, [65, 66])], s')"
proof -
  let ?msgs = "[(1, []), (2, [65]), (3, [65, 66])] :: (u32 \<times> bytes) list"
  have "is_str []" "is_str [65]" "is_str [65, 66]" by code_simp+
  then have "list_all (\<lambda>m. fits sample_serde m \<and> shm_adequate sample_shm (zp_shm_config (sample_pub 16)) 32
      (length (cdr_bytes LittleEndian sample_serde m))) ?msgs"
    using sample_fits by (simp add: shm_adequate_def sample_length sample_pub_def)
  moreover have "zs_queue (sample_sub 2) = Some (queue_new 2)" by (simp add: sample_sub_def)
  ultimately obtain samples p' s' where
    "publish_all list_zbuf (CdrSerdes list_zbuf LittleEndian sample_serde) (\<lambda>_. 32) None ?msgs (sample_pub 16) =
      (Ok samples, p')" "numbered (zp_with_attachment (sample_pub 16)) (zp_sn (sample_pub 16)) samples"
    "recv_all list_zbuf (cdr_deserialize LittleEndian sample_serde) (min 2 (length ?msgs))
      (fold sub_deliver samples (sample_sub 2)) = (Ok (map Some (drop (length ?msgs - 2) ?msgs)), s')"
    using published_messages_received [OF ssh.shm_env_laws_axioms le.byte_order_laws_axioms,
      of sample_serde "sample_pub 16" "\<lambda>_. 32" ?msgs "sample_sub 2" 2 None] by auto
  moreover have "min 2 (length ?msgs) = 2" "map Some (drop (length ?msgs - 2) ?msgs) = [Some (2, [65]), Some (3, [65, 66])]"
    "zp_with_attachment (sample_pub 16) = True" "zp_sn (sample_pub 16) = 0"
    by (simp_all add: sample_pub_def)
  ultimately show ?thesis by metis
qed

text \<open>
  Publishing through shared memory panics exactly when the block was allocated and is smaller
  than the message: the size estimate decides about the allocation, and the fallback to ordinary
  memory covers failed allocations only.
\<close>

theorem publish_panics_iff:
  assumes "shm_env_laws Zb E" and "byte_order_laws LE" and "fits T m"
    and "zp_shm_config p = Some c" and "shm_provider c = E"
  shows "fst (publish Zb (CdrSerdes Zb LE T) estimate now m p) = Panic \<longleftrightarrow>
    shm_threshold c \<le> estimate m \<and> se_alloc E (estimate m) \<noteq> None \<and>
    estimate m < length (cdr_bytes LE T m)"
proof -
  have Z: "zbuf_laws Zb" using assms(1) by (simp add: shm_env_laws_def)
  have enc: "encodable LE T m" by (rule fits_encodable [OF assms(2,3)])
  obtain z where z: "cdr_to_zbuf Zb LE T m = Ok z"
    using zbuf_laws.cdr_to_zbuf_spec [OF Z enc, of 256] by (auto simp: cdr_to_zbuf_def)
  have no_panic: "fst (put_builder now w p) \<noteq> Panic" for w
    using put_builder_spec [of now w p] by auto
  show ?thesis
    using shm_env_laws.cdr_to_shm_spec [OF assms(1) enc, of "estimate m"] z no_panic assms(4,5)
    by (auto simp: publish_def publish_payload_def CdrSerdes_def Let_def split: option.splits if_splits)
qed

theorem publish_panics_iff_witness:
  "fst (publish list_zbuf (CdrSerdes list_zbuf LittleEndian sample_serde)
     (\<lambda>_. estimated_serialized_size 32) None (1, replicate 100 65) (sample_pub 16)) = Panic"
proof -
  have "is_str (replicate 100 65)" by code_simp
  then have "fits sample_serde (1, replicate 100 65)" by (intro sample_fits) simp_all
  then show ?thesis
    using publish_panics_iff [OF ssh.shm_env_laws_axioms le.byte_order_laws_axioms,
      of sample_serde "(1, replicate 100 65)" "sample_pub 16"
        "\<lparr>shm_provider = sample_shm, shm_threshold = 16\<rparr>" "\<lambda>_. estimated_serialized_size 32" None]
    by (simp add: sample_pub_def sample_shm_def estimated_serialized_size_def sample_length)
qed

end
