(* ===== verification/Service_Properties.thy ===== *)
theory Service_Properties
  imports Services PubSub_Properties
begin

text \<open>
  Service calls: one call from the request to the response, the bookkeeping of a server over any
  sequence of arrivals, takes and responses, and the queries that make it panic.
\<close>

section \<open>One call\<close>

lemma cdr_serialize_ok:
  assumes "shm_env_laws Zb E" and "byte_order_laws LE" and "fits T x"
  obtains b where "cdr_serialize Zb LE T x = Ok b" and "cdr_deserialize LE T (vec_data b) = Ok x"
proof -
  have S: "serdes Zb E (CdrSerdes Zb LE T) (cdr_deserialize LE T) (fits T) (cdr_bytes LE T)
      (\<lambda>x. length (cdr_bytes LE T x))"
    by (rule cdr_serdes [OF assms(1,2)])
  from serdes.serialize [OF S assms(3)] obtain b where b: "zs_serialize (CdrSerdes Zb LE T) x = Ok b"
    "vec_data b = cdr_bytes LE T x" by blast
  with serdes.deserialize_exact [OF S assms(3)] that [of b] show thesis
    by (simp add: CdrSerdes_def)
qed

text \<open>
  C14.  A service call comes back: a request that a client sends is taken by the server with the
  client's identity and sequence number, the response to it is a reply to that very query and
  carries the same identity, and the client takes the response from its channel; the server keeps
  nothing of the call.
\<close>

theorem service_call_answered:
  assumes "shm_env_laws Zb E" and "byte_order_laws LE" and "att_env_laws A"
    and "fits TQ x" and "fits TR y"
    and "length (zc_gid c) = 16" and "zc_rx c = []" and "0 < zc_depth c"
    and "zv_queue s = Some bq" and "q_data bq = []"
    and "zv_map s \<lparr>qk_sn = zc_sn c, qk_gid = zc_gid c\<rparr> = None"
  shows "\<exists>q c1 s1 s2 key rep.
    send_request A (cdr_serialize Zb LE TQ) now x c = (Ok q, c1) \<and>
    take_request A (cdr_deserialize LE TQ) (server_deliver q s) = (Ok (Some (key, x)), s1) \<and>
    key = \<lparr>qk_sn = zc_sn c, qk_gid = zc_gid c\<rparr> \<and>
    send_response A (cdr_serialize Zb LE TR) now' y key s1 = (Ok rep, s2) \<and>
    rp_query rep = q \<and> map_option query_key_from (attachment_try_from A (rp_attachment rep)) = Some key \<and>
    zv_map s2 = zv_map s \<and>
    take_response (cdr_deserialize LE TR) (on_reply (Ok (rp_payload rep) :: (bytes, unit) result) c1) = (Ok y, c1)"
proof -
  obtain b where b: "cdr_serialize Zb LE TQ x = Ok b" "cdr_deserialize LE TQ (vec_data b) = Ok x"
    using assms(1,2,4) by (rule cdr_serialize_ok)
  obtain r where r: "cdr_serialize Zb LE TR y = Ok r" "cdr_deserialize LE TR (vec_data r) = Ok y"
    using assms(1,2,5) by (rule cdr_serialize_ok)
  let ?key = "\<lparr>qk_sn = zc_sn c, qk_gid = zc_gid c\<rparr>"
  have att: "attachment_try_from A (attachment_to_bytes A (attachment_new t (zc_sn c) (zc_gid c))) =
      Some (attachment_new t (zc_sn c) (zc_gid c))" for t
    by (rule att_env_laws.attachment_read_back [OF assms(3)]) (simp add: attachment_new_def assms(6))
  have key: "query_key_from (attachment_new t (zc_sn c) (zc_gid c)) = ?key" for t
    by (simp add: query_key_from_def attachment_new_def)
  let ?q = "\<lparr>qu_key_expr = zc_key_expr c, qu_payload = Some (vec_data b),
     qu_attachment = Some (attachment_to_bytes A (attachment_new now (zc_sn c) (zc_gid c)))\<rparr>"
  have send: "send_request A (cdr_serialize Zb LE TQ) now x c = (Ok ?q, c\<lparr>zc_sn := zc_sn c + 1\<rparr>)"
    by (simp add: send_request_def b(1) client_attachment_def)
  have "\<exists>s1. take_request A (cdr_deserialize LE TQ) (server_deliver ?q s) = (Ok (Some (?key, x)), s1) \<and>
      zv_map s1 = (zv_map s)(?key \<mapsto> ?q)"
    using assms(9-11) b(2) att [of now] key [of now]
    by (simp add: take_request_def server_deliver_def handle_def queue_push_eq queue_recv_def
        accept_query_def andthen_def ret_def Let_def)
  then obtain s1 where s1: "take_request A (cdr_deserialize LE TQ) (server_deliver ?q s) = (Ok (Some (?key, x)), s1)"
    "zv_map s1 = (zv_map s)(?key \<mapsto> ?q)" by blast
  have "(zv_map s)(?key := None) = zv_map s" using assms(11) by auto
  with send s1 r att [of now'] key [of now'] assms(7,8) show ?thesis
    by (simp add: send_response_def take_response_def on_reply_def take_sample_def andthen_def
        deserialize_response_def)
qed

section \<open>The server's bookkeeping\<close>

text \<open>
  What can happen to a server, and what it does that can be observed.  A panic ends the run.
\<close>

datatype 'r server_op = Arrive query | Take | TakeAsync | Respond 'r QueryKey

datatype server_event = Taken QueryKey | Replied QueryKey reply

fun server_run ::
    "att_env \<Rightarrow> (bytes \<Rightarrow> ('a, 'e) result) \<Rightarrow> ('r \<Rightarrow> (vec_u8, unit) result) \<Rightarrow> nat option \<Rightarrow>
     'r server_op list \<Rightarrow> 'i ZServer \<Rightarrow> server_event list \<times> 'i ZServer" where
  "server_run A deser ser now [] s = ([], s)"
| "server_run A deser ser now (Arrive q # ops) s = server_run A deser ser now ops (server_deliver q s)"
| "server_run A deser ser now (Take # ops) s = (case take_request A deser s of
       (Ok (Some (key, _)), s') \<Rightarrow>
         (case server_run A deser ser now ops s' of (evs, s'') \<Rightarrow> (Taken key # evs, s''))
     | (Panic, s') \<Rightarrow> ([], s')
     | (_, s') \<Rightarrow> server_run A deser ser now ops s')"
| "server_run A deser ser now (TakeAsync # ops) s = (case take_request_async A deser s of
       (Ok (Some (key, _)), s') \<Rightarrow>
         (case server_run A deser ser now ops s' of (evs, s'') \<Rightarrow> (Taken key # evs, s''))
     | (Panic, s') \<Rightarrow> ([], s')
     | (_, s') \<Rightarrow> server_run A deser ser now ops s')"
| "server_run A deser ser now (Respond r key # ops) s =
     (case (send_response A ser now r key s :: (reply, unit server_error) result \<times> 'i ZServer) of
       (Ok rep, s') \<Rightarrow>
         (case server_run A deser ser now ops s' of (evs, s'') \<Rightarrow> (Replied key rep # evs, s''))
     | (Panic, s') \<Rightarrow> ([], s')
     | (Err _, s') \<Rightarrow> server_run A deser ser now ops s')"

definition query_key_of :: "att_env \<Rightarrow> query \<Rightarrow> QueryKey option" where
  "query_key_of A q = map_option query_key_from (Option.bind (qu_attachment q) (attachment_try_from A))"

definition taken_count :: "QueryKey \<Rightarrow> server_event list \<Rightarrow> nat" where
  "taken_count k evs = length (filter (\<lambda>e. e = Taken k) evs)"

definition replied_count :: "QueryKey \<Rightarrow> server_event list \<Rightarrow> nat" where
  "replied_count k evs = length (filter (\<lambda>e. case e of Replied k' _ \<Rightarrow> k' = k | _ \<Rightarrow> False) evs)"

definition pending_ok :: "att_env \<Rightarrow> 'i ZServer \<Rightarrow> bool" where
  "pending_ok A s \<longleftrightarrow> (\<forall>k q. zv_map s k = Some q \<longrightarrow> query_key_of A q = Some k)"

text \<open>What one take does to the map.\<close>

lemma accept_query_effect:
  assumes "accept_query A deser q s = (r, s')"
  shows "case r of
      Ok (key, _) \<Rightarrow> zv_map s key = None \<and> query_key_of A q = Some key \<and> zv_map s' = (zv_map s)(key \<mapsto> q)
    | _ \<Rightarrow> zv_map s' = zv_map s"
  using assms
  by (auto simp: accept_query_def query_key_of_def Let_def split: option.splits if_splits result.splits)

lemma accept_query_async_effect:
  assumes "accept_query_async A deser q s = (r, s')"
  shows "case r of
      Ok (key, _) \<Rightarrow> zv_map s key = None \<and> query_key_of A q = Some key \<and> zv_map s' = (zv_map s)(key \<mapsto> q)
    | _ \<Rightarrow> zv_map s' = zv_map s"
  using assms
  by (auto simp: accept_query_async_def query_key_of_def Let_def split: option.splits if_splits result.splits)

definition take_effect :: "att_env \<Rightarrow> 'i ZServer \<Rightarrow> ((QueryKey \<times> 'a) option, 'e) result \<Rightarrow> 'i ZServer \<Rightarrow> bool" where
  "take_effect A s r s' \<longleftrightarrow> (case r of
      Ok (Some (key, _)) \<Rightarrow>
        zv_map s key = None \<and> (\<exists>q. query_key_of A q = Some key \<and> zv_map s' = (zv_map s)(key \<mapsto> q))
    | _ \<Rightarrow> zv_map s' = zv_map s)"

lemma take_request_effect: "take_request A deser s = (r, s') \<Longrightarrow> take_effect A s r s'"
proof -
  assume run: "take_request A deser s = (r, s')"
  show ?thesis
  proof (cases "zv_queue s")
    case None
    then show ?thesis using run by (auto simp: take_request_def take_effect_def)
  next
    case (Some q)
    obtain res q' where rq: "queue_recv q = (res, q')" by (cases "queue_recv q")
    show ?thesis
    proof (cases "\<exists>x. res = Ok (Some x)")
      case True
      then obtain x where x: "res = Ok (Some x)" by blast
      obtain r1 s1 where acc: "accept_query A deser x (s\<lparr>zv_queue := Some q'\<rparr>) = (r1, s1)"
        by (cases "accept_query A deser x (s\<lparr>zv_queue := Some q'\<rparr>)")
      from accept_query_effect [OF acc] run Some rq x acc show ?thesis
        by (auto simp: take_request_def take_effect_def andthen_def ret_def split: result.splits)
    next
      case False
      with run Some rq show ?thesis
        by (cases res)
          (auto simp: take_request_def take_effect_def split: option.splits result.splits)
    qed
  qed
qed

lemma take_request_async_effect: "take_request_async A deser s = (r, s') \<Longrightarrow> take_effect A s r s'"
proof -
  assume run: "take_request_async A deser s = (r, s')"
  show ?thesis
  proof (cases "zv_queue s")
    case None
    then show ?thesis using run by (auto simp: take_request_async_def take_effect_def)
  next
    case (Some q)
    obtain res q' where rq: "queue_recv_async q = (res, q')" by (cases "queue_recv_async q")
    show ?thesis
    proof (cases res)
      case (Some x)
      obtain r1 s1 where acc: "accept_query_async A deser x (s\<lparr>zv_queue := Some q'\<rparr>) = (r1, s1)"
        by (cases "accept_query_async A deser x (s\<lparr>zv_queue := Some q'\<rparr>)")
      from accept_query_async_effect [OF acc] run \<open>zv_queue s = Some q\<close> rq Some acc show ?thesis
        by (auto simp: take_request_async_def take_effect_def andthen_def ret_def split: result.splits)
    next
      case None
      with run \<open>zv_queue s = Some q\<close> rq show ?thesis
        by (auto simp: take_request_async_def take_effect_def)
    qed
  qed
qed

text \<open>The balance of a run: taken requests are answered or still pending.\<close>

definition balanced :: "att_env \<Rightarrow> 'i ZServer \<Rightarrow> server_event list \<Rightarrow> 'i ZServer \<Rightarrow> bool" where
  "balanced A s evs s' \<longleftrightarrow> pending_ok A s' \<and>
     (\<forall>k. taken_count k evs + (if zv_map s k = None then 0 else 1) =
        replied_count k evs + (if zv_map s' k = None then 0 else 1)) \<and>
     (\<forall>k rep. Replied k rep \<in> set evs \<longrightarrow> query_key_of A (rp_query rep) = Some k)"

lemma balanced_refl: "pending_ok A s \<Longrightarrow> balanced A s [] s"
  by (simp add: balanced_def taken_count_def replied_count_def)

lemma balanced_same_map: "balanced A s1 evs s' \<Longrightarrow> zv_map s1 = zv_map s \<Longrightarrow> balanced A s evs s'"
  by (simp add: balanced_def)

lemma balanced_taken:
  assumes "balanced A s1 evs s'" and "zv_map s key = None" and "zv_map s1 = (zv_map s)(key \<mapsto> q)"
  shows "balanced A s (Taken key # evs) s'"
proof -
  have "taken_count k (Taken key # evs) + (if zv_map s k = None then 0 else 1) =
      replied_count k (Taken key # evs) + (if zv_map s' k = None then 0 else 1)" for k
    using assms unfolding balanced_def taken_count_def replied_count_def
    by (cases "k = key") (auto dest: spec [of _ k])
  then show ?thesis using assms(1) by (auto simp: balanced_def)
qed

lemma balanced_replied:
  assumes "balanced A s1 evs s'" and "zv_map s key = Some (rp_query rep)"
    and "zv_map s1 = (zv_map s)(key := None)" and "pending_ok A s"
  shows "balanced A s (Replied key rep # evs) s'"
proof -
  have "taken_count k (Replied key rep # evs) + (if zv_map s k = None then 0 else 1) =
      replied_count k (Replied key rep # evs) + (if zv_map s' k = None then 0 else 1)" for k
    using assms(1-3) unfolding balanced_def taken_count_def replied_count_def
    by (cases "k = key") (auto dest: spec [of _ k])
  moreover have "query_key_of A (rp_query rep) = Some key"
    using assms(2,4) by (simp add: pending_ok_def)
  ultimately show ?thesis using assms(1) by (auto simp: balanced_def)
qed

lemma pending_insert: "pending_ok A s \<Longrightarrow> query_key_of A q = Some key \<Longrightarrow> zv_map s1 = (zv_map s)(key \<mapsto> q) \<Longrightarrow> pending_ok A s1"
  by (auto simp: pending_ok_def)

lemma take_run_balanced:
  assumes "take_effect A s r s1" and "pending_ok A s"
    and "\<And>evs' t. rest s1 = (evs', t) \<Longrightarrow> pending_ok A s1 \<Longrightarrow> balanced A s1 evs' t"
    and "(case (r, s1) of
       (Ok (Some (key, _)), s') \<Rightarrow> (case rest s' of (evs, s'') \<Rightarrow> (Taken key # evs, s''))
     | (Panic, s') \<Rightarrow> ([], s')
     | (_, s') \<Rightarrow> rest s') = (evs, s')"
  shows "balanced A s evs s'"
proof (cases "\<exists>p. r = Ok (Some p)")
  case True
  then obtain key x where r: "r = Ok (Some (key, x))" by auto
  with assms(1) obtain q where q: "zv_map s key = None" "query_key_of A q = Some key"
    "zv_map s1 = (zv_map s)(key \<mapsto> q)" by (auto simp: take_effect_def)
  obtain evs' t where rest: "rest s1 = (evs', t)" by (cases "rest s1")
  have "balanced A s1 evs' t" by (rule assms(3) [OF rest pending_insert [OF assms(2) q(2,3)]])
  from balanced_taken [OF this q(1,3)] assms(4) r rest show ?thesis by simp
next
  case False
  then have m: "zv_map s1 = zv_map s" using assms(1)
    by (auto simp: take_effect_def split: result.splits option.splits)
  then have ok: "pending_ok A s1" using assms(2) by (simp add: pending_ok_def)
  have "balanced A s1 evs s'"
    using assms(3,4) ok balanced_refl [OF ok] False by (auto split: result.splits option.splits)
  then show ?thesis using m by (rule balanced_same_map)
qed

lemma server_run_balanced:
  assumes "server_run A deser ser now ops s = (evs, s')" and "pending_ok A s" and "\<forall>r. \<exists>b. ser r = Ok b"
  shows "balanced A s evs s'"
  using assms
proof (induction ops arbitrary: s evs s')
  case Nil
  then show ?case using balanced_refl by auto
next
  case (Cons op ops)
  note IH = Cons.IH [OF _ _ Cons.prems(3)]
  show ?case
  proof (cases op)
    case (Arrive q)
    have "zv_map (server_deliver q s) = zv_map s" by (simp add: server_deliver_def)
    with Arrive Cons.prems IH [of "server_deliver q s" evs s'] show ?thesis
      using balanced_same_map [of A "server_deliver q s" evs s' s] by (simp add: pending_ok_def)
  next
    case Take
    obtain r s1 where t: "take_request A deser s = (r, s1)" by (cases "take_request A deser s")
    show ?thesis
      by (rule take_run_balanced [OF take_request_effect [OF t] Cons.prems(2) IH])
        (use Cons.prems(1) Take t in simp_all)
  next
    case TakeAsync
    obtain r s1 where t: "take_request_async A deser s = (r, s1)" by (cases "take_request_async A deser s")
    show ?thesis
      by (rule take_run_balanced [OF take_request_async_effect [OF t] Cons.prems(2) IH])
        (use Cons.prems(1) TakeAsync t in simp_all)
  next
    case (Respond r key)
    show ?thesis
    proof (cases "zv_map s key")
      case None
      then show ?thesis using Cons.prems Respond IH by (simp add: send_response_def)
    next
      case (Some q)
      obtain b where b: "ser r = Ok b" using Cons.prems(3) by blast
      define s1 where "s1 = s\<lparr>zv_map := (zv_map s)(key := None)\<rparr>"
      obtain rep where rep: "send_response A ser now r key s = (Ok rep :: (_, unit server_error) result, s1)"
          "rp_query rep = q"
        using Some b by (simp add: send_response_def s1_def)
      obtain evs' t where rest: "server_run A deser ser now ops s1 = (evs', t)"
        by (cases "server_run A deser ser now ops s1")
      have "pending_ok A s1" using Cons.prems(2) by (simp add: pending_ok_def s1_def)
      from balanced_replied [OF IH [OF rest this] _ _ Cons.prems(2), of key rep] Some rep rest
      show ?thesis using Cons.prems(1) Respond by (simp add: s1_def)
    qed
  qed
qed

text \<open>
  C12.  No request is lost and none is answered twice: over any sequence of arrivals, takes and
  responses, starting with no pending request, a key has been taken as often as it has been
  answered, plus one when it is still pending; and every reply goes to a query that carries the key
  of the response.
\<close>

theorem requests_answered_once:
  assumes "server_run A deser ser now ops s = (evs, s')" and "zv_map s = Map.empty"
    and "\<forall>r. \<exists>b. ser r = Ok b"
  shows "taken_count key evs = replied_count key evs + (if zv_map s' key = None then 0 else 1) \<and>
    (\<forall>rep. Replied key rep \<in> set evs \<longrightarrow> query_key_of A (rp_query rep) = Some key)"
  using server_run_balanced [OF assms(1) _ assms(3)] assms(2)
  by (auto simp: pending_ok_def balanced_def)

text \<open>A client and a server to try the properties on.\<close>

definition sample_client :: "unit ZClient" where
  "sample_client = \<lparr>zc_sn = 1, zc_gid = replicate 16 9, zc_key_expr = ''0/add'', zc_token = [],
     zc_rx = [], zc_depth = 10, zc_topic = ''/add''\<rparr>"

definition sample_server :: "query list \<Rightarrow> unit ZServer" where
  "sample_server qs = \<lparr>zv_key_expr = ''0/add'', zv_sn = 1, zv_gid = replicate 16 8, zv_token = [],
     zv_queue = Some \<lparr>q_data = qs, q_capacity = 10\<rparr>, zv_map = Map.empty\<rparr>"

definition sample_query :: "bytes option \<Rightarrow> query" where
  "sample_query payload = \<lparr>qu_key_expr = ''0/add'', qu_payload = payload,
     qu_attachment = Some (attachment_to_bytes sample_att_env (attachment_new None 1 (replicate 16 9)))\<rparr>"

theorem service_call_answered_witness:
  "\<exists>q c1 s1 s2 key rep.
    send_request sample_att_env (cdr_serialize list_zbuf LittleEndian sample_serde) None (1, [65]) sample_client = (Ok q, c1) \<and>
    take_request sample_att_env (cdr_deserialize LittleEndian sample_serde) (server_deliver q (sample_server [])) =
      (Ok (Some (key, (1, [65]))), s1) \<and> qk_sn key = 1 \<and>
    send_response sample_att_env (cdr_serialize list_zbuf LittleEndian sample_serde) None (2, []) key s1 = (Ok rep, s2) \<and>
    rp_query rep = q \<and>
    take_response (cdr_deserialize LittleEndian sample_serde)
      (on_reply (Ok (rp_payload rep) :: (bytes, unit) result) c1) = (Ok (2, []), c1)"
proof -
  have "is_str []" "is_str [65]" by code_simp+
  then have f: "fits sample_serde (1, [65])" "fits sample_serde (2, [])" using sample_fits by simp_all
  have c: "length (zc_gid sample_client) = 16" "zc_rx sample_client = []" "0 < zc_depth sample_client"
    "zc_sn sample_client = 1"
    by (simp_all add: sample_client_def)
  have s: "zv_queue (sample_server []) = Some \<lparr>q_data = [], q_capacity = 10\<rparr>"
    "zv_map (sample_server []) k = None" for k
    by (simp_all add: sample_server_def)
  from service_call_answered [OF ssh.shm_env_laws_axioms le.byte_order_laws_axioms sae.att_env_laws_axioms
      f c(1-3) s(1) _ s(2), of None None]
  show ?thesis using c(4) by (simp, fastforce)
qed

theorem requests_answered_once_witness:
  "\<exists>evs s'. server_run sample_att_env (\<lambda>b. Ok b :: (bytes, unit) result) (\<lambda>_ :: unit. Ok vec_new) None
      [Take, Respond () \<lparr>qk_sn = 1, qk_gid = replicate 16 9\<rparr>, Respond () \<lparr>qk_sn = 1, qk_gid = replicate 16 9\<rparr>]
      (sample_server [sample_query (Some [])]) = (evs, s') \<and>
    length evs = 2 \<and>
    taken_count \<lparr>qk_sn = 1, qk_gid = replicate 16 9\<rparr> evs =
      replied_count \<lparr>qk_sn = 1, qk_gid = replicate 16 9\<rparr> evs + (if zv_map s' \<lparr>qk_sn = 1, qk_gid = replicate 16 9\<rparr> = None then 0 else 1)"
proof -
  let ?key = "\<lparr>qk_sn = 1, qk_gid = replicate 16 9\<rparr> :: QueryKey"
  let ?q = "sample_query (Some [])"
  let ?run = "server_run sample_att_env (\<lambda>b. Ok b :: (bytes, unit) result) (\<lambda>_ :: unit. Ok vec_new) None
      [Take, Respond () ?key, Respond () ?key] (sample_server [?q])"
  have att: "attachment_try_from sample_att_env (attachment_to_bytes sample_att_env (attachment_new None 1 (replicate 16 9))) =
      Some (attachment_new None 1 (replicate 16 9))"
    by (rule sae.attachment_read_back) (simp add: attachment_new_def)
  have key: "query_key_from (attachment_new None 1 (replicate 16 9)) = ?key"
    by (simp add: query_key_from_def attachment_new_def)
  have len: "length (fst ?run) = 2"
    using att key
    by (simp add: take_request_def sample_server_def sample_query_def queue_recv_def accept_query_def
        andthen_def ret_def send_response_def Let_def)
  obtain evs s' where run: "?run = (evs, s')" by (cases ?run)
  have "zv_map (sample_server [?q]) = Map.empty" by (simp add: sample_server_def)
  from requests_answered_once [OF run this, of ?key] run len show ?thesis by (intro exI [of _ evs] exI [of _ s']) simp
qed

section \<open>Panics of the server\<close>

lemma cdr_deserialize_total: "cdr_deserialize LE T inp \<noteq> Panic"
  using from_bytes_safe_spec(1) [of LE "st_shape T" "drop 4 inp"]
  by (auto simp: cdr_deserialize_def Let_def split: result.splits)

text \<open>
  A remote peer can bring a server down: taking a request panics exactly when the query at the
  front of the queue has no attachment, or has a readable attachment and no payload.  A payload that
  cannot be decoded, an unreadable attachment and a repeated key are errors.
\<close>

theorem take_request_panics_iff:
  assumes "zv_queue s = Some bq" and "q_data bq = q # rest"
  shows "fst (take_request A (cdr_deserialize LE T) s) = Panic \<longleftrightarrow>
    qu_attachment q = None \<or>
    (query_key_of A q \<noteq> None \<and> qu_payload q = None)"
  using assms cdr_deserialize_total [of LE T]
  by (auto simp: take_request_def queue_recv_def accept_query_def andthen_def ret_def query_key_of_def Let_def
      split: option.splits result.splits)

theorem take_request_panics_iff_witness:
  "fst (take_request sample_att_env (cdr_deserialize LittleEndian sample_serde)
     (sample_server [(sample_query (Some []))\<lparr>qu_attachment := None\<rparr>])) = Panic"
  using take_request_panics_iff [of "sample_server [(sample_query (Some []))\<lparr>qu_attachment := None\<rparr>]"
      "\<lparr>q_data = [(sample_query (Some []))\<lparr>qu_attachment := None\<rparr>], q_capacity = 10\<rparr>"
      "(sample_query (Some []))\<lparr>qu_attachment := None\<rparr>" "[]" sample_att_env LittleEndian sample_serde]
  by (simp add: sample_server_def)

end
