(* ===== verification/Type_Discovery.thy ===== *)
theory Type_Discovery
  imports Type_Service TypeDesc_Roundtrip Service_Properties
begin

text \<open>
  Discovery of schemas: what a client learns from the type description service of a node that
  publishes on a topic.
\<close>

section \<open>The wire format\<close>

definition wire_text :: "string \<Rightarrow> bool" where
  "wire_text s \<longleftrightarrow> is_str (str_bytes s) \<and> length s + 1 < 2 ^ 32"

lemma char_of_byte [simp]: "char_of (unat (of_char c :: 8 word)) = c"
proof -
  have "(of_char c :: nat) mod 256 = of_char c" by (rule of_char_mod_256)
  then have "(of_char c :: nat) < 256" by (metis mod_less_divisor zero_less_numeral)
  then have "unat (of_nat (of_char c) :: 8 word) = of_char c" by (simp add: unat_of_nat)
  then show ?thesis by (simp add: of_nat_of_char)
qed

lemma fits_string: "fits string_serde s \<longleftrightarrow> wire_text s"
  by (simp add: fits_def string_serde_def wire_text_def str_bytes_def comp_def)

lemma fits_vec: "length xs \<le> 100000000 \<Longrightarrow> list_all (fits T) xs \<Longrightarrow> fits (vec_serde T) xs"
  by (auto simp: fits_def vec_serde_def list_all_iff intro!: map_idI)

lemma fits_wire_field_type: "wire_text (wft_nested_type_name x) \<Longrightarrow> fits WireFieldType_serde x"
  using fits_string [of "wft_nested_type_name x"] by (simp add: fits_def WireFieldType_serde_def)

lemma fits_wire_field:
  "wire_text (wf_name x) \<Longrightarrow> wire_text (wf_default_value x) \<Longrightarrow> wire_text (wft_nested_type_name (wf_field_type x)) \<Longrightarrow>
   fits WireField_serde x"
  using fits_string [of "wf_name x"] fits_string [of "wf_default_value x"] fits_wire_field_type [of "wf_field_type x"]
  by (simp add: fits_def WireField_serde_def)

lemma fits_wire_individual:
  "wire_text (wi_type_name x) \<Longrightarrow> fits (vec_serde WireField_serde) (wi_fields x) \<Longrightarrow> fits WireIndividual_serde x"
  using fits_string [of "wi_type_name x"] by (simp add: fits_def WireIndividual_serde_def)

lemma fits_wire_type_description:
  "fits WireIndividual_serde (wt_type_description x) \<Longrightarrow>
   fits (vec_serde WireIndividual_serde) (wt_referenced_type_descriptions x) \<Longrightarrow> fits WireTypeDescription_serde x"
  by (simp add: fits_def WireTypeDescription_serde_def)

lemma fits_key_value: "wire_text (wkv_key x) \<Longrightarrow> wire_text (wkv_value x) \<Longrightarrow> fits WireKeyValue_serde x"
  using fits_string [of "wkv_key x"] fits_string [of "wkv_value x"] by (simp add: fits_def WireKeyValue_serde_def)

lemma fits_request: "wire_text (gr_type_name x) \<Longrightarrow> wire_text (gr_type_hash x) \<Longrightarrow> fits Request_serde x"
  using fits_string [of "gr_type_name x"] fits_string [of "gr_type_hash x"] by (simp add: fits_def Request_serde_def)

lemma fits_response:
  "wire_text (gs_failure_reason x) \<Longrightarrow> fits WireTypeDescription_serde (gs_type_description x) \<Longrightarrow>
   fits (vec_serde WireTypeSource_serde) (gs_type_sources x) \<Longrightarrow>
   fits (vec_serde WireKeyValue_serde) (gs_extra_information x) \<Longrightarrow> fits Response_serde x"
  using fits_string [of "gs_failure_reason x"] by (simp add: fits_def Response_serde_def)

text \<open>The descriptions that can be sent: texts of the wire format, and sequences within the limit of the reader.\<close>

definition sendable_field :: "FieldDescription \<Rightarrow> bool" where
  "sendable_field f \<longleftrightarrow> wire_text (fd_name f) \<and> wire_text (fd_default_value f) \<and>
     wire_text (ftd_nested_type_name (fd_field_type f))"

definition sendable_description :: "TypeDescription \<Rightarrow> bool" where
  "sendable_description td \<longleftrightarrow> wire_text (td_type_name td) \<and> length (td_fields td) \<le> 100000000 \<and>
     list_all sendable_field (td_fields td)"

definition sendable :: "TypeDescriptionMsg \<Rightarrow> bool" where
  "sendable m \<longleftrightarrow> sendable_description (tdm_type_description m) \<and> length (tdm_referenced m) \<le> 100000000 \<and>
     list_all sendable_description (tdm_referenced m)"

definition msg_to_wire :: "TypeDescriptionMsg \<Rightarrow> WireTypeDescription" where
  "msg_to_wire m = \<lparr>wt_type_description = individual_to_wire (tdm_type_description m),
     wt_referenced_type_descriptions = map individual_to_wire (tdm_referenced m)\<rparr>"

lemma fits_individual_to_wire: "sendable_description td \<Longrightarrow> fits WireIndividual_serde (individual_to_wire td)"
  by (auto simp: sendable_description_def sendable_field_def individual_to_wire_def list_all_iff field_to_wire_def
      intro!: fits_wire_individual fits_vec fits_wire_field)

lemma fits_msg_to_wire: "sendable m \<Longrightarrow> fits WireTypeDescription_serde (msg_to_wire m)"
  by (auto simp: sendable_def msg_to_wire_def list_all_iff
      intro!: fits_wire_type_description fits_vec fits_individual_to_wire)

lemma wire_field_back [simp]: "wire_to_schema_field (field_to_wire f) = f"
  by (simp add: wire_to_schema_field_def field_to_wire_def)

lemma wire_individual_back [simp]: "wire_to_schema_individual (individual_to_wire td) = td"
  by (simp add: wire_to_schema_individual_def individual_to_wire_def comp_def)

lemma wire_back [simp]: "wire_to_schema_type_description (msg_to_wire m) = m"
  by (simp add: wire_to_schema_type_description_def msg_to_wire_def comp_def)

section \<open>Names\<close>

lemma str_replace_past:
  assumes "pat = p # ps" and "p \<notin> set s"
  shows "str_replace pat r (s @ t) = s @ str_replace pat r t"
  using assms(2) by (induction s) (auto simp: assms(1))

lemma str_replace_none: "pat = p # ps \<Longrightarrow> p \<notin> set s \<Longrightarrow> str_replace pat r s = s"
  using str_replace_past [of pat p ps s r "[]"] by simp

lemma str_replace_hit:
  assumes "pat = p # ps"
  shows "str_replace pat r (pat @ t) = r @ str_replace pat r t"
  using assms by simp

text \<open>A ROS message name: a package and a name without separators, and the name does not end in an underscore.\<close>

definition topic_type_name :: "string \<Rightarrow> bool" where
  "topic_type_name tn \<longleftrightarrow> (case split_on CHR ''/'' tn of
     [p, k, n] \<Rightarrow> k = ''msg'' \<and> CHR '':'' \<notin> set p \<and> CHR '':'' \<notin> set n \<and> n \<noteq> [] \<and> last n \<noteq> CHR ''_''
   | _ \<Rightarrow> False)"

lemma trim_end_matches_once: "n \<noteq> [] \<Longrightarrow> last n \<noteq> c \<Longrightarrow> trim_end_matches c (n @ [c]) = n"
  by (cases n rule: rev_cases) (auto simp: trim_end_matches_def)

lemma normalize_dds_type_name:
  assumes "topic_type_name tn"
  shows "normalize_type_name (dds_type_name tn) = tn"
proof -
  from assms obtain p n where sp: "split_on CHR ''/'' tn = [p, ''msg'', n]"
    and c: "CHR '':'' \<notin> set p" "CHR '':'' \<notin> set n" and n: "n \<noteq> []" "last n \<noteq> CHR ''_''"
    by (auto simp: topic_type_name_def split: list.splits)
  have tn: "tn = p @ ''/msg/'' @ n"
    using join_split [of "CHR ''/''" tn] sp by simp
  have sl: "CHR ''/'' \<notin> set p" "CHR ''/'' \<notin> set n"
    using split_on_no_sep [of _ "CHR ''/''" tn] sp by auto
  let ?d = "p @ ''::msg::dds_::'' @ n"
  have "str_replace ''/msg/'' ''::msg::dds_::'' tn = ?d"
    unfolding tn
    using sl by (simp only: str_replace_past [OF refl] str_replace_hit [OF refl] str_replace_none [OF refl] simp_thms)
  moreover have "CHR ''/'' \<notin> set ?d" using sl by simp
  ultimately have d: "dds_type_name tn = ?d @ ''_''"
    unfolding dds_type_name_def by (simp only: str_replace_none [OF refl] simp_thms)
  have "CHR '':'' \<notin> set (n @ ''_'')" using c by simp
  then have "str_replace ''::msg::dds_::'' ''/msg/'' (?d @ ''_'') = p @ ''/msg/'' @ (n @ ''_'')"
    using c(1)
    by (simp only: append_assoc str_replace_past [OF refl] str_replace_hit [OF refl] str_replace_none [OF refl] simp_thms)
  moreover have "CHR '':'' \<notin> set (p @ ''/msg/'' @ (n @ ''_''))" using c by simp
  ultimately have "normalize_type_name (dds_type_name tn) = trim_end_matches CHR ''_'' ((p @ ''/msg/'' @ n) @ ''_'')"
    unfolding normalize_type_name_def d
    by (simp only: str_replace_none [OF refl] append_assoc simp_thms)
  also have "\<dots> = p @ ''/msg/'' @ n"
    using n by (intro trim_end_matches_once) simp_all
  finally show ?thesis by (simp only: tn)
qed

text \<open>The hash that a publisher announces is the one that the service computes.\<close>

lemma announced_hash:
  assumes "\<not> feat_no_type_hash Z" and "length h = 32" and "he_hex_encode H h = concat (map show_hex2 h)"
  shows "to_rihs_string Z (unwrap_or (from_rihs_string (hash_to_rihs_string H h)) type_hash_zero) =
    hash_to_rihs_string H h"
proof -
  let ?h = "\<lparr>version = 1, hash_value = h\<rparr>"
  have "to_rihs_string Z ?h = hash_to_rihs_string H h"
    using assms by (simp add: to_rihs_string_def hash_to_rihs_string_def)
  moreover from this have "from_rihs_string (hash_to_rihs_string H h) = Some ?h"
    using rihs_roundtrip [of Z ?h] assms by simp
  ultimately show ?thesis by simp
qed

section \<open>Keys\<close>

lemma service_name_qualified:
  assumes "qualify_service_name ''~get_type_description'' ns n = Ok t"
  shows "qualify_service_name (tdc_service_name n ns) [] ''type_desc_client'' = Ok t"
proof -
  have v: "validate_namespace ns = Ok ()" "validate_node_name n = Ok ()"
    and q: "qualify_private ''get_type_description'' (normalize_namespace ns) n = Ok t"
    using assms by (auto simp: qualify_service_name_def qualify_topic_name_def bind_result_eq_Ok strip_prefix_def Let_def
        starts_with_def split: if_splits)
  have g: "is_valid_topic_component ''get_type_description''" by code_simp
  then have "first_invalid [''get_type_description''] = None" by (simp add: first_invalid_None del: is_valid_topic_component.simps)
  moreover have "split_on CHR ''/'' ''get_type_description'' = [''get_type_description'']" by simp
  ultimately have t: "t = (if normalize_namespace ns = [] \<or> normalize_namespace ns = ''/''
      then ''/'' @ n @ ''/'' @ ''get_type_description''
      else normalize_namespace ns @ ''/'' @ n @ ''/'' @ ''get_type_description'')"
    using q by (auto simp: qualify_private_def strip_prefix_def starts_with_def Let_def)
  let ?x = "tdc_service_name n ns"
  have ends: "strip_suffix ''/'' ?x = None"
    by (auto simp: strip_suffix_def strip_prefix_def tdc_service_name_def)
  have client: "validate_namespace [] = Ok ()" "validate_node_name ''type_desc_client'' = Ok ()" by code_simp+
  show ?thesis
  proof (cases "ns = [] \<or> starts_with ''/'' ns")
    case True
    then have "starts_with ''/'' ?x" by (cases ns) (auto simp: tdc_service_name_def starts_with_def)
    then have "qualify_service_name ?x [] ''type_desc_client'' = qualify_absolute ?x"
      using client by (auto simp: qualify_service_name_def qualify_topic_name_def Let_def starts_with_def)
    also have "\<dots> = Ok ?x" using ends by (auto simp: qualify_absolute_def tdc_service_name_def)
    finally show ?thesis
      using True by (cases ns) (auto simp: t tdc_service_name_def normalize_namespace_def starts_with_def)
  next
    case False
    then obtain c r where ns: "ns = c # r" "c \<noteq> CHR ''/''" by (cases ns) (auto simp: starts_with_def)
    then have sl: "ns \<noteq> ''/''" by auto
    have x: "?x = ns @ CHR ''/'' # n @ CHR ''/'' # ''get_type_description''"
      using ns sl by (simp add: tdc_service_name_def)
    have inv: "first_invalid (split_on CHR ''/'' ns) = None"
      using v(1) ns sl by (auto simp: validate_namespace_def split: if_splits option.splits)
    have "c \<noteq> CHR ''~''"
    proof
      assume "c = CHR ''~''"
      moreover obtain p ps where sp: "split_on CHR ''/'' r = p # ps" by (cases "split_on CHR ''/'' r") auto
      ultimately have "split_on CHR ''/'' ns = (CHR ''~'' # p) # ps" using ns by simp
      then show False using inv by (simp add: first_invalid_None is_ascii_alphabetic_def)
    qed
    then have rel: "strip_prefix ''~'' ?x = None" "\<not> starts_with ''/'' ?x"
      unfolding x using ns by (auto simp: strip_prefix_def starts_with_def)
    have "first_invalid (split_on CHR ''/'' ?x) = None"
      using inv node_name_parts [OF v(2)] g
      by (auto simp: x split_on_slash first_invalid_None list_all_iff simp del: is_valid_topic_component.simps)
    then have "qualify_service_name ?x [] ''type_desc_client'' = Ok (''/'' @ ?x)"
      using client rel ends
      by (auto simp: qualify_service_name_def qualify_topic_name_def qualify_relative_def Let_def normalize_namespace_def x)
    moreover have "''/'' @ ?x = t"
      unfolding x using False ns by (auto simp: t normalize_namespace_def starts_with_def)
    ultimately show ?thesis by simp
  qed
qed

text \<open>
  C16.  The service of a node and the client that looks for it meet: whenever the service and the
  client for the node's name and namespace can be created, the client asks on the key on which the
  service answers, whatever the spelling of the namespace.
\<close>

theorem discovery_keys_match:
  assumes "tds_new Z se n ns nid counter1 = (Ok (service, server), counter1')"
    and "create_client Z se' (tdc_service_name n ns) [] counter2 = (Ok client, counter2')"
  shows "zc_key_expr client = zv_key_expr server"
proof -
  obtain t i x where t: "qualify_service_name ''~get_type_description'' ns n = Ok t"
    and s: "fmt_topic_key_expr Z RmwZenoh ((tds_entity (so_zid se) n ns nid i)\<lparr>topic := t\<rparr>) = Ok x"
    and x: "zv_key_expr server = topic_ke_str x"
    using assms(1)
    by (auto simp: tds_new_def server_build_with_callback_def server_build_internal_def bind_result_eq_Ok
        map_ok_eq_Ok qualify_service_entity_def tds_entity_def node_entity_new_def zenoh_result_def Let_def
        counter_increment_def
        split: result.splits)
  note t' = service_name_qualified [OF t]
  obtain i' nid' y where
    c: "fmt_topic_key_expr Z RmwZenoh ((tdc_entity (so_zid se') (tdc_service_name n ns) [] nid' i')\<lparr>topic := t\<rparr>) = Ok y"
    and y: "zc_key_expr client = topic_ke_str y"
    using assms(2) t'
    by (auto simp: create_client_def client_build_def bind_result_eq_Ok
        qualify_service_entity_def tdc_entity_def node_entity_new_def zenoh_result_def Let_def
        counter_increment_def
        split: result.splits)
  from s c have "x = y"
    by (simp add: fmt_topic_key_expr_def rmw_topic_key_expr_def tds_entity_def tdc_entity_def node_entity_new_def
        Let_def split: if_splits)
  with x y show ?thesis by simp
qed


section \<open>Asking for a schema\<close>

lemma ascii_wire_text:
  assumes "list_all (\<lambda>c. of_char c < (128 :: nat)) s" and "length s + 1 < 2 ^ 32"
  shows "wire_text s"
proof -
  have "(of_char c :: u8) < 0x80" if "c \<in> set s" for c
  proof -
    have "(of_char c :: u8) = of_nat (of_char c)" by (simp add: of_nat_of_char)
    then show ?thesis using assms(1) that by (auto simp: word_less_nat_alt unat_of_nat list_all_iff)
  qed
  then show ?thesis
    using assms(2) by (auto simp: wire_text_def is_str_def str_bytes_def list_all_iff intro!: ascii_utf8)
qed

lemma rihs_ascii:
  assumes "he_hex_encode H h = concat (map show_hex2 h)" and "length h = 32"
  shows "list_all (\<lambda>c. of_char c < (128 :: nat)) (hash_to_rihs_string H h)"
    and "length (hash_to_rihs_string H h) = 71"
  using hex_char_ascii nibble_less
  by (auto simp: hash_to_rihs_string_def assms list_all_iff show_hex2_def length_concat_hex)

lemma rihs_wire_text:
  assumes "he_hex_encode H h = concat (map show_hex2 h)" and "length h = 32"
  shows "wire_text (hash_to_rihs_string H h)"
  using rihs_ascii [OF assms] by (intro ascii_wire_text) simp_all

text \<open>What the service answers: the description of a schema, or that the hashes differ.\<close>

definition answers ::
    "'b zbuf_ops \<Rightarrow> byte_order \<Rightarrow> (message \<Rightarrow> string) \<Rightarrow> TypeDescriptionService \<Rightarrow> GetTypeDescriptionRequest \<Rightarrow>
     GetTypeDescriptionResponse \<Rightarrow> bool" where
  "answers Zb LE show_msg S req response \<longleftrightarrow>
     (\<forall>q p. qu_payload q = Some p \<longrightarrow> cdr_deserialize LE Request_serde p = Ok req \<longrightarrow>
        (\<exists>a. handle_query Zb LE show_msg S q = Ok (Some a) \<and> cdr_deserialize LE Response_serde a = Ok response))"

lemma answersI:
  assumes "shm_env_laws Zb E" and "byte_order_laws LE"
    and "build_response show_msg S req = Ok response" and "fits Response_serde response"
  shows "answers Zb LE show_msg S req response"
proof -
  obtain b where "cdr_serialize Zb LE Response_serde response = Ok b"
    "cdr_deserialize LE Response_serde (vec_data b) = Ok response"
    using assms(1,2,4) by (rule cdr_serialize_ok)
  then show ?thesis using assms(3) by (simp add: answers_def handle_query_def)
qed

definition success_response :: "TypeDescriptionMsg \<Rightarrow> GetTypeDescriptionResponse" where
  "success_response m = \<lparr>gs_successful = True, gs_failure_reason = [], gs_type_description = msg_to_wire m,
     gs_type_sources = [], gs_extra_information = [\<lparr>wkv_key = ''ros_z_version'', wkv_value = ''0.1.0''\<rparr>]\<rparr>"

lemma answered:
  assumes "shm_env_laws Zb E" and "byte_order_laws LE"
    and "to_type_description_msg s = Ok m" and "sendable m"
    and "\<not> tds_poisoned S" and "tds_schemas S (gr_type_name req) = Some r" and "rs_schema r = s"
    and "gr_type_hash req = [] \<or> gr_type_hash req = rs_type_hash r"
    and "\<not> gr_include_type_sources req"
  shows "answers Zb LE show_msg S req (success_response m)"
proof (rule answersI [OF assms(1,2)])
  have "schema_to_wire_type_description s = Ok (msg_to_wire m)"
    by (simp add: schema_to_wire_type_description_def assms(3) msg_to_wire_def)
  then show "build_response show_msg S req = Ok (success_response m)"
    using assms(5-9) by (auto simp: build_response_def success_response_def)
  have "wire_text ''ros_z_version''" "wire_text ''0.1.0''" "wire_text []"
    by (rule ascii_wire_text; simp)+
  then show "fits Response_serde (success_response m)"
    unfolding success_response_def
    by (intro fits_response fits_vec) (simp_all add: fits_key_value fits_msg_to_wire [OF assms(4)])
qed

definition mismatch :: "string \<Rightarrow> string \<Rightarrow> string" where
  "mismatch expected got = ''Type hash mismatch: expected '' @ expected @ '', got '' @ got"

lemma refused:
  assumes "shm_env_laws Zb E" and "byte_order_laws LE"
    and "\<not> tds_poisoned S" and "tds_schemas S (gr_type_name req) = Some r"
    and "gr_type_hash req \<noteq> []" and "gr_type_hash req \<noteq> rs_type_hash r"
    and "wire_text (mismatch (rs_type_hash r) (gr_type_hash req))"
  shows "answers Zb LE show_msg S req (failure_response (mismatch (rs_type_hash r) (gr_type_hash req)))"
proof (rule answersI [OF assms(1,2)])
  show "build_response show_msg S req = Ok (failure_response (mismatch (rs_type_hash r) (gr_type_hash req)))"
    using assms(3-6) by (simp add: build_response_def mismatch_def)
  have "wire_text []" by (rule ascii_wire_text) simp_all
  then have "fits WireTypeDescription_serde wire_type_description_default"
    unfolding wire_type_description_default_def
    by (intro fits_wire_type_description) (simp_all add: fits_wire_individual fits_vec)
  then show "fits Response_serde (failure_response (mismatch (rs_type_hash r) (gr_type_hash req)))"
    using assms(7) by (intro fits_response) (simp_all add: failure_response_def fits_vec)
qed

text \<open>One question to one node, the network carrying the query to its service.\<close>

definition carries_queries ::
    "'b zbuf_ops \<Rightarrow> byte_order \<Rightarrow> (message \<Rightarrow> string) \<Rightarrow> TypeDescriptionService \<Rightarrow> 'i ZClient \<Rightarrow> (query \<Rightarrow> bytes option) \<Rightarrow> bool" where
  "carries_queries Zb LE show_msg S c net \<longleftrightarrow>
     (\<forall>q b. qu_key_expr q = zc_key_expr c \<longrightarrow> handle_query Zb LE show_msg S q = Ok (Some b) \<longrightarrow> net q = Some b)"

lemma new_client_empty: "create_client Z se service ns counter = (Ok c, counter') \<Longrightarrow> zc_rx c = []"
  by (auto simp: create_client_def client_build_def bind_result_eq_Ok counter_increment_def Let_def
      split: result.splits)

lemma asked:
  assumes "shm_env_laws Zb E" and "byte_order_laws LE"
    and "answers Zb LE show_msg S req response"
    and "wire_text (gr_type_name req)" and "wire_text (gr_type_hash req)"
    and "create_client Z se (tdc_service_name n ns) [] counter = (Ok c, counter')"
    and "carries_queries Zb LE show_msg S c net"
  shows "get_type_description Z se A Zb LE net now n ns req counter = (Ok response, counter')"
proof -
  have "fits Request_serde req" using assms(4,5) by (rule fits_request)
  from assms(1,2) this obtain b where b: "cdr_serialize Zb LE Request_serde req = Ok b"
    "cdr_deserialize LE Request_serde (vec_data b) = Ok req" by (rule cdr_serialize_ok)
  define q where "q = \<lparr>qu_key_expr = zc_key_expr c, qu_payload = Some (vec_data b),
     qu_attachment = Some (attachment_to_bytes A (attachment_new now (zc_sn c) (zc_gid c)))\<rparr>"
  have send: "send_request A (cdr_serialize Zb LE Request_serde) now req c = (Ok q, c\<lparr>zc_sn := zc_sn c + 1\<rparr>)"
    by (simp add: send_request_def b(1) client_attachment_def q_def)
  have "qu_payload q = Some (vec_data b)" "qu_key_expr q = zc_key_expr c" by (simp_all add: q_def)
  then obtain a where a: "net q = Some a" "cdr_deserialize LE Response_serde a = Ok response"
    using assms(3,7) b(2) unfolding answers_def carries_queries_def by metis
  have "take_response_timeout (cdr_deserialize LE Response_serde) (net q) (c\<lparr>zc_sn := zc_sn c + 1\<rparr>) =
      (Ok response, c\<lparr>zc_sn := zc_sn c + 1\<rparr>)"
    using new_client_empty [OF assms(6)] a
    by (simp add: take_response_timeout_def take_sample_timeout_def andthen_def deserialize_response_def)
  then show ?thesis
    using assms(6) send by (simp add: get_type_description_def andthen_def)
qed

text \<open>What a registration leaves in the table, and what a publisher with the schema announces.\<close>

lemma registered:
  assumes "hash_env_laws H" and "to_type_description_msg s = Ok m"
    and "tds_register_schema H s S0 = (Ok (), S)"
  obtains h where "compute_type_hash H s = Ok h" and "length h = 32" and "\<not> tds_poisoned S"
    and "tds_schemas S (ms_type_name s) = Some \<lparr>rs_schema = s, rs_type_hash = hash_to_rihs_string H h, rs_source = None\<rparr>"
proof -
  obtain h where h: "calculate_hash H m = (Ok h :: (bytes, DynamicError) result)" "length h = 32"
    using hash_env_laws.calculate_hash_length [OF assms(1)] by blast
  then have "compute_type_hash H s = Ok h" using assms(2) by (simp add: compute_type_hash_def)
  with h(2) assms(3) that [of h] show thesis
    by (auto simp: tds_register_schema_def registered_new_def tds_insert_def split: if_splits)
qed

lemma announced_type:
  assumes "entity_with_schema H s e0 = Ok e" and "type_info e0 = None" and "compute_type_hash H s = Ok h"
    and "topic_type_name (ms_type_name s)"
  obtains ti where "type_info e = Some ti" and "normalize_type_name (type_name ti) = ms_type_name s"
    and "type_hash ti = unwrap_or (from_rihs_string (hash_to_rihs_string H h)) type_hash_zero"
  using assms normalize_dds_type_name [OF assms(4)] that
  by (auto simp: entity_with_schema_def schema_type_info_def type_info_new_def)

text \<open>
  C15.  A schema is discovered, in builds with type hashes: when a node publishes with a schema that a
  description can express (three-part type names, no nested collections, one type for each name) and
  has registered it with its type description service, a client that finds the publisher in the graph,
  the first one listed for the topic, before its time is over, gets the schema together with the
  hash that the publisher announces.  The schema comes without default values, its hash field and the
  bounds of string elements.  That the network carries the client's query to the service and the
  reply back is a hypothesis.
\<close>

theorem schema_discovered:
  assumes "shm_env_laws Zb E" and "byte_order_laws LE" and "hash_env_laws H"
    and "\<And>bs. he_hex_encode H bs = concat (map show_hex2 bs)" and "\<not> feat_no_type_hash Z"
    and "ms_describable s" and "coherent s" and "to_type_description_msg s = Ok m" and "sendable m"
    and "topic_type_name (ms_type_name s)"
    and "entity_with_schema H s e0 = Ok e" and "type_info e0 = None"
    and "tds_register_schema H s S0 = (Ok (), S)"
    and "poll_publishers polls 0 6 = Endpoint e # ps" and "\<not> expired 0"
    and "create_client Z se (tdc_service_name (node_name (endpoint_node e)) (namespace (endpoint_node e))) [] counter =
      (Ok c, counter')"
    and "carries_queries Zb LE show_msg S c net"
  shows "\<exists>h. compute_type_hash H s = Ok h \<and>
    get_type_description_for_topic Z (get_type_description Z se A Zb LE net now) (Some polls) expired t counter =
      (Ok (strip_ms s, hash_to_rihs_string H h), counter')"
proof -
  from assms(3,8,13) obtain h where h: "compute_type_hash H s = Ok h" "length h = 32" "\<not> tds_poisoned S"
    and r: "tds_schemas S (ms_type_name s) =
      Some \<lparr>rs_schema = s, rs_type_hash = hash_to_rihs_string H h, rs_source = None\<rparr>"
    by (rule registered)
  obtain ti where ti: "type_info e = Some ti" "normalize_type_name (type_name ti) = ms_type_name s"
    and hash: "type_hash ti = unwrap_or (from_rihs_string (hash_to_rihs_string H h)) type_hash_zero"
    using assms(11,12) h(1) assms(10) by (rule announced_type)
  have hs: "to_rihs_string Z (type_hash ti) = hash_to_rihs_string H h"
    unfolding hash by (rule announced_hash [OF assms(5) h(2) assms(4)])
  let ?req = "\<lparr>gr_type_name = ms_type_name s, gr_type_hash = hash_to_rihs_string H h, gr_include_type_sources = False\<rparr>"
  let ?r = "\<lparr>rs_schema = s, rs_type_hash = hash_to_rihs_string H h, rs_source = None\<rparr>"
  have strip: "type_description_msg_to_schema m = Ok (strip_ms s)"
    using described_schema_back [OF assms(6,7)] assms(8) by simp
  have "td_type_name (tdm_type_description m) = ms_type_name s"
    using assms(8) by (auto simp: to_type_description_msg_def bind_result_eq_Ok Let_def describe_name split: prod.splits)
  then have wt: "wire_text (ms_type_name s)" "wire_text (hash_to_rihs_string H h)"
    using assms(9) rihs_wire_text [OF assms(4) h(2)] by (simp_all add: sendable_def sendable_description_def)
  have "answers Zb LE show_msg S ?req (success_response m)"
    using answered [OF assms(1,2,8,9) h(3), where req = ?req and r = ?r] r by simp
  from asked [OF assms(1,2) this _ _ assms(16,17)] wt
  have "get_type_description Z se A Zb LE net now (node_name (endpoint_node e)) (namespace (endpoint_node e)) ?req counter =
      (Ok (success_response m), counter')" by simp
  moreover have "response_to_schema (success_response m) = Ok (strip_ms s)" "gs_successful (success_response m)"
    using strip by (simp_all add: response_to_schema_def success_response_def)
  ultimately show ?thesis
    using h(1) assms(14,15) ti hs by (simp add: get_type_description_for_topic_def andthen_def ret_def Let_def)
qed

text \<open>
  Without type hashes nothing is discovered: when the protocol crate is built for a ROS
  distribution without type hashes, the client passes the placeholder that publishers announce on
  as the hash it wants, and the service, which always has the real one, refuses to answer.
\<close>

theorem discovery_needs_type_hashes:
  assumes "shm_env_laws Zb E" and "byte_order_laws LE" and "hash_env_laws H"
    and "\<And>bs. he_hex_encode H bs = concat (map show_hex2 bs)" and "feat_no_type_hash Z"
    and "to_type_description_msg s = Ok m" and "topic_type_name (ms_type_name s)" and "wire_text (ms_type_name s)"
    and "entity_with_schema H s e0 = Ok e" and "type_info e0 = None"
    and "tds_register_schema H s S0 = (Ok (), S)"
    and "poll_publishers polls 0 6 = [Endpoint e]" and "\<not> expired 0"
    and "create_client Z se (tdc_service_name (node_name (endpoint_node e)) (namespace (endpoint_node e))) [] counter =
      (Ok c, counter')"
    and "carries_queries Zb LE show_msg S c net"
  shows "\<exists>h. compute_type_hash H s = Ok h \<and>
    get_type_description_for_topic Z (get_type_description Z se A Zb LE net now) (Some polls) expired t counter =
      (Err (TdcDynamic (SerializationError (Text (mismatch (hash_to_rihs_string H h) ''TypeHashNotSupported'')))), counter')"
proof -
  from assms(3,6,11) obtain h where h: "compute_type_hash H s = Ok h" "length h = 32" "\<not> tds_poisoned S"
    and r: "tds_schemas S (ms_type_name s) =
      Some \<lparr>rs_schema = s, rs_type_hash = hash_to_rihs_string H h, rs_source = None\<rparr>"
    by (rule registered)
  obtain ti where ti: "type_info e = Some ti" "normalize_type_name (type_name ti) = ms_type_name s"
    using assms(9,10) h(1) assms(7) by (rule announced_type)
  have hs: "to_rihs_string Z (type_hash ti) = ''TypeHashNotSupported''"
    using assms(5) by (simp add: to_rihs_string_def)
  let ?req = "\<lparr>gr_type_name = ms_type_name s, gr_type_hash = ''TypeHashNotSupported'', gr_include_type_sources = False\<rparr>"
  let ?r = "\<lparr>rs_schema = s, rs_type_hash = hash_to_rihs_string H h, rs_source = None\<rparr>"
  let ?reason = "mismatch (hash_to_rihs_string H h) ''TypeHashNotSupported''"
  have wt: "wire_text ''TypeHashNotSupported''" by (rule ascii_wire_text) simp_all
  have "wire_text ?reason"
    using rihs_ascii [OF assms(4) h(2)] by (intro ascii_wire_text) (simp_all add: mismatch_def)
  moreover have "''TypeHashNotSupported'' \<noteq> hash_to_rihs_string H h" by (simp add: hash_to_rihs_string_def)
  ultimately have "answers Zb LE show_msg S ?req (failure_response ?reason)"
    using refused [OF assms(1,2) h(3), where req = ?req and r = ?r] r by simp
  from asked [OF assms(1,2) this _ _ assms(14,15)] wt assms(8)
  have "get_type_description Z se A Zb LE net now (node_name (endpoint_node e)) (namespace (endpoint_node e)) ?req counter =
      (Ok (failure_response ?reason), counter')" by simp
  then show ?thesis
    using h(1) assms(12,13) ti hs
    by (simp add: get_type_description_for_topic_def andthen_def ret_def Let_def failure_response_def)
qed

text \<open>A Zenoh and a session that accept everything, and a text message.\<close>

definition open_zenoh :: "bool \<Rightarrow> u64 zenoh_ops" where
  "open_zenoh no_hash = \<lparr>ke_accepts = (\<lambda>_. True), zid_show = (\<lambda>_. ''7''), zid_parse = (\<lambda>_. Some 7),
     feat_no_type_hash = no_hash, feat_rmw_zenoh = True, feat_ros2dds = True\<rparr>"

definition sample_session :: "u64 session_ops" where
  "sample_session = \<lparr>so_zid = 7, so_declare = (\<lambda>_. Ok ()), so_declare_token = (\<lambda>_. Ok ()),
     so_zid_bytes = (\<lambda>_. []), so_sha256 = (\<lambda>_. replicate 32 0)\<rparr>"

definition sample_text_schema :: MessageSchema where
  "sample_text_schema = MessageSchema ''std_msgs/msg/String'' ''std_msgs'' ''String''
     [FieldSchema ''data'' FT_String None] None"

definition sample_text_msg :: TypeDescriptionMsg where
  "sample_text_msg = \<lparr>tdm_type_description = \<lparr>td_type_name = ''std_msgs/msg/String'',
     td_fields = [\<lparr>fd_name = ''data'', fd_field_type = ftd_primitive 17, fd_default_value = []\<rparr>]\<rparr>,
     tdm_referenced = []\<rparr>"

lemma sample_text:
  "ms_describable sample_text_schema" "coherent sample_text_schema"
  "to_type_description_msg sample_text_schema = Ok sample_text_msg" "sendable sample_text_msg"
  "topic_type_name (ms_type_name sample_text_schema)"
proof -
  show "ms_describable sample_text_schema" "coherent sample_text_schema"
    by (simp_all add: sample_text_schema_def coherent_def)
  show "to_type_description_msg sample_text_schema = Ok sample_text_msg" by code_simp
  show "sendable sample_text_msg"
    by (simp add: sendable_def sendable_description_def sendable_field_def sample_text_msg_def ftd_primitive_def
        ascii_wire_text)
  show "topic_type_name (ms_type_name sample_text_schema)"
    by (simp add: topic_type_name_def sample_text_schema_def)
qed

definition sample_talker :: "u64 EndpointEntity" where
  "sample_talker = \<lparr>endpoint_id = 1, endpoint_node = node_entity_new 0 7 0 ''talker'' ''/demo'' [],
     endpoint_kind = EK_Publisher, topic = ''/chatter'', type_info = None, endpoint_qos = qos_default\<rparr>"

lemma sample_client_created:
  obtains c where "create_client (open_zenoh no_hash) sample_session (tdc_service_name ''talker'' ''/demo'') [] 3 = (Ok c, 5)"
proof -
  have "qualify_service_name (tdc_service_name ''talker'' ''/demo'') [] ''type_desc_client'' =
      Ok ''/demo/talker/get_type_description''" by code_simp
  then have "\<exists>c. create_client (open_zenoh no_hash) sample_session (tdc_service_name ''talker'' ''/demo'') [] 3 = (Ok c, 5)"
    by (simp add: create_client_def client_build_def qualify_service_entity_def tdc_entity_def node_entity_new_def
        zenoh_result_def fmt_topic_key_expr_def fmt_liveliness_key_expr_def rmw_topic_key_expr_def
        rmw_liveliness_key_expr_def ke_try_from_def open_zenoh_def sample_session_def counter_increment_def Let_def)
  with that show thesis by blast
qed

lemma sample_service_created:
  "\<exists>service server. tds_new (open_zenoh no_hash) sample_session ''talker'' ''/demo'' 0 2 = (Ok (service, server), 3)"
proof -
  have "qualify_service_name ''~get_type_description'' ''/demo'' ''talker'' =
      Ok ''/demo/talker/get_type_description''" by code_simp
  then show ?thesis
    by (simp add: tds_new_def server_build_with_callback_def server_build_internal_def qualify_service_entity_def
        tds_entity_def node_entity_new_def zenoh_result_def fmt_topic_key_expr_def fmt_liveliness_key_expr_def
        rmw_topic_key_expr_def rmw_liveliness_key_expr_def ke_try_from_def open_zenoh_def sample_session_def
        counter_increment_def Let_def)
qed

theorem discovery_keys_match_witness:
  "\<exists>service server client. tds_new (open_zenoh False) sample_session ''talker'' ''/demo'' 0 2 = (Ok (service, server), 3) \<and>
     create_client (open_zenoh False) sample_session (tdc_service_name ''talker'' ''/demo'') [] 3 = (Ok client, 5) \<and>
     zc_key_expr client = zv_key_expr server"
proof -
  obtain service server where
    "tds_new (open_zenoh False) sample_session ''talker'' ''/demo'' 0 2 = (Ok (service, server), 3)"
    using sample_service_created by blast
  moreover obtain c where
    "create_client (open_zenoh False) sample_session (tdc_service_name ''talker'' ''/demo'') [] 3 = (Ok c, 5)"
    by (rule sample_client_created)
  ultimately show ?thesis using discovery_keys_match by blast
qed

definition sample_network :: "TypeDescriptionService \<Rightarrow> query \<Rightarrow> bytes option" where
  "sample_network S q = (case handle_query list_zbuf LittleEndian (\<lambda>_. []) S q of Ok r \<Rightarrow> r | _ \<Rightarrow> None)"

definition sample_service :: TypeDescriptionService where
  "sample_service = snd (tds_register_schema sample_hash_env sample_text_schema \<lparr>tds_schemas = Map.empty, tds_poisoned = False\<rparr>)"

definition announced_talker :: "u64 EndpointEntity" where
  "announced_talker = (case entity_with_schema sample_hash_env sample_text_schema sample_talker of Ok e \<Rightarrow> e | _ \<Rightarrow> sample_talker)"

lemma sample_hashed:
  obtains h where "compute_type_hash sample_hash_env sample_text_schema = Ok h"
proof -
  obtain h where "calculate_hash sample_hash_env sample_text_msg = (Ok h :: (bytes, DynamicError) result)"
    using sh.calculate_hash_length by blast
  then have "compute_type_hash sample_hash_env sample_text_schema = Ok h"
    by (simp add: compute_type_hash_def sample_text(3))
  then show thesis by (rule that)
qed

lemma sample_announced:
  "entity_with_schema sample_hash_env sample_text_schema sample_talker = Ok announced_talker"
  "tds_register_schema sample_hash_env sample_text_schema \<lparr>tds_schemas = Map.empty, tds_poisoned = False\<rparr> = (Ok (), sample_service)"
  "endpoint_node announced_talker = node_entity_new 0 7 0 ''talker'' ''/demo'' []"
proof -
  obtain h where h: "compute_type_hash sample_hash_env sample_text_schema = Ok h" by (rule sample_hashed)
  then show "tds_register_schema sample_hash_env sample_text_schema \<lparr>tds_schemas = Map.empty, tds_poisoned = False\<rparr> = (Ok (), sample_service)"
    by (simp add: sample_service_def tds_register_schema_def registered_new_def tds_insert_def)
  show "entity_with_schema sample_hash_env sample_text_schema sample_talker = Ok announced_talker"
    "endpoint_node announced_talker = node_entity_new 0 7 0 ''talker'' ''/demo'' []"
    using h by (simp_all add: announced_talker_def entity_with_schema_def schema_type_info_def sample_talker_def)
qed

theorem schema_discovered_witness:
  "\<exists>hash. get_type_description_for_topic (open_zenoh False)
      (get_type_description (open_zenoh False) sample_session sample_att_env list_zbuf LittleEndian
        (sample_network sample_service) None)
      (Some (\<lambda>k. if k < 2 then [] else [Endpoint announced_talker])) (\<lambda>_. False) ''/chatter'' 3 =
    (Ok (strip_ms sample_text_schema, hash), 5)"
proof -
  let ?polls = "\<lambda>k :: nat. if k < 2 then [] else [Endpoint announced_talker]"
  obtain c where c: "create_client (open_zenoh False) sample_session (tdc_service_name ''talker'' ''/demo'') [] 3 = (Ok c, 5)"
    by (rule sample_client_created)
  have c': "create_client (open_zenoh False) sample_session (tdc_service_name (node_name (endpoint_node announced_talker))
      (namespace (endpoint_node announced_talker))) [] 3 = (Ok c, 5)"
    using c by (simp add: sample_announced(3) node_entity_new_def)
  have net: "carries_queries list_zbuf LittleEndian (\<lambda>_. []) sample_service c (sample_network sample_service)"
    by (simp add: carries_queries_def sample_network_def)
  have polls: "poll_publishers ?polls 0 6 = [Endpoint announced_talker]" by (simp add: eval_nat_numeral)
  have hex: "he_hex_encode sample_hash_env bs = concat (map show_hex2 bs)" for bs by (simp add: sample_hash_env_def)
  have "type_info sample_talker = None" "\<not> feat_no_type_hash (open_zenoh False)"
    by (simp_all add: sample_talker_def open_zenoh_def)
  then show ?thesis
    using schema_discovered [OF ssh.shm_env_laws_axioms le.byte_order_laws_axioms sh.hash_env_laws_axioms hex _
      sample_text sample_announced(1) _ sample_announced(2) polls _ c' net, of "\<lambda>_. False" sample_att_env None "''/chatter''"]
    by blast
qed

theorem discovery_needs_type_hashes_witness:
  "\<exists>reason. get_type_description_for_topic (open_zenoh True)
      (get_type_description (open_zenoh True) sample_session sample_att_env list_zbuf LittleEndian
        (sample_network sample_service) None)
      (Some (\<lambda>k. if k < 2 then [] else [Endpoint announced_talker])) (\<lambda>_. False) ''/chatter'' 3 =
    (Err (TdcDynamic (SerializationError (Text reason))), 5)"
proof -
  let ?polls = "\<lambda>k :: nat. if k < 2 then [] else [Endpoint announced_talker]"
  obtain c where c: "create_client (open_zenoh True) sample_session (tdc_service_name ''talker'' ''/demo'') [] 3 = (Ok c, 5)"
    by (rule sample_client_created)
  have c': "create_client (open_zenoh True) sample_session (tdc_service_name (node_name (endpoint_node announced_talker))
      (namespace (endpoint_node announced_talker))) [] 3 = (Ok c, 5)"
    using c by (simp add: sample_announced(3) node_entity_new_def)
  have net: "carries_queries list_zbuf LittleEndian (\<lambda>_. []) sample_service c (sample_network sample_service)"
    by (simp add: carries_queries_def sample_network_def)
  have polls: "poll_publishers ?polls 0 6 = [Endpoint announced_talker]" by (simp add: eval_nat_numeral)
  have hex: "he_hex_encode sample_hash_env bs = concat (map show_hex2 bs)" for bs by (simp add: sample_hash_env_def)
  have "wire_text (ms_type_name sample_text_schema)" by (rule ascii_wire_text) (simp_all add: sample_text_schema_def)
  moreover have "type_info sample_talker = None" "feat_no_type_hash (open_zenoh True)"
    by (simp_all add: sample_talker_def open_zenoh_def)
  ultimately show ?thesis
    using discovery_needs_type_hashes [OF ssh.shm_env_laws_axioms le.byte_order_laws_axioms sh.hash_env_laws_axioms hex _
      sample_text(3,5) _ sample_announced(1) _ sample_announced(2) polls _ c' net, of "\<lambda>_. False" sample_att_env None "''/chatter''"]
    by blast
qed

end
