(* ===== verification/Action_Client.thy ===== *)
theory Action_Client
  imports Type_Service Action_State
begin

text \<open>
  \<^verbatim>\<open>client.rs\<close> and \<^verbatim>\<open>messages.rs\<close> of \<^verbatim>\<open>ros-z/src/action\<close>: the messages of an action on the wire, and
  the client with its board of goals, through which feedback and status messages find the handle of
  their goal.  The client's methods are asynchronous; a method is one definition for the part before
  it waits for a reply and one for the part after.
\<close>

section \<open>Messages\<close>

text \<open>The derived serde implementations; the goal, result and feedback types are parameters.\<close>

definition byte_of :: "sval \<Rightarrow> u8" where
  "byte_of v = (case v of SU8 b \<Rightarrow> b | _ \<Rightarrow> 0)"

definition goal_id_serde :: "GoalId serde_type" where
  "goal_id_serde = \<lparr>st_ser = (\<lambda>g. SNewtypeStruct (STuple (map SU8 (goal_id_bytes g)))),
     st_shape = DNewtypeStruct (DTuple (replicate 16 DU8)),
     st_de = (\<lambda>v. case v of SNewtypeStruct (STuple bs) \<Rightarrow> GoalId (map byte_of bs) | _ \<Rightarrow> GoalId [])\<rparr>"

definition time_serde :: "Time serde_type" where
  "time_serde = \<lparr>st_ser = (\<lambda>t. SStruct [SI32 (time_sec t), SU32 (time_nanosec t)]), st_shape = DStruct [DI32, DU32],
     st_de = (\<lambda>v. case v of SStruct [SI32 s, SU32 n] \<Rightarrow> \<lparr>time_sec = s, time_nanosec = n\<rparr> | _ \<Rightarrow> time_zero)\<rparr>"

definition goal_info_serde :: "GoalInfo serde_type" where
  "goal_info_serde =
     \<lparr>st_ser = (\<lambda>i. SStruct [st_ser goal_id_serde (gi_goal_id i), st_ser time_serde (gi_stamp i)]),
      st_shape = DStruct [st_shape goal_id_serde, st_shape time_serde],
      st_de = (\<lambda>v. case v of SStruct [a, b] \<Rightarrow> \<lparr>gi_goal_id = st_de goal_id_serde a, gi_stamp = st_de time_serde b\<rparr>
        | _ \<Rightarrow> \<lparr>gi_goal_id = GoalId [], gi_stamp = time_zero\<rparr>)\<rparr>"

definition pair_serde :: "'a serde_type \<Rightarrow> 'b serde_type \<Rightarrow> ('a \<times> 'b) serde_type" where
  "pair_serde A B = \<lparr>st_ser = (\<lambda>(x, y). SStruct [st_ser A x, st_ser B y]), st_shape = DStruct [st_shape A, st_shape B],
     st_de = (\<lambda>v. case v of SStruct [a, b] \<Rightarrow> (st_de A a, st_de B b) | _ \<Rightarrow> (st_de A v, st_de B v))\<rparr>"

definition single_serde :: "'a serde_type \<Rightarrow> 'a serde_type" where
  "single_serde A = \<lparr>st_ser = (\<lambda>x. SStruct [st_ser A x]), st_shape = DStruct [st_shape A],
     st_de = (\<lambda>v. case v of SStruct [a] \<Rightarrow> st_de A a | _ \<Rightarrow> st_de A v)\<rparr>"

definition i8_serde :: "i8 serde_type" where
  "i8_serde = \<lparr>st_ser = SI8, st_shape = DI8, st_de = (\<lambda>v. case v of SI8 x \<Rightarrow> x | _ \<Rightarrow> 0)\<rparr>"

text \<open>A goal with its id, a feedback with its goal, and the requests of the three services.\<close>

definition SendGoalRequest_serde :: "'g serde_type \<Rightarrow> (GoalId \<times> 'g) serde_type" where
  "SendGoalRequest_serde G = pair_serde goal_id_serde G"

definition FeedbackMessage_serde :: "'f serde_type \<Rightarrow> (GoalId \<times> 'f) serde_type" where
  "FeedbackMessage_serde F = pair_serde goal_id_serde F"

definition GetResultRequest_serde :: "GoalId serde_type" where
  "GetResultRequest_serde = single_serde goal_id_serde"

definition GetResultResponse_serde :: "'r serde_type \<Rightarrow> (i8 \<times> 'r) serde_type" where
  "GetResultResponse_serde R = pair_serde i8_serde R"

definition CancelGoalServiceRequest_serde :: "GoalInfo serde_type" where
  "CancelGoalServiceRequest_serde = single_serde goal_info_serde"

definition CancelGoalServiceResponse_serde :: "(i8 \<times> GoalInfo list) serde_type" where
  "CancelGoalServiceResponse_serde = pair_serde i8_serde (vec_serde goal_info_serde)"

record SendGoalResponse =
  sgr_accepted :: bool
  sgr_stamp_sec :: i32
  sgr_stamp_nanosec :: u32

definition SendGoalResponse_serde :: "SendGoalResponse serde_type" where
  "SendGoalResponse_serde =
     \<lparr>st_ser = (\<lambda>r. SStruct [SBool (sgr_accepted r), SI32 (sgr_stamp_sec r), SU32 (sgr_stamp_nanosec r)]),
      st_shape = DStruct [DBool, DI32, DU32],
      st_de = (\<lambda>v. case v of SStruct [SBool a, SI32 s, SU32 n] \<Rightarrow>
          \<lparr>sgr_accepted = a, sgr_stamp_sec = s, sgr_stamp_nanosec = n\<rparr>
        | _ \<Rightarrow> \<lparr>sgr_accepted = False, sgr_stamp_sec = 0, sgr_stamp_nanosec = 0\<rparr>)\<rparr>"

text \<open>
  A list of goals with their status codes.  \<^verbatim>\<open>GoalStatus\<close> is read through \<^verbatim>\<open>TryFrom<i8>\<close>, so a code that
  is no status makes the whole message undecodable.
\<close>

definition StatusMessage_serde :: "(GoalInfo \<times> i8) list serde_type" where
  "StatusMessage_serde = single_serde (vec_serde (pair_serde goal_info_serde i8_serde))"

definition decode_status_message :: "byte_order \<Rightarrow> bytes \<Rightarrow> ((GoalInfo \<times> GoalStatus) list, unit) result" where
  "decode_status_message LE bs = (case cdr_deserialize LE StatusMessage_serde bs of
       Ok xs \<Rightarrow> (case traverse (map (\<lambda>(i, s). map_ok (Pair i) (goal_status_try_from s)) xs) of
           Ok ys \<Rightarrow> Ok ys | _ \<Rightarrow> Err ())
     | Err _ \<Rightarrow> Err ()
     | Panic \<Rightarrow> Panic)"

section \<open>The client\<close>

text \<open>
  Channels are addresses.  A feedback channel holds what has been sent and not yet received; a status
  channel holds the last status.  The board maps a goal to the sending ends.
\<close>

record GoalChannels =
  gc_feedback_tx :: nat
  gc_status_tx :: nat

record ('i, 'f) ZActionClient =
  ac_goal_client :: "'i ZClient"
  ac_result_client :: "'i ZClient"
  ac_cancel_client :: "'i ZClient"
  ac_board :: "GoalId \<rightharpoonup> GoalChannels"
  ac_feedback :: "nat \<Rightarrow> 'f list"
  ac_status :: "nat \<Rightarrow> GoalStatus"
  ac_next :: nat

record ClientGoalHandle =
  cg_goal :: GoalId
  cg_feedback_rx :: "nat option"
  cg_status_rx :: "nat option"

text \<open>The names of the five channels of an action, and the client's own parts built for them.\<close>

definition goal_service_name :: "string \<Rightarrow> string" where
  "goal_service_name q = q @ ''/_action/send_goal''"

definition result_service_name :: "string \<Rightarrow> string" where
  "result_service_name q = q @ ''/_action/get_result''"

definition cancel_service_name :: "string \<Rightarrow> string" where
  "cancel_service_name q = q @ ''/_action/cancel_goal''"

definition feedback_topic_name :: "string \<Rightarrow> string" where
  "feedback_topic_name q = q @ ''/_action/feedback''"

definition status_topic_name :: "string \<Rightarrow> string" where
  "status_topic_name q = q @ ''/_action/status''"

text \<open>What arrives on the feedback and status topics.\<close>

definition on_feedback :: "GoalId \<times> 'f \<Rightarrow> ('i, 'f) ZActionClient \<Rightarrow> ('i, 'f) ZActionClient" where
  "on_feedback msg c = (case ac_board c (fst msg) of
       Some channels \<Rightarrow>
         c\<lparr>ac_feedback := (ac_feedback c)(gc_feedback_tx channels := ac_feedback c (gc_feedback_tx channels) @ [snd msg])\<rparr>
     | None \<Rightarrow> c)"

definition on_status_info :: "GoalInfo \<times> GoalStatus \<Rightarrow> ('i, 'f) ZActionClient \<Rightarrow> ('i, 'f) ZActionClient" where
  "on_status_info info c = (case ac_board c (gi_goal_id (fst info)) of
       Some channels \<Rightarrow> c\<lparr>ac_status := (ac_status c)(gc_status_tx channels := snd info)\<rparr>
     | None \<Rightarrow> c)"

definition on_status :: "(GoalInfo \<times> GoalStatus) list \<Rightarrow> ('i, 'f) ZActionClient \<Rightarrow> ('i, 'f) ZActionClient" where
  "on_status infos c = fold on_status_info infos c"

datatype client_error = SendFailed | Undecodable message | GoalRejected

text \<open>
  \<open>send_goal\<close>: the goal is put on the board before the request is sent.  \<open>gid\<close> is the id that
  \<^verbatim>\<open>GoalId::new\<close> draws, \<open>sent\<close> whether the session takes the query.
\<close>

definition send_goal_start ::
    "att_env \<Rightarrow> ('q \<Rightarrow> (vec_u8, unit) result) \<Rightarrow> nat option \<Rightarrow> bool \<Rightarrow> GoalId \<Rightarrow> 'q \<Rightarrow>
     (('i, 'f) ZActionClient, ClientGoalHandle \<times> query, client_error) exec" where
  "send_goal_start A ser now sent gid request = (\<lambda>c.
     let fb = ac_next c; st = ac_next c + 1;
         c1 = c\<lparr>ac_board := (ac_board c)(gid \<mapsto> \<lparr>gc_feedback_tx = fb, gc_status_tx = st\<rparr>),
                ac_feedback := (ac_feedback c)(fb := []), ac_status := (ac_status c)(st := GS_Unknown),
                ac_next := ac_next c + 2\<rparr>
     in case send_request A ser now request (ac_goal_client c1) of
          (Ok q, gc) \<Rightarrow>
            if sent
            then (Ok (\<lparr>cg_goal = gid, cg_feedback_rx = Some fb, cg_status_rx = Some st\<rparr>, q), c1\<lparr>ac_goal_client := gc\<rparr>)
            else (Err SendFailed, c1\<lparr>ac_goal_client := gc, ac_board := (ac_board c1)(gid := None)\<rparr>)
        | (_, gc) \<Rightarrow> (Panic, c1\<lparr>ac_goal_client := gc\<rparr>))"

text \<open>The next reply on the channel of a service client, if there is one.\<close>

definition next_reply :: "'i ZClient \<Rightarrow> (bytes \<times> 'i ZClient) option" where
  "next_reply zc = (case zc_rx zc of [] \<Rightarrow> None | b # rx \<Rightarrow> Some (b, zc\<lparr>zc_rx := rx\<rparr>))"

text \<open>\<open>None\<close>: the call still waits.\<close>

definition send_goal_finish ::
    "byte_order \<Rightarrow> ClientGoalHandle \<Rightarrow> (('i, 'f) ZActionClient, ClientGoalHandle option, client_error) exec" where
  "send_goal_finish LE h = (\<lambda>c. case next_reply (ac_goal_client c) of
       None \<Rightarrow> (Ok None, c)
     | Some (payload, gc) \<Rightarrow>
       (let c1 = c\<lparr>ac_goal_client := gc\<rparr> in
        case cdr_deserialize LE SendGoalResponse_serde payload of
          Ok response \<Rightarrow>
            if \<not> sgr_accepted response
            then (Err GoalRejected, c1\<lparr>ac_board := (ac_board c1)(cg_goal h := None)\<rparr>)
            else (Ok (Some h), c1)
        | Err e \<Rightarrow> (Err (Undecodable e), c1)
        | Panic \<Rightarrow> (Panic, c1)))"

definition cancel_goal_start ::
    "att_env \<Rightarrow> (GoalInfo \<Rightarrow> (vec_u8, unit) result) \<Rightarrow> nat option \<Rightarrow> bool \<Rightarrow> GoalInfo \<Rightarrow>
     (('i, 'f) ZActionClient, query, client_error) exec" where
  "cancel_goal_start A ser now sent goal_info = (\<lambda>c.
     case send_request A ser now goal_info (ac_cancel_client c) of
       (Ok q, cc) \<Rightarrow> (if sent then Ok q else Err SendFailed, c\<lparr>ac_cancel_client := cc\<rparr>)
     | (_, cc) \<Rightarrow> (Panic, c\<lparr>ac_cancel_client := cc\<rparr>))"

definition cancel_goal_finish ::
    "byte_order \<Rightarrow> (('i, 'f) ZActionClient, (i8 \<times> GoalInfo list) option, client_error) exec" where
  "cancel_goal_finish LE = (\<lambda>c. case next_reply (ac_cancel_client c) of
       None \<Rightarrow> (Ok None, c)
     | Some (payload, cc) \<Rightarrow>
       (case cdr_deserialize LE CancelGoalServiceResponse_serde payload of
          Ok response \<Rightarrow> (Ok (Some response), c\<lparr>ac_cancel_client := cc\<rparr>)
        | Err e \<Rightarrow> (Err (Undecodable e), c\<lparr>ac_cancel_client := cc\<rparr>)
        | Panic \<Rightarrow> (Panic, c\<lparr>ac_cancel_client := cc\<rparr>)))"

text \<open>\<open>cancel_all_goals\<close> sends the goal info of the ROS convention.\<close>

definition cancel_all_info :: GoalInfo where
  "cancel_all_info = \<lparr>gi_goal_id = GoalId (replicate 16 0), gi_stamp = time_zero\<rparr>"

definition cancel_all_goals_start ::
    "att_env \<Rightarrow> (GoalInfo \<Rightarrow> (vec_u8, unit) result) \<Rightarrow> nat option \<Rightarrow> bool \<Rightarrow>
     (('i, 'f) ZActionClient, query, client_error) exec" where
  "cancel_all_goals_start A ser now sent = cancel_goal_start A ser now sent cancel_all_info"

definition feedback_stream :: "GoalId \<Rightarrow> ('i, 'f) ZActionClient \<Rightarrow> nat option \<times> ('i, 'f) ZActionClient" where
  "feedback_stream gid c = (case ac_board c gid of
       None \<Rightarrow> (None, c)
     | Some channels \<Rightarrow>
        (let ch = ac_next c in
         (Some ch, c\<lparr>ac_board := (ac_board c)(gid \<mapsto> channels\<lparr>gc_feedback_tx := ch\<rparr>),
            ac_feedback := (ac_feedback c)(ch := []), ac_next := ac_next c + 1\<rparr>)))"

definition client_status_watch :: "GoalId \<Rightarrow> ('i, 'f) ZActionClient \<Rightarrow> nat option" where
  "client_status_watch gid c = map_option gc_status_tx (ac_board c gid)"

definition get_result_start ::
    "att_env \<Rightarrow> (GoalId \<Rightarrow> (vec_u8, unit) result) \<Rightarrow> nat option \<Rightarrow> bool \<Rightarrow> GoalId \<Rightarrow>
     (('i, 'f) ZActionClient, query, client_error) exec" where
  "get_result_start A ser now sent gid = (\<lambda>c.
     case send_request A ser now gid (ac_result_client c) of
       (Ok q, rc) \<Rightarrow> (if sent then Ok q else Err SendFailed, c\<lparr>ac_result_client := rc\<rparr>)
     | (_, rc) \<Rightarrow> (Panic, c\<lparr>ac_result_client := rc\<rparr>))"

definition get_result_finish ::
    "byte_order \<Rightarrow> 'r serde_type \<Rightarrow> (('i, 'f) ZActionClient, 'r option, client_error) exec" where
  "get_result_finish LE R = (\<lambda>c. case next_reply (ac_result_client c) of
       None \<Rightarrow> (Ok None, c)
     | Some (payload, rc) \<Rightarrow>
       (case cdr_deserialize LE (GetResultResponse_serde R) payload of
          Ok response \<Rightarrow> (Ok (Some (snd response)), c\<lparr>ac_result_client := rc\<rparr>)
        | Err e \<Rightarrow> (Err (Undecodable e), c\<lparr>ac_result_client := rc\<rparr>)
        | Panic \<Rightarrow> (Panic, c\<lparr>ac_result_client := rc\<rparr>)))"

subsection \<open>Single messages\<close>

text \<open>The parts of the calls as methods of their own, with the message as it is on the wire.\<close>

definition send_goal_request_low ::
    "att_env \<Rightarrow> ('q \<Rightarrow> (vec_u8, unit) result) \<Rightarrow> nat option \<Rightarrow> bool \<Rightarrow> 'q \<Rightarrow>
     (('i, 'f) ZActionClient, query, client_error) exec" where
  "send_goal_request_low A ser now sent request = (\<lambda>c.
     case send_request A ser now request (ac_goal_client c) of
       (Ok q, gc) \<Rightarrow> (if sent then Ok q else Err SendFailed, c\<lparr>ac_goal_client := gc\<rparr>)
     | (_, gc) \<Rightarrow> (Panic, c\<lparr>ac_goal_client := gc\<rparr>))"

definition recv_goal_response_low :: "byte_order \<Rightarrow> (('i, 'f) ZActionClient, SendGoalResponse option, client_error) exec" where
  "recv_goal_response_low LE = (\<lambda>c. case next_reply (ac_goal_client c) of
       None \<Rightarrow> (Ok None, c)
     | Some (payload, gc) \<Rightarrow>
       (case cdr_deserialize LE SendGoalResponse_serde payload of
          Ok response \<Rightarrow> (Ok (Some response), c\<lparr>ac_goal_client := gc\<rparr>)
        | Err e \<Rightarrow> (Err (Undecodable e), c\<lparr>ac_goal_client := gc\<rparr>)
        | Panic \<Rightarrow> (Panic, c\<lparr>ac_goal_client := gc\<rparr>)))"

definition recv_result_response_low ::
    "byte_order \<Rightarrow> 'r serde_type \<Rightarrow> (('i, 'f) ZActionClient, (i8 \<times> 'r) option, client_error) exec" where
  "recv_result_response_low LE R = (\<lambda>c. case next_reply (ac_result_client c) of
       None \<Rightarrow> (Ok None, c)
     | Some (payload, rc) \<Rightarrow>
       (case cdr_deserialize LE (GetResultResponse_serde R) payload of
          Ok response \<Rightarrow> (Ok (Some response), c\<lparr>ac_result_client := rc\<rparr>)
        | Err e \<Rightarrow> (Err (Undecodable e), c\<lparr>ac_result_client := rc\<rparr>)
        | Panic \<Rightarrow> (Panic, c\<lparr>ac_result_client := rc\<rparr>)))"

subsection \<open>Goal handles\<close>

definition handle_feedback :: "ClientGoalHandle \<Rightarrow> nat option \<times> ClientGoalHandle" where
  "handle_feedback h = (cg_feedback_rx h, h\<lparr>cg_feedback_rx := None\<rparr>)"

definition handle_status_watch :: "ClientGoalHandle \<Rightarrow> nat option \<times> ClientGoalHandle" where
  "handle_status_watch h = (cg_status_rx h, h\<lparr>cg_status_rx := None\<rparr>)"

text \<open>Receiving from a feedback channel.\<close>

definition recv_feedback :: "nat \<Rightarrow> ('i, 'f) ZActionClient \<Rightarrow> 'f option \<times> ('i, 'f) ZActionClient" where
  "recv_feedback ch c = (case ac_feedback c ch of
       [] \<Rightarrow> (None, c)
     | x # xs \<Rightarrow> (Some x, c\<lparr>ac_feedback := (ac_feedback c)(ch := xs)\<rparr>))"

text \<open>
  \<open>result\<close>: whether the loop over the status channel ends now, then the request for the result, and
  when its reply is there, the removal of the goal from the board.
\<close>

definition result_ready :: "ClientGoalHandle \<Rightarrow> ('i, 'f) ZActionClient \<Rightarrow> bool" where
  "result_ready h c = (case cg_status_rx h of None \<Rightarrow> True | Some ch \<Rightarrow> is_terminal (ac_status c ch))"

definition result_start ::
    "att_env \<Rightarrow> (GoalId \<Rightarrow> (vec_u8, unit) result) \<Rightarrow> nat option \<Rightarrow> bool \<Rightarrow> ClientGoalHandle \<Rightarrow>
     (('i, 'f) ZActionClient, query option, client_error) exec" where
  "result_start A ser now sent h = (\<lambda>c.
     if \<not> result_ready h c then (Ok None, c)
     else case get_result_start A ser now sent (cg_goal h) c of
       (Ok q, c1) \<Rightarrow> (Ok (Some q), c1)
     | (Err e, c1) \<Rightarrow> (Err e, c1\<lparr>ac_board := (ac_board c1)(cg_goal h := None)\<rparr>)
     | (Panic, c1) \<Rightarrow> (Panic, c1))"

definition result_finish ::
    "byte_order \<Rightarrow> 'r serde_type \<Rightarrow> ClientGoalHandle \<Rightarrow> (('i, 'f) ZActionClient, 'r option, client_error) exec" where
  "result_finish LE R h = (\<lambda>c. case get_result_finish LE R c of
       (Ok None, c1) \<Rightarrow> (Ok None, c1)
     | (Panic, c1) \<Rightarrow> (Panic, c1)
     | (r, c1) \<Rightarrow> (r, c1\<lparr>ac_board := (ac_board c1)(cg_goal h := None)\<rparr>))"

end
