(* ===== verification/Action_Client_Properties.thy ===== *)
theory Action_Client_Properties
  imports Action_Client Action_Driver PubSub_Properties
begin

text \<open>
  The action client in use: any number of goals are sent, followed and finished concurrently.  A step
  is one arrival from the network or one part of a method between two points where it waits.
\<close>

section \<open>Runs of a client\<close>

text \<open>
  \<open>sd_pending\<close> are the calls of \<open>send_goal\<close> that wait for their reply, \<open>sd_handles\<close> the handles that
  the application holds, \<open>sd_results\<close> the calls of \<open>result\<close> that wait for theirs.  The remaining
  components record the history: the ids used so far, the feedback that arrived for a goal on the
  board and what was received of it, the goals whose feedback was redirected with \<open>feedback_stream\<close>,
  and the goals whose call failed without a decodable reply or whose handle was dropped.
\<close>

record ('i, 'f) client_side =
  sd_client :: "('i, 'f) ZActionClient"
  sd_pending :: "GoalId \<rightharpoonup> ClientGoalHandle"
  sd_handles :: "GoalId \<rightharpoonup> ClientGoalHandle"
  sd_results :: "GoalId \<rightharpoonup> ClientGoalHandle"
  sd_used :: "GoalId set"
  sd_arrived :: "GoalId \<Rightarrow> 'f list"
  sd_received :: "GoalId \<Rightarrow> 'f list"
  sd_redirected :: "GoalId set"
  sd_abandoned :: "GoalId set"

definition client_side_new :: "('i, 'f) ZActionClient \<Rightarrow> ('i, 'f) client_side" where
  "client_side_new c =
     \<lparr>sd_client = c, sd_pending = Map.empty, sd_handles = Map.empty, sd_results = Map.empty, sd_used = {},
      sd_arrived = (\<lambda>_. []), sd_received = (\<lambda>_. []), sd_redirected = {}, sd_abandoned = {}\<rparr>"

inductive client_step ::
    "att_env \<Rightarrow> byte_order \<Rightarrow> ('q \<Rightarrow> (vec_u8, unit) result) \<Rightarrow> (GoalId \<Rightarrow> (vec_u8, unit) result) \<Rightarrow> 'r serde_type \<Rightarrow>
     ('i, 'f) client_side \<Rightarrow> ('i, 'f) client_side \<Rightarrow> bool"
  for A LE ser ser_id R where
  start: "gid \<notin> sd_used s \<Longrightarrow>
    send_goal_start A ser now True gid request (sd_client s) = (Ok (h, q), c) \<Longrightarrow>
    client_step A LE ser ser_id R s (s\<lparr>sd_client := c, sd_pending := (sd_pending s)(gid \<mapsto> h), sd_used := insert gid (sd_used s)\<rparr>)"
| start_failed: "gid \<notin> sd_used s \<Longrightarrow>
    send_goal_start A ser now False gid request (sd_client s) = (Err SendFailed, c) \<Longrightarrow>
    client_step A LE ser ser_id R s (s\<lparr>sd_client := c, sd_used := insert gid (sd_used s)\<rparr>)"
| goal_reply: "client_step A LE ser ser_id R s
    (s\<lparr>sd_client := sd_client s\<lparr>ac_goal_client := on_reply (answer :: (bytes, unit) result) (ac_goal_client (sd_client s))\<rparr>\<rparr>)"
| result_reply: "client_step A LE ser ser_id R s
    (s\<lparr>sd_client := sd_client s\<lparr>ac_result_client := on_reply (answer :: (bytes, unit) result) (ac_result_client (sd_client s))\<rparr>\<rparr>)"
| accepted: "sd_pending s gid = Some h \<Longrightarrow> send_goal_finish LE h (sd_client s) = (Ok (Some h'), c) \<Longrightarrow>
    client_step A LE ser ser_id R s (s\<lparr>sd_client := c, sd_pending := (sd_pending s)(gid := None),
      sd_handles := (sd_handles s)(gid \<mapsto> h')\<rparr>)"
| rejected: "sd_pending s gid = Some h \<Longrightarrow> send_goal_finish LE h (sd_client s) = (Err GoalRejected, c) \<Longrightarrow>
    client_step A LE ser ser_id R s (s\<lparr>sd_client := c, sd_pending := (sd_pending s)(gid := None)\<rparr>)"
| undecodable: "sd_pending s gid = Some h \<Longrightarrow> send_goal_finish LE h (sd_client s) = (Err (Undecodable e), c) \<Longrightarrow>
    client_step A LE ser ser_id R s (s\<lparr>sd_client := c, sd_pending := (sd_pending s)(gid := None),
      sd_abandoned := insert gid (sd_abandoned s)\<rparr>)"
| feedback: "client_step A LE ser ser_id R s (s\<lparr>sd_client := on_feedback (gid, f) (sd_client s),
    sd_arrived := (if ac_board (sd_client s) gid = None then sd_arrived s
      else (sd_arrived s)(gid := sd_arrived s gid @ [f]))\<rparr>)"
| status: "client_step A LE ser ser_id R s (s\<lparr>sd_client := on_status infos (sd_client s)\<rparr>)"
| receive: "sd_handles s gid = Some h \<Longrightarrow> cg_feedback_rx h = Some ch \<Longrightarrow>
    recv_feedback ch (sd_client s) = (Some f, c) \<Longrightarrow>
    client_step A LE ser ser_id R s (s\<lparr>sd_client := c, sd_received := (sd_received s)(gid := sd_received s gid @ [f])\<rparr>)"
| redirect: "feedback_stream gid (sd_client s) = (Some ch, c) \<Longrightarrow>
    client_step A LE ser ser_id R s (s\<lparr>sd_client := c, sd_redirected := insert gid (sd_redirected s)\<rparr>)"
| take_status: "sd_handles s gid = Some h \<Longrightarrow>
    client_step A LE ser ser_id R s (s\<lparr>sd_handles := (sd_handles s)(gid \<mapsto> snd (handle_status_watch h))\<rparr>)"
| ask_result: "sd_handles s gid = Some h \<Longrightarrow> result_start A ser_id now True h (sd_client s) = (Ok (Some q), c) \<Longrightarrow>
    client_step A LE ser ser_id R s (s\<lparr>sd_client := c, sd_handles := (sd_handles s)(gid := None),
      sd_results := (sd_results s)(gid \<mapsto> h)\<rparr>)"
| ask_failed: "sd_handles s gid = Some h \<Longrightarrow> result_start A ser_id now False h (sd_client s) = (Err SendFailed, c) \<Longrightarrow>
    client_step A LE ser ser_id R s (s\<lparr>sd_client := c, sd_handles := (sd_handles s)(gid := None)\<rparr>)"
| result: "sd_results s gid = Some h \<Longrightarrow> result_finish LE R h (sd_client s) = (Ok (Some r), c) \<Longrightarrow>
    client_step A LE ser ser_id R s (s\<lparr>sd_client := c, sd_results := (sd_results s)(gid := None)\<rparr>)"
| result_failed: "sd_results s gid = Some h \<Longrightarrow> result_finish LE R h (sd_client s) = (Err e, c) \<Longrightarrow>
    client_step A LE ser ser_id R s (s\<lparr>sd_client := c, sd_results := (sd_results s)(gid := None)\<rparr>)"
| drop: "sd_handles s gid = Some h \<Longrightarrow>
    client_step A LE ser ser_id R s (s\<lparr>sd_handles := (sd_handles s)(gid := None), sd_abandoned := insert gid (sd_abandoned s)\<rparr>)"

section \<open>The invariant\<close>

text \<open>The part of the client that the invariant is about: the board and its channels.\<close>

definition board_inv :: "('i, 'f) ZActionClient \<Rightarrow> bool" where
  "board_inv c \<longleftrightarrow>
     (\<forall>g x. ac_board c g = Some x \<longrightarrow> gc_feedback_tx x < ac_next c \<and> gc_status_tx x < ac_next c) \<and>
     (\<forall>g g' x x'. ac_board c g = Some x \<longrightarrow> ac_board c g' = Some x' \<longrightarrow> g \<noteq> g' \<longrightarrow>
        gc_feedback_tx x \<noteq> gc_feedback_tx x' \<and> gc_status_tx x \<noteq> gc_status_tx x')"

text \<open>A waiting call or a handle: it is for its goal, and has the receiving ends of the goal's channels.\<close>

definition handle_ok :: "('i, 'f) client_side \<Rightarrow> GoalId \<Rightarrow> ClientGoalHandle \<Rightarrow> bool" where
  "handle_ok s g h \<longleftrightarrow> cg_goal h = g \<and>
     (\<exists>x. ac_board (sd_client s) g = Some x \<and> cg_status_rx h \<in> {None, Some (gc_status_tx x)} \<and>
        (g \<notin> sd_redirected s \<longrightarrow> cg_feedback_rx h = Some (gc_feedback_tx x))) \<and>
     (\<exists>ch. cg_feedback_rx h = Some ch \<and> ch < ac_next (sd_client s) \<and>
        (\<forall>g' x. ac_board (sd_client s) g' = Some x \<longrightarrow> g' \<noteq> g \<longrightarrow> gc_feedback_tx x \<noteq> ch))"

definition live :: "('i, 'f) client_side \<Rightarrow> GoalId set" where
  "live s = dom (sd_pending s) \<union> dom (sd_handles s) \<union> dom (sd_results s)"

definition holds :: "('i, 'f) client_side \<Rightarrow> GoalId \<Rightarrow> ClientGoalHandle \<Rightarrow> bool" where
  "holds s g h \<longleftrightarrow> sd_pending s g = Some h \<or> sd_handles s g = Some h \<or> sd_results s g = Some h"

definition goal_inv :: "('i, 'f) client_side \<Rightarrow> GoalId \<Rightarrow> bool" where
  "goal_inv s g \<longleftrightarrow>
     (sd_pending s g = None \<or> sd_handles s g = None) \<and> (sd_pending s g = None \<or> sd_results s g = None) \<and>
     (sd_handles s g = None \<or> sd_results s g = None) \<and> (g \<in> sd_abandoned s \<longrightarrow> g \<notin> live s) \<and>
     (ac_board (sd_client s) g \<noteq> None \<longleftrightarrow> g \<in> live s \<or> g \<in> sd_abandoned s) \<and>
     (g \<notin> sd_used s \<longrightarrow> ac_board (sd_client s) g = None \<and> g \<notin> sd_redirected s \<and> sd_arrived s g = [] \<and> sd_received s g = [])"

definition goals_inv :: "('i, 'f) client_side \<Rightarrow> bool" where
  "goals_inv s \<longleftrightarrow> (\<forall>g. goal_inv s g)"

lemma live_iff: "g \<in> live s \<longleftrightarrow> sd_pending s g \<noteq> None \<or> sd_handles s g \<noteq> None \<or> sd_results s g \<noteq> None"
  by (auto simp: live_def)

lemma goals_invI: "goals_inv s \<Longrightarrow> (\<And>g. goal_inv s g \<Longrightarrow> goal_inv s' g) \<Longrightarrow> goals_inv s'"
  by (simp add: goals_inv_def)

definition feedback_inv :: "('i, 'f) client_side \<Rightarrow> bool" where
  "feedback_inv s \<longleftrightarrow> (\<forall>g x. ac_board (sd_client s) g = Some x \<longrightarrow> g \<notin> sd_redirected s \<longrightarrow>
     sd_arrived s g = sd_received s g @ ac_feedback (sd_client s) (gc_feedback_tx x))"

definition client_inv :: "('i, 'f) client_side \<Rightarrow> bool" where
  "client_inv s \<longleftrightarrow> board_inv (sd_client s) \<and> (\<forall>g h. holds s g h \<longrightarrow> handle_ok s g h) \<and> goals_inv s \<and> feedback_inv s"

text \<open>What the operations do to the board and the channels.\<close>

lemma send_goal_start_ok:
  assumes "send_goal_start A ser now True gid request c = (Ok (h, q), c')"
  shows "h = \<lparr>cg_goal = gid, cg_feedback_rx = Some (ac_next c), cg_status_rx = Some (ac_next c + 1)\<rparr>"
    and "ac_board c' = (ac_board c)(gid \<mapsto> \<lparr>gc_feedback_tx = ac_next c, gc_status_tx = ac_next c + 1\<rparr>)"
    and "ac_feedback c' = (ac_feedback c)(ac_next c := [])" and "ac_next c' = ac_next c + 2"
  using assms by (auto simp: send_goal_start_def Let_def split: prod.splits result.splits)

lemma send_goal_start_failed:
  assumes "send_goal_start A ser now False gid request c = (Err SendFailed, c')"
  shows "ac_board c' = (ac_board c)(gid := None)" and "ac_feedback c' = (ac_feedback c)(ac_next c := [])"
    and "ac_next c' = ac_next c + 2"
  using assms by (auto simp: send_goal_start_def Let_def split: prod.splits result.splits)

lemma send_goal_finish_effect:
  assumes "send_goal_finish LE h c = (r, c')"
  shows "ac_feedback c' = ac_feedback c \<and> ac_next c' = ac_next c \<and>
    (case r of Ok (Some h') \<Rightarrow> h' = h \<and> ac_board c' = ac_board c
     | Err GoalRejected \<Rightarrow> ac_board c' = (ac_board c)(cg_goal h := None)
     | _ \<Rightarrow> ac_board c' = ac_board c)"
  using assms
  by (auto simp: send_goal_finish_def Let_def split: option.splits prod.splits result.splits if_splits)

lemma on_status_effect:
  "ac_board (on_status infos c) = ac_board c \<and> ac_feedback (on_status infos c) = ac_feedback c \<and>
   ac_next (on_status infos c) = ac_next c"
  by (induction infos arbitrary: c) (auto simp: on_status_def on_status_info_def split: option.splits)

lemma result_start_effect:
  assumes "result_start A ser_id now True h c = (Ok (Some q), c')"
  shows "ac_board c' = ac_board c" and "ac_feedback c' = ac_feedback c" and "ac_next c' = ac_next c"
  using assms
  by (auto simp: result_start_def get_result_start_def split: if_splits prod.splits result.splits)

lemma result_start_failed:
  assumes "result_start A ser_id now False h c = (Err SendFailed, c')"
  shows "ac_board c' = (ac_board c)(cg_goal h := None)" and "ac_feedback c' = ac_feedback c" and "ac_next c' = ac_next c"
  using assms
  by (auto simp: result_start_def get_result_start_def split: if_splits prod.splits result.splits)

lemma result_finish_effect:
  assumes "result_finish LE R h c = (r, c')" and "r \<noteq> Ok None" and "r \<noteq> Panic"
  shows "ac_board c' = (ac_board c)(cg_goal h := None)" and "ac_feedback c' = ac_feedback c" and "ac_next c' = ac_next c"
  using assms
  by (auto simp: result_finish_def get_result_finish_def split: prod.splits result.splits option.splits)

lemma recv_feedback_effect:
  assumes "recv_feedback ch c = (Some f, c')"
  shows "ac_board c' = ac_board c" and "ac_next c' = ac_next c"
    and "ac_feedback c ch = f # ac_feedback c' ch" and "ch' \<noteq> ch \<Longrightarrow> ac_feedback c' ch' = ac_feedback c ch'"
  using assms by (auto simp: recv_feedback_def split: list.splits)

lemma client_invD:
  assumes "client_inv s"
  shows "board_inv (sd_client s)" and "holds s g h \<Longrightarrow> handle_ok s g h" and "goals_inv s" and "feedback_inv s"
  using assms by (simp_all add: client_inv_def)

lemma feedback_invI:
  "(\<And>g x. ac_board (sd_client s) g = Some x \<Longrightarrow> g \<notin> sd_redirected s \<Longrightarrow>
     sd_arrived s g = sd_received s g @ ac_feedback (sd_client s) (gc_feedback_tx x)) \<Longrightarrow> feedback_inv s"
  by (simp add: feedback_inv_def)

lemma feedback_invD:
  "feedback_inv s \<Longrightarrow> ac_board (sd_client s) g = Some x \<Longrightarrow> g \<notin> sd_redirected s \<Longrightarrow>
   sd_arrived s g = sd_received s g @ ac_feedback (sd_client s) (gc_feedback_tx x)"
  by (simp add: feedback_inv_def)

lemma one_place:
  assumes "client_inv s"
  shows "sd_pending s g = Some h \<Longrightarrow> sd_handles s g = None \<and> sd_results s g = None"
    and "sd_handles s g = Some h \<Longrightarrow> sd_pending s g = None \<and> sd_results s g = None"
    and "sd_results s g = Some h \<Longrightarrow> sd_pending s g = None \<and> sd_handles s g = None"
  using client_invD(3) [OF assms, unfolded goals_inv_def, rule_format, of g] by (auto simp: goal_inv_def)

lemma holderD:
  assumes "client_inv s" and "holds s g h"
  shows "cg_goal h = g" and "ac_board (sd_client s) g \<noteq> None"
  using client_invD(2) [OF assms] by (auto simp: handle_ok_def)

text \<open>
  The four parts of the invariant under the ways in which a step changes the state: a goal is put on
  the board, moves between the calls and handles, or is taken off; feedback arrives or is received; the
  feedback of a goal is redirected.
\<close>

lemma board_bound: "board_inv c \<Longrightarrow> ac_board c g = Some x \<Longrightarrow> gc_feedback_tx x < ac_next c \<and> gc_status_tx x < ac_next c"
  by (simp add: board_inv_def)

lemma board_distinct:
  "board_inv c \<Longrightarrow> ac_board c g = Some x \<Longrightarrow> ac_board c g' = Some x' \<Longrightarrow> g \<noteq> g' \<Longrightarrow>
   gc_feedback_tx x \<noteq> gc_feedback_tx x' \<and> gc_status_tx x \<noteq> gc_status_tx x'"
  by (auto simp: board_inv_def)

lemma board_added:
  assumes "board_inv c" and "ac_board c' = (ac_board c)(gid \<mapsto> \<lparr>gc_feedback_tx = ac_next c, gc_status_tx = ac_next c + 1\<rparr>)"
    and "ac_next c' = ac_next c + 2"
  shows "board_inv c'"
  unfolding board_inv_def
proof (intro conjI allI impI)
  fix g x assume "ac_board c' g = Some x"
  then show "gc_feedback_tx x < ac_next c'" "gc_status_tx x < ac_next c'"
    using board_bound [OF assms(1), of g x] assms(2,3) by (auto split: if_splits)
next
  fix g g' x x' assume "ac_board c' g = Some x" "ac_board c' g' = Some x'" "g \<noteq> g'"
  then show "gc_feedback_tx x \<noteq> gc_feedback_tx x'" "gc_status_tx x \<noteq> gc_status_tx x'"
    using board_distinct [OF assms(1), of g x g' x'] board_bound [OF assms(1), of g x]
      board_bound [OF assms(1), of g' x'] assms(2)
    by (auto split: if_splits)
qed

lemma board_less:
  assumes "board_inv c" and "ac_board c' \<subseteq>\<^sub>m ac_board c" and "ac_next c \<le> ac_next c'"
  shows "board_inv c'"
proof -
  have sub: "ac_board c g = Some x" if "ac_board c' g = Some x" for g x
    using that assms(2) by (auto simp: map_le_def dom_def)
  show ?thesis
    unfolding board_inv_def
    using board_bound [OF assms(1) sub] board_distinct [OF assms(1) sub sub] assms(3) by (meson order_less_le_trans)
qed

lemma board_redirected:
  assumes "board_inv c" and "ac_board c gid = Some y"
    and "ac_board c' = (ac_board c)(gid \<mapsto> y\<lparr>gc_feedback_tx := ac_next c\<rparr>)" and "ac_next c' = ac_next c + 1"
  shows "board_inv c'"
  unfolding board_inv_def
proof (intro conjI allI impI)
  fix g x assume "ac_board c' g = Some x"
  then show "gc_feedback_tx x < ac_next c'" "gc_status_tx x < ac_next c'"
    using board_bound [OF assms(1), of g x] board_bound [OF assms(1,2)] assms(3,4) by (auto split: if_splits)
next
  fix g g' x x' assume g: "ac_board c' g = Some x" "ac_board c' g' = Some x'" "g \<noteq> g'"
  then show "gc_feedback_tx x \<noteq> gc_feedback_tx x'" "gc_status_tx x \<noteq> gc_status_tx x'"
    using board_distinct [OF assms(1), of g x g' x'] board_bound [OF assms(1), of g x]
      board_distinct [OF assms(1,2), of g' x'] board_distinct [OF assms(1) _ assms(2), of g x]
      board_bound [OF assms(1), of g' x'] assms(3)
    by (auto split: if_splits)
qed

lemma holder_kept:
  assumes "handle_ok s g h" and "sd_redirected s' = sd_redirected s"
    and "ac_board (sd_client s') g = ac_board (sd_client s) g"
    and "\<And>g' x. ac_board (sd_client s') g' = Some x \<Longrightarrow> g' \<noteq> g \<Longrightarrow>
      ac_board (sd_client s) g' = Some x \<or> ac_next (sd_client s) \<le> gc_feedback_tx x"
    and "ac_next (sd_client s) \<le> ac_next (sd_client s')"
  shows "handle_ok s' g h"
  using assms(1-3,5) assms(4) unfolding handle_ok_def by (fastforce simp: not_less [symmetric])

lemma unused:
  assumes "goals_inv s" and "g \<notin> sd_used s"
  shows "ac_board (sd_client s) g = None" and "\<not> holds s g h" and "g \<notin> sd_abandoned s" and "g \<notin> sd_redirected s"
    and "sd_arrived s g = []" and "sd_received s g = []" and "g \<notin> live s"
  using assms(2) assms(1) [unfolded goals_inv_def, rule_format, of g]
  by (auto simp: goal_inv_def live_iff holds_def)

lemma inv_start:
  assumes inv: "client_inv s" and new: "gid \<notin> sd_used s"
    and start: "send_goal_start A ser now True gid request (sd_client s) = (Ok (h, q), c)"
  shows "client_inv (s\<lparr>sd_client := c, sd_pending := (sd_pending s)(gid \<mapsto> h), sd_used := insert gid (sd_used s)\<rparr>)"
    (is "client_inv ?s")
proof -
  note I = client_invD [OF inv] and eff = send_goal_start_ok [OF start] and un = unused [OF client_invD(3) [OF inv] new]
  have bound: "gc_feedback_tx x < ac_next (sd_client s)" if "ac_board (sd_client s) g = Some x" for g x
    using board_bound [OF I(1) that] by simp
  have "board_inv (sd_client ?s)" using board_added [OF I(1), of "sd_client ?s" gid] eff by simp
  moreover have "handle_ok ?s g k" if "holds ?s g k" for g k
  proof (cases "g = gid")
    case True
    with that un(2,7) have "k = h" by (auto simp: holds_def live_def)
    with True show ?thesis using eff bound un(4) by (fastforce simp: handle_ok_def)
  next
    case False
    then have "holds s g k" using that by (simp add: holds_def)
    show ?thesis
      by (rule holder_kept [OF I(2) [OF \<open>holds s g k\<close>]]) (use eff False in \<open>auto split: if_splits\<close>)
  qed
  moreover have "goals_inv ?s"
    using un eff by (intro goals_invI [OF I(3)]) (auto simp: goal_inv_def live_iff)
  moreover have "feedback_inv ?s"
  proof (rule feedback_invI)
    fix g x assume x: "ac_board (sd_client ?s) g = Some x" "g \<notin> sd_redirected ?s"
    show "sd_arrived ?s g = sd_received ?s g @ ac_feedback (sd_client ?s) (gc_feedback_tx x)"
    proof (cases "g = gid")
      case True
      then show ?thesis using x eff un(5,6) by auto
    next
      case False
      then have "ac_board (sd_client s) g = Some x" using x eff by simp
      with feedback_invD [OF I(4) this] bound [OF this] x eff show ?thesis by simp
    qed
  qed
  ultimately show ?thesis by (simp add: client_inv_def)
qed

text \<open>Steps that change neither the board nor the feedback channels in use.\<close>

lemma inv_moved:
  assumes inv: "client_inv s"
    and same: "ac_board (sd_client s') = ac_board (sd_client s)"
      "sd_redirected s' = sd_redirected s" "sd_arrived s' = sd_arrived s" "sd_received s' = sd_received s"
    and fb: "\<And>ch. ch < ac_next (sd_client s) \<Longrightarrow> ac_feedback (sd_client s') ch = ac_feedback (sd_client s) ch"
    and nx: "ac_next (sd_client s) \<le> ac_next (sd_client s')"
    and hold: "\<And>g h. holds s' g h \<Longrightarrow> \<exists>k. holds s g k \<and> (h = k \<or> h = k\<lparr>cg_status_rx := None\<rparr>)"
    and goals: "goals_inv s'"
  shows "client_inv s'"
proof -
  note I = client_invD [OF inv]
  have "board_inv (sd_client s')" using board_less [OF I(1), of "sd_client s'"] same(1) nx by simp
  moreover have "handle_ok s' g h" if h: "holds s' g h" for g h
  proof -
    from hold [OF h] obtain k where k: "holds s g k" "h = k \<or> h = k\<lparr>cg_status_rx := None\<rparr>" by blast
    from holder_kept [OF I(2) [OF k(1)], of s'] same nx have "handle_ok s' g k" by simp
    with k(2) show ?thesis by (auto simp: handle_ok_def)
  qed
  moreover have "feedback_inv s'"
    using I(4) board_bound [OF I(1)] same fb unfolding feedback_inv_def by simp
  ultimately show ?thesis using goals by (simp add: client_inv_def)
qed

text \<open>A goal is taken off the board, together with the call that was for it.\<close>

lemma inv_removed:
  assumes inv: "client_inv s"
    and board: "ac_board (sd_client s') = (ac_board (sd_client s))(gid := None)"
    and same: "ac_feedback (sd_client s') = ac_feedback (sd_client s)" "ac_next (sd_client s') = ac_next (sd_client s)"
      "sd_redirected s' = sd_redirected s" "sd_arrived s' = sd_arrived s" "sd_received s' = sd_received s"
    and hold: "\<And>g h. holds s' g h \<Longrightarrow> holds s g h \<and> g \<noteq> gid"
    and goals: "goals_inv s'"
  shows "client_inv s'"
proof -
  note I = client_invD [OF inv]
  have "ac_board (sd_client s') \<subseteq>\<^sub>m ac_board (sd_client s)" using board by (auto simp: map_le_def)
  then have "board_inv (sd_client s')" using board_less [OF I(1), of "sd_client s'"] same by simp
  moreover have "handle_ok s' g h" if h: "holds s' g h" for g h
    by (rule holder_kept [OF I(2), of g h]) (use hold [OF h] same board in \<open>auto split: if_splits\<close>)
  moreover have "feedback_inv s'"
    using I(4) board same unfolding feedback_inv_def by (auto split: if_splits)
  ultimately show ?thesis using goals by (simp add: client_inv_def)
qed

lemma inv_feedback:
  assumes inv: "client_inv s"
  shows "client_inv (s\<lparr>sd_client := on_feedback (gid, f) (sd_client s),
    sd_arrived := (if ac_board (sd_client s) gid = None then sd_arrived s
      else (sd_arrived s)(gid := sd_arrived s gid @ [f]))\<rparr>)" (is "client_inv ?s")
proof -
  note I = client_invD [OF inv]
  have b: "ac_board (sd_client ?s) = ac_board (sd_client s)" "ac_next (sd_client ?s) = ac_next (sd_client s)"
    by (simp_all add: on_feedback_def split: option.splits)
  have "board_inv (sd_client ?s)" using board_less [OF I(1), of "sd_client ?s"] b by simp
  moreover have "handle_ok ?s g h" if "holds ?s g h" for g h
  proof -
    have "holds s g h" using that by (simp add: holds_def)
    from holder_kept [OF I(2) [OF this], of ?s] b show ?thesis by simp
  qed
  moreover have "goals_inv ?s"
    using b by (intro goals_invI [OF I(3)]) (auto simp: goal_inv_def live_iff)
  moreover have "feedback_inv ?s"
  proof (rule feedback_invI)
    fix g x assume "ac_board (sd_client ?s) g = Some x" "g \<notin> sd_redirected ?s"
    then have x: "ac_board (sd_client s) g = Some x" "g \<notin> sd_redirected s" using b by simp_all
    show "sd_arrived ?s g = sd_received ?s g @ ac_feedback (sd_client ?s) (gc_feedback_tx x)"
      using feedback_invD [OF I(4) x] board_distinct [OF I(1) x(1), of gid] x
      by (cases "ac_board (sd_client s) gid") (auto simp: on_feedback_def)
  qed
  ultimately show ?thesis by (simp add: client_inv_def)
qed

lemma inv_receive:
  assumes inv: "client_inv s" and h: "sd_handles s gid = Some h" "cg_feedback_rx h = Some ch"
    and r: "recv_feedback ch (sd_client s) = (Some f, c)"
  shows "client_inv (s\<lparr>sd_client := c, sd_received := (sd_received s)(gid := sd_received s gid @ [f])\<rparr>)"
    (is "client_inv ?s")
proof -
  note I = client_invD [OF inv] and eff = recv_feedback_effect [OF r]
  have hold: "holds s gid h" using h by (simp add: holds_def)
  have "board_inv (sd_client ?s)" using board_less [OF I(1), of "sd_client ?s"] eff by simp
  moreover have "handle_ok ?s g k" if "holds ?s g k" for g k
  proof -
    have "holds s g k" using that by (simp add: holds_def)
    from holder_kept [OF I(2) [OF this], of ?s] eff show ?thesis by simp
  qed
  moreover have "gid \<in> sd_used s" using unused(7) [OF I(3), of gid] h by (auto simp: live_def)
  then have "goals_inv ?s"
    using eff by (intro goals_invI [OF I(3)]) (auto simp: goal_inv_def live_iff)
  moreover have "feedback_inv ?s"
    unfolding feedback_inv_def
  proof (intro allI impI)
    fix g x assume x: "ac_board (sd_client ?s) g = Some x" "g \<notin> sd_redirected ?s"
    then have x': "ac_board (sd_client s) g = Some x" "g \<notin> sd_redirected s" using eff by simp_all
    have old: "sd_arrived s g = sd_received s g @ ac_feedback (sd_client s) (gc_feedback_tx x)"
      using I(4) x' by (simp add: feedback_inv_def)
    show "sd_arrived ?s g = sd_received ?s g @ ac_feedback (sd_client ?s) (gc_feedback_tx x)"
    proof (cases "g = gid")
      case True
      with I(2) [OF hold] x' h(2) have "gc_feedback_tx x = ch" by (auto simp: handle_ok_def)
      with True old eff(3) show ?thesis by simp
    next
      case False
      with I(2) [OF hold] x' h(2) have "gc_feedback_tx x \<noteq> ch" by (auto simp: handle_ok_def)
      with False old eff(4) show ?thesis by simp
    qed
  qed
  ultimately show ?thesis by (simp add: client_inv_def)
qed

lemma inv_redirect:
  assumes inv: "client_inv s" and r: "feedback_stream gid (sd_client s) = (Some ch, c)"
  shows "client_inv (s\<lparr>sd_client := c, sd_redirected := insert gid (sd_redirected s)\<rparr>)" (is "client_inv ?s")
proof -
  note I = client_invD [OF inv]
  obtain y where y: "ac_board (sd_client s) gid = Some y"
    and c: "ac_board c = (ac_board (sd_client s))(gid \<mapsto> y\<lparr>gc_feedback_tx := ac_next (sd_client s)\<rparr>)"
      "ac_next c = ac_next (sd_client s) + 1" "ac_feedback c = (ac_feedback (sd_client s))(ac_next (sd_client s) := [])"
    using r by (auto simp: feedback_stream_def Let_def split: option.splits)
  have bound: "gc_feedback_tx x < ac_next (sd_client s)" if "ac_board (sd_client s) g = Some x" for g x
    using board_bound [OF I(1) that] by simp
  have "board_inv (sd_client ?s)" using board_redirected [OF I(1) y, of "sd_client ?s"] c by simp
  moreover have "handle_ok ?s g k" if "holds ?s g k" for g k
  proof -
    have "holds s g k" using that by (simp add: holds_def)
    from I(2) [OF this] show ?thesis
      using c y bound by (fastforce simp: handle_ok_def)
  qed
  moreover have "goals_inv ?s"
    using c y by (intro goals_invI [OF I(3)]) (auto simp: goal_inv_def live_iff)
  moreover have "feedback_inv ?s"
  proof (rule feedback_invI)
    fix g x assume x: "ac_board (sd_client ?s) g = Some x" "g \<notin> sd_redirected ?s"
    then have "g \<noteq> gid" "ac_board (sd_client s) g = Some x" "g \<notin> sd_redirected s" using c by auto
    with feedback_invD [OF I(4)] bound c
    show "sd_arrived ?s g = sd_received ?s g @ ac_feedback (sd_client ?s) (gc_feedback_tx x)" by fastforce
  qed
  ultimately show ?thesis by (simp add: client_inv_def)
qed

lemma goals_step: "client_inv s \<Longrightarrow> (\<And>g. goal_inv s g \<Longrightarrow> goal_inv s' g) \<Longrightarrow> goals_inv s'"
  by (rule goals_invI [OF client_invD(3)])

lemma client_step_inv:
  assumes "client_step A LE ser ser_id R s s'" and inv: "client_inv s"
  shows "client_inv s'"
  using assms(1)
proof cases
  case (start gid now request h q c)
  then show ?thesis using inv_start [OF inv start(2,3)] by simp
next
  case (start_failed gid now request c)
  note eff = send_goal_start_failed [OF start_failed(3)] and un = unused [OF client_invD(3) [OF inv] start_failed(2)]
  have "ac_board c = ac_board (sd_client s)" using eff(1) un(1) by auto
  then show ?thesis
    using start_failed(1) eff
    by (intro inv_moved [OF inv] goals_step [OF inv]) (auto simp: holds_def goal_inv_def live_iff)
next
  case (goal_reply answer)
  then show ?thesis
    using client_invD(3) [OF inv] by (intro inv_moved [OF inv] goals_step [OF inv]) (auto simp: holds_def goal_inv_def live_iff)
next
  case (result_reply answer)
  then show ?thesis
    using client_invD(3) [OF inv] by (intro inv_moved [OF inv] goals_step [OF inv]) (auto simp: holds_def goal_inv_def live_iff)
next
  case (accepted gid h h' c)
  from send_goal_finish_effect [OF accepted(3)] have eff: "h' = h" "ac_board c = ac_board (sd_client s)"
    "ac_feedback c = ac_feedback (sd_client s)" "ac_next c = ac_next (sd_client s)" by simp_all
  then show ?thesis
    using accepted(1,2) one_place(1) [OF inv accepted(2)]
    by (intro inv_moved [OF inv] goals_step [OF inv]) (auto simp: holds_def goal_inv_def live_iff split: if_splits)
next
  case (rejected gid h c)
  have "cg_goal h = gid" using holderD(1) [OF inv, of gid h] rejected(2) by (simp add: holds_def)
  with send_goal_finish_effect [OF rejected(3)] have eff: "ac_board c = (ac_board (sd_client s))(gid := None)"
    "ac_feedback c = ac_feedback (sd_client s)" "ac_next c = ac_next (sd_client s)" by simp_all
  then show ?thesis
    using rejected(1,2) one_place(1) [OF inv rejected(2)]
    by (intro inv_removed [OF inv, of _ gid] goals_step [OF inv]) (auto simp: holds_def goal_inv_def live_iff split: if_splits)
next
  case (undecodable gid h e c)
  from send_goal_finish_effect [OF undecodable(3)] have eff: "ac_board c = ac_board (sd_client s)"
    "ac_feedback c = ac_feedback (sd_client s)" "ac_next c = ac_next (sd_client s)" by simp_all
  then show ?thesis
    using undecodable(1,2) one_place(1) [OF inv undecodable(2)]
    by (intro inv_moved [OF inv] goals_step [OF inv]) (auto simp: holds_def goal_inv_def live_iff split: if_splits)
next
  case (feedback gid f)
  with inv_feedback [OF inv] show ?thesis by blast
next
  case (status infos)
  then show ?thesis
    using on_status_effect [of infos "sd_client s"]
    by (intro inv_moved [OF inv] goals_step [OF inv]) (auto simp: holds_def goal_inv_def live_iff)
next
  case (receive gid h ch f c)
  with inv_receive [OF inv] show ?thesis by blast
next
  case (redirect gid ch c)
  with inv_redirect [OF inv] show ?thesis by blast
next
  case (take_status gid h)
  then show ?thesis
    by (intro inv_moved [OF inv] goals_step [OF inv])
      (auto simp: holds_def goal_inv_def live_iff handle_status_watch_def split: if_splits)
next
  case (ask_result gid h now q c)
  note eff = result_start_effect [OF ask_result(3)]
  then show ?thesis
    using ask_result(1,2) one_place(2) [OF inv ask_result(2)]
    by (intro inv_moved [OF inv] goals_step [OF inv]) (auto simp: holds_def goal_inv_def live_iff split: if_splits)
next
  case (ask_failed gid h now c)
  have "cg_goal h = gid" using holderD(1) [OF inv, of gid h] ask_failed(2) by (simp add: holds_def)
  with result_start_failed [OF ask_failed(3)] show ?thesis
    using ask_failed(1,2) one_place(2) [OF inv ask_failed(2)]
    by (intro inv_removed [OF inv, of _ gid] goals_step [OF inv]) (auto simp: holds_def goal_inv_def live_iff split: if_splits)
next
  case (result gid h r c)
  have "cg_goal h = gid" using holderD(1) [OF inv, of gid h] result(2) by (simp add: holds_def)
  with result_finish_effect [OF result(3)] show ?thesis
    using result(1,2) one_place(3) [OF inv result(2)]
    by (intro inv_removed [OF inv, of _ gid] goals_step [OF inv]) (auto simp: holds_def goal_inv_def live_iff split: if_splits)
next
  case (result_failed gid h e c)
  have "cg_goal h = gid" using holderD(1) [OF inv, of gid h] result_failed(2) by (simp add: holds_def)
  with result_finish_effect [OF result_failed(3)] show ?thesis
    using result_failed(1,2) one_place(3) [OF inv result_failed(2)]
    by (intro inv_removed [OF inv, of _ gid] goals_step [OF inv]) (auto simp: holds_def goal_inv_def live_iff split: if_splits)
next
  case (drop gid h)
  then show ?thesis
    by (intro inv_moved [OF inv] goals_step [OF inv]) (auto simp: holds_def goal_inv_def live_iff split: if_splits)
qed


lemma client_side_inv: "ac_board c = Map.empty \<Longrightarrow> client_inv (client_side_new c)"
  by (simp add: client_inv_def client_side_new_def board_inv_def holds_def goals_inv_def goal_inv_def live_def
      feedback_inv_def)

lemma client_run_inv:
  assumes "(client_step A LE ser ser_id R)\<^sup>*\<^sup>* s s'" and "client_inv s"
  shows "client_inv s'"
  using assms by (induction rule: rtranclp_induct) (blast intro: client_step_inv)+

lemma client_step_abandoned: "client_step A LE ser ser_id R s s' \<Longrightarrow> sd_abandoned s \<subseteq> sd_abandoned s'"
  by (cases rule: client_step.cases) auto

lemma client_run_abandoned: "(client_step A LE ser ser_id R)\<^sup>*\<^sup>* s s' \<Longrightarrow> sd_abandoned s \<subseteq> sd_abandoned s'"
  by (induction rule: rtranclp_induct) (use client_step_abandoned in blast)+

lemma board_dom: "client_inv s \<Longrightarrow> dom (ac_board (sd_client s)) = live s \<union> sd_abandoned s"
  using client_invD(3) [of s] unfolding goals_inv_def goal_inv_def by blast

section \<open>A run\<close>

definition sample_goal :: GoalId where
  "sample_goal = GoalId (replicate 16 5)"

definition sample_action_zclient :: "bytes list \<Rightarrow> unit ZClient" where
  "sample_action_zclient rx = \<lparr>zc_sn = 1, zc_gid = replicate 16 9, zc_key_expr = ''0/go'', zc_token = [],
     zc_rx = rx, zc_depth = 10, zc_topic = ''/go''\<rparr>"

definition sample_action_client :: "bytes list \<Rightarrow> (unit, nat) ZActionClient" where
  "sample_action_client rx = \<lparr>ac_goal_client = sample_action_zclient rx, ac_result_client = sample_action_zclient [],
     ac_cancel_client = sample_action_zclient [], ac_board = Map.empty, ac_feedback = (\<lambda>_. []),
     ac_status = (\<lambda>_. GS_Unknown), ac_next = 0\<rparr>"

text \<open>The encoded answers of a server that accepts a goal and of one that does not.\<close>

definition accept_bytes :: bytes where
  "accept_bytes = [0, 1, 0, 0, 1, 0, 0, 0, 0, 0, 0, 0, 0, 0, 0, 0]"

definition reject_bytes :: bytes where
  "reject_bytes = [0, 1, 0, 0, 0, 0, 0, 0, 0, 0, 0, 0, 0, 0, 0, 0]"

lemma decode_answers:
  "cdr_deserialize LittleEndian SendGoalResponse_serde accept_bytes =
     Ok \<lparr>sgr_accepted = True, sgr_stamp_sec = 0, sgr_stamp_nanosec = 0\<rparr>"
  "cdr_deserialize LittleEndian SendGoalResponse_serde reject_bytes =
     Ok \<lparr>sgr_accepted = False, sgr_stamp_sec = 0, sgr_stamp_nanosec = 0\<rparr>"
  by code_simp+

text \<open>Two pieces of feedback arrive for an accepted goal, and one is received.\<close>

abbreviation sample_client_step :: "(unit, nat) client_side \<Rightarrow> (unit, nat) client_side \<Rightarrow> bool" where
  "sample_client_step \<equiv> client_step sample_att_env LittleEndian (\<lambda>_ :: unit. Ok vec_new) (\<lambda>_. Ok vec_new) i8_serde"

lemma sample_client_run:
  "\<exists>s h. sample_client_step\<^sup>*\<^sup>* (client_side_new (sample_action_client [])) s \<and> sd_handles s sample_goal = Some h \<and>
     sample_goal \<notin> sd_redirected s \<and> sd_arrived s sample_goal = [7, 8] \<and> sd_received s sample_goal = [7]"
proof -
  let ?s0 = "client_side_new (sample_action_client [])"
  let ?h = "\<lparr>cg_goal = sample_goal, cg_feedback_rx = Some 0, cg_status_rx = Some 1\<rparr>"
  obtain q c1 where start: "send_goal_start sample_att_env (\<lambda>_ :: unit. Ok vec_new) None True sample_goal ()
      (sd_client ?s0) = (Ok (?h, q), c1)" and rx: "zc_rx (ac_goal_client c1) = []" "zc_depth (ac_goal_client c1) = 10"
    by (auto simp: send_goal_start_def send_request_def client_attachment_def Let_def client_side_new_def
        sample_action_client_def sample_action_zclient_def split: prod.splits)
  let ?s1 = "?s0\<lparr>sd_client := c1, sd_pending := (sd_pending ?s0)(sample_goal \<mapsto> ?h), sd_used := insert sample_goal (sd_used ?s0)\<rparr>"
  have step1: "sample_client_step ?s0 ?s1"
    by (rule client_step.start [OF _ start]) (simp add: client_side_new_def)
  let ?s2 = "?s1\<lparr>sd_client := sd_client ?s1\<lparr>ac_goal_client := on_reply (Ok accept_bytes :: (bytes, unit) result) (ac_goal_client (sd_client ?s1))\<rparr>\<rparr>"
  have step2: "sample_client_step ?s1 ?s2" by (rule client_step.goal_reply)
  obtain c3 where fin: "send_goal_finish LittleEndian ?h (sd_client ?s2) = (Ok (Some ?h), c3)"
    by (simp add: send_goal_finish_def next_reply_def on_reply_def rx decode_answers)
  let ?s3 = "?s2\<lparr>sd_client := c3, sd_pending := (sd_pending ?s2)(sample_goal := None), sd_handles := (sd_handles ?s2)(sample_goal \<mapsto> ?h)\<rparr>"
  have step3: "sample_client_step ?s2 ?s3" by (rule client_step.accepted [OF _ fin]) simp
  have c3: "ac_board c3 sample_goal = Some \<lparr>gc_feedback_tx = 0, gc_status_tx = 1\<rparr>" "ac_feedback c3 0 = []"
    using send_goal_finish_effect [OF fin] send_goal_start_ok [OF start] by (simp_all add: client_side_new_def sample_action_client_def)
  obtain s4 where step4: "sample_client_step ?s3 s4" and s4: "sd_client s4 = on_feedback (sample_goal, 7) c3"
      "sd_handles s4 = sd_handles ?s3" "sd_arrived s4 sample_goal = [7]" "sd_received s4 sample_goal = []" "sd_redirected s4 = {}"
    using client_step.feedback [of sample_att_env LittleEndian "\<lambda>_ :: unit. Ok vec_new" "\<lambda>_. Ok vec_new" i8_serde ?s3 sample_goal 7] c3
    by (fastforce simp: client_side_new_def)
  obtain s5 where step5: "sample_client_step s4 s5" and s5: "sd_client s5 = on_feedback (sample_goal, 8) (sd_client s4)"
      "sd_handles s5 = sd_handles s4" "sd_arrived s5 sample_goal = [7, 8]" "sd_received s5 sample_goal = []" "sd_redirected s5 = {}"
    using client_step.feedback [of sample_att_env LittleEndian "\<lambda>_ :: unit. Ok vec_new" "\<lambda>_. Ok vec_new" i8_serde s4 sample_goal 8] c3 s4
    by (fastforce simp: on_feedback_def)
  have h: "sd_handles s5 sample_goal = Some ?h" using s4(2) s5(2) by simp
  have "ac_feedback (sd_client s5) 0 = [7, 8]" using s4(1) s5(1) c3 by (simp add: on_feedback_def)
  then obtain c6 where recv: "recv_feedback 0 (sd_client s5) = (Some 7, c6)" by (simp add: recv_feedback_def)
  from client_step.receive [OF h _ recv] have step6: "sample_client_step s5
      (s5\<lparr>sd_client := c6, sd_received := (sd_received s5)(sample_goal := sd_received s5 sample_goal @ [7])\<rparr>)" by simp
  have run: "sample_client_step\<^sup>*\<^sup>* ?s0
      (s5\<lparr>sd_client := c6, sd_received := (sd_received s5)(sample_goal := sd_received s5 sample_goal @ [7])\<rparr>)"
    using step1 step2 step3 step4 step5 step6 by (meson rtranclp.rtrancl_into_rtrancl rtranclp.rtrancl_refl)
  show ?thesis
    by (rule exI, rule exI [of _ ?h], rule conjI [OF run]) (use h s5 in simp)
qed


section \<open>The messages of the services\<close>

definition valid_id :: "GoalId \<Rightarrow> bool" where
  "valid_id g \<longleftrightarrow> length (goal_id_bytes g) = 16"

lemma fits_goal_id: "valid_id g \<Longrightarrow> fits goal_id_serde g"
  by (cases g) (auto simp: valid_id_def fits_def goal_id_serde_def byte_of_def comp_def list_all2_conv_all_nth intro!: nth_equalityI)

lemma fits_goal_info: "valid_id (gi_goal_id i) \<Longrightarrow> fits goal_info_serde i"
  using fits_goal_id [of "gi_goal_id i"] by (simp add: fits_def goal_info_serde_def time_serde_def)

lemma fits_pair: "fits A x \<Longrightarrow> fits B y \<Longrightarrow> fits (pair_serde A B) (x, y)"
  by (simp add: fits_def pair_serde_def)

lemma fits_single: "fits A x \<Longrightarrow> fits (single_serde A) x"
  by (simp add: fits_def single_serde_def)

lemma fits_i8: "fits i8_serde x"
  by (simp add: fits_def i8_serde_def)

lemma fits_infos: "length xs \<le> 100000000 \<Longrightarrow> list_all (fits T) xs \<Longrightarrow> fits (vec_serde T) xs"
  by (auto simp: fits_def vec_serde_def list_all_iff intro!: map_idI)

lemma fits_answer: "fits SendGoalResponse_serde r"
  by (simp add: fits_def SendGoalResponse_serde_def)

text \<open>
  What the two sides of an action send each other is read back as it was sent: a goal with its
  id, a feedback, the request for a result and its answer, a request to cancel and its answer with any
  number of goals.  The types of goal, result and feedback are arbitrary; ids have their 16 bytes.
\<close>

lemma action_messages_read_back:
  assumes "byte_order_laws LE" and "valid_id gid" and "valid_id (gi_goal_id info)"
    and "length infos \<le> 100000000" and "list_all (\<lambda>i. valid_id (gi_goal_id i)) infos"
    and "fits G goal" and "fits F fb" and "fits R res"
  shows "cdr_deserialize LE (SendGoalRequest_serde G) (cdr_bytes LE (SendGoalRequest_serde G) (gid, goal)) = Ok (gid, goal) \<and>
    cdr_deserialize LE SendGoalResponse_serde (cdr_bytes LE SendGoalResponse_serde answer) = Ok answer \<and>
    cdr_deserialize LE (FeedbackMessage_serde F) (cdr_bytes LE (FeedbackMessage_serde F) (gid, fb)) = Ok (gid, fb) \<and>
    cdr_deserialize LE GetResultRequest_serde (cdr_bytes LE GetResultRequest_serde gid) = Ok gid \<and>
    cdr_deserialize LE (GetResultResponse_serde R) (cdr_bytes LE (GetResultResponse_serde R) (code, res)) = Ok (code, res) \<and>
    cdr_deserialize LE CancelGoalServiceRequest_serde (cdr_bytes LE CancelGoalServiceRequest_serde info) = Ok info \<and>
    cdr_deserialize LE CancelGoalServiceResponse_serde (cdr_bytes LE CancelGoalServiceResponse_serde (code, infos)) = Ok (code, infos)"
proof -
  note decoded = cdr_deserialize_bytes [OF assms(1), of _ _ "[]", simplified]
  have i: "list_all (fits goal_info_serde) infos" using assms(5) fits_goal_info by (auto simp: list_all_iff)
  show ?thesis
    unfolding SendGoalRequest_serde_def FeedbackMessage_serde_def GetResultRequest_serde_def GetResultResponse_serde_def
      CancelGoalServiceRequest_serde_def CancelGoalServiceResponse_serde_def
    by (intro conjI decoded fits_pair fits_single fits_answer fits_i8 fits_goal_id [OF assms(2)] fits_goal_info [OF assms(3)]
        fits_infos [OF assms(4) i] assms(6-8))
qed

section \<open>Properties of the client\<close>

text \<open>
  C18.  Feedback is routed to its goal.  In every state that the client reaches from an empty board, with
  any number of goals sent, answered, canceled and finished concurrently: a handle whose feedback has not been
  redirected has a channel, and what arrived for its goal, in the order of arrival, is what was received
  from that channel followed by what waits in it.
\<close>

theorem client_feedback_routed:
  assumes "(client_step A LE ser ser_id R)\<^sup>*\<^sup>* (client_side_new c) s" and "ac_board c = Map.empty"
    and "sd_handles s g = Some h" and "g \<notin> sd_redirected s"
  shows "\<exists>ch. cg_feedback_rx h = Some ch \<and> sd_arrived s g = sd_received s g @ ac_feedback (sd_client s) ch"
proof -
  have inv: "client_inv s" using client_run_inv [OF assms(1) client_side_inv [OF assms(2)]] .
  have "handle_ok s g h" using client_invD(2) [OF inv] assms(3) by (simp add: holds_def)
  then show ?thesis using feedback_invD [OF client_invD(4) [OF inv]] assms(4) by (auto simp: handle_ok_def)
qed

theorem client_feedback_routed_witness:
  "\<exists>s ch. sample_client_step\<^sup>*\<^sup>* (client_side_new (sample_action_client [])) s \<and>
     sd_received s sample_goal = [7] \<and> ac_feedback (sd_client s) ch = [8]"
proof -
  obtain s h where s: "sample_client_step\<^sup>*\<^sup>* (client_side_new (sample_action_client [])) s" "sd_handles s sample_goal = Some h"
    "sample_goal \<notin> sd_redirected s" "sd_arrived s sample_goal = [7, 8]" "sd_received s sample_goal = [7]"
    using sample_client_run by blast
  have "ac_board (sample_action_client []) = Map.empty" by (simp add: sample_action_client_def)
  from client_feedback_routed [OF s(1) this s(2,3)] obtain ch where
    "sd_arrived s sample_goal = sd_received s sample_goal @ ac_feedback (sd_client s) ch" by blast
  with s(1,4,5) show ?thesis by (intro exI [of _ s] exI [of _ ch]) simp
qed

text \<open>
  C28.  The board holds exactly the goals that still have a waiting call or a handle, and the goals whose
  reply could not be decoded or whose handle was dropped; the latter are never taken off again, however
  the run goes on.
\<close>

theorem board_holds_abandoned_goals:
  assumes "(client_step A LE ser ser_id R)\<^sup>*\<^sup>* (client_side_new c) s" and "ac_board c = Map.empty"
    and "(client_step A LE ser ser_id R)\<^sup>*\<^sup>* s s'"
  shows "dom (ac_board (sd_client s)) = live s \<union> sd_abandoned s \<and> live s \<inter> sd_abandoned s = {} \<and>
    sd_abandoned s \<subseteq> dom (ac_board (sd_client s'))"
proof -
  have inv: "client_inv s" using client_run_inv [OF assms(1) client_side_inv [OF assms(2)]] .
  then have inv': "client_inv s'" by (rule client_run_inv [OF assms(3)])
  have "live s \<inter> sd_abandoned s = {}" using client_invD(3) [OF inv] unfolding goals_inv_def goal_inv_def by blast
  with board_dom [OF inv] board_dom [OF inv'] client_run_abandoned [OF assms(3)] show ?thesis by blast
qed

theorem board_holds_abandoned_goals_witness:
  "\<exists>s. sample_client_step\<^sup>*\<^sup>* (client_side_new (sample_action_client [])) s \<and> sample_goal \<notin> live s \<and>
     sample_goal \<in> dom (ac_board (sd_client s))"
proof -
  obtain s h where s: "sample_client_step\<^sup>*\<^sup>* (client_side_new (sample_action_client [])) s" "sd_handles s sample_goal = Some h"
    using sample_client_run by blast
  let ?t = "s\<lparr>sd_handles := (sd_handles s)(sample_goal := None), sd_abandoned := insert sample_goal (sd_abandoned s)\<rparr>"
  have "sample_client_step s ?t" by (rule client_step.drop [OF s(2)])
  with s(1) have t: "sample_client_step\<^sup>*\<^sup>* (client_side_new (sample_action_client [])) ?t" by (rule rtranclp.rtrancl_into_rtrancl)
  have "ac_board (sample_action_client []) = Map.empty" by (simp add: sample_action_client_def)
  from board_holds_abandoned_goals [OF t this rtranclp.rtrancl_refl]
  show ?thesis by (intro exI [of _ ?t]) (use t in auto)
qed

text \<open>
  Replies are matched to calls of \<open>send_goal\<close> by arrival only.  When two replies wait, the call that
  runs first gets the first one and the other call the second one, whatever goals the calls are for: one
  accepting and one rejecting reply decide by the order of the two calls which goal is taken for rejected
  and loses its place on the board.
\<close>

theorem goal_replies_not_matched:
  assumes "zc_rx (ac_goal_client c) = b1 # b2 # rx"
    and "cdr_deserialize LE SendGoalResponse_serde b1 = Ok r1" and "sgr_accepted r1"
    and "cdr_deserialize LE SendGoalResponse_serde b2 = Ok r2" and "\<not> sgr_accepted r2"
    and "send_goal_finish LE h1 c = (first, c1)" and "send_goal_finish LE h2 c1 = (second, c2)"
  shows "first = Ok (Some h1) \<and> second = Err GoalRejected \<and> ac_board c2 = (ac_board c)(cg_goal h2 := None)"
  using assms by (auto simp: send_goal_finish_def next_reply_def)

theorem goal_replies_not_matched_witness:
  "\<exists>c1 c2 d1 d2. let c = sample_action_client [accept_bytes, reject_bytes];
      h = (\<lambda>n. \<lparr>cg_goal = GoalId (replicate 16 n), cg_feedback_rx = None, cg_status_rx = None\<rparr>) in
    send_goal_finish LittleEndian (h 1) c = (Ok (Some (h 1)), c1) \<and> send_goal_finish LittleEndian (h 2) c1 = (Err GoalRejected, c2) \<and>
    send_goal_finish LittleEndian (h 2) c = (Ok (Some (h 2)), d1) \<and> send_goal_finish LittleEndian (h 1) d1 = (Err GoalRejected, d2)"
proof -
  let ?c = "sample_action_client [accept_bytes, reject_bytes]"
  have rx: "zc_rx (ac_goal_client ?c) = [accept_bytes, reject_bytes]"
    by (simp add: sample_action_client_def sample_action_zclient_def)
  have run: "\<exists>c1 c2. send_goal_finish LittleEndian h1 ?c = (Ok (Some h1), c1) \<and>
      send_goal_finish LittleEndian h2 c1 = (Err GoalRejected, c2)" for h1 h2
    using goal_replies_not_matched [OF rx decode_answers(1) _ decode_answers(2), of h1 _ _ h2] by (metis SendGoalResponse.select_convs(1) prod.collapse)
  then show ?thesis unfolding Let_def by blast
qed

text \<open>
  The request with the zero id, which the ROS convention reads as ``cancel all goals'' and which
  \<open>cancel_all_goals\<close> sends, cancels nothing: unless a goal with the zero id is executing, the server
  changes no goal and no cancel flag and answers with an empty list.
\<close>

theorem cancel_all_cancels_nothing:
  assumes "q_has_payload q" and "q_has_attachment q"
    and "\<nexists>g f t. sv_goals sv (gi_goal_id cancel_all_info) = Some (SG_Executing g f t)"
  shows "handle_cancel_request q (Some cancel_all_info) sv = (Ok (), sv\<lparr>sv_out := sv_out sv @ [CancelReply (q_id q) 0 []]\<rparr>)"
proof -
  have "request_cancel (gi_goal_id cancel_all_info) sv = (Ok False, sv)"
    using assms(3) by (auto simp: request_cancel_def split: option.splits ServerGoalState.splits)
  with assms(1,2) show ?thesis
    by (simp add: handle_cancel_request_def andthen_def reply_def emit_def)
qed

theorem cancel_all_cancels_nothing_witness:
  "\<exists>sv :: (unit, nat, nat) server. sv_goals sv sample_goal = Some (SG_Executing () 0 None) \<and> \<not> sv_flags sv 0 \<and>
     \<not> sv_flags (snd (handle_cancel_request \<lparr>q_id = 1, q_has_payload = True, q_has_attachment = True\<rparr> (Some cancel_all_info) sv)) 0"
proof -
  let ?sv = "(server_new 10 None :: (unit, nat, nat) server)
    \<lparr>sv_manager := (goal_manager_new 10 None)\<lparr>gm_goals := [sample_goal \<mapsto> SG_Executing () 0 None]\<rparr>\<rparr>"
  have none: "\<nexists>g f t. sv_goals ?sv (gi_goal_id cancel_all_info) = Some (SG_Executing g f t)"
    by (simp add: cancel_all_info_def sample_goal_def)
  from cancel_all_cancels_nothing [OF _ _ none, of "\<lparr>q_id = 1, q_has_payload = True, q_has_attachment = True\<rparr>"]
  show ?thesis by (intro exI [of _ ?sv]) (simp add: server_new_def)
qed

end
