(* ===== verification/Zenoh_Config.thy ===== *)
theory Zenoh_Config
  imports RosZ_Text RosZ_Collections "HOL-Library.Sublist"
begin

text \<open>
  \<^verbatim>\<open>ros-z/src/config.rs\<close>: the settings in which the configuration of a router and of a session differ from
  the defaults of Zenoh, the builders that change them, and the text of a configuration file.  The
  configuration itself belongs to Zenoh; it and the printer of JSON values are parameters.
\<close>

section \<open>JSON values\<close>

text \<open>
  The values of \<^verbatim>\<open>serde_json\<close>, whose objects are ordered maps.
\<close>

datatype json_number = PosInt u64 | NegInt i64 | Float "64 word"

datatype json =
    JNull
  | JBool bool
  | JNumber json_number
  | JString string
  | JArray "json list"
  | JObject "(string \<times> json) list"

record 'c config_ops =
  cfg_default :: 'c
  cfg_insert :: "string \<Rightarrow> string \<Rightarrow> 'c \<Rightarrow> ('c, string) result"
  cfg_from_file :: "string \<Rightarrow> ('c, string) result"
  cfg_json_to_string :: "json \<Rightarrow> string"
  cfg_json_pretty :: "json \<Rightarrow> string"
  cfg_json5 :: "string \<Rightarrow> (json, string) result"

section \<open>Overrides\<close>

record ConfigOverride =
  co_key :: string
  co_value :: json
  co_reason :: string

record DistroDefaults =
  supports_type_hash :: bool

definition distro_humble :: DistroDefaults where
  "distro_humble = \<lparr>supports_type_hash = False\<rparr>"

definition distro_iron :: DistroDefaults where
  "distro_iron = \<lparr>supports_type_hash = True\<rparr>"

definition distro_rolling :: DistroDefaults where
  "distro_rolling = \<lparr>supports_type_hash = True\<rparr>"

definition distro_jazzy :: DistroDefaults where
  "distro_jazzy = \<lparr>supports_type_hash = True\<rparr>"

text \<open>The features that the crate is compiled with.\<close>

definition distro_current :: "string set \<Rightarrow> DistroDefaults" where
  "distro_current features =
     (if ''humble'' \<in> features then distro_humble
      else if ''iron'' \<in> features then distro_iron
      else if ''rolling'' \<in> features then distro_rolling
      else distro_jazzy)"

definition common_overrides :: "ConfigOverride list" where
  "common_overrides = [
     \<lparr>co_key = ''scouting/multicast/enabled'', co_value = JBool False,
      co_reason = ''Disable multicast discovery - use TCP gossip instead''\<rparr>,
     \<lparr>co_key = ''scouting/gossip/target'', co_value = JObject [(''peer'', JArray [JString ''router'']), (''router'', JArray [JString ''router'', JString ''peer''])],
      co_reason = ''Peers send gossip only to router (not to other peers) to minimize traffic at launch''\<rparr>,
     \<lparr>co_key = ''timestamping/enabled'', co_value = JObject [(''client'', JBool True), (''peer'', JBool True), (''router'', JBool True)],
      co_reason = ''Enable timestamping for peers and clients (required for transient_local durability)''\<rparr>,
     \<lparr>co_key = ''transport/unicast/open_timeout'', co_value = JNumber (PosInt 60000),
      co_reason = ''Increased from 10s to 60s to avoid timeout when opening links with many nodes''\<rparr>,
     \<lparr>co_key = ''transport/unicast/accept_timeout'', co_value = JNumber (PosInt 60000),
      co_reason = ''Increased from 10s to 60s to avoid timeout when accepting links with many nodes''\<rparr>,
     \<lparr>co_key = ''transport/unicast/accept_pending'', co_value = JNumber (PosInt 10000),
      co_reason = ''Increased from 100 to 10000 to handle many simultaneous connection handshakes''\<rparr>,
     \<lparr>co_key = ''transport/unicast/max_sessions'', co_value = JNumber (PosInt 10000),
      co_reason = ''Increased from 1000 to 10000 to support large number of concurrent sessions''\<rparr>,
     \<lparr>co_key = ''transport/link/tx/lease'', co_value = JNumber (PosInt 60000),
      co_reason = ''Increased from 10s to 60s to avoid lease expiration at launch with many nodes''\<rparr>,
     \<lparr>co_key = ''transport/link/tx/keep_alive'', co_value = JNumber (PosInt 2),
      co_reason = ''Decreased from 4 to 2 for loopback where packet loss is minimal''\<rparr>,
     \<lparr>co_key = ''transport/shared_memory/enabled'', co_value = JBool False,
      co_reason = ''Disabled by default until fully tested in production ROS environments''\<rparr>]"

definition router_specific_overrides :: "ConfigOverride list" where
  "router_specific_overrides = [
     \<lparr>co_key = ''mode'', co_value = JString ''router'',
      co_reason = ''Router mode required for ROS 2 discovery/routing''\<rparr>,
     \<lparr>co_key = ''listen/endpoints'', co_value = JArray [JString ''tcp/[::]:7447''],
      co_reason = ''Standard ROS 2 port 7447, IPv6 wildcard for all interfaces''\<rparr>,
     \<lparr>co_key = ''connect/endpoints'', co_value = JArray [],
      co_reason = ''Router does not connect to other endpoints (empty list)''\<rparr>,
     \<lparr>co_key = ''routing/router/peers_failover_brokering'', co_value = JBool False,
      co_reason = ''Changed from true to false - unnecessary when peers connect directly, reduces overhead''\<rparr>,
     \<lparr>co_key = ''transport/link/tx/queue/congestion_control/block/wait_before_close'', co_value = JNumber (PosInt 5000000),
      co_reason = ''Keep at 5s (vs 60s for session) - router routes to WiFi, lower value prevents long blocks''\<rparr>]"

definition session_specific_overrides :: "ConfigOverride list" where
  "session_specific_overrides = [
     \<lparr>co_key = ''mode'', co_value = JString ''peer'',
      co_reason = ''Peer mode for ROS nodes - connects to router for discovery and routing''\<rparr>,
     \<lparr>co_key = ''connect/endpoints'', co_value = JArray [JString ''tcp/localhost:7447''],
      co_reason = ''Connect to Zenoh router on localhost at standard ROS 2 port 7447''\<rparr>,
     \<lparr>co_key = ''listen/endpoints'', co_value = JArray [JString ''tcp/localhost:0''],
      co_reason = ''Accept connections only from localhost - external traffic routed via router''\<rparr>,
     \<lparr>co_key = ''scouting/gossip/autoconnect_strategy'', co_value = JObject [(''peer'', JObject [(''to_peer'', JString ''greater-zid''), (''to_router'', JString ''always'')])],
      co_reason = ''Changed peer-to-peer from 'always' to 'greater-zid' to avoid redundant connections on loopback''\<rparr>,
     \<lparr>co_key = ''queries_default_timeout'', co_value = JNumber (PosInt 60000),
      co_reason = ''Increased from 10s to 60s to handle slow service servers at launch''\<rparr>,
     \<lparr>co_key = ''transport/link/tx/queue/congestion_control/block/wait_before_close'', co_value = JNumber (PosInt 60000000),
      co_reason = ''Increased from 5s to 60s to avoid premature link closure during launch congestion on loopback''\<rparr>]"

definition router_overrides :: "ConfigOverride list" where
  "router_overrides = router_specific_overrides @ common_overrides"

definition session_overrides :: "ConfigOverride list" where
  "session_overrides = session_specific_overrides @ common_overrides"

definition insert_override :: "'c config_ops \<Rightarrow> ConfigOverride \<Rightarrow> 'c \<Rightarrow> ('c, string) result" where
  "insert_override G o' config = cfg_insert G (co_key o') (cfg_json_to_string G (co_value o')) config"

fun insert_overrides :: "'c config_ops \<Rightarrow> ConfigOverride list \<Rightarrow> 'c \<Rightarrow> ('c, string) result" where
  "insert_overrides G [] config = Ok config"
| "insert_overrides G (o' # os) config = bind_result (insert_override G o' config) (insert_overrides G os)"

definition build_config :: "'c config_ops \<Rightarrow> ConfigOverride list \<Rightarrow> ('c, string) result" where
  "build_config G overrides = insert_overrides G overrides (cfg_default G)"

definition router_config :: "'c config_ops \<Rightarrow> ('c, string) result" where
  "router_config G = build_config G router_overrides"

definition session_config :: "'c config_ops \<Rightarrow> ('c, string) result" where
  "session_config G = build_config G session_overrides"

section \<open>The builders\<close>

type_synonym RouterConfigBuilder = "ConfigOverride list"
type_synonym SessionConfigBuilder = "ConfigOverride list"

text \<open>Changing the first override with a key.\<close>

fun modify_first :: "string \<Rightarrow> (ConfigOverride \<Rightarrow> ConfigOverride) \<Rightarrow> ConfigOverride list \<Rightarrow> ConfigOverride list" where
  "modify_first key f [] = []"
| "modify_first key f (o' # os) = (if co_key o' = key then f o' # os else o' # modify_first key f os)"

definition router_builder_new :: RouterConfigBuilder where
  "router_builder_new = router_overrides"

definition with_listen_port :: "u16 \<Rightarrow> RouterConfigBuilder \<Rightarrow> RouterConfigBuilder" where
  "with_listen_port port = modify_first ''listen/endpoints''
     (\<lambda>o'. o'\<lparr>co_value := JArray [JString (''tcp/[::]:'' @ show_nat (unat port))]\<rparr>)"

definition with_listen_endpoint :: "string \<Rightarrow> RouterConfigBuilder \<Rightarrow> RouterConfigBuilder" where
  "with_listen_endpoint endpoint = modify_first ''listen/endpoints'' (\<lambda>o'. o'\<lparr>co_value := JArray [JString endpoint]\<rparr>)"

definition router_with_override :: "string \<Rightarrow> json \<Rightarrow> string \<Rightarrow> RouterConfigBuilder \<Rightarrow> RouterConfigBuilder" where
  "router_with_override key v reason os =
     (if \<exists>o' \<in> set os. co_key o' = key
      then modify_first key (\<lambda>o'. o'\<lparr>co_value := v, co_reason := reason\<rparr>) os
      else os @ [\<lparr>co_key = key, co_value = v, co_reason = reason\<rparr>])"

definition router_builder_build :: "'c config_ops \<Rightarrow> RouterConfigBuilder \<Rightarrow> ('c, string) result" where
  "router_builder_build G os = build_config G os"

definition session_builder_new :: SessionConfigBuilder where
  "session_builder_new = session_overrides"

definition with_router_endpoint :: "string \<Rightarrow> SessionConfigBuilder \<Rightarrow> SessionConfigBuilder" where
  "with_router_endpoint endpoint = modify_first ''connect/endpoints'' (\<lambda>o'. o'\<lparr>co_value := JArray [JString endpoint]\<rparr>)"

definition session_with_override :: "string \<Rightarrow> json \<Rightarrow> string \<Rightarrow> SessionConfigBuilder \<Rightarrow> SessionConfigBuilder" where
  "session_with_override key v reason os =
     (if \<exists>o' \<in> set os. co_key o' = key
      then modify_first key (\<lambda>o'. o'\<lparr>co_value := v, co_reason := reason\<rparr>) os
      else os @ [\<lparr>co_key = key, co_value = v, co_reason = reason\<rparr>])"

definition session_builder_build :: "'c config_ops \<Rightarrow> SessionConfigBuilder \<Rightarrow> ('c, string) result" where
  "session_builder_build G os = build_config G os"

section \<open>The text of a configuration file\<close>

text \<open>The walk along the parts of a key: a value that is no object ends it without a trace.\<close>

fun insert_path :: "string list \<Rightarrow> json \<Rightarrow> json \<Rightarrow> json" where
  "insert_path [] v current = current"
| "insert_path [part] v (JObject m) = JObject (btree_insert part v m)"
| "insert_path (part # q # parts) v (JObject m) =
     JObject (btree_insert part (insert_path (q # parts) v (unwrap_or (map_of m part) (JObject []))) m)"
| "insert_path parts v current = current"

definition config_tree :: "ConfigOverride list \<Rightarrow> json" where
  "config_tree os = fold (\<lambda>o'. insert_path (split_on CHR ''/'' (co_key o')) (co_value o')) os (JObject [])"

definition config_comments :: "ConfigOverride list \<Rightarrow> string btree" where
  "config_comments os = fold (\<lambda>o'. btree_insert (co_key o') (co_reason o')) os []"

definition is_simple :: "json \<Rightarrow> bool" where
  "is_simple v \<longleftrightarrow> (case v of JObject _ \<Rightarrow> False | JArray _ \<Rightarrow> False | _ \<Rightarrow> True)"

definition indent_text :: "nat \<Rightarrow> string" where
  "indent_text n = concat (replicate n ''  '')"

definition join_comma :: "string list \<Rightarrow> string" where
  "join_comma items = (case items of [] \<Rightarrow> [] | x # xs \<Rightarrow> x @ concat (map (\<lambda>y. '', '' @ y) xs))"

definition path_below :: "string \<Rightarrow> string \<Rightarrow> string" where
  "path_below path key = (if path = [] then key else path @ ''/'' @ key)"

definition comment_line :: "string btree \<Rightarrow> string \<Rightarrow> nat \<Rightarrow> string" where
  "comment_line comments path n = (case map_of comments path of
       Some comment \<Rightarrow> indent_text n @ ''  // '' @ comment @ [CHR 0x0A]
     | None \<Rightarrow> [])"

definition json5_array :: "'c config_ops \<Rightarrow> string list \<Rightarrow> nat \<Rightarrow> json list \<Rightarrow> string" where
  "json5_array G printed n items =
     (if items = [] then ''[]''
      else if list_all is_simple items then ''['' @ join_comma (map (cfg_json_to_string G) items) @ '']''
      else ''['' @ [CHR 0x0A] @
        concat (map (\<lambda>(i, s). indent_text n @ ''  '' @ trim s @ (if Suc i < length items then '','' else []) @ [CHR 0x0A])
          (enumerate 0 printed)) @ indent_text n @ '']'')"

fun generate_json5_with_comments :: "'c config_ops \<Rightarrow> string btree \<Rightarrow> string \<Rightarrow> nat \<Rightarrow> json \<Rightarrow> string"
  and json5_entries :: "'c config_ops \<Rightarrow> string btree \<Rightarrow> string \<Rightarrow> nat \<Rightarrow> (string \<times> json) list \<Rightarrow> string" where
  "generate_json5_with_comments G comments path n (JObject m) =
     ''{'' @ [CHR 0x0A] @ json5_entries G comments path n m @ indent_text n @ ''}''"
| "generate_json5_with_comments G comments path n (JArray items) =
     json5_array G (map (generate_json5_with_comments G comments path (Suc n)) items) n items"
| "generate_json5_with_comments G comments path n v = cfg_json_pretty G v"
| "json5_entries G comments path n [] = []"
| "json5_entries G comments path n ((key, v) # rest) =
     (let nested = generate_json5_with_comments G comments (path_below path key) (Suc n) v
      in comment_line comments (path_below path key) n @
         indent_text n @ ''  '' @ [CHR 0x22] @ key @ [CHR 0x22] @ '': '' @
         (if is_simple v then trim nested else nested) @
         (if rest = [] then [CHR 0x0A] else '','' @ [CHR 0x0A]) @
         json5_entries G comments path n rest)"

definition generate_json5 :: "'c config_ops \<Rightarrow> ConfigOverride list \<Rightarrow> string \<Rightarrow> string" where
  "generate_json5 G os name =
     ''// GENERATED: '' @ name @ '' - DO NOT EDIT'' @ [CHR 0x0A] @
     ''// This file is auto-generated from ros-z/src/config.rs'' @ [CHR 0x0A] @
     ''// Edit the source file and rebuild to make changes'' @ [CHR 0x0A] @
     generate_json5_with_comments G (config_comments os) [] 0 (config_tree os)"


section \<open>What the builders set\<close>

definition settings :: "ConfigOverride list \<Rightarrow> string \<rightharpoonup> json" where
  "settings os = map_of (map (\<lambda>o'. (co_key o', co_value o')) os)"

definition keys :: "ConfigOverride list \<Rightarrow> string set" where
  "keys os = co_key ` set os"

lemma modify_first_keys [simp]: "(\<And>o'. co_key (f o') = co_key o') \<Longrightarrow> map co_key (modify_first k f os) = map co_key os"
  by (induction os) auto

lemma keys_map: "keys os = set (map co_key os)"
  by (simp add: keys_def)

lemma settings_modify:
  assumes "\<And>o'. co_key (f o') = co_key o'" and "\<And>o'. co_value (f o') = v"
  shows "settings (modify_first k f os) = (if k \<in> keys os then (settings os)(k \<mapsto> v) else settings os)"
  by (induction os) (auto simp: settings_def keys_def assms fun_eq_iff)

lemma settings_append: "k \<notin> keys os \<Longrightarrow> settings (os @ [\<lparr>co_key = k, co_value = v, co_reason = r\<rparr>]) = (settings os)(k \<mapsto> v)"
  by (induction os) (auto simp: settings_def keys_def fun_eq_iff)

lemma router_override_spec:
  "settings (router_with_override k v r os) = (settings os)(k \<mapsto> v) \<and> keys (router_with_override k v r os) = insert k (keys os) \<and>
   (distinct (map co_key os) \<longrightarrow> distinct (map co_key (router_with_override k v r os)))"
proof (cases "k \<in> keys os")
  case True
  then have "router_with_override k v r os = modify_first k (\<lambda>o'. o'\<lparr>co_value := v, co_reason := r\<rparr>) os"
    by (auto simp: router_with_override_def keys_def)
  with True show ?thesis
    using settings_modify [of "\<lambda>o'. o'\<lparr>co_value := v, co_reason := r\<rparr>" v k os]
    by (auto simp: keys_map simp del: set_map)
next
  case False
  then have "router_with_override k v r os = os @ [\<lparr>co_key = k, co_value = v, co_reason = r\<rparr>]"
    by (auto simp: router_with_override_def keys_def)
  with False settings_append [OF False] show ?thesis by (auto simp: keys_def)
qed

text \<open>The calls of a builder, and what each is to set.\<close>

datatype router_call = ListenPort u16 | ListenEndpoint string | RouterOverride string json string

fun apply_router_call :: "router_call \<Rightarrow> RouterConfigBuilder \<Rightarrow> RouterConfigBuilder" where
  "apply_router_call (ListenPort port) = with_listen_port port"
| "apply_router_call (ListenEndpoint e) = with_listen_endpoint e"
| "apply_router_call (RouterOverride k v r) = router_with_override k v r"

fun router_setting :: "router_call \<Rightarrow> (string \<rightharpoonup> json) \<Rightarrow> string \<rightharpoonup> json" where
  "router_setting (ListenPort port) m = m(''listen/endpoints'' \<mapsto> JArray [JString (''tcp/[::]:'' @ show_nat (unat port))])"
| "router_setting (ListenEndpoint e) m = m(''listen/endpoints'' \<mapsto> JArray [JString e])"
| "router_setting (RouterOverride k v r) m = m(k \<mapsto> v)"

lemma router_call_spec:
  assumes "''listen/endpoints'' \<in> keys os" and "distinct (map co_key os)"
  shows "settings (apply_router_call c os) = router_setting c (settings os) \<and> ''listen/endpoints'' \<in> keys (apply_router_call c os) \<and>
    distinct (map co_key (apply_router_call c os))"
proof (cases c)
  case (RouterOverride k v r)
  with assms router_override_spec [of k v r os] show ?thesis by simp
qed (use assms in \<open>simp_all add: with_listen_port_def with_listen_endpoint_def settings_modify keys_map del: set_map\<close>)

lemma router_calls_spec:
  assumes "''listen/endpoints'' \<in> keys os" and "distinct (map co_key os)"
  shows "settings (fold apply_router_call cs os) = fold router_setting cs (settings os) \<and> distinct (map co_key (fold apply_router_call cs os))"
  using assms
proof (induction cs arbitrary: os)
  case (Cons c cs)
  from Cons.IH [of "apply_router_call c os"] router_call_spec [OF Cons.prems, of c] show ?case by simp
qed simp

lemma router_defaults: "''listen/endpoints'' \<in> keys router_overrides" "distinct (map co_key router_overrides)"
  by (simp_all add: keys_def router_overrides_def router_specific_overrides_def common_overrides_def)

text \<open>
  Whatever is called on a router builder, in whatever order and however often, the settings it
  builds are the defaults updated by the calls one after the other: a later call wins, every other
  setting is kept, and no key is written to the configuration twice.
\<close>

theorem router_builder_sets_last:
  "settings (fold apply_router_call cs router_builder_new) = fold router_setting cs (settings router_overrides) \<and>
   distinct (map co_key (fold apply_router_call cs router_builder_new))"
  unfolding router_builder_new_def by (rule router_calls_spec [OF router_defaults])

section \<open>The file has every setting\<close>

fun json_at :: "string list \<Rightarrow> json \<Rightarrow> json option" where
  "json_at [] v = Some v"
| "json_at (p # ps) (JObject m) = (case map_of m p of None \<Rightarrow> None | Some v \<Rightarrow> json_at ps v)"
| "json_at (p # ps) v = None"

text \<open>No value that is not an object stands in the way to a path.\<close>

fun open_path :: "string list \<Rightarrow> json \<Rightarrow> bool" where
  "open_path [] v \<longleftrightarrow> True"
| "open_path (p # ps) (JObject m) \<longleftrightarrow> (case map_of m p of None \<Rightarrow> True | Some v \<Rightarrow> open_path ps v)"
| "open_path (p # ps) v \<longleftrightarrow> False"

definition apart :: "string list \<Rightarrow> string list \<Rightarrow> bool" where
  "apart p q \<longleftrightarrow> \<not> prefix p q \<and> \<not> prefix q p"

lemma open_empty [simp]: "open_path ps (JObject [])"
  by (cases ps) simp_all

lemma json_at_empty: "json_at q (JObject []) = Some x \<Longrightarrow> q = [] \<and> x = JObject []"
  by (cases q) simp_all

lemma apart_Cons [simp]: "apart (a # p) (a # q) = apart p q"
  by (simp add: apart_def)

lemma apart_Nil [simp]: "\<not> apart [] q" "\<not> apart q []"
  by (simp_all add: apart_def)

lemma insert_path_here: "ps \<noteq> [] \<Longrightarrow> open_path ps c \<Longrightarrow> json_at ps (insert_path ps v c) = Some v"
  by (induction ps v c rule: insert_path.induct) (auto split: option.splits)

lemma insert_path_other: "apart p q \<Longrightarrow> json_at q (insert_path p v c) = json_at q c"
proof (induction p v c arbitrary: q rule: insert_path.induct)
  case (2 part v m)
  then show ?case by (cases q) auto
next
  case (3 part p parts v m)
  then obtain a q' where q: "q = a # q'" by (cases q) auto
  show ?case
  proof (cases "a = part")
    case True
    with 3 q have ap: "apart (p # parts) q'" by simp
    then have "q' \<noteq> []" by auto
    with True q 3(1) [OF ap] show ?thesis by (cases q') (auto split: option.splits)
  qed (use q in simp)
qed auto

lemma insert_path_open: "apart p q \<Longrightarrow> open_path q c \<Longrightarrow> open_path q (insert_path p v c)"
proof (induction p v c arbitrary: q rule: insert_path.induct)
  case (2 part v m)
  then show ?case by (cases q) auto
next
  case (3 part p parts v m)
  then obtain a q' where q: "q = a # q'" by (cases q) auto
  show ?case
  proof (cases "a = part")
    case True
    with 3 q show ?thesis by (auto split: option.splits)
  next
    case False
    with 3 q show ?thesis by simp
  qed
qed auto

lemma insert_path_from:
  assumes "json_at q (insert_path p v c) = Some x" and "p \<noteq> []" and "\<And>m. x \<noteq> JObject m"
  shows "(\<exists>r. q = p @ r \<and> json_at r v = Some x) \<or> json_at q c = Some x"
  using assms(1,2)
proof (induction p v c arbitrary: q rule: insert_path.induct)
  case (2 part v m)
  then show ?case using assms(3) by (cases q) (auto split: if_splits)
next
  case (3 part p parts v m)
  show ?case
  proof (cases q)
    case Nil
    with 3 assms(3) show ?thesis by auto
  next
    case (Cons a q')
    show ?thesis
    proof (cases "a = part")
      case True
      with 3 Cons have "json_at q' (insert_path (p # parts) v (unwrap_or (map_of m part) (JObject []))) = Some x" by simp
      from 3(1) [OF this] Cons True json_at_empty [of q' x] assms(3) show ?thesis
        by (cases "map_of m part") auto
    next
      case False
      with 3 Cons show ?thesis by simp
    qed
  qed
qed auto

definition path_of :: "ConfigOverride \<Rightarrow> string list" where
  "path_of o' = split_on CHR ''/'' (co_key o')"

definition paths_apart :: "ConfigOverride list \<Rightarrow> bool" where
  "paths_apart os \<longleftrightarrow> sorted_wrt (\<lambda>a b. apart (path_of a) (path_of b)) os"

definition insert_all :: "ConfigOverride list \<Rightarrow> json \<Rightarrow> json" where
  "insert_all os = fold (\<lambda>o'. insert_path (path_of o') (co_value o')) os"

lemma insert_all_simps [simp]:
  "insert_all [] c = c" "insert_all (a # os) c = insert_all os (insert_path (path_of a) (co_value a) c)"
  by (simp_all add: insert_all_def)

lemma insert_all_other: "list_all (\<lambda>o'. apart (path_of o') q) os \<Longrightarrow> json_at q (insert_all os c) = json_at q c"
  by (induction os arbitrary: c) (simp_all add: insert_path_other)

lemma insert_all_here:
  assumes "paths_apart os" and "\<forall>o' \<in> set os. open_path (path_of o') c" and "a \<in> set os"
  shows "json_at (path_of a) (insert_all os c) = Some (co_value a)"
  using assms
proof (induction os arbitrary: c)
  case (Cons b os)
  show ?case
  proof (cases "a = b")
    case True
    then have "list_all (\<lambda>o'. apart (path_of o') (path_of a)) os"
      using Cons.prems(1) by (auto simp: paths_apart_def list_all_iff apart_def)
    with insert_all_other insert_path_here [of "path_of b" c] True Cons.prems(2) show ?thesis
      by (simp add: path_of_def)
  next
    case False
    then have a: "a \<in> set os" using Cons.prems(3) by simp
    have "\<forall>o' \<in> set os. open_path (path_of o') (insert_path (path_of b) (co_value b) c)"
      using Cons.prems(1,2) by (auto simp: paths_apart_def intro: insert_path_open)
    with Cons.IH [OF _ _ a] Cons.prems(1) show ?thesis by (simp add: paths_apart_def)
  qed
qed simp

lemma insert_all_from:
  assumes "json_at q (insert_all os c) = Some x" and "\<And>m. x \<noteq> JObject m"
  shows "(\<exists>a \<in> set os. \<exists>r. q = path_of a @ r \<and> json_at r (co_value a) = Some x) \<or> json_at q c = Some x"
  using assms(1)
proof (induction os arbitrary: c)
  case (Cons b os)
  from Cons.IH [of "insert_path (path_of b) (co_value b) c"] Cons.prems
    insert_path_from [of q "path_of b" "co_value b" c x] assms(2)
  show ?case by (auto simp: path_of_def)
qed simp

text \<open>
  C40.  The tree of a configuration file has exactly the settings: when no key is a path below another
  key, every override is found at its path, and every value in the file other than an object belongs to an
  override.
\<close>

theorem config_tree_has_overrides:
  assumes "paths_apart os"
  shows "(\<forall>a \<in> set os. json_at (path_of a) (config_tree os) = Some (co_value a)) \<and>
    (\<forall>q x. json_at q (config_tree os) = Some x \<longrightarrow> (\<forall>m. x \<noteq> JObject m) \<longrightarrow>
       (\<exists>a \<in> set os. \<exists>r. q = path_of a @ r \<and> json_at r (co_value a) = Some x))"
proof -
  have tree: "config_tree os = insert_all os (JObject [])"
    by (simp add: config_tree_def insert_all_def path_of_def)
  show ?thesis
    unfolding tree using insert_all_here [OF assms] insert_all_from json_at_empty by (metis (no_types) open_empty)
qed

theorem config_tree_has_overrides_witness:
  "paths_apart router_overrides \<and> paths_apart session_overrides \<and>
   json_at [''listen'', ''endpoints''] (config_tree router_overrides) = Some (JArray [JString ''tcp/[::]:7447''])"
proof -
  have r: "paths_apart router_overrides" and s: "paths_apart session_overrides" by code_simp+
  have "\<lparr>co_key = ''listen/endpoints'', co_value = JArray [JString ''tcp/[::]:7447''],
      co_reason = ''Standard ROS 2 port 7447, IPv6 wildcard for all interfaces''\<rparr> \<in> set router_overrides"
    by (simp add: router_overrides_def router_specific_overrides_def)
  with config_tree_has_overrides [OF r] r s show ?thesis by (force simp: path_of_def)
qed

end
