(* ===== verification/Nodes.thy ===== *)
theory Nodes
  imports Type_Service Zenoh_Config
begin

text \<open>
  \<^verbatim>\<open>ros-z/src/context.rs\<close> and \<^verbatim>\<open>ros-z/src/node.rs\<close>: remapping rules, the context with the configuration of its
  session, nodes, and the endpoints that nodes create.  Opening a session and the environment are
  parameters; the counter of entity ids, shared by all nodes of a context, is the state of the operations.
\<close>

section \<open>Remapping rules\<close>

type_synonym RemapRules = "string \<rightharpoonup> string"

text \<open>\<^verbatim>\<open>str::split_once\<close>: the text before and after the first occurrence.\<close>

definition split_once :: "string \<Rightarrow> string \<Rightarrow> (string \<times> string) option" where
  "split_once pat s = (case find_sub pat s of None \<Rightarrow> None | Some i \<Rightarrow> Some (take i s, drop (i + length pat) s))"

definition remap_rules_new :: RemapRules where
  "remap_rules_new = Map.empty"

definition add_rule :: "string \<Rightarrow> RemapRules \<Rightarrow> (RemapRules, string) result" where
  "add_rule rule rules = (case split_once '':='' rule of
       Some (from, to) \<Rightarrow>
         if from = [] \<or> to = [] then Err ''Invalid remap rule: both sides must be non-empty''
         else Ok (rules(from \<mapsto> to))
     | None \<Rightarrow> Err (''Invalid remap rule format: expected '' @ [CHR 0x27] @ ''from:=to'' @ [CHR 0x27]))"

definition remap_apply :: "RemapRules \<Rightarrow> string \<Rightarrow> string" where
  "remap_apply rules n = (case rules n of Some remapped \<Rightarrow> remapped | None \<Rightarrow> n)"

definition remap_is_empty :: "RemapRules \<Rightarrow> bool" where
  "remap_is_empty rules \<longleftrightarrow> rules = Map.empty"

section \<open>Contexts\<close>

record ('c, 'b) ZContextBuilder =
  cb_domain_id :: u64
  cb_enclave :: string
  cb_zenoh_config :: "'c option"
  cb_config_file :: "string option"
  cb_config_overrides :: "(string \<times> json) list"
  cb_remap_rules :: RemapRules
  cb_enable_logging :: bool
  cb_shm_config :: "'b shm_env ShmConfig option"
  cb_keyexpr_format :: KeyExprFormat

definition context_builder_default :: "('c, 'b) ZContextBuilder" where
  "context_builder_default =
     \<lparr>cb_domain_id = 0, cb_enclave = [], cb_zenoh_config = None, cb_config_file = None, cb_config_overrides = [],
      cb_remap_rules = remap_rules_new, cb_enable_logging = False, cb_shm_config = None, cb_keyexpr_format = RmwZenoh\<rparr>"

definition cb_with_domain_id :: "u64 \<Rightarrow> ('c, 'b) ZContextBuilder \<Rightarrow> ('c, 'b) ZContextBuilder" where
  "cb_with_domain_id d b = b\<lparr>cb_domain_id := d\<rparr>"

definition cb_with_enclave :: "string \<Rightarrow> ('c, 'b) ZContextBuilder \<Rightarrow> ('c, 'b) ZContextBuilder" where
  "cb_with_enclave e b = b\<lparr>cb_enclave := e\<rparr>"

definition cb_with_format :: "KeyExprFormat \<Rightarrow> ('c, 'b) ZContextBuilder \<Rightarrow> ('c, 'b) ZContextBuilder" where
  "cb_with_format f b = b\<lparr>cb_keyexpr_format := f\<rparr>"

definition cb_with_config_file :: "string \<Rightarrow> ('c, 'b) ZContextBuilder \<Rightarrow> ('c, 'b) ZContextBuilder" where
  "cb_with_config_file path b = b\<lparr>cb_config_file := Some path\<rparr>"

definition cb_with_json :: "string \<Rightarrow> json \<Rightarrow> ('c, 'b) ZContextBuilder \<Rightarrow> ('c, 'b) ZContextBuilder" where
  "cb_with_json key v b = b\<lparr>cb_config_overrides := cb_config_overrides b @ [(key, v)]\<rparr>"

definition cb_disable_multicast :: "('c, 'b) ZContextBuilder \<Rightarrow> ('c, 'b) ZContextBuilder" where
  "cb_disable_multicast = cb_with_json ''scouting/multicast/enabled'' (JBool False)"

definition cb_with_connect_endpoints :: "string list \<Rightarrow> ('c, 'b) ZContextBuilder \<Rightarrow> ('c, 'b) ZContextBuilder" where
  "cb_with_connect_endpoints endpoints = cb_with_json ''connect/endpoints'' (JArray (map JString endpoints))"

definition cb_connect_to_local_zenohd :: "('c, 'b) ZContextBuilder \<Rightarrow> ('c, 'b) ZContextBuilder" where
  "cb_connect_to_local_zenohd = cb_with_connect_endpoints [''tcp/127.0.0.1:7447'']"

definition cb_with_mode :: "string \<Rightarrow> ('c, 'b) ZContextBuilder \<Rightarrow> ('c, 'b) ZContextBuilder" where
  "cb_with_mode mode = cb_with_json ''mode'' (JString mode)"

definition cb_with_zenoh_config :: "'c \<Rightarrow> ('c, 'b) ZContextBuilder \<Rightarrow> ('c, 'b) ZContextBuilder" where
  "cb_with_zenoh_config config b = b\<lparr>cb_zenoh_config := Some config\<rparr>"

definition cb_with_router_endpoint ::
    "'c config_ops \<Rightarrow> string \<Rightarrow> ('c, 'b) ZContextBuilder \<Rightarrow> (('c, 'b) ZContextBuilder, string) result" where
  "cb_with_router_endpoint G endpoint b =
     bind_result (session_builder_build G (with_router_endpoint endpoint session_builder_new))
       (\<lambda>config. Ok (b\<lparr>cb_zenoh_config := Some config\<rparr>))"

definition cb_with_remap_rule :: "string \<Rightarrow> ('c, 'b) ZContextBuilder \<Rightarrow> (('c, 'b) ZContextBuilder, string) result" where
  "cb_with_remap_rule rule b = bind_result (add_rule rule (cb_remap_rules b)) (\<lambda>r. Ok (b\<lparr>cb_remap_rules := r\<rparr>))"

fun cb_with_remap_rules :: "string list \<Rightarrow> ('c, 'b) ZContextBuilder \<Rightarrow> (('c, 'b) ZContextBuilder, string) result" where
  "cb_with_remap_rules [] b = Ok b"
| "cb_with_remap_rules (rule # rules) b = bind_result (cb_with_remap_rule rule b) (cb_with_remap_rules rules)"

definition cb_with_logging_enabled :: "('c, 'b) ZContextBuilder \<Rightarrow> ('c, 'b) ZContextBuilder" where
  "cb_with_logging_enabled b = b\<lparr>cb_enable_logging := True\<rparr>"

text \<open>\<open>create\<close> stands for the creation of a shared memory provider of a size.\<close>

definition cb_with_shm_config :: "'b shm_env ShmConfig \<Rightarrow> ('c, 'b) ZContextBuilder \<Rightarrow> ('c, 'b) ZContextBuilder" where
  "cb_with_shm_config config b = b\<lparr>cb_shm_config := Some config\<rparr>"

definition cb_with_shm_pool_size ::
    "(nat \<Rightarrow> ('b shm_env, string) result) \<Rightarrow> nat \<Rightarrow> ('c, 'b) ZContextBuilder \<Rightarrow> (('c, 'b) ZContextBuilder, string) result" where
  "cb_with_shm_pool_size create n b = bind_result (create n) (\<lambda>p. Ok (cb_with_shm_config (shm_config_new p) b))"

definition cb_with_shm_enabled ::
    "(nat \<Rightarrow> ('b shm_env, string) result) \<Rightarrow> ('c, 'b) ZContextBuilder \<Rightarrow> (('c, 'b) ZContextBuilder, string) result" where
  "cb_with_shm_enabled create b =
     bind_result (create DEFAULT_SHM_POOL_SIZE) (\<lambda>p. Ok (cb_with_shm_config (shm_config_new p) b))"

definition cb_with_shm_threshold :: "nat \<Rightarrow> ('c, 'b) ZContextBuilder \<Rightarrow> ('c, 'b) ZContextBuilder" where
  "cb_with_shm_threshold threshold b =
     b\<lparr>cb_shm_config := map_option (\<lambda>c. shm_with_threshold c threshold) (cb_shm_config b)\<rparr>"

text \<open>
  One \<^verbatim>\<open>key=value\<close> pair of the variable \<^verbatim>\<open>ROSZ_CONFIG_OVERRIDE\<close>, and all of them.  \<open>quote_text\<close> puts a text
  into single quotation marks.
\<close>

definition quote_text :: "string \<Rightarrow> string" where
  "quote_text s = [CHR 0x27] @ s @ [CHR 0x27]"

definition parse_override :: "'c config_ops \<Rightarrow> string \<Rightarrow> (string \<times> json, string) result" where
  "parse_override G pair = (case split_once ''='' pair of
       Some (k, v) \<Rightarrow>
         (case cfg_json5 G (trim v) of
            Ok j \<Rightarrow> Ok (trim k, j)
          | Err e \<Rightarrow> Err (''Failed to parse ROSZ_CONFIG_OVERRIDE value for key '' @ quote_text (trim k) @ '': '' @ e @
              '' (value: '' @ trim v @ '')'')
          | Panic \<Rightarrow> Panic)
     | None \<Rightarrow> Err (''Invalid ROSZ_CONFIG_OVERRIDE format: '' @ quote_text pair @ ''. Expected '' @ quote_text ''key=value''))"

fun parse_overrides :: "'c config_ops \<Rightarrow> string list \<Rightarrow> ((string \<times> json) list, string) result" where
  "parse_overrides G [] = Ok []"
| "parse_overrides G (p # ps) =
     (if trim p = [] then parse_overrides G ps
      else bind_result (parse_override G (trim p)) (\<lambda>x. map_ok (Cons x) (parse_overrides G ps)))"

definition apply_env_overrides ::
    "'c config_ops \<Rightarrow> string option \<Rightarrow> ('c, 'b) ZContextBuilder \<Rightarrow> (('c, 'b) ZContextBuilder, string) result" where
  "apply_env_overrides G var b = (case var of
       None \<Rightarrow> Ok b
     | Some s \<Rightarrow> map_ok (\<lambda>xs. b\<lparr>cb_config_overrides := cb_config_overrides b @ xs\<rparr>)
         (parse_overrides G (split_on CHR '';'' s)))"

text \<open>
  Which configuration is the base: one that was passed, a file that was passed, the file in the
  variable \<^verbatim>\<open>ROSZ_CONFIG_FILE\<close>, or the default for ROS; then the overrides in order.
\<close>

definition base_config :: "'c config_ops \<Rightarrow> string option \<Rightarrow> ('c, 'b) ZContextBuilder \<Rightarrow> ('c, string) result" where
  "base_config G file_var b = (case cb_zenoh_config b of
       Some config \<Rightarrow> Ok config
     | None \<Rightarrow> (case cb_config_file b of
         Some file \<Rightarrow> cfg_from_file G file
       | None \<Rightarrow> (case file_var of Some path \<Rightarrow> cfg_from_file G path | None \<Rightarrow> session_config G)))"

fun apply_overrides :: "'c config_ops \<Rightarrow> (string \<times> json) list \<Rightarrow> 'c \<Rightarrow> ('c, string) result" where
  "apply_overrides G [] config = Ok config"
| "apply_overrides G ((k, v) # xs) config = (case cfg_insert G k (cfg_json_to_string G v) config of
       Ok config' \<Rightarrow> apply_overrides G xs config'
     | Err e \<Rightarrow> Err (''Failed to apply config override '' @ quote_text k @ '' = '' @ quote_text (cfg_json_to_string G v) @ '': '' @ e)
     | Panic \<Rightarrow> Panic)"

record ('i, 'b, 'g) ZContext =
  cx_session :: "'i session_ops"
  cx_domain_id :: u64
  cx_enclave :: string
  cx_graph :: 'g
  cx_remap_rules :: RemapRules
  cx_shm_config :: "'b shm_env ShmConfig option"
  cx_keyexpr_format :: KeyExprFormat

text \<open>The new context comes with its counter, which starts at zero.\<close>

definition context_build ::
    "'c config_ops \<Rightarrow> ('c \<Rightarrow> ('i session_ops, string) result) \<Rightarrow> ('i session_ops \<Rightarrow> u64 \<Rightarrow> ('g, string) result) \<Rightarrow>
     string option \<Rightarrow> string option \<Rightarrow> ('c, 'b) ZContextBuilder \<Rightarrow> (('i, 'b, 'g) ZContext \<times> u64, string) result" where
  "context_build G open_session open_graph override_var file_var b =
     bind_result (apply_env_overrides G override_var b) (\<lambda>b1.
     bind_result (base_config G file_var b1) (\<lambda>base.
     bind_result (apply_overrides G (cb_config_overrides b1) base) (\<lambda>config.
     bind_result (open_session config) (\<lambda>session.
     bind_result (open_graph session (cb_domain_id b1)) (\<lambda>gr.
     Ok (\<lparr>cx_session = session, cx_domain_id = cb_domain_id b1, cx_enclave = cb_enclave b, cx_graph = gr,
          cx_remap_rules = cb_remap_rules b1, cx_shm_config = cb_shm_config b1,
          cx_keyexpr_format = cb_keyexpr_format b1\<rparr>, 0))))))"

section \<open>Nodes\<close>

record ('i, 'b) ZNodeBuilder =
  nb_domain_id :: u64
  nb_name :: string
  nb_namespace :: string
  nb_enclave :: string
  nb_session :: "'i session_ops"
  nb_remap_rules :: RemapRules
  nb_shm_config :: "'b shm_env ShmConfig option"
  nb_keyexpr_format :: KeyExprFormat
  nb_type_desc :: bool

definition create_node :: "('i, 'b, 'g) ZContext \<Rightarrow> string \<Rightarrow> ('i, 'b) ZNodeBuilder" where
  "create_node cx n =
     \<lparr>nb_domain_id = cx_domain_id cx, nb_name = n, nb_namespace = [], nb_enclave = cx_enclave cx,
      nb_session = cx_session cx, nb_remap_rules = cx_remap_rules cx, nb_shm_config = cx_shm_config cx,
      nb_keyexpr_format = cx_keyexpr_format cx, nb_type_desc = False\<rparr>"

definition nb_with_namespace :: "string \<Rightarrow> ('i, 'b) ZNodeBuilder \<Rightarrow> ('i, 'b) ZNodeBuilder" where
  "nb_with_namespace ns b = b\<lparr>nb_namespace := (if ns = ''/'' then [] else ns)\<rparr>"

definition nb_with_shm_config :: "'b shm_env ShmConfig \<Rightarrow> ('i, 'b) ZNodeBuilder \<Rightarrow> ('i, 'b) ZNodeBuilder" where
  "nb_with_shm_config config b = b\<lparr>nb_shm_config := Some config\<rparr>"

definition nb_with_type_description_service :: "('i, 'b) ZNodeBuilder \<Rightarrow> ('i, 'b) ZNodeBuilder" where
  "nb_with_type_description_service b = b\<lparr>nb_type_desc := True\<rparr>"

record ('i, 'b) ZNode =
  zn_entity :: "'i NodeEntity"
  zn_session :: "'i session_ops"
  zn_remap_rules :: RemapRules
  zn_token :: string
  zn_shm_config :: "'b shm_env ShmConfig option"
  zn_keyexpr_format :: KeyExprFormat
  zn_type_desc :: "(TypeDescriptionService \<times> 'i ZServer) option"

definition node_token :: "'i zenoh_ops \<Rightarrow> 'i session_ops \<Rightarrow> 'i NodeEntity \<Rightarrow> (string, pub_error) result" where
  "node_token Z se entity =
     bind_result (zenoh_result (node_lv_token_key_expr Z entity)) (\<lambda>ke.
     bind_result (zenoh_result (so_declare_token se ke)) (\<lambda>_. Ok ke))"

definition node_build :: "'i zenoh_ops \<Rightarrow> ('i, 'b) ZNodeBuilder \<Rightarrow> (u64, ('i, 'b) ZNode, pub_error) exec" where
  "node_build Z b = (\<lambda>counter.
     let (i, counter1) = counter_increment counter; se = nb_session b;
         entity = node_entity_new (nb_domain_id b) (so_zid se) i (nb_name b) (nb_namespace b) (nb_enclave b);
         node = (\<lambda>token service. \<lparr>zn_entity = entity, zn_session = se, zn_remap_rules = nb_remap_rules b, zn_token = token,
           zn_shm_config = nb_shm_config b, zn_keyexpr_format = nb_keyexpr_format b, zn_type_desc = service\<rparr>)
     in case node_token Z se entity of
          Err e \<Rightarrow> (Err e, counter1)
        | Panic \<Rightarrow> (Panic, counter1)
        | Ok token \<Rightarrow>
            if nb_type_desc b
            then andthen (tds_new Z se (nb_name b) (nb_namespace b) i) (\<lambda>service. ret (node token (Some service))) counter1
            else (Ok (node token None), counter1))"

definition has_type_description_service :: "('i, 'b) ZNode \<Rightarrow> bool" where
  "has_type_description_service n \<longleftrightarrow> zn_type_desc n \<noteq> None"

section \<open>Endpoints\<close>

text \<open>An endpoint gets the next id; its name is qualified when it is built.\<close>

definition new_endpoint ::
    "('i, 'b) ZNode \<Rightarrow> EntityKind \<Rightarrow> string \<Rightarrow> TypeInfo option \<Rightarrow> u64 \<Rightarrow> 'i EndpointEntity \<times> u64" where
  "new_endpoint n kind t ti counter =
     (let (i, counter') = counter_increment counter
      in (\<lparr>endpoint_id = i, endpoint_node = zn_entity n, endpoint_kind = kind, topic = t, type_info = ti,
           endpoint_qos = qos_default\<rparr>, counter'))"

definition create_pub_impl ::
    "('i, 'b) ZNode \<Rightarrow> string \<Rightarrow> TypeInfo option \<Rightarrow> u64 \<Rightarrow> ('i, 'b) ZPubBuilder \<times> u64" where
  "create_pub_impl n t ti counter =
     (let (e, counter') = new_endpoint n EK_Publisher t ti counter
      in (\<lparr>pb_entity = e, pb_with_attachment = True, pb_shm_config = zn_shm_config n,
           pb_keyexpr_format = zn_keyexpr_format n, pb_dyn_schema = None\<rparr>, counter'))"

definition create_sub_impl :: "('i, 'b) ZNode \<Rightarrow> string \<Rightarrow> TypeInfo option \<Rightarrow> u64 \<Rightarrow> 'i ZSubBuilder \<times> u64" where
  "create_sub_impl n t ti counter =
     (let (e, counter') = new_endpoint n EK_Subscription t ti counter
      in (\<lparr>sb_entity = e, sb_keyexpr_format = zn_keyexpr_format n, sb_dyn_schema = None\<rparr>, counter'))"

text \<open>The builders of services and clients: the entity and the format.\<close>

definition create_service_impl ::
    "('i, 'b) ZNode \<Rightarrow> string \<Rightarrow> TypeInfo option \<Rightarrow> u64 \<Rightarrow> ('i EndpointEntity \<times> KeyExprFormat) \<times> u64" where
  "create_service_impl n t ti counter =
     (let (e, counter') = new_endpoint n EK_Service t ti counter in ((e, zn_keyexpr_format n), counter'))"

definition create_client_impl ::
    "('i, 'b) ZNode \<Rightarrow> string \<Rightarrow> TypeInfo option \<Rightarrow> u64 \<Rightarrow> ('i EndpointEntity \<times> KeyExprFormat) \<times> u64" where
  "create_client_impl n t ti counter =
     (let (e, counter') = new_endpoint n EK_Client t ti counter in ((e, zn_keyexpr_format n), counter'))"

definition create_pub :: "('i, 'b) ZNode \<Rightarrow> string \<Rightarrow> TypeInfo \<Rightarrow> u64 \<Rightarrow> ('i, 'b) ZPubBuilder \<times> u64" where
  "create_pub n t ti = create_pub_impl n t (Some ti)"

definition create_sub :: "('i, 'b) ZNode \<Rightarrow> string \<Rightarrow> TypeInfo \<Rightarrow> u64 \<Rightarrow> 'i ZSubBuilder \<times> u64" where
  "create_sub n t ti = create_sub_impl n t (Some ti)"

definition create_service ::
    "('i, 'b) ZNode \<Rightarrow> string \<Rightarrow> TypeInfo \<Rightarrow> u64 \<Rightarrow> ('i EndpointEntity \<times> KeyExprFormat) \<times> u64" where
  "create_service n t ti = create_service_impl n t (Some ti)"

definition node_create_client ::
    "('i, 'b) ZNode \<Rightarrow> string \<Rightarrow> TypeInfo \<Rightarrow> u64 \<Rightarrow> ('i EndpointEntity \<times> KeyExprFormat) \<times> u64" where
  "node_create_client n t ti = create_client_impl n t (Some ti)"

section \<open>Dynamic endpoints\<close>

text \<open>A failed registration is only logged.\<close>

definition register_with_service ::
    "hash_env \<Rightarrow> MessageSchema \<Rightarrow> ('i, 'b) ZNode \<Rightarrow> (('i, 'b) ZNode, pub_error) result" where
  "register_with_service H schema n = (case zn_type_desc n of
       None \<Rightarrow> Ok n
     | Some (service, server) \<Rightarrow>
        (case tds_register_schema H schema service of
           (Panic, _) \<Rightarrow> Panic
         | (_, service') \<Rightarrow> Ok (n\<lparr>zn_type_desc := Some (service', server)\<rparr>)))"

definition create_dyn_pub ::
    "'i zenoh_ops \<Rightarrow> hash_env \<Rightarrow> string \<Rightarrow> MessageSchema \<Rightarrow>
     (('i, 'b) ZNode \<times> u64, ('i, 'b, 'c) ZPub, pub_error) exec" where
  "create_dyn_pub Z H t schema = (\<lambda>(n, counter).
     case register_with_service H schema n of
       Ok n1 \<Rightarrow>
         (case schema_type_info H schema of
            Ok ti \<Rightarrow>
              (let (b, counter') = create_pub_impl n1 t (Some ti) counter
               in case pb_with_dyn_schema H schema b of
                    Ok b' \<Rightarrow> (pub_build Z (zn_session n1) b', (n1, counter'))
                  | _ \<Rightarrow> (Panic, (n1, counter')))
          | _ \<Rightarrow> (Panic, (n1, counter)))
     | _ \<Rightarrow> (Panic, (n, counter)))"

text \<open>A subscriber with a schema, and the type that a discovered schema announces.\<close>

definition build_dyn_sub ::
    "'i zenoh_ops \<Rightarrow> hash_env \<Rightarrow> ('i, 'b) ZNode \<Rightarrow> string \<Rightarrow> MessageSchema \<Rightarrow> TypeInfo \<Rightarrow>
     (u64, ('i, 'b, 'c) ZSub, pub_error) exec" where
  "build_dyn_sub Z H n t schema ti = (\<lambda>counter.
     let (b, counter') = create_sub_impl n t (Some ti) counter
     in case sb_with_dyn_schema H schema b of
          Ok b' \<Rightarrow> (sub_build Z (zn_session n) b', counter')
        | _ \<Rightarrow> (Panic, counter'))"

definition create_dyn_sub ::
    "'i zenoh_ops \<Rightarrow> hash_env \<Rightarrow> ('i, 'b) ZNode \<Rightarrow> string \<Rightarrow> MessageSchema \<Rightarrow> (u64, ('i, 'b, 'c) ZSub, pub_error) exec" where
  "create_dyn_sub Z H n t schema = (\<lambda>counter. case schema_type_info H schema of
       Ok ti \<Rightarrow> build_dyn_sub Z H n t schema ti counter
     | _ \<Rightarrow> (Panic, counter))"

text \<open>\<open>discover\<close> is the discovery by topic of the type description client.\<close>

definition create_dyn_sub_auto ::
    "'i zenoh_ops \<Rightarrow> hash_env \<Rightarrow> (tdc_error \<Rightarrow> string) \<Rightarrow>
     (string \<Rightarrow> (u64, MessageSchema \<times> string, tdc_error) exec) \<Rightarrow> ('i, 'b) ZNode \<Rightarrow> string \<Rightarrow>
     (u64, ('i, 'b, 'c) ZSub \<times> MessageSchema, pub_error) exec" where
  "create_dyn_sub_auto Z H show_error discover n t = (\<lambda>counter. case discover t counter of
       (Ok (schema, hash), counter1) \<Rightarrow>
         andthen (build_dyn_sub Z H n t schema
             (type_info_new (dds_type_name (ms_type_name schema)) (unwrap_or (from_rihs_string hash) type_hash_zero)))
           (\<lambda>s. ret (s, schema)) counter1
     | (Err e, counter1) \<Rightarrow> (Err (ZenohError (Message (''Schema discovery failed: '' @ show_error e))), counter1)
     | (Panic, counter1) \<Rightarrow> (Panic, counter1))"

end
