(* ===== verification/Node_Properties.thy ===== *)
theory Node_Properties
  imports Nodes Type_Discovery
begin

text \<open>
  The environment's overrides and the remapping rules are read as they are written; a dynamic publisher and a
  dynamic subscriber with the same schema talk to each other.
\<close>

section \<open>Reading rules and overrides\<close>

lemma split_once_first:
  assumes "c \<notin> set a"
  shows "split_once (c # cs) (a @ (c # cs) @ b) = Some (a, b)"
  using find_sub_skip [OF assms, of cs "(c # cs) @ b"] find_sub_here [of "c # cs" b]
  by (simp add: split_once_def)

text \<open>A rule as it is written, for names without a colon on its left side.\<close>

definition print_rule :: "string \<times> string \<Rightarrow> string" where
  "print_rule r = fst r @ '':='' @ snd r"

definition rule_ok :: "string \<times> string \<Rightarrow> bool" where
  "rule_ok r \<longleftrightarrow> fst r \<noteq> [] \<and> snd r \<noteq> [] \<and> CHR '':'' \<notin> set (fst r)"

lemma add_rule_printed: "rule_ok r \<Longrightarrow> add_rule (print_rule r) rules = Ok (rules(fst r \<mapsto> snd r))"
  using split_once_first [of "CHR '':''" "fst r" "''=''" "snd r"]
  by (cases r) (simp add: add_rule_def print_rule_def rule_ok_def)

lemma remap_rules_read:
  assumes "list_all rule_ok rs"
  shows "cb_with_remap_rules (map print_rule rs) b = Ok (b\<lparr>cb_remap_rules := cb_remap_rules b ++ map_of (rev rs)\<rparr>)"
  using assms
proof (induction rs arbitrary: b)
  case (Cons r rs)
  let ?b = "b\<lparr>cb_remap_rules := (cb_remap_rules b)(fst r \<mapsto> snd r)\<rparr>"
  have "cb_with_remap_rule (print_rule r) b = Ok ?b"
    using add_rule_printed [of r "cb_remap_rules b"] Cons.prems by (simp add: cb_with_remap_rule_def)
  with Cons.IH [of ?b] Cons.prems show ?case by (cases r) (simp add: map_add_upd_left map_add_def fun_eq_iff split: option.splits)
qed simp

text \<open>The value of \<^verbatim>\<open>ROSZ_CONFIG_OVERRIDE\<close> for a list of keys and texts.\<close>

definition print_override :: "string \<times> string \<Rightarrow> string" where
  "print_override o' = fst o' @ ''='' @ snd o'"

definition print_overrides :: "(string \<times> string) list \<Rightarrow> string" where
  "print_overrides os = join_with CHR '';'' (map print_override os)"

definition solid_ends :: "string \<Rightarrow> bool" where
  "solid_ends s \<longleftrightarrow> s \<noteq> [] \<and> ascii_solid (hd s) \<and> ascii_solid (last s)"

definition override_ok :: "string \<times> string \<Rightarrow> bool" where
  "override_ok o' \<longleftrightarrow> solid_ends (fst o') \<and> solid_ends (snd o') \<and>
     CHR ''='' \<notin> set (fst o') \<and> CHR '';'' \<notin> set (fst o' @ snd o')"

lemma trim_solid_ends: "solid_ends s \<Longrightarrow> trim s = s"
  by (simp add: solid_ends_def trim_id)

lemma print_override_solid: "override_ok o' \<Longrightarrow> solid_ends (print_override o')"
  by (auto simp: override_ok_def solid_ends_def print_override_def)

lemma parse_override_printed:
  assumes "override_ok o'" and "cfg_json5 G (snd o') = Ok v"
  shows "parse_override G (print_override o') = Ok (fst o', v)"
  using assms split_once_first [of "CHR ''=''" "fst o'" "[]" "snd o'"]
  by (cases o') (simp add: parse_override_def print_override_def override_ok_def trim_solid_ends)

lemma parse_overrides_printed:
  assumes "list_all override_ok os" and "list_all2 (\<lambda>o' v. cfg_json5 G (snd o') = Ok v) os vs"
  shows "parse_overrides G (map print_override os) = Ok (zip (map fst os) vs)"
  using assms(2,1)
proof (induction os vs rule: list_all2_induct)
  case (Cons o' os v vs)
  then have ok: "override_ok o'" by simp
  from print_override_solid [OF ok] have "trim (print_override o') = print_override o'" "print_override o' \<noteq> []"
    by (simp_all add: trim_solid_ends) (simp add: solid_ends_def)
  with parse_override_printed [OF ok Cons.hyps(1)] Cons show ?case by simp
qed simp

text \<open>
  The overrides in the environment are read as they are written: for keys and JSON texts that do not
  start or end with white space, keys without an equality sign and no semicolon anywhere, the
  overrides are added behind those of the builder in the order of the variable, with the values that the
  JSON parser gives for the texts.
\<close>

theorem env_overrides_read:
  assumes "list_all override_ok os" and "os \<noteq> []" and "list_all2 (\<lambda>o' v. cfg_json5 G (snd o') = Ok v) os vs"
  shows "apply_env_overrides G (Some (print_overrides os)) b =
    Ok (b\<lparr>cb_config_overrides := cb_config_overrides b @ zip (map fst os) vs\<rparr>)"
proof -
  have "list_all (\<lambda>p. CHR '';'' \<notin> set p) (map print_override os)"
    using assms(1) by (auto simp: list_all_iff override_ok_def print_override_def)
  with assms(2) have "split_on CHR '';'' (print_overrides os) = map print_override os"
    unfolding print_overrides_def by (intro split_join) simp_all
  with parse_overrides_printed [OF assms(1,3)] show ?thesis by (simp add: apply_env_overrides_def)
qed

definition sample_config_ops :: "(string \<rightharpoonup> string) config_ops" where
  "sample_config_ops =
     \<lparr>cfg_default = Map.empty, cfg_insert = (\<lambda>k v c. Ok (c(k \<mapsto> v))), cfg_from_file = (\<lambda>_. Err ''no file''),
      cfg_json_to_string = (\<lambda>j. case j of JBool True \<Rightarrow> ''true'' | _ \<Rightarrow> ''false''), cfg_json_pretty = (\<lambda>_. []),
      cfg_json5 = (\<lambda>s. if s = ''true'' then Ok (JBool True) else if s = ''false'' then Ok (JBool False) else Err ''unexpected'')\<rparr>"

theorem env_overrides_read_witness:
  "apply_env_overrides sample_config_ops (Some ''a/b=true;c=false'') (context_builder_default :: (string \<rightharpoonup> string, unit) ZContextBuilder) =
    Ok (context_builder_default\<lparr>cb_config_overrides := [(''a/b'', JBool True), (''c'', JBool False)]\<rparr>)"
proof -
  have ok: "list_all override_ok [(''a/b'', ''true''), (''c'', ''false'')]"
    by (simp add: override_ok_def solid_ends_def ascii_solid_def)
  have js: "list_all2 (\<lambda>o' v. cfg_json5 sample_config_ops (snd o') = Ok v) [(''a/b'', ''true''), (''c'', ''false'')] [JBool True, JBool False]"
    by (simp add: sample_config_ops_def)
  have "print_overrides [(''a/b'', ''true''), (''c'', ''false'')] = ''a/b=true;c=false''"
    by (simp add: print_overrides_def print_override_def)
  with env_overrides_read [OF ok _ js, of context_builder_default] show ?thesis
    by (simp add: context_builder_default_def)
qed

section \<open>The key of an endpoint\<close>

text \<open>Domain, topic and type decide about the key expression, in both formats.\<close>

lemma topic_key_same:
  assumes "topic e1 = topic e2" and "type_info e1 = type_info e2"
    and "domain_id (endpoint_node e1) = domain_id (endpoint_node e2)"
  shows "fmt_topic_key_expr Z fmt e1 = fmt_topic_key_expr Z fmt e2"
  using assms by (simp add: fmt_topic_key_expr_def rmw_topic_key_expr_def dds_topic_key_expr_def split: KeyExprFormat.splits)

text \<open>What a built publisher and a built subscriber have taken from their builder.\<close>

lemma pub_build_Ok:
  assumes "pub_build Z se b = Ok p"
  obtains t k where "qualify_topic_name (topic (pb_entity b)) (namespace (endpoint_node (pb_entity b)))
      (node_name (endpoint_node (pb_entity b))) = Ok t"
    and "fmt_topic_key_expr Z (pb_keyexpr_format b) ((pb_entity b)\<lparr>topic := t\<rparr>) = Ok k" and "zp_key_expr p = topic_ke_str k"
    and "zp_shm_config p = pb_shm_config b" and "zp_with_attachment p = pb_with_attachment b"
    and "zp_entity p = (pb_entity b)\<lparr>topic := t\<rparr>"
  using assms that
  by (auto simp: pub_build_def qualify_entity_def zenoh_result_def bind_result_eq_Ok Let_def split: result.splits)

lemma sub_build_Ok:
  assumes "sub_build Z se b = Ok s"
  obtains t k where "qualify_topic_name (topic (sb_entity b)) (namespace (endpoint_node (sb_entity b)))
      (node_name (endpoint_node (sb_entity b))) = Ok t"
    and "fmt_topic_key_expr Z (sb_keyexpr_format b) ((sb_entity b)\<lparr>topic := t\<rparr>) = Ok k" and "zs_key_expr s = topic_ke_str k"
    and "zs_queue s = Some (queue_new (queue_size (history (endpoint_qos (sb_entity b)))))"
    and "zs_dyn_schema s = sb_dyn_schema b"
  using assms that
  by (auto simp: sub_build_def sub_build_internal_def qualify_entity_def zenoh_result_def bind_result_eq_Ok Let_def
      split: result.splits)

text \<open>The name of a topic as a node sees it.\<close>

definition node_topic :: "('i, 'b) ZNode \<Rightarrow> string \<Rightarrow> (string, TopicNameError) result" where
  "node_topic n t = qualify_topic_name t (namespace (zn_entity n)) (node_name (zn_entity n))"

lemma register_keeps:
  "register_with_service H schema n = Ok n1 \<Longrightarrow>
   zn_entity n1 = zn_entity n \<and> zn_shm_config n1 = zn_shm_config n \<and> zn_keyexpr_format n1 = zn_keyexpr_format n"
  by (auto simp: register_with_service_def split: option.splits prod.splits result.splits)

lemma dyn_pub_made:
  assumes "create_dyn_pub Z H t schema (n, counter) = (Ok p, st)"
  obtains ti e k where "schema_type_info H schema = Ok ti" and "node_topic n t = Ok (topic e)"
    and "type_info e = Some ti" and "endpoint_node e = zn_entity n"
    and "fmt_topic_key_expr Z (zn_keyexpr_format n) e = Ok k" and "zp_key_expr p = topic_ke_str k"
    and "zp_shm_config p = zn_shm_config n" and "zp_with_attachment p"
proof -
  obtain n1 ti where n1: "register_with_service H schema n = Ok n1" and ti: "schema_type_info H schema = Ok ti"
    using assms by (auto simp: create_dyn_pub_def split: result.splits)
  note keep = register_keeps [OF n1]
  let ?e = "\<lparr>endpoint_id = counter, endpoint_node = zn_entity n, endpoint_kind = EK_Publisher, topic = t,
     type_info = Some ti, endpoint_qos = qos_default\<rparr>"
  let ?b = "\<lparr>pb_entity = ?e, pb_with_attachment = True, pb_shm_config = zn_shm_config n,
     pb_keyexpr_format = zn_keyexpr_format n, pb_dyn_schema = Some schema\<rparr>"
  have "pub_build Z (zn_session n1) ?b = Ok p"
    using assms keep
    by (simp add: create_dyn_pub_def n1 ti create_pub_impl_def new_endpoint_def counter_increment_def
        pb_with_dyn_schema_def entity_with_schema_def)
  then obtain t' k where "qualify_topic_name t (namespace (zn_entity n)) (node_name (zn_entity n)) = Ok t'"
    "fmt_topic_key_expr Z (zn_keyexpr_format n) (?e\<lparr>topic := t'\<rparr>) = Ok k" "zp_key_expr p = topic_ke_str k"
    "zp_shm_config p = zn_shm_config n" "zp_with_attachment p"
    by (rule pub_build_Ok) simp
  with ti show thesis by (intro that [of ti "?e\<lparr>topic := t'\<rparr>" k]) (simp_all add: node_topic_def)
qed

lemma dyn_sub_made:
  assumes "build_dyn_sub Z H n t schema ti counter = (Ok s, counter')"
  obtains e k where "node_topic n t = Ok (topic e)" and "type_info e = Some ti" and "endpoint_node e = zn_entity n"
    and "fmt_topic_key_expr Z (zn_keyexpr_format n) e = Ok k" and "zs_key_expr s = topic_ke_str k"
    and "zs_queue s = Some (queue_new 10)" and "zs_dyn_schema s = Some schema"
proof -
  let ?e = "\<lparr>endpoint_id = counter, endpoint_node = zn_entity n, endpoint_kind = EK_Subscription, topic = t,
     type_info = Some ti, endpoint_qos = qos_default\<rparr>"
  let ?b = "\<lparr>sb_entity = ?e, sb_keyexpr_format = zn_keyexpr_format n, sb_dyn_schema = Some schema\<rparr>"
  have "sub_build Z (zn_session n) ?b = Ok s"
    using assms
    by (simp add: build_dyn_sub_def create_sub_impl_def new_endpoint_def counter_increment_def
        sb_with_dyn_schema_def entity_with_schema_def)
  then obtain t' k where "qualify_topic_name t (namespace (zn_entity n)) (node_name (zn_entity n)) = Ok t'"
    "fmt_topic_key_expr Z (zn_keyexpr_format n) (?e\<lparr>topic := t'\<rparr>) = Ok k" "zs_key_expr s = topic_ke_str k"
    "zs_queue s = Some (queue_new (queue_size (history qos_default)))" "zs_dyn_schema s = Some schema"
    by (rule sub_build_Ok) simp
  moreover have "queue_size (history qos_default) = 10" by (simp add: queue_size_def qos_default_def)
  ultimately show thesis by (intro that [of "?e\<lparr>topic := t'\<rparr>" k]) (simp_all add: node_topic_def)
qed

section \<open>Dynamic messages end to end\<close>

abbreviation dyn_recv_all ::
    "'b zbuf_ops \<Rightarrow> byte_order \<Rightarrow> nat \<Rightarrow> (('i, 'b, 'c) ZSub, DynamicMessage option list, DynamicError recv_error) exec" where
  "dyn_recv_all Zb LE n \<equiv> collect (replicate n (dyn_recv Zb LE))"

lemma recv_keeps_schema: "zs_dyn_schema (snd (recv Zb deser s)) = zs_dyn_schema s"
  by (auto simp: recv_def recv_serialized_def andthen_def split: result.splits prod.splits option.splits)

lemma dyn_recv_is_recv: "zs_dyn_schema s = Some schema \<Longrightarrow> dyn_recv Zb LE s = recv Zb (\<lambda>bs. dyn_deserialize LE (bs, schema)) s"
  by (simp add: dyn_recv_def with_schema_def)

lemma dyn_recv_all_is_recv_all:
  "zs_dyn_schema s = Some schema \<Longrightarrow> dyn_recv_all Zb LE n s = recv_all Zb (\<lambda>bs. dyn_deserialize LE (bs, schema)) n s"
proof (induction n arbitrary: s)
  case (Suc n)
  show ?case
  proof (cases "recv Zb (\<lambda>bs. dyn_deserialize LE (bs, schema)) s")
    case (Pair r s')
    then have "zs_dyn_schema s' = Some schema" using recv_keeps_schema [of Zb _ s] Suc.prems by (metis snd_conv)
    from Suc.IH [OF this] Pair dyn_recv_is_recv [OF Suc.prems] show ?thesis
      by (cases r) (simp_all add: andthen_def)
  qed
qed simp

lemma sub_deliver_schema [simp]: "zs_dyn_schema (fold sub_deliver ds s) = zs_dyn_schema s"
  by (induction ds arbitrary: s) (simp_all add: sub_deliver_def)

text \<open>
  C17.  Dynamic messages arrive.  A publisher and a subscriber that two nodes of one domain create with the
  same schema, on names that the nodes resolve to the same topic, have the same key; messages
  that fit the schema are all published, through shared memory or not, on that key; and when the
  subscriber has been handed them, it receives the last ten unchanged and in order.
\<close>

theorem dynamic_messages_arrive:
  assumes "shm_env_laws Zb E" and "byte_order_laws LE"
    and "create_dyn_pub Z H t1 schema (n1, k1) = (Ok p, st)"
    and "create_dyn_sub Z H n2 t2 schema k2 = (Ok s, k3)"
    and "domain_id (zn_entity n1) = domain_id (zn_entity n2)" and "zn_keyexpr_format n1 = zn_keyexpr_format n2"
    and "node_topic n1 t1 = node_topic n2 t2"
    and "list_all (\<lambda>m. message_typed schema m \<and> shm_adequate E (zn_shm_config n1) (estimate m) 0) msgs"
  shows "\<exists>samples p' s'. publish_all Zb (DynamicCdrSerdes Zb E LE) estimate now msgs p = (Ok samples, p') \<and>
    list_all (\<lambda>x. put_key_expr x = zs_key_expr s) samples \<and>
    dyn_recv_all Zb LE (min 10 (length msgs)) (fold sub_deliver samples s) =
      (Ok (map Some (drop (length msgs - 10) msgs)), s')"
proof -
  obtain ti e1 c1 where pub: "schema_type_info H schema = Ok ti" "node_topic n1 t1 = Ok (topic e1)" "type_info e1 = Some ti"
    "endpoint_node e1 = zn_entity n1" "fmt_topic_key_expr Z (zn_keyexpr_format n1) e1 = Ok c1" "zp_key_expr p = topic_ke_str c1"
    "zp_shm_config p = zn_shm_config n1"
    using assms(3) by (rule dyn_pub_made)
  from assms(4) pub(1) have "build_dyn_sub Z H n2 t2 schema ti k2 = (Ok s, k3)" by (simp add: create_dyn_sub_def)
  then obtain e2 c2 where sub: "node_topic n2 t2 = Ok (topic e2)" "type_info e2 = Some ti" "endpoint_node e2 = zn_entity n2"
    "fmt_topic_key_expr Z (zn_keyexpr_format n2) e2 = Ok c2" "zs_key_expr s = topic_ke_str c2"
    "zs_queue s = Some (queue_new 10)" "zs_dyn_schema s = Some schema"
    by (rule dyn_sub_made)
  have key: "zp_key_expr p = zs_key_expr s"
    using topic_key_same [of e1 e2 Z "zn_keyexpr_format n1"] pub sub assms(5-7) by simp
  note dyn = dyn_serdes [OF assms(1,2), of schema]
  have fit: "list_all (\<lambda>x. message_typed schema x \<and> shm_adequate E (zp_shm_config p) (estimate x) 0) msgs"
    using assms(8) pub(7) by simp
  obtain samples p' where out: "publish_all Zb (DynamicCdrSerdes Zb E LE) estimate now msgs p = (Ok samples, p')"
    "list_all (\<lambda>x. put_key_expr x = zp_key_expr p) samples"
    using serdes.publish_all_ok [OF dyn fit] by blast
  obtain s' where "recv_all Zb (\<lambda>bs. dyn_deserialize LE (bs, schema)) (min 10 (length msgs)) (fold sub_deliver samples s) =
      (Ok (map Some (drop (length msgs - 10) msgs)), s')"
    using serdes.publish_receive [OF dyn fit sub(6), of now] out(1) by auto
  then show ?thesis
    using out key sub(7) by (simp add: dyn_recv_all_is_recv_all)
qed


text \<open>Two nodes of one context, one of them in a namespace.\<close>

definition sample_node :: "u64 \<Rightarrow> string \<Rightarrow> string \<Rightarrow> (u64, zslice list) ZNode" where
  "sample_node i n ns = \<lparr>zn_entity = node_entity_new 0 7 i n ns [], zn_session = sample_session,
     zn_remap_rules = remap_rules_new, zn_token = [], zn_shm_config = None, zn_keyexpr_format = RmwZenoh, zn_type_desc = None\<rparr>"

definition sample_text_message :: "bytes \<Rightarrow> DynamicMessage" where
  "sample_text_message t = DynamicMessage sample_text_schema [DV_String t]"

lemma sample_text_typed: "message_typed sample_text_schema (sample_text_message [65])"
proof -
  have "is_str [65]" by code_simp
  then show ?thesis by (simp add: sample_text_message_def sample_text_schema_def as_str_def)
qed

lemmas building = new_endpoint_def counter_increment_def node_entity_new_def zenoh_result_def
  fmt_topic_key_expr_def fmt_liveliness_key_expr_def rmw_topic_key_expr_def rmw_liveliness_key_expr_def
  ke_try_from_def open_zenoh_def sample_session_def Let_def

lemma sample_topics:
  "qualify_topic_name ''chatter'' ''/demo'' ''talker'' = Ok ''/demo/chatter''"
  "qualify_topic_name ''/demo/chatter'' [] ''listener'' = Ok ''/demo/chatter''"
  by code_simp+

lemma sample_type_info:
  obtains ti where "schema_type_info sample_hash_env sample_text_schema = Ok ti"
proof -
  obtain h where "compute_type_hash sample_hash_env sample_text_schema = Ok h" by (rule sample_hashed)
  then show thesis using that by (simp add: schema_type_info_def)
qed

lemma sample_dyn_pub:
  "\<exists>p st. create_dyn_pub (open_zenoh False) sample_hash_env ''chatter'' sample_text_schema (sample_node 0 ''talker'' ''/demo'', 2) =
     (Ok (p :: (u64, zslice list, unit) ZPub), st)"
proof -
  obtain ti where "schema_type_info sample_hash_env sample_text_schema = Ok ti" by (rule sample_type_info)
  then show ?thesis
    by (simp add: create_dyn_pub_def register_with_service_def create_pub_impl_def pb_with_dyn_schema_def
        entity_with_schema_def pub_build_def qualify_entity_def sample_node_def sample_topics building)
qed

lemma sample_dyn_sub:
  "\<exists>s k. create_dyn_sub (open_zenoh False) sample_hash_env (sample_node 1 ''listener'' []) ''/demo/chatter'' sample_text_schema 3 =
     (Ok (s :: (u64, zslice list, unit) ZSub), k)"
proof -
  obtain ti where "schema_type_info sample_hash_env sample_text_schema = Ok ti" by (rule sample_type_info)
  then show ?thesis
    by (simp add: create_dyn_sub_def build_dyn_sub_def create_sub_impl_def sb_with_dyn_schema_def
        entity_with_schema_def sub_build_def sub_build_internal_def qualify_entity_def sample_node_def sample_topics building)
qed

theorem dynamic_messages_arrive_witness:
  "\<exists>(p :: (u64, zslice list, unit) ZPub) st (s :: (u64, zslice list, unit) ZSub) k samples p' s'.
    create_dyn_pub (open_zenoh False) sample_hash_env ''chatter'' sample_text_schema (sample_node 0 ''talker'' ''/demo'', 2) = (Ok p, st) \<and>
    create_dyn_sub (open_zenoh False) sample_hash_env (sample_node 1 ''listener'' []) ''/demo/chatter'' sample_text_schema 3 = (Ok s, k) \<and>
    publish_all list_zbuf (DynamicCdrSerdes list_zbuf sample_shm LittleEndian) (\<lambda>_. 8) None [sample_text_message [65]] p = (Ok samples, p') \<and>
    dyn_recv_all list_zbuf LittleEndian 1 (fold sub_deliver samples s) = (Ok [Some (sample_text_message [65])], s')"
proof -
  obtain p :: "(u64, zslice list, unit) ZPub" and st where p: "create_dyn_pub (open_zenoh False) sample_hash_env ''chatter''
      sample_text_schema (sample_node 0 ''talker'' ''/demo'', 2) = (Ok p, st)" using sample_dyn_pub by blast
  obtain s :: "(u64, zslice list, unit) ZSub" and k where s: "create_dyn_sub (open_zenoh False) sample_hash_env
      (sample_node 1 ''listener'' []) ''/demo/chatter'' sample_text_schema 3 = (Ok s, k)" using sample_dyn_sub by blast
  have topics: "node_topic (sample_node 0 ''talker'' ''/demo'') ''chatter'' = node_topic (sample_node 1 ''listener'' []) ''/demo/chatter''"
    by (simp add: node_topic_def sample_node_def node_entity_new_def sample_topics)
  have fit: "list_all (\<lambda>m. message_typed sample_text_schema m \<and>
      shm_adequate sample_shm (zn_shm_config (sample_node 0 ''talker'' ''/demo'')) 8 0) [sample_text_message [65]]"
    using sample_text_typed by (simp add: shm_adequate_def sample_node_def)
  from dynamic_messages_arrive [OF ssh.shm_env_laws_axioms le.byte_order_laws_axioms p s _ _ topics fit, of None]
  show ?thesis using p s by (fastforce simp: sample_node_def node_entity_new_def)
qed

end
