(* ===== verification/Action_Endpoints.thy ===== *)
theory Action_Endpoints
  imports Node_Properties Action_Client Action_Server
begin

text \<open>
  The builders of \<^verbatim>\<open>ros-z/src/action/client.rs\<close> and \<^verbatim>\<open>ros-z/src/action/server.rs\<close>: the three services and
  two topics of an action, created on a node under the name of the action; and that client and server of the
  same action find each other on all five.
\<close>

section \<open>Types of an action\<close>

record ZAction =
  za_send_goal :: TypeInfo
  za_get_result :: TypeInfo
  za_cancel_goal :: TypeInfo
  za_feedback :: TypeInfo
  za_status :: TypeInfo

text \<open>The default methods of the trait, for the name of an action type.\<close>

definition zaction_default :: "string \<Rightarrow> ZAction" where
  "zaction_default n =
     \<lparr>za_send_goal = type_info_new (n @ ''/_action/SendGoal'') type_hash_zero,
      za_get_result = type_info_new (n @ ''/_action/GetResult'') type_hash_zero,
      za_cancel_goal = type_info_new ''action_msgs/srv/CancelGoal'' type_hash_zero,
      za_feedback = type_info_new (n @ ''/_FeedbackMessage'') type_hash_zero,
      za_status = type_info_new ''action_msgs/msg/GoalStatusArray'' type_hash_zero\<rparr>"

section \<open>Builders\<close>

record ZActionClientBuilder =
  ab_action_name :: string
  ab_goal_qos :: "rz_qos option"
  ab_result_qos :: "rz_qos option"
  ab_cancel_qos :: "rz_qos option"
  ab_feedback_qos :: "rz_qos option"
  ab_status_qos :: "rz_qos option"

definition create_action_client :: "string \<Rightarrow> ZActionClientBuilder" where
  "create_action_client action_name =
     \<lparr>ab_action_name = action_name, ab_goal_qos = None, ab_result_qos = None, ab_cancel_qos = None,
      ab_feedback_qos = None, ab_status_qos = None\<rparr>"

record ZActionServerBuilder = ZActionClientBuilder +
  ab_result_timeout :: duration
  ab_goal_timeout :: "duration option"

text \<open>Times are in nanoseconds.\<close>

definition create_action_server :: "string \<Rightarrow> ZActionServerBuilder" where
  "create_action_server action_name =
     \<lparr>ab_action_name = action_name, ab_goal_qos = None, ab_result_qos = None, ab_cancel_qos = None,
      ab_feedback_qos = None, ab_status_qos = None, ab_result_timeout = 10 * 10 ^ 9, ab_goal_timeout = None\<rparr>"

text \<open>The settings of both builders.\<close>

definition ab_with_goal_qos :: "rz_qos \<Rightarrow> 'm ZActionClientBuilder_scheme \<Rightarrow> 'm ZActionClientBuilder_scheme" where
  "ab_with_goal_qos qos b = b\<lparr>ab_goal_qos := Some qos\<rparr>"

definition ab_with_result_qos :: "rz_qos \<Rightarrow> 'm ZActionClientBuilder_scheme \<Rightarrow> 'm ZActionClientBuilder_scheme" where
  "ab_with_result_qos qos b = b\<lparr>ab_result_qos := Some qos\<rparr>"

definition ab_with_cancel_qos :: "rz_qos \<Rightarrow> 'm ZActionClientBuilder_scheme \<Rightarrow> 'm ZActionClientBuilder_scheme" where
  "ab_with_cancel_qos qos b = b\<lparr>ab_cancel_qos := Some qos\<rparr>"

definition ab_with_feedback_qos :: "rz_qos \<Rightarrow> 'm ZActionClientBuilder_scheme \<Rightarrow> 'm ZActionClientBuilder_scheme" where
  "ab_with_feedback_qos qos b = b\<lparr>ab_feedback_qos := Some qos\<rparr>"

definition ab_with_status_qos :: "rz_qos \<Rightarrow> 'm ZActionClientBuilder_scheme \<Rightarrow> 'm ZActionClientBuilder_scheme" where
  "ab_with_status_qos qos b = b\<lparr>ab_status_qos := Some qos\<rparr>"

definition ab_with_result_timeout :: "duration \<Rightarrow> ZActionServerBuilder \<Rightarrow> ZActionServerBuilder" where
  "ab_with_result_timeout timeout b = b\<lparr>ab_result_timeout := timeout\<rparr>"

definition ab_with_goal_timeout :: "duration \<Rightarrow> ZActionServerBuilder \<Rightarrow> ZActionServerBuilder" where
  "ab_with_goal_timeout timeout b = b\<lparr>ab_goal_timeout := Some timeout\<rparr>"

definition with_qos_option :: "rz_qos option \<Rightarrow> 'i EndpointEntity \<Rightarrow> 'i EndpointEntity" where
  "with_qos_option q e = (case q of None \<Rightarrow> e | Some qos \<Rightarrow> e\<lparr>endpoint_qos := to_protocol_qos qos\<rparr>)"

text \<open>One endpoint: created on the node, given its QoS, built.\<close>

definition action_client_on ::
    "'i zenoh_ops \<Rightarrow> ('i, 'b) ZNode \<Rightarrow> string \<Rightarrow> TypeInfo \<Rightarrow> rz_qos option \<Rightarrow> (u64, 'i ZClient, pub_error) exec" where
  "action_client_on Z n t ti q = (\<lambda>counter.
     let ((e, fmt), counter') = create_client_impl n t (Some ti) counter
     in (client_build Z (zn_session n) fmt (with_qos_option q e), counter'))"

definition action_service_on ::
    "'i zenoh_ops \<Rightarrow> ('i, 'b) ZNode \<Rightarrow> string \<Rightarrow> TypeInfo \<Rightarrow> rz_qos option \<Rightarrow> (u64, 'i ZServer, pub_error) exec" where
  "action_service_on Z n t ti q = (\<lambda>counter.
     let ((e, fmt), counter') = create_service_impl n t (Some ti) counter
     in (server_build Z (zn_session n) fmt (with_qos_option q e), counter'))"

definition action_pub_on ::
    "'i zenoh_ops \<Rightarrow> ('i, 'b) ZNode \<Rightarrow> string \<Rightarrow> TypeInfo \<Rightarrow> rz_qos option \<Rightarrow> (u64, ('i, 'b, 'c) ZPub, pub_error) exec" where
  "action_pub_on Z n t ti q = (\<lambda>counter.
     let (b, counter') = create_pub_impl n t (Some ti) counter
     in (pub_build Z (zn_session n) (b\<lparr>pb_entity := with_qos_option q (pb_entity b)\<rparr>), counter'))"

definition action_sub_on ::
    "'i zenoh_ops \<Rightarrow> ('i, 'b) ZNode \<Rightarrow> string \<Rightarrow> TypeInfo \<Rightarrow> rz_qos option \<Rightarrow> (u64, ('i, 'b, 'c) ZSub, pub_error) exec" where
  "action_sub_on Z n t ti q = (\<lambda>counter.
     let (b, counter') = create_sub_impl n t (Some ti) counter
     in (sub_build_with_callback Z (zn_session n) (b\<lparr>sb_entity := with_qos_option q (sb_entity b)\<rparr>), counter'))"

text \<open>The qualified name of the action, after remapping.\<close>

definition qualify_action :: "('i, 'b) ZNode \<Rightarrow> string \<Rightarrow> (string, pub_error) result" where
  "qualify_action n action_name =
     (let remapped = remap_apply (zn_remap_rules n) action_name in
      if remapped = [] then Err (ZenohError (Message ''Action name cannot be empty''))
      else case node_topic n remapped of Ok q \<Rightarrow> Ok q | Err e \<Rightarrow> Err (QualifyFailed e) | Panic \<Rightarrow> Panic)"

definition lift_result :: "('a, 'e) result \<Rightarrow> ('s, 'a, 'e) exec" where
  "lift_result r = (\<lambda>s. (r, s))"

definition action_client_build ::
    "'i zenoh_ops \<Rightarrow> ZAction \<Rightarrow> ('i, 'b) ZNode \<Rightarrow> ZActionClientBuilder \<Rightarrow>
     (u64, ('i, 'f) ZActionClient \<times> ('i, 'b, 'c) ZSub \<times> ('i, 'b, 'c) ZSub, pub_error) exec" where
  "action_client_build Z A n b =
     andthen (lift_result (qualify_action n (ab_action_name b))) (\<lambda>q.
     andthen (action_client_on Z n (goal_service_name q) (za_send_goal A) (ab_goal_qos b)) (\<lambda>goal_client.
     andthen (action_client_on Z n (result_service_name q) (za_get_result A) (ab_result_qos b)) (\<lambda>result_client.
     andthen (action_client_on Z n (cancel_service_name q) (za_cancel_goal A) (ab_cancel_qos b)) (\<lambda>cancel_client.
     andthen (action_sub_on Z n (feedback_topic_name q) (za_feedback A) (ab_feedback_qos b)) (\<lambda>feedback_sub.
     andthen (action_sub_on Z n (status_topic_name q) (za_status A) (ab_status_qos b)) (\<lambda>status_sub.
     ret (\<lparr>ac_goal_client = goal_client, ac_result_client = result_client, ac_cancel_client = cancel_client,
           ac_board = Map.empty, ac_feedback = (\<lambda>_. []), ac_status = (\<lambda>_. GS_Unknown), ac_next = 0\<rparr>,
          feedback_sub, status_sub)))))))"

text \<open>The endpoints of an action server, next to its goals in theory \<open>Action_Server\<close>.\<close>

record ('i, 'b, 'c, 'g, 'r, 'f) ZActionServer =
  as_goal_server :: "'i ZServer"
  as_result_server :: "'i ZServer"
  as_cancel_server :: "'i ZServer"
  as_feedback_pub :: "('i, 'b, 'c) ZPub"
  as_status_pub :: "('i, 'b, 'c) ZPub"
  as_server :: "('g, 'r, 'f) server"

definition action_server_build ::
    "'i zenoh_ops \<Rightarrow> ZAction \<Rightarrow> ('i, 'b) ZNode \<Rightarrow> ZActionServerBuilder \<Rightarrow>
     (u64, ('i, 'b, 'c, 'g, 'r, 'f) ZActionServer, pub_error) exec" where
  "action_server_build Z A n b =
     andthen (lift_result (qualify_action n (ab_action_name b))) (\<lambda>q.
     andthen (action_service_on Z n (goal_service_name q) (za_send_goal A) (ab_goal_qos b)) (\<lambda>goal_server.
     andthen (action_service_on Z n (result_service_name q) (za_get_result A) (ab_result_qos b)) (\<lambda>result_server.
     andthen (action_service_on Z n (cancel_service_name q) (za_cancel_goal A) (ab_cancel_qos b)) (\<lambda>cancel_server.
     andthen (action_pub_on Z n (feedback_topic_name q) (za_feedback A) (ab_feedback_qos b)) (\<lambda>feedback_pub.
     andthen (action_pub_on Z n (status_topic_name q) (za_status A) (ab_status_qos b)) (\<lambda>status_pub.
     ret \<lparr>as_goal_server = goal_server, as_result_server = result_server, as_cancel_server = cancel_server,
          as_feedback_pub = feedback_pub, as_status_pub = status_pub,
          as_server = server_new (ab_result_timeout b) (ab_goal_timeout b)\<rparr>))))))"

section \<open>Client and server meet\<close>

text \<open>A qualified name starts with a slash, and such a name means the same on every node.\<close>

lemma normalized_rooted: "normalize_namespace ns = [] \<or> (\<exists>r. normalize_namespace ns = CHR ''/'' # r)"
  by (auto simp: normalize_namespace_def starts_with_iff)

lemma qualified_rooted: "qualify_topic_name t ns n = Ok q \<Longrightarrow> \<exists>r. q = CHR ''/'' # r"
proof -
  assume q: "qualify_topic_name t ns n = Ok q"
  have "\<exists>r. q = CHR ''/'' # r" if "qualify_absolute t = Ok q" "starts_with ''/'' t"
  proof (cases "strip_suffix ''/'' t")
    case None
    with that show ?thesis by (auto simp: qualify_absolute_def starts_with_iff Let_def split: if_splits)
  next
    case (Some u)
    with that have "q = u" "u \<noteq> []" by (auto simp: qualify_absolute_def Let_def split: if_splits)
    with Some that(2) show ?thesis by (cases u) (auto simp: strip_suffix_Some starts_with_iff)
  qed
  moreover have "\<exists>r. q = CHR ''/'' # r" if "qualify_private rest (normalize_namespace ns) n = Ok q" for rest
    using that normalized_rooted [of ns] by (auto simp: qualify_private_def Let_def bind_result_eq_Ok split: if_splits)
  moreover have "\<exists>r. q = CHR ''/'' # r" if "qualify_relative t (normalize_namespace ns) = Ok q"
    using that normalized_rooted [of ns] by (auto simp: qualify_relative_def Let_def bind_result_eq_Ok split: if_splits)
  ultimately show ?thesis
    using q by (auto simp: qualify_topic_name_def Let_def bind_result_eq_Ok split: if_splits option.splits)
qed

lemma rooted_qualified:
  "qualify_topic_name (CHR ''/'' # r) ns n = Ok q \<Longrightarrow> qualify_absolute (CHR ''/'' # r) = Ok q"
  by (auto simp: qualify_topic_name_def starts_with_iff bind_result_eq_Ok Let_def split: if_splits)

lemma with_qos_option_keeps [simp]:
  "topic (with_qos_option q e) = topic e" "type_info (with_qos_option q e) = type_info e"
  "endpoint_node (with_qos_option q e) = endpoint_node e"
  by (simp_all add: with_qos_option_def split: option.splits)

text \<open>What the four kinds of endpoints have in common: key and format of an entity with the type and the node.\<close>

definition keyed :: "'i zenoh_ops \<Rightarrow> ('i, 'b) ZNode \<Rightarrow> string \<Rightarrow> TypeInfo \<Rightarrow> string \<Rightarrow> bool" where
  "keyed Z n t ti key \<longleftrightarrow> (\<exists>e k. qualify_absolute t = Ok (topic e) \<and> type_info e = Some ti \<and> endpoint_node e = zn_entity n \<and>
     fmt_topic_key_expr Z (zn_keyexpr_format n) e = Ok k \<and> key = topic_ke_str k)"

lemma keyedI:
  assumes "qualify_topic_name (CHR ''/'' # r) (namespace (zn_entity n)) (node_name (zn_entity n)) = Ok t"
    and "type_info e = Some ti" and "endpoint_node e = zn_entity n"
    and "fmt_topic_key_expr Z (zn_keyexpr_format n) (e\<lparr>topic := t\<rparr>) = Ok k"
  shows "keyed Z n (CHR ''/'' # r) ti (topic_ke_str k)"
  unfolding keyed_def
  by (rule exI [of _ "e\<lparr>topic := t\<rparr>"], rule exI [of _ k]) (use assms rooted_qualified [OF assms(1)] in simp)

lemma keyed_same:
  assumes "keyed Z n1 t ti key1" and "keyed Z n2 t ti key2"
    and "domain_id (zn_entity n1) = domain_id (zn_entity n2)" and "zn_keyexpr_format n1 = zn_keyexpr_format n2"
  shows "key1 = key2"
proof -
  obtain e1 k1 where 1: "qualify_absolute t = Ok (topic e1)" "type_info e1 = Some ti" "endpoint_node e1 = zn_entity n1"
    "fmt_topic_key_expr Z (zn_keyexpr_format n1) e1 = Ok k1" "key1 = topic_ke_str k1"
    using assms(1) by (auto simp: keyed_def)
  obtain e2 k2 where 2: "qualify_absolute t = Ok (topic e2)" "type_info e2 = Some ti" "endpoint_node e2 = zn_entity n2"
    "fmt_topic_key_expr Z (zn_keyexpr_format n2) e2 = Ok k2" "key2 = topic_ke_str k2"
    using assms(2) by (auto simp: keyed_def)
  from topic_key_same [of e1 e2 Z "zn_keyexpr_format n1"] 1 2 assms(3,4) show ?thesis by simp
qed

lemma action_client_keyed:
  assumes "action_client_on Z n (CHR ''/'' # r) ti q counter = (Ok c, counter')"
  shows "keyed Z n (CHR ''/'' # r) ti (zc_key_expr c)"
proof -
  define e where "e = with_qos_option q \<lparr>endpoint_id = counter, endpoint_node = zn_entity n, endpoint_kind = EK_Client,
     topic = CHR ''/'' # r, type_info = Some ti, endpoint_qos = qos_default\<rparr>"
  have "client_build Z (zn_session n) (zn_keyexpr_format n) e = Ok c"
    using assms by (simp add: action_client_on_def create_client_impl_def new_endpoint_def counter_increment_def e_def)
  then obtain t k where "qualify_topic_name (topic e) (namespace (endpoint_node e)) (node_name (endpoint_node e)) = Ok t"
    "fmt_topic_key_expr Z (zn_keyexpr_format n) (e\<lparr>topic := t\<rparr>) = Ok k" "zc_key_expr c = topic_ke_str k"
    by (auto simp: client_build_def qualify_service_entity_def qualify_service_name_def zenoh_result_def bind_result_eq_Ok Let_def
        split: result.splits)
  then show ?thesis using keyedI [of r n t e ti Z k] by (simp add: e_def)
qed

lemma action_service_keyed:
  assumes "action_service_on Z n (CHR ''/'' # r) ti q counter = (Ok c, counter')"
  shows "keyed Z n (CHR ''/'' # r) ti (zv_key_expr c)"
proof -
  define e where "e = with_qos_option q \<lparr>endpoint_id = counter, endpoint_node = zn_entity n, endpoint_kind = EK_Service,
     topic = CHR ''/'' # r, type_info = Some ti, endpoint_qos = qos_default\<rparr>"
  have "server_build Z (zn_session n) (zn_keyexpr_format n) e = Ok c"
    using assms by (simp add: action_service_on_def create_service_impl_def new_endpoint_def counter_increment_def e_def)
  then obtain t k where "qualify_topic_name (topic e) (namespace (endpoint_node e)) (node_name (endpoint_node e)) = Ok t"
    "fmt_topic_key_expr Z (zn_keyexpr_format n) (e\<lparr>topic := t\<rparr>) = Ok k" "zv_key_expr c = topic_ke_str k"
    by (auto simp: server_build_def server_build_internal_def qualify_service_entity_def qualify_service_name_def
        zenoh_result_def bind_result_eq_Ok Let_def split: result.splits)
  then show ?thesis using keyedI [of r n t e ti Z k] by (simp add: e_def)
qed

lemma action_pub_keyed:
  assumes "action_pub_on Z n (CHR ''/'' # r) ti q counter = (Ok p, counter')"
  shows "keyed Z n (CHR ''/'' # r) ti (zp_key_expr p)"
proof -
  define e where "e = with_qos_option q \<lparr>endpoint_id = counter, endpoint_node = zn_entity n, endpoint_kind = EK_Publisher,
     topic = CHR ''/'' # r, type_info = Some ti, endpoint_qos = qos_default\<rparr>"
  have "pub_build Z (zn_session n) \<lparr>pb_entity = e, pb_with_attachment = True, pb_shm_config = zn_shm_config n,
      pb_keyexpr_format = zn_keyexpr_format n, pb_dyn_schema = None\<rparr> = Ok p"
    using assms by (simp add: action_pub_on_def create_pub_impl_def new_endpoint_def counter_increment_def e_def)
  then obtain t k where "qualify_topic_name (topic e) (namespace (endpoint_node e)) (node_name (endpoint_node e)) = Ok t"
    "fmt_topic_key_expr Z (zn_keyexpr_format n) (e\<lparr>topic := t\<rparr>) = Ok k" "zp_key_expr p = topic_ke_str k"
    by (rule pub_build_Ok) simp
  then show ?thesis using keyedI [of r n t e ti Z k] by (simp add: e_def)
qed

lemma action_sub_keyed:
  assumes "action_sub_on Z n (CHR ''/'' # r) ti q counter = (Ok s, counter')"
  shows "keyed Z n (CHR ''/'' # r) ti (zs_key_expr s)"
proof -
  define e where "e = with_qos_option q \<lparr>endpoint_id = counter, endpoint_node = zn_entity n, endpoint_kind = EK_Subscription,
     topic = CHR ''/'' # r, type_info = Some ti, endpoint_qos = qos_default\<rparr>"
  have "sub_build_internal Z (zn_session n) None \<lparr>sb_entity = e, sb_keyexpr_format = zn_keyexpr_format n, sb_dyn_schema = None\<rparr> = Ok s"
    using assms
    by (simp add: action_sub_on_def sub_build_with_callback_def create_sub_impl_def new_endpoint_def counter_increment_def e_def)
  then obtain t k where "qualify_topic_name (topic e) (namespace (endpoint_node e)) (node_name (endpoint_node e)) = Ok t"
    "fmt_topic_key_expr Z (zn_keyexpr_format n) (e\<lparr>topic := t\<rparr>) = Ok k" "zs_key_expr s = topic_ke_str k"
    by (auto simp: sub_build_internal_def qualify_entity_def zenoh_result_def bind_result_eq_Ok Let_def split: result.splits)
  then show ?thesis using keyedI [of r n t e ti Z k] by (simp add: e_def)
qed

lemmas action_names = goal_service_name_def result_service_name_def cancel_service_name_def feedback_topic_name_def
  status_topic_name_def

lemma qualify_action_rooted: "qualify_action n a = Ok q \<Longrightarrow> \<exists>r. q = CHR ''/'' # r"
  by (auto simp: qualify_action_def node_topic_def Let_def dest: qualified_rooted split: if_splits result.splits)

lemma client_built:
  assumes "action_client_build Z A n b counter = (Ok (c, fb, st), counter')" and "qualify_action n (ab_action_name b) = Ok q"
  shows "keyed Z n (goal_service_name q) (za_send_goal A) (zc_key_expr (ac_goal_client c)) \<and>
    keyed Z n (result_service_name q) (za_get_result A) (zc_key_expr (ac_result_client c)) \<and>
    keyed Z n (cancel_service_name q) (za_cancel_goal A) (zc_key_expr (ac_cancel_client c)) \<and>
    keyed Z n (feedback_topic_name q) (za_feedback A) (zs_key_expr fb) \<and>
    keyed Z n (status_topic_name q) (za_status A) (zs_key_expr st)"
proof -
  obtain r where r: "q = CHR ''/'' # r" using qualify_action_rooted [OF assms(2)] by blast
  from assms show ?thesis
    unfolding action_names r
    by (auto simp: action_client_build_def andthen_eq_Ok lift_result_def ret_def action_names r
        intro: action_client_keyed action_sub_keyed)
qed

lemma server_built:
  assumes "action_server_build Z A n b counter = (Ok sv, counter')" and "qualify_action n (ab_action_name b) = Ok q"
  shows "keyed Z n (goal_service_name q) (za_send_goal A) (zv_key_expr (as_goal_server sv)) \<and>
    keyed Z n (result_service_name q) (za_get_result A) (zv_key_expr (as_result_server sv)) \<and>
    keyed Z n (cancel_service_name q) (za_cancel_goal A) (zv_key_expr (as_cancel_server sv)) \<and>
    keyed Z n (feedback_topic_name q) (za_feedback A) (zp_key_expr (as_feedback_pub sv)) \<and>
    keyed Z n (status_topic_name q) (za_status A) (zp_key_expr (as_status_pub sv))"
proof -
  obtain r where r: "q = CHR ''/'' # r" using qualify_action_rooted [OF assms(2)] by blast
  from assms show ?thesis
    unfolding action_names r
    by (auto simp: action_server_build_def andthen_eq_Ok lift_result_def ret_def action_names r
        intro: action_service_keyed action_pub_keyed)
qed

text \<open>
  C27.  An action client finds its server.  When a client and a server of one action type are built on nodes
  of one domain under names that, after the remapping rules of each node, mean the same action, the
  client asks on the keys on which the server answers, for goals, results and cancellations, and the server
  publishes feedback and status on the keys that the client listens to.
\<close>

theorem action_endpoints_match:
  assumes "action_client_build Z A n1 b1 k1 = (Ok (c, fb, st), k1')"
    and "action_server_build Z A n2 b2 k2 = (Ok sv, k2')"
    and "qualify_action n1 (ab_action_name b1) = qualify_action n2 (ab_action_name b2)"
    and "domain_id (zn_entity n1) = domain_id (zn_entity n2)" and "zn_keyexpr_format n1 = zn_keyexpr_format n2"
  shows "zc_key_expr (ac_goal_client c) = zv_key_expr (as_goal_server sv) \<and>
    zc_key_expr (ac_result_client c) = zv_key_expr (as_result_server sv) \<and>
    zc_key_expr (ac_cancel_client c) = zv_key_expr (as_cancel_server sv) \<and>
    zs_key_expr fb = zp_key_expr (as_feedback_pub sv) \<and> zs_key_expr st = zp_key_expr (as_status_pub sv)"
proof -
  obtain q where q: "qualify_action n1 (ab_action_name b1) = Ok q"
    using assms(1) by (auto simp: action_client_build_def andthen_eq_Ok lift_result_def)
  note same = keyed_same [OF _ _ assms(4,5)]
  from client_built [OF assms(1) q] server_built [OF assms(2)] q assms(3) same show ?thesis by metis
qed

text \<open>The client on a node with a remapping rule, the server on a node in a namespace.\<close>

definition remapping_node :: "(u64, zslice list) ZNode" where
  "remapping_node = (sample_node 1 ''teleop'' [])\<lparr>zn_remap_rules := [''drive'' \<mapsto> ''/robot/move'']\<rparr>"

lemma sample_nodes:
  "zn_entity remapping_node = node_entity_new 0 7 1 ''teleop'' [] []" "zn_session remapping_node = sample_session"
  "zn_keyexpr_format remapping_node = RmwZenoh" "zn_shm_config remapping_node = None"
  "zn_entity (sample_node i n ns) = node_entity_new 0 7 i n ns []" "zn_session (sample_node i n ns) = sample_session"
  "zn_keyexpr_format (sample_node i n ns) = RmwZenoh" "zn_shm_config (sample_node i n ns) = None"
  by (simp_all add: remapping_node_def sample_node_def)

lemma sample_action_names:
  "qualify_topic_name ''/robot/move'' [] ''teleop'' = Ok ''/robot/move''"
  "qualify_topic_name ''move'' ''/robot'' ''base'' = Ok ''/robot/move''"
  by code_simp+

lemma sample_action_qualified:
  "qualify_action remapping_node ''drive'' = Ok ''/robot/move''"
  "qualify_action (sample_node 0 ''base'' ''/robot'') ''move'' = Ok ''/robot/move''"
  by (simp_all add: qualify_action_def remapping_node_def sample_node_def remap_apply_def remap_rules_new_def node_topic_def
      node_entity_new_def sample_action_names)

lemma channel_name:
  assumes "qualify_topic_name t0 ns n = Ok q" and "q = ''/robot/move''"
    and "strip_suffix ''/'' (q @ x) = None"
  shows "qualify_topic_name (q @ x) ns n = Ok (q @ x)"
  using assms by (auto simp: qualify_topic_name_def qualify_absolute_def starts_with_iff bind_result_eq_Ok Let_def split: if_splits)

definition sample_here :: "(u64, zslice list) ZNode \<Rightarrow> bool" where
  "sample_here n \<longleftrightarrow> zn_session n = sample_session \<and> zn_keyexpr_format n = RmwZenoh"

lemma sample_client_on:
  assumes "sample_here n" and "node_topic n t = Ok t"
  shows "\<exists>c k'. action_client_on (open_zenoh False) n t ti None k = (Ok c, k')"
  using assms
  by (simp add: sample_here_def node_topic_def action_client_on_def create_client_impl_def with_qos_option_def client_build_def
      qualify_service_entity_def qualify_service_name_def building)

lemma sample_service_on:
  assumes "sample_here n" and "node_topic n t = Ok t"
  shows "\<exists>c k'. action_service_on (open_zenoh False) n t ti None k = (Ok c, k')"
  using assms
  by (simp add: sample_here_def node_topic_def action_service_on_def create_service_impl_def with_qos_option_def server_build_def
      server_build_internal_def qualify_service_entity_def qualify_service_name_def building)

lemma sample_pub_on:
  assumes "sample_here n" and "node_topic n t = Ok t"
  shows "\<exists>c k'. action_pub_on (open_zenoh False) n t ti None k = (Ok (c :: (u64, zslice list, unit) ZPub), k')"
  using assms
  by (simp add: sample_here_def node_topic_def action_pub_on_def create_pub_impl_def with_qos_option_def pub_build_def
      qualify_entity_def building)

lemma sample_sub_on:
  assumes "sample_here n" and "node_topic n t = Ok t"
  shows "\<exists>c k'. action_sub_on (open_zenoh False) n t ti None k = (Ok (c :: (u64, zslice list, unit) ZSub), k')"
  using assms
  by (simp add: sample_here_def node_topic_def action_sub_on_def create_sub_impl_def with_qos_option_def
      sub_build_with_callback_def sub_build_internal_def qualify_entity_def building)

lemma sample_here: "sample_here remapping_node" "sample_here (sample_node i n ns)"
  by (simp_all add: sample_here_def sample_nodes)

lemma sample_channels:
  assumes "x \<in> {''/_action/send_goal'', ''/_action/get_result'', ''/_action/cancel_goal'', ''/_action/feedback'', ''/_action/status''}"
  shows "node_topic remapping_node (''/robot/move'' @ x) = Ok (''/robot/move'' @ x)"
    and "node_topic (sample_node 0 ''base'' ''/robot'') (''/robot/move'' @ x) = Ok (''/robot/move'' @ x)"
proof -
  have "\<nexists>r. ''/robot/move'' @ x = r @ ''/''" using assms by (auto simp: append_eq_append_conv2 Cons_eq_append_conv)
  then have none: "strip_suffix ''/'' (''/robot/move'' @ x) = None" unfolding strip_suffix_None by simp
  show "node_topic remapping_node (''/robot/move'' @ x) = Ok (''/robot/move'' @ x)"
    unfolding node_topic_def sample_nodes node_entity_new_def
    using channel_name [OF sample_action_names(1) refl none] by simp
  show "node_topic (sample_node 0 ''base'' ''/robot'') (''/robot/move'' @ x) = Ok (''/robot/move'' @ x)"
    unfolding node_topic_def sample_nodes node_entity_new_def
    using channel_name [OF sample_action_names(2) refl none] by simp
qed

text \<open>Steps that succeed one after the other.\<close>

lemma andthen_ok:
  assumes "\<And>k. \<exists>x k'. m k = (Ok x, k')" and "\<And>x k. \<exists>y k'. f x k = (Ok y, k')"
  shows "\<exists>y k'. andthen m f k = (Ok y, k')"
proof -
  obtain x k' where "m k = (Ok x, k')" using assms(1) by blast
  with assms(2) [of x k'] show ?thesis by (simp add: andthen_def)
qed

lemma sample_action_client_built:
  "\<exists>c k. action_client_build (open_zenoh False) (zaction_default ''pkg/action/Move'') remapping_node (create_action_client ''drive'') k0 =
     (Ok (c :: (u64, nat) ZActionClient \<times> (u64, zslice list, unit) ZSub \<times> (u64, zslice list, unit) ZSub), k)"
proof -
  have lift: "lift_result (qualify_action remapping_node (ab_action_name (create_action_client ''drive''))) =
      (ret ''/robot/move'' :: (u64, string, pub_error) exec)"
    by (simp add: create_action_client_def sample_action_qualified lift_result_def ret_def fun_eq_iff)
  show ?thesis
    unfolding action_client_build_def lift andthen_ret_left
    unfolding action_names create_action_client_def ZActionClientBuilder.simps
    by (intro andthen_ok sample_client_on sample_sub_on sample_here sample_channels) (simp_all add: ret_def)
qed

lemma sample_action_server_built:
  "\<exists>sv k. action_server_build (open_zenoh False) (zaction_default ''pkg/action/Move'') (sample_node 0 ''base'' ''/robot'')
     (create_action_server ''move'') k0 = (Ok (sv :: (u64, zslice list, unit, unit, nat, nat) ZActionServer), k)"
proof -
  have lift: "lift_result (qualify_action (sample_node 0 ''base'' ''/robot'') (ab_action_name (create_action_server ''move''))) =
      (ret ''/robot/move'' :: (u64, string, pub_error) exec)"
    by (simp add: create_action_server_def sample_action_qualified lift_result_def ret_def fun_eq_iff)
  show ?thesis
    unfolding action_server_build_def lift andthen_ret_left
    unfolding action_names create_action_server_def ZActionClientBuilder.simps
    by (intro andthen_ok sample_service_on sample_pub_on sample_here sample_channels) (simp_all add: ret_def)
qed

theorem action_endpoints_match_witness:
  "\<exists>(c :: (u64, nat) ZActionClient) (fb :: (u64, zslice list, unit) ZSub) st k (sv :: (u64, zslice list, unit, unit, nat, nat) ZActionServer) k'.
    action_client_build (open_zenoh False) (zaction_default ''pkg/action/Move'') remapping_node (create_action_client ''drive'') 5 =
      (Ok (c, fb, st), k) \<and>
    action_server_build (open_zenoh False) (zaction_default ''pkg/action/Move'') (sample_node 0 ''base'' ''/robot'')
      (create_action_server ''move'') 5 = (Ok sv, k') \<and>
    zc_key_expr (ac_goal_client c) = zv_key_expr (as_goal_server sv) \<and> zs_key_expr fb = zp_key_expr (as_feedback_pub sv)"
proof -
  obtain c :: "(u64, nat) ZActionClient" and fb :: "(u64, zslice list, unit) ZSub" and st k where
    client: "action_client_build (open_zenoh False) (zaction_default ''pkg/action/Move'') remapping_node
      (create_action_client ''drive'') 5 = (Ok (c, fb, st), k)" using sample_action_client_built [of 5] by auto
  obtain sv :: "(u64, zslice list, unit, unit, nat, nat) ZActionServer" and k' where
    server: "action_server_build (open_zenoh False) (zaction_default ''pkg/action/Move'') (sample_node 0 ''base'' ''/robot'')
      (create_action_server ''move'') 5 = (Ok sv, k')" using sample_action_server_built by blast
  have "qualify_action remapping_node (ab_action_name (create_action_client ''drive'')) =
      qualify_action (sample_node 0 ''base'' ''/robot'') (ab_action_name (create_action_server ''move''))"
    by (simp add: create_action_client_def create_action_server_def sample_action_qualified)
  moreover have "domain_id (zn_entity remapping_node) = domain_id (zn_entity (sample_node 0 ''base'' ''/robot''))"
    "zn_keyexpr_format remapping_node = zn_keyexpr_format (sample_node 0 ''base'' ''/robot'')"
    by (simp_all add: sample_nodes node_entity_new_def)
  ultimately show ?thesis using action_endpoints_match [OF client server] client server by blast
qed

end
