(* ===== verification/Rmw_Qos.thy ===== *)
theory Rmw_Qos
  imports RosZ_Qos
begin

text \<open>
  \<^verbatim>\<open>rmw-zenoh-rs/src/qos.rs\<close>: the QoS profiles of the ROS middleware interface, their conversion to and
  from the profiles of the library, and the checks of compatibility.  The constants are those of the
  generated \<^verbatim>\<open>bindings.rs\<close>.  A pointer argument is an option, \<open>None\<close> for null; a function returns
  what it leaves behind such a pointer.  Arithmetic on \<^verbatim>\<open>i64\<close> wraps around, as in a release build.
\<close>

section \<open>Constants and types\<close>

definition RMW_RET_OK :: i32 where "RMW_RET_OK = 0"
definition RMW_RET_ERROR :: i32 where "RMW_RET_ERROR = 1"
definition RMW_RET_TIMEOUT :: i32 where "RMW_RET_TIMEOUT = 2"
definition RMW_RET_UNSUPPORTED :: i32 where "RMW_RET_UNSUPPORTED = 3"
definition RMW_RET_INVALID_ARGUMENT :: i32 where "RMW_RET_INVALID_ARGUMENT = 11"

lemmas ret_defs = RMW_RET_OK_def RMW_RET_ERROR_def RMW_RET_TIMEOUT_def RMW_RET_UNSUPPORTED_def
  RMW_RET_INVALID_ARGUMENT_def

definition HISTORY_KEEP_LAST :: u32 where "HISTORY_KEEP_LAST = 1"
definition HISTORY_KEEP_ALL :: u32 where "HISTORY_KEEP_ALL = 2"
definition RELIABILITY_RELIABLE :: u32 where "RELIABILITY_RELIABLE = 1"
definition RELIABILITY_BEST_EFFORT :: u32 where "RELIABILITY_BEST_EFFORT = 2"
definition DURABILITY_TRANSIENT_LOCAL :: u32 where "DURABILITY_TRANSIENT_LOCAL = 1"
definition DURABILITY_VOLATILE :: u32 where "DURABILITY_VOLATILE = 2"
definition LIVELINESS_SYSTEM_DEFAULT :: u32 where "LIVELINESS_SYSTEM_DEFAULT = 0"
definition LIVELINESS_AUTOMATIC :: u32 where "LIVELINESS_AUTOMATIC = 1"
definition LIVELINESS_MANUAL_BY_TOPIC :: u32 where "LIVELINESS_MANUAL_BY_TOPIC = 3"
definition LIVELINESS_UNKNOWN :: u32 where "LIVELINESS_UNKNOWN = 4"
definition POLICY_DURABILITY :: u32 where "POLICY_DURABILITY = 2"
definition POLICY_DEADLINE :: u32 where "POLICY_DEADLINE = 4"
definition POLICY_LIVELINESS :: u32 where "POLICY_LIVELINESS = 8"
definition POLICY_RELIABILITY :: u32 where "POLICY_RELIABILITY = 16"

lemmas qos_consts = HISTORY_KEEP_LAST_def HISTORY_KEEP_ALL_def RELIABILITY_RELIABLE_def
  RELIABILITY_BEST_EFFORT_def DURABILITY_TRANSIENT_LOCAL_def DURABILITY_VOLATILE_def
  LIVELINESS_SYSTEM_DEFAULT_def LIVELINESS_AUTOMATIC_def LIVELINESS_MANUAL_BY_TOPIC_def
  LIVELINESS_UNKNOWN_def POLICY_DURABILITY_def POLICY_DEADLINE_def POLICY_LIVELINESS_def
  POLICY_RELIABILITY_def

record rmw_time =
  rt_sec :: u64
  rt_nsec :: u64

record rmw_qos =
  rmq_history :: u32
  rmq_depth :: u64
  rmq_reliability :: u32
  rmq_durability :: u32
  rmq_deadline :: rmw_time
  rmq_lifespan :: rmw_time
  rmq_liveliness :: u32
  rmq_lease_duration :: rmw_time
  rmq_avoid_conventions :: bool

datatype rmw_compatibility = COMPATIBILITY_OK | COMPATIBILITY_WARNING | COMPATIBILITY_ERROR

section \<open>Normalization and conversion\<close>

definition normalize_rmw_qos :: "rmw_qos \<Rightarrow> rmw_qos" where
  "normalize_rmw_qos qos =
     (if rmq_history qos = HISTORY_KEEP_LAST \<and> rmq_depth qos = 0
      then qos\<lparr>rmq_depth := DEFAULT_HISTORY_DEPTH\<rparr> else qos)"

definition ros_z_qos_to_rmw_qos :: "rz_qos \<Rightarrow> rmw_qos" where
  "ros_z_qos_to_rmw_qos qos =
     (let (hist, depth) = (case rq_history qos of RZ_KeepLast n \<Rightarrow> (HISTORY_KEEP_LAST, n) | RZ_KeepAll \<Rightarrow> (HISTORY_KEEP_ALL, 0));
          time = (\<lambda>d. \<lparr>rt_sec = dur_sec d, rt_nsec = dur_nsec d\<rparr>)
      in \<lparr>rmq_history = hist, rmq_depth = depth,
          rmq_reliability = (case rq_reliability qos of
              RZ_Reliable \<Rightarrow> RELIABILITY_RELIABLE | RZ_BestEffort \<Rightarrow> RELIABILITY_BEST_EFFORT),
          rmq_durability = (case rq_durability qos of
              RZ_TransientLocal \<Rightarrow> DURABILITY_TRANSIENT_LOCAL | RZ_Volatile \<Rightarrow> DURABILITY_VOLATILE),
          rmq_deadline = time (rq_deadline qos), rmq_lifespan = time (rq_lifespan qos),
          rmq_liveliness = (case rq_liveliness qos of
              Automatic \<Rightarrow> LIVELINESS_AUTOMATIC
            | ManualByNode \<Rightarrow> LIVELINESS_MANUAL_BY_TOPIC
            | ManualByTopic \<Rightarrow> LIVELINESS_MANUAL_BY_TOPIC),
          rmq_lease_duration = time (rq_lease_duration qos), rmq_avoid_conventions = False\<rparr>)"

definition rmw_qos_to_ros_z_qos :: "rmw_qos \<Rightarrow> rz_qos" where
  "rmw_qos_to_ros_z_qos qos =
     (let duration = (\<lambda>t. \<lparr>dur_sec = rt_sec t, dur_nsec = rt_nsec t\<rparr>)
      in \<lparr>rq_reliability =
            (if rmq_reliability qos = RELIABILITY_RELIABLE then RZ_Reliable
             else if rmq_reliability qos = RELIABILITY_BEST_EFFORT then RZ_BestEffort
             else RZ_Reliable),
          rq_durability =
            (if rmq_durability qos = DURABILITY_TRANSIENT_LOCAL then RZ_TransientLocal
             else if rmq_durability qos = DURABILITY_VOLATILE then RZ_Volatile
             else RZ_Volatile),
          rq_history =
            (if rmq_history qos = HISTORY_KEEP_LAST then rz_from_depth (rmq_depth qos)
             else if rmq_history qos = HISTORY_KEEP_ALL then RZ_KeepAll
             else rz_history_default),
          rq_deadline = duration (rmq_deadline qos), rq_lifespan = duration (rmq_lifespan qos),
          rq_liveliness =
            (if rmq_liveliness qos = LIVELINESS_AUTOMATIC then Automatic
             else if rmq_liveliness qos = LIVELINESS_MANUAL_BY_TOPIC then ManualByTopic
             else Automatic),
          rq_lease_duration = duration (rmq_lease_duration qos)\<rparr>)"

text \<open>\<^verbatim>\<open>pubsub.rs\<close>: the profile of an endpoint that was discovered.\<close>

definition protocol_qos_to_ros_z_qos :: "QosProfile \<Rightarrow> rz_qos" where
  "protocol_qos_to_ros_z_qos qos = rz_qos_default
     \<lparr>rq_reliability := (case reliability qos of Reliable \<Rightarrow> RZ_Reliable | BestEffort \<Rightarrow> RZ_BestEffort),
      rq_durability := (case durability qos of TransientLocal \<Rightarrow> RZ_TransientLocal | Volatile \<Rightarrow> RZ_Volatile),
      rq_history := (case history qos of KeepLast depth \<Rightarrow> rz_from_depth depth | KeepAll \<Rightarrow> RZ_KeepAll)\<rparr>"

section \<open>Compatibility\<close>

text \<open>\<open>reason\<close> is the buffer for a text, whose first byte is set.\<close>

definition rmw_qos_profile_check_compatible ::
    "rmw_qos \<Rightarrow> rmw_qos \<Rightarrow> rmw_compatibility option \<Rightarrow> bytes option \<Rightarrow> u64 \<Rightarrow>
     i32 \<times> rmw_compatibility option \<times> bytes option" where
  "rmw_qos_profile_check_compatible publisher_profile subscription_profile compatibility reason reason_size =
     (if compatibility = None then (RMW_RET_INVALID_ARGUMENT, compatibility, reason)
      else if reason \<noteq> None \<and> reason_size = 0 then (RMW_RET_INVALID_ARGUMENT, compatibility, reason)
      else
        let reason' = (if reason \<noteq> None \<and> 0 < reason_size then map_option (\<lambda>r. r[0 := 0]) reason else reason)
        in if rmq_durability publisher_profile = DURABILITY_TRANSIENT_LOCAL \<and>
              rmq_durability subscription_profile = DURABILITY_VOLATILE
           then (RMW_RET_OK, Some COMPATIBILITY_WARNING, reason')
           else (RMW_RET_OK, Some COMPATIBILITY_OK, reason'))"

definition qos_profiles_are_compatible :: "rmw_qos \<Rightarrow> rmw_qos \<Rightarrow> bool" where
  "qos_profiles_are_compatible pub_qos sub_qos =
     (let (ret, compatibility, _) =
            rmw_qos_profile_check_compatible pub_qos sub_qos (Some COMPATIBILITY_OK) None 0
      in if ret \<noteq> RMW_RET_OK then False else compatibility \<noteq> Some COMPATIBILITY_ERROR)"

text \<open>\<^verbatim>\<open>sec as i64 * 1_000_000_000 + nsec as i64\<close>\<close>

definition time_ns :: "rmw_time \<Rightarrow> i64" where
  "time_ns t = rt_sec t * 1000000000 + rt_nsec t"

definition exceeds :: "rmw_time \<Rightarrow> rmw_time \<Rightarrow> bool" where
  "exceeds pub_time sub_time \<longleftrightarrow> 0 < sint (time_ns sub_time) \<and> 0 < sint (time_ns pub_time) \<and>
     sint (time_ns sub_time) < sint (time_ns pub_time)"

definition check_qos_compatibility_with_policy :: "rmw_qos \<Rightarrow> rmw_qos \<Rightarrow> bool \<times> u32" where
  "check_qos_compatibility_with_policy pub_qos sub_qos =
     (if rmq_reliability pub_qos = RELIABILITY_BEST_EFFORT \<and> rmq_reliability sub_qos = RELIABILITY_RELIABLE
      then (False, POLICY_RELIABILITY)
      else if rmq_durability pub_qos = DURABILITY_VOLATILE \<and> rmq_durability sub_qos = DURABILITY_TRANSIENT_LOCAL
      then (False, POLICY_DURABILITY)
      else if exceeds (rmq_deadline pub_qos) (rmq_deadline sub_qos) then (False, POLICY_DEADLINE)
      else if rmq_liveliness pub_qos \<noteq> rmq_liveliness sub_qos \<and> rmq_liveliness pub_qos < rmq_liveliness sub_qos
      then (False, POLICY_LIVELINESS)
      else if exceeds (rmq_lease_duration pub_qos) (rmq_lease_duration sub_qos) then (False, POLICY_LIVELINESS)
      else (True, 0))"

section \<open>The profile in use\<close>

text \<open>\<^verbatim>\<open>rmw_publisher_get_actual_qos\<close> and \<^verbatim>\<open>rmw_subscription_get_actual_qos\<close> change a profile in the same way.\<close>

definition infinite_if_unspecified :: "rmw_time \<Rightarrow> rmw_time" where
  "infinite_if_unspecified t =
     (if rt_sec t = 0 \<and> rt_nsec t = 0 then \<lparr>rt_sec = 2147483647, rt_nsec = 0\<rparr> else t)"

definition actual_qos :: "rmw_qos \<Rightarrow> rmw_qos" where
  "actual_qos qos = qos
     \<lparr>rmq_deadline := infinite_if_unspecified (rmq_deadline qos),
      rmq_lifespan := infinite_if_unspecified (rmq_lifespan qos),
      rmq_lease_duration := infinite_if_unspecified (rmq_lease_duration qos),
      rmq_liveliness :=
        (if rmq_liveliness qos = LIVELINESS_SYSTEM_DEFAULT \<or> rmq_liveliness qos = LIVELINESS_UNKNOWN
         then LIVELINESS_AUTOMATIC else rmq_liveliness qos)\<rparr>"

text \<open>The argument \<open>handle\<close> is the publisher's or subscription's pointer and its data.\<close>

definition rmw_get_actual_qos :: "rmw_qos option option \<Rightarrow> rmw_qos option \<Rightarrow> i32 \<times> rmw_qos option" where
  "rmw_get_actual_qos handle qos = (case (handle, qos) of
       (Some (Some q), Some _) \<Rightarrow> (RMW_RET_OK, Some (actual_qos q))
     | _ \<Rightarrow> (RMW_RET_INVALID_ARGUMENT, qos))"

section \<open>Conversion back and forth\<close>

text \<open>The profiles that the library can express.\<close>

definition rmw_qos_known :: "rmw_qos \<Rightarrow> bool" where
  "rmw_qos_known q \<longleftrightarrow> rmq_history q \<in> {HISTORY_KEEP_LAST, HISTORY_KEEP_ALL} \<and>
     (rmq_history q = HISTORY_KEEP_ALL \<longrightarrow> rmq_depth q = 0) \<and>
     rmq_reliability q \<in> {RELIABILITY_RELIABLE, RELIABILITY_BEST_EFFORT} \<and>
     rmq_durability q \<in> {DURABILITY_TRANSIENT_LOCAL, DURABILITY_VOLATILE} \<and>
     rmq_liveliness q \<in> {LIVELINESS_AUTOMATIC, LIVELINESS_MANUAL_BY_TOPIC} \<and> \<not> rmq_avoid_conventions q"

lemma qos_const_neq [simp]:
  "HISTORY_KEEP_ALL \<noteq> HISTORY_KEEP_LAST" "HISTORY_KEEP_LAST \<noteq> HISTORY_KEEP_ALL"
  "RELIABILITY_BEST_EFFORT \<noteq> RELIABILITY_RELIABLE" "RELIABILITY_RELIABLE \<noteq> RELIABILITY_BEST_EFFORT"
  "DURABILITY_VOLATILE \<noteq> DURABILITY_TRANSIENT_LOCAL" "DURABILITY_TRANSIENT_LOCAL \<noteq> DURABILITY_VOLATILE"
  "LIVELINESS_MANUAL_BY_TOPIC \<noteq> LIVELINESS_AUTOMATIC" "LIVELINESS_AUTOMATIC \<noteq> LIVELINESS_MANUAL_BY_TOPIC"
  "LIVELINESS_MANUAL_BY_TOPIC \<noteq> LIVELINESS_SYSTEM_DEFAULT" "LIVELINESS_MANUAL_BY_TOPIC \<noteq> LIVELINESS_UNKNOWN"
  "LIVELINESS_AUTOMATIC < LIVELINESS_MANUAL_BY_TOPIC" "\<not> LIVELINESS_MANUAL_BY_TOPIC < LIVELINESS_AUTOMATIC"
  by (simp_all add: qos_consts)

lemma conversion_fields:
  "rq_reliability (rmw_qos_to_ros_z_qos q) = (if rmq_reliability q = RELIABILITY_BEST_EFFORT then RZ_BestEffort else RZ_Reliable)"
  "rq_durability (rmw_qos_to_ros_z_qos q) = (if rmq_durability q = DURABILITY_TRANSIENT_LOCAL then RZ_TransientLocal else RZ_Volatile)"
  "rq_liveliness (rmw_qos_to_ros_z_qos q) = (if rmq_liveliness q = LIVELINESS_MANUAL_BY_TOPIC then ManualByTopic else Automatic)"
  by (auto simp: rmw_qos_to_ros_z_qos_def)

lemma to_rmw_and_back:
  assumes "qos_valid q"
  shows "rmw_qos_to_ros_z_qos (ros_z_qos_to_rmw_qos q) =
     q\<lparr>rq_liveliness := (if rq_liveliness q = ManualByNode then ManualByTopic else rq_liveliness q)\<rparr>"
proof (rule rz_qos.equality)
  show "rq_history (rmw_qos_to_ros_z_qos (ros_z_qos_to_rmw_qos q)) =
      rq_history (q\<lparr>rq_liveliness := (if rq_liveliness q = ManualByNode then ManualByTopic else rq_liveliness q)\<rparr>)"
    using assms by (cases "rq_history q")
      (auto simp: rmw_qos_to_ros_z_qos_def ros_z_qos_to_rmw_qos_def rz_from_depth_def qos_valid_def)
qed (simp_all add: conversion_fields, simp_all add: ros_z_qos_to_rmw_qos_def rmw_qos_to_ros_z_qos_def split_beta
  split: rz_reliability.splits rz_durability.splits rz_liveliness.splits)

lemma normalize_fields [simp]:
  "rmq_history (normalize_rmw_qos q) = rmq_history q" "rmq_reliability (normalize_rmw_qos q) = rmq_reliability q"
  "rmq_durability (normalize_rmw_qos q) = rmq_durability q" "rmq_deadline (normalize_rmw_qos q) = rmq_deadline q"
  "rmq_lifespan (normalize_rmw_qos q) = rmq_lifespan q" "rmq_liveliness (normalize_rmw_qos q) = rmq_liveliness q"
  "rmq_lease_duration (normalize_rmw_qos q) = rmq_lease_duration q"
  "rmq_avoid_conventions (normalize_rmw_qos q) = rmq_avoid_conventions q"
  by (simp_all add: normalize_rmw_qos_def)

text \<open>
  What of a profile of the middleware interface the library can express: system defaults, best
  available policies and unknown numbers become the default policies, also manual liveliness by node,
  a depth is kept with the last-messages history only, and avoiding the ROS name conventions is
  forgotten.
\<close>

definition expressible :: "rmw_qos \<Rightarrow> rmw_qos" where
  "expressible r =
     \<lparr>rmq_history = (if rmq_history r = HISTORY_KEEP_ALL then HISTORY_KEEP_ALL else HISTORY_KEEP_LAST),
      rmq_depth = (if rmq_history r = HISTORY_KEEP_ALL then 0
        else if rmq_history r = HISTORY_KEEP_LAST \<and> rmq_depth r \<noteq> 0 then rmq_depth r else DEFAULT_HISTORY_DEPTH),
      rmq_reliability = (if rmq_reliability r = RELIABILITY_BEST_EFFORT then RELIABILITY_BEST_EFFORT else RELIABILITY_RELIABLE),
      rmq_durability = (if rmq_durability r = DURABILITY_TRANSIENT_LOCAL then DURABILITY_TRANSIENT_LOCAL else DURABILITY_VOLATILE),
      rmq_deadline = rmq_deadline r, rmq_lifespan = rmq_lifespan r,
      rmq_liveliness = (if rmq_liveliness r = LIVELINESS_MANUAL_BY_TOPIC then LIVELINESS_MANUAL_BY_TOPIC else LIVELINESS_AUTOMATIC),
      rmq_lease_duration = rmq_lease_duration r, rmq_avoid_conventions = False\<rparr>"

lemma to_ros_z_and_back: "ros_z_qos_to_rmw_qos (rmw_qos_to_ros_z_qos r) = expressible r"
proof -
  have h: "(case rq_history (rmw_qos_to_ros_z_qos r) of RZ_KeepLast n \<Rightarrow> (HISTORY_KEEP_LAST, n) | RZ_KeepAll \<Rightarrow> (HISTORY_KEEP_ALL, 0)) =
      (rmq_history (expressible r), rmq_depth (expressible r))"
    by (auto simp: rmw_qos_to_ros_z_qos_def rz_from_depth_def rz_history_default_def expressible_def)
  have f: "rq_deadline (rmw_qos_to_ros_z_qos r) = \<lparr>dur_sec = rt_sec (rmq_deadline r), dur_nsec = rt_nsec (rmq_deadline r)\<rparr>"
    "rq_lifespan (rmw_qos_to_ros_z_qos r) = \<lparr>dur_sec = rt_sec (rmq_lifespan r), dur_nsec = rt_nsec (rmq_lifespan r)\<rparr>"
    "rq_lease_duration (rmw_qos_to_ros_z_qos r) =
       \<lparr>dur_sec = rt_sec (rmq_lease_duration r), dur_nsec = rt_nsec (rmq_lease_duration r)\<rparr>"
    by (simp_all add: rmw_qos_to_ros_z_qos_def)
  show ?thesis
    by (intro rmw_qos.equality)
      (auto simp: ros_z_qos_to_rmw_qos_def h f conversion_fields, auto simp: expressible_def)
qed

lemma expressible_normalize_iff: "expressible r = normalize_rmw_qos r \<longleftrightarrow> rmw_qos_known r"
proof
  assume "expressible r = normalize_rmw_qos r"
  then have "rmq_history (expressible r) = rmq_history (normalize_rmw_qos r)"
    "rmq_depth (expressible r) = rmq_depth (normalize_rmw_qos r)"
    "rmq_reliability (expressible r) = rmq_reliability (normalize_rmw_qos r)"
    "rmq_durability (expressible r) = rmq_durability (normalize_rmw_qos r)"
    "rmq_liveliness (expressible r) = rmq_liveliness (normalize_rmw_qos r)"
    "rmq_avoid_conventions (expressible r) = rmq_avoid_conventions (normalize_rmw_qos r)"
    by simp_all
  then show "rmw_qos_known r"
    by (auto simp: rmw_qos_known_def expressible_def, auto simp: normalize_rmw_qos_def split: if_splits)
next
  assume "rmw_qos_known r"
  then show "expressible r = normalize_rmw_qos r"
    by (intro rmw_qos.equality) (auto simp: rmw_qos_known_def expressible_def, auto simp: normalize_rmw_qos_def)
qed

text \<open>
  C26.  What the conversions of QoS profiles keep.  A valid profile of the library comes back from the
  middleware interface as it was, except that the deprecated manual liveliness by node becomes
  manual liveliness by topic.  Every profile of the middleware interface comes back as the part of it
  that the library can express; this is the normalized profile exactly when its policies are ones that
  the library knows, it keeps all messages without a depth and does not avoid the name conventions.
\<close>

theorem rmw_qos_conversions:
  assumes "qos_valid q"
  shows "rmw_qos_to_ros_z_qos (ros_z_qos_to_rmw_qos q) =
      q\<lparr>rq_liveliness := (if rq_liveliness q = ManualByNode then ManualByTopic else rq_liveliness q)\<rparr> \<and>
    ros_z_qos_to_rmw_qos (rmw_qos_to_ros_z_qos r) = expressible r \<and>
    (ros_z_qos_to_rmw_qos (rmw_qos_to_ros_z_qos r) = normalize_rmw_qos r \<longleftrightarrow> rmw_qos_known r)"
  using to_rmw_and_back [OF assms] by (simp add: to_ros_z_and_back expressible_normalize_iff)

definition sample_rmw_qos :: rmw_qos where
  "sample_rmw_qos = \<lparr>rmq_history = HISTORY_KEEP_LAST, rmq_depth = 0, rmq_reliability = RELIABILITY_RELIABLE,
     rmq_durability = DURABILITY_VOLATILE, rmq_deadline = \<lparr>rt_sec = 1, rt_nsec = 0\<rparr>,
     rmq_lifespan = \<lparr>rt_sec = 0, rt_nsec = 0\<rparr>, rmq_liveliness = LIVELINESS_AUTOMATIC,
     rmq_lease_duration = \<lparr>rt_sec = 0, rt_nsec = 0\<rparr>, rmq_avoid_conventions = False\<rparr>"

theorem rmw_qos_conversions_witness:
  "rmw_qos_to_ros_z_qos (ros_z_qos_to_rmw_qos rz_qos_default) = rz_qos_default \<and>
   ros_z_qos_to_rmw_qos (rmw_qos_to_ros_z_qos sample_rmw_qos) = sample_rmw_qos\<lparr>rmq_depth := 10\<rparr> \<and>
   ros_z_qos_to_rmw_qos (rmw_qos_to_ros_z_qos sample_rmw_qos) = normalize_rmw_qos sample_rmw_qos"
  using rmw_qos_conversions [of rz_qos_default sample_rmw_qos]
  by (simp add: qos_valid_def rz_qos_default_def rz_history_default_def DEFAULT_HISTORY_DEPTH_def
    sample_rmw_qos_def rmw_qos_known_def normalize_rmw_qos_def expressible_def)

section \<open>Two checks of compatibility\<close>

lemma always_compatible [simp]: "qos_profiles_are_compatible p s"
  by (simp add: qos_profiles_are_compatible_def rmw_qos_profile_check_compatible_def)

lemma below_automatic: "l \<noteq> LIVELINESS_AUTOMATIC \<and> l < LIVELINESS_AUTOMATIC \<longleftrightarrow> l = LIVELINESS_SYSTEM_DEFAULT"
  by (auto simp: qos_consts word_less_1)

text \<open>What the graph tells of an endpoint that was created with the profile \<open>q\<close>.\<close>

definition discovered_qos :: "rmw_qos \<Rightarrow> rmw_qos" where
  "discovered_qos q = ros_z_qos_to_rmw_qos (protocol_qos_to_ros_z_qos (to_protocol_qos (rmw_qos_to_ros_z_qos q)))"

lemma discovered_fields:
  "rmq_reliability (discovered_qos q) =
     (if rmq_reliability q = RELIABILITY_BEST_EFFORT then RELIABILITY_BEST_EFFORT else RELIABILITY_RELIABLE)"
  "rmq_durability (discovered_qos q) =
     (if rmq_durability q = DURABILITY_TRANSIENT_LOCAL then DURABILITY_TRANSIENT_LOCAL else DURABILITY_VOLATILE)"
  "rmq_deadline (discovered_qos q) = \<lparr>rt_sec = 9223372036, rt_nsec = 854775807\<rparr>"
  "rmq_lease_duration (discovered_qos q) = \<lparr>rt_sec = 9223372036, rt_nsec = 854775807\<rparr>"
  "rmq_liveliness (discovered_qos q) = LIVELINESS_AUTOMATIC"
  by (simp_all add: discovered_qos_def ros_z_qos_to_rmw_qos_def protocol_qos_to_ros_z_qos_def rz_qos_default_def
    to_protocol_qos_def conversion_fields INFINITE_def split_beta)

lemma time_ns_infinite: "sint (time_ns \<lparr>rt_sec = 9223372036, rt_nsec = 854775807\<rparr>) = 2 ^ 63 - 1"
  by (simp add: time_ns_def)

lemma exceeds_infinite:
  "exceeds \<lparr>rt_sec = 9223372036, rt_nsec = 854775807\<rparr> t \<longleftrightarrow> 0 < sint (time_ns t) \<and> sint (time_ns t) < 2 ^ 63 - 1"
  by (simp add: exceeds_def time_ns_infinite)

lemma exceeds_bound: "\<not> exceeds t \<lparr>rt_sec = 9223372036, rt_nsec = 854775807\<rparr>"
  using sint_less [of "time_ns t"] by (simp add: exceeds_def time_ns_infinite)

text \<open>A time that is neither unspecified nor the infinite one, after the wrap-around of the check.\<close>

definition finite_time :: "rmw_time \<Rightarrow> bool" where
  "finite_time t \<longleftrightarrow> 0 < sint (time_ns t) \<and> sint (time_ns t) < 2 ^ 63 - 1"


end
