(* ===== verification/Rmw_Endpoints.thy ===== *)
theory Rmw_Endpoints
  imports Rmw_Qos PubSub_Properties Service_Properties
begin

text \<open>
  The endpoints of the ROS middleware interface, \<^verbatim>\<open>pubsub.rs\<close>, \<^verbatim>\<open>service.rs\<close>, \<^verbatim>\<open>msg.rs\<close> and
  \<^verbatim>\<open>type_support.rs\<close> of \<^verbatim>\<open>rmw-zenoh-rs/src\<close> and the functions of \<^verbatim>\<open>rmw.rs\<close> that use them.  The type
  support of a message is C code that the library is given; it is the record \<open>type_support\<close>, and a
  message is whatever that code reads and writes.  Mutexes are not poisoned.
\<close>

section \<open>Type support and serialization\<close>

text \<open>
  \<open>ts_serialize\<close> writes a message into a buffer, \<open>ts_deserialize\<close> reads bytes into a message that
  exists already; both say whether they succeeded.
\<close>

record 'm type_support =
  ts_serialized_size :: "'m \<Rightarrow> nat"
  ts_serialize :: "'m \<Rightarrow> bytes \<Rightarrow> bool \<times> bytes"
  ts_deserialize :: "bytes \<Rightarrow> 'm \<Rightarrow> bool \<times> 'm"

definition ts_serialize_message :: "'m type_support \<Rightarrow> 'm \<Rightarrow> bytes" where
  "ts_serialize_message TS m =
     (let size = ts_serialized_size TS m;
          buffer_size = max (size + 256) 512;
          (res, out) = ts_serialize TS m (replicate buffer_size 0)
      in if \<not> res then [] else out)"

text \<open>\<^verbatim>\<open>ZBuf::from\<close> and the copy into shared memory are those of \<open>shm_env\<close>.\<close>

definition vec_of :: "bytes \<Rightarrow> vec_u8" where
  "vec_of bs = vec_extend_from_slice vec_new bs"

definition ros_to_zbuf :: "'z shm_env \<Rightarrow> 'm type_support \<Rightarrow> 'm \<Rightarrow> ('z, unit) result" where
  "ros_to_zbuf E TS m = Ok (se_from_vec E (vec_of (ts_serialize_message TS m)))"

definition ros_to_shm :: "'m type_support \<Rightarrow> 'm \<Rightarrow> nat \<Rightarrow> 'z shm_env \<Rightarrow> ('z \<times> nat, serdes_error) result" where
  "ros_to_shm TS m estimated_size E =
     (let data = ts_serialize_message TS m; actual_size = length data
      in case se_alloc E actual_size of
           None \<Rightarrow> Err AllocationFailed
         | Some shm_buf \<Rightarrow>
             if length shm_buf < actual_size then Panic
             else Ok (se_from_shm E (data @ drop actual_size shm_buf), actual_size))"

definition ros_to_buf :: "'m type_support \<Rightarrow> 'm \<Rightarrow> (vec_u8, unit, unit) exec" where
  "ros_to_buf TS m = (\<lambda>buffer. (Ok (), vec_extend_from_slice (vec_clear buffer) (ts_serialize_message TS m)))"

definition RosSerdes :: "'z shm_env \<Rightarrow> 'm type_support \<Rightarrow> ('m, 'z) ZSerializer" where
  "RosSerdes E TS =
     \<lparr>zs_to_zbuf_with_hint = (\<lambda>m _. ros_to_zbuf E TS m),
      zs_to_zbuf = ros_to_zbuf E TS,
      zs_to_shm = ros_to_shm TS,
      zs_to_buf = ros_to_buf TS,
      zs_serialize = (\<lambda>m. case ros_to_buf TS m vec_new of (Ok _, b) \<Rightarrow> Ok b | _ \<Rightarrow> Panic)\<rparr>"

section \<open>Callbacks for new data\<close>

text \<open>
  The callback of an entity with its user data, and the number of arrivals while there was none.  A
  callback is a foreign function; an operation returns the calls that it makes, as function, user
  data and count.
\<close>

record 'f data_callback =
  dc_callback :: "'f option"
  dc_user_data :: u64
  dc_unread :: u64

definition data_callback_new :: "'f data_callback" where
  "data_callback_new = \<lparr>dc_callback = None, dc_user_data = 0, dc_unread = 0\<rparr>"

type_synonym 'f calls = "('f \<times> u64 \<times> u64) list"

definition on_new_data :: "'f data_callback \<Rightarrow> 'f calls \<times> 'f data_callback" where
  "on_new_data d = (case dc_callback d of
       Some f \<Rightarrow> ([(f, dc_user_data d, 1)], d)
     | None \<Rightarrow> ([], d\<lparr>dc_unread := dc_unread d + 1\<rparr>))"

text \<open>\<^verbatim>\<open>rmw_subscription_set_on_new_message_callback\<close>: first the user data, then the rest under the lock of the callback.\<close>

definition sub_store_user_data :: "u64 \<Rightarrow> 'f data_callback \<Rightarrow> 'f data_callback" where
  "sub_store_user_data u d = d\<lparr>dc_user_data := u\<rparr>"

definition sub_store_callback :: "'f option \<Rightarrow> u64 \<Rightarrow> 'f data_callback \<Rightarrow> 'f calls \<times> 'f data_callback" where
  "sub_store_callback callback u d = (case callback of
       Some f \<Rightarrow>
         if 0 < dc_unread d then ([(f, u, dc_unread d)], d\<lparr>dc_unread := 0, dc_callback := callback\<rparr>)
         else ([], d\<lparr>dc_callback := callback\<rparr>)
     | None \<Rightarrow> ([], d\<lparr>dc_callback := callback\<rparr>))"

definition sub_set_on_new_message :: "'f option \<Rightarrow> u64 \<Rightarrow> 'f data_callback \<Rightarrow> 'f calls \<times> 'f data_callback" where
  "sub_set_on_new_message callback u d = sub_store_callback callback u (sub_store_user_data u d)"

text \<open>
  \<^verbatim>\<open>rmw_service_set_on_new_request_callback\<close> and \<^verbatim>\<open>rmw_client_set_on_new_response_callback\<close>: three locks,
  one after the other.
\<close>

definition srv_report_unread :: "'f \<Rightarrow> u64 \<Rightarrow> 'f data_callback \<Rightarrow> 'f calls \<times> 'f data_callback" where
  "srv_report_unread f u d =
     (if 0 < dc_unread d then ([(f, u, dc_unread d)], d\<lparr>dc_unread := 0\<rparr>) else ([], d))"

definition srv_store_callback :: "'f option \<Rightarrow> 'f data_callback \<Rightarrow> 'f data_callback" where
  "srv_store_callback callback d = d\<lparr>dc_callback := callback\<rparr>"

definition srv_store_user_data :: "u64 \<Rightarrow> 'f data_callback \<Rightarrow> 'f data_callback" where
  "srv_store_user_data u d = d\<lparr>dc_user_data := u\<rparr>"

definition srv_set_on_new_request :: "'f option \<Rightarrow> u64 \<Rightarrow> 'f data_callback \<Rightarrow> 'f calls \<times> 'f data_callback" where
  "srv_set_on_new_request callback u d = (case callback of
       Some f \<Rightarrow> (case srv_report_unread f u d of (calls, d') \<Rightarrow>
         (calls, srv_store_user_data u (srv_store_callback callback d')))
     | None \<Rightarrow> ([], srv_store_user_data 0 (srv_store_callback None d)))"

section \<open>Publishers\<close>

record ('i, 'b, 'c) PublisherImpl =
  pi_inner :: "('i, 'b, 'c) ZPub"
  pi_topic :: string
  pi_qos :: rmw_qos
  pi_entity :: "'i EndpointEntity"

text \<open>
  A handle of the C interface: \<open>None\<close> is a null pointer, \<open>Some None\<close> a structure whose \<^verbatim>\<open>data\<close> is null.
  What is put is returned.  A panic aborts the process at the border of the C function.
\<close>

type_synonym 'a handle = "'a option option"

definition rmw_publish ::
    "'b zbuf_ops \<Rightarrow> 'b shm_env \<Rightarrow> 'm type_support \<Rightarrow> ('m \<Rightarrow> nat) \<Rightarrow> nat option \<Rightarrow>
     ('i, 'b, 'c) PublisherImpl handle \<Rightarrow> 'm option \<Rightarrow> (i32 \<times> 'b put option, unit) result \<times> ('i, 'b, 'c) PublisherImpl handle" where
  "rmw_publish Zb E TS estimate now h msg = (case (h, msg) of
       (Some (Some p), Some m) \<Rightarrow>
         (case publish Zb (RosSerdes E TS) estimate now m (pi_inner p) of
            (Ok sample, z) \<Rightarrow> (Ok (RMW_RET_OK, Some sample), Some (Some (p\<lparr>pi_inner := z\<rparr>)))
          | (Err _, z) \<Rightarrow> (Ok (RMW_RET_ERROR, None), Some (Some (p\<lparr>pi_inner := z\<rparr>)))
          | (Panic, z) \<Rightarrow> (Panic, Some (Some (p\<lparr>pi_inner := z\<rparr>))))
     | _ \<Rightarrow> (Ok (RMW_RET_INVALID_ARGUMENT, None), h))"

definition rmw_publish_serialized_message ::
    "nat option \<Rightarrow> ('i, 'b, 'c) PublisherImpl handle \<Rightarrow> 'b option \<Rightarrow>
     (i32 \<times> 'b put option, unit) result \<times> ('i, 'b, 'c) PublisherImpl handle" where
  "rmw_publish_serialized_message now h msg = (case (h, msg) of
       (Some (Some p), Some bs) \<Rightarrow>
         (case publish_serialized now bs (pi_inner p) of
            (Ok sample, z) \<Rightarrow> (Ok (RMW_RET_OK, Some sample), Some (Some (p\<lparr>pi_inner := z\<rparr>)))
          | (Err _, z) \<Rightarrow> (Ok (RMW_RET_ERROR, None), Some (Some (p\<lparr>pi_inner := z\<rparr>)))
          | (Panic, z) \<Rightarrow> (Panic, Some (Some (p\<lparr>pi_inner := z\<rparr>))))
     | _ \<Rightarrow> (Ok (RMW_RET_INVALID_ARGUMENT, None), h))"

section \<open>Subscriptions\<close>

record ('i, 'b, 'c, 'f) SubscriptionImpl =
  si_inner :: "('i, 'b, 'c) ZSub"
  si_topic :: string
  si_qos :: rmw_qos
  si_callback :: "'f data_callback"
  si_entity :: "'i EndpointEntity"

definition si_is_ready :: "('i, 'b, 'c, 'f) SubscriptionImpl \<Rightarrow> bool" where
  "si_is_ready s = (case zs_queue (si_inner s) of Some queue \<Rightarrow> \<not> queue_is_empty queue | None \<Rightarrow> False)"

text \<open>
  \<^verbatim>\<open>build_with_notifier\<close> with the closure of \<^verbatim>\<open>rmw_create_subscription\<close>: a sample is queued, the wait sets
  are notified, and the callback is called.
\<close>

definition si_deliver ::
    "'b put \<Rightarrow> ('i, 'b, 'c, 'f) SubscriptionImpl \<Rightarrow> 'f calls \<times> ('i, 'b, 'c, 'f) SubscriptionImpl" where
  "si_deliver sample s = (case on_new_data (si_callback s) of (calls, d) \<Rightarrow>
     (calls, s\<lparr>si_inner := sub_deliver sample (si_inner s), si_callback := d\<rparr>))"

record rmw_message_info =
  mi_source_timestamp :: i64
  mi_received_timestamp :: i64
  mi_publication_sn :: u64
  mi_reception_sn :: u64
  mi_publisher_gid :: bytes
  mi_from_intra_process :: bool

text \<open>\<open>now\<close> is the time since the epoch, if the clock is not before it.\<close>

definition timestamp_of :: "nat option \<Rightarrow> i64" where
  "timestamp_of now = (case now of None \<Rightarrow> 0 | Some ns \<Rightarrow> of_nat ns)"

definition si_set_queue ::
    "'b put BoundedQueue \<Rightarrow> ('i, 'b, 'c, 'f) SubscriptionImpl \<Rightarrow> ('i, 'b, 'c, 'f) SubscriptionImpl" where
  "si_set_queue q s = s\<lparr>si_inner := (si_inner s)\<lparr>zs_queue := Some q\<rparr>\<rparr>"

text \<open>The results are the message, the flag \<^verbatim>\<open>taken\<close> and the subscription.\<close>

definition si_take ::
    "'b zbuf_ops \<Rightarrow> 'm type_support \<Rightarrow> 'm \<Rightarrow> ('i, 'b, 'c, 'f) SubscriptionImpl \<Rightarrow>
     (unit, unit) result \<times> 'm \<times> bool \<times> ('i, 'b, 'c, 'f) SubscriptionImpl" where
  "si_take Zb TS msg s = (case zs_queue (si_inner s) of
       None \<Rightarrow> (Err (), msg, False, s)
     | Some queue \<Rightarrow> (case queue_try_recv queue of
         (Some sample, q) \<Rightarrow>
           let (_, msg') = ts_deserialize TS (zb_contiguous Zb (put_payload sample)) msg
           in (Ok (), msg', True, si_set_queue q s)
       | (None, q) \<Rightarrow> (Ok (), msg, False, si_set_queue q s)))"

definition info_of_sample :: "nat option \<Rightarrow> 'b put \<Rightarrow> rmw_message_info" where
  "info_of_sample now sample =
     \<lparr>mi_source_timestamp = (case put_attachment sample of Some a \<Rightarrow> att_source_timestamp a | None \<Rightarrow> 0),
      mi_received_timestamp = timestamp_of now, mi_publication_sn = 0, mi_reception_sn = 0,
      mi_publisher_gid = replicate 16 0, mi_from_intra_process = False\<rparr>"

definition si_take_with_info ::
    "'b zbuf_ops \<Rightarrow> 'm type_support \<Rightarrow> nat option \<Rightarrow> 'm \<Rightarrow> rmw_message_info option \<Rightarrow>
     ('i, 'b, 'c, 'f) SubscriptionImpl \<Rightarrow>
     (unit, unit) result \<times> 'm \<times> rmw_message_info option \<times> bool \<times> ('i, 'b, 'c, 'f) SubscriptionImpl" where
  "si_take_with_info Zb TS now msg info s = (case zs_queue (si_inner s) of
       None \<Rightarrow> (Err (), msg, info, False, s)
     | Some queue \<Rightarrow> (case queue_try_recv queue of
         (Some sample, q) \<Rightarrow>
           let (_, msg') = ts_deserialize TS (zb_contiguous Zb (put_payload sample)) msg
           in (Ok (), msg', map_option (\<lambda>_. info_of_sample now sample) info, True, si_set_queue q s)
       | (None, q) \<Rightarrow> (Ok (), msg, info, False, si_set_queue q s)))"

text \<open>A buffer of the C library: its memory, as long as its capacity, and the length in use.\<close>

record serialized_message =
  sm_buffer :: bytes
  sm_length :: nat

definition sm_store :: "bytes \<Rightarrow> serialized_message \<Rightarrow> serialized_message" where
  "sm_store bs m =
     (let buffer = (if length (sm_buffer m) < length bs then replicate (length bs) 0 else sm_buffer m)
      in \<lparr>sm_buffer = bs @ drop (length bs) buffer, sm_length = length bs\<rparr>)"

definition no_info :: rmw_message_info where
  "no_info = \<lparr>mi_source_timestamp = 0, mi_received_timestamp = 0, mi_publication_sn = 0, mi_reception_sn = 0,
     mi_publisher_gid = replicate 16 0, mi_from_intra_process = False\<rparr>"

definition si_take_serialized ::
    "'b zbuf_ops \<Rightarrow> serialized_message \<Rightarrow> rmw_message_info option \<Rightarrow> ('i, 'b, 'c, 'f) SubscriptionImpl \<Rightarrow>
     (unit, unit) result \<times> serialized_message \<times> rmw_message_info option \<times> bool \<times> ('i, 'b, 'c, 'f) SubscriptionImpl" where
  "si_take_serialized Zb m info s = (case zs_queue (si_inner s) of
       None \<Rightarrow> (Err (), m, info, False, s)
     | Some queue \<Rightarrow> (case queue_try_recv queue of
         (Some sample, q) \<Rightarrow>
           (Ok (), sm_store (zb_contiguous Zb (put_payload sample)) m, map_option (\<lambda>_. no_info) info, True,
            si_set_queue q s)
       | (None, q) \<Rightarrow> (Ok (), m, info, False, si_set_queue q s)))"

subsection \<open>The C functions\<close>

definition ret_of :: "(unit, unit) result \<Rightarrow> i32" where
  "ret_of r = (case r of Ok _ \<Rightarrow> RMW_RET_OK | _ \<Rightarrow> RMW_RET_ERROR)"

text \<open>Behind each pointer that is not null stands what the function leaves there.\<close>

definition rmw_take ::
    "'b zbuf_ops \<Rightarrow> 'm type_support \<Rightarrow> ('i, 'b, 'c, 'f) SubscriptionImpl handle \<Rightarrow> 'm option \<Rightarrow> bool option \<Rightarrow>
     i32 \<times> 'm option \<times> bool option \<times> ('i, 'b, 'c, 'f) SubscriptionImpl handle" where
  "rmw_take Zb TS h msg taken = (case (h, msg, taken) of
       (Some (Some s), Some m, Some _) \<Rightarrow>
         (case si_take Zb TS m s of (r, m', t, s') \<Rightarrow> (ret_of r, Some m', Some t, Some (Some s')))
     | _ \<Rightarrow> (RMW_RET_INVALID_ARGUMENT, msg, taken, h))"

definition rmw_take_with_info ::
    "'b zbuf_ops \<Rightarrow> 'm type_support \<Rightarrow> nat option \<Rightarrow> ('i, 'b, 'c, 'f) SubscriptionImpl handle \<Rightarrow> 'm option \<Rightarrow>
     bool option \<Rightarrow> rmw_message_info option \<Rightarrow>
     i32 \<times> 'm option \<times> bool option \<times> rmw_message_info option \<times> ('i, 'b, 'c, 'f) SubscriptionImpl handle" where
  "rmw_take_with_info Zb TS now h msg taken info = (case (h, msg, taken, info) of
       (Some (Some s), Some m, Some _, Some _) \<Rightarrow>
         (case si_take_with_info Zb TS now m info s of (r, m', i, t, s') \<Rightarrow>
            (ret_of r, Some m', Some t, i, Some (Some s')))
     | _ \<Rightarrow> (RMW_RET_INVALID_ARGUMENT, msg, taken, info, h))"

definition rmw_take_serialized_message ::
    "'b zbuf_ops \<Rightarrow> ('i, 'b, 'c, 'f) SubscriptionImpl handle \<Rightarrow> serialized_message option \<Rightarrow> bool option \<Rightarrow>
     i32 \<times> serialized_message option \<times> bool option \<times> ('i, 'b, 'c, 'f) SubscriptionImpl handle" where
  "rmw_take_serialized_message Zb h msg taken = (case (h, msg, taken) of
       (Some (Some s), Some m, Some _) \<Rightarrow>
         (case si_take_serialized Zb m None s of (r, m', _, t, s') \<Rightarrow> (ret_of r, Some m', Some t, Some (Some s')))
     | _ \<Rightarrow> (RMW_RET_INVALID_ARGUMENT, msg, taken, h))"

definition rmw_take_serialized_message_with_info ::
    "'b zbuf_ops \<Rightarrow> ('i, 'b, 'c, 'f) SubscriptionImpl handle \<Rightarrow> serialized_message option \<Rightarrow> bool option \<Rightarrow>
     rmw_message_info option \<Rightarrow>
     i32 \<times> serialized_message option \<times> bool option \<times> rmw_message_info option \<times> ('i, 'b, 'c, 'f) SubscriptionImpl handle" where
  "rmw_take_serialized_message_with_info Zb h msg taken info = (case (h, msg, taken, info) of
       (Some (Some s), Some m, Some _, Some _) \<Rightarrow>
         (case si_take_serialized Zb m info s of (r, m', i, t, s') \<Rightarrow>
            (ret_of r, Some m', Some t, i, Some (Some s')))
     | _ \<Rightarrow> (RMW_RET_INVALID_ARGUMENT, msg, taken, info, h))"

text \<open>
  \<^verbatim>\<open>rmw_take_sequence\<close>: the loop over the messages and infos of the two sequences from index \<open>i\<close> on, as
  long as fewer than \<open>i + n\<close> are taken.
\<close>

fun take_sequence_loop ::
    "'b zbuf_ops \<Rightarrow> 'm type_support \<Rightarrow> nat option \<Rightarrow> nat \<Rightarrow> nat \<Rightarrow> 'm list \<Rightarrow> rmw_message_info list \<Rightarrow>
     ('i, 'b, 'c, 'f) SubscriptionImpl \<Rightarrow>
     nat \<times> 'm list \<times> rmw_message_info list \<times> ('i, 'b, 'c, 'f) SubscriptionImpl" where
  "take_sequence_loop Zb TS now 0 i msgs infos s = (i, msgs, infos, s)"
| "take_sequence_loop Zb TS now (Suc n) i msgs infos s =
     (case si_take_with_info Zb TS now (msgs ! i) (Some (infos ! i)) s of
        (Ok _, m, info, one_taken, s') \<Rightarrow>
          let msgs' = msgs[i := m]; infos' = infos[i := the info]
          in if \<not> one_taken then (i, msgs', infos', s')
             else take_sequence_loop Zb TS now n (i + 1) msgs' infos' s'
      | (_, m, info, _, s') \<Rightarrow> (i, msgs[i := m], infos[i := the info], s'))"

record 'x rmw_sequence =
  sq_data :: "'x list"
  sq_size :: nat

definition rmw_take_sequence ::
    "'b zbuf_ops \<Rightarrow> 'm type_support \<Rightarrow> nat option \<Rightarrow> ('i, 'b, 'c, 'f) SubscriptionImpl handle \<Rightarrow> nat \<Rightarrow>
     'm rmw_sequence option \<Rightarrow> rmw_message_info rmw_sequence option \<Rightarrow> nat option \<Rightarrow>
     i32 \<times> 'm rmw_sequence option \<times> rmw_message_info rmw_sequence option \<times> nat option \<times>
       ('i, 'b, 'c, 'f) SubscriptionImpl handle" where
  "rmw_take_sequence Zb TS now h count ms is taken = (case (h, ms, is, taken) of
       (Some (Some s), Some m, Some i, Some _) \<Rightarrow>
         if count = 0 \<or> length (sq_data m) < count \<or> length (sq_data i) < count
         then (RMW_RET_INVALID_ARGUMENT, ms, is, taken, h)
         else (case take_sequence_loop Zb TS now count 0 (sq_data m) (sq_data i) s of (n, msgs, infos, s') \<Rightarrow>
           (RMW_RET_OK, Some \<lparr>sq_data = msgs, sq_size = n\<rparr>, Some \<lparr>sq_data = infos, sq_size = n\<rparr>, Some n,
            Some (Some s')))
     | _ \<Rightarrow> (RMW_RET_INVALID_ARGUMENT, ms, is, taken, h))"

section \<open>Services\<close>

record ('i, 'f) ClientImpl =
  ci_inner :: "'i ZClient"
  ci_service_name :: string
  ci_qos :: rmw_qos
  ci_callback :: "'f data_callback"
  ci_sequence_counter :: i64
  ci_entity :: "'i EndpointEntity"

definition ci_is_ready :: "('i, 'f) ClientImpl \<Rightarrow> bool" where
  "ci_is_ready c \<longleftrightarrow> zc_rx (ci_inner c) \<noteq> []"

text \<open>
  \<^verbatim>\<open>ClientImpl::send_request\<close> counts in two places: it takes the number that it will return from its own
  counter, and then the inner client takes the one that it sends.
\<close>

definition ci_take_number :: "('i, 'f) ClientImpl \<Rightarrow> i64 \<times> ('i, 'f) ClientImpl" where
  "ci_take_number c = (ci_sequence_counter c, c\<lparr>ci_sequence_counter := ci_sequence_counter c + 1\<rparr>)"

definition ros_serialize :: "'m type_support \<Rightarrow> 'm \<Rightarrow> (vec_u8, unit) result" where
  "ros_serialize TS m = (case ros_to_buf TS m vec_new of (Ok _, b) \<Rightarrow> Ok b | _ \<Rightarrow> Panic)"

definition ci_send_numbered ::
    "att_env \<Rightarrow> 'm type_support \<Rightarrow> nat option \<Rightarrow> 'm \<Rightarrow> i64 \<Rightarrow> (('i, 'f) ClientImpl, i64 \<times> query, unit) exec" where
  "ci_send_numbered A TS now req sn = (\<lambda>c.
     case rmw_send_request A (ros_serialize TS) now req (ci_inner c) of
       (Ok (_, q), z) \<Rightarrow> (Ok (sn, q), c\<lparr>ci_inner := z\<rparr>)
     | (Err e, z) \<Rightarrow> (Err e, c\<lparr>ci_inner := z\<rparr>)
     | (Panic, z) \<Rightarrow> (Panic, c\<lparr>ci_inner := z\<rparr>))"

definition ci_send_request ::
    "att_env \<Rightarrow> 'm type_support \<Rightarrow> nat option \<Rightarrow> 'm \<Rightarrow> (('i, 'f) ClientImpl, i64 \<times> query, unit) exec" where
  "ci_send_request A TS now req = (\<lambda>c. case ci_take_number c of
     (sn, c') \<Rightarrow> ci_send_numbered A TS now req sn c')"

text \<open>
  A reply arrives: it is put into the channel, and the closure made by \<^verbatim>\<open>send_request\<close> is called, unless
  the reply is an error.
\<close>

definition ci_deliver :: "(bytes, 'e) result \<Rightarrow> ('i, 'f) ClientImpl \<Rightarrow> 'f calls \<times> ('i, 'f) ClientImpl" where
  "ci_deliver r c = (case r of
       Ok _ \<Rightarrow> (case on_new_data (ci_callback c) of (calls, d) \<Rightarrow>
         (calls, c\<lparr>ci_inner := on_reply r (ci_inner c), ci_callback := d\<rparr>))
     | _ \<Rightarrow> ([], c\<lparr>ci_inner := on_reply r (ci_inner c)\<rparr>))"

record ('i, 'f) ServiceImpl =
  vi_inner :: "'i ZServer"
  vi_service_name :: string
  vi_qos :: rmw_qos
  vi_callback :: "'f data_callback"
  vi_entity :: "'i EndpointEntity"

definition vi_is_ready :: "('i, 'f) ServiceImpl \<Rightarrow> bool" where
  "vi_is_ready v = (case zv_queue (vi_inner v) of Some q \<Rightarrow> \<not> queue_is_empty q | None \<Rightarrow> False)"

definition vi_deliver :: "query \<Rightarrow> ('i, 'f) ServiceImpl \<Rightarrow> 'f calls \<times> ('i, 'f) ServiceImpl" where
  "vi_deliver q v = (case on_new_data (vi_callback v) of (calls, d) \<Rightarrow>
     (calls, v\<lparr>vi_inner := server_deliver q (vi_inner v), vi_callback := d\<rparr>))"

record rmw_request_id =
  ri_writer_guid :: bytes
  ri_sequence_number :: i64

record rmw_service_info =
  sv_request_id :: rmw_request_id
  sv_source_timestamp :: i64
  sv_received_timestamp :: i64

definition query_attachment :: "att_env \<Rightarrow> query \<Rightarrow> Attachment option" where
  "query_attachment A q = Option.bind (qu_attachment q) (attachment_try_from A)"

text \<open>The results are the header, the request, the flag \<^verbatim>\<open>taken\<close> and the service.\<close>

definition vi_take_request ::
    "att_env \<Rightarrow> 'm type_support \<Rightarrow> nat option \<Rightarrow> rmw_service_info option \<Rightarrow> 'm \<Rightarrow> ('i, 'f) ServiceImpl \<Rightarrow>
     rmw_service_info option \<times> 'm \<times> bool \<times> ('i, 'f) ServiceImpl" where
  "vi_take_request A TS now header request v = (case zv_queue (vi_inner v) of
       None \<Rightarrow> (header, request, False, v)
     | Some queue \<Rightarrow> (case queue_try_recv queue of
         (None, q) \<Rightarrow> (header, request, False, v\<lparr>vi_inner := (vi_inner v)\<lparr>zv_queue := Some q\<rparr>\<rparr>)
       | (Some query, q) \<Rightarrow>
           let inner = (vi_inner v)\<lparr>zv_queue := Some q\<rparr>
           in (case qu_payload query of
                 None \<Rightarrow> (header, request, False, v\<lparr>vi_inner := inner\<rparr>)
               | Some bs \<Rightarrow>
                   let key = (case query_attachment A query of
                         Some attachment \<Rightarrow> query_key_from attachment
                       | None \<Rightarrow> \<lparr>qk_sn = 0, qk_gid = replicate 16 0\<rparr>);
                       source_timestamp = (case query_attachment A query of
                         Some attachment \<Rightarrow> att_source_timestamp attachment | None \<Rightarrow> 0);
                       inner' = inner\<lparr>zv_map := (zv_map inner)(key \<mapsto> query)\<rparr>;
                       (_, request') = ts_deserialize TS bs request;
                       header' = map_option (\<lambda>_.
                         \<lparr>sv_request_id = \<lparr>ri_writer_guid = qk_gid key, ri_sequence_number = qk_sn key\<rparr>,
                          sv_source_timestamp = source_timestamp, sv_received_timestamp = timestamp_of now\<rparr>) header
                   in (header', request', True, v\<lparr>vi_inner := inner'\<rparr>))))"

definition vi_send_response ::
    "att_env \<Rightarrow> 'm type_support \<Rightarrow> nat option \<Rightarrow> rmw_request_id \<Rightarrow> 'm \<Rightarrow> (('i, 'f) ServiceImpl, reply, unit server_error) exec" where
  "vi_send_response A TS now request_header response = (\<lambda>v.
     let key = \<lparr>qk_sn = ri_sequence_number request_header, qk_gid = ri_writer_guid request_header\<rparr>
     in case Services.send_response A (ros_serialize TS) now response key (vi_inner v) of
          (r, z) \<Rightarrow> (r, v\<lparr>vi_inner := z\<rparr>))"

subsection \<open>The C functions\<close>

definition rmw_take_request ::
    "att_env \<Rightarrow> 'm type_support \<Rightarrow> nat option \<Rightarrow> ('i, 'f) ServiceImpl handle \<Rightarrow> rmw_service_info option \<Rightarrow>
     'm option \<Rightarrow> bool option \<Rightarrow>
     i32 \<times> rmw_service_info option \<times> 'm option \<times> bool option \<times> ('i, 'f) ServiceImpl handle" where
  "rmw_take_request A TS now h header request taken = (case (h, header, request, taken) of
       (Some (Some v), Some _, Some m, Some _) \<Rightarrow>
         (case vi_take_request A TS now header m v of (header', m', t, v') \<Rightarrow>
            (RMW_RET_OK, header', Some m', Some t, Some (Some v')))
     | _ \<Rightarrow> (RMW_RET_INVALID_ARGUMENT, header, request, taken, h))"

definition rmw_send_response ::
    "att_env \<Rightarrow> 'm type_support \<Rightarrow> nat option \<Rightarrow> ('i, 'f) ServiceImpl handle \<Rightarrow> rmw_request_id option \<Rightarrow>
     'm option \<Rightarrow> (i32 \<times> reply option, unit) result \<times> ('i, 'f) ServiceImpl handle" where
  "rmw_send_response A TS now h header response = (case (h, header, response) of
       (Some (Some v), Some request_id, Some m) \<Rightarrow>
         (case vi_send_response A TS now request_id m v of
            (Ok r, v') \<Rightarrow> (Ok (RMW_RET_OK, Some r), Some (Some v'))
          | (Err _, v') \<Rightarrow> (Ok (RMW_RET_ERROR, None), Some (Some v'))
          | (Panic, v') \<Rightarrow> (Panic, Some (Some v')))
     | _ \<Rightarrow> (Ok (RMW_RET_INVALID_ARGUMENT, None), h))"

text \<open>\<open>sequence_id\<close> is what stands behind the pointer of that name.\<close>

definition rmw_send_request_c ::
    "att_env \<Rightarrow> 'm type_support \<Rightarrow> nat option \<Rightarrow> ('i, 'f) ClientImpl handle \<Rightarrow> 'm option \<Rightarrow> i64 option \<Rightarrow>
     (i32 \<times> i64 option \<times> query option, unit) result \<times> ('i, 'f) ClientImpl handle" where
  "rmw_send_request_c A TS now h request sequence_id = (case (h, request, sequence_id) of
       (Some (Some c), Some m, Some _) \<Rightarrow>
         (case ci_send_request A TS now m c of
            (Ok (sn, q), c') \<Rightarrow> (Ok (RMW_RET_OK, Some sn, Some q), Some (Some c'))
          | (Err _, c') \<Rightarrow> (Ok (RMW_RET_ERROR, sequence_id, None), Some (Some c'))
          | (Panic, c') \<Rightarrow> (Panic, Some (Some c')))
     | _ \<Rightarrow> (Ok (RMW_RET_INVALID_ARGUMENT, sequence_id, None), h))"

end
