(* ===== verification/Rmw_Wait.thy ===== *)
theory Rmw_Wait
  imports Rmw_Endpoints
begin

text \<open>
  \<^verbatim>\<open>guard_condition.rs\<close> and \<^verbatim>\<open>wait_set.rs\<close> of \<^verbatim>\<open>rmw-zenoh-rs/src\<close> and the events of \<^verbatim>\<open>rmw.rs\<close>: the wait of
  an executor for any of its subscriptions, guard conditions, services, clients and events.  A
  pointer is an optional address, and the objects of the process are a \<open>rmw_heap\<close>.  A wait is told
  what it finds whenever it is woken.
\<close>

section \<open>Guard conditions\<close>

text \<open>\<open>gd_notifier\<close> says whether there is one; all objects of a context share it.\<close>

record GuardConditionImpl =
  gd_notifier :: bool
  gd_triggered :: bool

definition gd_trigger :: "GuardConditionImpl \<Rightarrow> (unit, unit) result \<times> nat \<times> GuardConditionImpl" where
  "gd_trigger g = (if \<not> gd_notifier g then (Err (), 0, g) else (Ok (), 1, g\<lparr>gd_triggered := True\<rparr>))"

definition gd_reset :: "GuardConditionImpl \<Rightarrow> GuardConditionImpl" where
  "gd_reset g = g\<lparr>gd_triggered := False\<rparr>"

definition gd_is_ready :: "GuardConditionImpl \<Rightarrow> bool" where
  "gd_is_ready g = gd_triggered g"

text \<open>The argument says whether the context is there and has its implementation, here and for wait sets.\<close>

definition rmw_create_guard_condition :: "bool handle \<Rightarrow> GuardConditionImpl handle" where
  "rmw_create_guard_condition context = (case context of
       Some (Some _) \<Rightarrow> Some (Some \<lparr>gd_notifier = True, gd_triggered = False\<rparr>)
     | _ \<Rightarrow> None)"

definition rmw_destroy_guard_condition :: "GuardConditionImpl handle \<Rightarrow> i32 \<times> GuardConditionImpl handle" where
  "rmw_destroy_guard_condition h = (case h of
       None \<Rightarrow> (RMW_RET_INVALID_ARGUMENT, h) | Some _ \<Rightarrow> (RMW_RET_OK, None))"

text \<open>The second component counts the notifications.\<close>

definition rmw_trigger_guard_condition :: "GuardConditionImpl handle \<Rightarrow> i32 \<times> nat \<times> GuardConditionImpl handle" where
  "rmw_trigger_guard_condition h = (case h of
       None \<Rightarrow> (RMW_RET_INVALID_ARGUMENT, 0, h)
     | Some None \<Rightarrow> (RMW_RET_OK, 0, h)
     | Some (Some g) \<Rightarrow> (case gd_trigger g of (_, n, g') \<Rightarrow> (RMW_RET_OK, n, Some (Some g'))))"

section \<open>Events\<close>

text \<open>
  An event refers to the manager of its entity, by address, and has the number of its type.  Its data
  is null before it is initialized.
\<close>

record rmw_event =
  ev_data :: "(RmEventHandle \<times> nat) option"
  ev_type :: u32

definition rmw_event_type_to_zenoh_event :: "u32 \<Rightarrow> ZenohEventType option" where
  "rmw_event_type_to_zenoh_event t =
     (if t = 3 then Some RequestedQosIncompatible
      else if t = 4 then Some MessageLost
      else if t = 5 then Some SubscriptionIncompatibleType
      else if t = 6 then Some SubscriptionMatched
      else if t = 9 then Some OfferedQosIncompatible
      else if t = 10 then Some PublisherIncompatibleType
      else if t = 11 then Some PublicationMatched
      else None)"

definition rmw_event_type_is_supported :: "u32 \<Rightarrow> bool" where
  "rmw_event_type_is_supported t \<longleftrightarrow> rmw_event_type_to_zenoh_event t \<noteq> None"

text \<open>The events by the numbers that the generated bindings give them.\<close>

definition bound_event_type :: "u32 \<Rightarrow> ZenohEventType option" where
  "bound_event_type t =
     (if t = 0 then Some LivelinessChanged
      else if t = 1 then Some RequestedDeadlineMissed
      else if t = 2 then Some RequestedQosIncompatible
      else if t = 3 then Some MessageLost
      else if t = 4 then Some SubscriptionIncompatibleType
      else if t = 5 then Some SubscriptionMatched
      else if t = 6 then Some LivelinessLost
      else if t = 7 then Some OfferedDeadlineMissed
      else if t = 8 then Some OfferedQosIncompatible
      else if t = 9 then Some PublisherIncompatibleType
      else if t = 10 then Some PublicationMatched
      else None)"

definition event_init :: "ZenohEventType list \<Rightarrow> rmw_event option \<Rightarrow> nat handle \<Rightarrow> u32 \<Rightarrow> i32 \<times> rmw_event option" where
  "event_init kinds event mgr t = (case (event, mgr) of
       (Some _, Some (Some m)) \<Rightarrow>
         (case rmw_event_type_to_zenoh_event t of
            None \<Rightarrow> (RMW_RET_UNSUPPORTED, event)
          | Some z \<Rightarrow>
              if z \<in> set kinds then (RMW_RET_OK, Some \<lparr>ev_data = Some (RmEventHandle z, m), ev_type = t\<rparr>)
              else (RMW_RET_INVALID_ARGUMENT, event))
     | _ \<Rightarrow> (RMW_RET_INVALID_ARGUMENT, event))"

definition rmw_publisher_event_init :: "rmw_event option \<Rightarrow> nat handle \<Rightarrow> u32 \<Rightarrow> i32 \<times> rmw_event option" where
  "rmw_publisher_event_init = event_init
     [LivelinessLost, OfferedDeadlineMissed, OfferedQosIncompatible, PublisherIncompatibleType, PublicationMatched]"

definition rmw_subscription_event_init :: "rmw_event option \<Rightarrow> nat handle \<Rightarrow> u32 \<Rightarrow> i32 \<times> rmw_event option" where
  "rmw_subscription_event_init = event_init
     [LivelinessChanged, RequestedDeadlineMissed, RequestedQosIncompatible, MessageLost,
      SubscriptionIncompatibleType, SubscriptionMatched]"

definition rmw_event_fini :: "rmw_event option \<Rightarrow> i32 \<times> rmw_event option" where
  "rmw_event_fini event = (case event of
       None \<Rightarrow> (RMW_RET_INVALID_ARGUMENT, None)
     | Some _ \<Rightarrow> (RMW_RET_OK, Some \<lparr>ev_data = None, ev_type = 0\<rparr>))"

text \<open>A cast from \<^verbatim>\<open>i32\<close> to \<^verbatim>\<open>usize\<close> extends the sign.\<close>

definition as_usize :: "i32 \<Rightarrow> u64" where
  "as_usize n = scast n"

text \<open>The structures that \<^verbatim>\<open>rmw_take_event\<close> fills.\<close>

datatype rmw_event_status =
    QosIncompatibleStatus i32 i32 u32
  | MessageLostStatus u64 u64
  | IncompatibleTypeStatus i32 i32
  | MatchedStatus u64 u64 u64 i32
  | DeadlineMissedStatus i32 i32
  | LivelinessLostStatus i32 i32
  | LivelinessChangedStatus i32 i32 i32 i32

definition event_status_of :: "ZenohEventType \<Rightarrow> ZenohEventStatus \<Rightarrow> rmw_event_status" where
  "event_status_of t s = (case t of
       RequestedQosIncompatible \<Rightarrow> QosIncompatibleStatus (total_count s) (total_count_change s) (last_policy_kind s)
     | OfferedQosIncompatible \<Rightarrow> QosIncompatibleStatus (total_count s) (total_count_change s) (last_policy_kind s)
     | MessageLost \<Rightarrow> MessageLostStatus (as_usize (total_count s)) (as_usize (total_count_change s))
     | SubscriptionIncompatibleType \<Rightarrow> IncompatibleTypeStatus (total_count s) (total_count_change s)
     | PublisherIncompatibleType \<Rightarrow> IncompatibleTypeStatus (total_count s) (total_count_change s)
     | SubscriptionMatched \<Rightarrow> MatchedStatus (as_usize (total_count s)) (as_usize (total_count_change s))
         (as_usize (current_count s)) (current_count_change s)
     | PublicationMatched \<Rightarrow> MatchedStatus (as_usize (total_count s)) (as_usize (total_count_change s))
         (as_usize (current_count s)) (current_count_change s)
     | OfferedDeadlineMissed \<Rightarrow> DeadlineMissedStatus (total_count s) (total_count_change s)
     | RequestedDeadlineMissed \<Rightarrow> DeadlineMissedStatus (total_count s) (total_count_change s)
     | LivelinessLost \<Rightarrow> LivelinessLostStatus (total_count s) (total_count_change s)
     | LivelinessChanged \<Rightarrow> LivelinessChangedStatus (current_count s) (current_count_change s) 0 0)"

text \<open>\<open>mgr\<close> is the manager that the event refers to; \<open>info\<close> and \<open>taken\<close> stand behind their pointers.\<close>

definition rmw_take_event ::
    "rmw_event option \<Rightarrow> rmw_event_status option \<Rightarrow> bool option \<Rightarrow> 'c EventsManager \<Rightarrow>
     i32 \<times> rmw_event_status option \<times> bool option \<times> 'c EventsManager" where
  "rmw_take_event event info taken mgr = (case (event, info) of
       (Some ev, Some _) \<Rightarrow> (case ev_data ev of
           None \<Rightarrow> (RMW_RET_INVALID_ARGUMENT, info, taken, mgr)
         | Some (h, _) \<Rightarrow> (case take_event h mgr of (status, mgr') \<Rightarrow>
             (case rmw_event_type_to_zenoh_event (ev_type ev) of
                None \<Rightarrow> (RMW_RET_UNSUPPORTED, info, map_option (\<lambda>_. False) taken, mgr')
              | Some t \<Rightarrow> (RMW_RET_OK, Some (event_status_of t status), map_option (\<lambda>_. True) taken, mgr'))))
     | _ \<Rightarrow> (RMW_RET_INVALID_ARGUMENT, info, taken, mgr))"

text \<open>
  \<^verbatim>\<open>rmw_event_set_callback\<close> registers a closure that passes the change on to the callback, if there is
  one, with the user data.
\<close>

definition event_calls :: "('f option \<times> u64) \<times> i32 \<Rightarrow> 'f calls" where
  "event_calls c = (case c of ((Some f, u), change) \<Rightarrow> [(f, u, as_usize change)] | ((None, u), change) \<Rightarrow> [])"

definition rmw_event_set_callback ::
    "rmw_event option \<Rightarrow> 'f option \<Rightarrow> u64 \<Rightarrow> ('f option \<times> u64) EventsManager \<Rightarrow>
     i32 \<times> 'f calls \<times> ('f option \<times> u64) EventsManager" where
  "rmw_event_set_callback event callback user_data mgr = (case event of
       None \<Rightarrow> (RMW_RET_INVALID_ARGUMENT, [], mgr)
     | Some ev \<Rightarrow> (case ev_data ev of
         None \<Rightarrow> (RMW_RET_INVALID_ARGUMENT, [], mgr)
       | Some (h, _) \<Rightarrow> (case handle_set_callback h (callback, user_data) mgr of (calls, mgr') \<Rightarrow>
           (RMW_RET_OK, concat (map event_calls calls), mgr'))))"

text \<open>
  C24.  No event is the one that was asked for: whenever a number is accepted as that of an event, the
  bindings give this event the number before, and the number itself to another event or to none.
\<close>

theorem event_numbers_shifted:
  assumes "rmw_event_type_to_zenoh_event n = Some t"
  shows "bound_event_type (n - 1) = Some t \<and> bound_event_type n \<noteq> Some t"
  using assms by (auto simp: rmw_event_type_to_zenoh_event_def bound_event_type_def split: if_splits)

theorem event_numbers_shifted_witness:
  "rmw_event_type_to_zenoh_event 6 = Some SubscriptionMatched \<and> bound_event_type 5 = Some SubscriptionMatched \<and>
   bound_event_type 6 \<noteq> Some SubscriptionMatched"
  using event_numbers_shifted [of 6 SubscriptionMatched] by (simp add: rmw_event_type_to_zenoh_event_def)

text \<open>A subscription's event for matched publishers, by its number in the bindings, is one for incompatible types.\<close>

lemma matched_event_never_ready:
  assumes "events_wf mgr"
  shows "rmw_subscription_event_init (Some e) (Some (Some m)) 5 =
      (RMW_RET_OK, Some \<lparr>ev_data = Some (RmEventHandle SubscriptionIncompatibleType, m), ev_type = 5\<rparr>) \<and>
    is_ready (RmEventHandle SubscriptionIncompatibleType)
        (snd (update_event_status SubscriptionMatched change mgr)) =
      is_ready (RmEventHandle SubscriptionIncompatibleType) mgr"
  using assms
  by (simp add: rmw_subscription_event_init_def event_init_def rmw_event_type_to_zenoh_event_def is_ready_def
    update_event_status_def update_event_status_with_policy_def Let_def)

section \<open>The objects of a process\<close>

record ('i, 'b, 'c, 'f) rmw_heap =
  hp_subscriptions :: "nat \<rightharpoonup> ('i, 'b, 'c, 'f) SubscriptionImpl"
  hp_guard_conditions :: "nat \<rightharpoonup> GuardConditionImpl"
  hp_services :: "nat \<rightharpoonup> ('i, 'f) ServiceImpl"
  hp_clients :: "nat \<rightharpoonup> ('i, 'f) ClientImpl"
  hp_events :: "nat \<rightharpoonup> rmw_event"
  hp_managers :: "nat \<rightharpoonup> 'c EventsManager"

text \<open>Every pointer that is used points to an object; this is the caller's duty.\<close>

definition sub_ready :: "('i, 'b, 'c, 'f) rmw_heap \<Rightarrow> nat \<Rightarrow> bool" where
  "sub_ready hp p = (case hp_subscriptions hp p of Some s \<Rightarrow> si_is_ready s | None \<Rightarrow> False)"

definition guard_ready :: "('i, 'b, 'c, 'f) rmw_heap \<Rightarrow> nat \<Rightarrow> bool" where
  "guard_ready hp p = (case hp_guard_conditions hp p of Some g \<Rightarrow> gd_is_ready g | None \<Rightarrow> False)"

definition service_ready :: "('i, 'b, 'c, 'f) rmw_heap \<Rightarrow> nat \<Rightarrow> bool" where
  "service_ready hp p = (case hp_services hp p of Some s \<Rightarrow> vi_is_ready s | None \<Rightarrow> False)"

definition client_ready :: "('i, 'b, 'c, 'f) rmw_heap \<Rightarrow> nat \<Rightarrow> bool" where
  "client_ready hp p = (case hp_clients hp p of Some c \<Rightarrow> ci_is_ready c | None \<Rightarrow> False)"

definition event_ready :: "('i, 'b, 'c, 'f) rmw_heap \<Rightarrow> nat \<Rightarrow> bool" where
  "event_ready hp p = (case hp_events hp p of
       Some ev \<Rightarrow> (case ev_data ev of
           Some (h, m) \<Rightarrow> (case hp_managers hp m of Some mgr \<Rightarrow> is_ready h mgr | None \<Rightarrow> False)
         | None \<Rightarrow> False)
     | None \<Rightarrow> False)"

section \<open>WaitSetImpl\<close>

record WaitSetImpl =
  ws_subscriptions :: "nat list"
  ws_guard_conditions :: "nat list"
  ws_services :: "nat list"
  ws_clients :: "nat list"
  ws_events :: "nat list"

definition wait_set_new :: WaitSetImpl where
  "wait_set_new = \<lparr>ws_subscriptions = [], ws_guard_conditions = [], ws_services = [], ws_clients = [], ws_events = []\<rparr>"

definition rmw_create_wait_set :: "bool handle \<Rightarrow> WaitSetImpl handle" where
  "rmw_create_wait_set context = (case context of Some (Some _) \<Rightarrow> Some (Some wait_set_new) | _ \<Rightarrow> None)"

definition rmw_destroy_wait_set :: "WaitSetImpl handle \<Rightarrow> i32 \<times> WaitSetImpl handle" where
  "rmw_destroy_wait_set h = (case h of None \<Rightarrow> (RMW_RET_INVALID_ARGUMENT, h) | Some _ \<Rightarrow> (RMW_RET_OK, None))"

definition check_ready :: "WaitSetImpl \<Rightarrow> ('i, 'b, 'c, 'f) rmw_heap \<Rightarrow> bool" where
  "check_ready ws hp \<longleftrightarrow>
     list_ex (sub_ready hp) (ws_subscriptions ws) \<or> list_ex (guard_ready hp) (ws_guard_conditions ws) \<or>
     list_ex (service_ready hp) (ws_services ws) \<or> list_ex (client_ready hp) (ws_clients ws) \<or>
     list_ex (event_ready hp) (ws_events ws)"

text \<open>
  One round of the loop for each time that the condition variable wakes the thread: whether it woke
  because of the timeout, and the objects that it finds.  No result: the thread still waits.
\<close>

fun wait_rounds :: "bool \<Rightarrow> ('h \<Rightarrow> bool) \<Rightarrow> (bool \<times> 'h) list \<Rightarrow> (bool \<times> 'h) option" where
  "wait_rounds limited ready [] = None"
| "wait_rounds limited ready ((timed_out, hp) # wakeups) =
     (if ready hp then Some (True, hp)
      else if limited \<and> timed_out then Some (False, hp)
      else wait_rounds limited ready wakeups)"

text \<open>Adding the two parts of the timeout panics when the sum has more seconds than 64 bits can hold.\<close>

definition ws_wait ::
    "WaitSetImpl \<Rightarrow> rmw_time \<Rightarrow> ('i, 'b, 'c, 'f) rmw_heap \<Rightarrow> (bool \<times> ('i, 'b, 'c, 'f) rmw_heap) list \<Rightarrow>
     ((bool \<times> ('i, 'b, 'c, 'f) rmw_heap) option, unit) result" where
  "ws_wait ws timeout hp wakeups =
     (if rt_sec timeout = 0 \<and> rt_nsec timeout = 0 then Ok (Some (check_ready ws hp, hp))
      else if rt_sec timeout = - 1 then Ok (wait_rounds False (check_ready ws) wakeups)
      else if 2 ^ 64 \<le> unat (rt_sec timeout) + unat (rt_nsec timeout) div 1000000000 then Panic
      else Ok (wait_rounds True (check_ready ws) wakeups))"

section \<open>rmw_wait\<close>

text \<open>An array of pointers; the array itself may be null.\<close>

type_synonym pointers = "nat option list"

record wait_arrays =
  wa_subscriptions :: "pointers option"
  wa_guard_conditions :: "pointers option"
  wa_services :: "pointers option"
  wa_clients :: "pointers option"
  wa_events :: "pointers option"

definition add_pointers :: "pointers option \<Rightarrow> nat list" where
  "add_pointers arr = (case arr of None \<Rightarrow> [] | Some ps \<Rightarrow> List.map_filter (\<lambda>p. p) ps)"

definition fill_wait_set :: "wait_arrays \<Rightarrow> WaitSetImpl" where
  "fill_wait_set a =
     \<lparr>ws_subscriptions = add_pointers (wa_subscriptions a),
      ws_guard_conditions = add_pointers (wa_guard_conditions a),
      ws_services = add_pointers (wa_services a),
      ws_clients = add_pointers (wa_clients a),
      ws_events = add_pointers (wa_events a)\<rparr>"

definition null_unready :: "(nat \<Rightarrow> bool) \<Rightarrow> pointers \<Rightarrow> pointers" where
  "null_unready ready = map (\<lambda>p. case p of None \<Rightarrow> None | Some a \<Rightarrow> if ready a then Some a else None)"

text \<open>A guard condition that is ready is reset.\<close>

fun null_guards :: "pointers \<Rightarrow> ('i, 'b, 'c, 'f) rmw_heap \<Rightarrow> pointers \<times> ('i, 'b, 'c, 'f) rmw_heap" where
  "null_guards [] hp = ([], hp)"
| "null_guards (None # ps) hp = (case null_guards ps hp of (ps', hp') \<Rightarrow> (None # ps', hp'))"
| "null_guards (Some a # ps) hp =
     (if \<not> guard_ready hp a then (case null_guards ps hp of (ps', hp') \<Rightarrow> (None # ps', hp'))
      else (case null_guards ps (hp\<lparr>hp_guard_conditions :=
               (hp_guard_conditions hp)(a := map_option gd_reset (hp_guard_conditions hp a))\<rparr>)
            of (ps', hp') \<Rightarrow> (Some a # ps', hp')))"

definition report_ready ::
    "wait_arrays \<Rightarrow> ('i, 'b, 'c, 'f) rmw_heap \<Rightarrow> wait_arrays \<times> ('i, 'b, 'c, 'f) rmw_heap" where
  "report_ready a hp =
     (let subs = map_option (null_unready (sub_ready hp)) (wa_subscriptions a);
          services = map_option (null_unready (service_ready hp)) (wa_services a);
          clients = map_option (null_unready (client_ready hp)) (wa_clients a);
          (guards, hp') = (case wa_guard_conditions a of
               None \<Rightarrow> (None, hp)
             | Some ps \<Rightarrow> (case null_guards ps hp of (ps', hp1) \<Rightarrow> (Some ps', hp1)));
          events = map_option (null_unready (event_ready hp')) (wa_events a)
      in (\<lparr>wa_subscriptions = subs, wa_guard_conditions = guards, wa_services = services,
           wa_clients = clients, wa_events = events\<rparr>, hp'))"

text \<open>
  No timeout is an infinite one.  Nothing takes data between the wait and the report.  The wait set
  keeps its vectors for the next call, which clears them.
\<close>

definition rmw_wait ::
    "wait_arrays \<Rightarrow> WaitSetImpl handle \<Rightarrow> rmw_time option \<Rightarrow> ('i, 'b, 'c, 'f) rmw_heap \<Rightarrow>
     (bool \<times> ('i, 'b, 'c, 'f) rmw_heap) list \<Rightarrow>
     ((i32 \<times> wait_arrays \<times> WaitSetImpl handle \<times> ('i, 'b, 'c, 'f) rmw_heap) option, unit) result" where
  "rmw_wait arrays wait_set wait_timeout hp wakeups = (case wait_set of
       Some (Some _) \<Rightarrow>
         (let ws = fill_wait_set arrays;
              timeout = unwrap_or wait_timeout \<lparr>rt_sec = - 1, rt_nsec = 0\<rparr>
          in map_ok (map_option (\<lambda>(ready, hp1).
               if ready
               then (case report_ready arrays hp1 of (arrays', hp2) \<Rightarrow> (RMW_RET_OK, arrays', Some (Some ws), hp2))
               else (RMW_RET_TIMEOUT, arrays, Some (Some ws), hp1)))
             (ws_wait ws timeout hp wakeups))
     | _ \<Rightarrow> Ok (Some (RMW_RET_INVALID_ARGUMENT, arrays, wait_set, hp)))"

section \<open>What a wait reports\<close>

text \<open>
  Of an array of pointers exactly those are left that were there and point to something ready, each at
  its place.
\<close>

definition reports :: "(nat \<Rightarrow> bool) \<Rightarrow> pointers option \<Rightarrow> pointers option \<Rightarrow> bool" where
  "reports ready arr arr' \<longleftrightarrow> (case (arr, arr') of
       (None, None) \<Rightarrow> True
     | (Some ps, Some ps') \<Rightarrow> length ps' = length ps \<and>
         (\<forall>i < length ps. \<forall>a. ps' ! i = Some a \<longleftrightarrow> ps ! i = Some a \<and> ready a)
     | _ \<Rightarrow> False)"

lemma null_unready_nth:
  "i < length ps \<Longrightarrow> null_unready ready ps ! i = Some a \<longleftrightarrow> ps ! i = Some a \<and> ready a"
  by (auto simp: null_unready_def split: option.splits)

lemma reports_null_unready: "reports ready arr (map_option (null_unready ready) arr)"
  by (cases arr) (auto simp: reports_def null_unready_nth, simp add: null_unready_def)

lemma set_add_pointers: "p \<in> set (add_pointers arr) \<longleftrightarrow> (\<exists>ps. arr = Some ps \<and> Some p \<in> set ps)"
  by (force simp: add_pointers_def List.map_filter_def split: option.splits)

lemma reports_some:
  assumes "reports ready arr arr'" and "p \<in> set (add_pointers arr)" and "ready p"
  shows "p \<in> set (add_pointers arr')"
proof -
  obtain ps where ps: "arr = Some ps" "Some p \<in> set ps" using assms(2) by (auto simp: set_add_pointers)
  then obtain i where i: "i < length ps" "ps ! i = Some p" by (auto simp: in_set_conv_nth)
  with assms(1,3) ps obtain ps' where "arr' = Some ps'" "ps' ! i = Some p" "i < length ps'"
    by (auto simp: reports_def split: option.splits)
  then show ?thesis by (metis set_add_pointers nth_mem)
qed

lemma reports_back:
  assumes "reports ready arr arr'" and "p \<in> set (add_pointers arr')"
  shows "p \<in> set (add_pointers arr) \<and> ready p"
proof -
  obtain ps' where ps': "arr' = Some ps'" "Some p \<in> set ps'" using assms(2) by (auto simp: set_add_pointers)
  then obtain i where i: "i < length ps'" "ps' ! i = Some p" by (auto simp: in_set_conv_nth)
  with assms(1) ps' obtain ps where "arr = Some ps" "ps ! i = Some p" "i < length ps" "ready p"
    by (auto simp: reports_def split: option.splits)
  then show ?thesis by (metis set_add_pointers nth_mem)
qed

definition reset_guards :: "(nat \<Rightarrow> bool) \<Rightarrow> ('i, 'b, 'c, 'f) rmw_heap \<Rightarrow> ('i, 'b, 'c, 'f) rmw_heap" where
  "reset_guards chosen hp = hp\<lparr>hp_guard_conditions := (\<lambda>a.
     if chosen a then map_option gd_reset (hp_guard_conditions hp a) else hp_guard_conditions hp a)\<rparr>"

lemma guard_ready_reset:
  "guard_ready (hp\<lparr>hp_guard_conditions := (hp_guard_conditions hp)(a := x)\<rparr>) b =
     (if b = a then (case x of Some g \<Rightarrow> gd_is_ready g | None \<Rightarrow> False) else guard_ready hp b)"
  by (simp add: guard_ready_def)

lemma reset_guards_insert:
  "\<not> P a \<Longrightarrow> reset_guards P (hp\<lparr>hp_guard_conditions :=
      (hp_guard_conditions hp)(a := map_option gd_reset (hp_guard_conditions hp a))\<rparr>) =
    reset_guards (\<lambda>b. b = a \<or> P b) hp"
  by (simp add: reset_guards_def) (rule arg_cong [where f = "\<lambda>g. hp\<lparr>hp_guard_conditions := g\<rparr>"], auto simp: fun_eq_iff)

lemma null_guards_distinct:
  assumes "distinct (add_pointers (Some ps))"
  shows "null_guards ps hp = (null_unready (guard_ready hp) ps,
    reset_guards (\<lambda>a. a \<in> set (add_pointers (Some ps)) \<and> guard_ready hp a) hp)"
  using assms
proof (induction ps hp rule: null_guards.induct)
  case (1 hp)
  then show ?case by (simp add: null_unready_def reset_guards_def add_pointers_def List.map_filter_def)
next
  case (2 ps hp)
  then show ?case by (simp add: null_unready_def add_pointers_def List.map_filter_simps)
next
  case (3 a ps hp)
  have d: "distinct (add_pointers (Some ps))" "a \<notin> set (add_pointers (Some ps))"
    using 3(3) by (simp_all add: add_pointers_def List.map_filter_simps)
  have s: "set (add_pointers (Some (Some a # ps))) = insert a (set (add_pointers (Some ps)))"
    by (simp add: add_pointers_def List.map_filter_simps)
  show ?case
  proof (cases "guard_ready hp a")
    case False
    with 3(1) d have "null_guards (Some a # ps) hp = (None # null_unready (guard_ready hp) ps,
        reset_guards (\<lambda>b. b \<in> set (add_pointers (Some ps)) \<and> guard_ready hp b) hp)" by simp
    moreover have "(\<lambda>b. b \<in> set (add_pointers (Some (Some a # ps))) \<and> guard_ready hp b) =
        (\<lambda>b. b \<in> set (add_pointers (Some ps)) \<and> guard_ready hp b)"
      using False by (auto simp: s)
    ultimately show ?thesis using False by (simp add: null_unready_def)
  next
    case True
    let ?hp = "hp\<lparr>hp_guard_conditions :=
      (hp_guard_conditions hp)(a := map_option gd_reset (hp_guard_conditions hp a))\<rparr>"
    have r: "guard_ready ?hp b = guard_ready hp b" if "b \<in> set (add_pointers (Some ps))" for b
      using that d(2) by (auto simp: guard_ready_reset)
    then have n: "null_unready (guard_ready ?hp) ps = null_unready (guard_ready hp) ps"
      by (auto simp: null_unready_def set_add_pointers split: option.splits)
    have "reset_guards (\<lambda>b. b \<in> set (add_pointers (Some ps)) \<and> guard_ready ?hp b) ?hp =
        reset_guards (\<lambda>b. b \<in> set (add_pointers (Some ps)) \<and> guard_ready hp b) ?hp"
      using r by (metis (no_types, lifting))
    also have "\<dots> = reset_guards (\<lambda>b. b = a \<or> b \<in> set (add_pointers (Some ps)) \<and> guard_ready hp b) hp"
      using d(2) by (intro reset_guards_insert) simp
    also have "(\<lambda>b. b = a \<or> b \<in> set (add_pointers (Some ps)) \<and> guard_ready hp b) =
        (\<lambda>b. b \<in> set (add_pointers (Some (Some a # ps))) \<and> guard_ready hp b)"
      using True by (auto simp: s)
    finally have "reset_guards (\<lambda>b. b \<in> set (add_pointers (Some ps)) \<and> guard_ready ?hp b) ?hp =
        reset_guards (\<lambda>b. b \<in> set (add_pointers (Some (Some a # ps))) \<and> guard_ready hp b) hp" .
    with 3(2) [OF _ d(1)] True n show ?thesis by (simp add: null_unready_def)
  qed
qed

lemma event_ready_reset [simp]: "event_ready (reset_guards chosen hp) = event_ready hp"
  by (auto simp: event_ready_def reset_guards_def fun_eq_iff split: option.splits)

lemma report_ready_eq:
  assumes "distinct (add_pointers (wa_guard_conditions a))"
  shows "report_ready a hp =
    (\<lparr>wa_subscriptions = map_option (null_unready (sub_ready hp)) (wa_subscriptions a),
      wa_guard_conditions = map_option (null_unready (guard_ready hp)) (wa_guard_conditions a),
      wa_services = map_option (null_unready (service_ready hp)) (wa_services a),
      wa_clients = map_option (null_unready (client_ready hp)) (wa_clients a),
      wa_events = map_option (null_unready (event_ready hp)) (wa_events a)\<rparr>,
     reset_guards (\<lambda>g. g \<in> set (add_pointers (wa_guard_conditions a)) \<and> guard_ready hp g) hp)"
proof (cases "wa_guard_conditions a")
  case None
  then show ?thesis by (simp add: report_ready_def add_pointers_def reset_guards_def)
next
  case (Some ps)
  with null_guards_distinct [of ps hp] assms show ?thesis by (simp add: report_ready_def)
qed

lemma wait_rounds_found:
  "wait_rounds limited ready wakeups = Some (b, hp) \<Longrightarrow> hp \<in> snd ` set wakeups \<and> (b \<longleftrightarrow> ready hp)"
  by (induction limited ready wakeups rule: wait_rounds.induct) (auto split: if_splits)

lemma ws_wait_found:
  "ws_wait ws t hp wakeups = Ok (Some (b, hp1)) \<Longrightarrow> (hp1 = hp \<or> hp1 \<in> snd ` set wakeups) \<and> (b \<longleftrightarrow> check_ready ws hp1)"
  by (auto simp: ws_wait_def dest!: wait_rounds_found split: if_splits)

lemma check_ready_iff:
  "check_ready (fill_wait_set a) hp \<longleftrightarrow>
     (\<exists>p. p \<in> set (add_pointers (wa_subscriptions a)) \<and> sub_ready hp p) \<or>
     (\<exists>p. p \<in> set (add_pointers (wa_guard_conditions a)) \<and> guard_ready hp p) \<or>
     (\<exists>p. p \<in> set (add_pointers (wa_services a)) \<and> service_ready hp p) \<or>
     (\<exists>p. p \<in> set (add_pointers (wa_clients a)) \<and> client_ready hp p) \<or>
     (\<exists>p. p \<in> set (add_pointers (wa_events a)) \<and> event_ready hp p)"
  by (auto simp: check_ready_def fill_wait_set_def list_ex_iff)

text \<open>
  C19.  What \<^verbatim>\<open>rmw_wait\<close> reports is what is ready.  When it returns, there is a state, at the call or at
  one of the times the thread woke, such that: with nothing ready in it the result is a timeout and
  the arrays are as they were; otherwise the result is success, every array keeps the pointers to
  ready objects at their places and has null everywhere else, at least one pointer is left, and the
  guard conditions that are left have been reset, nothing else being changed.
\<close>

theorem rmw_wait_reports_ready:
  assumes "rmw_wait a (Some (Some ws)) timeout hp wakeups = Ok (Some (r, a', ws', hp'))"
    and "distinct (add_pointers (wa_guard_conditions a))"
  shows "\<exists>hp1. (hp1 = hp \<or> hp1 \<in> snd ` set wakeups) \<and>
    (if check_ready (fill_wait_set a) hp1
     then r = RMW_RET_OK \<and>
       reports (sub_ready hp1) (wa_subscriptions a) (wa_subscriptions a') \<and>
       reports (guard_ready hp1) (wa_guard_conditions a) (wa_guard_conditions a') \<and>
       reports (service_ready hp1) (wa_services a) (wa_services a') \<and>
       reports (client_ready hp1) (wa_clients a) (wa_clients a') \<and>
       reports (event_ready hp1) (wa_events a) (wa_events a') \<and>
       add_pointers (wa_subscriptions a') @ add_pointers (wa_guard_conditions a') @
         add_pointers (wa_services a') @ add_pointers (wa_clients a') @ add_pointers (wa_events a') \<noteq> [] \<and>
       hp' = reset_guards (\<lambda>g. g \<in> set (add_pointers (wa_guard_conditions a'))) hp1
     else r = RMW_RET_TIMEOUT \<and> a' = a \<and> hp' = hp1)"
proof -
  from assms(1) obtain b hp1 where w: "ws_wait (fill_wait_set a) (unwrap_or timeout \<lparr>rt_sec = - 1, rt_nsec = 0\<rparr>) hp wakeups =
      Ok (Some (b, hp1))"
    and r: "(r, a', hp') = (if b then (case report_ready a hp1 of (a2, hp2) \<Rightarrow> (RMW_RET_OK, a2, hp2)) else (RMW_RET_TIMEOUT, a, hp1))"
    by (cases "ws_wait (fill_wait_set a) (unwrap_or timeout \<lparr>rt_sec = - 1, rt_nsec = 0\<rparr>) hp wakeups")
      (auto simp: rmw_wait_def Let_def split: if_splits prod.splits)
  note found = ws_wait_found [OF w]
  show ?thesis
  proof (cases "check_ready (fill_wait_set a) hp1")
    case False
    with found r show ?thesis by (intro exI [of _ hp1]) simp
  next
    case True
    with found r report_ready_eq [OF assms(2), of hp1] have e: "r = RMW_RET_OK"
      "a' = fst (report_ready a hp1)" "hp' = snd (report_ready a hp1)" by (auto split: prod.splits)
    note rep = reports_null_unready
    have R: "reports (sub_ready hp1) (wa_subscriptions a) (wa_subscriptions a')"
      "reports (guard_ready hp1) (wa_guard_conditions a) (wa_guard_conditions a')"
      "reports (service_ready hp1) (wa_services a) (wa_services a')"
      "reports (client_ready hp1) (wa_clients a) (wa_clients a')"
      "reports (event_ready hp1) (wa_events a) (wa_events a')"
      unfolding e(2) report_ready_eq [OF assms(2)] by (simp_all add: rep)
    have left: "add_pointers (wa_subscriptions a') @ add_pointers (wa_guard_conditions a') @
        add_pointers (wa_services a') @ add_pointers (wa_clients a') @ add_pointers (wa_events a') \<noteq> []"
    proof -
      have some: "add_pointers arr' \<noteq> []" if "reports rd arr arr'" "p \<in> set (add_pointers arr)" "rd p" for rd p arr arr'
        using reports_some [OF that] by auto
      from True show ?thesis unfolding check_ready_iff
        by (elim disjE exE conjE) (use R [THEN some] in simp_all)
    qed
    have "(\<lambda>g. g \<in> set (add_pointers (wa_guard_conditions a)) \<and> guard_ready hp1 g) =
        (\<lambda>g. g \<in> set (add_pointers (wa_guard_conditions a')))"
      using reports_back [OF R(2)] reports_some [OF R(2)] by blast
    then have "hp' = reset_guards (\<lambda>g. g \<in> set (add_pointers (wa_guard_conditions a'))) hp1"
      unfolding e(3) report_ready_eq [OF assms(2)] by simp
    with True found e(1) R left show ?thesis by (intro exI [of _ hp1]) simp
  qed
qed

definition sample_heap :: "(unit, unit, unit, unit) rmw_heap" where
  "sample_heap = \<lparr>hp_subscriptions = Map.empty,
     hp_guard_conditions = [1 \<mapsto> \<lparr>gd_notifier = True, gd_triggered = True\<rparr>, 2 \<mapsto> \<lparr>gd_notifier = True, gd_triggered = False\<rparr>],
     hp_services = Map.empty, hp_clients = Map.empty, hp_events = Map.empty, hp_managers = Map.empty\<rparr>"

definition sample_arrays :: wait_arrays where
  "sample_arrays = \<lparr>wa_subscriptions = None, wa_guard_conditions = Some [Some 1, None, Some 2],
     wa_services = None, wa_clients = None, wa_events = None\<rparr>"

lemma sample_wait: "rmw_wait sample_arrays (Some (Some wait_set_new)) None sample_heap [(False, sample_heap)] =
   Ok (Some (RMW_RET_OK, sample_arrays\<lparr>wa_guard_conditions := Some [Some 1, None, None]\<rparr>,
     Some (Some (fill_wait_set sample_arrays)), reset_guards (\<lambda>g. g = 1) sample_heap))"
proof -
  have "check_ready (fill_wait_set sample_arrays) sample_heap"
    by (simp add: check_ready_def fill_wait_set_def sample_arrays_def add_pointers_def List.map_filter_simps
      guard_ready_def sample_heap_def gd_is_ready_def)
  moreover have "report_ready sample_arrays sample_heap =
      (sample_arrays\<lparr>wa_guard_conditions := Some [Some 1, None, None]\<rparr>, reset_guards (\<lambda>g. g = 1) sample_heap)"
    by (simp add: report_ready_def sample_arrays_def guard_ready_def sample_heap_def gd_is_ready_def reset_guards_def
      gd_reset_def fun_eq_iff)
  ultimately show ?thesis by (simp add: rmw_wait_def ws_wait_def)
qed

theorem rmw_wait_reports_ready_witness:
  "reports (guard_ready sample_heap) (Some [Some 1, None, Some 2]) (Some [Some 1, None, None])"
proof -
  have "check_ready (fill_wait_set sample_arrays) sample_heap"
    by (simp add: check_ready_def fill_wait_set_def sample_arrays_def add_pointers_def List.map_filter_simps
      guard_ready_def sample_heap_def gd_is_ready_def)
  moreover have "distinct (add_pointers (wa_guard_conditions sample_arrays))"
    by (simp add: sample_arrays_def add_pointers_def List.map_filter_simps)
  ultimately show ?thesis using rmw_wait_reports_ready [OF sample_wait] by (simp add: sample_arrays_def)
qed

section \<open>When a wait returns\<close>

lemma wait_rounds_None_iff:
  "wait_rounds limited ready wakeups = None \<longleftrightarrow>
     list_all (\<lambda>(timed_out, h). \<not> ready h \<and> \<not> (limited \<and> timed_out)) wakeups"
  by (induction limited ready wakeups rule: wait_rounds.induct) auto

lemma map_ok_None_iff: "map_ok (map_option f) r = Ok None \<longleftrightarrow> r = Ok None"
  by (cases r) simp_all

text \<open>The timeouts by what the wait does with them; no timeout is an infinite one.\<close>

definition infinite_timeout :: "rmw_time option \<Rightarrow> bool" where
  "infinite_timeout t \<longleftrightarrow> (case t of None \<Rightarrow> True | Some t \<Rightarrow> rt_sec t = - 1)"

definition zero_timeout :: "rmw_time option \<Rightarrow> bool" where
  "zero_timeout t \<longleftrightarrow> (case t of None \<Rightarrow> False | Some t \<Rightarrow> rt_sec t = 0 \<and> rt_nsec t = 0)"

definition overflowing_timeout :: "rmw_time option \<Rightarrow> bool" where
  "overflowing_timeout t \<longleftrightarrow> (case t of None \<Rightarrow> False
     | Some t \<Rightarrow> rt_sec t \<noteq> - 1 \<and> 2 ^ 64 \<le> unat (rt_sec t) + unat (rt_nsec t) div 1000000000)"

lemmas timeout_defs = infinite_timeout_def zero_timeout_def overflowing_timeout_def

text \<open>
  C22.  When \<^verbatim>\<open>rmw_wait\<close> returns.  With a zero timeout it returns at once.  With any other it still waits
  exactly as long as no time that the condition variable woke it found something ready, or, with a
  finite timeout, came from the timeout: what was ready when the call was made never ends the wait,
  and a timeout whose sum overflows panics.
\<close>

theorem wait_needs_later_notification:
  "(rmw_wait a (Some (Some ws)) timeout hp wakeups = Ok None \<longleftrightarrow>
     \<not> zero_timeout timeout \<and> \<not> overflowing_timeout timeout \<and>
     list_all (\<lambda>(timed_out, h). \<not> check_ready (fill_wait_set a) h \<and>
       (infinite_timeout timeout \<or> \<not> timed_out)) wakeups) \<and>
   (rmw_wait a (Some (Some ws)) timeout hp wakeups = Panic \<longleftrightarrow>
     \<not> zero_timeout timeout \<and> overflowing_timeout timeout) \<and>
   (\<not> zero_timeout timeout \<longrightarrow>
     rmw_wait a (Some (Some ws)) timeout hp wakeups = rmw_wait a (Some (Some ws)) timeout hp' wakeups)"
proof (cases timeout)
  case None
  then show ?thesis
    by (simp add: rmw_wait_def Let_def ws_wait_def wait_rounds_None_iff timeout_defs list_all_iff case_prod_beta)
next
  case (Some t)
  then show ?thesis
    by (auto simp add: rmw_wait_def Let_def ws_wait_def wait_rounds_None_iff timeout_defs list_all_iff)
qed

theorem wait_needs_later_notification_witness:
  "check_ready (fill_wait_set sample_arrays) sample_heap \<and>
   rmw_wait sample_arrays (Some (Some wait_set_new)) None sample_heap [] = Ok None \<and>
   rmw_wait sample_arrays (Some (Some wait_set_new)) None sample_heap
       [(False, sample_heap\<lparr>hp_guard_conditions := Map.empty\<rparr>)] = Ok None \<and>
   rmw_wait sample_arrays (Some (Some wait_set_new)) None sample_heap [(False, sample_heap)] \<noteq> Ok None"
proof -
  have ready: "check_ready (fill_wait_set sample_arrays) sample_heap"
    "\<not> check_ready (fill_wait_set sample_arrays) (sample_heap\<lparr>hp_guard_conditions := Map.empty\<rparr>)"
    by (simp_all add: check_ready_def fill_wait_set_def sample_arrays_def add_pointers_def List.map_filter_simps
      guard_ready_def sample_heap_def gd_is_ready_def)
  then show ?thesis
    using wait_needs_later_notification [of sample_arrays wait_set_new None sample_heap "[]"]
      wait_needs_later_notification [of sample_arrays wait_set_new None sample_heap "[(False, sample_heap)]"]
      wait_needs_later_notification [of sample_arrays wait_set_new None sample_heap
        "[(False, sample_heap\<lparr>hp_guard_conditions := Map.empty\<rparr>)]"]
    by (simp add: timeout_defs)
qed

end
