(* ===== verification/Rmw_Properties.thy ===== *)
theory Rmw_Properties
  imports Rmw_Wait
begin

text \<open>
  Messages and service calls through the ROS middleware interface, from one C function to the other,
  and the accounting of the callbacks for new data.
\<close>

section \<open>Type support\<close>

text \<open>
  For the messages that satisfy \<open>ok\<close>: serializing into a buffer that is large enough succeeds and
  leaves its length, and what was written is read back into any message, whatever follows.
\<close>

locale type_support_laws =
  fixes TS :: "'m type_support" and ok :: "'m \<Rightarrow> bool"
  assumes serializes: "ok m \<Longrightarrow> ts_serialized_size TS m \<le> length buf \<Longrightarrow>
      \<exists>out. ts_serialize TS m buf = (True, out) \<and> length out = length buf"
    and reads: "ok m \<Longrightarrow> ts_serialize TS m buf = (True, out) \<Longrightarrow> ts_deserialize TS (out @ rest) old = (True, m)"
begin

lemma message_bytes:
  assumes "ok m"
  shows "length (ts_serialize_message TS m) = max (ts_serialized_size TS m + 256) 512"
    and "ts_deserialize TS (ts_serialize_message TS m @ rest) old = (True, m)"
proof -
  let ?n = "max (ts_serialized_size TS m + 256) 512"
  obtain out where out: "ts_serialize TS m (replicate ?n 0) = (True, out)" "length out = ?n"
    using serializes [OF assms, of "replicate ?n 0"] by (auto simp: le_max_iff_disj)
  then have "ts_serialize_message TS m = out" by (simp add: ts_serialize_message_def)
  with out reads [OF assms out(1)] show "length (ts_serialize_message TS m) = ?n"
    "ts_deserialize TS (ts_serialize_message TS m @ rest) old = (True, m)" by simp_all
qed

lemma message_bytes_exact: "ok m \<Longrightarrow> ts_deserialize TS (ts_serialize_message TS m) old = (True, m)"
  using message_bytes(2) [of m "[]"] by simp

end

lemma vec_of_data [simp]: "vec_data (vec_of bs) = bs"
  by (simp add: vec_of_def vec_new_def)

text \<open>The serializer of the interface is one of the serializers that publishers rely on.\<close>

lemma ros_serdes:
  assumes "type_support_laws TS ok" and "shm_env_laws Z E"
  shows "serdes Z E (RosSerdes E TS) (\<lambda>bs. Ok (snd (ts_deserialize TS bs old)) :: ('m, unit) result) ok
    (ts_serialize_message (TS :: 'm type_support)) (\<lambda>_. 0)"
proof (intro serdes.intro serdes_axioms.intro)
  show "shm_env_laws Z E" by (rule assms(2))
next
  fix x n assume "ok x"
  show "zs_to_shm (RosSerdes E TS) x n E = Err AllocationFailed \<or>
    (if n < 0 then zs_to_shm (RosSerdes E TS) x n E = Panic
     else \<exists>z rest. zs_to_shm (RosSerdes E TS) x n E = Ok (z, length (ts_serialize_message TS x)) \<and>
       zb_contiguous Z z = ts_serialize_message TS x @ rest)"
    using shm_env_laws.alloc_length [OF assms(2), of "length (ts_serialize_message TS x)"]
    by (cases "se_alloc E (length (ts_serialize_message TS x))")
      (auto simp: RosSerdes_def ros_to_shm_def Let_def shm_env_laws.from_shm_bytes [OF assms(2)])
qed (use assms in \<open>simp_all add: RosSerdes_def ros_to_zbuf_def ros_to_buf_def shm_env_laws.from_vec_bytes [OF assms(2)]
  type_support_laws.message_bytes\<close>)

text \<open>A message with one number.\<close>

definition sample_ts :: "u32 type_support" where
  "sample_ts =
     \<lparr>ts_serialized_size = (\<lambda>_. 8),
      ts_serialize = (\<lambda>m buf. if length buf < 8 then (False, buf) else (True, [0, 1, 0, 0] @ le_bytes 4 m @ drop 8 buf)),
      ts_deserialize = (\<lambda>bs old. if length bs < 8 then (False, old) else (True, of_le_bytes (take 4 (drop 4 bs))))\<rparr>"

interpretation sts: type_support_laws sample_ts "\<lambda>_. True"
  by unfold_locales (auto simp: sample_ts_def of_le_bytes_le_bytes split: if_splits)

interpretation sros: serdes list_zbuf sample_shm "RosSerdes sample_shm sample_ts"
  "\<lambda>bs. (Ok (snd (ts_deserialize sample_ts bs old)) :: (u32, unit) result)" "\<lambda>_. True" "ts_serialize_message sample_ts" "\<lambda>_. 0" for old
  by (rule ros_serdes [OF sts.type_support_laws_axioms ssh.shm_env_laws_axioms])

section \<open>Messages\<close>

abbreviation rmw_publish_all ::
    "'b zbuf_ops \<Rightarrow> 'b shm_env \<Rightarrow> 'm type_support \<Rightarrow> ('m \<Rightarrow> nat) \<Rightarrow> nat option \<Rightarrow> 'm list \<Rightarrow>
     (('i, 'b, 'c) PublisherImpl handle, (i32 \<times> 'b put option) list, unit) exec" where
  "rmw_publish_all Zb E TS estimate now msgs \<equiv> collect (map (\<lambda>m h. rmw_publish Zb E TS estimate now h (Some m)) msgs)"

abbreviation si_deliver_all ::
    "'b put list \<Rightarrow> ('i, 'b, 'c, 'f) SubscriptionImpl \<Rightarrow> ('i, 'b, 'c, 'f) SubscriptionImpl" where
  "si_deliver_all \<equiv> fold (\<lambda>x s. snd (si_deliver x s))"

text \<open>The payload of a sample holds a message.\<close>

definition holds :: "'b zbuf_ops \<Rightarrow> 'm type_support \<Rightarrow> 'b put \<Rightarrow> 'm \<Rightarrow> bool" where
  "holds Zb TS sample m \<longleftrightarrow> (\<exists>rest. zb_contiguous Zb (put_payload sample) = ts_serialize_message TS m @ rest)"

context type_support_laws
begin

lemma rmw_publish_ok:
  assumes "shm_env_laws Zb E" and "ok m" and "shm_adequate E (zp_shm_config (pi_inner p)) (estimate m) 0"
  shows "\<exists>sample p'. rmw_publish Zb E TS estimate now (Some (Some p)) (Some m) =
      (Ok (RMW_RET_OK, Some sample), Some (Some p')) \<and> holds Zb TS sample m \<and>
      zp_shm_config (pi_inner p') = zp_shm_config (pi_inner p)"
proof -
  have S: "serdes Zb E (RosSerdes E TS) (\<lambda>bs. Ok (snd (ts_deserialize TS bs m)) :: ('m, unit) result) ok
      (ts_serialize_message TS) (\<lambda>_. 0)"
    by (rule ros_serdes [OF type_support_laws_axioms assms(1)])
  obtain z rest where z: "publish_payload Zb (RosSerdes E TS) estimate (zp_shm_config (pi_inner p)) m =
      Ok (z, length (ts_serialize_message TS m))" "zb_contiguous Zb z = ts_serialize_message TS m @ rest"
    using serdes.publish_payload_ok [OF S assms(2), of "zp_shm_config (pi_inner p)" estimate] assms(3) by blast
  obtain att p' where "put_builder now z (pi_inner p) = (Ok \<lparr>put_key_expr = zp_key_expr (pi_inner p), put_payload = z, put_attachment = att\<rparr>, p')"
    "p' = (pi_inner p)\<lparr>zp_sn := zp_sn (pi_inner p) + (if zp_with_attachment (pi_inner p) then 1 else 0)\<rparr>"
    using put_builder_spec [of now z "pi_inner p"] by blast
  with z show ?thesis by (auto simp: rmw_publish_def publish_def holds_def)
qed

lemma rmw_publish_all_ok:
  assumes "shm_env_laws Zb E"
    and "list_all (\<lambda>m. ok m \<and> shm_adequate E (zp_shm_config (pi_inner p)) (estimate m) 0) msgs"
  shows "\<exists>samples h. rmw_publish_all Zb E TS estimate now msgs (Some (Some p)) =
      (Ok (map (\<lambda>x. (RMW_RET_OK, Some x)) samples), h) \<and> list_all2 (holds Zb TS) samples msgs"
  using assms(2)
proof (induction msgs arbitrary: p)
  case Nil
  then show ?case by (simp add: ret_def)
next
  case (Cons m msgs)
  then obtain x p1 where x: "rmw_publish Zb E TS estimate now (Some (Some p)) (Some m) = (Ok (RMW_RET_OK, Some x), Some (Some p1))"
    "holds Zb TS x m" "zp_shm_config (pi_inner p1) = zp_shm_config (pi_inner p)"
    using rmw_publish_ok [OF assms(1), of m p estimate now] by auto
  with Cons.prems have "list_all (\<lambda>m. ok m \<and> shm_adequate E (zp_shm_config (pi_inner p1)) (estimate m) 0) msgs" by simp
  from Cons.IH [OF this] obtain xs h where "rmw_publish_all Zb E TS estimate now msgs (Some (Some p1)) =
      (Ok (map (\<lambda>x. (RMW_RET_OK, Some x)) xs), h)" "list_all2 (holds Zb TS) xs msgs" by blast
  with x show ?case by (intro exI [of _ "x # xs"]) (auto simp: andthen_def ret_def)
qed

lemma take_loop:
  assumes "zs_queue (si_inner s) = Some q" and "list_all2 (holds Zb TS) (q_data q) ms" and "list_all ok ms"
    and "i + n \<le> length msgs"
  shows "\<exists>D infos' s'. take_sequence_loop Zb TS now n i msgs infos s = (i + min n (length ms), D, infos', s') \<and>
    length D = length msgs \<and> take i D = take i msgs \<and> take (min n (length ms)) (drop i D) = take n ms"
  using assms
proof (induction n arbitrary: i msgs infos s q ms)
  case 0
  then show ?case by simp
next
  case (Suc n)
  show ?case
  proof (cases ms)
    case Nil
    with Suc.prems(1,2) have "si_take_with_info Zb TS now (msgs ! i) (Some (infos ! i)) s =
        (Ok (), msgs ! i, Some (infos ! i), False, si_set_queue q s)"
      by (simp add: si_take_with_info_def queue_try_recv_eq)
    with Nil show ?thesis by simp
  next
    case (Cons m ms')
    with Suc.prems(2) obtain x xs where q: "q_data q = x # xs" "holds Zb TS x m" "list_all2 (holds Zb TS) xs ms'"
      by (auto simp: list_all2_Cons2)
    then obtain rest where "zb_contiguous Zb (put_payload x) = ts_serialize_message TS m @ rest"
      by (auto simp: holds_def)
    with message_bytes(2) [of m rest "msgs ! i"] Suc.prems(3) Cons
    have de: "ts_deserialize TS (zb_contiguous Zb (put_payload x)) (msgs ! i) = (True, m)" by simp
    let ?s = "si_set_queue (q\<lparr>q_data := xs\<rparr>) s"
    have one: "si_take_with_info Zb TS now (msgs ! i) (Some (infos ! i)) s =
        (Ok (), m, Some (info_of_sample now x), True, ?s)"
      using Suc.prems(1) q(1) de by (simp add: si_take_with_info_def queue_try_recv_eq)
    have "\<exists>D infos' s'. take_sequence_loop Zb TS now n (i + 1) (msgs[i := m]) (infos[i := info_of_sample now x]) ?s =
        (i + 1 + min n (length ms'), D, infos', s') \<and> length D = length (msgs[i := m]) \<and>
        take (i + 1) D = take (i + 1) (msgs[i := m]) \<and> take (min n (length ms')) (drop (i + 1) D) = take n ms'"
      by (rule Suc.IH [of _ "q\<lparr>q_data := xs\<rparr>"]) (use q(3) Suc.prems(3,4) Cons in \<open>simp_all add: si_set_queue_def\<close>)
    then obtain D infos' s' where D: "take_sequence_loop Zb TS now n (i + 1) (msgs[i := m]) (infos[i := info_of_sample now x]) ?s =
        (i + 1 + min n (length ms'), D, infos', s')" "length D = length msgs" "take (i + 1) D = take (i + 1) (msgs[i := m])"
      "take (min n (length ms')) (drop (i + 1) D) = take n ms'" by auto
    have i: "i < length D" "i < length msgs" using Suc.prems(4) D(2) by simp_all
    have "D ! i = take (i + 1) D ! i" by simp
    also have "\<dots> = m" unfolding D(3) using i(2) by simp
    finally have "drop i D = m # drop (i + 1) D" using i(1) by (simp add: Cons_nth_drop_Suc [symmetric])
    moreover have "take i D = take i msgs"
      using arg_cong [OF D(3), of "take i"] by (simp add: min_def)
    ultimately show ?thesis using D(1,2,4) one Cons by simp
  qed
qed

end

lemma si_deliver_inner: "si_inner (si_deliver_all xs s) = fold sub_deliver xs (si_inner s)"
  by (induction xs arbitrary: s) (simp_all add: si_deliver_def split_beta)

text \<open>
  C20.  Messages pass from \<^verbatim>\<open>rmw_publish\<close> to \<^verbatim>\<open>rmw_take_sequence\<close>: publishing messages that the type
  support can serialize succeeds, through shared memory or not; a subscription with history depth
  \<open>d\<close> to which the samples are delivered hands out the oldest of the last \<open>d\<close> messages in order, as
  many as are asked for and there are, and reports their number.  Every payload has at least 512
  bytes and at least 256 more than its serialized size, as the buffer of the serializer is sent as a whole.
\<close>

theorem rmw_messages_arrive:
  assumes "type_support_laws TS ok" and "shm_env_laws Zb E"
    and "list_all (\<lambda>m. ok m \<and> shm_adequate E (zp_shm_config (pi_inner p)) (estimate m) 0) msgs"
    and "zs_queue (si_inner s) = Some (queue_new d)" and "0 < d"
    and "0 < count" and "count \<le> length (sq_data ms)" and "count \<le> length (sq_data infos)"
  shows "\<exists>samples h D infos' h'.
    rmw_publish_all Zb E TS estimate now msgs (Some (Some p)) = (Ok (map (\<lambda>x. (RMW_RET_OK, Some x)) samples), h) \<and>
    list_all2 (\<lambda>x m. max (ts_serialized_size TS m + 256) 512 \<le> length (zb_contiguous Zb (put_payload x))) samples msgs \<and>
    (let k = min count (min d (length msgs)) in
     rmw_take_sequence Zb TS now' (Some (Some (si_deliver_all samples s))) count (Some ms) (Some infos) (Some t) =
       (RMW_RET_OK, Some \<lparr>sq_data = D, sq_size = k\<rparr>, Some \<lparr>sq_data = infos', sq_size = k\<rparr>, Some k, h') \<and>
     take k D = take count (drop (length msgs - d) msgs))"
proof -
  note bytes = type_support_laws.message_bytes [OF assms(1)]
  obtain samples h where pub: "rmw_publish_all Zb E TS estimate now msgs (Some (Some p)) =
      (Ok (map (\<lambda>x. (RMW_RET_OK, Some x)) samples), h)" "list_all2 (holds Zb TS) samples msgs"
    using type_support_laws.rmw_publish_all_ok [OF assms(1-3)] by blast
  have len: "length samples = length msgs" using pub(2) by (rule list_all2_lengthD)
  obtain q where q: "zs_queue (si_inner (si_deliver_all samples s)) = Some q"
    "q_data q = drop (length msgs - d) samples"
    using deliver_all [OF assms(4), of samples] assms(5) len by (auto simp: queue_new_def si_deliver_inner)
  have ok: "list_all ok msgs" using assms(3) by (auto simp: list_all_iff)
  have "list_all2 (holds Zb TS) (q_data q) (drop (length msgs - d) msgs)"
    unfolding q(2) by (rule list_all2_dropI [OF pub(2)])
  moreover have "list_all ok (drop (length msgs - d) msgs)"
    using ok by (auto simp: list_all_iff dest: in_set_dropD)
  ultimately obtain D infos' s' where D:
    "take_sequence_loop Zb TS now' count 0 (sq_data ms) (sq_data infos) (si_deliver_all samples s) =
      (min count (length (drop (length msgs - d) msgs)), D, infos', s')"
    "take (min count (length (drop (length msgs - d) msgs))) D = take count (drop (length msgs - d) msgs)"
    using type_support_laws.take_loop [OF assms(1) q(1), where ms = "drop (length msgs - d) msgs"
        and i = 0 and n = count and msgs = "sq_data ms" and now = now' and infos = "sq_data infos" and Zb = Zb]
      assms(7) by auto
  have k: "min count (length (drop (length msgs - d) msgs)) = min count (min d (length msgs))" by auto
  have "list_all2 (\<lambda>x m. max (ts_serialized_size TS m + 256) 512 \<le> length (zb_contiguous Zb (put_payload x))) samples msgs"
    using pub(2) ok bytes(1) by (auto simp: list_all2_conv_all_nth holds_def list_all_iff)
  with pub(1) D assms(6-8) show ?thesis
    unfolding k rmw_take_sequence_def Let_def
    by (intro exI [of _ samples] exI [of _ h] exI [of _ D] exI [of _ infos'] exI [of _ "Some (Some s')"]) simp
qed

text \<open>A publisher and a subscription of numbers, the latter with history depth 2.\<close>

definition sample_pi :: "(unit, zslice list, unit) PublisherImpl" where
  "sample_pi = \<lparr>pi_inner = sample_pub 0, pi_topic = ''/chatter'', pi_qos = sample_rmw_qos, pi_entity = zp_entity (sample_pub 0)\<rparr>"

definition sample_si :: "(unit, zslice list, unit, unit) SubscriptionImpl" where
  "sample_si = \<lparr>si_inner = \<lparr>zs_entity = zp_entity (sample_pub 0), zs_queue = Some (queue_new 2), zs_key_expr = ''0/chatter'',
     zs_token = [], zs_events_mgr = events_manager_new [], zs_dyn_schema = None\<rparr>, si_topic = ''/chatter'',
     si_qos = sample_rmw_qos, si_callback = data_callback_new, si_entity = zp_entity (sample_pub 0)\<rparr>"

theorem rmw_messages_arrive_witness:
  "\<exists>samples h D infos' h'.
    rmw_publish_all list_zbuf sample_shm sample_ts (\<lambda>_. 600) None [7, 8, 9] (Some (Some sample_pi)) =
      (Ok (map (\<lambda>x. (RMW_RET_OK, Some x)) samples), h) \<and>
    rmw_take_sequence list_zbuf sample_ts None (Some (Some (si_deliver_all samples sample_si))) 1
        (Some \<lparr>sq_data = [0], sq_size = 0\<rparr>) (Some \<lparr>sq_data = [no_info], sq_size = 0\<rparr>) (Some 0) =
      (RMW_RET_OK, Some \<lparr>sq_data = D, sq_size = 1\<rparr>, Some \<lparr>sq_data = infos', sq_size = 1\<rparr>, Some 1, h') \<and>
    take 1 D = [8]"
  using rmw_messages_arrive [OF sts.type_support_laws_axioms ssh.shm_env_laws_axioms,
    of sample_pi "\<lambda>_. 600" "[7, 8, 9]" sample_si 2 1 "\<lparr>sq_data = [0], sq_size = 0\<rparr>"
    "\<lparr>sq_data = [no_info], sq_size = 0\<rparr>" None None 0]
  by (simp add: sample_pi_def sample_pub_def sample_si_def shm_adequate_def) blast

section \<open>Service calls\<close>

lemma ros_serialize_ok: "ros_serialize TS m = Ok (vec_of (ts_serialize_message TS m))"
  by (simp add: ros_serialize_def ros_to_buf_def vec_of_def vec_clear_def vec_new_def)

definition counters_agree :: "('i, 'f) ClientImpl \<Rightarrow> bool" where
  "counters_agree c \<longleftrightarrow> ci_sequence_counter c = zc_sn (ci_inner c)"

text \<open>
  C21.  A service call keeps its identity through the C functions: while the two counters of a client
  agree, \<^verbatim>\<open>rmw_send_request\<close> returns the number that the request carries, and they agree again; the
  service takes the request with a header that names the client, that number and the time it was sent;
  and the response to that header is a reply to that very query whose attachment names the same
  client and number, and the service then forgets the query.
\<close>

theorem rmw_call_keeps_identity:
  assumes "type_support_laws TQ okQ" and "type_support_laws TR okR" and "att_env_laws A"
    and "okQ x" and "okR y" and "counters_agree c" and "length (zc_gid (ci_inner c)) = 16"
    and "zv_queue (vi_inner v) = Some bq" and "q_data bq = []"
  shows "\<exists>q c' header v1 rep v2.
    rmw_send_request_c A TQ now (Some (Some c)) (Some x) (Some i) =
      (Ok (RMW_RET_OK, Some (ci_sequence_counter c), Some q), Some (Some c')) \<and> counters_agree c' \<and>
    rmw_take_request A TQ now' (Some (Some (snd (vi_deliver q v)))) (Some h) (Some old) (Some t) =
      (RMW_RET_OK, Some header, Some x, Some True, Some (Some v1)) \<and>
    sv_request_id header = \<lparr>ri_writer_guid = zc_gid (ci_inner c), ri_sequence_number = ci_sequence_counter c\<rparr> \<and>
    sv_source_timestamp header = timestamp_of now \<and>
    rmw_send_response A TR now'' (Some (Some v1)) (Some (sv_request_id header)) (Some y) =
      (Ok (RMW_RET_OK, Some rep), Some (Some v2)) \<and>
    rp_query rep = q \<and>
    attachment_try_from A (rp_attachment rep) =
      Some (attachment_new now'' (ci_sequence_counter c) (zc_gid (ci_inner c))) \<and>
    ts_deserialize TR (rp_payload rep) old' = (True, y) \<and>
    zv_map (vi_inner v2) = (zv_map (vi_inner v))(\<lparr>qk_sn = ci_sequence_counter c, qk_gid = zc_gid (ci_inner c)\<rparr> := None)"
proof -
  let ?z = "ci_inner c" and ?key = "\<lparr>qk_sn = ci_sequence_counter c, qk_gid = zc_gid (ci_inner c)\<rparr>"
  let ?att = "attachment_new now (zc_sn ?z) (zc_gid ?z)"
  let ?q = "\<lparr>qu_key_expr = zc_key_expr ?z, qu_payload = Some (ts_serialize_message TQ x),
     qu_attachment = Some (attachment_to_bytes A ?att)\<rparr>"
  have sn: "ci_sequence_counter c = zc_sn ?z" using assms(6) by (simp add: counters_agree_def)
  let ?c' = "c\<lparr>ci_sequence_counter := ci_sequence_counter c + 1, ci_inner := ?z\<lparr>zc_sn := zc_sn ?z + 1\<rparr>\<rparr>"
  have send: "rmw_send_request_c A TQ now (Some (Some c)) (Some x) (Some i) =
      (Ok (RMW_RET_OK, Some (ci_sequence_counter c), Some ?q), Some (Some ?c'))"
    by (simp add: rmw_send_request_c_def ci_send_request_def ci_take_number_def ci_send_numbered_def
      rmw_send_request_def client_attachment_def ros_serialize_ok)
  have agree: "counters_agree ?c'" by (simp add: counters_agree_def sn)
  have att: "query_attachment A ?q = Some ?att"
    using att_env_laws.attachment_read_back [OF assms(3), of ?att] assms(7)
    by (simp add: query_attachment_def attachment_new_def)
  have key: "query_key_from ?att = ?key" and time: "att_source_timestamp ?att = timestamp_of now"
    by (simp_all add: query_key_from_def attachment_new_def timestamp_of_def sn)
  have queue: "zv_queue (vi_inner (snd (vi_deliver ?q v))) = Some (bq\<lparr>q_data := [?q]\<rparr>)"
    "vi_inner (snd (vi_deliver ?q v)) = (vi_inner v)\<lparr>zv_queue := Some (bq\<lparr>q_data := [?q]\<rparr>)\<rparr>"
    using assms(8,9) by (simp_all add: vi_deliver_def split_beta server_deliver_def handle_def queue_push_eq)
  let ?v1 = "(snd (vi_deliver ?q v))\<lparr>vi_inner := (vi_inner v)\<lparr>zv_queue := Some (bq\<lparr>q_data := []\<rparr>),
     zv_map := (zv_map (vi_inner v))(?key \<mapsto> ?q)\<rparr>\<rparr>"
  let ?h = "\<lparr>sv_request_id = \<lparr>ri_writer_guid = zc_gid ?z, ri_sequence_number = ci_sequence_counter c\<rparr>,
     sv_source_timestamp = timestamp_of now, sv_received_timestamp = timestamp_of now'\<rparr>"
  have take: "rmw_take_request A TQ now' (Some (Some (snd (vi_deliver ?q v)))) (Some h) (Some old) (Some t) =
      (RMW_RET_OK, Some ?h, Some x, Some True, Some (Some ?v1))"
    using type_support_laws.message_bytes_exact [OF assms(1,4)]
    by (simp add: rmw_take_request_def vi_take_request_def queue queue_try_recv_eq att key time)
  let ?rep = "\<lparr>rp_query = ?q, rp_key_expr = zv_key_expr (vi_inner v), rp_payload = ts_serialize_message TR y,
     rp_attachment = attachment_to_bytes A (attachment_new now'' (qk_sn ?key) (qk_gid ?key))\<rparr>"
  let ?v2 = "?v1\<lparr>vi_inner := (vi_inner ?v1)\<lparr>zv_map := ((zv_map (vi_inner v))(?key \<mapsto> ?q))(?key := None)\<rparr>\<rparr>"
  have resp: "rmw_send_response A TR now'' (Some (Some ?v1)) (Some (sv_request_id ?h)) (Some y) =
      (Ok (RMW_RET_OK, Some ?rep), Some (Some ?v2))"
    by (simp add: rmw_send_response_def vi_send_response_def send_response_def ros_serialize_ok)
  have "ts_deserialize TR (rp_payload ?rep) old' = (True, y)"
    using type_support_laws.message_bytes_exact [OF assms(2,5)] by simp
  moreover have "attachment_try_from A (rp_attachment ?rep) =
      Some (attachment_new now'' (ci_sequence_counter c) (zc_gid ?z))"
    using att_env_laws.attachment_read_back [OF assms(3), of "attachment_new now'' (qk_sn ?key) (qk_gid ?key)"] assms(7)
    by (simp add: attachment_new_def)
  ultimately show ?thesis
    by (intro exI [of _ ?q] exI [of _ ?c'] exI [of _ ?h] exI [of _ ?v1] exI [of _ ?rep] exI [of _ ?v2])
      (intro conjI send agree take resp, simp_all)
qed

definition sample_ci :: "(unit, unit) ClientImpl" where
  "sample_ci = \<lparr>ci_inner = sample_client, ci_service_name = ''/add'', ci_qos = sample_rmw_qos,
     ci_callback = data_callback_new, ci_sequence_counter = 1, ci_entity = zp_entity (sample_pub 0)\<rparr>"

definition sample_vi :: "(unit, unit) ServiceImpl" where
  "sample_vi = \<lparr>vi_inner = sample_server [], vi_service_name = ''/add'', vi_qos = sample_rmw_qos,
     vi_callback = data_callback_new, vi_entity = zp_entity (sample_pub 0)\<rparr>"

theorem rmw_call_keeps_identity_witness:
  "\<exists>q c' header v1 rep v2.
    rmw_send_request_c sample_att_env sample_ts None (Some (Some sample_ci)) (Some 20) (Some 0) =
      (Ok (RMW_RET_OK, Some 1, Some q), Some (Some c')) \<and>
    rmw_take_request sample_att_env sample_ts None (Some (Some (snd (vi_deliver q sample_vi))))
        (Some \<lparr>sv_request_id = \<lparr>ri_writer_guid = [], ri_sequence_number = 0\<rparr>, sv_source_timestamp = 0,
           sv_received_timestamp = 0\<rparr>) (Some 0) (Some False) =
      (RMW_RET_OK, Some header, Some 20, Some True, Some (Some v1)) \<and>
    rmw_send_response sample_att_env sample_ts None (Some (Some v1)) (Some (sv_request_id header)) (Some 21) =
      (Ok (RMW_RET_OK, Some rep), Some (Some v2)) \<and>
    rp_query rep = q \<and>
    attachment_try_from sample_att_env (rp_attachment rep) = Some (attachment_new None 1 (zc_gid sample_client)) \<and>
    ts_deserialize sample_ts (rp_payload rep) 0 = (True, 21)"
proof -
  have c: "counters_agree sample_ci" "length (zc_gid (ci_inner sample_ci)) = 16" "ci_sequence_counter sample_ci = 1"
    "ci_inner sample_ci = sample_client"
    by (simp_all add: counters_agree_def sample_ci_def sample_client_def)
  have v: "zv_queue (vi_inner sample_vi) = Some \<lparr>q_data = [], q_capacity = 10\<rparr>"
    by (simp add: sample_vi_def sample_server_def)
  from rmw_call_keeps_identity [OF sts.type_support_laws_axioms sts.type_support_laws_axioms sae.att_env_laws_axioms
      TrueI TrueI c(1,2) v, where x = 20 and y = 21 and now = None and now' = None and now'' = None and i = 0
      and h = "\<lparr>sv_request_id = \<lparr>ri_writer_guid = [], ri_sequence_number = 0\<rparr>, sv_source_timestamp = 0, sv_received_timestamp = 0\<rparr>"
      and old = 0 and t = False and old' = 0]
  show ?thesis unfolding c(3,4) by (simp, blast)
qed

section \<open>Callbacks\<close>

text \<open>
  What happens to the callback of a subscription, in the order of the locks: a message arrives, or
  \<^verbatim>\<open>rmw_subscription_set_on_new_message_callback\<close> does one of its two parts.
\<close>

datatype 'f sub_event = Arrives | SetsUserData u64 | SetsCallback "'f option" u64

fun sub_step :: "'f sub_event \<Rightarrow> 'f calls \<times> 'f data_callback \<Rightarrow> 'f calls \<times> 'f data_callback" where
  "sub_step Arrives (calls, d) = (case on_new_data d of (c, d') \<Rightarrow> (calls @ c, d'))"
| "sub_step (SetsUserData u) (calls, d) = (calls, sub_store_user_data u d)"
| "sub_step (SetsCallback f u) (calls, d) = (case sub_store_callback f u d of (c, d') \<Rightarrow> (calls @ c, d'))"

abbreviation run_sub_steps :: "'f sub_event list \<Rightarrow> 'f calls \<times> 'f data_callback" where
  "run_sub_steps steps \<equiv> fold sub_step steps ([], data_callback_new)"

definition told :: "'f calls \<Rightarrow> u64" where
  "told calls = sum_list (map (\<lambda>(f, u, n). n) calls)"

lemma told_simps [simp]: "told [] = 0" "told (a @ b) = told a + told b" "told [(f, u, n)] = n"
  by (simp_all add: told_def)

lemma sub_step_accounting:
  assumes "dc_callback (snd st) \<noteq> None \<longrightarrow> dc_unread (snd st) = 0"
  shows "told (fst (sub_step e st)) + dc_unread (snd (sub_step e st)) =
      told (fst st) + dc_unread (snd st) + (if e = Arrives then 1 else 0) \<and>
    (dc_callback (snd (sub_step e st)) \<noteq> None \<longrightarrow> dc_unread (snd (sub_step e st)) = 0)"
  using assms
  by (cases st; cases e)
    (auto simp: on_new_data_def sub_store_user_data_def sub_store_callback_def word_gt_0 split: option.splits)

lemma run_sub_accounting:
  assumes "dc_callback (snd st) \<noteq> None \<longrightarrow> dc_unread (snd st) = 0"
  shows "told (fst (fold sub_step steps st)) + dc_unread (snd (fold sub_step steps st)) =
      told (fst st) + dc_unread (snd st) + of_nat (count_list steps Arrives) \<and>
    (dc_callback (snd (fold sub_step steps st)) \<noteq> None \<longrightarrow> dc_unread (snd (fold sub_step steps st)) = 0)"
  using assms
proof (induction steps arbitrary: st)
  case (Cons e steps)
  note step = sub_step_accounting [OF Cons.prems, of e]
  from Cons.IH [OF conjunct2 [OF step]] step show ?case by (auto simp: algebra_simps)
qed simp

text \<open>
  C23.  No message is kept from the callbacks of a subscription: whatever happens in whatever order, the
  numbers that callbacks have been told and the number of unread messages add up to the messages
  that have arrived, modulo \<open>2 ^ 64\<close>, and while a callback is set, nothing is unread.
\<close>

theorem subscription_callbacks_told:
  fixes steps :: "'f sub_event list"
  shows "told (fst (run_sub_steps steps)) + dc_unread (snd (run_sub_steps steps)) = of_nat (count_list steps Arrives) \<and>
    (dc_callback (snd (run_sub_steps steps)) = None \<or>
      dc_unread (snd (run_sub_steps steps)) = 0 \<and> told (fst (run_sub_steps steps)) = of_nat (count_list steps Arrives))"
  using run_sub_accounting [of "([], data_callback_new :: 'f data_callback)" steps]
  by (auto simp: data_callback_new_def)

text \<open>
  A message that arrives between the two parts is reported to the old callback with the user data of the
  new one.
\<close>

theorem old_callback_gets_new_user_data:
  "fst (run_sub_steps [SetsUserData 1, SetsCallback (Some f) 1, SetsUserData 2, Arrives, SetsCallback (Some g) 2]) =
     [(f, 2, 1)]"
  by (simp add: on_new_data_def sub_store_user_data_def sub_store_callback_def data_callback_new_def)

text \<open>
  The callback of a service or client is set in three steps under three locks.  A request that arrives
  after the first of them counts as unread while a callback is set, and is never reported by the
  arrivals that follow.
\<close>

theorem service_callback_misses_request:
  assumes "srv_report_unread f u data_callback_new = (c1, d1)" and "on_new_data d1 = (c2, d2)"
    and "d3 = srv_store_user_data u (srv_store_callback (Some f) d2)"
  shows "c1 @ c2 = [] \<and> dc_callback d3 = Some f \<and> dc_unread d3 = 1 \<and> on_new_data d3 = ([(f, u, 1)], d3)"
  using assms
  by (auto simp: srv_report_unread_def on_new_data_def srv_store_callback_def srv_store_user_data_def data_callback_new_def)

section \<open>Where the interface loses information\<close>

text \<open>
  A message that the type support cannot serialize is published all the same, as an empty payload, and
  one that it cannot read counts as taken.
\<close>

theorem unserializable_message_published:
  assumes "shm_env_laws Zb E" and "zp_shm_config (pi_inner p) = None"
    and "\<not> fst (ts_serialize TS m (replicate (max (ts_serialized_size TS m + 256) 512) 0))"
  shows "\<exists>sample p'. rmw_publish Zb E TS estimate now (Some (Some p)) (Some m) = (Ok (RMW_RET_OK, Some sample), Some (Some p')) \<and>
    zb_contiguous Zb (put_payload sample) = []"
proof -
  have "ts_serialize_message TS m = []"
    using assms(3) by (simp add: ts_serialize_message_def split_beta)
  then have z: "publish_payload Zb (RosSerdes E TS) estimate None m = Ok (se_from_vec E (vec_of []), 0)"
    "zb_contiguous Zb (se_from_vec E (vec_of [])) = []"
    by (simp_all add: publish_payload_def RosSerdes_def ros_to_zbuf_def shm_env_laws.from_vec_bytes [OF assms(1)])
  obtain att p' where "put_builder now (se_from_vec E (vec_of [])) (pi_inner p) =
      (Ok \<lparr>put_key_expr = zp_key_expr (pi_inner p), put_payload = se_from_vec E (vec_of []), put_attachment = att\<rparr>, p')"
    using put_builder_spec [of now "se_from_vec E (vec_of [])" "pi_inner p"] by blast
  with z assms(2) show ?thesis by (simp add: rmw_publish_def publish_def)
qed

text \<open>When a matched endpoint disappears, the callback of the event is told of \<open>2 ^ 64 - 1\<close> events.\<close>

theorem event_callback_count_wraps:
  assumes "events_wf mgr" and "event_callbacks mgr ! event_id t = Some (Some f, u)"
  shows "concat (map event_calls (fst (update_event_status t (- 1) mgr))) = [(f, u, 2 ^ 64 - 1)]"
  using assms by (simp add: update_event_status_def update_event_status_with_policy_def Let_def event_calls_def as_usize_def)

text \<open>
  Two threads that send through one client can each return the number of the other's request: the
  numbers are taken in one order and the requests sent in the other.
\<close>

theorem concurrent_requests_swap_numbers:
  fixes c :: "('i, 'f) ClientImpl"
  assumes "counters_agree c" and "ci_take_number c = (n1, c1)" and "ci_take_number c1 = (n2, c2)"
  shows "\<exists>q1 q2 c3 c4. ci_send_numbered A TS now x n2 c2 = (Ok (n2, q2), c3) \<and>
    ci_send_numbered A TS now y n1 c3 = (Ok (n1, q1), c4) \<and>
    qu_attachment q2 = Some (attachment_to_bytes A (attachment_new now n1 (zc_gid (ci_inner c)))) \<and>
    qu_attachment q1 = Some (attachment_to_bytes A (attachment_new now n2 (zc_gid (ci_inner c)))) \<and> n1 \<noteq> n2"
proof -
  have c: "n1 = zc_sn (ci_inner c)" "n2 = n1 + 1" "ci_inner c2 = ci_inner c"
    using assms by (auto simp: ci_take_number_def counters_agree_def)
  have s: "ci_send_numbered A TS now m n d = (Ok (n, \<lparr>qu_key_expr = zc_key_expr (ci_inner d),
      qu_payload = Some (ts_serialize_message TS m),
      qu_attachment = Some (attachment_to_bytes A (attachment_new now (zc_sn (ci_inner d)) (zc_gid (ci_inner d))))\<rparr>),
      d\<lparr>ci_inner := (ci_inner d)\<lparr>zc_sn := zc_sn (ci_inner d) + 1\<rparr>\<rparr>)" for m n and d :: "('i, 'f) ClientImpl"
    by (simp add: ci_send_numbered_def rmw_send_request_def client_attachment_def ros_serialize_ok)
  show ?thesis by (intro exI conjI) (rule s, rule s, simp_all add: c)
qed

end
