(* ===== verification/Spec2Isabelle.thy ===== *)
theory Spec2Isabelle
  imports Dyn_Size Dyn_Registry Codec_Interop Action_Driver Topic_Name Bounded_Queue Graph_Properties
    Msg_Roundtrip Resolver_Properties TypeDesc_Roundtrip RosZ_Qos Type_Discovery Action_Client_Properties Action_Endpoints
    Rmw_Properties
begin

text \<open>
  \<^bold>\<open>A verification development for ros-z.\<close>

  ros-z is a native Rust implementation of ROS 2 communication on top of the Zenoh network
  protocol.  Messages travel as CDR, the binary encoding of DDS; nodes offer topics, services and
  actions; a message can be handled through a Rust type generated from its definition or
  dynamically, through a schema that is known at run time only.  A discovery graph tells every node
  what the others offer, and a C library puts ros-z under the ROS client libraries.  The development
  covers the library from the bytes of a message to the endpoints that an application uses; what the
  network does between two of them is a parameter.

  \<^bold>\<open>Parts and theories.\<close>
  \<^item> \<open>RosZ_Prelude\<close>, \<open>RosZ_Strings\<close>, \<open>RosZ_Text\<close>, \<open>RosZ_Collections\<close>: results that are a value, an
    error or a panic; computations that thread a state; the functions of the Rust standard library
    on text, numbers, paths and maps that the code uses.
  \<^item> \<open>Cdr_Buffer\<close>, \<open>Cdr_Codec\<close>, \<open>Cdr_Primitives\<close>, \<open>Cdr_Serde\<close>, \<open>Cdr_Roundtrip\<close>: the crate
    \<^verbatim>\<open>crates/ros-z-cdr\<close>.  The trait \<^verbatim>\<open>CdrBuffer\<close> is a record of operations whose contract is the
    locale \<open>cdr_buffer\<close>, interpreted for \<^verbatim>\<open>Vec<u8>\<close> with its capacity and for the fragmented
    \<^verbatim>\<open>ZBufWriter\<close>; \<^verbatim>\<open>CdrWriter\<close> and \<^verbatim>\<open>CdrReader\<close> are records of the buffer or input and a
    position, their methods state-threading computations.  The serializer and the deserializer
    are driven by the tree of serde calls that a type makes.  An abstract encoding
    (\<open>cdr_encode\<close>, from a stream position to bytes) is the specification that the serializer
    refines over every buffer and the deserializer inverts.
  \<^item> \<open>Dyn_Schema\<close>, \<open>Dyn_Message\<close>, \<open>Dyn_Cdr\<close>, \<open>Dyn_Size\<close>, \<open>Dyn_Registry\<close>, \<open>Dyn_TypeDesc\<close>,
    \<open>TypeDesc_Roundtrip\<close>: the directory \<^verbatim>\<open>crates/ros-z/src/dynamic\<close>.  Schemas, values and messages
    are mutually recursive datatypes with the source's constructors; field access, the builders, the
    schema-driven codec, the size prediction, the registry and the conversion of schemas to type
    descriptions and back are one definition per function.  \<open>Codec_Interop\<close> relates the schema-driven
    codec to the static one.
  \<^item> \<open>Msg_Serdes\<close>: \<^verbatim>\<open>msg.rs\<close>, \<^verbatim>\<open>shm.rs\<close> and \<^verbatim>\<open>dynamic/serdes.rs\<close> of \<^verbatim>\<open>crates/ros-z/src\<close>.  The traits
    \<^verbatim>\<open>ZSerializer\<close> and \<^verbatim>\<open>ZDeserializer\<close> are a record and a function; the locale \<open>serdes\<close> is what
    publishers and subscribers rely on, interpreted for static, dynamic and C messages.
  \<^item> \<open>RosZ_Qos\<close>, \<open>Attachments\<close>, \<open>PubSub\<close>, \<open>PubSub_Properties\<close>, \<open>Services\<close>, \<open>Service_Properties\<close>:
    \<^verbatim>\<open>qos.rs\<close>, \<^verbatim>\<open>attachment.rs\<close>, \<^verbatim>\<open>common.rs\<close>, \<^verbatim>\<open>pubsub.rs\<close> and \<^verbatim>\<open>service.rs\<close> of the same directory: the
    builders, publishing through memory or shared memory, the queue behind a subscription, the ways
    to receive, requests, replies and the table of pending queries.
  \<^item> \<open>Type_Service\<close>, \<open>Type_Discovery\<close>: the service through which a node tells the schemas of its
    publishers, and the client that asks it.
  \<^item> \<open>Nodes\<close>, \<open>Node_Properties\<close>, \<open>Zenoh_Config\<close>: contexts, nodes and the endpoints they create
    (\<^verbatim>\<open>context.rs\<close>, \<^verbatim>\<open>node.rs\<close>), and the configuration of routers and sessions (\<^verbatim>\<open>config.rs\<close>).
  \<^item> \<open>Action_State\<close>, \<open>Action_Server\<close>, \<open>Action_Driver\<close>, \<open>Action_Client\<close>, \<open>Action_Client_Properties\<close>,
    \<open>Action_Endpoints\<close>: the directory \<^verbatim>\<open>crates/ros-z/src/action\<close>.  The goal table, the cancel flags
    and the result channels form the server's state; every handle operation and request handler is a
    computation on it; the driver loop with the tasks that it spawns is a step relation over numbered
    tasks, in which clients choose goal ids freely and may use them again, and so is the client with
    its board of goals, its waiting calls and its handles.
  \<^item> \<open>Proto_Entity\<close>, \<open>Proto_Format\<close>, \<open>Proto_Roundtrip\<close>: the crate \<^verbatim>\<open>crates/ros-z-protocol\<close>:
    entities, QoS profiles and type hashes in their textual forms, the topic keys and liveliness
    tokens of the rmw_zenoh and ros2dds formats and the parsers of tokens.
  \<^item> \<open>Topic_Name\<close>, \<open>Bounded_Queue\<close>: \<^verbatim>\<open>topic_name.rs\<close> and \<^verbatim>\<open>queue.rs\<close> of \<^verbatim>\<open>crates/ros-z/src\<close>.
  \<^item> \<open>Graph_Events\<close>, \<open>Graph_Data\<close>, \<open>Graph_Ops\<close>, \<open>Graph_Refinement\<close>, \<open>Graph_Properties\<close>: the discovery
    graph, \<^verbatim>\<open>event.rs\<close>, \<^verbatim>\<open>entity.rs\<close> and \<^verbatim>\<open>graph.rs\<close> of \<^verbatim>\<open>crates/ros-z/src\<close>.  Reference counts are
    explicit: a reference is an address, a weak one upgrades while the count is positive.  The
    abstract specification is the map from the tokens that are present to their entities.
  \<^item> \<open>Msg_Types\<close>, \<open>Msg_Parser\<close>, \<open>Msg_Roundtrip\<close>: types and parser of \<^verbatim>\<open>crates/ros-z-codegen\<close>.
  \<^item> \<open>Type_Id\<close>, \<open>Type_Desc\<close>: the crate \<^verbatim>\<open>crates/ros-z-schema\<close>; \<open>Type_Hashing\<close>, \<open>Msg_Resolver\<close>,
    \<open>Resolver_Properties\<close>: \<^verbatim>\<open>hashing.rs\<close> and \<^verbatim>\<open>resolver.rs\<close> of \<^verbatim>\<open>crates/ros-z-codegen/src\<close>, type
    descriptions, their hashes and the resolution of definitions by their dependencies.
  \<^item> \<open>Rmw_Qos\<close>, \<open>Rmw_Endpoints\<close>, \<open>Rmw_Wait\<close>, \<open>Rmw_Properties\<close>: the crate \<^verbatim>\<open>crates/rmw-zenoh-rs\<close>, the
    ROS middleware interface.  A pointer argument is an option, a handle has one more for the data
    behind it, and a C function returns its code together with what it leaves behind its pointers.

  \<^bold>\<open>What the lemmas show.\<close>  Static CDR: round trip, rejection of every truncation, absence of
  panics when reading, and the equality of the ways to write.  Dynamic messages: the laws of
  field access, the round trip and truncation results for the schema-driven codec, exactness of
  the size prediction where it is exact, the refinement of the static codec, and what is left of a
  schema after the way through its description.  Topics and services: messages arrive unchanged, in order and numbered
  consecutively, the newest first to survive; a call is answered with its own identity and once; a
  subscriber that knows only a topic gets the publisher's schema and then its messages.  Actions: the
  invariant of all reachable states, with the consequences that the
  status of a goal whose id is requested once moves along the goal state machine (and that the
  status of a goal whose id is used again does not), that no waiting result request is lost, and which
  handler a cancel request reaches; on the client's side that feedback
  reaches the handle of its goal and which goals stay on the board.  Protocol: round trips of tokens,
  and when two endpoints share a key.  Graph: after every history of tokens in any spelling the graph
  holds the entities of the tokens that are present, and its queries answer from them; the one
  condition is that the session does not remove an entity that is also present under a second spelling
  of its token.  Definitions: the parser inverts
  printing, up to its own limits, the resolver ends, resolves up to 101 acyclic definitions in any order and keeps its
  table closed, type ids classify types, the hashed text determines the description.  Middleware
  interface: a wait reports what is ready and nothing else, when it ends, what conversions of QoS
  profiles keep, messages and calls from one C function to the other, and the accounting of
  callbacks.  Where the
  code does something its own documentation or a ROS definition does not intend, a theorem states
  what it does.

  \<^bold>\<open>Conventions.\<close>  Machine integers are words of their width; floating-point numbers are their bit
  patterns; a Rust string is its UTF-8 bytes where the bytes matter and a \<open>string\<close> of its bytes
  where it is a name.  A vector's capacity is a number, growth beyond what was asked for is not
  modelled.  Instants and durations are natural numbers.  Text formatted into error messages is
  kept as its arguments.  Hash maps are maps; where results depend on the order in which a hash
  table is iterated, this order is a parameter with the law \<open>iteration_order\<close>.  A recursion that
  does not end exhausts the stack and counts as a panic.  Callbacks are names, and an operation
  returns the calls that it makes.  An operation that waits is told what it finds when it is woken,
  or is split into the parts before and after the wait; operations under one lock are atomic, and
  concurrent use is any sequence of them.

  \<^bold>\<open>Parameters.\<close>  Code outside the repository is a parameter: Zenoh's \<^verbatim>\<open>ZBuf\<close> (\<open>zbuf_ops\<close>, with the
  laws of locale \<open>zbuf_laws\<close>), its shared memory (\<open>shm_env\<close>, \<open>shm_env_laws\<close>), its key expressions and
  session ids (\<open>zenoh_ops\<close>, \<open>zenoh_laws\<close>), the declarations that a session accepts (\<open>session_ops\<close>), its
  configuration (\<open>config_ops\<close>) and the serializer of attachments (\<open>att_env\<close>, \<open>att_env_laws\<close>);
  the byte order of the crate \<^verbatim>\<open>byteorder\<close> (\<open>byte_order\<close>, \<open>byte_order_laws\<close>), the \<^verbatim>\<open>Slab\<close> of its
  crate (\<open>slab_ops\<close>, \<open>slab_laws\<close>), JSON, SHA-256 and hexadecimal digits (\<open>hash_env\<close>,
  \<open>hash_env_laws\<close>), the type support of C messages together with the C++ functions around it in
  \<^verbatim>\<open>serde_bridge.cc\<close> (\<open>type_support\<close>, \<open>type_support_laws\<close>), the environment and the clock, the resolver passed to the schema conversion, the files that can be
  read, and the answers that other nodes give during discovery.  The
  laws are shown to be satisfiable by interpretations.

  \<^bold>\<open>Bounds.\<close>  No definition uses fuel: the visitor loops of the deserializer run once per element
  that the length prefix announces; the resolver's loop is bounded by its own limit of 10000 rounds;
  the loop of a wait runs once per wake-up that is given to it;
  the two collections of references are partial functions, which are proved to end; all
  other loops are structural.

  \<^bold>\<open>Not modelled.\<close>  What happens inside a Zenoh session, the locality filter of subscriptions among
  it; the task switch of \<^verbatim>\<open>with_handler\<close> in the action server; the protobuf serializer, an optional
  feature on a third-party crate; of the middleware interface the allocation of C structures around
  contexts, nodes and lists of names, and the taking of responses, which needs the attachments of
  replies that the model of clients leaves out.  The generators that print Rust, Python and protobuf source text,
  the derive macros, the Python bindings, the console, the generated message crate and the tests are
  text, glue or user interface around these parts and are left out as a whole.
\<close>

end
